(* ===== verification/Js_Prelude.thy ===== *)
theory Js_Prelude
  imports Complex_Main
begin

text \<open>
  The prelude of the development: the fragment of JavaScript and of the Prisma client that the
  LabourBaba backend uses everywhere, and the interfaces (locales) the components share.

  \<^item> strings: \<^verbatim>\<open>toUpperCase\<close>, \<^verbatim>\<open>toLowerCase\<close>, \<^verbatim>\<open>trim\<close>, \<^verbatim>\<open>includes\<close>, \<^verbatim>\<open>startsWith\<close>
    and the truthiness of optional strings. Strings are lists of \<open>char\<close>; case mapping and
    white space are those of ASCII, the alphabet of every identifier, status and role.
  \<^item> tables: a PostgreSQL table is a list of rows; \<open>findFirst\<close>, \<open>findUnique\<close>, \<open>countWhere\<close>,
    \<open>updateMany\<close> and \<open>deleteMany\<close> are the client calls of the same names.
  \<^item> transactions: the body of a \<^verbatim>\<open>prisma.$transaction\<close> either throws (nothing is written) or
    returns a value and the new database; \<open>run_tx\<close> commits or rolls back.
  \<^item> locales: \<open>keyed_update\<close> (a table whose writes keep the primary key), \<open>lifecycle\<close> and
    \<open>ranked_lifecycle\<close> (a transition table with terminal states), \<open>invariant_system\<close>
    (operations that keep an invariant).
\<close>

section \<open>Collections of facts\<close>

named_theorems js_simps \<open>unfolding rules of the JavaScript string and truthiness helpers\<close>
named_theorems table_simps \<open>how table reads see table writes\<close>
named_theorems policy_simps \<open>definitions of the authorization policies\<close>

section \<open>Strings and truthiness\<close>

type_synonym uuid = string
type_synonym timestamp = int

definition upper_char :: "char \<Rightarrow> char" where
  "upper_char c = (let n = (of_char c :: nat) in if 97 \<le> n \<and> n \<le> 122 then char_of (n - 32) else c)"

definition lower_char :: "char \<Rightarrow> char" where
  "lower_char c = (let n = (of_char c :: nat) in if 65 \<le> n \<and> n \<le> 90 then char_of (n + 32) else c)"

definition toUpperCase :: "string \<Rightarrow> string" where
  "toUpperCase s = map upper_char s"

definition toLowerCase :: "string \<Rightarrow> string" where
  "toLowerCase s = map lower_char s"

definition is_space :: "char \<Rightarrow> bool" where
  "is_space c = (let n = (of_char c :: nat) in n = 32 \<or> (9 \<le> n \<and> n \<le> 13))"

definition trim :: "string \<Rightarrow> string" where
  "trim s = rev (dropWhile is_space (rev (dropWhile is_space s)))"

fun startsWith :: "string \<Rightarrow> string \<Rightarrow> bool" where
  "startsWith s [] = True"
| "startsWith [] (p # ps) = False"
| "startsWith (c # cs) (p # ps) = (c = p \<and> startsWith cs ps)"

fun js_includes :: "string \<Rightarrow> string \<Rightarrow> bool" where
  "js_includes [] p = (p = [])"
| "js_includes (c # cs) p = (startsWith (c # cs) p \<or> js_includes cs p)"

text \<open>An optional string is truthy when it is present and not empty.\<close>

fun truthy :: "string option \<Rightarrow> bool" where
  "truthy None = False"
| "truthy (Some s) = (s \<noteq> [])"

text \<open>The JavaScript expression \<^verbatim>\<open>a || b\<close> on an optional string.\<close>

definition js_or :: "string option \<Rightarrow> string \<Rightarrow> string" where
  "js_or a b = (if truthy a then the a else b)"

text \<open>A value between single quotes in a template string.\<close>

definition squote :: "string \<Rightarrow> string" where
  "squote s = CHR 0x27 # s @ [CHR 0x27]"

lemma startsWith_iff: "startsWith s p \<longleftrightarrow> (\<exists>t. s = p @ t)"
  by (induction s p rule: startsWith.induct) auto

lemma includes_iff: "js_includes s p \<longleftrightarrow> (\<exists>a b. s = a @ p @ b)"
proof (induction s)
  case Nil
  then show ?case by auto
next
  case (Cons c cs)
  show ?case
  proof
    assume "js_includes (c # cs) p"
    then consider t where "c # cs = p @ t" | a b where "cs = a @ p @ b"
      using Cons.IH by (auto simp: startsWith_iff)
    then show "\<exists>a b. c # cs = a @ p @ b"
    proof cases
      case 1
      then have "c # cs = [] @ p @ t" by simp
      then show ?thesis by blast
    next
      case 2
      then have "c # cs = (c # a) @ p @ b" by simp
      then show ?thesis by blast
    qed
  next
    assume "\<exists>a b. c # cs = a @ p @ b"
    then obtain a b where ab: "c # cs = a @ p @ b" by blast
    show "js_includes (c # cs) p"
    proof (cases a)
      case Nil
      with ab have "startsWith (c # cs) p" by (simp add: startsWith_iff)
      then show ?thesis by simp
    next
      case (Cons a0 as)
      with ab have "cs = as @ p @ b" by simp
      with Cons.IH show ?thesis by auto
    qed
  qed
qed

lemma truthy_iff: "truthy x \<longleftrightarrow> (\<exists>s. x = Some s \<and> s \<noteq> [])"
  by (cases x) auto

lemma trim_Nil [simp]: "trim [] = []"
  by (simp add: trim_def)

lemma trim_idem: "trim (trim s) = trim s"
proof -
  define u where "u = dropWhile is_space s"
  define w where "w = dropWhile is_space (rev u)"
  have hd_u: "u = [] \<or> \<not> is_space (hd u)"
    unfolding u_def using hd_dropWhile by blast
  obtain z where z: "rev u = z @ w"
    unfolding w_def by (metis takeWhile_dropWhile_id)
  then have u_split: "u = rev w @ rev z"
    by (metis rev_append rev_rev_ident)
  have drop_w: "dropWhile is_space w = w"
    unfolding w_def by simp
  have "dropWhile is_space (rev w) = rev w"
  proof (cases "rev w = []")
    case True
    then show ?thesis by simp
  next
    case False
    then have "hd u = hd (rev w)" using u_split by simp
    with False hd_u u_split have "\<not> is_space (hd (rev w))" by auto
    with False show ?thesis by (cases "rev w") auto
  qed
  then show ?thesis
    unfolding trim_def u_def [symmetric] w_def [symmetric] using drop_w by simp
qed

section \<open>Tables\<close>

definition findFirst :: "('r \<Rightarrow> bool) \<Rightarrow> 'r list \<Rightarrow> 'r option" where
  "findFirst P t = List.find P t"

definition findUnique :: "('r \<Rightarrow> 'k) \<Rightarrow> 'k \<Rightarrow> 'r list \<Rightarrow> 'r option" where
  "findUnique key k t = List.find (\<lambda>r. key r = k) t"

definition countWhere :: "('r \<Rightarrow> bool) \<Rightarrow> 'r list \<Rightarrow> nat" where
  "countWhere P t = length (filter P t)"

definition updateMany :: "('r \<Rightarrow> bool) \<Rightarrow> ('r \<Rightarrow> 'r) \<Rightarrow> 'r list \<Rightarrow> 'r list" where
  "updateMany P f t = map (\<lambda>r. if P r then f r else r) t"

definition deleteMany :: "('r \<Rightarrow> bool) \<Rightarrow> 'r list \<Rightarrow> 'r list" where
  "deleteMany P t = filter (\<lambda>r. \<not> P r) t"

lemma findFirst_Some [dest]:
  "findFirst P t = Some r \<Longrightarrow> r \<in> set t \<and> P r"
  by (auto simp: findFirst_def find_Some_iff)

lemma findFirst_None [table_simps]:
  "findFirst P t = None \<longleftrightarrow> (\<forall>r \<in> set t. \<not> P r)"
  by (auto simp: findFirst_def find_None_iff)

lemma findUnique_Some:
  "findUnique key k t = Some r \<Longrightarrow> r \<in> set t \<and> key r = k"
  by (auto simp: findUnique_def find_Some_iff)

lemma findUnique_None [table_simps]:
  "findUnique key k t = None \<longleftrightarrow> (\<forall>r \<in> set t. key r \<noteq> k)"
  by (auto simp: findUnique_def find_None_iff)

lemma find_distinct_key:
  "distinct (map key t) \<Longrightarrow> r \<in> set t \<Longrightarrow> List.find (\<lambda>x. key x = key r) t = Some r"
  by (induction t) auto

lemma findUnique_distinct:
  "distinct (map key t) \<Longrightarrow> r \<in> set t \<Longrightarrow> findUnique key (key r) t = Some r"
  by (simp add: findUnique_def find_distinct_key)

lemma key_unique:
  "distinct (map key t) \<Longrightarrow> a \<in> set t \<Longrightarrow> b \<in> set t \<Longrightarrow> key a = key b \<Longrightarrow> a = b"
  by (auto simp: distinct_map inj_on_def)

lemma list_ex_key: "list_ex (\<lambda>r. key r = k) t \<longleftrightarrow> k \<in> set (map key t)"
  by (induction t) auto

lemma length_updateMany [simp]: "length (updateMany P f t) = length t"
  by (simp add: updateMany_def)

lemma set_updateMany:
  "set (updateMany P f t) = (\<lambda>r. if P r then f r else r) ` set t"
  by (simp add: updateMany_def)

lemma updateMany_memD:
  "r \<in> set (updateMany P f t) \<Longrightarrow> \<exists>r0 \<in> set t. r = (if P r0 then f r0 else r0)"
  by (auto simp: updateMany_def)

lemma updateMany_none: "\<forall>r \<in> set t. \<not> P r \<Longrightarrow> updateMany P f t = t"
  by (induction t) (auto simp: updateMany_def)

lemma countWhere_zero [table_simps]:
  "countWhere P t = 0 \<longleftrightarrow> (\<forall>r \<in> set t. \<not> P r)"
  by (auto simp: countWhere_def filter_empty_conv)

lemma countWhere_append [simp]: "countWhere P (t @ u) = countWhere P t + countWhere P u"
  by (simp add: countWhere_def)

lemma countWhere_Cons [simp]:
  "countWhere P (r # t) = (if P r then Suc (countWhere P t) else countWhere P t)"
  by (simp add: countWhere_def)

lemma countWhere_Nil [simp]: "countWhere P [] = 0"
  by (simp add: countWhere_def)

lemma countWhere_updateMany_same:
  "(\<And>r. r \<in> set t \<Longrightarrow> P r \<Longrightarrow> Q (f r) = Q r) \<Longrightarrow>
   countWhere Q (updateMany P f t) = countWhere Q t"
  by (induction t) (auto simp: updateMany_def)

lemma findFirst_updateMany:
  "(\<And>r. P (f r) = P r) \<Longrightarrow>
   findFirst P (updateMany Q f t) = map_option (\<lambda>r. if Q r then f r else r) (findFirst P t)"
  by (induction t) (auto simp: findFirst_def updateMany_def)

section \<open>Transactions\<close>

text \<open>
  The body of a transaction: an error (an exception that aborts it) or a result and the database
  it would commit. \<open>run_tx\<close> is \<^verbatim>\<open>prisma.$transaction\<close>: the exception is re-thrown and the
  database is the one from before; otherwise the writes become visible at once.
\<close>

definition run_tx :: "('s \<Rightarrow> 'e + ('a \<times> 's)) \<Rightarrow> 's \<Rightarrow> ('e + 'a) \<times> 's" where
  "run_tx m s = (case m s of Inl e \<Rightarrow> (Inl e, s) | Inr (a, s') \<Rightarrow> (Inr a, s'))"

lemma run_tx_Inl [simp]: "m s = Inl e \<Longrightarrow> run_tx m s = (Inl e, s)"
  by (simp add: run_tx_def)

lemma run_tx_Inr [simp]: "m s = Inr (a, s') \<Longrightarrow> run_tx m s = (Inr a, s')"
  by (simp add: run_tx_def)

lemma run_tx_cases:
  obtains (throws) e where "m s = Inl e" "run_tx m s = (Inl e, s)"
    | (commits) a s' where "m s = Inr (a, s')" "run_tx m s = (Inr a, s')"
  by (cases "m s") auto

lemma run_tx_preserves:
  assumes "I s" and "\<And>a s'. m s = Inr (a, s') \<Longrightarrow> I s'"
  shows "I (snd (run_tx m s))"
  using assms by (cases m s rule: run_tx_cases) auto

section \<open>Interfaces\<close>

subsection \<open>Tables whose writes keep the primary key\<close>

locale keyed_update =
  fixes key :: "'r \<Rightarrow> 'k"
    and upd :: "'d \<Rightarrow> 'r \<Rightarrow> 'r"
  assumes key_upd: "key (upd d r) = key r"
begin

lemma map_key_updateMany: "map key (updateMany P (upd d) t) = map key t"
  by (induction t) (auto simp: updateMany_def key_upd)

lemma distinct_updateMany:
  "distinct (map key t) \<Longrightarrow> distinct (map key (updateMany P (upd d) t))"
  by (simp only: map_key_updateMany)

lemma findUnique_updateMany:
  "findUnique key k (updateMany P (upd d) t) =
   map_option (\<lambda>r. if P r then upd d r else r) (findUnique key k t)"
  by (induction t) (auto simp: findUnique_def updateMany_def key_upd)

lemma findUnique_update_same:
  "findUnique key k t = Some r \<Longrightarrow>
   findUnique key k (updateMany (\<lambda>x. key x = k) (upd d) t) = Some (upd d r)"
  using findUnique_Some [of key k t r] by (simp add: findUnique_updateMany)

lemma findUnique_update_other:
  assumes "k' \<noteq> k"
  shows "findUnique key k' (updateMany (\<lambda>x. key x = k) (upd d) t) = findUnique key k' t"
proof (cases "findUnique key k' t")
  case None
  then show ?thesis by (simp add: findUnique_updateMany)
next
  case (Some r)
  with findUnique_Some [OF Some] assms show ?thesis by (simp add: findUnique_updateMany)
qed

end

subsection \<open>Lifecycles\<close>

text \<open>
  A lifecycle is a step relation labelled by actions together with the states the code calls
  terminal. Inside the locale: a run is a list of actions, and no run leaves a terminal state.
\<close>

locale lifecycle =
  fixes step :: "'s \<Rightarrow> 'a \<Rightarrow> 's \<Rightarrow> bool"
    and terminal :: "'s \<Rightarrow> bool"
  assumes terminal_stuck: "terminal s \<Longrightarrow> \<not> step s a t"
begin

fun run :: "'s \<Rightarrow> 'a list \<Rightarrow> 's \<Rightarrow> bool" where
  "run s [] t = (s = t)"
| "run s (a # as) t = (\<exists>u. step s a u \<and> run u as t)"

lemma terminal_run: "terminal s \<Longrightarrow> run s as t \<Longrightarrow> as = [] \<and> t = s"
  by (cases as) (auto dest: terminal_stuck)

lemma run_append: "run s (as @ bs) t \<longleftrightarrow> (\<exists>u. run s as u \<and> run u bs t)"
  by (induction as arbitrary: s) auto

end

text \<open>A lifecycle whose every step lowers a rank is finite: no run is longer than the rank.\<close>

locale ranked_lifecycle = lifecycle step terminal
  for step :: "'s \<Rightarrow> 'a \<Rightarrow> 's \<Rightarrow> bool" and terminal :: "'s \<Rightarrow> bool" +
  fixes rank :: "'s \<Rightarrow> nat"
  assumes step_rank: "step s a t \<Longrightarrow> rank t < rank s"
begin

lemma run_bound: "run s as t \<Longrightarrow> length as + rank t \<le> rank s"
proof (induction as arbitrary: s)
  case Nil
  then show ?case by simp
next
  case (Cons a as)
  then obtain u where "step s a u" and "run u as t" by auto
  with Cons.IH [of u] step_rank [of s a u] show ?case by simp
qed

lemma no_cycle: "run s as s \<Longrightarrow> as = []"
  using run_bound by fastforce

end

subsection \<open>Systems with an invariant\<close>

text \<open>
  A set of operations on a state, each labelled, with an invariant every operation keeps: the
  invariant then holds after every sequence of operations.
\<close>

locale invariant_system =
  fixes exec :: "'l \<Rightarrow> 's \<Rightarrow> 's"
    and inv :: "'s \<Rightarrow> bool"
  assumes exec_inv: "inv s \<Longrightarrow> inv (exec l s)"
begin

lemma fold_inv: "inv s \<Longrightarrow> inv (fold exec ls s)"
  by (induction ls arbitrary: s) (auto intro: exec_inv)

end

end
