(* ===== verification/Schema.thy ===== *)
theory Schema
  imports Js_Prelude
begin

text \<open>
  The data model: one record per table of \<^verbatim>\<open>prisma/schema.prisma\<close> that the modelled services
  read or write, the database as the record of its tables, the actors of
  \<^verbatim>\<open>src/type/userRole.ts\<close>, and the errors the services throw with their HTTP status.

  Every record keeps the columns that some modelled operation reads or writes. Field names carry
  a two-letter prefix because Isabelle's record fields are global. A nullable column is an
  option, a \<^verbatim>\<open>Date\<close> is its time in milliseconds, a \<^verbatim>\<open>status\<close> column is the raw string.
\<close>

section \<open>Roles and actors\<close>

datatype UserRole = CUSTOMER | WORKER | ADMIN

fun user_role_str :: "UserRole \<Rightarrow> string" where
  "user_role_str CUSTOMER = ''customer''"
| "user_role_str WORKER = ''worker''"
| "user_role_str ADMIN = ''admin''"

definition isValidUserRole :: "string \<Rightarrow> bool" where
  "isValidUserRole r = (r \<in> set (map user_role_str [CUSTOMER, WORKER, ADMIN]))"

record AuthenticatedUser =
  au_id :: uuid
  au_role :: UserRole

text \<open>The role of an actor of a state machine: a user role or one of the internal roles.\<close>

datatype actor_role = User UserRole | SYSTEM | DISPATCH_WORKER

fun actor_role_str :: "actor_role \<Rightarrow> string" where
  "actor_role_str (User r) = user_role_str r"
| "actor_role_str SYSTEM = ''SYSTEM''"
| "actor_role_str DISPATCH_WORKER = ''DISPATCH_WORKER''"

record transition_actor =
  ac_id :: "uuid option"
  ac_role :: actor_role

text \<open>\<^verbatim>\<open>actor.id || String(actor.role)\<close>, the identity stamped on a row.\<close>

definition actor_stamp :: "transition_actor \<Rightarrow> string" where
  "actor_stamp a = js_or (ac_id a) (actor_role_str (ac_role a))"

definition user_actor :: "uuid \<Rightarrow> UserRole \<Rightarrow> transition_actor" where
  "user_actor i r = \<lparr>ac_id = Some i, ac_role = User r\<rparr>"

definition system_actor :: transition_actor where
  "system_actor = \<lparr>ac_id = None, ac_role = SYSTEM\<rparr>"

lemma user_role_str_inj [simp]: "user_role_str a = user_role_str b \<longleftrightarrow> a = b"
  by (cases a; cases b) auto

lemma user_role_str_internal [simp]:
  "user_role_str r \<noteq> ''SYSTEM''" "user_role_str r \<noteq> ''DISPATCH_WORKER''"
  by (cases r; simp)+

lemma actor_role_str_inj [simp]: "actor_role_str a = actor_role_str b \<longleftrightarrow> a = b"
  by (cases a; cases b) (auto simp del: user_role_str.simps dest: sym)

lemma actor_role_exhaust [case_names customer worker admin system dispatch]:
  assumes "r = User CUSTOMER \<Longrightarrow> P" and "r = User WORKER \<Longrightarrow> P" and "r = User ADMIN \<Longrightarrow> P"
    and "r = SYSTEM \<Longrightarrow> P" and "r = DISPATCH_WORKER \<Longrightarrow> P"
  shows P
  using assms by (metis UserRole.exhaust actor_role.exhaust)

section \<open>Tables\<close>

datatype js_number = Finite rat | NaN | Infinity | NegInfinity

text \<open>\<^verbatim>\<open>Number.isInteger\<close>, the integer value of a finite number, and an integer as a number.\<close>

fun js_isInteger :: "js_number \<Rightarrow> bool" where
  "js_isInteger (Finite q) = (q = of_int \<lfloor>q\<rfloor>)"
| "js_isInteger _ = False"

fun js_int :: "js_number \<Rightarrow> int" where
  "js_int (Finite q) = \<lfloor>q\<rfloor>"
| "js_int _ = 0"

definition num_of_int :: "int \<Rightarrow> js_number" where
  "num_of_int i = Finite (of_int i)"

lemma num_of_int_simps [simp]: "js_isInteger (num_of_int i)" "js_int (num_of_int i) = i"
  by (simp_all add: num_of_int_def)

datatype json = JStr string | JInt int | JNum js_number | JNull | JBool bool | JArr "json list" | JObj "(string \<times> json) list"

type_synonym json_object = "(string \<times> json) list"

record job =
  jb_id :: uuid
  jb_customer_id :: uuid
  jb_latitude :: "js_number option"
  jb_longitude :: "js_number option"
  jb_status :: string
  jb_dispatch_status :: string
  jb_updated_at :: timestamp
  jb_cancelled_at :: "timestamp option"
  jb_cancelled_by :: "string option"
  jb_completed_at :: "timestamp option"

record job_requirement =
  rq_id :: uuid
  rq_job_id :: uuid
  rq_skill_id :: "uuid option"
  rq_skill_type :: "string option"
  rq_needed :: int
  rq_filled :: int
  rq_rate_per_day :: "int option"
  rq_status :: string
  rq_updated_at :: timestamp

record booking =
  bk_id :: uuid
  bk_job_id :: uuid
  bk_requirement_id :: uuid
  bk_worker_id :: uuid
  bk_customer_id :: uuid
  bk_status :: string
  bk_otp_hash :: "string option"
  bk_otp_verified :: bool
  bk_otp_expires_at :: "timestamp option"
  bk_otp_attempts :: "int option"
  bk_otp_locked_at :: "timestamp option"
  bk_otp_consumed_at :: "timestamp option"
  bk_verified_at :: "timestamp option"
  bk_verified_by :: "string option"
  bk_started_at :: "timestamp option"
  bk_completion_requested_at :: "timestamp option"
  bk_completed_at :: "timestamp option"
  bk_cancelled_at :: "timestamp option"
  bk_cancelled_by :: "string option"
  bk_cancellation_reason :: "string option"
  bk_confirmed_at :: "timestamp option"
  bk_confirmed_by :: "string option"
  bk_updated_at :: timestamp

text \<open>The rows of \<^verbatim>\<open>job_transition\<close> and of \<^verbatim>\<open>booking_transition\<close> have the same columns.\<close>

record transition_row =
  tr_entity_id :: uuid
  tr_from :: string
  tr_to :: string
  tr_action :: string
  tr_actor_type :: string
  tr_actor_id :: "string option"
  tr_reason :: "string option"

record job_dispatch =
  dp_requirement_id :: uuid
  dp_worker_id :: uuid
  dp_wave_number :: "int option"
  dp_wave_position :: "int option"
  dp_status :: string
  dp_notified_at :: "timestamp option"
  dp_expires_at :: "timestamp option"
  dp_responded_at :: "timestamp option"

record dispatch_wave =
  wv_id :: uuid
  wv_operation_id :: "string option"
  wv_requirement_id :: uuid
  wv_wave_number :: int
  wv_status :: string
  wv_notified_at :: "timestamp option"
  wv_resolved_at :: "timestamp option"
  wv_workers_notified :: "int option"

record notification_outbox =
  ob_id :: uuid
  ob_event_type :: string
  ob_aggregate_type :: string
  ob_aggregate_id :: uuid
  ob_aggregate_version :: int
  ob_recipient_type :: string
  ob_recipient_id :: uuid
  ob_payload :: json_object
  ob_status :: string
  ob_socket_status :: string
  ob_socket_sent_at :: "timestamp option"
  ob_socket_error :: "string option"
  ob_fcm_status :: string
  ob_fcm_sent_at :: "timestamp option"
  ob_fcm_error :: "string option"
  ob_attempts :: int
  ob_max_attempts :: int
  ob_available_at :: timestamp
  ob_processed_at :: "timestamp option"
  ob_failed_at :: "timestamp option"
  ob_last_error :: "string option"
  ob_idempotency_key :: "string option"
  ob_acknowledged_at :: "timestamp option"
  ob_acknowledged_by :: "string option"
  ob_created_at :: timestamp
  ob_updated_at :: timestamp

record notification_delivery =
  nd_event_id :: uuid
  nd_recipient_id :: uuid
  nd_channel :: string
  nd_status :: string
  nd_attempt_count :: int
  nd_last_error :: "string option"
  nd_delivered_at :: "timestamp option"

record review =
  rv_booking_id :: uuid
  rv_worker_id :: uuid
  rv_customer_id :: uuid
  rv_rating :: "rat option"
  rv_comment :: "string option"

record worker =
  wk_id :: uuid
  wk_phone :: string
  wk_verification_status :: string
  wk_deleted_at :: "timestamp option"
  wk_decline_count :: "int option"
  wk_name :: string
  wk_is_online :: "bool option"
  wk_location_geo :: "string option"
  wk_last_location_at :: "timestamp option"
  wk_skill_category_id :: uuid
  wk_worker_score :: "rat option"
  wk_skill_type :: string
  wk_timeout_count :: "int option"
  wk_password :: string
  wk_aadhaar_last4 :: "string option"

record customer =
  cu_id :: uuid
  cu_phone :: string
  cu_deleted_at :: "timestamp option"

record payment =
  py_id :: uuid
  py_booking_id :: uuid
  py_order_id :: "string option"
  py_payment_id :: "string option"
  py_refund_id :: "string option"
  py_status :: "string option"
  py_amount :: "int option"
  py_currency :: string
  py_refund_amount :: "int option"
  py_refund_status :: "string option"
  py_refund_reason :: "string option"
  py_quarantine_reason :: "string option"
  py_idempotency_key :: "string option"
  py_created_at :: timestamp
  py_updated_at :: timestamp

record webhook_event =
  we_provider :: string
  we_event_id :: string
  we_event_type :: string
  we_status :: string
  we_failure_reason :: "string option"
  we_processed_at :: "timestamp option"

record refresh_session =
  se_id :: uuid
  se_user_id :: uuid
  se_user_role :: string
  se_token_hash :: string
  se_family_id :: uuid
  se_device_id :: "string option"
  se_user_agent :: "string option"
  se_ip_address :: "string option"
  se_status :: string
  se_created_at :: timestamp
  se_expires_at :: timestamp
  se_last_used_at :: "timestamp option"
  se_rotated_at :: "timestamp option"
  se_rotated_to_id :: "uuid option"
  se_revoked_at :: "timestamp option"
  se_revoked_reason :: "string option"

record otp_challenge =
  oc_id :: uuid
  oc_phone :: string
  oc_purpose :: string
  oc_otp_hash :: string
  oc_expires_at :: timestamp
  oc_attempt_count :: int
  oc_status :: string
  oc_consumed_at :: "timestamp option"
  oc_created_at :: timestamp

record conversation =
  cv_id :: uuid
  cv_booking_id :: uuid
  cv_worker_id :: uuid
  cv_customer_id :: uuid

record message =
  ms_id :: uuid
  ms_conversation_id :: uuid
  ms_sender_id :: uuid
  ms_content :: string
  ms_sent_at :: timestamp

record skill_category =
  sc_id :: uuid
  sc_name :: string
  sc_is_active :: "bool option"

record worker_document =
  wd_id :: uuid
  wd_worker_id :: uuid
  wd_document_type :: "string option"
  wd_file_url :: "string option"
  wd_status :: string

text \<open>The rows of \<^verbatim>\<open>worker_device\<close> and of \<^verbatim>\<open>customer_device\<close> have the same columns.\<close>

record device =
  dv_owner_id :: uuid
  dv_device_id :: string
  dv_fcm_token :: string
  dv_platform :: string
  dv_last_seen_at :: timestamp
  dv_revoked_at :: "timestamp option"

record worker_location =
  wl_id :: uuid
  wl_worker_id :: uuid
  wl_location_geo :: "string option"
  wl_updated_at :: "timestamp option"

record audit_log =
  al_actor_id :: string
  al_actor_role :: string
  al_action :: string
  al_target_type :: string
  al_target_id :: string
  al_reason :: "string option"
  al_metadata :: "json option"
  al_created_at :: timestamp

record db =
  jobs :: "job list"
  requirements :: "job_requirement list"
  bookings :: "booking list"
  dispatches :: "job_dispatch list"
  waves :: "dispatch_wave list"
  outbox :: "notification_outbox list"
  deliveries :: "notification_delivery list"
  job_log :: "transition_row list"
  booking_log :: "transition_row list"
  reviews :: "review list"
  workers :: "worker list"
  customers :: "customer list"
  payments :: "payment list"
  webhooks :: "webhook_event list"
  sessions :: "refresh_session list"
  otp_challenges :: "otp_challenge list"
  conversations :: "conversation list"
  messages :: "message list"
  skill_categories :: "skill_category list"
  worker_skills :: "(uuid \<times> uuid) list"
  requirement_skills :: "(uuid \<times> uuid) list"
  worker_documents :: "worker_document list"
  worker_devices :: "device list"
  customer_devices :: "device list"
  worker_locations :: "worker_location list"
  audit_logs :: "audit_log list"

definition empty_db :: db where
  "empty_db = \<lparr>jobs = [], requirements = [], bookings = [], dispatches = [], waves = [],
     outbox = [], deliveries = [], job_log = [], booking_log = [], reviews = [], workers = [],
     customers = [], payments = [], webhooks = [], sessions = [], otp_challenges = [],
     conversations = [], messages = [], skill_categories = [], worker_skills = [],
     requirement_skills = [], worker_documents = [], worker_devices = [], customer_devices = [],
     worker_locations = [], audit_logs = []\<rparr>"

text \<open>
  The rows of one entity in a transition log, oldest first, and what it means that they chain
  up from one status to another: each row leaves the status the row before it entered.
\<close>

definition history_of :: "uuid \<Rightarrow> transition_row list \<Rightarrow> transition_row list" where
  "history_of i l = filter (\<lambda>r. tr_entity_id r = i) l"

fun chain :: "string \<Rightarrow> transition_row list \<Rightarrow> string \<Rightarrow> bool" where
  "chain s [] t = (s = t)"
| "chain s (r # rs) t = (tr_from r = s \<and> chain (tr_to r) rs t)"

lemma history_of_append [simp]: "history_of i (l @ k) = history_of i l @ history_of i k"
  by (simp add: history_of_def)

lemma history_of_single [simp]:
  "history_of i [r] = (if tr_entity_id r = i then [r] else [])"
  by (simp add: history_of_def)

lemma chain_append: "chain s (rs @ qs) t \<longleftrightarrow> (\<exists>u. chain s rs u \<and> chain u qs t)"
  by (induction rs arbitrary: s) auto

text \<open>
  A table with a status column whose updates are logged: if the history of every row leads to its
  status, it still does after the update of one row together with the matching log row.
\<close>

locale audit_trail = keyed_update key upd
  for key :: "'r \<Rightarrow> uuid" and upd :: "'d \<Rightarrow> 'r \<Rightarrow> 'r" +
  fixes status :: "'r \<Rightarrow> string" and target :: "'d \<Rightarrow> string"
  assumes status_upd: "status (upd u r) = target u"
begin

lemma chain_update:
  assumes "\<forall>r \<in> set t. chain s0 (history_of (key r) l) (status r)"
    and "\<forall>r \<in> set t. P r = (key r = tr_entity_id row)"
    and "\<forall>r \<in> set t. key r = tr_entity_id row \<longrightarrow> status r = tr_from row"
    and "tr_to row = target u"
    and "r' \<in> set (updateMany P (upd u) t)"
  shows "chain s0 (history_of (key r') (l @ [row])) (status r')"
proof -
  from assms(5) obtain r where r: "r \<in> set t" "r' = (if P r then upd u r else r)"
    by (auto simp: set_updateMany)
  with assms(1-4) show ?thesis
    by (cases "key r = tr_entity_id row") (auto simp: key_upd status_upd chain_append)
qed

end

section \<open>Errors\<close>

text \<open>
  The exceptions of the services. Message texts are left out: the constructor is the class (or,
  for the classes with a free code, the class and its code), and the arguments are the fields the
  callers read. \<open>statusCode\<close> is the HTTP status each class carries.
\<close>

datatype error =
    AuthorizationError int string
  | JobNotFoundError
  | JobInvalidTransitionError string string
  | JobStateConflictError
  | JobAuthorizationError
  | RequirementNotFoundError
  | RequirementInvalidTransitionError string string
  | RequirementCapacityExceededError
  | RequirementInvalidWorkerCountError
  | RequirementAuthorizationError
  | BookingNotFoundError
  | BookingInvalidTransitionError string string
  | BookingStateConflictError
  | BookingAuthorizationError
  | BookingOtpInvalidError
  | BookingOtpExpiredError
  | BookingOtpLockedError
  | BookingOtpAlreadyConsumedError
  | BookingOtpWrongStateError
  | DispatchAcceptanceError string int
  | PaymentError string int
  | ReviewError string int
  | CodedError string
  | PlainError string
  | StatusError int string
  | PrismaUniqueViolation string
  | PrismaRecordNotFound
  | PrismaConflict
  | CheckViolation
  | JsTypeError
  | ProviderError int

fun statusCode :: "error \<Rightarrow> int option" where
  "statusCode (AuthorizationError s _) = Some s"
| "statusCode JobNotFoundError = Some 404"
| "statusCode (JobInvalidTransitionError _ _) = Some 400"
| "statusCode JobStateConflictError = Some 409"
| "statusCode JobAuthorizationError = Some 403"
| "statusCode RequirementNotFoundError = Some 404"
| "statusCode (RequirementInvalidTransitionError _ _) = Some 400"
| "statusCode RequirementCapacityExceededError = Some 409"
| "statusCode RequirementInvalidWorkerCountError = Some 400"
| "statusCode RequirementAuthorizationError = Some 403"
| "statusCode BookingNotFoundError = Some 404"
| "statusCode (BookingInvalidTransitionError _ _) = Some 400"
| "statusCode BookingStateConflictError = Some 409"
| "statusCode BookingAuthorizationError = Some 403"
| "statusCode BookingOtpInvalidError = Some 400"
| "statusCode BookingOtpExpiredError = Some 400"
| "statusCode BookingOtpLockedError = Some 400"
| "statusCode BookingOtpAlreadyConsumedError = Some 409"
| "statusCode BookingOtpWrongStateError = Some 400"
| "statusCode (DispatchAcceptanceError _ s) = Some s"
| "statusCode (PaymentError _ s) = Some s"
| "statusCode (ReviewError _ s) = Some s"
| "statusCode (StatusError s _) = Some s"
| "statusCode (ProviderError s) = Some s"
| "statusCode _ = None"

end
