(* ===== verification/Job_Machine.thy ===== *)
theory Job_Machine
  imports Schema
begin

text \<open>
  The job state machine, \<^verbatim>\<open>src/features/jobs/jobStateMachine.ts\<close>: the statuses and actions, the
  transition table, \<^verbatim>\<open>canTransition\<close> and the transactional \<^verbatim>\<open>transition\<close> with its compare-and-set
  write and its audit row. The row lock and the fall-backs of \<^verbatim>\<open>transition\<close> all read the one row
  with the given primary key, so they are one lookup by id.
\<close>

section \<open>Statuses, actions and the transition table\<close>

datatype JobStatus = OPEN | DISPATCHING | BOOKED | IN_PROGRESS | COMPLETED | CANCELLED

datatype JobAction =
  CREATE | START_DISPATCH | MARK_BOOKED | REOPEN_DISPATCH | START_WORK | COMPLETE | CANCEL

fun job_status_str :: "JobStatus \<Rightarrow> string" where
  "job_status_str OPEN = ''OPEN''"
| "job_status_str DISPATCHING = ''DISPATCHING''"
| "job_status_str BOOKED = ''BOOKED''"
| "job_status_str IN_PROGRESS = ''IN_PROGRESS''"
| "job_status_str COMPLETED = ''COMPLETED''"
| "job_status_str CANCELLED = ''CANCELLED''"

fun job_action_str :: "JobAction \<Rightarrow> string" where
  "job_action_str CREATE = ''CREATE''"
| "job_action_str START_DISPATCH = ''START_DISPATCH''"
| "job_action_str MARK_BOOKED = ''MARK_BOOKED''"
| "job_action_str REOPEN_DISPATCH = ''REOPEN_DISPATCH''"
| "job_action_str START_WORK = ''START_WORK''"
| "job_action_str COMPLETE = ''COMPLETE''"
| "job_action_str CANCEL = ''CANCEL''"

definition all_job_statuses :: "JobStatus list" where
  "all_job_statuses = [OPEN, DISPATCHING, BOOKED, IN_PROGRESS, COMPLETED, CANCELLED]"

text \<open>The key of the transition table that a raw string selects, if it is one of the table's keys.\<close>

definition job_status_of :: "string \<Rightarrow> JobStatus option" where
  "job_status_of s = List.find (\<lambda>st. job_status_str st = s) all_job_statuses"

record job_rule =
  jr_target :: JobStatus
  jr_roles :: "actor_role list"
  jr_ownership :: bool

definition mk_rule :: "JobStatus \<Rightarrow> actor_role list \<Rightarrow> bool \<Rightarrow> job_rule option" where
  "mk_rule t rs own = Some \<lparr>jr_target = t, jr_roles = rs, jr_ownership = own\<rparr>"

fun JOB_TRANSITION_TABLE :: "JobStatus \<Rightarrow> JobAction \<Rightarrow> job_rule option" where
  "JOB_TRANSITION_TABLE OPEN START_DISPATCH =
     mk_rule DISPATCHING [User ADMIN, SYSTEM, DISPATCH_WORKER] False"
| "JOB_TRANSITION_TABLE OPEN MARK_BOOKED =
     mk_rule BOOKED [User ADMIN, SYSTEM, DISPATCH_WORKER, User WORKER] False"
| "JOB_TRANSITION_TABLE OPEN CANCEL =
     mk_rule CANCELLED [User CUSTOMER, User ADMIN, SYSTEM] True"
| "JOB_TRANSITION_TABLE DISPATCHING MARK_BOOKED =
     mk_rule BOOKED [User ADMIN, SYSTEM, DISPATCH_WORKER, User WORKER] False"
| "JOB_TRANSITION_TABLE DISPATCHING START_WORK =
     mk_rule IN_PROGRESS [User ADMIN, SYSTEM, User WORKER] False"
| "JOB_TRANSITION_TABLE DISPATCHING CANCEL =
     mk_rule CANCELLED [User CUSTOMER, User ADMIN, SYSTEM] True"
| "JOB_TRANSITION_TABLE BOOKED START_WORK =
     mk_rule IN_PROGRESS [User ADMIN, SYSTEM, User WORKER] False"
| "JOB_TRANSITION_TABLE BOOKED REOPEN_DISPATCH =
     mk_rule DISPATCHING [User ADMIN, SYSTEM, DISPATCH_WORKER] False"
| "JOB_TRANSITION_TABLE BOOKED COMPLETE =
     mk_rule COMPLETED [User CUSTOMER, User ADMIN, SYSTEM] True"
| "JOB_TRANSITION_TABLE BOOKED CANCEL =
     mk_rule CANCELLED [User CUSTOMER, User ADMIN, SYSTEM] True"
| "JOB_TRANSITION_TABLE IN_PROGRESS REOPEN_DISPATCH =
     mk_rule DISPATCHING [User ADMIN, SYSTEM, DISPATCH_WORKER] False"
| "JOB_TRANSITION_TABLE IN_PROGRESS COMPLETE =
     mk_rule COMPLETED [User CUSTOMER, User ADMIN, SYSTEM] True"
| "JOB_TRANSITION_TABLE IN_PROGRESS CANCEL =
     mk_rule CANCELLED [User ADMIN, SYSTEM] False"
| "JOB_TRANSITION_TABLE _ _ = None"

definition TERMINAL_JOB_STATES :: "JobStatus list" where
  "TERMINAL_JOB_STATES = [COMPLETED, CANCELLED]"

definition job_isTerminal :: "string \<Rightarrow> bool" where
  "job_isTerminal s = (s \<in> set (map job_status_str TERMINAL_JOB_STATES))"

text \<open>The keys of one row of the table, in the order they are written there.\<close>

definition job_getLegalActions :: "string \<Rightarrow> JobAction list" where
  "job_getLegalActions s = (case job_status_of s of None \<Rightarrow> []
     | Some st \<Rightarrow> filter (\<lambda>a. JOB_TRANSITION_TABLE st a \<noteq> None)
         [START_DISPATCH, MARK_BOOKED, START_WORK, REOPEN_DISPATCH, COMPLETE, CANCEL])"

section \<open>canTransition\<close>

text \<open>The reasons of a refusal, and the text of each as the source writes it.\<close>

datatype job_reason =
    JobNotOwner
  | JobUnknownStatus string
  | JobActionNotAllowed JobAction string
  | JobRoleNotAuthorized actor_role JobAction

fun job_reason_text :: "job_reason \<Rightarrow> string" where
  "job_reason_text JobNotOwner = ''Forbidden: You do not own this job''"
| "job_reason_text (JobUnknownStatus s) = ''Unknown or unconfigured job status '' @ squote s"
| "job_reason_text (JobActionNotAllowed a s) =
     ''Action '' @ squote (job_action_str a) @ '' is not allowed when job is in status '' @ squote s"
| "job_reason_text (JobRoleNotAuthorized r a) =
     ''Actor role '' @ squote (actor_role_str r) @ '' is not authorized to execute '' @
     squote (job_action_str a)"

text \<open>\<open>None\<close> is \<^verbatim>\<open>{ allowed: true }\<close>.\<close>

definition job_canTransition ::
  "string \<Rightarrow> JobAction \<Rightarrow> transition_actor \<Rightarrow> string option \<Rightarrow> job_reason option" where
  "job_canTransition currentStatus action actor jobCustomerId =
     (if ac_role actor = User CUSTOMER \<and> truthy jobCustomerId \<and> truthy (ac_id actor)
         \<and> jobCustomerId \<noteq> ac_id actor
      then Some JobNotOwner
      else
        let normalizedStatus =
              (if currentStatus = ''POSTED'' \<or> currentStatus = '''' then ''OPEN'' else currentStatus)
        in case job_status_of normalizedStatus of
             None \<Rightarrow> Some (JobUnknownStatus currentStatus)
           | Some st \<Rightarrow>
               (case JOB_TRANSITION_TABLE st action of
                  None \<Rightarrow> Some (JobActionNotAllowed action normalizedStatus)
                | Some rule \<Rightarrow>
                    if ac_role actor \<notin> set (jr_roles rule)
                    then Some (JobRoleNotAuthorized (ac_role actor) action)
                    else None))"

section \<open>transition\<close>

record job_update =
  ju_status :: string
  ju_now :: timestamp
  ju_cancelled_by :: "string option"
  ju_completed :: bool

text \<open>\<^verbatim>\<open>updateData\<close> applied to the row.\<close>

definition apply_job_update :: "job_update \<Rightarrow> job \<Rightarrow> job" where
  "apply_job_update u j =
     (let j1 = j\<lparr>jb_status := ju_status u, jb_updated_at := ju_now u\<rparr>
      in case ju_cancelled_by u of
           Some by \<Rightarrow> j1\<lparr>jb_cancelled_at := Some (ju_now u), jb_cancelled_by := Some by\<rparr>
         | None \<Rightarrow> if ju_completed u then j1\<lparr>jb_completed_at := Some (ju_now u)\<rparr> else j1)"

definition job_update_data :: "JobStatus \<Rightarrow> JobAction \<Rightarrow> transition_actor \<Rightarrow> timestamp \<Rightarrow> job_update" where
  "job_update_data target action actor now =
     \<lparr>ju_status = job_status_str target, ju_now = now,
      ju_cancelled_by = (if action = CANCEL then Some (actor_stamp actor) else None),
      ju_completed = (action = COMPLETE)\<rparr>"

record job_transition_result =
  jt_job :: job
  jt_previous :: string
  jt_current :: JobStatus
  jt_action :: JobAction

definition job_log_row ::
  "uuid \<Rightarrow> string \<Rightarrow> JobStatus \<Rightarrow> JobAction \<Rightarrow> transition_actor \<Rightarrow> string option \<Rightarrow> transition_row" where
  "job_log_row jobId from target action actor reason =
     \<lparr>tr_entity_id = jobId, tr_from = from, tr_to = job_status_str target,
      tr_action = job_action_str action, tr_actor_type = actor_role_str (ac_role actor),
      tr_actor_id = (if truthy (ac_id actor) then ac_id actor else None),
      tr_reason = (if truthy reason then reason else None)\<rparr>"

definition job_transition ::
  "timestamp \<Rightarrow> uuid \<Rightarrow> JobAction \<Rightarrow> transition_actor \<Rightarrow> string option \<Rightarrow> JobStatus option \<Rightarrow> db
   \<Rightarrow> error + (job_transition_result \<times> db)" where
  "job_transition now jobId action actor reason expectedCurrentStatus d =
     (case findUnique jb_id jobId (jobs d) of
        None \<Rightarrow> Inl JobNotFoundError
      | Some lockedJob \<Rightarrow>
          let currentStatus = js_or (Some (jb_status lockedJob)) ''OPEN'' in
          if expectedCurrentStatus \<noteq> None
             \<and> currentStatus \<noteq> job_status_str (the expectedCurrentStatus)
          then Inl JobStateConflictError
          else case job_canTransition currentStatus action actor (Some (jb_customer_id lockedJob)) of
            Some reason' \<Rightarrow>
              if js_includes (job_reason_text reason') ''Forbidden''
                 \<or> js_includes (job_reason_text reason') ''not own''
              then Inl JobAuthorizationError
              else Inl (JobInvalidTransitionError currentStatus (job_action_str action))
          | None \<Rightarrow>
              (case Option.bind (job_status_of currentStatus) (\<lambda>st. JOB_TRANSITION_TABLE st action) of
                 None \<Rightarrow> Inl JsTypeError
               | Some rule \<Rightarrow>
                   let u = job_update_data (jr_target rule) action actor now;
                       hit = (\<lambda>j. jb_id j = jobId \<and> jb_status j = currentStatus)
                   in if countWhere hit (jobs d) = 0 then Inl JobStateConflictError
                      else
                        let jobs' = updateMany hit (apply_job_update u) (jobs d);
                            row = job_log_row jobId currentStatus (jr_target rule) action actor reason;
                            updated = (case findUnique jb_id jobId jobs' of
                                         Some j \<Rightarrow> j | None \<Rightarrow> apply_job_update u lockedJob)
                        in Inr (\<lparr>jt_job = updated, jt_previous = currentStatus,
                                 jt_current = jr_target rule, jt_action = action\<rparr>,
                                d\<lparr>jobs := jobs', job_log := job_log d @ [row]\<rparr>)))"

text \<open>The durable history of one job, oldest first.\<close>

definition job_getTransitionHistory :: "uuid \<Rightarrow> db \<Rightarrow> transition_row list" where
  "job_getTransitionHistory jobId d = history_of jobId (job_log d)"

section \<open>Lemmas\<close>

lemma job_status_of_str [simp]: "job_status_of (job_status_str st) = Some st"
  by (cases st) (simp_all add: job_status_of_def all_job_statuses_def)

lemma job_status_of_Some: "job_status_of s = Some st \<Longrightarrow> s = job_status_str st"
  by (auto simp: job_status_of_def find_Some_iff)

lemma job_status_str_inj [simp]: "job_status_str a = job_status_str b \<longleftrightarrow> a = b"
  by (metis job_status_of_str option.inject)

lemma job_status_str_ne [simp]: "job_status_str st \<noteq> []" "job_status_str st \<noteq> ''POSTED''"
  by (cases st; simp)+

lemma js_or_status [simp]: "js_or (Some (job_status_str st)) x = job_status_str st"
  by (simp add: js_or_def)

text \<open>
  The refusal texts are searched for the words of an ownership refusal; on every reason that
  \<^verbatim>\<open>canTransition\<close> can give for a status of the table, the search finds exactly \<open>JobNotOwner\<close>.
\<close>

lemma job_reason_forbidden:
  "js_includes (job_reason_text JobNotOwner) ''Forbidden''"
  "\<not> js_includes (job_reason_text (JobActionNotAllowed a (job_status_str st))) ''Forbidden''"
  "\<not> js_includes (job_reason_text (JobActionNotAllowed a (job_status_str st))) ''not own''"
  "\<not> js_includes (job_reason_text (JobRoleNotAuthorized r a)) ''Forbidden''"
  "\<not> js_includes (job_reason_text (JobRoleNotAuthorized r a)) ''not own''"
proof -
  show "js_includes (job_reason_text JobNotOwner) ''Forbidden''" by simp
  show "\<not> js_includes (job_reason_text (JobActionNotAllowed a (job_status_str st))) ''Forbidden''"
    by (cases a; cases st; simp add: squote_def)
  show "\<not> js_includes (job_reason_text (JobActionNotAllowed a (job_status_str st))) ''not own''"
    by (cases a; cases st; simp add: squote_def)
  show "\<not> js_includes (job_reason_text (JobRoleNotAuthorized r a)) ''Forbidden''"
    by (cases r rule: actor_role_exhaust; cases a; simp add: squote_def)
  show "\<not> js_includes (job_reason_text (JobRoleNotAuthorized r a)) ''not own''"
    by (cases r rule: actor_role_exhaust; cases a; simp add: squote_def)
qed

declare job_reason_text.simps [simp del]

lemma job_role_refused: "job_canTransition (job_status_str st) action actor cust =
  (if ac_role actor = User CUSTOMER \<and> truthy cust \<and> truthy (ac_id actor) \<and> cust \<noteq> ac_id actor
   then Some JobNotOwner
   else case JOB_TRANSITION_TABLE st action of
          None \<Rightarrow> Some (JobActionNotAllowed action (job_status_str st))
        | Some rule \<Rightarrow> if ac_role actor \<in> set (jr_roles rule) then None
                        else Some (JobRoleNotAuthorized (ac_role actor) action))"
  by (auto simp: job_canTransition_def Let_def split: option.splits)

text \<open>\<open>may_act\<close>: the actor passes the ownership check on the job.\<close>

definition owns_or_exempt :: "transition_actor \<Rightarrow> string \<Rightarrow> bool" where
  "owns_or_exempt actor cust \<longleftrightarrow>
     \<not> (ac_role actor = User CUSTOMER \<and> cust \<noteq> [] \<and> truthy (ac_id actor) \<and> ac_id actor \<noteq> Some cust)"

interpretation job_table: audit_trail jb_id apply_job_update jb_status ju_status
  by unfold_locales (auto simp: apply_job_update_def Let_def split: option.splits)

lemma apply_job_update_fields [simp]:
  "jb_status (apply_job_update u j) = ju_status u"
  "jb_customer_id (apply_job_update u j) = jb_customer_id j"
  "jb_dispatch_status (apply_job_update u j) = jb_dispatch_status j"
  by (auto simp: apply_job_update_def Let_def split: option.splits)

lemma job_update_data_status [simp]: "ju_status (job_update_data t a ac now) = job_status_str t"
  by (simp add: job_update_data_def)

text \<open>Everything a successful transition says about the database.\<close>

definition job_step_effect ::
  "timestamp \<Rightarrow> uuid \<Rightarrow> JobAction \<Rightarrow> transition_actor \<Rightarrow> string option \<Rightarrow> JobStatus \<Rightarrow> job_rule \<Rightarrow> db \<Rightarrow> db" where
  "job_step_effect now jobId action actor reason st rule d =
     d\<lparr>jobs := updateMany (\<lambda>j. jb_id j = jobId \<and> jb_status j = job_status_str st)
                 (apply_job_update (job_update_data (jr_target rule) action actor now)) (jobs d),
       job_log := job_log d @ [job_log_row jobId (job_status_str st) (jr_target rule) action actor reason]\<rparr>"

lemma job_transition_InrE:
  assumes "job_transition now jobId action actor reason expd d = Inr (res, d')"
  obtains j st rule where
    "findUnique jb_id jobId (jobs d) = Some j"
    "js_or (Some (jb_status j)) ''OPEN'' = job_status_str st"
    "JOB_TRANSITION_TABLE st action = Some rule"
    "ac_role actor \<in> set (jr_roles rule)"
    "owns_or_exempt actor (jb_customer_id j)"
    "expd = None \<or> expd = Some st"
    "d' = job_step_effect now jobId action actor reason st rule d"
    "jt_current res = jr_target rule" "jt_previous res = job_status_str st"
    "\<exists>j \<in> set (jobs d). jb_id j = jobId \<and> jb_status j = job_status_str st"
proof -
  from assms obtain j where j: "findUnique jb_id jobId (jobs d) = Some j"
    by (auto simp: job_transition_def split: option.splits)
  let ?c = "js_or (Some (jb_status j)) ''OPEN''"
  from assms j have can: "job_canTransition ?c action actor (Some (jb_customer_id j)) = None"
    by (auto simp: job_transition_def Let_def split: option.splits if_splits)
  from assms j can obtain st rule where st: "job_status_of ?c = Some st"
      and rule: "JOB_TRANSITION_TABLE st action = Some rule"
    by (auto simp: job_transition_def Let_def bind_eq_Some_conv split: option.splits if_splits)
  then have c: "?c = job_status_str st" by (simp add: job_status_of_Some)
  with can rule have role: "ac_role actor \<in> set (jr_roles rule)"
      and own: "owns_or_exempt actor (jb_customer_id j)"
    by (auto simp: job_role_refused owns_or_exempt_def split: if_splits)
  from assms j c have expd: "expd = None \<or> expd = Some st"
    by (cases expd) (auto simp: job_transition_def Let_def split: if_splits)
  from assms j can c rule have
      hit: "countWhere (\<lambda>j. jb_id j = jobId \<and> jb_status j = job_status_str st) (jobs d) \<noteq> 0"
    and d': "d' = job_step_effect now jobId action actor reason st rule d"
    and res: "jt_current res = jr_target rule" "jt_previous res = job_status_str st"
    by (auto simp: job_transition_def job_step_effect_def Let_def split: if_splits)
  from hit have "\<exists>j \<in> set (jobs d). jb_id j = jobId \<and> jb_status j = job_status_str st"
    by (simp add: table_simps)
  with that j c rule role own expd d' res show thesis by blast
qed

section \<open>Lifecycle\<close>

definition job_step :: "JobStatus \<Rightarrow> JobAction \<Rightarrow> JobStatus \<Rightarrow> bool" where
  "job_step s a t = (map_option jr_target (JOB_TRANSITION_TABLE s a) = Some t)"

interpretation job_cycle: lifecycle job_step "\<lambda>s. s \<in> set TERMINAL_JOB_STATES"
  by unfold_locales (auto simp: TERMINAL_JOB_STATES_def job_step_def)

text \<open>One call of the transactional operation, and a schedule of such calls.\<close>

record job_call =
  jc_now :: timestamp
  jc_job :: uuid
  jc_action :: JobAction
  jc_actor :: transition_actor
  jc_reason :: "string option"
  jc_expected :: "JobStatus option"

definition job_exec :: "job_call \<Rightarrow> db \<Rightarrow> db" where
  "job_exec c d = snd (run_tx (job_transition (jc_now c) (jc_job c) (jc_action c) (jc_actor c)
                                (jc_reason c) (jc_expected c)) d)"

text \<open>The jobs are keyed by id and the log of each replays from its creation to its status.\<close>

definition job_audited :: "db \<Rightarrow> bool" where
  "job_audited d \<longleftrightarrow> distinct (map jb_id (jobs d)) \<and>
     (\<forall>j \<in> set (jobs d). chain ''INITIAL'' (job_getTransitionHistory (jb_id j) d) (jb_status j))"

definition job_frozen :: "job \<Rightarrow> db \<Rightarrow> bool" where
  "job_frozen j d \<longleftrightarrow> distinct (map jb_id (jobs d)) \<and> j \<in> set (jobs d) \<and> job_isTerminal (jb_status j)"

lemma job_step_effect_audited:
  assumes "job_audited d" "\<exists>j \<in> set (jobs d). jb_id j = i \<and> jb_status j = job_status_str st"
  shows "job_audited (job_step_effect now i action actor reason st rule d)"
proof -
  from assms(1) have dist: "distinct (map jb_id (jobs d))" by (simp add: job_audited_def)
  have one: "jb_status j = job_status_str st" if "j \<in> set (jobs d)" "jb_id j = i" for j
    using assms(2) key_unique [OF dist that(1)] that(2) by metis
  let ?row = "job_log_row i (job_status_str st) (jr_target rule) action actor reason"
  have "chain ''INITIAL'' (history_of (jb_id j) (job_log d @ [?row])) (jb_status j)"
    if "j \<in> set (updateMany (\<lambda>j. jb_id j = i \<and> jb_status j = job_status_str st)
          (apply_job_update (job_update_data (jr_target rule) action actor now)) (jobs d))" for j
    by (rule job_table.chain_update [OF _ _ _ _ that])
      (use assms(1) one in \<open>auto simp: job_audited_def job_getTransitionHistory_def job_log_row_def\<close>)
  with dist show ?thesis
    by (simp add: job_audited_def job_getTransitionHistory_def job_step_effect_def
        job_table.distinct_updateMany del: history_of_append)
qed

interpretation job_audit: invariant_system job_exec job_audited
proof unfold_locales
  fix d c assume "job_audited d"
  then show "job_audited (job_exec c d)" unfolding job_exec_def
    by (rule run_tx_preserves) (auto elim!: job_transition_InrE intro: job_step_effect_audited \<open>job_audited d\<close>)
qed

lemma job_terminal_refuses:
  assumes "distinct (map jb_id (jobs d))" "j \<in> set (jobs d)" "job_isTerminal (jb_status j)"
  shows "\<not> (\<exists>res d'. job_transition now (jb_id j) action actor reason expd d = Inr (res, d'))"
proof
  assume "\<exists>res d'. job_transition now (jb_id j) action actor reason expd d = Inr (res, d')"
  then obtain res d' where "job_transition now (jb_id j) action actor reason expd d = Inr (res, d')"
    by blast
  then obtain j' st rule where j': "findUnique jb_id (jb_id j) (jobs d) = Some j'"
    and st: "js_or (Some (jb_status j')) ''OPEN'' = job_status_str st"
    and rule: "JOB_TRANSITION_TABLE st action = Some rule" by (rule job_transition_InrE)
  from j' assms(1,2) have "j' = j" by (simp add: findUnique_distinct)
  with st assms(3) have "st \<in> set TERMINAL_JOB_STATES"
    by (auto simp: job_isTerminal_def)
  with rule job_cycle.terminal_stuck [of st action "jr_target rule"] show False
    by (simp add: job_step_def)
qed

interpretation job_freeze: invariant_system job_exec "job_frozen j" for j
proof unfold_locales
  fix d c assume fr: "job_frozen j d"
  then show "job_frozen j (job_exec c d)" unfolding job_exec_def
  proof (rule run_tx_preserves)
    fix res d'
    assume t: "job_transition (jc_now c) (jc_job c) (jc_action c) (jc_actor c) (jc_reason c)
                 (jc_expected c) d = Inr (res, d')"
    with fr job_terminal_refuses [of d j] have "jc_job c \<noteq> jb_id j"
      by (auto simp: job_frozen_def)
    with t fr show "job_frozen j d'"
      by (auto elim!: job_transition_InrE simp: job_frozen_def job_step_effect_def
            job_table.distinct_updateMany set_updateMany image_iff)
  qed
qed

section \<open>Properties\<close>

text \<open>The states without legal actions are exactly the ones the code calls terminal.\<close>

lemma job_terminal_iff_no_action:
  "job_isTerminal (job_status_str st) \<longleftrightarrow> job_getLegalActions (job_status_str st) = []"
proof -
  have "job_getLegalActions (job_status_str st) = filter (\<lambda>a. JOB_TRANSITION_TABLE st a \<noteq> None)
          [START_DISPATCH, MARK_BOOKED, START_WORK, REOPEN_DISPATCH, COMPLETE, CANCEL]"
    by (simp add: job_getLegalActions_def)
  then show ?thesis
    by (cases st) (simp_all add: job_isTerminal_def TERMINAL_JOB_STATES_def mk_rule_def)
qed

lemma job_refusal_error:
  "job_canTransition (job_status_str st) action actor (Some cust) = Some r \<Longrightarrow>
   (js_includes (job_reason_text r) ''Forbidden'' \<or> js_includes (job_reason_text r) ''not own'')
     = (\<not> owns_or_exempt actor cust)"
  by (auto simp: job_role_refused owns_or_exempt_def job_reason_forbidden
        split: if_splits option.splits)

text \<open>
  The whole decision of \<^verbatim>\<open>JobStateService.transition\<close> on a job whose status is one of the
  enum: a wrong expected status is a 409 conflict; a customer who does not own the job gets 403;
  an action missing from the table for that status, or a role the rule does not list, gets 400;
  and otherwise the call succeeds, writes exactly the rule's target on that one job and appends
  exactly one audit row.
\<close>

theorem job_transition_decision:
  assumes "distinct (map jb_id (jobs d))" and "j \<in> set (jobs d)" and "jb_status j = job_status_str st"
  shows "run_tx (job_transition now (jb_id j) action actor reason expd) d =
    (if expd \<noteq> None \<and> expd \<noteq> Some st then (Inl JobStateConflictError, d)
     else if \<not> owns_or_exempt actor (jb_customer_id j) then (Inl JobAuthorizationError, d)
     else case JOB_TRANSITION_TABLE st action of
         None \<Rightarrow> (Inl (JobInvalidTransitionError (job_status_str st) (job_action_str action)), d)
       | Some rule \<Rightarrow>
           if ac_role actor \<notin> set (jr_roles rule)
           then (Inl (JobInvalidTransitionError (job_status_str st) (job_action_str action)), d)
           else (Inr \<lparr>jt_job = apply_job_update (job_update_data (jr_target rule) action actor now) j,
                      jt_previous = job_status_str st, jt_current = jr_target rule, jt_action = action\<rparr>,
                 job_step_effect now (jb_id j) action actor reason st rule d))"
proof -
  have fu: "findUnique jb_id (jb_id j) (jobs d) = Some j"
    using assms by (simp add: findUnique_distinct)
  have hit: "countWhere (\<lambda>i. jb_id i = jb_id j \<and> jb_status i = job_status_str st) (jobs d) \<noteq> 0"
    using assms by (auto simp: table_simps)
  show ?thesis
  proof (cases "job_canTransition (job_status_str st) action actor (Some (jb_customer_id j))")
    case None
    then obtain rule where r: "JOB_TRANSITION_TABLE st action = Some rule"
        "ac_role actor \<in> set (jr_roles rule)" "owns_or_exempt actor (jb_customer_id j)"
      by (auto simp: job_role_refused owns_or_exempt_def split: if_splits option.splits)
    with None fu hit assms(3) show ?thesis
      by (cases expd) (auto simp: run_tx_def job_transition_def Let_def job_step_effect_def
            job_table.findUnique_updateMany)
  next
    case (Some r)
    with job_refusal_error [OF Some] fu assms(3) show ?thesis
      by (cases expd) (auto simp: run_tx_def job_transition_def Let_def job_role_refused
            job_reason_forbidden split: if_splits option.splits)
  qed
qed

definition sample_job :: job where
  "sample_job = \<lparr>jb_id = ''j1'', jb_customer_id = ''c1'', jb_latitude = None, jb_longitude = None,
     jb_status = ''BOOKED'', jb_dispatch_status = ''IDLE'', jb_updated_at = 0, jb_cancelled_at = None,
     jb_cancelled_by = None, jb_completed_at = None\<rparr>"

theorem job_transition_decision_witness:
  "fst (run_tx (job_transition 5 ''j1'' CANCEL (user_actor ''c2'' CUSTOMER) None None)
          (empty_db\<lparr>jobs := [sample_job]\<rparr>)) = Inl JobAuthorizationError"
  using job_transition_decision [of "empty_db\<lparr>jobs := [sample_job]\<rparr>" sample_job BOOKED 5 CANCEL
      "user_actor ''c2'' CUSTOMER" None None]
  by (simp add: sample_job_def owns_or_exempt_def user_actor_def)

text \<open>
  COMPLETED and CANCELLED are final: once a job has a terminal status, no schedule of
  transition calls, by any actors and on any jobs, changes its row again.
\<close>

theorem job_terminal_forever:
  assumes "distinct (map jb_id (jobs d))" and "j \<in> set (jobs d)" and "job_isTerminal (jb_status j)"
  shows "j \<in> set (jobs (fold job_exec cs d))"
  using job_freeze.fold_inv [of j d cs] assms by (simp add: job_frozen_def)

theorem job_terminal_forever_witness:
  "sample_job\<lparr>jb_status := ''CANCELLED''\<rparr> \<in>
     set (jobs (fold job_exec [\<lparr>jc_now = 9, jc_job = ''j1'', jc_action = COMPLETE,
       jc_actor = system_actor, jc_reason = None, jc_expected = None\<rparr>]
       (empty_db\<lparr>jobs := [sample_job\<lparr>jb_status := ''CANCELLED''\<rparr>]\<rparr>)))"
  by (rule job_terminal_forever) (simp_all add: job_isTerminal_def TERMINAL_JOB_STATES_def)

text \<open>
  The audit log is complete and replayable: if the history of every job leads from
  \<^verbatim>\<open>INITIAL\<close> to its present status, it still does after any schedule of transition calls, the
  failing ones included; no status change escapes the log and no row is logged that did not
  happen.
\<close>

theorem job_audit_complete:
  assumes "job_audited d" and "j \<in> set (jobs (fold job_exec cs d))"
  shows "chain ''INITIAL'' (job_getTransitionHistory (jb_id j) (fold job_exec cs d)) (jb_status j)"
  using job_audit.fold_inv [OF assms(1)] assms(2) by (simp add: job_audited_def)

definition sample_job_db :: db where
  "sample_job_db = empty_db\<lparr>jobs := [sample_job\<lparr>jb_status := ''OPEN''\<rparr>],
     job_log := [\<lparr>tr_entity_id = ''j1'', tr_from = ''INITIAL'', tr_to = ''OPEN'', tr_action = ''CREATE'',
       tr_actor_type = ''customer'', tr_actor_id = Some ''c1'', tr_reason = None\<rparr>]\<rparr>"

theorem job_audit_complete_witness:
  "list_all (\<lambda>j. chain ''INITIAL'' (job_getTransitionHistory (jb_id j) (fold job_exec [\<lparr>jc_now = 9,
       jc_job = ''j1'', jc_action = START_DISPATCH, jc_actor = system_actor, jc_reason = None,
       jc_expected = None\<rparr>] sample_job_db)) (jb_status j))
     (jobs (fold job_exec [\<lparr>jc_now = 9, jc_job = ''j1'', jc_action = START_DISPATCH,
       jc_actor = system_actor, jc_reason = None, jc_expected = None\<rparr>] sample_job_db))"
proof -
  have "job_audited sample_job_db"
    by (simp add: job_audited_def sample_job_db_def sample_job_def job_getTransitionHistory_def
        history_of_def)
  from job_audit_complete [OF this] show ?thesis unfolding list_all_iff by blast
qed

end
