(* ===== verification/Requirement_Machine.thy ===== *)
theory Requirement_Machine
  imports Schema
begin

text \<open>
  The requirement state machine, \<^verbatim>\<open>src/features/jobs/requirementStateMachine.ts\<close>: the capacity of
  a requirement, its transition table, \<^verbatim>\<open>transition\<close>, \<^verbatim>\<open>reconcileCapacity\<close> (which recounts the
  active bookings) and \<^verbatim>\<open>updateDemand\<close>.
\<close>

section \<open>Capacity\<close>

datatype RequirementStatus =
  OPEN | DISPATCHING | PARTIALLY_FILLED | FILLED | NO_WORKERS_AVAILABLE | CANCELLED

datatype RequirementAction =
  CREATE | START_DISPATCH | RECORD_ACCEPTANCE | EXHAUST_DISPATCH | RELEASE_SLOT | CANCEL | UPDATE_DEMAND

fun req_status_str :: "RequirementStatus \<Rightarrow> string" where
  "req_status_str OPEN = ''OPEN''"
| "req_status_str DISPATCHING = ''DISPATCHING''"
| "req_status_str PARTIALLY_FILLED = ''PARTIALLY_FILLED''"
| "req_status_str FILLED = ''FILLED''"
| "req_status_str NO_WORKERS_AVAILABLE = ''NO_WORKERS_AVAILABLE''"
| "req_status_str CANCELLED = ''CANCELLED''"

fun req_action_str :: "RequirementAction \<Rightarrow> string" where
  "req_action_str CREATE = ''CREATE''"
| "req_action_str START_DISPATCH = ''START_DISPATCH''"
| "req_action_str RECORD_ACCEPTANCE = ''RECORD_ACCEPTANCE''"
| "req_action_str EXHAUST_DISPATCH = ''EXHAUST_DISPATCH''"
| "req_action_str RELEASE_SLOT = ''RELEASE_SLOT''"
| "req_action_str CANCEL = ''CANCEL''"
| "req_action_str UPDATE_DEMAND = ''UPDATE_DEMAND''"

record RequirementCapacity =
  workerCountNeeded :: int
  filledCapacity :: int
  remainingCapacity :: int
  isFilled :: bool
  isOpen :: bool
  isPartiallyFilled :: bool

definition ACTIVE_BOOKING_STATUSES :: "string list" where
  "ACTIVE_BOOKING_STATUSES =
     [''confirmed'', ''CONFIRMED'', ''IN_PROGRESS'', ''AWAITING_CONFIRMATION'', ''COMPLETED'']"

text \<open>
  The needed count is a JavaScript number; the filled count comes from an integer column or a
  \<^verbatim>\<open>count\<close> query.
\<close>

definition calculateRequirementCapacity :: "js_number \<Rightarrow> int \<Rightarrow> error + RequirementCapacity" where
  "calculateRequirementCapacity needed filledArg =
     (if \<not> js_isInteger needed \<or> js_int needed \<le> 0 then Inl RequirementInvalidWorkerCountError
      else
        let n = js_int needed;
            filled = max 0 filledArg;
            remaining = max 0 (n - filled)
        in Inr \<lparr>workerCountNeeded = n, filledCapacity = filled, remainingCapacity = remaining,
                isFilled = (filled \<ge> n), isOpen = (filled = 0),
                isPartiallyFilled = (filled > 0 \<and> filled < n)\<rparr>)"

section \<open>Transition table\<close>

text \<open>What a target may depend on: the needed and the filled count and the optional new count.\<close>

record req_context =
  rc_needed :: int
  rc_filled :: int
  rc_newFilledCount :: "int option"

record req_rule =
  rr_target :: "req_context \<Rightarrow> RequirementStatus"
  rr_roles :: "actor_role list"

definition req_mk :: "(req_context \<Rightarrow> RequirementStatus) \<Rightarrow> actor_role list \<Rightarrow> req_rule option" where
  "req_mk t rs = Some \<lparr>rr_target = t, rr_roles = rs\<rparr>"

definition acceptance_target :: "req_context \<Rightarrow> RequirementStatus" where
  "acceptance_target ctx =
     (let filled = (case rc_newFilledCount ctx of Some n \<Rightarrow> n | None \<Rightarrow> rc_filled ctx + 1)
      in if filled \<ge> rc_needed ctx then FILLED else PARTIALLY_FILLED)"

definition release_target :: "req_context \<Rightarrow> RequirementStatus" where
  "release_target ctx =
     (let filled = (case rc_newFilledCount ctx of Some n \<Rightarrow> n | None \<Rightarrow> max 0 (rc_filled ctx - 1))
      in if filled = 0 then OPEN else PARTIALLY_FILLED)"

definition exhaust_target :: "req_context \<Rightarrow> RequirementStatus" where
  "exhaust_target ctx = (if rc_filled ctx > 0 then PARTIALLY_FILLED else NO_WORKERS_AVAILABLE)"

fun REQUIREMENT_TRANSITION_TABLE :: "RequirementStatus \<Rightarrow> RequirementAction \<Rightarrow> req_rule option" where
  "REQUIREMENT_TRANSITION_TABLE OPEN START_DISPATCH =
     req_mk (\<lambda>_. DISPATCHING) [User ADMIN, SYSTEM, DISPATCH_WORKER]"
| "REQUIREMENT_TRANSITION_TABLE OPEN RECORD_ACCEPTANCE =
     req_mk acceptance_target [User ADMIN, SYSTEM, DISPATCH_WORKER, User WORKER]"
| "REQUIREMENT_TRANSITION_TABLE OPEN CANCEL =
     req_mk (\<lambda>_. CANCELLED) [User CUSTOMER, User ADMIN, SYSTEM]"
| "REQUIREMENT_TRANSITION_TABLE DISPATCHING RECORD_ACCEPTANCE =
     req_mk acceptance_target [User ADMIN, SYSTEM, DISPATCH_WORKER, User WORKER]"
| "REQUIREMENT_TRANSITION_TABLE DISPATCHING EXHAUST_DISPATCH =
     req_mk exhaust_target [User ADMIN, SYSTEM, DISPATCH_WORKER]"
| "REQUIREMENT_TRANSITION_TABLE DISPATCHING CANCEL =
     req_mk (\<lambda>_. CANCELLED) [User CUSTOMER, User ADMIN, SYSTEM]"
| "REQUIREMENT_TRANSITION_TABLE PARTIALLY_FILLED START_DISPATCH =
     req_mk (\<lambda>_. DISPATCHING) [User ADMIN, SYSTEM, DISPATCH_WORKER]"
| "REQUIREMENT_TRANSITION_TABLE PARTIALLY_FILLED RECORD_ACCEPTANCE =
     req_mk acceptance_target [User ADMIN, SYSTEM, DISPATCH_WORKER, User WORKER]"
| "REQUIREMENT_TRANSITION_TABLE PARTIALLY_FILLED EXHAUST_DISPATCH =
     req_mk (\<lambda>_. PARTIALLY_FILLED) [User ADMIN, SYSTEM, DISPATCH_WORKER]"
| "REQUIREMENT_TRANSITION_TABLE PARTIALLY_FILLED RELEASE_SLOT =
     req_mk release_target [User CUSTOMER, User ADMIN, SYSTEM, User WORKER]"
| "REQUIREMENT_TRANSITION_TABLE PARTIALLY_FILLED CANCEL =
     req_mk (\<lambda>_. CANCELLED) [User CUSTOMER, User ADMIN, SYSTEM]"
| "REQUIREMENT_TRANSITION_TABLE FILLED RELEASE_SLOT =
     req_mk release_target [User CUSTOMER, User ADMIN, SYSTEM, User WORKER]"
| "REQUIREMENT_TRANSITION_TABLE FILLED CANCEL =
     req_mk (\<lambda>_. CANCELLED) [User CUSTOMER, User ADMIN, SYSTEM]"
| "REQUIREMENT_TRANSITION_TABLE NO_WORKERS_AVAILABLE START_DISPATCH =
     req_mk (\<lambda>_. DISPATCHING) [User ADMIN, SYSTEM, DISPATCH_WORKER, User CUSTOMER]"
| "REQUIREMENT_TRANSITION_TABLE NO_WORKERS_AVAILABLE CANCEL =
     req_mk (\<lambda>_. CANCELLED) [User CUSTOMER, User ADMIN, SYSTEM]"
| "REQUIREMENT_TRANSITION_TABLE _ _ = None"

definition TERMINAL_REQUIREMENT_STATES :: "RequirementStatus list" where
  "TERMINAL_REQUIREMENT_STATES = [CANCELLED]"

section \<open>The transition service\<close>

definition req_normalizeStatus :: "string \<Rightarrow> RequirementStatus" where
  "req_normalizeStatus status =
     (if status = '''' then OPEN
      else let upper = toUpperCase status in
        if upper = ''FILLED'' then FILLED
        else if upper = ''DISPATCHING'' then DISPATCHING
        else if upper = ''PARTIALLY_FILLED'' then PARTIALLY_FILLED
        else if upper = ''NO_WORKERS_AVAILABLE'' then NO_WORKERS_AVAILABLE
        else if upper = ''CANCELLED'' then CANCELLED
        else OPEN)"

definition req_isTerminal :: "string \<Rightarrow> bool" where
  "req_isTerminal s = (req_normalizeStatus s \<in> set TERMINAL_REQUIREMENT_STATES)"

definition req_getCapacity :: "job_requirement \<Rightarrow> error + RequirementCapacity" where
  "req_getCapacity r = calculateRequirementCapacity (num_of_int (rq_needed r)) (rq_filled r)"

datatype req_reason =
    ReqNotOwner
  | ReqActionNotAllowed RequirementAction RequirementStatus
  | ReqRoleNotAuthorized actor_role RequirementAction

fun req_reason_text :: "req_reason \<Rightarrow> string" where
  "req_reason_text ReqNotOwner = ''Forbidden: You do not own this requirement''"
| "req_reason_text (ReqActionNotAllowed a s) =
     ''Action '' @ squote (req_action_str a) @ '' is not allowed when requirement is in status '' @
     squote (req_status_str s)"
| "req_reason_text (ReqRoleNotAuthorized r a) =
     ''Actor role '' @ squote (actor_role_str r) @ '' is not authorized to execute '' @
     squote (req_action_str a)"

text \<open>
  The branch for a status without rules is absent: \<^verbatim>\<open>normalizeStatus\<close> gives one of the six keys
  of the table, and every key has an object there.
\<close>

definition req_canTransition ::
  "string \<Rightarrow> RequirementAction \<Rightarrow> transition_actor \<Rightarrow> string option \<Rightarrow> req_reason option" where
  "req_canTransition currentStatus action actor customerOwnerId =
     (let normalized = req_normalizeStatus currentStatus in
      if ac_role actor = User CUSTOMER \<and> truthy customerOwnerId \<and> truthy (ac_id actor)
         \<and> customerOwnerId \<noteq> ac_id actor
      then Some ReqNotOwner
      else case REQUIREMENT_TRANSITION_TABLE normalized action of
             None \<Rightarrow> Some (ReqActionNotAllowed action normalized)
           | Some rule \<Rightarrow>
               if ac_role actor \<notin> set (rr_roles rule)
               then Some (ReqRoleNotAuthorized (ac_role actor) action)
               else None)"

record req_update =
  ru_status :: "string option"
  ru_filled :: "int option"
  ru_needed :: "int option"
  ru_now :: timestamp

definition apply_req_update :: "req_update \<Rightarrow> job_requirement \<Rightarrow> job_requirement" where
  "apply_req_update u r =
     r\<lparr>rq_status := (case ru_status u of Some s \<Rightarrow> s | None \<Rightarrow> rq_status r),
       rq_filled := (case ru_filled u of Some n \<Rightarrow> n | None \<Rightarrow> rq_filled r),
       rq_needed := (case ru_needed u of Some n \<Rightarrow> n | None \<Rightarrow> rq_needed r),
       rq_updated_at := ru_now u\<rparr>"

text \<open>\<^verbatim>\<open>tx.job_requirement.update\<close> by primary key.\<close>

definition update_requirement :: "uuid \<Rightarrow> req_update \<Rightarrow> db \<Rightarrow> db" where
  "update_requirement i u d =
     d\<lparr>requirements := updateMany (\<lambda>r. rq_id r = i) (apply_req_update u) (requirements d)\<rparr>"

definition req_customer_id :: "job_requirement \<Rightarrow> db \<Rightarrow> string option" where
  "req_customer_id r d = map_option jb_customer_id (findUnique jb_id (rq_job_id r) (jobs d))"

record req_transition_result =
  rt_requirement :: job_requirement
  rt_previous :: RequirementStatus
  rt_current :: RequirementStatus
  rt_action :: RequirementAction
  rt_capacity :: RequirementCapacity

definition req_transition ::
  "timestamp \<Rightarrow> uuid \<Rightarrow> RequirementAction \<Rightarrow> transition_actor \<Rightarrow> int option \<Rightarrow> db
   \<Rightarrow> error + (req_transition_result \<times> db)" where
  "req_transition now requirementId action actor newFilledCount d =
     (case findUnique rq_id requirementId (requirements d) of
        None \<Rightarrow> Inl RequirementNotFoundError
      | Some req \<Rightarrow>
          let currentStatus = req_normalizeStatus (rq_status req) in
          case req_canTransition (req_status_str currentStatus) action actor (req_customer_id req d) of
            Some reason \<Rightarrow>
              if js_includes (req_reason_text reason) ''Forbidden''
              then Inl RequirementAuthorizationError
              else Inl (RequirementInvalidTransitionError (req_status_str currentStatus)
                          (req_action_str action))
          | None \<Rightarrow>
              (case REQUIREMENT_TRANSITION_TABLE currentStatus action of
                 None \<Rightarrow> Inl JsTypeError
               | Some rule \<Rightarrow>
                   let target = rr_target rule \<lparr>rc_needed = rq_needed req, rc_filled = rq_filled req,
                                                rc_newFilledCount = newFilledCount\<rparr>;
                       u = \<lparr>ru_status = Some (req_status_str target), ru_filled = newFilledCount,
                            ru_needed = None, ru_now = now\<rparr>;
                       updated = apply_req_update u req
                   in case req_getCapacity updated of
                        Inl e \<Rightarrow> Inl e
                      | Inr capacity \<Rightarrow>
                          Inr (\<lparr>rt_requirement = updated, rt_previous = currentStatus,
                                rt_current = target, rt_action = action, rt_capacity = capacity\<rparr>,
                               update_requirement requirementId u d)))"

text \<open>The active bookings of a requirement.\<close>

definition active_booking :: "uuid \<Rightarrow> booking \<Rightarrow> bool" where
  "active_booking i b \<longleftrightarrow> bk_requirement_id b = i \<and> bk_status b \<in> set ACTIVE_BOOKING_STATUSES"

definition activeBookingsCount :: "uuid \<Rightarrow> db \<Rightarrow> int" where
  "activeBookingsCount i d = int (countWhere (active_booking i) (bookings d))"

definition reconciled_status :: "RequirementStatus \<Rightarrow> RequirementCapacity \<Rightarrow> RequirementStatus" where
  "reconciled_status currentStatus capacity =
     (if currentStatus = CANCELLED then CANCELLED
      else if isFilled capacity then FILLED
      else if isPartiallyFilled capacity then PARTIALLY_FILLED
      else if currentStatus = DISPATCHING then DISPATCHING
      else OPEN)"

definition reconcileCapacity ::
  "timestamp \<Rightarrow> uuid \<Rightarrow> db \<Rightarrow> error + (RequirementCapacity \<times> db)" where
  "reconcileCapacity now requirementId d =
     (case findUnique rq_id requirementId (requirements d) of
        None \<Rightarrow> Inl RequirementNotFoundError
      | Some req \<Rightarrow>
          let count = activeBookingsCount requirementId d in
          case calculateRequirementCapacity (num_of_int (rq_needed req)) count of
            Inl e \<Rightarrow> Inl e
          | Inr capacity \<Rightarrow>
              let nextStatus = reconciled_status (req_normalizeStatus (rq_status req)) capacity
              in Inr (capacity, update_requirement requirementId
                   \<lparr>ru_status = Some (req_status_str nextStatus), ru_filled = Some count,
                    ru_needed = None, ru_now = now\<rparr> d))"

definition updateDemand ::
  "timestamp \<Rightarrow> uuid \<Rightarrow> js_number \<Rightarrow> transition_actor \<Rightarrow> db
   \<Rightarrow> error + ((job_requirement \<times> RequirementCapacity) \<times> db)" where
  "updateDemand now requirementId newWorkerCountNeeded actor d =
     (if \<not> js_isInteger newWorkerCountNeeded \<or> js_int newWorkerCountNeeded \<le> 0
      then Inl RequirementInvalidWorkerCountError
      else case findUnique rq_id requirementId (requirements d) of
        None \<Rightarrow> Inl RequirementNotFoundError
      | Some req \<Rightarrow>
          if ac_role actor = User CUSTOMER \<and> truthy (req_customer_id req d)
             \<and> ac_id actor \<noteq> req_customer_id req d
          then Inl RequirementAuthorizationError
          else
            let currentStatus = req_normalizeStatus (rq_status req) in
            if currentStatus = CANCELLED
            then Inl (RequirementInvalidTransitionError (req_status_str CANCELLED)
                        (req_action_str UPDATE_DEMAND))
            else
              let filled = rq_filled req in
              if js_int newWorkerCountNeeded < filled then Inl RequirementCapacityExceededError
              else case calculateRequirementCapacity newWorkerCountNeeded filled of
                Inl e \<Rightarrow> Inl e
              | Inr capacity \<Rightarrow>
                  let target = (if isFilled capacity then FILLED
                                else if isPartiallyFilled capacity \<and> currentStatus = FILLED
                                then PARTIALLY_FILLED else currentStatus);
                      u = \<lparr>ru_status = Some (req_status_str target), ru_filled = None,
                           ru_needed = Some (js_int newWorkerCountNeeded), ru_now = now\<rparr>
                  in Inr ((apply_req_update u req, capacity), update_requirement requirementId u d))"

text \<open>
  The capacity ledger: requirements are keyed by id, the demand is positive, and the filled count
  is the number of active bookings and within the demand.
\<close>

definition requirement_ok :: "db \<Rightarrow> job_requirement \<Rightarrow> bool" where
  "requirement_ok d r \<longleftrightarrow> 0 < rq_needed r \<and> rq_filled r = activeBookingsCount (rq_id r) d
     \<and> rq_filled r \<le> rq_needed r"

definition ledger_ok :: "db \<Rightarrow> bool" where
  "ledger_ok d \<longleftrightarrow> distinct (map rq_id (requirements d)) \<and> (\<forall>r \<in> set (requirements d). requirement_ok d r)"

definition req_step :: "req_context \<Rightarrow> RequirementStatus \<Rightarrow> RequirementAction \<Rightarrow> RequirementStatus \<Rightarrow> bool" where
  "req_step ctx s a t = (map_option (\<lambda>rule. rr_target rule ctx) (REQUIREMENT_TRANSITION_TABLE s a) = Some t)"

section \<open>Lemmas\<close>

lemma req_normalize_str [simp]: "req_normalizeStatus (req_status_str st) = st"
  by (cases st) (simp_all add: req_normalizeStatus_def toUpperCase_def upper_char_def)

lemma req_status_str_inj [simp]: "req_status_str a = req_status_str b \<longleftrightarrow> a = b"
  by (metis req_normalize_str)

lemma req_reason_forbidden:
  "js_includes (req_reason_text r) ''Forbidden'' \<longleftrightarrow> r = ReqNotOwner"
proof (cases r)
  case ReqNotOwner
  then show ?thesis by simp
next
  case (ReqActionNotAllowed a st)
  then show ?thesis by (cases a; cases st; simp add: squote_def)
next
  case (ReqRoleNotAuthorized x a)
  then show ?thesis by (cases x rule: actor_role_exhaust; cases a; simp add: squote_def)
qed

interpretation requirement_table: keyed_update rq_id apply_req_update
  by unfold_locales (simp add: apply_req_update_def)

interpretation req_cycle: lifecycle "req_step ctx" "\<lambda>s. s \<in> set TERMINAL_REQUIREMENT_STATES" for ctx
  by unfold_locales (auto simp: TERMINAL_REQUIREMENT_STATES_def req_step_def)

lemma capacity_cases:
  "calculateRequirementCapacity n f = Inr c \<Longrightarrow>
     0 < js_int n \<and> workerCountNeeded c = js_int n \<and> filledCapacity c = max 0 f \<and>
     remainingCapacity c = max 0 (js_int n - max 0 f) \<and>
     isFilled c = (js_int n \<le> f) \<and> isOpen c = (f \<le> 0) \<and> isPartiallyFilled c = (0 < f \<and> f < js_int n)"
  by (auto simp: calculateRequirementCapacity_def Let_def split: if_splits)

lemma capacity_of_int:
  "0 < n \<Longrightarrow> \<exists>c. calculateRequirementCapacity (num_of_int n) f = Inr c"
  by (simp add: calculateRequirementCapacity_def Let_def)

lemma activeBookingsCount_nonneg [simp]: "0 \<le> activeBookingsCount i d"
  by (simp add: activeBookingsCount_def)

lemma update_requirement_frame [simp]:
  "jobs (update_requirement i u d) = jobs d" "bookings (update_requirement i u d) = bookings d"
  "dispatches (update_requirement i u d) = dispatches d"
  "activeBookingsCount k (update_requirement i u d) = activeBookingsCount k d"
  by (simp_all add: update_requirement_def activeBookingsCount_def)

lemma requirement_of_update:
  "r' \<in> set (requirements (update_requirement i u d)) \<Longrightarrow>
   \<exists>r \<in> set (requirements d). r' = (if rq_id r = i then apply_req_update u r else r) \<and> rq_id r' = rq_id r"
  by (auto simp: update_requirement_def set_updateMany requirement_table.key_upd)

lemma update_requirement_ledger:
  assumes "distinct (map rq_id (requirements d))"
    and "\<And>r. r \<in> set (requirements d) \<Longrightarrow> rq_id r \<noteq> i \<Longrightarrow> requirement_ok d r"
    and "\<And>r. r \<in> set (requirements d) \<Longrightarrow> rq_id r = i \<Longrightarrow>
           requirement_ok (update_requirement i u d) (apply_req_update u r)"
  shows "ledger_ok (update_requirement i u d)"
proof -
  have "requirement_ok (update_requirement i u d) r'"
    if r': "r' \<in> set (requirements (update_requirement i u d))" for r'
  proof -
    from requirement_of_update [OF r'] obtain r where r: "r \<in> set (requirements d)"
      "r' = (if rq_id r = i then apply_req_update u r else r)" by blast
    show ?thesis
    proof (cases "rq_id r = i")
      case True
      with r assms(3) show ?thesis by auto
    next
      case False
      with r assms(2) [OF r(1)] show ?thesis by (simp add: requirement_ok_def)
    qed
  qed
  moreover have "distinct (map rq_id (requirements (update_requirement i u d)))"
    using assms(1) by (simp add: update_requirement_def requirement_table.distinct_updateMany)
  ultimately show ?thesis by (simp add: ledger_ok_def)
qed

text \<open>
  \<^verbatim>\<open>reconcileCapacity\<close> repairs the ledger of its requirement from the bookings, whatever the
  filled count was before, as long as there are not more active bookings than the demand.
\<close>

lemma reconcileCapacity_ledger:
  assumes "reconcileCapacity now i d = Inr (c, d')"
    and "distinct (map rq_id (requirements d))"
    and "\<And>r. r \<in> set (requirements d) \<Longrightarrow> rq_id r \<noteq> i \<Longrightarrow> requirement_ok d r"
    and "\<And>r. r \<in> set (requirements d) \<Longrightarrow> rq_id r = i \<Longrightarrow>
           0 < rq_needed r \<and> activeBookingsCount i d \<le> rq_needed r"
  shows "ledger_ok d'"
proof -
  from assms(1) obtain s where
    "d' = update_requirement i \<lparr>ru_status = Some s, ru_filled = Some (activeBookingsCount i d),
            ru_needed = None, ru_now = now\<rparr> d"
    by (auto simp: reconcileCapacity_def Let_def split: option.splits sum.splits)
  with assms(4) show ?thesis
    by (auto intro!: update_requirement_ledger [OF assms(2,3)]
          simp: requirement_ok_def apply_req_update_def)
qed

lemma updateDemand_InrE:
  assumes "updateDemand now i n actor d = Inr (res, d')"
  obtains r s where "findUnique rq_id i (requirements d) = Some r" "rq_filled r \<le> js_int n" "0 < js_int n"
    "d' = update_requirement i \<lparr>ru_status = Some s, ru_filled = None,
            ru_needed = Some (js_int n), ru_now = now\<rparr> d"
  using assms unfolding updateDemand_def Let_def
  by (auto split: if_splits option.splits sum.splits)

lemma updateDemand_ledger:
  assumes "ledger_ok d" and "updateDemand now i n actor d = Inr (res, d')"
  shows "ledger_ok d'"
proof -
  from assms(2) obtain r0 s where r0: "findUnique rq_id i (requirements d) = Some r0"
      "rq_filled r0 \<le> js_int n" "0 < js_int n"
    and d': "d' = update_requirement i \<lparr>ru_status = Some s, ru_filled = None,
               ru_needed = Some (js_int n), ru_now = now\<rparr> d"
    by (rule updateDemand_InrE)
  have dist: "distinct (map rq_id (requirements d))" using assms(1) by (simp add: ledger_ok_def)
  show ?thesis unfolding d'
  proof (rule update_requirement_ledger [OF dist])
    fix r assume r: "r \<in> set (requirements d)"
    with assms(1) have ok: "requirement_ok d r" by (simp add: ledger_ok_def)
    then show "requirement_ok d r" .
    assume "rq_id r = i"
    with r r0(1) dist have "r = r0" using findUnique_distinct [OF dist r] by simp
    with ok r0 \<open>rq_id r = i\<close> show "requirement_ok (update_requirement i \<lparr>ru_status = Some s,
        ru_filled = None, ru_needed = Some (js_int n), ru_now = now\<rparr> d)
        (apply_req_update \<lparr>ru_status = Some s, ru_filled = None, ru_needed = Some (js_int n),
          ru_now = now\<rparr> r)"
      by (simp add: requirement_ok_def apply_req_update_def)
  qed
qed

section \<open>Properties\<close>

text \<open>
  The capacity of a requirement: a demand that is not a positive integer is refused;
  otherwise exactly one of open, partially filled and filled holds, the remaining capacity is
  never negative, is zero exactly when the requirement is filled, and adds up with the filled
  count to the demand whenever the count is between zero and the demand.
\<close>

theorem capacity_trichotomy:
  "case calculateRequirementCapacity needed filled of
     Inl e \<Rightarrow> e = RequirementInvalidWorkerCountError \<and> \<not> (js_isInteger needed \<and> 0 < js_int needed)
   | Inr c \<Rightarrow> js_isInteger needed \<and> 0 < js_int needed \<and> 0 \<le> remainingCapacity c \<and>
       (isFilled c \<longleftrightarrow> remainingCapacity c = 0) \<and>
       (isOpen c \<noteq> (isPartiallyFilled c \<or> isFilled c)) \<and> \<not> (isPartiallyFilled c \<and> isFilled c) \<and>
       (filled \<in> {0..js_int needed} = (filledCapacity c = filled \<and> filled + remainingCapacity c = js_int needed))"
  by (auto simp: calculateRequirementCapacity_def Let_def split: sum.splits)

text \<open>
  \<^verbatim>\<open>reconcileCapacity\<close> rebuilds the row from the bookings: afterwards the filled count is the
  number of active bookings, the row is \<^verbatim>\<open>FILLED\<close> exactly when they cover the demand, a
  cancelled row stays cancelled, and reconciling again at the same instant changes nothing.
\<close>

theorem reconcileCapacity_authoritative:
  assumes "distinct (map rq_id (requirements d))" and "r \<in> set (requirements d)" and "0 < rq_needed r"
  shows "\<exists>c d' r'. reconcileCapacity now (rq_id r) d = Inr (c, d') \<and>
     findUnique rq_id (rq_id r) (requirements d') = Some r' \<and>
     rq_filled r' = activeBookingsCount (rq_id r) d \<and> rq_needed r' = rq_needed r \<and>
     (req_normalizeStatus (rq_status r') = CANCELLED \<longleftrightarrow> req_normalizeStatus (rq_status r) = CANCELLED) \<and>
     (req_normalizeStatus (rq_status r) \<noteq> CANCELLED \<longrightarrow>
        (rq_status r' = ''FILLED'' \<longleftrightarrow> rq_needed r \<le> activeBookingsCount (rq_id r) d)) \<and>
     reconcileCapacity now (rq_id r) d' = Inr (c, d')"
proof -
  let ?n = "activeBookingsCount (rq_id r) d"
  from capacity_of_int [OF assms(3)] obtain c where
    c: "calculateRequirementCapacity (num_of_int (rq_needed r)) ?n = Inr c" by blast
  let ?s = "reconciled_status (req_normalizeStatus (rq_status r)) c"
  let ?u = "\<lparr>ru_status = Some (req_status_str ?s), ru_filled = Some ?n, ru_needed = None, ru_now = now\<rparr>"
  let ?d = "update_requirement (rq_id r) ?u d"
  have fu: "findUnique rq_id (rq_id r) (requirements d) = Some r"
    using assms by (simp add: findUnique_distinct)
  then have fu': "findUnique rq_id (rq_id r) (requirements ?d) = Some (apply_req_update ?u r)"
    by (simp add: update_requirement_def requirement_table.findUnique_update_same)
  have twice: "update_requirement (rq_id r) ?u ?d = ?d"
    by (simp add: update_requirement_def updateMany_def apply_req_update_def comp_def)
  have s2: "reconciled_status ?s c = ?s"
    using capacity_cases [OF c] by (auto simp: reconciled_status_def)
  have "?s = FILLED \<longleftrightarrow> rq_needed r \<le> ?n" if "req_normalizeStatus (rq_status r) \<noteq> CANCELLED"
    using that capacity_cases [OF c] by (auto simp: reconciled_status_def)
  moreover have "?s = CANCELLED \<longleftrightarrow> req_normalizeStatus (rq_status r) = CANCELLED"
    by (simp add: reconciled_status_def)
  moreover have "req_status_str ?s = ''FILLED'' \<longleftrightarrow> ?s = FILLED"
    using req_status_str_inj [of ?s FILLED] by simp
  moreover have "reconcileCapacity now (rq_id r) d = Inr (c, ?d)"
    using fu c by (simp add: reconcileCapacity_def Let_def)
  moreover have "reconcileCapacity now (rq_id r) ?d = Inr (c, ?d)"
    using fu' c s2 twice by (simp add: reconcileCapacity_def Let_def apply_req_update_def)
  ultimately show ?thesis using fu' by (force simp: apply_req_update_def)
qed

definition sample_requirement :: job_requirement where
  "sample_requirement = \<lparr>rq_id = ''r1'', rq_job_id = ''j1'', rq_skill_id = None, rq_skill_type = None,
     rq_needed = 2, rq_filled = 2, rq_rate_per_day = None, rq_status = ''FILLED'', rq_updated_at = 0\<rparr>"

theorem reconcileCapacity_authoritative_witness:
  "\<exists>c d'. reconcileCapacity 7 ''r1'' (empty_db\<lparr>requirements := [sample_requirement]\<rparr>) = Inr (c, d')"
  using reconcileCapacity_authoritative
      [of "empty_db\<lparr>requirements := [sample_requirement]\<rparr>" sample_requirement 7]
  by (auto simp: sample_requirement_def)

text \<open>
  \<^verbatim>\<open>updateDemand\<close>: every guard in its order, and on success the new demand covers the workers
  already booked and is the only number that changed.
\<close>

theorem updateDemand_decision:
  assumes "distinct (map rq_id (requirements d))" and "r \<in> set (requirements d)"
  shows "case run_tx (updateDemand now (rq_id r) n actor) d of
     (Inl e, d') \<Rightarrow> d' = d \<and>
       e = (if \<not> js_isInteger n \<or> js_int n \<le> 0 then RequirementInvalidWorkerCountError
            else if ac_role actor = User CUSTOMER \<and> truthy (req_customer_id r d)
                    \<and> ac_id actor \<noteq> req_customer_id r d then RequirementAuthorizationError
            else if req_normalizeStatus (rq_status r) = CANCELLED
                 then RequirementInvalidTransitionError ''CANCELLED'' ''UPDATE_DEMAND''
            else RequirementCapacityExceededError)
   | (Inr (r', c), d') \<Rightarrow> rq_needed r' = js_int n \<and> rq_filled r' = rq_filled r \<and> rq_filled r \<le> js_int n \<and>
       findUnique rq_id (rq_id r) (requirements d') = Some r' \<and>
       (isFilled c \<longrightarrow> rq_status r' = ''FILLED'') \<and> (rq_status r' = ''FILLED'' \<longrightarrow> 0 < rq_filled r' \<longrightarrow> isFilled c)"
proof -
  have fu: "findUnique rq_id (rq_id r) (requirements d) = Some r"
    using assms by (simp add: findUnique_distinct)
  then have fu': "findUnique rq_id (rq_id r) (requirements (update_requirement (rq_id r) u d))
                    = Some (apply_req_update u r)" for u
    by (simp add: update_requirement_def requirement_table.findUnique_update_same)
  have filled_str: "req_status_str s = ''FILLED'' \<longleftrightarrow> s = FILLED" for s
    using req_status_str_inj [of s FILLED] by simp
  show ?thesis
    by (auto simp: run_tx_def updateDemand_def Let_def fu fu' filled_str apply_req_update_def
          calculateRequirementCapacity_def split: if_splits)
qed

theorem updateDemand_decision_witness:
  "fst (run_tx (updateDemand 7 ''r1'' (num_of_int 1) system_actor)
         (empty_db\<lparr>requirements := [sample_requirement]\<rparr>)) = Inl RequirementCapacityExceededError"
  using updateDemand_decision [where d = "empty_db\<lparr>requirements := [sample_requirement]\<rparr>"
      and r = sample_requirement and now = 7 and n = "num_of_int 1" and actor = system_actor]
  by (auto simp: sample_requirement_def system_actor_def req_normalizeStatus_def toUpperCase_def
      upper_char_def split: prod.splits sum.splits)

end
