(* ===== verification/Booking_Machine.thy ===== *)
theory Booking_Machine
  imports Schema
begin

text \<open>
  The booking state machine, \<^verbatim>\<open>src/features/booking/bookingStateMachine.ts\<close>: the lifecycle
  CONFIRMED, IN_PROGRESS, AWAITING_CONFIRMATION, COMPLETED with cancellation on the way, its
  decision function and the transactional \<^verbatim>\<open>transition\<close> with the two idempotent repetitions, the
  mandatory cancellation reason, the lifecycle stamps and the audit row.
\<close>

section \<open>Statuses, actions and the transition table\<close>

datatype BookingStatus = CONFIRMED | IN_PROGRESS | AWAITING_CONFIRMATION | COMPLETED | CANCELLED

datatype BookingAction = CREATE | START_WORK | REQUEST_COMPLETION | CONFIRM_COMPLETION | CANCEL

fun booking_status_str :: "BookingStatus \<Rightarrow> string" where
  "booking_status_str CONFIRMED = ''CONFIRMED''"
| "booking_status_str IN_PROGRESS = ''IN_PROGRESS''"
| "booking_status_str AWAITING_CONFIRMATION = ''AWAITING_CONFIRMATION''"
| "booking_status_str COMPLETED = ''COMPLETED''"
| "booking_status_str CANCELLED = ''CANCELLED''"

fun booking_action_str :: "BookingAction \<Rightarrow> string" where
  "booking_action_str CREATE = ''CREATE''"
| "booking_action_str START_WORK = ''START_WORK''"
| "booking_action_str REQUEST_COMPLETION = ''REQUEST_COMPLETION''"
| "booking_action_str CONFIRM_COMPLETION = ''CONFIRM_COMPLETION''"
| "booking_action_str CANCEL = ''CANCEL''"

definition ACTIVE_LOCATION_STREAMING_STATUSES :: "string list" where
  "ACTIVE_LOCATION_STREAMING_STATUSES =
     [''CONFIRMED'', ''IN_PROGRESS'', ''AWAITING_CONFIRMATION'', ''confirmed'', ''in_progress'',
      ''awaiting_confirmation'', ''assigned'', ''ASSIGNED'', ''accepted'', ''ACCEPTED'', ''arrived'',
      ''ARRIVED'', ''ACTIVE'', ''active'']"

record booking_rule =
  br_target :: BookingStatus
  br_roles :: "actor_role list"
  br_workerMatch :: bool
  br_customerMatch :: bool

definition bk_rule :: "BookingStatus \<Rightarrow> actor_role list \<Rightarrow> bool \<Rightarrow> bool \<Rightarrow> booking_rule option" where
  "bk_rule t rs w c = Some \<lparr>br_target = t, br_roles = rs, br_workerMatch = w, br_customerMatch = c\<rparr>"

fun BOOKING_TRANSITION_TABLE :: "BookingStatus \<Rightarrow> BookingAction \<Rightarrow> booking_rule option" where
  "BOOKING_TRANSITION_TABLE CONFIRMED START_WORK =
     bk_rule IN_PROGRESS [User WORKER, User ADMIN, SYSTEM] True False"
| "BOOKING_TRANSITION_TABLE CONFIRMED CANCEL =
     bk_rule CANCELLED [User CUSTOMER, User WORKER, User ADMIN, SYSTEM] False False"
| "BOOKING_TRANSITION_TABLE IN_PROGRESS REQUEST_COMPLETION =
     bk_rule AWAITING_CONFIRMATION [User WORKER, User ADMIN, SYSTEM] True False"
| "BOOKING_TRANSITION_TABLE IN_PROGRESS CANCEL =
     bk_rule CANCELLED [User ADMIN, SYSTEM, User CUSTOMER, User WORKER] False False"
| "BOOKING_TRANSITION_TABLE AWAITING_CONFIRMATION CONFIRM_COMPLETION =
     bk_rule COMPLETED [User CUSTOMER, User ADMIN, SYSTEM] False True"
| "BOOKING_TRANSITION_TABLE AWAITING_CONFIRMATION CANCEL =
     bk_rule CANCELLED [User ADMIN, SYSTEM, User CUSTOMER] False False"
| "BOOKING_TRANSITION_TABLE _ _ = None"

definition TERMINAL_BOOKING_STATES :: "BookingStatus list" where
  "TERMINAL_BOOKING_STATES = [COMPLETED, CANCELLED]"

text \<open>
  \<^verbatim>\<open>normalizeStatus\<close> returns the upper-cased and trimmed string even when it is not one of the
  enum, so the normalised status stays a string; \<open>booking_status_of\<close> is the table key it selects.
\<close>

definition booking_normalizeStatus :: "string option \<Rightarrow> string" where
  "booking_normalizeStatus raw =
     (if \<not> truthy raw then ''CONFIRMED'' else trim (toUpperCase (the raw)))"

definition booking_status_of :: "string \<Rightarrow> BookingStatus option" where
  "booking_status_of s = List.find (\<lambda>st. booking_status_str st = s)
     [CONFIRMED, IN_PROGRESS, AWAITING_CONFIRMATION, COMPLETED, CANCELLED]"

definition booking_isTerminal :: "string \<Rightarrow> bool" where
  "booking_isTerminal s =
     (booking_normalizeStatus (Some s) \<in> set (map booking_status_str TERMINAL_BOOKING_STATES))"

section \<open>canTransition\<close>

datatype booking_reason =
    BookingActionNotPermitted BookingAction string
  | BookingRoleNotAuthorized actor_role BookingAction
  | BookingNotAssigned
  | BookingNotOwner

fun booking_reason_text :: "booking_reason \<Rightarrow> string" where
  "booking_reason_text (BookingActionNotPermitted a s) =
     ''Illegal booking transition: Action '' @ squote (booking_action_str a) @
     '' is not permitted from status '' @ squote s"
| "booking_reason_text (BookingRoleNotAuthorized r a) =
     ''Role '' @ squote (actor_role_str r) @ '' is not authorized to perform '' @
     squote (booking_action_str a) @ '' on booking''"
| "booking_reason_text BookingNotAssigned = ''Forbidden: You are not assigned to this booking''"
| "booking_reason_text BookingNotOwner = ''Forbidden: You do not own this booking''"

definition booking_canTransition ::
  "string \<Rightarrow> BookingAction \<Rightarrow> transition_actor \<Rightarrow> booking option \<Rightarrow> booking_reason + BookingStatus" where
  "booking_canTransition currentStatusRaw action actor b =
     (let currentStatus = booking_normalizeStatus (Some currentStatusRaw) in
      case Option.bind (booking_status_of currentStatus) (\<lambda>st. BOOKING_TRANSITION_TABLE st action) of
        None \<Rightarrow> Inl (BookingActionNotPermitted action currentStatus)
      | Some rule \<Rightarrow>
          if \<not> (ac_role actor \<in> set (br_roles rule) \<or> ac_role actor = User ADMIN \<or> ac_role actor = SYSTEM)
          then Inl (BookingRoleNotAuthorized (ac_role actor) action)
          else if b \<noteq> None \<and> ac_role actor \<noteq> User ADMIN \<and> ac_role actor \<noteq> SYSTEM
                  \<and> br_workerMatch rule \<and> ac_role actor = User WORKER
                  \<and> Some (bk_worker_id (the b)) \<noteq> ac_id actor
          then Inl BookingNotAssigned
          else if b \<noteq> None \<and> ac_role actor \<noteq> User ADMIN \<and> ac_role actor \<noteq> SYSTEM
                  \<and> br_customerMatch rule \<and> ac_role actor = User CUSTOMER
                  \<and> Some (bk_customer_id (the b)) \<noteq> ac_id actor
          then Inl BookingNotOwner
          else Inr (br_target rule))"

section \<open>transition\<close>

text \<open>The \<^verbatim>\<open>updateData\<close> object: the columns each target status writes.\<close>

record booking_update =
  bu_target :: BookingStatus
  bu_now :: timestamp
  bu_by :: string
  bu_reason :: string

fun apply_booking_update :: "booking_update \<Rightarrow> booking \<Rightarrow> booking" where
  "apply_booking_update u b =
     (let b1 = b\<lparr>bk_status := booking_status_str (bu_target u), bk_updated_at := bu_now u\<rparr> in
      case bu_target u of
        IN_PROGRESS \<Rightarrow> b1\<lparr>bk_started_at := Some (bu_now u), bk_otp_verified := True,
            bk_otp_consumed_at := Some (bu_now u), bk_verified_at := Some (bu_now u),
            bk_verified_by := Some (bu_by u)\<rparr>
      | AWAITING_CONFIRMATION \<Rightarrow> b1\<lparr>bk_completion_requested_at := Some (bu_now u)\<rparr>
      | COMPLETED \<Rightarrow> b1\<lparr>bk_completed_at := Some (bu_now u), bk_confirmed_at := Some (bu_now u),
            bk_confirmed_by := Some (bu_by u)\<rparr>
      | CANCELLED \<Rightarrow> b1\<lparr>bk_cancelled_at := Some (bu_now u), bk_cancelled_by := Some (bu_by u),
            bk_cancellation_reason := Some (bu_reason u)\<rparr>
      | CONFIRMED \<Rightarrow> b1)"

declare apply_booking_update.simps [simp del]

text \<open>\<^verbatim>\<open>tx.booking.update\<close> by primary key.\<close>

definition update_booking :: "uuid \<Rightarrow> (booking \<Rightarrow> booking) \<Rightarrow> db \<Rightarrow> db" where
  "update_booking i f d = d\<lparr>bookings := updateMany (\<lambda>b. bk_id b = i) f (bookings d)\<rparr>"

definition booking_log_row ::
  "uuid \<Rightarrow> string \<Rightarrow> BookingStatus \<Rightarrow> BookingAction \<Rightarrow> transition_actor \<Rightarrow> string option \<Rightarrow> transition_row" where
  "booking_log_row i from target action actor reason =
     \<lparr>tr_entity_id = i, tr_from = from, tr_to = booking_status_str target,
      tr_action = booking_action_str action, tr_actor_type = actor_role_str (ac_role actor),
      tr_actor_id = (if truthy (ac_id actor) then ac_id actor else None),
      tr_reason = (if truthy reason then reason else None)\<rparr>"

record booking_transition_result =
  bt_booking :: booking
  bt_previous :: string
  bt_current :: BookingStatus
  bt_action :: BookingAction
  bt_isIdempotent :: bool

text \<open>Steps 4 to 7: the decision, the mandatory reason, the update and the audit row.\<close>

definition booking_transition_fresh ::
  "timestamp \<Rightarrow> booking \<Rightarrow> string \<Rightarrow> BookingAction \<Rightarrow> transition_actor \<Rightarrow> string option \<Rightarrow> db
   \<Rightarrow> error + (booking_transition_result \<times> db)" where
  "booking_transition_fresh now lockedBooking currentStatus action actor reason d =
     (case booking_canTransition currentStatus action actor (Some lockedBooking) of
        Inl why \<Rightarrow>
          if startsWith (booking_reason_text why) ''Role'' \<or> startsWith (booking_reason_text why) ''Forbidden''
          then Inl BookingAuthorizationError
          else Inl (BookingInvalidTransitionError currentStatus (booking_action_str action))
      | Inr targetStatus \<Rightarrow>
          if action = CANCEL \<and> (\<not> truthy reason \<or> trim (the reason) = [])
          then Inl (BookingInvalidTransitionError currentStatus (booking_action_str action))
          else
            let u = \<lparr>bu_target = targetStatus, bu_now = now, bu_by = actor_stamp actor,
                     bu_reason = trim (case reason of Some s \<Rightarrow> s | None \<Rightarrow> [])\<rparr>
            in Inr (\<lparr>bt_booking = apply_booking_update u lockedBooking, bt_previous = currentStatus,
                     bt_current = targetStatus, bt_action = action, bt_isIdempotent = False\<rparr>,
                    (update_booking (bk_id lockedBooking) (apply_booking_update u) d)
                      \<lparr>booking_log := booking_log d @
                         [booking_log_row (bk_id lockedBooking) currentStatus targetStatus action actor reason]\<rparr>))"

definition booking_transition ::
  "timestamp \<Rightarrow> uuid \<Rightarrow> BookingAction \<Rightarrow> transition_actor \<Rightarrow> string option \<Rightarrow> BookingStatus option \<Rightarrow> db
   \<Rightarrow> error + (booking_transition_result \<times> db)" where
  "booking_transition now bookingId action actor reason expectedCurrentStatus d =
     (case findUnique bk_id bookingId (bookings d) of
        None \<Rightarrow> Inl BookingNotFoundError
      | Some lockedBooking \<Rightarrow>
          let currentStatus = booking_normalizeStatus (Some (bk_status lockedBooking)) in
          if action = CONFIRM_COMPLETION \<and> currentStatus = booking_status_str COMPLETED then
            (if ac_role actor = User CUSTOMER \<and> Some (bk_customer_id lockedBooking) \<noteq> ac_id actor
             then Inl BookingAuthorizationError
             else Inr (\<lparr>bt_booking = lockedBooking, bt_previous = currentStatus, bt_current = COMPLETED,
                        bt_action = action, bt_isIdempotent = True\<rparr>, d))
          else if action = REQUEST_COMPLETION \<and> currentStatus = booking_status_str AWAITING_CONFIRMATION then
            (if ac_role actor = User WORKER \<and> Some (bk_worker_id lockedBooking) \<noteq> ac_id actor
             then Inl BookingAuthorizationError
             else Inr (\<lparr>bt_booking = lockedBooking, bt_previous = currentStatus,
                        bt_current = AWAITING_CONFIRMATION, bt_action = action, bt_isIdempotent = True\<rparr>, d))
          else if expectedCurrentStatus \<noteq> None
                  \<and> currentStatus \<noteq> booking_status_str (the expectedCurrentStatus)
          then Inl BookingStateConflictError
          else booking_transition_fresh now lockedBooking currentStatus action actor reason d)"

section \<open>Invariants\<close>

text \<open>
  The statuses of the table hold a canonical status, the bookings are keyed by id and the log of
  each replays from its creation in CONFIRMED to its status.
\<close>

definition booking_audited :: "db \<Rightarrow> bool" where
  "booking_audited d \<longleftrightarrow> distinct (map bk_id (bookings d)) \<and>
     (\<forall>b \<in> set (bookings d). booking_status_of (bk_status b) \<noteq> None \<and>
        chain ''CONFIRMED'' (history_of (bk_id b) (booking_log d)) (bk_status b))"

definition booking_step :: "BookingStatus \<Rightarrow> BookingAction \<Rightarrow> BookingStatus \<Rightarrow> bool" where
  "booking_step s a t = (map_option br_target (BOOKING_TRANSITION_TABLE s a) = Some t)"

fun booking_rank :: "BookingStatus \<Rightarrow> nat" where
  "booking_rank CONFIRMED = 3"
| "booking_rank IN_PROGRESS = 2"
| "booking_rank AWAITING_CONFIRMATION = 1"
| "booking_rank COMPLETED = 0"
| "booking_rank CANCELLED = 0"

text \<open>The stamps a status requires: who and when of every lifecycle step that led to it.\<close>

definition booking_stamped :: "booking \<Rightarrow> bool" where
  "booking_stamped b \<longleftrightarrow>
     (bk_status b = ''COMPLETED'' \<longrightarrow> bk_completed_at b \<noteq> None \<and> bk_confirmed_by b \<noteq> None) \<and>
     (bk_status b = ''CANCELLED'' \<longrightarrow> bk_cancelled_at b \<noteq> None \<and> bk_cancelled_by b \<noteq> None
        \<and> truthy (bk_cancellation_reason b))"

record booking_call =
  bc_now :: timestamp
  bc_booking :: uuid
  bc_action :: BookingAction
  bc_actor :: transition_actor
  bc_reason :: "string option"
  bc_expected :: "BookingStatus option"

definition booking_exec :: "booking_call \<Rightarrow> db \<Rightarrow> db" where
  "booking_exec c d = snd (run_tx (booking_transition (bc_now c) (bc_booking c) (bc_action c) (bc_actor c)
                                    (bc_reason c) (bc_expected c)) d)"

definition booking_step_effect ::
  "booking_update \<Rightarrow> uuid \<Rightarrow> string \<Rightarrow> BookingAction \<Rightarrow> transition_actor \<Rightarrow> string option \<Rightarrow> db \<Rightarrow> db" where
  "booking_step_effect u i from action actor reason d =
     (update_booking i (apply_booking_update u) d)
       \<lparr>booking_log := booking_log d @ [booking_log_row i from (bu_target u) action actor reason]\<rparr>"

section \<open>Lemmas\<close>

lemma booking_status_of_str [simp]: "booking_status_of (booking_status_str st) = Some st"
  by (cases st) (simp_all add: booking_status_of_def)

lemma booking_status_of_Some: "booking_status_of s = Some st \<Longrightarrow> s = booking_status_str st"
  by (auto simp: booking_status_of_def split: if_splits)

lemma booking_status_str_inj [simp]: "booking_status_str a = booking_status_str b \<longleftrightarrow> a = b"
  by (metis booking_status_of_str option.inject)

lemma booking_normalize_str [simp]:
  "booking_normalizeStatus (Some (booking_status_str st)) = booking_status_str st"
  by (cases st)
    (simp_all add: booking_normalizeStatus_def toUpperCase_def upper_char_def trim_def is_space_def)

interpretation booking_table: audit_trail bk_id apply_booking_update bk_status
  "\<lambda>u. booking_status_str (bu_target u)"
  by unfold_locales (simp_all add: apply_booking_update.simps Let_def split: BookingStatus.splits)

lemma apply_booking_update_fields [simp]:
  "bk_status (apply_booking_update u b) = booking_status_str (bu_target u)"
  "bk_customer_id (apply_booking_update u b) = bk_customer_id b"
  "bk_worker_id (apply_booking_update u b) = bk_worker_id b"
  "bk_requirement_id (apply_booking_update u b) = bk_requirement_id b"
  "bk_job_id (apply_booking_update u b) = bk_job_id b"
  "bk_id (apply_booking_update u b) = bk_id b"
  by (simp_all add: apply_booking_update.simps Let_def split: BookingStatus.splits)

interpretation booking_cycle: ranked_lifecycle booking_step
  "\<lambda>s. s \<in> set TERMINAL_BOOKING_STATES" booking_rank
proof unfold_locales
  fix s a t
  show "s \<in> set TERMINAL_BOOKING_STATES \<Longrightarrow> \<not> booking_step s a t"
    by (auto simp: TERMINAL_BOOKING_STATES_def booking_step_def)
  show "booking_step s a t \<Longrightarrow> booking_rank t < booking_rank s"
    by (cases s; cases a) (auto simp: booking_step_def bk_rule_def)
qed

lemma booking_reason_refused:
  "startsWith (booking_reason_text r) ''Role'' \<or> startsWith (booking_reason_text r) ''Forbidden'' \<longleftrightarrow>
   (case r of BookingActionNotPermitted _ _ \<Rightarrow> False | _ \<Rightarrow> True)"
  by (cases r) simp_all

declare booking_reason_text.simps [simp del]

lemma booking_target_cancel:
  "BOOKING_TRANSITION_TABLE st a = Some rule \<Longrightarrow> br_target rule = CANCELLED \<longleftrightarrow> a = CANCEL"
  by (cases st; cases a) (auto simp: bk_rule_def)

lemma booking_canTransition_Inr:
  assumes "booking_canTransition (booking_status_str st) action actor (Some b) = Inr t"
  shows "\<exists>rule. BOOKING_TRANSITION_TABLE st action = Some rule \<and> br_target rule = t \<and>
     (ac_role actor \<in> set (br_roles rule) \<or> ac_role actor \<in> {User ADMIN, SYSTEM}) \<and>
     (br_workerMatch rule \<and> ac_role actor = User WORKER \<longrightarrow> ac_id actor = Some (bk_worker_id b)) \<and>
     (br_customerMatch rule \<and> ac_role actor = User CUSTOMER \<longrightarrow> ac_id actor = Some (bk_customer_id b))"
  using assms by (auto simp: booking_canTransition_def split: option.splits if_splits)

text \<open>
  What a successful call did: either nothing (one of the two idempotent repetitions) or one step
  of the table, written to the one row and logged.
\<close>

lemma booking_transition_InrE:
  assumes "booking_transition now i action actor reason expd d = Inr (res, d')"
    and "findUnique bk_id i (bookings d) = Some b" and "bk_status b = booking_status_str st"
  obtains (idempotent) "d' = d" "bt_isIdempotent res"
      "(action = CONFIRM_COMPLETION \<and> st = COMPLETED) \<or>
       (action = REQUEST_COMPLETION \<and> st = AWAITING_CONFIRMATION)"
    | (step) rule u where "BOOKING_TRANSITION_TABLE st action = Some rule" "bu_target u = br_target rule"
      "bu_now u = now" "bu_by u = actor_stamp actor" "\<not> bt_isIdempotent res"
      "bt_current res = br_target rule" "bt_previous res = booking_status_str st"
      "expd = None \<or> expd = Some st"
      "ac_role actor \<in> set (br_roles rule) \<or> ac_role actor \<in> {User ADMIN, SYSTEM}"
      "br_workerMatch rule \<and> ac_role actor = User WORKER \<longrightarrow> ac_id actor = Some (bk_worker_id b)"
      "br_customerMatch rule \<and> ac_role actor = User CUSTOMER \<longrightarrow> ac_id actor = Some (bk_customer_id b)"
      "action = CANCEL \<longrightarrow> reason \<noteq> None \<and> bu_reason u = trim (the reason) \<and> bu_reason u \<noteq> []"
      "d' = booking_step_effect u i (booking_status_str st) action actor reason d"
      "bt_booking res = apply_booking_update u b"
proof -
  have i: "bk_id b = i" using findUnique_Some [OF assms(2)] by simp
  have cases: "(d' = d \<and> bt_isIdempotent res \<and> ((action = CONFIRM_COMPLETION \<and> st = COMPLETED) \<or>
       (action = REQUEST_COMPLETION \<and> st = AWAITING_CONFIRMATION))) \<or>
     ((expd = None \<or> expd = Some st) \<and>
      booking_transition_fresh now b (booking_status_str st) action actor reason d = Inr (res, d'))"
    using assms booking_status_str_inj [of st COMPLETED] booking_status_str_inj [of st AWAITING_CONFIRMATION]
    by (cases expd) (auto simp: booking_transition_def Let_def split: if_splits)
  then show thesis
  proof
    assume "d' = d \<and> bt_isIdempotent res \<and> ((action = CONFIRM_COMPLETION \<and> st = COMPLETED) \<or>
       (action = REQUEST_COMPLETION \<and> st = AWAITING_CONFIRMATION))"
    then show thesis using idempotent by blast
  next
    assume f: "(expd = None \<or> expd = Some st) \<and>
      booking_transition_fresh now b (booking_status_str st) action actor reason d = Inr (res, d')"
    then obtain t where t: "booking_canTransition (booking_status_str st) action actor (Some b) = Inr t"
      by (auto simp: booking_transition_fresh_def split: sum.splits if_splits)
    from booking_canTransition_Inr [OF t] obtain rule where
      r: "BOOKING_TRANSITION_TABLE st action = Some rule" "br_target rule = t"
        "ac_role actor \<in> set (br_roles rule) \<or> ac_role actor \<in> {User ADMIN, SYSTEM}"
        "br_workerMatch rule \<and> ac_role actor = User WORKER \<longrightarrow> ac_id actor = Some (bk_worker_id b)"
        "br_customerMatch rule \<and> ac_role actor = User CUSTOMER \<longrightarrow> ac_id actor = Some (bk_customer_id b)"
      by blast
    let ?u = "\<lparr>bu_target = t, bu_now = now, bu_by = actor_stamp actor,
               bu_reason = trim (case reason of Some s \<Rightarrow> s | None \<Rightarrow> [])\<rparr>"
    from f t i have eff: "d' = booking_step_effect ?u i (booking_status_str st) action actor reason d"
        "\<not> bt_isIdempotent res" "bt_current res = t" "bt_previous res = booking_status_str st"
        "bt_booking res = apply_booking_update ?u b"
        "action = CANCEL \<longrightarrow> reason \<noteq> None \<and> bu_reason ?u = trim (the reason) \<and> bu_reason ?u \<noteq> []"
      by (auto simp: booking_transition_fresh_def booking_step_effect_def Let_def truthy_iff split: if_splits)
    show thesis by (rule step [of rule ?u]) (use r eff f in auto)
  qed
qed

lemma booking_audited_status:
  assumes "booking_audited d" "b \<in> set (bookings d)"
  obtains st where "bk_status b = booking_status_str st"
  using assms by (fastforce simp: booking_audited_def dest: booking_status_of_Some)

lemma booking_step_effect_audited:
  assumes "booking_audited d" and "findUnique bk_id i (bookings d) = Some b"
    and "bk_status b = booking_status_str st"
  shows "booking_audited (booking_step_effect u i (booking_status_str st) action actor reason d)"
proof -
  from assms(1) have dist: "distinct (map bk_id (bookings d))" by (simp add: booking_audited_def)
  have one: "bk_status x = booking_status_str st" if "x \<in> set (bookings d)" "bk_id x = i" for x
    using assms(2,3) findUnique_distinct [OF dist that(1)] that(2) by simp
  have canon: "booking_status_of (bk_status x) \<noteq> None"
    if "x \<in> set (updateMany (\<lambda>b. bk_id b = i) (apply_booking_update u) (bookings d))" for x
    using that assms(1) by (auto simp: set_updateMany booking_audited_def)
  let ?row = "booking_log_row i (booking_status_str st) (bu_target u) action actor reason"
  have "chain ''CONFIRMED'' (history_of (bk_id x) (booking_log d @ [?row])) (bk_status x)"
    if "x \<in> set (updateMany (\<lambda>b. bk_id b = i) (apply_booking_update u) (bookings d))" for x
    by (rule booking_table.chain_update [OF _ _ _ _ that])
      (use assms(1) one in \<open>auto simp: booking_audited_def booking_log_row_def\<close>)
  with dist canon show ?thesis
    by (simp add: booking_audited_def booking_step_effect_def update_booking_def
        booking_table.distinct_updateMany del: history_of_append)
qed

lemma booking_transition_audited:
  assumes aud: "booking_audited d" and t: "booking_transition now i action actor reason expd d = Inr (res, d')"
  shows "booking_audited d'"
proof -
  from t obtain b where b: "findUnique bk_id i (bookings d) = Some b"
    by (auto simp: booking_transition_def split: option.splits)
  with aud obtain st where st: "bk_status b = booking_status_str st"
    using booking_audited_status findUnique_Some by metis
  from t b st show ?thesis
  proof (cases rule: booking_transition_InrE)
    case idempotent
    with aud show ?thesis by simp
  next
    case (step rule u)
    with booking_step_effect_audited [OF aud b st] show ?thesis by simp
  qed
qed

interpretation booking_audit: invariant_system booking_exec booking_audited
proof unfold_locales
  fix d c assume I: "booking_audited d"
  then show "booking_audited (booking_exec c d)" unfolding booking_exec_def
    by (rule run_tx_preserves) (rule booking_transition_audited [OF I])
qed

lemma booking_stamped_update:
  "booking_stamped b \<Longrightarrow> (bu_target u = CANCELLED \<Longrightarrow> bu_reason u \<noteq> []) \<Longrightarrow>
   booking_stamped (apply_booking_update u b)"
  by (cases "bu_target u") (auto simp: booking_stamped_def apply_booking_update.simps)

lemma booking_transition_stamped:
  assumes aud: "booking_audited d" and st0: "\<forall>b \<in> set (bookings d). booking_stamped b"
    and t: "booking_transition now i action actor reason expd d = Inr (res, d')"
  shows "\<forall>b \<in> set (bookings d'). booking_stamped b"
proof -
  from t obtain b where b: "findUnique bk_id i (bookings d) = Some b"
    by (auto simp: booking_transition_def split: option.splits)
  with aud obtain st where st: "bk_status b = booking_status_str st"
    using booking_audited_status findUnique_Some by metis
  from t b st show ?thesis
  proof (cases rule: booking_transition_InrE)
    case idempotent
    with st0 show ?thesis by simp
  next
    case (step rule u)
    have "bu_target u = CANCELLED \<Longrightarrow> bu_reason u \<noteq> []"
      using step booking_target_cancel by metis
    with st0 step show ?thesis
      by (auto simp: booking_step_effect_def update_booking_def set_updateMany intro!: booking_stamped_update)
  qed
qed

interpretation booking_stamps: invariant_system booking_exec
  "\<lambda>d. booking_audited d \<and> (\<forall>b \<in> set (bookings d). booking_stamped b)"
proof unfold_locales
  fix d c assume "booking_audited d \<and> (\<forall>b \<in> set (bookings d). booking_stamped b)"
  then show "booking_audited (booking_exec c d) \<and> (\<forall>b \<in> set (bookings (booking_exec c d)). booking_stamped b)"
    unfolding booking_exec_def
    by (rule run_tx_preserves [where I = "\<lambda>d. booking_audited d \<and> (\<forall>b \<in> set (bookings d). booking_stamped b)"])
      (use \<open>booking_audited d \<and> (\<forall>b \<in> set (bookings d). booking_stamped b)\<close>
        booking_transition_audited booking_transition_stamped in blast)
qed

section \<open>Properties\<close>

text \<open>
  The booking lifecycle is finite: along any run of the table, each status is left at most
  once and no run has more than three transitions; a run that comes back to its start is empty.
\<close>

theorem booking_lifecycle_bounded:
  assumes "booking_cycle.run s as t"
  shows "length as + booking_rank t \<le> booking_rank s \<and> length as \<le> 3 \<and> (s = t \<longrightarrow> as = [])"
proof -
  have "booking_rank s \<le> 3" by (cases s) simp_all
  with booking_cycle.run_bound [OF assms] booking_cycle.no_cycle [of s as] assms show ?thesis by auto
qed

theorem booking_lifecycle_bounded_witness:
  "booking_cycle.run CONFIRMED [START_WORK, REQUEST_COMPLETION, CONFIRM_COMPLETION] COMPLETED \<and>
   length [START_WORK, REQUEST_COMPLETION, CONFIRM_COMPLETION] \<le> 3"
  using booking_lifecycle_bounded
      [of CONFIRMED "[START_WORK, REQUEST_COMPLETION, CONFIRM_COMPLETION]" COMPLETED]
  by (auto simp: booking_step_def bk_rule_def)

text \<open>
  A committed call of \<^verbatim>\<open>bookingStateService.transition\<close> on a booking in a status of the enum is
  either one of the two harmless repetitions, which change nothing, or exactly one step of the
  table by an actor the rule admits: the worker of the booking for the steps that require the
  assigned worker, its customer for the confirmation, with a non-blank reason for a cancellation,
  and with the row and one audit row as its only writes.
\<close>

theorem booking_transition_sound:
  assumes "booking_transition now i action actor reason expd d = Inr (res, d')"
    and "findUnique bk_id i (bookings d) = Some b" and "bk_status b = booking_status_str st"
  shows "(bt_isIdempotent res \<and> d' = d \<and> bt_current res = st \<and> \<not> booking_step st action (bt_current res)) \<or>
     (\<not> bt_isIdempotent res \<and> booking_step st action (bt_current res) \<and> expd \<in> {None, Some st} \<and>
      (ac_role actor = User WORKER \<and> action \<in> {START_WORK, REQUEST_COMPLETION}
         \<longrightarrow> ac_id actor = Some (bk_worker_id b)) \<and>
      (ac_role actor = User CUSTOMER \<longrightarrow> action = CANCEL \<or>
         (action = CONFIRM_COMPLETION \<and> ac_id actor = Some (bk_customer_id b))) \<and>
      (action = CANCEL \<longrightarrow> truthy (map_option trim reason)) \<and>
      findUnique bk_id i (bookings d') = Some (bt_booking res) \<and>
      bk_status (bt_booking res) = booking_status_str (bt_current res) \<and>
      (\<forall>k. k \<noteq> i \<longrightarrow> findUnique bk_id k (bookings d') = findUnique bk_id k (bookings d)) \<and>
      booking_log d' = booking_log d @ [booking_log_row i (bk_status b) (bt_current res) action actor reason] \<and>
      d' = d\<lparr>bookings := bookings d', booking_log := booking_log d'\<rparr>)"
  using assms
proof (cases rule: booking_transition_InrE)
  case idempotent
  with assms show ?thesis
    by (auto simp: booking_transition_def booking_step_def Let_def split: if_splits)
next
  case (step rule u)
  have fu: "findUnique bk_id i (bookings d') = Some (bt_booking res)"
    using step assms(2)
    by (simp add: booking_step_effect_def update_booking_def booking_table.findUnique_update_same)
  have frame: "\<forall>k. k \<noteq> i \<longrightarrow> findUnique bk_id k (bookings d') = findUnique bk_id k (bookings d)"
    using step by (simp add: booking_step_effect_def update_booking_def booking_table.findUnique_update_other)
  have rest: "booking_log d' = booking_log d @ [booking_log_row i (bk_status b) (bt_current res) action actor reason]"
      "d' = d\<lparr>bookings := bookings d', booking_log := booking_log d'\<rparr>"
      "bk_status (bt_booking res) = booking_status_str (bt_current res)"
      "booking_step st action (bt_current res)"
    using step assms(3) by (simp_all add: booking_step_effect_def update_booking_def booking_step_def)
  have roles: "(ac_role actor = User WORKER \<and> action \<in> {START_WORK, REQUEST_COMPLETION}
         \<longrightarrow> ac_id actor = Some (bk_worker_id b)) \<and>
      (ac_role actor = User CUSTOMER \<longrightarrow> action = CANCEL \<or>
         (action = CONFIRM_COMPLETION \<and> ac_id actor = Some (bk_customer_id b)))"
    using step by (cases st; cases action) (auto simp: bk_rule_def)
  have "action = CANCEL \<longrightarrow> truthy (map_option trim reason)"
    using step by (auto simp: truthy_iff)
  with fu frame rest roles step show ?thesis by simp
qed

definition sample_booking :: booking where
  "sample_booking = \<lparr>bk_id = ''b1'', bk_job_id = ''j1'', bk_requirement_id = ''r1'', bk_worker_id = ''w1'',
     bk_customer_id = ''c1'', bk_status = ''CONFIRMED'', bk_otp_hash = Some ''h'', bk_otp_verified = False,
     bk_otp_expires_at = Some 100, bk_otp_attempts = Some 0, bk_otp_locked_at = None,
     bk_otp_consumed_at = None, bk_verified_at = None, bk_verified_by = None, bk_started_at = None,
     bk_completion_requested_at = None, bk_completed_at = None, bk_cancelled_at = None,
     bk_cancelled_by = None, bk_cancellation_reason = None, bk_confirmed_at = None,
     bk_confirmed_by = None, bk_updated_at = 0\<rparr>"

definition sample_booking_db :: db where
  "sample_booking_db = empty_db\<lparr>bookings := [sample_booking]\<rparr>"

lemma sample_booking_normal: "booking_normalizeStatus (Some ''CONFIRMED'') = ''CONFIRMED''"
  using booking_normalize_str [of CONFIRMED] by simp

lemma sample_booking_found: "findUnique bk_id ''b1'' (bookings sample_booking_db) = Some sample_booking"
  by (simp add: sample_booking_db_def sample_booking_def findUnique_def)

lemma sample_booking_starts:
  "\<exists>res d'. booking_transition 5 ''b1'' START_WORK (user_actor ''w1'' WORKER) None None sample_booking_db
     = Inr (res, d')"
  by (simp add: booking_transition_def sample_booking_found Let_def booking_transition_fresh_def
      booking_canTransition_def sample_booking_def sample_booking_normal booking_status_of_def bk_rule_def
      user_actor_def)

theorem booking_transition_sound_witness:
  "\<exists>res d'. booking_transition 5 ''b1'' START_WORK (user_actor ''w1'' WORKER) None None sample_booking_db
     = Inr (res, d') \<and> (bt_isIdempotent res \<or> booking_step CONFIRMED START_WORK (bt_current res))"
proof -
  from sample_booking_starts obtain res d' where
    t: "booking_transition 5 ''b1'' START_WORK (user_actor ''w1'' WORKER) None None sample_booking_db
       = Inr (res, d')" by blast
  from booking_transition_sound [OF t sample_booking_found, of CONFIRMED] t show ?thesis
    by (auto simp: sample_booking_def)
qed

text \<open>
  After any schedule of transition calls, failing ones included, every booking's audit rows
  still replay from \<^verbatim>\<open>CONFIRMED\<close> to its status, a COMPLETED booking says when it was completed and
  who confirmed it, and a CANCELLED booking says when, by whom and why: the columns the database
  constraint on cancellations demands are always written together.
\<close>

theorem booking_schedule_invariant:
  assumes "booking_audited d" and "\<forall>b \<in> set (bookings d). booking_stamped b"
    and "b \<in> set (bookings (fold booking_exec cs d))"
  shows "chain ''CONFIRMED'' (history_of (bk_id b) (booking_log (fold booking_exec cs d))) (bk_status b) \<and>
     booking_stamped b"
  using booking_stamps.fold_inv [of d cs] assms by (auto simp: booking_audited_def)

theorem booking_schedule_invariant_witness:
  "list_all booking_stamped (bookings (fold booking_exec [\<lparr>bc_now = 5, bc_booking = ''b1'',
     bc_action = CANCEL, bc_actor = system_actor, bc_reason = Some ''rain'', bc_expected = None\<rparr>]
     sample_booking_db))"
proof -
  have "booking_audited sample_booking_db" "\<forall>b \<in> set (bookings sample_booking_db). booking_stamped b"
    by (simp_all add: booking_audited_def booking_stamped_def sample_booking_db_def sample_booking_def
        booking_status_of_def history_of_def empty_db_def)
  from booking_schedule_invariant [OF this] show ?thesis unfolding list_all_iff by blast
qed

end
