(* ===== verification/Wave_Planner.thy ===== *)
theory Wave_Planner
  imports Schema
begin

text \<open>
  Dispatch waves: the validated configuration of \<^verbatim>\<open>src/config/dispatchWaveConfig.ts\<close>, the pure
  planner of \<^verbatim>\<open>src/features/dispatch/wavePlanner.ts\<close> and the deterministic operation ids of
  \<^verbatim>\<open>src/features/dispatch/dispatchOperation.ts\<close>. The conversion \<^verbatim>\<open>Number(string)\<close> of a radius and
  the SHA-256 digest are arguments of the definitions that use them.
\<close>

section \<open>Numbers and strings\<close>

definition MAX_SAFE_INTEGER :: int where
  "MAX_SAFE_INTEGER = 9007199254740991"

definition isSafeInteger :: "int \<Rightarrow> bool" where
  "isSafeInteger v \<longleftrightarrow> - MAX_SAFE_INTEGER \<le> v \<and> v \<le> MAX_SAFE_INTEGER"

definition is_digit :: "char \<Rightarrow> bool" where
  "is_digit c = (let n = (of_char c :: nat) in 48 \<le> n \<and> n \<le> 57)"

definition digit_val :: "char \<Rightarrow> int" where
  "digit_val c = int (of_char c) - 48"

text \<open>\<^verbatim>\<open>Number(value)\<close> of a string of decimal digits.\<close>

definition decimal_val :: "string \<Rightarrow> int" where
  "decimal_val s = foldl (\<lambda>acc c. acc * 10 + digit_val c) 0 s"

text \<open>\<^verbatim>\<open>String(n)\<close> of a natural number.\<close>

fun digits :: "nat \<Rightarrow> string" where
  "digits n = (if n < 10 then [char_of (n + 48)] else digits (n div 10) @ [char_of (n mod 10 + 48)])"

declare digits.simps [simp del]

text \<open>\<^verbatim>\<open>value.split(',')\<close>\<close>

fun split_on :: "char \<Rightarrow> string \<Rightarrow> string list" where
  "split_on c [] = [[]]"
| "split_on c (x # xs) =
     (if x = c then [] # split_on c xs
      else (case split_on c xs of [] \<Rightarrow> [[x]] | p # ps \<Rightarrow> (x # p) # ps))"

section \<open>Configuration\<close>

record DispatchWaveConfiguration =
  workerMultiplier :: int
  radiusMetersByWave :: "int list"
  timeoutMs :: int
  maxWaves :: int

definition positiveInteger :: "string option \<Rightarrow> int \<Rightarrow> error + int" where
  "positiveInteger v fallback =
     (case v of None \<Rightarrow> Inr fallback
      | Some s \<Rightarrow>
          if trim s = [] then Inr fallback
          else if \<not> (s \<noteq> [] \<and> list_all is_digit s) then Inl (PlainError ''must be a positive integer'')
          else let parsed = decimal_val s in
            if \<not> isSafeInteger parsed \<or> parsed \<le> 0 then Inl (PlainError ''must be a positive integer'')
            else Inr parsed)"

definition positive_safe :: "js_number \<Rightarrow> bool" where
  "positive_safe r \<longleftrightarrow> js_isInteger r \<and> isSafeInteger (js_int r) \<and> 0 < js_int r"

definition radiusList :: "(string \<Rightarrow> js_number) \<Rightarrow> string option \<Rightarrow> error + int list" where
  "radiusList toNumber v =
     (if v = None \<or> trim (the v) = [] then Inr [3000, 5000, 10000, 15000]
      else let radii = map (\<lambda>item. toNumber (trim item)) (split_on (CHR '','') (the v)) in
        if radii = [] \<or> list_ex (\<lambda>r. \<not> positive_safe r) radii
        then Inl (PlainError ''DISPATCH_WAVE_RADII_METERS must be comma-separated positive integer metres'')
        else Inr (map js_int radii))"

record wave_env =
  DISPATCH_WAVE_RADII_METERS :: "string option"
  DISPATCH_MAX_WAVES :: "string option"
  DISPATCH_WAVE_WORKER_MULTIPLIER :: "string option"
  DISPATCH_WAVE_TIMEOUT_MS :: "string option"

definition getDispatchWaveConfiguration ::
  "(string \<Rightarrow> js_number) \<Rightarrow> wave_env \<Rightarrow> error + DispatchWaveConfiguration" where
  "getDispatchWaveConfiguration toNumber env =
     (case radiusList toNumber (DISPATCH_WAVE_RADII_METERS env) of Inl e \<Rightarrow> Inl e
      | Inr radii \<Rightarrow>
     (case positiveInteger (DISPATCH_MAX_WAVES env) (int (length radii)) of Inl e \<Rightarrow> Inl e
      | Inr maxW \<Rightarrow>
          if maxW > int (length radii)
          then Inl (PlainError ''DISPATCH_MAX_WAVES cannot exceed configured DISPATCH_WAVE_RADII_METERS entries'')
          else
     (case positiveInteger (DISPATCH_WAVE_WORKER_MULTIPLIER env) 2 of Inl e \<Rightarrow> Inl e
      | Inr mult \<Rightarrow>
     (case positiveInteger (DISPATCH_WAVE_TIMEOUT_MS env) 30000 of Inl e \<Rightarrow> Inl e
      | Inr t \<Rightarrow> Inr \<lparr>workerMultiplier = mult, radiusMetersByWave = take (nat maxW) radii,
                      timeoutMs = t, maxWaves = maxW\<rparr>))))"

section \<open>The planner\<close>

record DispatchWavePlan =
  pl_waveNumber :: int
  pl_remainingCapacity :: int
  pl_targetCandidateCount :: int
  pl_radiusMeters :: "int option"
  pl_timeoutMs :: int
  pl_isFinalAllowedWave :: bool
  pl_canDispatch :: bool
  pl_shouldTryNextWave :: bool

definition nonNegativeInteger :: "int \<Rightarrow> bool" where
  "nonNegativeInteger v \<longleftrightarrow> isSafeInteger v \<and> 0 \<le> v"

text \<open>
  Counts are integers (they come from integer columns and query counts); a radius beyond the end
  of the array is \<^verbatim>\<open>undefined\<close>, here \<open>None\<close>. The product is exact: both factors are far below the
  width at which a double loses integers.
\<close>

definition planDispatchWave ::
  "DispatchWaveConfiguration \<Rightarrow> int \<Rightarrow> int \<Rightarrow> int \<Rightarrow> int option \<Rightarrow> bool \<Rightarrow> error + DispatchWavePlan" where
  "planDispatchWave cfg needed assigned wave availableCandidates candidatesExhausted =
     (if \<not> nonNegativeInteger needed then Inl (PlainError ''workerCountNeeded must be a non-negative safe integer'')
      else if \<not> nonNegativeInteger assigned
      then Inl (PlainError ''workersAlreadyAssigned must be a non-negative safe integer'')
      else if \<not> nonNegativeInteger wave then Inl (PlainError ''waveNumber must be a non-negative safe integer'')
      else if wave = 0 then Inl (PlainError ''waveNumber must start at 1'')
      else if availableCandidates \<noteq> None \<and> \<not> nonNegativeInteger (the availableCandidates)
      then Inl (PlainError ''availableCandidates must be a non-negative safe integer'')
      else
        let remaining = max 0 (needed - assigned);
            isFinal = (wave \<ge> maxWaves cfg);
            allowedWave = (wave \<le> maxWaves cfg);
            byCapacity = remaining * workerMultiplier cfg;
            target = (case availableCandidates of None \<Rightarrow> byCapacity | Some n \<Rightarrow> min byCapacity n);
            canDispatch = (allowedWave \<and> remaining > 0 \<and> target > 0);
            idx = min wave (maxWaves cfg) - 1
        in Inr \<lparr>pl_waveNumber = wave, pl_remainingCapacity = remaining, pl_targetCandidateCount = target,
                pl_radiusMeters = (if 0 \<le> idx \<and> idx < int (length (radiusMetersByWave cfg))
                                   then Some (radiusMetersByWave cfg ! nat idx) else None),
                pl_timeoutMs = timeoutMs cfg, pl_isFinalAllowedWave = isFinal,
                pl_canDispatch = canDispatch,
                pl_shouldTryNextWave = (canDispatch \<and> \<not> isFinal \<and> \<not> candidatesExhausted)\<rparr>)"

section \<open>Operation ids\<close>

definition dispatch_canonicalKey :: "string option \<Rightarrow> int option \<Rightarrow> string option \<Rightarrow> string" where
  "dispatch_canonicalKey requirementId waveNumber operationType =
     (let reqId = toLowerCase (trim (js_or requirementId []));
          waveNum = (case waveNumber of Some n \<Rightarrow> (if n > 0 then n else 1) | None \<Rightarrow> 1);
          opType = toUpperCase (trim (js_or operationType ''WAVE_DISPATCH''))
      in ''req:'' @ reqId @ '':wave:'' @ digits (nat waveNum) @ '':type:'' @ opType)"

definition generateDispatchOperationId ::
  "(string \<Rightarrow> string) \<Rightarrow> string option \<Rightarrow> int option \<Rightarrow> string option \<Rightarrow> string" where
  "generateDispatchOperationId sha256hex requirementId waveNumber operationType =
     ''disp_op_'' @ take 32 (sha256hex (dispatch_canonicalKey requirementId waveNumber operationType))"

definition validateDispatchOperationId ::
  "(string \<Rightarrow> string) \<Rightarrow> string \<Rightarrow> string option \<Rightarrow> int option \<Rightarrow> string option \<Rightarrow> bool" where
  "validateDispatchOperationId sha256hex operationId requirementId waveNumber operationType =
     (if operationId = [] then False
      else operationId = generateDispatchOperationId sha256hex requirementId waveNumber operationType)"

section \<open>Lemmas\<close>

lemma decimal_val_snoc [simp]: "decimal_val (s @ [c]) = decimal_val s * 10 + digit_val c"
  by (simp add: decimal_val_def)

lemma digit_val_char [simp]: "n < 10 \<Longrightarrow> digit_val (char_of (n + 48 :: nat)) = int n"
  by (simp add: digit_val_def)

lemma decimal_digits: "decimal_val (digits n) = int n"
proof (induction n rule: digits.induct)
  case (1 n)
  show ?case
  proof (cases "n < 10")
    case True
    then have "decimal_val ([] @ [char_of (n + 48)]) = int n"
      by (simp only: decimal_val_snoc digit_val_char) (simp add: decimal_val_def)
    with True show ?thesis by (simp add: digits.simps [of n])
  next
    case False
    then have "digits n = digits (n div 10) @ [char_of (n mod 10 + 48)]" by (simp add: digits.simps [of n])
    with 1 False show ?thesis by (simp add: of_nat_div of_nat_mod)
  qed
qed

lemma digits_inj [simp]: "digits a = digits b \<longleftrightarrow> a = b"
  by (metis decimal_digits of_nat_eq_iff)

lemma digits_all: "list_all is_digit (digits n)"
proof (induction n rule: digits.induct)
  case (1 n)
  have d: "m < 10 \<Longrightarrow> is_digit (char_of (m + 48 :: nat))" for m by (simp add: is_digit_def)
  from 1 d show ?case by (cases "n < 10") (simp_all add: digits.simps [of n])
qed

lemma positiveInteger_pos: "positiveInteger v f = Inr n \<Longrightarrow> 0 < f \<Longrightarrow> 0 < n"
  by (auto simp: positiveInteger_def Let_def split: option.splits if_splits)

lemma radiusList_pos:
  "radiusList f v = Inr rs \<Longrightarrow> rs \<noteq> [] \<and> (\<forall>r \<in> set rs. 0 < r)"
  by (auto simp: radiusList_def Let_def positive_safe_def list_ex_iff split: if_splits)

definition wave_config_ok :: "DispatchWaveConfiguration \<Rightarrow> bool" where
  "wave_config_ok c \<longleftrightarrow> 1 \<le> maxWaves c \<and> int (length (radiusMetersByWave c)) = maxWaves c \<and>
     (\<forall>r \<in> set (radiusMetersByWave c). 0 < r) \<and> 1 \<le> workerMultiplier c \<and> 0 < timeoutMs c"

lemma wave_config_valid:
  assumes "getDispatchWaveConfiguration f env = Inr c"
  shows "wave_config_ok c"
proof -
  from assms obtain rs m where rs: "radiusList f (DISPATCH_WAVE_RADII_METERS env) = Inr rs"
    and m: "positiveInteger (DISPATCH_MAX_WAVES env) (int (length rs)) = Inr m" "m \<le> int (length rs)"
    and c: "radiusMetersByWave c = take (nat m) rs" "maxWaves c = m"
    and w: "positiveInteger (DISPATCH_WAVE_WORKER_MULTIPLIER env) 2 = Inr (workerMultiplier c)"
    and t: "positiveInteger (DISPATCH_WAVE_TIMEOUT_MS env) 30000 = Inr (timeoutMs c)"
    by (auto simp: getDispatchWaveConfiguration_def split: sum.splits if_splits)
  from radiusList_pos [OF rs] have "0 < m" using positiveInteger_pos [OF m(1)] by simp
  moreover have "\<forall>r \<in> set (take (nat m) rs). 0 < r"
    using radiusList_pos [OF rs] by (meson in_set_takeD)
  ultimately show ?thesis
    using m c positiveInteger_pos [OF w] positiveInteger_pos [OF t] by (simp add: wave_config_ok_def)
qed

lemma plan_ok:
  assumes "wave_config_ok c" and "nonNegativeInteger needed" "nonNegativeInteger assigned"
    and "nonNegativeInteger wave" "1 \<le> wave" and "\<forall>n. avail = Some n \<longrightarrow> nonNegativeInteger n"
  obtains p where "planDispatchWave c needed assigned wave avail exh = Inr p"
    "\<exists>r > 0. pl_radiusMeters p = Some r"
    "pl_remainingCapacity p = max 0 (needed - assigned)"
    "0 \<le> pl_targetCandidateCount p" "pl_targetCandidateCount p \<le> pl_remainingCapacity p * workerMultiplier c"
    "pl_canDispatch p \<longleftrightarrow> wave \<le> maxWaves c \<and> assigned < needed \<and> avail \<noteq> Some 0"
    "pl_shouldTryNextWave p \<longleftrightarrow> pl_canDispatch p \<and> wave < maxWaves c \<and> \<not> exh"
proof -
  let ?i = "min wave (maxWaves c) - 1"
  have i: "0 \<le> ?i" "?i < int (length (radiusMetersByWave c))"
    using assms by (auto simp: wave_config_ok_def)
  then have "radiusMetersByWave c ! nat ?i \<in> set (radiusMetersByWave c)" by (simp add: nat_less_iff)
  with assms(1) have r: "0 < radiusMetersByWave c ! nat ?i" by (simp add: wave_config_ok_def)
  have mult: "1 \<le> workerMultiplier c" using assms(1) by (simp add: wave_config_ok_def)
  have prod: "0 \<le> max 0 (needed - assigned) * workerMultiplier c"
    "0 < max 0 (needed - assigned) * workerMultiplier c \<longleftrightarrow> assigned < needed"
    using mult by (auto simp: zero_less_mult_iff)
  from assms(2-6) i show thesis
    by (intro that [of "the (case planDispatchWave c needed assigned wave avail exh of Inr p \<Rightarrow> Some p | _ \<Rightarrow> None)"])
      (use r prod in \<open>auto simp: planDispatchWave_def Let_def nonNegativeInteger_def split: option.splits\<close>)
qed

section \<open>Properties\<close>

text \<open>
  A configuration that is accepted is safe to plan with: for every wave from 1 on and all
  non-negative counts the planner returns a plan, its radius exists and is positive, it asks for
  at most the remaining slots times the multiplier, and it dispatches exactly when the wave is
  within the inclusive maximum, a slot is still free and candidates are not known to be absent.
\<close>

theorem planner_total:
  assumes "getDispatchWaveConfiguration toNumber env = Inr c"
    and "nonNegativeInteger needed" "nonNegativeInteger assigned" "nonNegativeInteger wave" "1 \<le> wave"
  shows "\<exists>p. planDispatchWave c needed assigned wave None exh = Inr p \<and>
     (\<exists>r > 0. pl_radiusMeters p = Some r) \<and>
     0 \<le> pl_targetCandidateCount p \<and>
     pl_targetCandidateCount p \<le> max 0 (needed - assigned) * workerMultiplier c \<and>
     (pl_canDispatch p \<longleftrightarrow> wave \<le> maxWaves c \<and> assigned < needed)"
  by (rule plan_ok [OF wave_config_valid [OF assms(1)] assms(2-5), of None exh]) auto

definition default_env :: wave_env where
  "default_env = \<lparr>DISPATCH_WAVE_RADII_METERS = None, DISPATCH_MAX_WAVES = None,
     DISPATCH_WAVE_WORKER_MULTIPLIER = None, DISPATCH_WAVE_TIMEOUT_MS = None\<rparr>"

definition default_config :: DispatchWaveConfiguration where
  "default_config = \<lparr>workerMultiplier = 2, radiusMetersByWave = [3000, 5000, 10000, 15000],
     timeoutMs = 30000, maxWaves = 4\<rparr>"

lemma default_configuration: "getDispatchWaveConfiguration (\<lambda>_. NaN) default_env = Inr default_config"
  by (simp add: getDispatchWaveConfiguration_def default_env_def default_config_def radiusList_def
      positiveInteger_def)

theorem planner_total_witness:
  "\<exists>p. planDispatchWave default_config 3 1 4 None False = Inr p \<and> pl_canDispatch p"
  using planner_total [OF default_configuration, of 3 1 4 False]
  by (auto simp: nonNegativeInteger_def isSafeInteger_def MAX_SAFE_INTEGER_def default_config_def)

text \<open>
  Operation ids identify the wave: ids of the same requirement and type for two different
  positive wave numbers differ, unless the truncated digests of their two keys collide.
\<close>

theorem operation_id_per_wave:
  assumes "0 < m" and "0 < n" and "m \<noteq> n"
    and "dispatch_canonicalKey (Some r) (Some m) t \<noteq> dispatch_canonicalKey (Some r) (Some n) t \<Longrightarrow>
      take 32 (sha256hex (dispatch_canonicalKey (Some r) (Some m) t))
        \<noteq> take 32 (sha256hex (dispatch_canonicalKey (Some r) (Some n) t))"
  shows "generateDispatchOperationId sha256hex (Some r) (Some m) t
     \<noteq> generateDispatchOperationId sha256hex (Some r) (Some n) t"
proof -
  have "nat m \<noteq> nat n" using assms(1-3) by auto
  then have "dispatch_canonicalKey (Some r) (Some m) t \<noteq> dispatch_canonicalKey (Some r) (Some n) t"
    using assms(1,2) by (simp add: dispatch_canonicalKey_def Let_def)
  with assms(4) show ?thesis by (simp add: generateDispatchOperationId_def)
qed

theorem operation_id_per_wave_witness:
  "generateDispatchOperationId id (Some ''a'') (Some 1) None
     \<noteq> generateDispatchOperationId id (Some ''a'') (Some 2) None"
  by (rule operation_id_per_wave)
    (simp_all add: dispatch_canonicalKey_def js_or_def toLowerCase_def lower_char_def trim_def
      is_space_def digits.simps)

end
