(* ===== verification/Policies.thy ===== *)
theory Policies
  imports Schema
begin

text \<open>
  The authorization policies of \<^verbatim>\<open>src/policies\<close>: the decision functions of every resource and
  the query scopes that push the same decision into the database. The locale \<open>scoped_policy\<close>
  states the contract between the two, that a scope selects exactly the rows the decision
  function admits, and derives what a service may rely on when it reads through a scope.
\<close>

section \<open>Decisions\<close>

text \<open>\<open>Denied\<close> carries the HTTP status and the code; the reason texts are left out.\<close>

datatype PolicyDecision = Allowed | Denied int string

fun assertPolicy :: "PolicyDecision \<Rightarrow> error + unit" where
  "assertPolicy Allowed = Inr ()"
| "assertPolicy (Denied s c) = Inl (AuthorizationError s c)"

definition NIL_UUID :: uuid where
  "NIL_UUID = ''00000000-0000-0000-0000-000000000000''"

text \<open>\<^verbatim>\<open>xs?.some((x) => x.worker_id === id)\<close>\<close>

definition some_worker :: "uuid \<Rightarrow> uuid list option \<Rightarrow> bool" where
  "some_worker i ws = (case ws of None \<Rightarrow> False | Some l \<Rightarrow> i \<in> set l)"

text \<open>The filter on an optional id: absent, it selects every row.\<close>

definition id_filter :: "uuid option \<Rightarrow> uuid \<Rightarrow> bool" where
  "id_filter i k = (truthy i \<longrightarrow> i = Some k)"

section \<open>Bookings\<close>

definition booking_canRead :: "AuthenticatedUser \<Rightarrow> booking \<Rightarrow> PolicyDecision" where
  "booking_canRead actor b =
     (if au_role actor = ADMIN then Allowed
      else if au_role actor = CUSTOMER then
        (if bk_customer_id b = au_id actor then Allowed else Denied 404 ''RESOURCE_NOT_FOUND'')
      else if au_role actor = WORKER then
        (if bk_worker_id b = au_id actor then Allowed else Denied 404 ''RESOURCE_NOT_FOUND'')
      else Denied 403 ''FORBIDDEN'')"

definition booking_canVerifyOtp :: "AuthenticatedUser \<Rightarrow> booking \<Rightarrow> PolicyDecision" where
  "booking_canVerifyOtp actor b =
     (if au_role actor = ADMIN then Allowed
      else if au_role actor \<noteq> WORKER then Denied 403 ''ROLE_FORBIDDEN''
      else if bk_worker_id b \<noteq> au_id actor then Denied 403 ''NOT_ASSIGNED_WORKER''
      else Allowed)"

definition booking_canComplete :: "AuthenticatedUser \<Rightarrow> booking \<Rightarrow> PolicyDecision" where
  "booking_canComplete actor b =
     (if au_role actor \<noteq> WORKER then Denied 403 ''ROLE_FORBIDDEN''
      else if bk_worker_id b \<noteq> au_id actor then Denied 403 ''NOT_ASSIGNED_WORKER''
      else Allowed)"

definition booking_canConfirmCompletion :: "AuthenticatedUser \<Rightarrow> booking \<Rightarrow> PolicyDecision" where
  "booking_canConfirmCompletion actor b =
     (if au_role actor \<noteq> CUSTOMER then Denied 403 ''ROLE_FORBIDDEN''
      else if bk_customer_id b \<noteq> au_id actor then Denied 403 ''NOT_OWNER''
      else Allowed)"

definition booking_canCancel :: "AuthenticatedUser \<Rightarrow> booking \<Rightarrow> PolicyDecision" where
  "booking_canCancel actor b =
     (if au_role actor = ADMIN then Allowed
      else if au_role actor = CUSTOMER \<and> bk_customer_id b = au_id actor then Allowed
      else if au_role actor = WORKER \<and> bk_worker_id b = au_id actor then Allowed
      else Denied 403 ''NOT_PARTICIPANT'')"

definition booking_canGetWorkerLocation :: "AuthenticatedUser \<Rightarrow> booking \<Rightarrow> PolicyDecision" where
  "booking_canGetWorkerLocation actor b =
     (if au_role actor = ADMIN then Allowed
      else if au_role actor = CUSTOMER \<and> bk_customer_id b = au_id actor then Allowed
      else Denied 403 ''NOT_OWNER'')"

definition booking_scopeRead :: "AuthenticatedUser \<Rightarrow> uuid option \<Rightarrow> booking \<Rightarrow> bool" where
  "booking_scopeRead actor bookingId b =
     (if au_role actor = ADMIN then id_filter bookingId (bk_id b)
      else if au_role actor = CUSTOMER then
        id_filter bookingId (bk_id b) \<and> bk_customer_id b = au_id actor
      else if au_role actor = WORKER then
        id_filter bookingId (bk_id b) \<and> bk_worker_id b = au_id actor
      else bk_id b = NIL_UUID)"

section \<open>Conversations\<close>

definition chat_canReadConversation :: "AuthenticatedUser \<Rightarrow> booking \<Rightarrow> PolicyDecision" where
  "chat_canReadConversation actor b =
     (let role = toLowerCase (user_role_str (au_role actor)) in
      if role = ''admin'' then Allowed
      else if role = ''customer'' \<and> bk_customer_id b = au_id actor then Allowed
      else if role = ''worker'' \<and> bk_worker_id b = au_id actor then Allowed
      else Denied 403 ''NOT_PARTICIPANT'')"

definition chat_canSendMessage :: "AuthenticatedUser \<Rightarrow> booking \<Rightarrow> PolicyDecision" where
  "chat_canSendMessage actor b = chat_canReadConversation actor b"

text \<open>A refusal to join differs from a refusal to read only in the text of its reason.\<close>

definition chat_canJoinRoom :: "AuthenticatedUser \<Rightarrow> booking \<Rightarrow> PolicyDecision" where
  "chat_canJoinRoom actor b =
     (case chat_canReadConversation actor b of Allowed \<Rightarrow> Allowed | Denied s c \<Rightarrow> Denied s c)"

definition chat_scopeBooking :: "AuthenticatedUser \<Rightarrow> uuid \<Rightarrow> booking \<Rightarrow> bool" where
  "chat_scopeBooking actor bookingId b =
     (let role = toLowerCase (user_role_str (au_role actor)) in
      if role = ''admin'' then bk_id b = bookingId
      else if role = ''customer'' then bk_id b = bookingId \<and> bk_customer_id b = au_id actor
      else if role = ''worker'' then bk_id b = bookingId \<and> bk_worker_id b = au_id actor
      else bk_id b = NIL_UUID)"

section \<open>Dispatches\<close>

definition dispatch_canRead :: "AuthenticatedUser \<Rightarrow> job_dispatch \<Rightarrow> PolicyDecision" where
  "dispatch_canRead actor p =
     (if au_role actor = ADMIN then Allowed
      else if au_role actor = WORKER then
        (if dp_worker_id p = au_id actor then Allowed else Denied 404 ''RESOURCE_NOT_FOUND'')
      else Denied 403 ''ROLE_FORBIDDEN'')"

definition dispatch_canAccept :: "AuthenticatedUser \<Rightarrow> job_dispatch \<Rightarrow> PolicyDecision" where
  "dispatch_canAccept actor p =
     (if au_role actor \<noteq> WORKER then Denied 403 ''ROLE_FORBIDDEN''
      else if dp_worker_id p \<noteq> au_id actor then Denied 403 ''NOT_ASSIGNED_WORKER''
      else Allowed)"

definition dispatch_canDecline :: "AuthenticatedUser \<Rightarrow> job_dispatch \<Rightarrow> PolicyDecision" where
  "dispatch_canDecline actor p =
     (if au_role actor \<noteq> WORKER then Denied 403 ''ROLE_FORBIDDEN''
      else if dp_worker_id p \<noteq> au_id actor then Denied 403 ''NOT_ASSIGNED_WORKER''
      else Allowed)"

text \<open>The last branch filters on the primary key, which the caller passes as \<open>rowId\<close>.\<close>

definition dispatch_scopeRead ::
  "AuthenticatedUser \<Rightarrow> uuid option \<Rightarrow> (job_dispatch \<Rightarrow> uuid) \<Rightarrow> job_dispatch \<Rightarrow> bool" where
  "dispatch_scopeRead actor requirementId rowId p =
     (if au_role actor = ADMIN then id_filter requirementId (dp_requirement_id p)
      else if au_role actor = WORKER then
        id_filter requirementId (dp_requirement_id p) \<and> dp_worker_id p = au_id actor
      else rowId p = NIL_UUID)"

section \<open>Jobs\<close>

text \<open>
  The resource a job decision sees: the row with the relations the query included, the workers of
  its bookings and, per requirement, the workers of its dispatches.
\<close>

record JobResource =
  jv_customer_id :: uuid
  jv_status :: "string option"
  jv_booking :: "uuid list option"
  jv_job_requirement :: "uuid list option list option"

definition job_hasBooking :: "AuthenticatedUser \<Rightarrow> JobResource \<Rightarrow> bool" where
  "job_hasBooking actor j = some_worker (au_id actor) (jv_booking j)"

definition job_hasDispatch :: "AuthenticatedUser \<Rightarrow> JobResource \<Rightarrow> bool" where
  "job_hasDispatch actor j = (case jv_job_requirement j of None \<Rightarrow> False
     | Some rs \<Rightarrow> list_ex (some_worker (au_id actor)) rs)"

definition job_canCreate :: "AuthenticatedUser \<Rightarrow> PolicyDecision" where
  "job_canCreate actor = (if au_role actor \<noteq> CUSTOMER then Denied 403 ''ROLE_FORBIDDEN'' else Allowed)"

definition job_canRead :: "AuthenticatedUser \<Rightarrow> JobResource \<Rightarrow> PolicyDecision" where
  "job_canRead actor j =
     (if au_role actor = ADMIN then Allowed
      else if au_role actor = CUSTOMER then
        (if jv_customer_id j = au_id actor then Allowed else Denied 404 ''RESOURCE_NOT_FOUND'')
      else if au_role actor = WORKER then
        (if job_hasBooking actor j \<or> job_hasDispatch actor j then Allowed
         else Denied 404 ''RESOURCE_NOT_FOUND'')
      else Denied 403 ''FORBIDDEN'')"

definition job_canCancel :: "AuthenticatedUser \<Rightarrow> JobResource \<Rightarrow> PolicyDecision" where
  "job_canCancel actor j =
     (if au_role actor = ADMIN then Allowed
      else if au_role actor = CUSTOMER then
        (if jv_customer_id j \<noteq> au_id actor then Denied 403 ''NOT_OWNER''
         else if jv_status j = Some ''COMPLETED'' \<or> jv_status j = Some ''CANCELLED''
         then Denied 403 ''INVALID_STATE''
         else Allowed)
      else Denied 403 ''ROLE_FORBIDDEN'')"

definition job_canCreateRequirement :: "AuthenticatedUser \<Rightarrow> JobResource \<Rightarrow> PolicyDecision" where
  "job_canCreateRequirement actor j =
     (if au_role actor = ADMIN then Allowed
      else if au_role actor = CUSTOMER then
        (if jv_customer_id j = au_id actor then Allowed else Denied 403 ''NOT_OWNER'')
      else Denied 403 ''ROLE_FORBIDDEN'')"

definition job_canReadBookings :: "AuthenticatedUser \<Rightarrow> JobResource \<Rightarrow> PolicyDecision" where
  "job_canReadBookings actor j =
     (if au_role actor = ADMIN then Allowed
      else if au_role actor = CUSTOMER then
        (if jv_customer_id j = au_id actor then Allowed else Denied 404 ''RESOURCE_NOT_FOUND'')
      else if au_role actor = WORKER then
        (if job_hasBooking actor j \<or> job_hasDispatch actor j then Allowed
         else Denied 404 ''RESOURCE_NOT_FOUND'')
      else Denied 403 ''FORBIDDEN'')"

text \<open>The relation filters of the scope, evaluated by the database.\<close>

definition job_worker_related :: "uuid \<Rightarrow> db \<Rightarrow> job \<Rightarrow> bool" where
  "job_worker_related w d j \<longleftrightarrow>
     list_ex (\<lambda>b. bk_job_id b = jb_id j \<and> bk_worker_id b = w) (bookings d) \<or>
     list_ex (\<lambda>r. rq_job_id r = jb_id j \<and>
        list_ex (\<lambda>p. dp_requirement_id p = rq_id r \<and> dp_worker_id p = w) (dispatches d)) (requirements d)"

definition job_scopeRead :: "AuthenticatedUser \<Rightarrow> uuid option \<Rightarrow> db \<Rightarrow> job \<Rightarrow> bool" where
  "job_scopeRead actor jobId d j =
     (if au_role actor = ADMIN then id_filter jobId (jb_id j)
      else if au_role actor = CUSTOMER then
        id_filter jobId (jb_id j) \<and> jb_customer_id j = au_id actor
      else if au_role actor = WORKER then
        id_filter jobId (jb_id j) \<and> job_worker_related (au_id actor) d j
      else jb_id j = NIL_UUID)"

definition job_scopeList :: "AuthenticatedUser \<Rightarrow> uuid option \<Rightarrow> db \<Rightarrow> job \<Rightarrow> bool" where
  "job_scopeList actor filterCustomerId d j =
     (if au_role actor = ADMIN then id_filter filterCustomerId (jb_customer_id j)
      else if au_role actor = CUSTOMER then jb_customer_id j = au_id actor
      else if au_role actor = WORKER then job_worker_related (au_id actor) d j
      else jb_id j = NIL_UUID)"

text \<open>\<^verbatim>\<open>include: { booking: ..., job_requirement: { include: { job_dispatch: true } } }\<close>\<close>

definition job_resource :: "db \<Rightarrow> job \<Rightarrow> JobResource" where
  "job_resource d j = \<lparr>jv_customer_id = jb_customer_id j, jv_status = Some (jb_status j),
     jv_booking = Some (map bk_worker_id (filter (\<lambda>b. bk_job_id b = jb_id j) (bookings d))),
     jv_job_requirement = Some (map (\<lambda>r. Some (map dp_worker_id
         (filter (\<lambda>p. dp_requirement_id p = rq_id r) (dispatches d))))
       (filter (\<lambda>r. rq_job_id r = jb_id j) (requirements d)))\<rparr>"

section \<open>Payments\<close>

definition payment_canCreateOrder :: "AuthenticatedUser \<Rightarrow> booking \<Rightarrow> PolicyDecision" where
  "payment_canCreateOrder actor b =
     (if au_role actor \<noteq> CUSTOMER then Denied 403 ''ROLE_FORBIDDEN''
      else if bk_customer_id b \<noteq> au_id actor then Denied 403 ''NOT_OWNER''
      else Allowed)"

definition payment_canRead :: "AuthenticatedUser \<Rightarrow> booking \<Rightarrow> PolicyDecision" where
  "payment_canRead actor b =
     (if au_role actor = ADMIN then Allowed
      else if au_role actor = CUSTOMER \<and> bk_customer_id b = au_id actor then Allowed
      else Denied 403 ''FORBIDDEN'')"

definition payment_canRefund :: "AuthenticatedUser \<Rightarrow> booking \<Rightarrow> PolicyDecision" where
  "payment_canRefund actor b =
     (if au_role actor = ADMIN then Allowed
      else if au_role actor = CUSTOMER \<and> bk_customer_id b = au_id actor then Allowed
      else Denied 403 ''NOT_OWNER'')"

definition payment_scopeRead :: "AuthenticatedUser \<Rightarrow> uuid \<Rightarrow> db \<Rightarrow> payment \<Rightarrow> bool" where
  "payment_scopeRead actor bookingId d p =
     (if au_role actor = ADMIN then py_booking_id p = bookingId
      else if au_role actor = CUSTOMER then
        py_booking_id p = bookingId \<and>
        list_ex (\<lambda>b. bk_id b = py_booking_id p \<and> bk_customer_id b = au_id actor) (bookings d)
      else py_id p = NIL_UUID)"

section \<open>Requirements\<close>

record RequirementResource =
  rv_job_customer :: "uuid option"
  rv_job_dispatch :: "uuid list option"
  rv_booking :: "uuid list option"

definition requirement_canRead :: "AuthenticatedUser \<Rightarrow> RequirementResource \<Rightarrow> PolicyDecision" where
  "requirement_canRead actor r =
     (if au_role actor = ADMIN then Allowed
      else if au_role actor = CUSTOMER then
        (if rv_job_customer r = Some (au_id actor) then Allowed else Denied 404 ''RESOURCE_NOT_FOUND'')
      else if au_role actor = WORKER then
        (if some_worker (au_id actor) (rv_job_dispatch r) \<or> some_worker (au_id actor) (rv_booking r)
         then Allowed else Denied 404 ''RESOURCE_NOT_FOUND'')
      else Denied 403 ''FORBIDDEN'')"

definition requirement_canUpdate :: "AuthenticatedUser \<Rightarrow> RequirementResource \<Rightarrow> PolicyDecision" where
  "requirement_canUpdate actor r =
     (if au_role actor = ADMIN then Allowed
      else if au_role actor = CUSTOMER then
        (if rv_job_customer r = Some (au_id actor) then Allowed else Denied 403 ''NOT_OWNER'')
      else Denied 403 ''ROLE_FORBIDDEN'')"

definition requirement_scopeRead :: "AuthenticatedUser \<Rightarrow> uuid option \<Rightarrow> db \<Rightarrow> job_requirement \<Rightarrow> bool" where
  "requirement_scopeRead actor requirementId d r =
     (if au_role actor = ADMIN then id_filter requirementId (rq_id r)
      else if au_role actor = CUSTOMER then
        id_filter requirementId (rq_id r) \<and>
        map_option jb_customer_id (findUnique jb_id (rq_job_id r) (jobs d)) = Some (au_id actor)
      else if au_role actor = WORKER then
        id_filter requirementId (rq_id r) \<and>
        (list_ex (\<lambda>b. bk_requirement_id b = rq_id r \<and> bk_worker_id b = au_id actor) (bookings d) \<or>
         list_ex (\<lambda>p. dp_requirement_id p = rq_id r \<and> dp_worker_id p = au_id actor) (dispatches d))
      else rq_id r = NIL_UUID)"

definition requirement_resource :: "db \<Rightarrow> job_requirement \<Rightarrow> RequirementResource" where
  "requirement_resource d r =
     \<lparr>rv_job_customer = map_option jb_customer_id (findUnique jb_id (rq_job_id r) (jobs d)),
      rv_job_dispatch = Some (map dp_worker_id
        (filter (\<lambda>p. dp_requirement_id p = rq_id r) (dispatches d))),
      rv_booking = Some (map bk_worker_id (filter (\<lambda>b. bk_requirement_id b = rq_id r) (bookings d)))\<rparr>"

section \<open>Reviews\<close>

definition review_canCreate :: "AuthenticatedUser \<Rightarrow> booking \<Rightarrow> PolicyDecision" where
  "review_canCreate actor b =
     (if au_role actor \<noteq> CUSTOMER then Denied 403 ''ROLE_FORBIDDEN''
      else if bk_customer_id b \<noteq> au_id actor then Denied 403 ''NOT_OWNER''
      else Allowed)"

definition review_canReadBookingReview :: "AuthenticatedUser \<Rightarrow> booking \<Rightarrow> PolicyDecision" where
  "review_canReadBookingReview actor b =
     (if au_role actor = ADMIN then Allowed
      else if au_role actor = CUSTOMER \<and> bk_customer_id b = au_id actor then Allowed
      else if au_role actor = WORKER \<and> bk_worker_id b = au_id actor then Allowed
      else Denied 403 ''NOT_PARTICIPANT'')"

definition review_canReadWorkerReviews :: "AuthenticatedUser option \<Rightarrow> PolicyDecision" where
  "review_canReadWorkerReviews actor =
     (case actor of None \<Rightarrow> Denied 403 ''UNAUTHORIZED''
      | Some a \<Rightarrow> if au_id a = [] then Denied 403 ''UNAUTHORIZED'' else Allowed)"

definition review_scopeBookingReview ::
  "AuthenticatedUser \<Rightarrow> uuid \<Rightarrow> (review \<Rightarrow> uuid) \<Rightarrow> review \<Rightarrow> bool" where
  "review_scopeBookingReview actor bookingId rowId r =
     (if au_role actor = ADMIN then rv_booking_id r = bookingId
      else if au_role actor = CUSTOMER then rv_booking_id r = bookingId \<and> rv_customer_id r = au_id actor
      else if au_role actor = WORKER then rv_booking_id r = bookingId \<and> rv_worker_id r = au_id actor
      else rowId r = NIL_UUID)"

section \<open>Workers and their documents\<close>

definition worker_canReadSelf :: "AuthenticatedUser \<Rightarrow> uuid \<Rightarrow> PolicyDecision" where
  "worker_canReadSelf actor targetWorkerId =
     (if au_role actor = ADMIN then Allowed
      else if au_role actor = WORKER \<and> au_id actor = targetWorkerId then Allowed
      else Denied 403 ''NOT_OWNER'')"

definition worker_canUpdateSelf :: "AuthenticatedUser \<Rightarrow> uuid \<Rightarrow> PolicyDecision" where
  "worker_canUpdateSelf actor targetWorkerId =
     (if au_role actor = WORKER \<and> au_id actor = targetWorkerId then Allowed
      else Denied 403 ''NOT_OWNER'')"

definition worker_canUpdateLocation :: "AuthenticatedUser \<Rightarrow> uuid \<Rightarrow> PolicyDecision" where
  "worker_canUpdateLocation actor targetWorkerId =
     (if au_role actor = WORKER \<and> au_id actor = targetWorkerId then Allowed
      else Denied 403 ''NOT_OWNER'')"

definition worker_canReadDocuments :: "AuthenticatedUser \<Rightarrow> uuid \<Rightarrow> PolicyDecision" where
  "worker_canReadDocuments actor targetWorkerId =
     (if toLowerCase (user_role_str (au_role actor)) = user_role_str ADMIN then Allowed
      else if toLowerCase (user_role_str (au_role actor)) = user_role_str WORKER
              \<and> au_id actor = targetWorkerId then Allowed
      else Denied 403 ''DOCUMENT_ACCESS_DENIED'')"

text \<open>A document is known to the policy by its owner, \<^verbatim>\<open>document.worker_id\<close>.\<close>

definition worker_canReadDocument :: "AuthenticatedUser \<Rightarrow> uuid \<Rightarrow> PolicyDecision" where
  "worker_canReadDocument actor documentWorkerId =
     (if toLowerCase (user_role_str (au_role actor)) = user_role_str ADMIN then Allowed
      else if toLowerCase (user_role_str (au_role actor)) = user_role_str WORKER
              \<and> au_id actor = documentWorkerId then Allowed
      else Denied 403 ''DOCUMENT_ACCESS_DENIED'')"

definition worker_canDeleteDocument :: "AuthenticatedUser \<Rightarrow> uuid \<Rightarrow> PolicyDecision" where
  "worker_canDeleteDocument actor documentWorkerId =
     (if toLowerCase (user_role_str (au_role actor)) = user_role_str ADMIN then Allowed
      else if toLowerCase (user_role_str (au_role actor)) = user_role_str WORKER
              \<and> au_id actor = documentWorkerId then Allowed
      else Denied 403 ''DOCUMENT_ACCESS_DENIED'')"

definition worker_canUploadDocuments :: "AuthenticatedUser \<Rightarrow> uuid \<Rightarrow> PolicyDecision" where
  "worker_canUploadDocuments actor targetWorkerId =
     (if au_role actor = WORKER \<and> au_id actor = targetWorkerId then Allowed
      else Denied 403 ''NOT_OWNER'')"

definition worker_canAdminVerify :: "AuthenticatedUser \<Rightarrow> PolicyDecision" where
  "worker_canAdminVerify actor = (if au_role actor = ADMIN then Allowed else Denied 403 ''ROLE_FORBIDDEN'')"

definition worker_canAdminSuspend :: "AuthenticatedUser \<Rightarrow> PolicyDecision" where
  "worker_canAdminSuspend actor = (if au_role actor = ADMIN then Allowed else Denied 403 ''ROLE_FORBIDDEN'')"

definition worker_canJoinRoom :: "AuthenticatedUser \<Rightarrow> uuid \<Rightarrow> PolicyDecision" where
  "worker_canJoinRoom actor targetWorkerId =
     (if au_role actor = ADMIN then Allowed
      else if au_role actor = WORKER \<and> au_id actor = targetWorkerId then Allowed
      else Denied 403 ''FORBIDDEN'')"

text \<open>
  The read path that the services share: the scoped \<^verbatim>\<open>findFirst\<close>, then the unscoped
  \<^verbatim>\<open>findUnique\<close> with the decision asserted on the candidate, then the decision asserted on the
  row that was found; \<open>missing\<close> is the error for no row at all.
\<close>

definition policy_read ::
  "('r \<Rightarrow> bool) \<Rightarrow> ('r \<Rightarrow> bool) \<Rightarrow> ('r \<Rightarrow> PolicyDecision) \<Rightarrow> error \<Rightarrow> 'r list \<Rightarrow> error + 'r" where
  "policy_read scope isKey can missing t =
     (case findFirst scope t of
        Some r \<Rightarrow> (case assertPolicy (can r) of Inl e \<Rightarrow> Inl e | Inr _ \<Rightarrow> Inr r)
      | None \<Rightarrow> (case findFirst isKey t of
            None \<Rightarrow> Inl missing
          | Some r \<Rightarrow> (case assertPolicy (can r) of Inl e \<Rightarrow> Inl e | Inr _ \<Rightarrow> Inr r)))"

definition payment_can :: "AuthenticatedUser \<Rightarrow> db \<Rightarrow> payment \<Rightarrow> PolicyDecision" where
  "payment_can a d p = (case findUnique bk_id (py_booking_id p) (bookings d) of
     None \<Rightarrow> Denied 404 ''RESOURCE_NOT_FOUND'' | Some b \<Rightarrow> payment_canRead a b)"

text \<open>A payment row has a real id and the booking it refers to exists and is unique.\<close>

definition payment_row_ok :: "uuid \<Rightarrow> db \<Rightarrow> payment \<Rightarrow> bool" where
  "payment_row_ok i d p \<longleftrightarrow> py_id p \<noteq> NIL_UUID \<and> distinct (map bk_id (bookings d)) \<and>
     (\<exists>b \<in> set (bookings d). bk_id b = py_booking_id p)"

section \<open>Scopes and decisions agree\<close>

locale scoped_policy =
  fixes scope :: "AuthenticatedUser \<Rightarrow> uuid \<Rightarrow> 's \<Rightarrow> 'r \<Rightarrow> bool"
    and key :: "'r \<Rightarrow> uuid"
    and can :: "AuthenticatedUser \<Rightarrow> 's \<Rightarrow> 'r \<Rightarrow> PolicyDecision"
    and wf :: "uuid \<Rightarrow> 's \<Rightarrow> 'r \<Rightarrow> bool"
  assumes scope_iff: "wf i s r \<Longrightarrow> scope a i s r \<longleftrightarrow> key r = i \<and> can a s r = Allowed"
begin

lemma scoped_find:
  assumes "\<forall>r \<in> set t. wf i s r" and "findFirst (scope a i s) t = Some r"
  shows "r \<in> set t \<and> key r = i \<and> can a s r = Allowed"
  using assms scope_iff by (auto dest: findFirst_Some)

text \<open>
  The shared read path returns the row with the key exactly when the decision admits the actor,
  throws the decision's own refusal when it does not, and the missing error when there is no row.
\<close>

lemma policy_read_spec:
  assumes wf: "\<forall>r \<in> set t. wf i s r" and dist: "distinct (map key t)"
  shows "policy_read (scope a i s) (\<lambda>r. key r = i) (can a s) missing t =
     (case findUnique key i t of None \<Rightarrow> Inl missing
      | Some r \<Rightarrow> (case can a s r of Allowed \<Rightarrow> Inr r | Denied st c \<Rightarrow> Inl (AuthorizationError st c)))"
proof (cases "findFirst (scope a i s) t")
  case None
  then show ?thesis
    by (auto simp: policy_read_def findUnique_def findFirst_def split: option.splits PolicyDecision.splits)
next
  case (Some r)
  from scoped_find [OF wf Some] dist have "findUnique key i t = Some r" "can a s r = Allowed"
    using findUnique_distinct [of key t r] by auto
  with Some show ?thesis by (simp add: policy_read_def)
qed

end

declare booking_canRead_def [policy_simps] booking_scopeRead_def [policy_simps]
  chat_canReadConversation_def [policy_simps] chat_scopeBooking_def [policy_simps]
  job_canRead_def [policy_simps] job_scopeRead_def [policy_simps]
  requirement_canRead_def [policy_simps] requirement_scopeRead_def [policy_simps]
  payment_canRead_def [policy_simps] payment_scopeRead_def [policy_simps]

lemma id_filter_Some [simp]: "i \<noteq> [] \<Longrightarrow> id_filter (Some i) k \<longleftrightarrow> k = i"
  by (auto simp: id_filter_def)

lemma job_hasBooking_resource:
  "job_hasBooking a (job_resource d j) \<longleftrightarrow>
     list_ex (\<lambda>b. bk_job_id b = jb_id j \<and> bk_worker_id b = au_id a) (bookings d)"
  by (auto simp: job_hasBooking_def job_resource_def some_worker_def list_ex_iff image_iff)

lemma job_hasDispatch_resource:
  "job_hasDispatch a (job_resource d j) \<longleftrightarrow>
     list_ex (\<lambda>r. rq_job_id r = jb_id j \<and>
        list_ex (\<lambda>p. dp_requirement_id p = rq_id r \<and> dp_worker_id p = au_id a) (dispatches d)) (requirements d)"
  by (force simp: job_hasDispatch_def job_resource_def some_worker_def list_ex_iff image_iff)

lemma job_related_resource:
  "job_worker_related (au_id a) d j \<longleftrightarrow>
     job_hasBooking a (job_resource d j) \<or> job_hasDispatch a (job_resource d j)"
  by (simp add: job_worker_related_def job_hasBooking_resource job_hasDispatch_resource)

interpretation booking_access: scoped_policy
  "\<lambda>a i (_::unit). booking_scopeRead a (Some i)" bk_id "\<lambda>a _. booking_canRead a" "\<lambda>i _ _. i \<noteq> []"
proof unfold_locales
  fix i s r a assume "i \<noteq> ([]::char list)"
  then show "booking_scopeRead a (Some i) r = (bk_id r = i \<and> booking_canRead a r = Allowed)"
    by (cases "au_role a") (auto simp: policy_simps)
qed

interpretation chat_access: scoped_policy
  "\<lambda>a i (_::unit). chat_scopeBooking a i" bk_id "\<lambda>a _. chat_canReadConversation a" "\<lambda>_ _ _. True"
proof unfold_locales
  fix i s r a
  show "chat_scopeBooking a i r = (bk_id r = i \<and> chat_canReadConversation a r = Allowed)"
    by (cases "au_role a") (auto simp: policy_simps toLowerCase_def lower_char_def Let_def)
qed

interpretation job_access: scoped_policy
  "\<lambda>a i. job_scopeRead a (Some i)" jb_id "\<lambda>a d j. job_canRead a (job_resource d j)" "\<lambda>i _ _. i \<noteq> []"
proof unfold_locales
  fix i s r a assume "i \<noteq> ([]::char list)"
  then show "job_scopeRead a (Some i) s r = (jb_id r = i \<and> job_canRead a (job_resource s r) = Allowed)"
    by (cases "au_role a") (auto simp: policy_simps job_related_resource job_resource_def)
qed

interpretation requirement_access: scoped_policy
  "\<lambda>a i. requirement_scopeRead a (Some i)" rq_id
  "\<lambda>a d r. requirement_canRead a (requirement_resource d r)" "\<lambda>i _ _. i \<noteq> []"
proof unfold_locales
  fix i s r a assume "i \<noteq> ([]::char list)"
  then show "requirement_scopeRead a (Some i) s r =
      (rq_id r = i \<and> requirement_canRead a (requirement_resource s r) = Allowed)"
    by (cases "au_role a")
      (auto simp: policy_simps requirement_resource_def some_worker_def list_ex_iff image_iff)
qed

interpretation payment_access: scoped_policy
  payment_scopeRead py_booking_id payment_can payment_row_ok
proof unfold_locales
  fix i s r and a :: AuthenticatedUser assume "payment_row_ok i s r"
  then obtain b where b: "b \<in> set (bookings s)" "bk_id b = py_booking_id r"
    and dist: "distinct (map bk_id (bookings s))" and nil: "py_id r \<noteq> NIL_UUID"
    by (auto simp: payment_row_ok_def)
  have "findUnique bk_id (py_booking_id r) (bookings s) = Some b"
    using findUnique_distinct [OF dist b(1)] b(2) by simp
  moreover have "list_ex (\<lambda>x. bk_id x = py_booking_id r \<and> bk_customer_id x = au_id a) (bookings s)
      \<longleftrightarrow> bk_customer_id b = au_id a"
    unfolding list_ex_iff using b key_unique [OF dist] by metis
  ultimately show "payment_scopeRead a i s r = (py_booking_id r = i \<and> payment_can a s r = Allowed)"
    using nil by (cases "au_role a") (auto simp: policy_simps payment_can_def)
qed

section \<open>Properties\<close>

text \<open>
  Authorization pushed into the query is the authorization of the decision functions: for
  bookings, conversations, jobs, requirements and payments, a read through the scope with the
  unscoped fall-back returns the row with the id when the policy admits the actor, the policy's
  own refusal when it does not, and not-found only when no such row exists. So no service that
  reads this way leaks a row of another user or refuses a row of its own.
\<close>

theorem scoped_reads_exact:
  assumes "i \<noteq> []" and "distinct (map bk_id (bookings d))" and "distinct (map jb_id (jobs d))"
    and "distinct (map rq_id (requirements d))"
    and "distinct (map py_booking_id (payments d))" and "\<forall>p \<in> set (payments d). payment_row_ok i d p"
  shows "(policy_read (booking_scopeRead a (Some i)) (\<lambda>b. bk_id b = i) (booking_canRead a) e (bookings d) =
       (case findUnique bk_id i (bookings d) of None \<Rightarrow> Inl e
        | Some b \<Rightarrow> map_sum id (\<lambda>_. b) (assertPolicy (booking_canRead a b)))) \<and>
    (policy_read (chat_scopeBooking a i) (\<lambda>b. bk_id b = i) (chat_canReadConversation a) e (bookings d) =
       (case findUnique bk_id i (bookings d) of None \<Rightarrow> Inl e
        | Some b \<Rightarrow> map_sum id (\<lambda>_. b) (assertPolicy (chat_canReadConversation a b)))) \<and>
    (policy_read (job_scopeRead a (Some i) d) (\<lambda>j. jb_id j = i) (\<lambda>j. job_canRead a (job_resource d j))
           e (jobs d) =
       (case findUnique jb_id i (jobs d) of None \<Rightarrow> Inl e
        | Some j \<Rightarrow> map_sum id (\<lambda>_. j) (assertPolicy (job_canRead a (job_resource d j))))) \<and>
    (policy_read (requirement_scopeRead a (Some i) d) (\<lambda>r. rq_id r = i)
           (\<lambda>r. requirement_canRead a (requirement_resource d r)) e (requirements d) =
       (case findUnique rq_id i (requirements d) of None \<Rightarrow> Inl e
        | Some r \<Rightarrow> map_sum id (\<lambda>_. r) (assertPolicy (requirement_canRead a (requirement_resource d r))))) \<and>
    (policy_read (payment_scopeRead a i d) (\<lambda>p. py_booking_id p = i) (payment_can a d) e (payments d) =
       (case findUnique py_booking_id i (payments d) of None \<Rightarrow> Inl e
        | Some p \<Rightarrow> map_sum id (\<lambda>_. p) (assertPolicy (payment_can a d p))))"
  using assms
    booking_access.policy_read_spec [where t = "bookings d" and i = i and a = a and missing = e]
    chat_access.policy_read_spec [where t = "bookings d" and i = i and a = a and missing = e]
    job_access.policy_read_spec [where t = "jobs d" and i = i and s = d and a = a and missing = e]
    requirement_access.policy_read_spec [where t = "requirements d" and i = i and s = d and a = a and missing = e]
    payment_access.policy_read_spec [where t = "payments d" and i = i and s = d and a = a and missing = e]
  by (intro conjI; simp split: option.splits PolicyDecision.splits)

theorem scoped_reads_exact_witness:
  "policy_read (job_scopeRead \<lparr>au_id = ''c2'', au_role = CUSTOMER\<rparr> (Some ''j1'') empty_db) (\<lambda>j. jb_id j = ''j1'')
     (\<lambda>j. job_canRead \<lparr>au_id = ''c2'', au_role = CUSTOMER\<rparr> (job_resource empty_db j)) JobNotFoundError
     (jobs empty_db) = Inl JobNotFoundError"
  using scoped_reads_exact [of "''j1''" empty_db "\<lparr>au_id = ''c2'', au_role = CUSTOMER\<rparr>" JobNotFoundError]
  by (simp add: empty_db_def findUnique_def)

end
