(* ===== verification/Dispatch_Service.thy ===== *)
theory Dispatch_Service
  imports Job_Machine Requirement_Machine Booking_Machine Wave_Planner Policies
begin

text \<open>
  The dispatch service, \<^verbatim>\<open>src/features/dispatch/dispatchServices.ts\<close>: a worker accepts a slot (the
  non-locking pre-flight, the transaction under the requirement's row lock, the mapping of database
  errors), declines it (which may close the wave and fire the next one), and reads the waves of a
  requirement. The clock, the generated OTP with its bcrypt hash and the generated ids are fields
  of \<open>accept_input\<close>; \<open>aborted\<close> says that the database gave the transaction up (deadlock, lock
  timeout, serialization failure).
\<close>

section \<open>Job completion check\<close>

definition set_dispatch_status :: "uuid \<Rightarrow> string \<Rightarrow> db \<Rightarrow> db" where
  "set_dispatch_status jobId s d =
     d\<lparr>jobs := updateMany (\<lambda>j. jb_id j = jobId) (\<lambda>j. j\<lparr>jb_dispatch_status := s\<rparr>) (jobs d)\<rparr>"

text \<open>The errors of \<^verbatim>\<open>MARK_BOOKED\<close> that are swallowed: the job is already past the step.\<close>

definition already_booked :: "error \<Rightarrow> bool" where
  "already_booked e = (case e of
     JobInvalidTransitionError from _ \<Rightarrow>
       from \<in> {job_status_str BOOKED, job_status_str JobStatus.IN_PROGRESS, job_status_str JobStatus.COMPLETED}
   | _ \<Rightarrow> False)"

definition checkJobComplete :: "timestamp \<Rightarrow> uuid \<Rightarrow> db \<Rightarrow> error + (bool \<times> db)" where
  "checkJobComplete now jobId d =
     (if countWhere (\<lambda>r. rq_job_id r = jobId \<and> rq_status r \<noteq> req_status_str FILLED) (requirements d) = 0
      then
        let finish = (\<lambda>d1. if findUnique jb_id jobId (jobs d1) = None then Inl PrismaRecordNotFound
                           else Inr (True, set_dispatch_status jobId ''FILLED'' d1))
        in case job_transition now jobId MARK_BOOKED system_actor (Some ''All job requirements filled'') None d of
             Inr (_, d1) \<Rightarrow> finish d1
           | Inl e \<Rightarrow> if already_booked e then finish d else Inl e
      else Inr (False, d))"

section \<open>Accept\<close>

record accept_input =
  ai_requirement :: uuid
  ai_worker :: uuid
  ai_now :: timestamp
  ai_otp :: string
  ai_otp_hash :: string
  ai_otp_ttl_ms :: int
  ai_booking_id :: uuid
  ai_outbox_id :: uuid
  ai_aborted :: bool

record accept_result =
  ar_booking :: booking
  ar_otp :: string
  ar_nowFilled :: bool
  ar_newFilled :: int
  ar_needed :: int
  ar_jobId :: uuid
  ar_customerId :: uuid
  ar_skillType :: "string option"
  ar_expiredWorkerIds :: "uuid list"
  ar_jobFullyBooked :: bool

definition SLOTS_FULL :: error where
  "SLOTS_FULL = DispatchAcceptanceError ''SLOTS_FULL'' 409"

definition BOOKING_ALREADY_EXISTS :: error where
  "BOOKING_ALREADY_EXISTS = DispatchAcceptanceError ''BOOKING_ALREADY_EXISTS'' 409"

text \<open>The requirement or its job is over.\<close>

definition accept_inactive :: "job_requirement \<Rightarrow> db \<Rightarrow> bool" where
  "accept_inactive req d \<longleftrightarrow>
     toUpperCase (rq_status req) = ''CANCELLED'' \<or>
     (case findUnique jb_id (rq_job_id req) (jobs d) of None \<Rightarrow> False
      | Some j \<Rightarrow> toUpperCase (jb_status j) = ''CANCELLED'' \<or> toUpperCase (jb_status j) = ''COMPLETED'')"

definition accept_full :: "job_requirement \<Rightarrow> bool" where
  "accept_full req \<longleftrightarrow> toUpperCase (rq_status req) = ''FILLED'' \<or> rq_filled req \<ge> rq_needed req"

text \<open>\<^verbatim>\<open>findFirst({ where: { requirement_id, worker_id } })\<close> on the dispatches.\<close>

definition offer_to :: "uuid \<Rightarrow> uuid \<Rightarrow> job_dispatch \<Rightarrow> bool" where
  "offer_to r w p \<longleftrightarrow> dp_requirement_id p = r \<and> dp_worker_id p = w"

text \<open>The refusals that depend on the worker's dispatch row, shared by both phases.\<close>

definition dispatch_refusal :: "timestamp \<Rightarrow> job_requirement option \<Rightarrow> job_dispatch \<Rightarrow> error option" where
  "dispatch_refusal now req p =
     (if dp_status p = ''accepted'' then Some (DispatchAcceptanceError ''DISPATCH_ALREADY_ACCEPTED'' 409)
      else if dp_status p = ''declined'' \<or> dp_status p = ''timeout'' \<or> dp_status p = ''expired'' then
        (if dp_status p = ''expired'' \<and> req \<noteq> None \<and> accept_full (the req) then Some SLOTS_FULL
         else Some (DispatchAcceptanceError ''DISPATCH_NOT_ACTIONABLE'' 409))
      else if dp_expires_at p \<noteq> None \<and> the (dp_expires_at p) \<le> now
      then Some (DispatchAcceptanceError ''DISPATCH_EXPIRED'' 410)
      else None)"

definition accept_preflight :: "accept_input \<Rightarrow> db \<Rightarrow> error option" where
  "accept_preflight x d =
     (let preReq = findUnique rq_id (ai_requirement x) (requirements d);
          preDispatch = findFirst (offer_to (ai_requirement x) (ai_worker x)) (dispatches d)
      in if preReq \<noteq> None \<and> accept_inactive (the preReq) d
         then Some (DispatchAcceptanceError ''REQUIREMENT_CANCELLED'' 409)
         else if preReq \<noteq> None \<and> accept_full (the preReq) then Some SLOTS_FULL
         else case preDispatch of None \<Rightarrow> None
              | Some p \<Rightarrow> dispatch_refusal (ai_now x) preReq p)"

text \<open>The row that the conditional update must hit: pending, not expired, this worker's.\<close>

definition claimable :: "accept_input \<Rightarrow> job_dispatch \<Rightarrow> bool" where
  "claimable x p \<longleftrightarrow> offer_to (ai_requirement x) (ai_worker x) p \<and> dp_status p = ''pending'' \<and>
     (case dp_expires_at p of None \<Rightarrow> False | Some t \<Rightarrow> t > ai_now x)"

definition accept_unclaimed :: "accept_input \<Rightarrow> job_requirement \<Rightarrow> db \<Rightarrow> error" where
  "accept_unclaimed x req d =
     (case findFirst (offer_to (ai_requirement x) (ai_worker x)) (dispatches d) of
        None \<Rightarrow> DispatchAcceptanceError ''NO_VALID_DISPATCH'' 404
      | Some p \<Rightarrow> (case dispatch_refusal (ai_now x) (Some req) p of
            Some e \<Rightarrow> e
          | None \<Rightarrow> DispatchAcceptanceError ''DISPATCH_NOT_ACCEPTABLE'' 409))"

definition accepted_row :: "timestamp \<Rightarrow> job_dispatch \<Rightarrow> job_dispatch" where
  "accepted_row now p = p\<lparr>dp_status := ''accepted'', dp_responded_at := Some now\<rparr>"

definition expired_row :: "timestamp \<Rightarrow> job_dispatch \<Rightarrow> job_dispatch" where
  "expired_row now p = p\<lparr>dp_status := ''expired'', dp_responded_at := Some now\<rparr>"

definition new_booking :: "accept_input \<Rightarrow> job_requirement \<Rightarrow> uuid \<Rightarrow> booking" where
  "new_booking x req customer =
     \<lparr>bk_id = ai_booking_id x, bk_job_id = rq_job_id req, bk_requirement_id = ai_requirement x,
      bk_worker_id = ai_worker x, bk_customer_id = customer, bk_status = ''CONFIRMED'',
      bk_otp_hash = Some (ai_otp_hash x), bk_otp_verified = False,
      bk_otp_expires_at = Some (ai_now x + ai_otp_ttl_ms x), bk_otp_attempts = Some 0,
      bk_otp_locked_at = None, bk_otp_consumed_at = None, bk_verified_at = None, bk_verified_by = None,
      bk_started_at = None, bk_completion_requested_at = None, bk_completed_at = None,
      bk_cancelled_at = None, bk_cancelled_by = None, bk_cancellation_reason = None,
      bk_confirmed_at = None, bk_confirmed_by = None, bk_updated_at = ai_now x\<rparr>"

definition booking_confirmed_event :: "accept_input \<Rightarrow> job_requirement \<Rightarrow> uuid \<Rightarrow> notification_outbox" where
  "booking_confirmed_event x req customer =
     \<lparr>ob_id = ai_outbox_id x, ob_event_type = ''booking_confirmed'', ob_aggregate_type = ''booking'',
      ob_aggregate_id = ai_booking_id x, ob_aggregate_version = 1, ob_recipient_type = ''customer'', ob_recipient_id = customer,
      ob_payload = [(''bookingId'', JStr (ai_booking_id x)), (''jobId'', JStr (rq_job_id req)),
        (''requirementId'', JStr (ai_requirement x)), (''workerId'', JStr (ai_worker x)),
        (''skillType'', (case rq_skill_type req of Some s \<Rightarrow> JStr s | None \<Rightarrow> JNull)),
        (''otp'', JStr (ai_otp x)), (''title'', JStr ''Worker Confirmed''),
        (''body'', JStr ''A worker has accepted and confirmed your booking.'')],
      ob_status = ''PENDING'', ob_socket_status = ''PENDING'', ob_socket_sent_at = None,
      ob_socket_error = None, ob_fcm_status = ''PENDING'', ob_fcm_sent_at = None, ob_fcm_error = None,
      ob_attempts = 0, ob_max_attempts = 5, ob_available_at = ai_now x, ob_processed_at = None,
      ob_failed_at = None, ob_last_error = None,
      ob_idempotency_key = Some (''booking_confirmed:'' @ ai_booking_id x @ '':customer:'' @ customer),
      ob_acknowledged_at = None, ob_acknowledged_by = None, ob_created_at = ai_now x, ob_updated_at = ai_now x\<rparr>"

text \<open>
  The writes that can violate a database constraint: the check
  \<^verbatim>\<open>chk_job_requirement_worker_count_capacity\<close> on the counts and the unique keys of a booking and of
  an outbox row.
\<close>

definition reserve_slot :: "accept_input \<Rightarrow> job_requirement \<Rightarrow> db \<Rightarrow> error + db" where
  "reserve_slot x req d =
     (let newFilled = rq_filled req + 1;
          u = \<lparr>ru_status = Some (if newFilled \<ge> rq_needed req then ''FILLED'' else ''PARTIALLY_FILLED''),
               ru_filled = Some newFilled, ru_needed = None, ru_now = ai_now x\<rparr>
      in if newFilled < 0 \<or> newFilled > rq_needed req then Inl CheckViolation
         else Inr (update_requirement (ai_requirement x) u d))"

definition create_booking :: "booking \<Rightarrow> db \<Rightarrow> error + db" where
  "create_booking b d =
     (if list_ex (\<lambda>b'. bk_id b' = bk_id b) (bookings d) then Inl (PrismaUniqueViolation ''id'')
      else if list_ex (\<lambda>b'. bk_requirement_id b' = bk_requirement_id b \<and> bk_worker_id b' = bk_worker_id b) (bookings d)
      then Inl (PrismaUniqueViolation ''worker_id'')
      else Inr (d\<lparr>bookings := bookings d @ [b]\<rparr>))"

definition create_outbox :: "notification_outbox \<Rightarrow> db \<Rightarrow> error + db" where
  "create_outbox e d =
     (if ob_idempotency_key e \<noteq> None \<and> list_ex (\<lambda>e'. ob_idempotency_key e' = ob_idempotency_key e) (outbox d)
      then Inl (PrismaUniqueViolation ''idempotency_key'')
      else Inr (d\<lparr>outbox := outbox d @ [e]\<rparr>))"

text \<open>Step 5: the requirement is full, so the other pending offers expire and the job is checked.\<close>

definition accept_close :: "accept_input \<Rightarrow> job_requirement \<Rightarrow> db \<Rightarrow> error + ((uuid list \<times> bool) \<times> db)" where
  "accept_close x req d =
     (let open_offer = (\<lambda>p. dp_requirement_id p = ai_requirement x \<and> dp_status p = ''pending'');
          losers = map dp_worker_id (filter open_offer (dispatches d));
          d1 = d\<lparr>dispatches := updateMany open_offer (expired_row (ai_now x)) (dispatches d)\<rparr>
      in case checkJobComplete (ai_now x) (rq_job_id req) d1 of
           Inl e \<Rightarrow> Inl e
         | Inr (full, d2) \<Rightarrow> Inr ((losers, full), d2))"

text \<open>The reservation itself, from the conditional claim on.\<close>

definition accept_reserve :: "accept_input \<Rightarrow> job_requirement \<Rightarrow> db \<Rightarrow> error + (accept_result \<times> db)" where
  "accept_reserve x req d =
     (if countWhere (claimable x) (dispatches d) = 0 then Inl (accept_unclaimed x req d)
      else
        let d1 = d\<lparr>dispatches := updateMany (claimable x) (accepted_row (ai_now x)) (dispatches d)\<rparr>;
            newFilled = rq_filled req + 1;
            nowFilled = (newFilled \<ge> rq_needed req)
        in case reserve_slot x req d1 of Inl e \<Rightarrow> Inl e | Inr d2 \<Rightarrow>
          (case findUnique jb_id (rq_job_id req) (jobs d2) of None \<Rightarrow> Inl JsTypeError | Some j \<Rightarrow>
            let b = new_booking x req (jb_customer_id j) in
            (case create_booking b d2 of Inl e \<Rightarrow> Inl e | Inr d3 \<Rightarrow>
              (case create_outbox (booking_confirmed_event x req (jb_customer_id j)) d3 of Inl e \<Rightarrow> Inl e
               | Inr d4 \<Rightarrow>
                  (case (if nowFilled then accept_close x req d4 else Inr (([], False), d4)) of
                     Inl e \<Rightarrow> Inl e
                   | Inr ((losers, full), d5) \<Rightarrow>
                       Inr (\<lparr>ar_booking = b, ar_otp = ai_otp x, ar_nowFilled = nowFilled,
                             ar_newFilled = newFilled, ar_needed = rq_needed req, ar_jobId = rq_job_id req,
                             ar_customerId = jb_customer_id j, ar_skillType = rq_skill_type req,
                             ar_expiredWorkerIds = losers, ar_jobFullyBooked = full\<rparr>, d5))))))"

definition accept_tx :: "accept_input \<Rightarrow> db \<Rightarrow> error + (accept_result \<times> db)" where
  "accept_tx x d =
     (case findUnique rq_id (ai_requirement x) (requirements d) of
        None \<Rightarrow> Inl (DispatchAcceptanceError ''REQUIREMENT_NOT_FOUND'' 404)
      | Some req \<Rightarrow>
          if accept_inactive req d then Inl (DispatchAcceptanceError ''REQUIREMENT_CANCELLED'' 409)
          else if accept_full req then Inl SLOTS_FULL
          else if findFirst (\<lambda>b. bk_requirement_id b = ai_requirement x \<and> bk_worker_id b = ai_worker x)
                    (bookings d) \<noteq> None
          then Inl BOOKING_ALREADY_EXISTS
          else accept_reserve x req d)"

text \<open>The catch block; \<open>PrismaConflict\<close> stands for the codes and messages of an aborted transaction.\<close>

definition accept_map_error :: "accept_input \<Rightarrow> db \<Rightarrow> error \<Rightarrow> error" where
  "accept_map_error x d e =
     (case e of
        DispatchAcceptanceError c s \<Rightarrow> e
      | PrismaUniqueViolation target \<Rightarrow> if target = ''worker_id'' then BOOKING_ALREADY_EXISTS else e
      | CheckViolation \<Rightarrow> SLOTS_FULL
      | PrismaConflict \<Rightarrow>
          if findFirst (\<lambda>b. bk_requirement_id b = ai_requirement x \<and> bk_worker_id b = ai_worker x)
               (bookings d) \<noteq> None
          then BOOKING_ALREADY_EXISTS
          else (case findUnique rq_id (ai_requirement x) (requirements d) of
                  Some r \<Rightarrow> if accept_full r then SLOTS_FULL else e
                | None \<Rightarrow> e)
      | _ \<Rightarrow> e)"

definition acceptDispatch :: "accept_input \<Rightarrow> db \<Rightarrow> (error + accept_result) \<times> db" where
  "acceptDispatch x d =
     (case accept_preflight x d of
        Some e \<Rightarrow> (Inl e, d)
      | None \<Rightarrow>
          (case run_tx (if ai_aborted x then (\<lambda>_. Inl PrismaConflict) else accept_tx x) d of
             (Inr r, d') \<Rightarrow> (Inr r, d')
           | (Inl e, d') \<Rightarrow> (Inl (accept_map_error x d' e), d')))"

section \<open>Decline\<close>

text \<open>A job put on the dispatch queue.\<close>

record dispatch_message =
  dm_operationId :: string
  dm_requirementId :: uuid
  dm_jobId :: uuid
  dm_waveNumber :: int
  dm_offset :: int
  dm_key :: string

definition dispatch_message_for :: "(string \<Rightarrow> string) \<Rightarrow> uuid \<Rightarrow> uuid \<Rightarrow> int \<Rightarrow> dispatch_message" where
  "dispatch_message_for sha256hex requirementId jobId wave =
     \<lparr>dm_operationId = generateDispatchOperationId sha256hex (Some requirementId) (Some wave) None,
      dm_requirementId = requirementId, dm_jobId = jobId, dm_waveNumber = wave, dm_offset = 0,
      dm_key = ''dispatch:'' @ requirementId @ '':wave-'' @ digits (nat wave)\<rparr>"

text \<open>Step 1, the transaction: the pending offer is declined and the worker's count goes up.\<close>

definition decline_tx :: "timestamp \<Rightarrow> uuid \<Rightarrow> uuid \<Rightarrow> db \<Rightarrow> error + (unit \<times> db)" where
  "decline_tx now requirementId workerId d =
     (if findUnique wk_id workerId (workers d) = None then Inl PrismaRecordNotFound
      else Inr ((), d\<lparr>
        dispatches := updateMany (\<lambda>p. offer_to requirementId workerId p \<and> dp_status p = ''pending'')
          (\<lambda>p. p\<lparr>dp_status := ''declined'', dp_responded_at := Some now\<rparr>) (dispatches d),
        workers := updateMany (\<lambda>w. wk_id w = workerId)
          (\<lambda>w. w\<lparr>wk_decline_count := map_option (\<lambda>n. n + 1) (wk_decline_count w)\<rparr>) (workers d)\<rparr>))"

text \<open>
  Steps 2 and 3, outside the transaction: when nobody of the wave is pending any more, the wave
  is closed and either the next one is queued or the requirement is given up. The unique key on
  (requirement, worker) leaves at most one row for the ordered lookup.
\<close>

definition decline_follow_up ::
  "DispatchWaveConfiguration \<Rightarrow> (string \<Rightarrow> string) \<Rightarrow> timestamp \<Rightarrow> uuid \<Rightarrow> uuid \<Rightarrow> db
   \<Rightarrow> (error + dispatch_message list) \<times> db" where
  "decline_follow_up cfg sha256hex now requirementId workerId d =
     (case findFirst (offer_to requirementId workerId) (dispatches d) of
        None \<Rightarrow> (Inr [], d)
      | Some p \<Rightarrow>
          let currentWave = (case dp_wave_number p of Some n \<Rightarrow> n | None \<Rightarrow> 1);
              pendingCount = countWhere (\<lambda>q. dp_requirement_id q = requirementId
                \<and> dp_wave_number q = Some currentWave \<and> dp_status q = ''pending'') (dispatches d)
          in if pendingCount \<noteq> 0 then (Inr [], d)
             else case findUnique rq_id requirementId (requirements d) of
               None \<Rightarrow> (Inr [], d)
             | Some req \<Rightarrow>
                 if rq_status req = ''filled'' then (Inr [], d)
                 else
                   let d1 = d\<lparr>waves := updateMany
                             (\<lambda>w. wv_requirement_id w = requirementId \<and> wv_wave_number w = currentWave)
                             (\<lambda>w. w\<lparr>wv_status := ''exhausted'', wv_resolved_at := Some now\<rparr>) (waves d)\<rparr>;
                       nextWave = currentWave + 1
                   in case planDispatchWave cfg (rq_needed req) (rq_filled req) nextWave None False of
                        Inl e \<Rightarrow> (Inl e, d1)
                      | Inr plan \<Rightarrow>
                          if \<not> pl_canDispatch plan
                          then (Inr [], update_requirement requirementId
                                 \<lparr>ru_status = Some (req_status_str NO_WORKERS_AVAILABLE), ru_filled = None,
                                  ru_needed = None, ru_now = now\<rparr> d1)
                          else (Inr [dispatch_message_for sha256hex requirementId (rq_job_id req) nextWave], d1))"

text \<open>
  The whole operation: the answer with the queued messages, and the database. An exception of the
  follow-up reaches the caller with the earlier writes already committed.
\<close>

definition declineDispatch ::
  "DispatchWaveConfiguration \<Rightarrow> (string \<Rightarrow> string) \<Rightarrow> timestamp \<Rightarrow> uuid \<Rightarrow> uuid \<Rightarrow> db
   \<Rightarrow> (error + dispatch_message list) \<times> db" where
  "declineDispatch cfg sha256hex now requirementId workerId d =
     (case run_tx (decline_tx now requirementId workerId) d of
        (Inl e, d1) \<Rightarrow> (Inl e, d1)
      | (Inr _, d1) \<Rightarrow> decline_follow_up cfg sha256hex now requirementId workerId d1)"

section \<open>Reads\<close>

text \<open>\<^verbatim>\<open>ORDER BY\<close> on a nullable column: nulls come last in ascending and first in descending order.\<close>

definition order_asc :: "('r \<Rightarrow> int option) \<Rightarrow> 'r list \<Rightarrow> 'r list" where
  "order_asc key t = sort_key (\<lambda>r. the (key r)) (filter (\<lambda>r. key r \<noteq> None) t) @ filter (\<lambda>r. key r = None) t"

definition order_desc :: "('r \<Rightarrow> int option) \<Rightarrow> 'r list \<Rightarrow> 'r list" where
  "order_desc key t = filter (\<lambda>r. key r = None) t @ sort_key (\<lambda>r. - the (key r)) (filter (\<lambda>r. key r \<noteq> None) t)"

definition getIncomingDispatches :: "uuid \<Rightarrow> db \<Rightarrow> job_dispatch list" where
  "getIncomingDispatches workerId d =
     order_desc dp_notified_at
       (filter (\<lambda>p. dp_worker_id p = workerId \<and> dp_status p = ''pending'') (dispatches d))"

definition getDispatchDetail :: "uuid \<Rightarrow> uuid \<Rightarrow> db \<Rightarrow> error + job_dispatch" where
  "getDispatchDetail requirementId workerId d =
     (case findFirst (offer_to requirementId workerId) (dispatches d) of
        None \<Rightarrow> Inl (PlainError ''Dispatch not found'') | Some p \<Rightarrow> Inr p)"

definition getWaves :: "uuid \<Rightarrow> AuthenticatedUser option \<Rightarrow> db \<Rightarrow> error + (dispatch_wave list \<times> job_dispatch list)" where
  "getWaves requirementId actor d =
     (let result = Inr (sort_key wv_wave_number (filter (\<lambda>w. wv_requirement_id w = requirementId) (waves d)),
                        order_asc dp_wave_position
                          (filter (\<lambda>p. dp_requirement_id p = requirementId) (dispatches d)))
      in case actor of
           None \<Rightarrow> result
         | Some a \<Rightarrow>
             (case findUnique rq_id requirementId (requirements d) of
                None \<Rightarrow> Inl (PlainError ''Requirement not found'')
              | Some req \<Rightarrow>
                  if au_role a = CUSTOMER then
                    (if map_option jb_customer_id (findUnique jb_id (rq_job_id req) (jobs d)) \<noteq> Some (au_id a)
                     then Inl (AuthorizationError 404 ''RESOURCE_NOT_FOUND'') else result)
                  else if au_role a \<noteq> ADMIN then Inl (AuthorizationError 404 ''RESOURCE_NOT_FOUND'')
                  else result))"

section \<open>Lemmas\<close>

text \<open>One booking per requirement and worker, the unique key of the table.\<close>

definition booking_pair :: "booking \<Rightarrow> uuid \<times> uuid" where
  "booking_pair b = (bk_requirement_id b, bk_worker_id b)"

lemma ledger_cong:
  "requirements d' = requirements d \<Longrightarrow> bookings d' = bookings d \<Longrightarrow> ledger_ok d' = ledger_ok d"
  by (simp add: ledger_ok_def requirement_ok_def activeBookingsCount_def)

lemma job_transition_frame:
  assumes "job_transition now i a ac r e d = Inr (res, d')"
  shows "requirements d' = requirements d" "bookings d' = bookings d" "dispatches d' = dispatches d"
    "outbox d' = outbox d" "booking_log d' = booking_log d"
  using assms by (auto elim!: job_transition_InrE simp: job_step_effect_def)

lemma set_dispatch_status_frame [simp]:
  "requirements (set_dispatch_status i s d) = requirements d" "bookings (set_dispatch_status i s d) = bookings d"
  "dispatches (set_dispatch_status i s d) = dispatches d" "outbox (set_dispatch_status i s d) = outbox d"
  "booking_log (set_dispatch_status i s d) = booking_log d" "job_log (set_dispatch_status i s d) = job_log d"
  by (simp_all add: set_dispatch_status_def)

lemma checkJobComplete_frame:
  assumes "checkJobComplete now i d = Inr (b, d')"
  shows "requirements d' = requirements d" "bookings d' = bookings d" "dispatches d' = dispatches d"
    "outbox d' = outbox d" "booking_log d' = booking_log d"
  using assms job_transition_frame
  by (auto simp: checkJobComplete_def Let_def split: if_splits sum.splits prod.splits)

lemma active_confirmed: "bk_status b = ''CONFIRMED'' \<Longrightarrow> active_booking i b \<longleftrightarrow> bk_requirement_id b = i"
  by (simp add: active_booking_def ACTIVE_BOOKING_STATUSES_def)

lemma accept_close_frame:
  assumes "accept_close x req d = Inr ((ws, full), d')"
  shows "requirements d' = requirements d" "bookings d' = bookings d" "outbox d' = outbox d"
    "dispatches d' = updateMany (\<lambda>p. dp_requirement_id p = ai_requirement x \<and> dp_status p = ''pending'')
       (expired_row (ai_now x)) (dispatches d)" "booking_log d' = booking_log d"
  using assms checkJobComplete_frame [of "ai_now x" "rq_job_id req"]
  by (auto simp: accept_close_def Let_def split: sum.splits prod.splits)

text \<open>What a committed acceptance did.\<close>

definition accept_update :: "accept_input \<Rightarrow> job_requirement \<Rightarrow> req_update" where
  "accept_update x req =
     \<lparr>ru_status = Some (if rq_filled req + 1 \<ge> rq_needed req then ''FILLED'' else ''PARTIALLY_FILLED''),
      ru_filled = Some (rq_filled req + 1), ru_needed = None, ru_now = ai_now x\<rparr>"

lemma accept_reserve_InrE:
  assumes "accept_reserve x req d = Inr (res, d')"
  obtains j where "findUnique jb_id (rq_job_id req) (jobs d) = Some j"
    "\<exists>p \<in> set (dispatches d). claimable x p"
    "requirements d' = requirements (update_requirement (ai_requirement x) (accept_update x req) d)"
    "bookings d' = bookings d @ [new_booking x req (jb_customer_id j)]"
    "outbox d' = outbox d @ [booking_confirmed_event x req (jb_customer_id j)]"
    "booking_log d' = booking_log d"
    "ar_booking res = new_booking x req (jb_customer_id j)"
    "ar_nowFilled res \<longleftrightarrow> rq_needed req \<le> rq_filled req + 1"
    "rq_filled req + 1 \<le> rq_needed req"
    "\<forall>b \<in> set (bookings d). booking_pair b \<noteq> (ai_requirement x, ai_worker x) \<and> bk_id b \<noteq> ai_booking_id x"
    "dispatches d' = (let t = updateMany (claimable x) (accepted_row (ai_now x)) (dispatches d) in
       if ar_nowFilled res then updateMany (\<lambda>p. dp_requirement_id p = ai_requirement x \<and> dp_status p = ''pending'')
         (expired_row (ai_now x)) t else t)"
proof -
  let ?d1 = "d\<lparr>dispatches := updateMany (claimable x) (accepted_row (ai_now x)) (dispatches d)\<rparr>"
  let ?d2 = "update_requirement (ai_requirement x) (accept_update x req) ?d1"
  from assms have claim: "\<exists>p \<in> set (dispatches d). claimable x p"
    by (auto simp: accept_reserve_def table_simps split: if_splits)
  from assms have res: "reserve_slot x req ?d1 = Inr ?d2" and le: "rq_filled req + 1 \<le> rq_needed req"
    by (auto simp: accept_reserve_def reserve_slot_def accept_update_def Let_def
        split: if_splits option.splits sum.splits)
  from assms res obtain j where j: "findUnique jb_id (rq_job_id req) (jobs d) = Some j"
    by (auto simp: accept_reserve_def Let_def split: if_splits option.splits)
  let ?b = "new_booking x req (jb_customer_id j)"
  let ?e = "booking_confirmed_event x req (jb_customer_id j)"
  let ?d3 = "?d2\<lparr>bookings := bookings d @ [?b]\<rparr>"
  let ?d4 = "?d3\<lparr>outbox := outbox d @ [?e]\<rparr>"
  from assms res j have cb: "create_booking ?b ?d2 = Inr ?d3"
      and uniq: "\<forall>b \<in> set (bookings d). booking_pair b \<noteq> (ai_requirement x, ai_worker x)
        \<and> bk_id b \<noteq> ai_booking_id x"
    by (auto simp: accept_reserve_def create_booking_def Let_def list_ex_iff booking_pair_def new_booking_def
        split: if_splits)
  from assms res j cb have co: "create_outbox ?e ?d3 = Inr ?d4"
    by (auto simp: accept_reserve_def create_outbox_def Let_def update_requirement_def split: if_splits)
  obtain ws full where close: "(if rq_needed req \<le> rq_filled req + 1 then accept_close x req ?d4 else Inr (([], False), ?d4))
      = Inr ((ws, full), d')" and out: "ar_booking res = ?b" "ar_nowFilled res \<longleftrightarrow> rq_needed req \<le> rq_filled req + 1"
    using assms claim res j cb co
    by (auto simp: accept_reserve_def Let_def table_simps split: sum.splits prod.splits if_splits)
  have "requirements d' = requirements ?d4" "bookings d' = bookings ?d4" "outbox d' = outbox ?d4"
      "booking_log d' = booking_log ?d4"
      "dispatches d' = (if ar_nowFilled res then updateMany (\<lambda>p. dp_requirement_id p = ai_requirement x
          \<and> dp_status p = ''pending'') (expired_row (ai_now x)) (dispatches ?d4) else dispatches ?d4)"
    using close out accept_close_frame [of x req ?d4 ws full d'] by (auto split: if_splits)
  then show thesis
    by (intro that [OF j claim _ _ _ _ out le uniq]) (simp_all add: update_requirement_def)
qed

lemma activeBookingsCount_append:
  "bk_status b = ''CONFIRMED'' \<Longrightarrow>
   activeBookingsCount i (d\<lparr>bookings := bookings d @ [b]\<rparr>) =
     activeBookingsCount i d + (if bk_requirement_id b = i then 1 else 0)"
  by (simp add: activeBookingsCount_def active_confirmed)

lemma new_booking_fields [simp]:
  "bk_id (new_booking x req c) = ai_booking_id x" "bk_status (new_booking x req c) = ''CONFIRMED''"
  "bk_requirement_id (new_booking x req c) = ai_requirement x" "bk_worker_id (new_booking x req c) = ai_worker x"
  "bk_customer_id (new_booking x req c) = c" "bk_job_id (new_booking x req c) = rq_job_id req"
  by (simp_all add: new_booking_def)

lemma accept_tx_InrE:
  assumes "accept_tx x d = Inr (res, d')"
  obtains req where "findUnique rq_id (ai_requirement x) (requirements d) = Some req"
    "\<not> accept_inactive req d" "\<not> accept_full req" "accept_reserve x req d = Inr (res, d')"
  using assms by (auto simp: accept_tx_def split: option.splits if_splits)

lemma accept_tx_ledger:
  assumes led: "ledger_ok d" and t: "accept_tx x d = Inr (res, d')"
  shows "ledger_ok d'"
proof -
  from t obtain req where req: "findUnique rq_id (ai_requirement x) (requirements d) = Some req"
    and r: "accept_reserve x req d = Inr (res, d')" by (rule accept_tx_InrE) blast
  from r obtain j :: job where rs: "requirements d' = requirements (update_requirement (ai_requirement x) (accept_update x req) d)"
    and bs: "bookings d' = bookings d @ [new_booking x req (jb_customer_id j)]"
    and le: "rq_filled req + 1 \<le> rq_needed req" by (rule accept_reserve_InrE) blast
  let ?b = "new_booking x req (jb_customer_id j)"
  let ?e = "d\<lparr>bookings := bookings d @ [?b]\<rparr>"
  have dist: "distinct (map rq_id (requirements d))" using led by (simp add: ledger_ok_def)
  have "ledger_ok (update_requirement (ai_requirement x) (accept_update x req) ?e)"
  proof (rule update_requirement_ledger)
    show "distinct (map rq_id (requirements ?e))" using dist by simp
    fix q assume q: "q \<in> set (requirements ?e)"
    then have ok: "requirement_ok d q" using led by (simp add: ledger_ok_def)
    show "requirement_ok ?e q" if "rq_id q \<noteq> ai_requirement x"
      using ok that by (simp add: requirement_ok_def activeBookingsCount_append)
    assume qi: "rq_id q = ai_requirement x"
    then have "q = req" using findUnique_distinct [OF dist, of q] q req by simp
    with ok le qi show "requirement_ok (update_requirement (ai_requirement x) (accept_update x req) ?e)
        (apply_req_update (accept_update x req) q)"
      by (simp add: requirement_ok_def apply_req_update_def accept_update_def activeBookingsCount_append)
  qed
  then show ?thesis
    using rs bs ledger_cong [of d' "update_requirement (ai_requirement x) (accept_update x req) ?e"]
    by (simp add: update_requirement_def)
qed

text \<open>\<open>acceptDispatch\<close> either commits its transaction or leaves the database as it was.\<close>

lemma acceptDispatch_cases:
  obtains (refused) e where "acceptDispatch x d = (Inl e, d)"
    | (committed) res d' where "acceptDispatch x d = (Inr res, d')" "accept_tx x d = Inr (res, d')"
  by (cases "accept_preflight x d"; cases "ai_aborted x"; cases "accept_tx x d")
    (auto simp: acceptDispatch_def run_tx_def)

lemma acceptDispatch_ledger: "ledger_ok d \<Longrightarrow> ledger_ok (snd (acceptDispatch x d))"
  by (cases x d rule: acceptDispatch_cases) (auto intro: accept_tx_ledger)

lemma acceptDispatch_pairs:
  "distinct (map booking_pair (bookings d)) \<Longrightarrow> distinct (map booking_pair (bookings (snd (acceptDispatch x d))))"
proof (cases x d rule: acceptDispatch_cases)
  case (committed res d')
  assume dist: "distinct (map booking_pair (bookings d))"
  from committed(2) obtain req where "accept_reserve x req d = Inr (res, d')" by (rule accept_tx_InrE) blast
  then obtain j :: job where "bookings d' = bookings d @ [new_booking x req (jb_customer_id j)]"
    "\<forall>b \<in> set (bookings d). booking_pair b \<noteq> (ai_requirement x, ai_worker x) \<and> bk_id b \<noteq> ai_booking_id x"
    by (rule accept_reserve_InrE) blast
  with dist committed(1) show ?thesis by (auto simp: booking_pair_def)
qed simp

lemma decline_tx_frame:
  assumes "decline_tx now r w d = Inr (u, d')"
  shows "requirements d' = requirements d" "bookings d' = bookings d"
  using assms by (auto simp: decline_tx_def split: if_splits)

lemma status_update_ledger:
  assumes "ledger_ok d" and "ru_filled u = None" and "ru_needed u = None"
  shows "ledger_ok (update_requirement i u d)"
proof (rule update_requirement_ledger)
  show "distinct (map rq_id (requirements d))" using assms(1) by (simp add: ledger_ok_def)
  fix r assume "r \<in> set (requirements d)"
  with assms(1) have ok: "requirement_ok d r" by (simp add: ledger_ok_def)
  then show "requirement_ok d r" .
  from ok assms(2,3) show "requirement_ok (update_requirement i u d) (apply_req_update u r)"
    by (simp add: requirement_ok_def apply_req_update_def)
qed

lemma decline_follow_up_ledger:
  assumes "ledger_ok d"
  shows "ledger_ok (snd (decline_follow_up cfg h now r w d))"
proof -
  have waves: "ledger_ok (d\<lparr>waves := x\<rparr>)" for x
    using assms ledger_cong [of "d\<lparr>waves := x\<rparr>" d] by simp
  show ?thesis using assms waves
    by (simp add: decline_follow_up_def Let_def status_update_ledger split: option.splits sum.splits)
qed

lemma declineDispatch_ledger:
  assumes "ledger_ok d"
  shows "ledger_ok (snd (declineDispatch cfg h now r w d))"
proof (cases "decline_tx now r w d")
  case (Inl e)
  with assms show ?thesis by (simp add: declineDispatch_def run_tx_def)
next
  case (Inr p)
  then obtain u d1 where d1: "decline_tx now r w d = Inr (u, d1)" by (cases p) auto
  have "ledger_ok d1" using assms ledger_cong [OF decline_tx_frame [OF d1]] by simp
  with d1 decline_follow_up_ledger show ?thesis by (simp add: declineDispatch_def run_tx_def)
qed

lemma accepted_offers:
  assumes "p \<in> set t" "claimable x p"
    and "t' = (let u = updateMany (claimable x) (accepted_row now) t in
       if full then updateMany (\<lambda>p. dp_requirement_id p = ai_requirement x \<and> dp_status p = ''pending'')
         (expired_row n') u else u)"
  shows "accepted_row now p \<in> set t'"
    and "full \<Longrightarrow> q \<in> set t' \<Longrightarrow> dp_requirement_id q = ai_requirement x \<Longrightarrow> dp_status q \<noteq> ''pending''"
proof -
  let ?u = "updateMany (claimable x) (accepted_row now) t"
  have u: "accepted_row now p \<in> set ?u" using assms(1,2) by (force simp: set_updateMany)
  have keep: "(if dp_requirement_id r = ai_requirement x \<and> dp_status r = ''pending'' then expired_row n' r else r) = r"
    if "r = accepted_row now p" for r using that by (simp add: accepted_row_def)
  show "accepted_row now p \<in> set t'"
    using u keep [OF refl] unfolding assms(3) by (force simp: Let_def set_updateMany [of _ _ ?u])
  show "full \<Longrightarrow> q \<in> set t' \<Longrightarrow> dp_requirement_id q = ai_requirement x \<Longrightarrow> dp_status q \<noteq> ''pending''"
    unfolding assms(3) by (auto simp: Let_def set_updateMany [of _ _ ?u] expired_row_def split: if_splits)
qed

section \<open>Properties\<close>

text \<open>
  C3. A successful \<^verbatim>\<open>acceptDispatch\<close> means: the worker held a pending offer that had not expired;
  exactly one slot was taken, within the demand, and the requirement is \<^verbatim>\<open>FILLED\<close> exactly when the
  last slot went; exactly one CONFIRMED booking was created, for this worker, this requirement and
  the customer who owns the job, who did not have one already; the offer is accepted; exactly one
  outbox event for that customer was recorded with it; and when the requirement is full no other
  offer for it is pending.
\<close>

theorem acceptDispatch_commit:
  assumes "ledger_ok d" and "acceptDispatch x d = (Inr res, d')"
  shows "\<exists>req req' j p.
     findUnique rq_id (ai_requirement x) (requirements d) = Some req \<and>
     findUnique jb_id (rq_job_id req) (jobs d) = Some j \<and>
     p \<in> set (dispatches d) \<and> claimable x p \<and> accepted_row (ai_now x) p \<in> set (dispatches d') \<and>
     findUnique rq_id (ai_requirement x) (requirements d') = Some req' \<and>
     rq_filled req' = rq_filled req + 1 \<and> rq_needed req' = rq_needed req \<and> rq_filled req' \<le> rq_needed req' \<and>
     (rq_status req' = ''FILLED'' \<longleftrightarrow> rq_filled req' = rq_needed req') \<and>
     bookings d' = bookings d @ [ar_booking res] \<and> ar_booking res = new_booking x req (jb_customer_id j) \<and>
     (ai_requirement x, ai_worker x) \<notin> set (map booking_pair (bookings d)) \<and>
     outbox d' = outbox d @ [booking_confirmed_event x req (jb_customer_id j)] \<and>
     (rq_status req' = ''FILLED'' \<longrightarrow> filter (\<lambda>q. dp_requirement_id q = ai_requirement x \<and> dp_status q = ''pending'')
        (dispatches d') = [])"
proof -
  have t: "accept_tx x d = Inr (res, d')"
    using assms(2) by (cases x d rule: acceptDispatch_cases) auto
  from t obtain req where req: "findUnique rq_id (ai_requirement x) (requirements d) = Some req"
    and r: "accept_reserve x req d = Inr (res, d')" by (rule accept_tx_InrE) blast
  from r show ?thesis
  proof (cases rule: accept_reserve_InrE)
    case (1 j)
    from 1(2) obtain p where p: "p \<in> set (dispatches d)" "claimable x p" by blast
    note offers = accepted_offers [OF p 1(11)]
    let ?r = "apply_req_update (accept_update x req) req"
    have fu: "findUnique rq_id (ai_requirement x) (requirements d') = Some ?r"
      using req 1(3) by (simp add: update_requirement_def requirement_table.findUnique_update_same)
    have r': "rq_filled ?r = rq_filled req + 1" "rq_needed ?r = rq_needed req"
        "rq_status ?r = ''FILLED'' \<longleftrightarrow> rq_filled ?r = rq_needed ?r"
      using 1(9) by (auto simp: apply_req_update_def accept_update_def)
    have "ar_nowFilled res" if "rq_status ?r = ''FILLED''"
      using that 1(8) by (auto simp: apply_req_update_def accept_update_def split: if_splits)
    then have none: "rq_status ?r = ''FILLED'' \<longrightarrow> filter (\<lambda>q. dp_requirement_id q = ai_requirement x \<and> dp_status q = ''pending'')
        (dispatches d') = []"
      using offers(2) by (auto simp: filter_empty_conv)
    have new: "(ai_requirement x, ai_worker x) \<notin> set (map booking_pair (bookings d))" using 1(10) by auto
    show ?thesis using req 1(1,4,5,7,9) p offers(1) fu r' none new by (intro exI) (auto simp: 1)
  qed
qed


text \<open>
  A decline can take the status \<^verbatim>\<open>FILLED\<close> away: the guard of \<^verbatim>\<open>declineDispatch\<close> compares with the
  lower-case \<^verbatim>\<open>filled\<close>, so when nobody of the worker's wave is pending any more, a decline by any
  worker who was ever offered a fully booked requirement, the one who accepted it included,
  overwrites its status with \<^verbatim>\<open>NO_WORKERS_AVAILABLE\<close> although every slot stays booked.
\<close>

theorem decline_overwrites_filled:
  assumes "findUnique rq_id r (requirements d) = Some req" and "rq_status req = ''FILLED''"
    and "rq_filled req = rq_needed req" and "nonNegativeInteger (rq_needed req)" and "wave_config_ok cfg"
    and "findUnique wk_id w (workers d) \<noteq> None"
    and "findFirst (offer_to r w) (dispatches d) = Some p" and "dp_status p \<noteq> ''pending''"
    and "dp_wave_number p = Some n" and "1 \<le> n" and "n < 1000"
    and "filter (\<lambda>q. dp_requirement_id q = r \<and> dp_wave_number q = Some n \<and> dp_status q = ''pending'')
           (dispatches d) = []"
  shows "\<exists>d' req'. declineDispatch cfg sha256hex now r w d = (Inr [], d') \<and>
     findUnique rq_id r (requirements d') = Some req' \<and> rq_status req' = ''NO_WORKERS_AVAILABLE'' \<and>
     rq_filled req' = rq_needed req' \<and> bookings d' = bookings d"
proof -
  let ?d1 = "d\<lparr>dispatches := updateMany (\<lambda>p. offer_to r w p \<and> dp_status p = ''pending'')
      (\<lambda>p. p\<lparr>dp_status := ''declined'', dp_responded_at := Some now\<rparr>) (dispatches d),
    workers := updateMany (\<lambda>x. wk_id x = w)
      (\<lambda>x. x\<lparr>wk_decline_count := map_option (\<lambda>n. n + 1) (wk_decline_count x)\<rparr>) (workers d)\<rparr>"
  have tx: "decline_tx now r w d = Inr ((), ?d1)" using assms(6) by (simp add: decline_tx_def)
  have first: "findFirst (offer_to r w) (dispatches ?d1) = Some p"
    using assms(7,8) by (simp add: findFirst_updateMany offer_to_def)
  have none: "countWhere (\<lambda>q. dp_requirement_id q = r \<and> dp_wave_number q = Some n \<and> dp_status q = ''pending'')
      (dispatches ?d1) = 0"
    using assms(12) by (auto simp: table_simps filter_empty_conv set_updateMany split: if_splits)
  have "nonNegativeInteger (n + 1)" "1 \<le> n + 1"
    using assms(10,11) by (simp_all add: nonNegativeInteger_def isSafeInteger_def MAX_SAFE_INTEGER_def)
  from plan_ok [OF assms(5,4,4) this, of None False] obtain pl where
    pl: "planDispatchWave cfg (rq_needed req) (rq_needed req) (n + 1) None False = Inr pl" "\<not> pl_canDispatch pl"
    by auto
  let ?u = "\<lparr>ru_status = Some (req_status_str NO_WORKERS_AVAILABLE), ru_filled = None, ru_needed = None, ru_now = now\<rparr>"
  obtain ws where run: "declineDispatch cfg sha256hex now r w d = (Inr [], update_requirement r ?u (?d1\<lparr>waves := ws\<rparr>))"
    using assms(1-3,9) tx first none pl
    by (simp add: declineDispatch_def run_tx_def decline_follow_up_def Let_def)
  have "findUnique rq_id r (requirements (update_requirement r ?u (?d1\<lparr>waves := ws\<rparr>))) = Some (apply_req_update ?u req)"
    using assms(1) by (simp add: update_requirement_def requirement_table.findUnique_update_same)
  with run assms(3) show ?thesis by (simp add: apply_req_update_def)
qed

definition sample_offer :: job_dispatch where
  "sample_offer = \<lparr>dp_requirement_id = ''r1'', dp_worker_id = ''w1'', dp_wave_number = Some 1,
     dp_wave_position = Some 1, dp_status = ''pending'', dp_notified_at = Some 0, dp_expires_at = Some 100,
     dp_responded_at = None\<rparr>"

definition sample_worker :: worker where
  "sample_worker = \<lparr>wk_id = ''w1'', wk_phone = ''1'', wk_verification_status = ''verified'',
     wk_deleted_at = None, wk_decline_count = Some 0, wk_name = ''Asha'', wk_is_online = Some True,
     wk_location_geo = Some ''g'', wk_last_location_at = Some 0, wk_skill_category_id = ''k1'', wk_worker_score = None,
     wk_skill_type = ''General'', wk_timeout_count = Some 0, wk_password = ''p'', wk_aadhaar_last4 = None\<rparr>"

definition sample_dispatch_db :: db where
  "sample_dispatch_db = empty_db\<lparr>
     jobs := [sample_job\<lparr>jb_status := ''DISPATCHING''\<rparr>],
     requirements := [sample_requirement\<lparr>rq_needed := 1, rq_filled := 0, rq_status := ''DISPATCHING''\<rparr>],
     workers := [sample_worker], dispatches := [sample_offer]\<rparr>"

definition sample_accept :: accept_input where
  "sample_accept = \<lparr>ai_requirement = ''r1'', ai_worker = ''w1'', ai_now = 10, ai_otp = ''123456'',
     ai_otp_hash = ''h'', ai_otp_ttl_ms = 1000, ai_booking_id = ''b1'', ai_outbox_id = ''o1'', ai_aborted = False\<rparr>"

lemmas sample_defs = sample_dispatch_db_def sample_job_def sample_requirement_def sample_worker_def
  sample_offer_def sample_accept_def empty_db_def

lemma sample_accept_commits:
  "\<exists>res d'. acceptDispatch sample_accept sample_dispatch_db = (Inr res, d')"
proof -
  have pre: "accept_preflight sample_accept sample_dispatch_db = None"
    by (simp add: accept_preflight_def sample_defs findUnique_def findFirst_def accept_inactive_def
        accept_full_def toUpperCase_def upper_char_def dispatch_refusal_def offer_to_def Let_def)
  have tx: "\<exists>res d'. accept_tx sample_accept sample_dispatch_db = Inr (res, d')"
    by (simp add: accept_tx_def sample_defs findUnique_def findFirst_def accept_inactive_def accept_full_def
        toUpperCase_def upper_char_def accept_reserve_def claimable_def offer_to_def reserve_slot_def
        update_requirement_def updateMany_def create_booking_def create_outbox_def booking_confirmed_event_def
        accept_close_def checkJobComplete_def apply_req_update_def accepted_row_def
        job_transition_def js_or_def job_canTransition_def job_status_of_def all_job_statuses_def mk_rule_def
        system_actor_def Let_def apply_job_update_def job_update_data_def)
  from pre tx show ?thesis
    by (auto simp: acceptDispatch_def run_tx_def sample_accept_def)
qed

theorem acceptDispatch_commit_witness:
  "\<exists>res d'. acceptDispatch sample_accept sample_dispatch_db = (Inr res, d') \<and> bookings d' = [ar_booking res]"
proof -
  have led: "ledger_ok sample_dispatch_db"
    by (simp add: ledger_ok_def requirement_ok_def activeBookingsCount_def sample_defs)
  from sample_accept_commits obtain res d' where
    c: "acceptDispatch sample_accept sample_dispatch_db = (Inr res, d')" by blast
  from acceptDispatch_commit [OF led c] have "bookings d' = bookings sample_dispatch_db @ [ar_booking res]" by blast
  with c show ?thesis by (simp add: sample_defs)
qed


theorem decline_overwrites_filled_witness:
  "\<exists>d' req'. declineDispatch default_config id 20 ''r1'' ''w1'' (empty_db\<lparr>requirements := [sample_requirement],
       workers := [sample_worker], dispatches := [sample_offer\<lparr>dp_status := ''accepted''\<rparr>]\<rparr>) = (Inr [], d') \<and>
     findUnique rq_id ''r1'' (requirements d') = Some req' \<and> rq_status req' = ''NO_WORKERS_AVAILABLE''"
proof -
  let ?d = "empty_db\<lparr>requirements := [sample_requirement], workers := [sample_worker],
     dispatches := [sample_offer\<lparr>dp_status := ''accepted''\<rparr>]\<rparr>"
  have "\<exists>d' req'. declineDispatch default_config id 20 ''r1'' ''w1'' ?d = (Inr [], d') \<and>
     findUnique rq_id ''r1'' (requirements d') = Some req' \<and> rq_status req' = ''NO_WORKERS_AVAILABLE'' \<and>
     rq_filled req' = rq_needed req' \<and> bookings d' = bookings ?d"
    by (rule decline_overwrites_filled [where req = sample_requirement and n = 1
          and p = "sample_offer\<lparr>dp_status := ''accepted''\<rparr>"])
      (simp_all add: sample_defs findUnique_def findFirst_def offer_to_def nonNegativeInteger_def
        isSafeInteger_def MAX_SAFE_INTEGER_def wave_config_ok_def default_config_def)
  then show ?thesis by blast
qed

end
