(* ===== verification/Booking_Service.thy ===== *)
theory Booking_Service
  imports Dispatch_Service
begin

text \<open>
  The booking service, \<^verbatim>\<open>src/features/booking/bookingServices.ts\<close>: reading a booking, verifying the
  start OTP (which starts booking and job), requesting and confirming completion (which may complete
  the job and records the review), cancelling (which releases the slot and may reopen the dispatch)
  and locating the worker. The bcrypt comparison and the stored location are arguments. A unique
  violation that the code catches and ignores is taken to leave the transaction usable.
\<close>

section \<open>Reads\<close>

definition getBookingDetail :: "uuid \<Rightarrow> AuthenticatedUser option \<Rightarrow> db \<Rightarrow> error + booking" where
  "getBookingDetail bookingId actor d =
     (case actor of
        None \<Rightarrow> Inl (AuthorizationError 401 ''FORBIDDEN'')
      | Some a \<Rightarrow>
          (case findFirst (booking_scopeRead a (Some bookingId)) (bookings d) of
             Some b \<Rightarrow> Inr b
           | None \<Rightarrow>
               (case findUnique bk_id bookingId (bookings d) of
                  None \<Rightarrow> Inl (AuthorizationError 404 ''FORBIDDEN'')
                | Some b \<Rightarrow> (case assertPolicy (booking_canRead a b) of Inl e \<Rightarrow> Inl e | Inr _ \<Rightarrow> Inr b))))"

text \<open>
  The coordinates come from the worker row (\<open>geo\<close>) or, when that has none, from the last stored
  location (\<open>stored\<close>); both queries are arguments.
\<close>

definition getWorkerLocation ::
  "(uuid \<Rightarrow> 'loc option) \<Rightarrow> (uuid \<Rightarrow> 'loc option) \<Rightarrow> uuid \<Rightarrow> AuthenticatedUser option \<Rightarrow> db \<Rightarrow> error + 'loc option" where
  "getWorkerLocation geo stored bookingId actor d =
     (case actor of
        None \<Rightarrow> Inl (AuthorizationError 401 ''FORBIDDEN'')
      | Some a \<Rightarrow>
          (case findFirst (\<lambda>b. bk_id b = bookingId \<and> (au_role a = ADMIN \<or> bk_customer_id b = au_id a)) (bookings d) of
             None \<Rightarrow> Inl (AuthorizationError 403 ''FORBIDDEN'')
           | Some b \<Rightarrow> (case assertPolicy (booking_canGetWorkerLocation a b) of
                 Inl e \<Rightarrow> Inl e
               | Inr _ \<Rightarrow> Inr (case geo (bk_worker_id b) of Some l \<Rightarrow> Some l | None \<Rightarrow> stored (bk_worker_id b)))))"

section \<open>Outbox rows\<close>

definition mk_outbox ::
  "uuid \<Rightarrow> timestamp \<Rightarrow> string \<Rightarrow> uuid \<Rightarrow> string \<Rightarrow> uuid \<Rightarrow> json_object \<Rightarrow> notification_outbox" where
  "mk_outbox i now event bookingId rtype rid payload =
     \<lparr>ob_id = i, ob_event_type = event, ob_aggregate_type = ''booking'', ob_aggregate_id = bookingId,
      ob_aggregate_version = 1,
      ob_recipient_type = rtype, ob_recipient_id = rid, ob_payload = payload,
      ob_status = ''PENDING'', ob_socket_status = ''PENDING'', ob_socket_sent_at = None,
      ob_socket_error = None, ob_fcm_status = ''PENDING'', ob_fcm_sent_at = None, ob_fcm_error = None,
      ob_attempts = 0, ob_max_attempts = 5, ob_available_at = now, ob_processed_at = None,
      ob_failed_at = None, ob_last_error = None,
      ob_idempotency_key = Some (event @ '':'' @ bookingId @ '':'' @ rtype @ '':'' @ rid),
      ob_acknowledged_at = None, ob_acknowledged_by = None, ob_created_at = now, ob_updated_at = now\<rparr>"

text \<open>The insert with its duplicate-key error caught and ignored.\<close>

definition create_outbox_once :: "notification_outbox \<Rightarrow> db \<Rightarrow> db" where
  "create_outbox_once e d = (case create_outbox e d of Inr d' \<Rightarrow> d' | Inl _ \<Rightarrow> d)"

section \<open>verifyOtp\<close>

definition effective_id :: "UserRole \<Rightarrow> AuthenticatedUser option \<Rightarrow> uuid \<Rightarrow> uuid" where
  "effective_id r actor fallback =
     (case actor of Some a \<Rightarrow> (if au_role a = r then au_id a else fallback) | None \<Rightarrow> fallback)"

definition effective_role :: "UserRole \<Rightarrow> AuthenticatedUser option \<Rightarrow> UserRole" where
  "effective_role r actor = (case actor of Some a \<Rightarrow> au_role a | None \<Rightarrow> r)"

definition is_admin :: "AuthenticatedUser option \<Rightarrow> bool" where
  "is_admin actor = (case actor of Some a \<Rightarrow> au_role a = ADMIN | None \<Rightarrow> False)"

text \<open>Steps 1 and 2: the scoped lock, the unscoped fall-back with its policy, the authorization.\<close>

definition otp_authorize :: "AuthenticatedUser option \<Rightarrow> uuid \<Rightarrow> booking \<Rightarrow> error + unit" where
  "otp_authorize actor workerId b =
     (case actor of
        Some a \<Rightarrow> assertPolicy (booking_canVerifyOtp a b)
      | None \<Rightarrow> if bk_worker_id b \<noteq> workerId then Inl (AuthorizationError 403 ''FORBIDDEN'') else Inr ())"

definition otp_lock :: "uuid \<Rightarrow> uuid \<Rightarrow> AuthenticatedUser option \<Rightarrow> db \<Rightarrow> error + booking" where
  "otp_lock bookingId workerId actor d =
     (let eff = effective_id WORKER actor workerId;
          found = (case findFirst (\<lambda>b. bk_id b = bookingId \<and> (is_admin actor \<or> bk_worker_id b = eff)) (bookings d) of
                     Some b \<Rightarrow> Inr b
                   | None \<Rightarrow>
                       (case findUnique bk_id bookingId (bookings d) of
                          None \<Rightarrow> Inl (AuthorizationError 404 ''FORBIDDEN'')
                        | Some b \<Rightarrow> (case otp_authorize actor eff b of Inl e \<Rightarrow> Inl e | Inr _ \<Rightarrow> Inr b)))
      in case found of
           Inl e \<Rightarrow> Inl e
         | Inr b \<Rightarrow> (case otp_authorize actor workerId b of Inl e \<Rightarrow> Inl e | Inr _ \<Rightarrow> Inr b))"

text \<open>Steps 3 to 6: the state of the booking and of its OTP.\<close>

definition otp_guards :: "timestamp \<Rightarrow> int \<Rightarrow> booking \<Rightarrow> error option" where
  "otp_guards now maxAttempts b =
     (if booking_normalizeStatus (Some (bk_status b)) \<noteq> booking_status_str CONFIRMED then Some BookingOtpWrongStateError
      else if bk_otp_consumed_at b \<noteq> None \<or> bk_otp_verified b then Some BookingOtpAlreadyConsumedError
      else if bk_otp_locked_at b \<noteq> None \<or> (case bk_otp_attempts b of Some n \<Rightarrow> n | None \<Rightarrow> 0) \<ge> maxAttempts
      then Some BookingOtpLockedError
      else if bk_otp_expires_at b \<noteq> None \<and> now > the (bk_otp_expires_at b) then Some BookingOtpExpiredError
      else None)"

definition otp_failed :: "timestamp \<Rightarrow> int \<Rightarrow> bool \<Rightarrow> booking \<Rightarrow> booking" where
  "otp_failed now newAttempts isNowLocked b =
     b\<lparr>bk_otp_attempts := Some newAttempts,
       bk_otp_locked_at := (if isNowLocked then Some now else bk_otp_locked_at b),
       bk_updated_at := now\<rparr>"

text \<open>The parent job follows; an error is ignored only when it says the job is already there.\<close>

definition sync_job ::
  "timestamp \<Rightarrow> uuid \<Rightarrow> JobAction \<Rightarrow> transition_actor \<Rightarrow> string \<Rightarrow> JobStatus list \<Rightarrow> db \<Rightarrow> error + db" where
  "sync_job now jobId action actor reason ignored d =
     (case job_transition now jobId action actor (Some reason) None d of
        Inr (_, d') \<Rightarrow> Inr d'
      | Inl (JobInvalidTransitionError from a) \<Rightarrow>
          if from \<in> set (map job_status_str ignored) then Inr d else Inl (JobInvalidTransitionError from a)
      | Inl e \<Rightarrow> Inl e)"

datatype otp_outcome = OtpStarted | OtpWrong bool

definition verifyOtp_tx ::
  "(string \<Rightarrow> string \<Rightarrow> bool) \<Rightarrow> int \<Rightarrow> timestamp \<Rightarrow> uuid \<Rightarrow> uuid \<Rightarrow> string \<Rightarrow> AuthenticatedUser option \<Rightarrow> db
   \<Rightarrow> error + (otp_outcome \<times> db)" where
  "verifyOtp_tx comparePassword maxAttempts now bookingId workerId otp actor d =
     (case otp_lock bookingId workerId actor d of
        Inl e \<Rightarrow> Inl e
      | Inr b \<Rightarrow>
     (case otp_guards now maxAttempts b of
        Some e \<Rightarrow> Inl e
      | None \<Rightarrow>
          let eff = effective_id WORKER actor workerId;
              isValid = (truthy (bk_otp_hash b) \<and> comparePassword otp (the (bk_otp_hash b)));
              newAttempts = (case bk_otp_attempts b of Some n \<Rightarrow> n | None \<Rightarrow> 0) + 1;
              isNowLocked = (newAttempts \<ge> maxAttempts);
              reason = ''Worker verified OTP for booking '' @ bookingId
          in if \<not> isValid
             then Inr (OtpWrong isNowLocked, update_booking bookingId (otp_failed now newAttempts isNowLocked) d)
             else case booking_transition now bookingId BookingAction.START_WORK
                         (user_actor eff (effective_role WORKER actor)) (Some reason) None d of
               Inl e \<Rightarrow> Inl e
             | Inr (_, d1) \<Rightarrow>
                 (case (if bk_job_id b \<noteq> []
                        then sync_job now (bk_job_id b) JobAction.START_WORK (user_actor eff WORKER) reason
                               [JobStatus.IN_PROGRESS] d1
                        else Inr d1) of
                    Inl e \<Rightarrow> Inl e
                  | Inr d2 \<Rightarrow> Inr (OtpStarted, d2))))"

text \<open>After the commit, a wrong OTP is reported as an error; the counted attempt stays.\<close>

definition verifyOtp ::
  "(string \<Rightarrow> string \<Rightarrow> bool) \<Rightarrow> int \<Rightarrow> timestamp \<Rightarrow> uuid \<Rightarrow> uuid \<Rightarrow> string \<Rightarrow> AuthenticatedUser option \<Rightarrow> db
   \<Rightarrow> (error + unit) \<times> db" where
  "verifyOtp comparePassword maxAttempts now bookingId workerId otp actor d =
     (case run_tx (verifyOtp_tx comparePassword maxAttempts now bookingId workerId otp actor) d of
        (Inl e, d') \<Rightarrow> (Inl e, d')
      | (Inr OtpStarted, d') \<Rightarrow> (Inr (), d')
      | (Inr (OtpWrong isNowLocked), d') \<Rightarrow>
          (Inl (if isNowLocked then BookingOtpLockedError else BookingOtpInvalidError), d'))"

section \<open>completeBooking and confirmComplete\<close>

definition completeBooking ::
  "timestamp \<Rightarrow> uuid \<Rightarrow> uuid \<Rightarrow> AuthenticatedUser option \<Rightarrow> db \<Rightarrow> error + (unit \<times> db)" where
  "completeBooking now bookingId workerId actor d =
     (let eff = effective_id WORKER actor workerId in
      case findFirst (\<lambda>b. bk_id b = bookingId \<and> (is_admin actor \<or> bk_worker_id b = eff)) (bookings d) of
        None \<Rightarrow> Inl (AuthorizationError 404 ''FORBIDDEN'')
      | Some b \<Rightarrow>
          (case (case actor of
                   Some a \<Rightarrow> assertPolicy (booking_canComplete a b)
                 | None \<Rightarrow> if bk_worker_id b \<noteq> workerId then Inl (AuthorizationError 403 ''FORBIDDEN'') else Inr ()) of
             Inl e \<Rightarrow> Inl e
           | Inr _ \<Rightarrow>
               (case booking_transition now bookingId REQUEST_COMPLETION
                       (user_actor eff (effective_role WORKER actor)) (Some ''Worker marked work completed'') None d of
                  Inl e \<Rightarrow> Inl e
                | Inr (_, d') \<Rightarrow> Inr ((), d'))))"

record confirm_payload =
  cp_rating :: "rat option"
  cp_comment :: "string option"

definition has_rating :: "confirm_payload \<Rightarrow> bool" where
  "has_rating p = (case cp_rating p of Some r \<Rightarrow> r \<noteq> 0 | None \<Rightarrow> False)"

text \<open>The review insert; a second review of the booking violates the unique key and is ignored.\<close>

definition create_review_once :: "review \<Rightarrow> db \<Rightarrow> db" where
  "create_review_once r d =
     (if list_ex (\<lambda>r'. rv_booking_id r' = rv_booking_id r) (reviews d) then d
      else d\<lparr>reviews := reviews d @ [r]\<rparr>)"

definition open_bookings :: "uuid \<Rightarrow> db \<Rightarrow> nat" where
  "open_bookings jobId d =
     countWhere (\<lambda>b. bk_job_id b = jobId \<and> bk_status b \<notin> {''COMPLETED'', ''CANCELLED''}) (bookings d)"

text \<open>What follows the transition: the review, the parent job and the outbox event.\<close>

definition confirm_effects ::
  "uuid \<Rightarrow> timestamp \<Rightarrow> booking \<Rightarrow> uuid \<Rightarrow> transition_actor \<Rightarrow> confirm_payload \<Rightarrow> bool \<Rightarrow> db \<Rightarrow> error + (unit \<times> db)" where
  "confirm_effects outboxId now b eff who payload isIdempotent d1 =
     (let d2 = (if has_rating payload
                then create_review_once \<lparr>rv_booking_id = bk_id b, rv_worker_id = bk_worker_id b,
                       rv_customer_id = eff, rv_rating = cp_rating payload,
                       rv_comment = cp_comment payload\<rparr> d1
                else d1)
      in case (if bk_job_id b \<noteq> [] \<and> open_bookings (bk_job_id b) d2 = 0
               then sync_job now (bk_job_id b) JobAction.COMPLETE who
                      ''All bookings completed and confirmed'' [JobStatus.COMPLETED] d2
               else Inr d2) of
           Inl e \<Rightarrow> Inl e
         | Inr d3 \<Rightarrow>
             Inr ((), if \<not> isIdempotent \<and> bk_worker_id b \<noteq> []
                      then create_outbox_once (mk_outbox outboxId now ''booking_completed'' (bk_id b)
                             ''worker'' (bk_worker_id b)
                             ([(''bookingId'', JStr (bk_id b)), (''jobId'', JStr (bk_job_id b))] @
                              (case cp_rating payload of Some r \<Rightarrow> [(''rating'', JNum (Finite r))] | None \<Rightarrow> []) @
                              [(''title'', JStr ''Booking Completed''),
                               (''body'', JStr ''Customer has confirmed completion of the booking.'')])) d3
                      else d3))"

definition confirmComplete ::
  "uuid \<Rightarrow> timestamp \<Rightarrow> uuid \<Rightarrow> uuid \<Rightarrow> confirm_payload \<Rightarrow> AuthenticatedUser option \<Rightarrow> db \<Rightarrow> error + (unit \<times> db)" where
  "confirmComplete outboxId now bookingId customerId payload actor d =
     (let eff = effective_id CUSTOMER actor customerId;
          who = user_actor eff (effective_role CUSTOMER actor)
      in case findFirst (\<lambda>b. bk_id b = bookingId \<and> (is_admin actor \<or> bk_customer_id b = eff)) (bookings d) of
        None \<Rightarrow> Inl (AuthorizationError 404 ''FORBIDDEN'')
      | Some b \<Rightarrow>
     (case (case actor of
              Some a \<Rightarrow> assertPolicy (booking_canConfirmCompletion a b)
            | None \<Rightarrow> if bk_customer_id b \<noteq> customerId then Inl (AuthorizationError 403 ''FORBIDDEN'') else Inr ()) of
        Inl e \<Rightarrow> Inl e
      | Inr _ \<Rightarrow>
          let current = booking_normalizeStatus (Some (bk_status b)) in
          if has_rating payload \<and> current \<noteq> booking_status_str COMPLETED
             \<and> current \<noteq> booking_status_str AWAITING_CONFIRMATION
          then Inl (BookingInvalidTransitionError current (booking_action_str CONFIRM_COMPLETION))
          else case booking_transition now bookingId CONFIRM_COMPLETION who
                      (Some ''Customer confirmed completion'') None d of
            Inl e \<Rightarrow> Inl e
          | Inr (res, d1) \<Rightarrow> confirm_effects outboxId now b eff who payload (bt_isIdempotent res) d1))"

section \<open>cancelBooking\<close>

definition cancel_scope :: "uuid \<Rightarrow> uuid \<Rightarrow> UserRole \<Rightarrow> booking \<Rightarrow> bool" where
  "cancel_scope bookingId eff role b \<longleftrightarrow> bk_id b = bookingId \<and>
     (if role = ADMIN then True else if role = WORKER then bk_worker_id b = eff else bk_customer_id b = eff)"

definition active_bookings_of_job :: "uuid \<Rightarrow> db \<Rightarrow> nat" where
  "active_bookings_of_job jobId d =
     countWhere (\<lambda>b. bk_job_id b = jobId \<and> bk_status b \<in> set ACTIVE_BOOKING_STATUSES) (bookings d)"

text \<open>Step 5: the slot is released, the worker's offer closed, and the job reopened when it is empty.\<close>

definition cancel_reconcile :: "timestamp \<Rightarrow> booking \<Rightarrow> db \<Rightarrow> error + db" where
  "cancel_reconcile now b d =
     (case (if bk_requirement_id b \<noteq> [] then map_sum id snd (reconcileCapacity now (bk_requirement_id b) d) else Inr d) of
        Inl e \<Rightarrow> Inl e
      | Inr d1 \<Rightarrow>
          let d2 = (if bk_requirement_id b \<noteq> [] \<and> bk_worker_id b \<noteq> []
                    then d1\<lparr>dispatches := updateMany
                           (\<lambda>p. offer_to (bk_requirement_id b) (bk_worker_id b) p \<and> dp_status p \<in> {''accepted'', ''pending''})
                           (\<lambda>p. p\<lparr>dp_status := ''cancelled'', dp_responded_at := Some now\<rparr>) (dispatches d1)\<rparr>
                    else d1)
          in if bk_job_id b \<noteq> [] \<and> active_bookings_of_job (bk_job_id b) d2 = 0
             then sync_job now (bk_job_id b) REOPEN_DISPATCH system_actor
                    (''Booking '' @ bk_id b @ '' cancelled, reopening dispatch'')
                    [JobStatus.CANCELLED, JobStatus.DISPATCHING, JobStatus.COMPLETED] d2
             else Inr d2)"

definition cancel_event :: "uuid \<Rightarrow> timestamp \<Rightarrow> UserRole \<Rightarrow> string \<Rightarrow> booking \<Rightarrow> notification_outbox" where
  "cancel_event outboxId now role reason b =
     mk_outbox outboxId now ''booking_cancelled'' (bk_id b)
       (if role = WORKER then ''customer'' else ''worker'')
       (if role = WORKER then bk_customer_id b else bk_worker_id b)
       [(''bookingId'', JStr (bk_id b)), (''jobId'', JStr (bk_job_id b)), (''reason'', JStr reason),
        (''title'', JStr ''Booking Cancelled''), (''body'', JStr (''Booking has been cancelled: '' @ reason))]"

definition cancelBooking ::
  "uuid \<Rightarrow> timestamp \<Rightarrow> uuid \<Rightarrow> uuid \<Rightarrow> string option \<Rightarrow> AuthenticatedUser option \<Rightarrow> db \<Rightarrow> error + (booking \<times> db)" where
  "cancelBooking outboxId now bookingId userId reason actor d =
     (let eff = js_or (map_option au_id actor) userId;
          role = effective_role CUSTOMER actor
      in case findFirst (cancel_scope bookingId eff role) (bookings d) of
        None \<Rightarrow> Inl (AuthorizationError 404 ''FORBIDDEN'')
      | Some b \<Rightarrow>
     (case (case actor of
              Some a \<Rightarrow> assertPolicy (booking_canCancel a b)
            | None \<Rightarrow> if bk_customer_id b \<noteq> userId \<and> bk_worker_id b \<noteq> userId
                      then Inl (AuthorizationError 403 ''FORBIDDEN'') else Inr ()) of
        Inl e \<Rightarrow> Inl e
      | Inr _ \<Rightarrow>
          if \<not> truthy (map_option trim reason)
          then Inl (BookingInvalidTransitionError (bk_status b) (booking_action_str BookingAction.CANCEL))
          else case booking_transition now bookingId BookingAction.CANCEL (user_actor eff role)
                      (map_option trim reason) None d of
            Inl e \<Rightarrow> Inl e
          | Inr (res, d1) \<Rightarrow>
              if bt_isIdempotent res then Inr (bt_booking res, d1)
              else case cancel_reconcile now b d1 of
                Inl e \<Rightarrow> Inl e
              | Inr d2 \<Rightarrow>
                  Inr (bt_booking res,
                       if (if role = WORKER then bk_customer_id b else bk_worker_id b) \<noteq> []
                       then create_outbox_once (cancel_event outboxId now role (the reason) b) d2
                       else d2)))"

section \<open>The marketplace invariant\<close>

text \<open>
  What the whole booking flow keeps: the capacity ledger, one booking per requirement and worker,
  audited bookings, real requirement ids, a booking log whose rows belong to bookings, and bookings
  that belong to requirements.
\<close>

definition market_ok :: "db \<Rightarrow> bool" where
  "market_ok d \<longleftrightarrow> ledger_ok d \<and> booking_audited d \<and> distinct (map booking_pair (bookings d)) \<and>
     (\<forall>r \<in> set (requirements d). rq_id r \<noteq> []) \<and>
     (\<forall>l \<in> set (booking_log d). tr_entity_id l \<in> bk_id ` set (bookings d)) \<and>
     bk_requirement_id ` set (bookings d) \<subseteq> rq_id ` set (requirements d)"

section \<open>Lemmas\<close>

lemma market_cong:
  "requirements d' = requirements d \<Longrightarrow> bookings d' = bookings d \<Longrightarrow> booking_log d' = booking_log d \<Longrightarrow>
   market_ok d' = market_ok d"
  by (simp add: market_ok_def ledger_ok_def requirement_ok_def activeBookingsCount_def booking_audited_def)

lemma sync_job_frame:
  assumes "sync_job now j a ac r ign d = Inr d'"
  shows "requirements d' = requirements d" "bookings d' = bookings d" "booking_log d' = booking_log d"
    "dispatches d' = dispatches d"
  using assms job_transition_frame
  by (auto simp: sync_job_def split: sum.splits prod.splits error.splits if_splits)

lemma create_outbox_once_frame [simp]:
  "requirements (create_outbox_once e d) = requirements d" "bookings (create_outbox_once e d) = bookings d"
  "booking_log (create_outbox_once e d) = booking_log d" "dispatches (create_outbox_once e d) = dispatches d"
  by (auto simp: create_outbox_once_def create_outbox_def)

lemma create_review_once_frame [simp]:
  "requirements (create_review_once e d) = requirements d" "bookings (create_review_once e d) = bookings d"
  "booking_log (create_review_once e d) = booking_log d"
  by (auto simp: create_review_once_def)

lemma updateMany_map_eq:
  "(\<And>r. f r = f (g r)) \<Longrightarrow> map f (updateMany P g t) = map f t"
  by (induction t) (auto simp: updateMany_def)

lemma update_booking_pairs [simp]:
  "map booking_pair (bookings (update_booking i (apply_booking_update u) d)) = map booking_pair (bookings d)"
  by (simp add: update_booking_def) (rule updateMany_map_eq, simp add: booking_pair_def)

lemma update_booking_ids [simp]:
  "bk_id ` set (bookings (update_booking i (apply_booking_update u) d)) = bk_id ` set (bookings d)"
  using booking_table.map_key_updateMany [THEN arg_cong [where f = set], of "\<lambda>b. bk_id b = i" u "bookings d"]
  by (simp add: update_booking_def)

lemma update_booking_requirements [simp]:
  "bk_requirement_id ` set (bookings (update_booking i (apply_booking_update u) d)) = bk_requirement_id ` set (bookings d)"
  using updateMany_map_eq [of bk_requirement_id "apply_booking_update u" "\<lambda>b. bk_id b = i" "bookings d",
      THEN arg_cong [where f = set]]
  by (simp add: update_booking_def)

lemma active_str: "booking_status_str st \<in> set ACTIVE_BOOKING_STATUSES \<longleftrightarrow> st \<noteq> CANCELLED"
  by (cases st) (simp_all add: ACTIVE_BOOKING_STATUSES_def)

lemma step_effect_parts [simp]:
  "requirements (booking_step_effect u i f a ac r d) = requirements d"
  "dispatches (booking_step_effect u i f a ac r d) = dispatches d"
  "bookings (booking_step_effect u i f a ac r d) = bookings (update_booking i (apply_booking_update u) d)"
  "booking_log (booking_step_effect u i f a ac r d) = booking_log d @ [booking_log_row i f (bu_target u) a ac r]"
  by (simp_all add: booking_step_effect_def update_booking_def)

text \<open>A step that does not cancel keeps every count of active bookings; a cancellation lowers one.\<close>

lemma step_keeps_count:
  assumes "booking_audited d" "findUnique bk_id i (bookings d) = Some b" "bk_status b = booking_status_str st"
    and "st \<noteq> CANCELLED" and "bu_target u \<noteq> CANCELLED \<or> bk_requirement_id b \<noteq> k"
  shows "activeBookingsCount k (booking_step_effect u i f a ac r d) = activeBookingsCount k d"
proof -
  have dist: "distinct (map bk_id (bookings d))" using assms(1) by (simp add: booking_audited_def)
  have "active_booking k (apply_booking_update u x) = active_booking k x"
    if x: "x \<in> set (bookings d)" "bk_id x = i" for x
  proof -
    have "x = b" using findUnique_distinct [OF dist x(1)] x(2) assms(2) by simp
    with assms(3-5) show ?thesis by (auto simp: active_booking_def active_str)
  qed
  then show ?thesis
    by (simp add: activeBookingsCount_def update_booking_def countWhere_updateMany_same)
qed

lemma countWhere_mono: "(\<And>r. r \<in> set t \<Longrightarrow> P r \<Longrightarrow> Q (f r) \<Longrightarrow> Q r) \<Longrightarrow> countWhere Q (updateMany P f t) \<le> countWhere Q t"
  by (induction t) (auto simp: updateMany_def intro: le_SucI)

lemma step_lowers_count:
  assumes "\<And>x. x \<in> set (bookings d) \<Longrightarrow> bk_id x = i \<Longrightarrow> bk_status x \<in> set ACTIVE_BOOKING_STATUSES"
  shows "activeBookingsCount k (booking_step_effect u i f a ac r d) \<le> activeBookingsCount k d"
  using assms
  by (auto simp: activeBookingsCount_def update_booking_def active_booking_def intro!: countWhere_mono)

lemma market_step:
  assumes ok: "market_ok d" and b: "findUnique bk_id i (bookings d) = Some b"
    and st: "bk_status b = booking_status_str st"
  shows "booking_audited (booking_step_effect u i (booking_status_str st) a ac r d) \<and>
     distinct (map booking_pair (bookings (booking_step_effect u i (booking_status_str st) a ac r d))) \<and>
     (\<forall>l \<in> set (booking_log (booking_step_effect u i (booking_status_str st) a ac r d)).
        tr_entity_id l \<in> bk_id ` set (bookings (booking_step_effect u i (booking_status_str st) a ac r d)))"
proof -
  have "booking_audited d" using ok by (simp add: market_ok_def)
  moreover have "i \<in> bk_id ` set (bookings d)" using findUnique_Some [OF b] by force
  ultimately show ?thesis
    using ok booking_step_effect_audited [OF _ b st] by (auto simp: market_ok_def booking_log_row_def)
qed

lemma market_booking:
  assumes "market_ok d" "b \<in> set (bookings d)"
  obtains st where "bk_status b = booking_status_str st"
  using assms booking_audited_status by (auto simp: market_ok_def)

text \<open>A committed transition other than a cancellation keeps the marketplace invariant.\<close>

lemma booking_transition_market:
  assumes ok: "market_ok d" and t: "booking_transition now i action actor reason expd d = Inr (res, d')"
    and nc: "action \<noteq> BookingAction.CANCEL"
  shows "market_ok d'"
proof -
  from t obtain b where b: "findUnique bk_id i (bookings d) = Some b"
    by (auto simp: booking_transition_def split: option.splits)
  then obtain st where st: "bk_status b = booking_status_str st"
    using market_booking [OF ok] findUnique_Some by metis
  from t b st show ?thesis
  proof (cases rule: booking_transition_InrE)
    case idempotent
    with ok show ?thesis by simp
  next
    case (step rule u)
    have target: "bu_target u \<noteq> CANCELLED" using step nc booking_target_cancel by metis
    have live: "st \<noteq> CANCELLED" using step by auto
    have "requirement_ok d' r" if "requirement_ok d r" for r
      using that step_keeps_count [OF _ b st live] target ok step
      by (simp add: requirement_ok_def market_ok_def)
    with market_step [OF ok b st, of u action actor reason] ok step show ?thesis
      by (auto simp: market_ok_def ledger_ok_def)
  qed
qed

lemma update_requirement_ids [simp]:
  "(\<forall>r \<in> set (requirements (update_requirement i u d)). rq_id r \<noteq> []) \<longleftrightarrow> (\<forall>r \<in> set (requirements d). rq_id r \<noteq> [])"
proof -
  have ids: "rq_id ` set (requirements (update_requirement i u d)) = rq_id ` set (requirements d)"
    using requirement_table.map_key_updateMany [THEN arg_cong [where f = set], of "\<lambda>r. rq_id r = i" u "requirements d"]
    by (simp add: update_requirement_def)
  have "(\<forall>r \<in> A. rq_id r \<noteq> []) \<longleftrightarrow> [] \<notin> rq_id ` A" for A :: "job_requirement set"
    by (metis imageE imageI)
  with ids show ?thesis by simp
qed

lemma update_requirement_id_set [simp]:
  "rq_id ` set (requirements (update_requirement i u d)) = rq_id ` set (requirements d)"
  using requirement_table.map_key_updateMany [THEN arg_cong [where f = set], of "\<lambda>r. rq_id r = i" u "requirements d"]
  by (simp add: update_requirement_def)

lemma update_requirement_log [simp]:
  "booking_log (update_requirement i u d) = booking_log d" "outbox (update_requirement i u d) = outbox d"
  by (simp_all add: update_requirement_def)

lemma booking_audited_cong:
  "bookings d' = bookings d \<Longrightarrow> booking_log d' = booking_log d \<Longrightarrow> booking_audited d' = booking_audited d"
  by (simp add: booking_audited_def)

lemma market_requirement_update:
  assumes "market_ok d" and "ledger_ok (update_requirement i u d)"
  shows "market_ok (update_requirement i u d)"
  using assms booking_audited_cong [of "update_requirement i u d" d] by (simp add: market_ok_def)

lemma accept_market:
  assumes ok: "market_ok d"
  shows "market_ok (snd (acceptDispatch x d))"
proof (cases x d rule: acceptDispatch_cases)
  case refused
  with ok show ?thesis by simp
next
  case (committed res d')
  from committed(2) obtain req where req: "findUnique rq_id (ai_requirement x) (requirements d) = Some req"
    and r: "accept_reserve x req d = Inr (res, d')" by (rule accept_tx_InrE) blast
  from r obtain j :: job where
      rs: "requirements d' = requirements (update_requirement (ai_requirement x) (accept_update x req) d)"
    and bs: "bookings d' = bookings d @ [new_booking x req (jb_customer_id j)]"
    and lg: "booking_log d' = booking_log d"
    and fresh: "\<forall>b \<in> set (bookings d). booking_pair b \<noteq> (ai_requirement x, ai_worker x) \<and> bk_id b \<noteq> ai_booking_id x"
    by (rule accept_reserve_InrE) blast
  have led: "ledger_ok d'" using accept_tx_ledger [OF _ committed(2)] ok by (simp add: market_ok_def)
  have "ai_booking_id x \<notin> tr_entity_id ` set (booking_log d)"
    using ok fresh by (fastforce simp: market_ok_def)
  then have "history_of (ai_booking_id x) (booking_log d) = []"
    by (force simp: history_of_def filter_empty_conv)
  then have aud: "booking_audited d'"
    using ok fresh bs lg booking_status_of_str [of CONFIRMED]
    by (auto simp: booking_audited_def market_ok_def simp del: booking_status_of_str)
  have "distinct (map booking_pair (bookings d'))"
    using ok fresh bs by (auto simp: market_ok_def booking_pair_def)
  moreover have "\<forall>r \<in> set (requirements d'). rq_id r \<noteq> []" using ok rs by (simp add: market_ok_def)
  moreover have "ai_requirement x \<in> rq_id ` set (requirements d)"
    using findUnique_Some [OF req] by (metis imageI)
  then have "bk_requirement_id ` set (bookings d') \<subseteq> rq_id ` set (requirements d')"
    using ok rs bs by (simp add: market_ok_def)
  moreover have "\<forall>l \<in> set (booking_log d'). tr_entity_id l \<in> bk_id ` set (bookings d')"
    using ok bs lg by (auto simp: market_ok_def)
  ultimately show ?thesis using committed(1) led aud by (simp add: market_ok_def)
qed

lemma decline_market:
  assumes "market_ok d"
  shows "market_ok (snd (declineDispatch cfg h now r w d))"
proof -
  let ?d = "snd (declineDispatch cfg h now r w d)"
  have "bookings ?d = bookings d" "booking_log ?d = booking_log d"
      "(\<forall>r \<in> set (requirements ?d). rq_id r \<noteq> []) \<longleftrightarrow> (\<forall>r \<in> set (requirements d). rq_id r \<noteq> [])"
      "rq_id ` set (requirements ?d) = rq_id ` set (requirements d)"
    by (simp_all add: declineDispatch_def run_tx_def decline_tx_def decline_follow_up_def Let_def
        split: sum.splits option.splits)
  moreover have "ledger_ok ?d" using assms declineDispatch_ledger by (simp add: market_ok_def)
  ultimately show ?thesis
    using assms booking_audited_cong [of ?d d] by (simp add: market_ok_def)
qed

lemma otp_failed_market:
  assumes "market_ok d"
  shows "market_ok (update_booking i (otp_failed now n l) d)"
proof -
  let ?d = "update_booking i (otp_failed now n l) d"
  have same: "map f (bookings ?d) = map f (bookings d)"
    if "\<And>b. f (otp_failed now n l b) = f b" for f :: "booking \<Rightarrow> 'x"
    using that by (simp add: update_booking_def) (rule updateMany_map_eq, simp)
  have ids: "map bk_id (bookings ?d) = map bk_id (bookings d)"
    and pairs: "map booking_pair (bookings ?d) = map booking_pair (bookings d)"
    by (rule same, simp add: otp_failed_def booking_pair_def)+
  have cnt: "activeBookingsCount k ?d = activeBookingsCount k d" for k
    by (simp add: activeBookingsCount_def update_booking_def countWhere_updateMany_same active_booking_def otp_failed_def)
  have rows: "\<exists>b0 \<in> set (bookings d). bk_id b = bk_id b0 \<and> bk_status b = bk_status b0"
    if "b \<in> set (bookings ?d)" for b
    using that by (auto simp: update_booking_def set_updateMany otp_failed_def)
  have [simp]: "booking_log ?d = booking_log d" "requirements ?d = requirements d" by (simp_all add: update_booking_def)
  have "bk_id ` set (bookings ?d) = bk_id ` set (bookings d)" by (metis ids set_map)
  moreover have "map bk_requirement_id (bookings ?d) = map bk_requirement_id (bookings d)"
    by (rule same) (simp add: otp_failed_def)
  then have "bk_requirement_id ` set (bookings ?d) = bk_requirement_id ` set (bookings d)" by (metis set_map)
  moreover have "booking_audited ?d"
    using assms ids rows by (fastforce simp: booking_audited_def market_ok_def)
  ultimately show ?thesis
    using assms pairs cnt by (auto simp: market_ok_def ledger_ok_def requirement_ok_def)
qed

lemma verifyOtp_tx_market:
  assumes ok: "market_ok d" and t: "verifyOtp_tx cmp mx now i w otp actor d = Inr (res, d')"
  shows "market_ok d'"
proof -
  from t consider (wrong) n l where "d' = update_booking i (otp_failed now n l) d"
    | (started) ac rs res1 d1 j ac2 r2 ig where
        "booking_transition now i BookingAction.START_WORK ac rs None d = Inr (res1, d1)"
        "d' = d1 \<or> sync_job now j JobAction.START_WORK ac2 r2 ig d1 = Inr d'"
    unfolding verifyOtp_tx_def Let_def
    by (auto split: sum.splits option.splits prod.splits if_splits; blast)
  then show ?thesis
  proof cases
    case wrong
    with otp_failed_market [OF ok] show ?thesis by simp
  next
    case started
    have "market_ok d1" using booking_transition_market [OF ok started(1)] by simp
    with started(2) sync_job_frame market_cong show ?thesis by metis
  qed
qed

lemma verifyOtp_market: "market_ok d \<Longrightarrow> market_ok (snd (verifyOtp cmp mx now i w otp actor d))"
  using verifyOtp_tx_market [of d cmp mx now i w otp actor]
  by (cases "verifyOtp_tx cmp mx now i w otp actor d")
    (auto simp: verifyOtp_def run_tx_def split: prod.splits otp_outcome.splits)

lemma completeBooking_market:
  assumes "market_ok d" and "completeBooking now i w actor d = Inr (u, d')"
  shows "market_ok d'"
proof -
  from assms(2) obtain ac rs res where
    "booking_transition now i REQUEST_COMPLETION ac rs None d = Inr (res, d')"
    by (auto simp: completeBooking_def Let_def split: option.splits sum.splits prod.splits)
  with booking_transition_market [OF assms(1)] show ?thesis by simp
qed

lemma confirm_effects_frame:
  assumes "confirm_effects oid now b eff who p idem d = Inr (u, d')"
  shows "requirements d' = requirements d" "bookings d' = bookings d" "booking_log d' = booking_log d"
  using assms sync_job_frame
  by (auto simp: confirm_effects_def Let_def split: sum.splits if_splits)

lemma confirmComplete_InrE:
  assumes "confirmComplete oid now i c p actor d = Inr (u, d')"
  obtains b res d1 where
    "findFirst (\<lambda>b. bk_id b = i \<and> (is_admin actor \<or> bk_customer_id b = effective_id CUSTOMER actor c)) (bookings d) = Some b"
    "\<forall>a. actor = Some a \<longrightarrow> booking_canConfirmCompletion a b = Allowed"
    "booking_transition now i CONFIRM_COMPLETION (user_actor (effective_id CUSTOMER actor c) (effective_role CUSTOMER actor))
       (Some ''Customer confirmed completion'') None d = Inr (res, d1)"
    "confirm_effects oid now b (effective_id CUSTOMER actor c)
       (user_actor (effective_id CUSTOMER actor c) (effective_role CUSTOMER actor)) p (bt_isIdempotent res) d1 = Inr (u, d')"
proof -
  have pol: "assertPolicy x = Inr y \<Longrightarrow> x = Allowed" for x y by (cases x) auto
  from assms show thesis unfolding confirmComplete_def Let_def
    by (auto split: option.splits sum.splits prod.splits if_splits intro: that dest: pol)
qed

lemma confirmComplete_market:
  assumes "market_ok d" and "confirmComplete oid now i c p actor d = Inr (u, d')"
  shows "market_ok d'"
  using assms(2)
proof (cases rule: confirmComplete_InrE)
  case (1 b res d1)
  have "market_ok d1" using booking_transition_market [OF assms(1) 1(3)] by simp
  with market_cong [OF confirm_effects_frame [OF 1(4)]] show ?thesis by simp
qed

lemma cancelBooking_InrE:
  assumes "cancelBooking oid now i uid reason actor d = Inr (r, d')"
  obtains b res d1 where
    "findFirst (cancel_scope i (js_or (map_option au_id actor) uid) (effective_role CUSTOMER actor)) (bookings d) = Some b"
    "\<forall>a. actor = Some a \<longrightarrow> booking_canCancel a b = Allowed" "truthy (map_option trim reason)"
    "booking_transition now i BookingAction.CANCEL
       (user_actor (js_or (map_option au_id actor) uid) (effective_role CUSTOMER actor)) (map_option trim reason) None d
       = Inr (res, d1)"
    "bt_isIdempotent res \<and> d' = d1 \<or>
     \<not> bt_isIdempotent res \<and> (\<exists>d2. cancel_reconcile now b d1 = Inr d2 \<and>
        (d' = d2 \<or> d' = create_outbox_once (cancel_event oid now (effective_role CUSTOMER actor) (the reason) b) d2))"
proof -
  have pol: "assertPolicy x = Inr y \<Longrightarrow> x = Allowed" for x y by (cases x) auto
  from assms show thesis unfolding cancelBooking_def Let_def
    by (auto split: option.splits sum.splits prod.splits if_splits intro: that dest: pol)
qed

lemma cancel_reconcile_parts:
  assumes "cancel_reconcile now b d = Inr d'"
  shows "bookings d' = bookings d" "booking_log d' = booking_log d"
    and "bk_requirement_id b \<noteq> [] \<Longrightarrow> \<exists>c e. reconcileCapacity now (bk_requirement_id b) d = Inr (c, e) \<and>
           requirements d' = requirements e"
    and "bk_requirement_id b = [] \<Longrightarrow> requirements d' = requirements d"
proof -
  from assms obtain e where e: "(if bk_requirement_id b \<noteq> [] then map_sum id snd (reconcileCapacity now (bk_requirement_id b) d)
        else Inr d) = Inr e"
    and same: "requirements d' = requirements e" "bookings d' = bookings e" "booking_log d' = booking_log e"
    using sync_job_frame by (auto simp: cancel_reconcile_def Let_def split: sum.splits if_splits)
  have frame: "bookings e' = bookings d \<and> booking_log e' = booking_log d"
    if "reconcileCapacity now k d = Inr (c, e')" for k c e'
    using that by (auto simp: reconcileCapacity_def Let_def split: option.splits sum.splits)
  from e show "bk_requirement_id b \<noteq> [] \<Longrightarrow> \<exists>c e. reconcileCapacity now (bk_requirement_id b) d = Inr (c, e) \<and>
           requirements d' = requirements e"
    using same by (cases "reconcileCapacity now (bk_requirement_id b) d") auto
  from e show "bk_requirement_id b = [] \<Longrightarrow> requirements d' = requirements d" using same by simp
  have "bookings e = bookings d \<and> booking_log e = booking_log d"
    using e frame by (cases "reconcileCapacity now (bk_requirement_id b) d") (auto split: if_splits)
  with same show "bookings d' = bookings d" "booking_log d' = booking_log d" by simp_all
qed

lemma reconcile_requirement_ids:
  "reconcileCapacity now k d = Inr (c, e) \<Longrightarrow> \<forall>r \<in> set (requirements d). rq_id r \<noteq> [] \<Longrightarrow>
   \<forall>r \<in> set (requirements e). rq_id r \<noteq> []"
proof -
  assume "reconcileCapacity now k d = Inr (c, e)" and ids: "\<forall>r \<in> set (requirements d). rq_id r \<noteq> []"
  then obtain u where "e = update_requirement k u d"
    by (auto simp: reconcileCapacity_def Let_def split: option.splits sum.splits)
  with ids show ?thesis by (simp only: update_requirement_ids)
qed

lemma reconcile_id_set:
  "reconcileCapacity now k d = Inr (c, e) \<Longrightarrow> rq_id ` set (requirements e) = rq_id ` set (requirements d)"
proof -
  assume "reconcileCapacity now k d = Inr (c, e)"
  then obtain u where "e = update_requirement k u d"
    by (auto simp: reconcileCapacity_def Let_def split: option.splits sum.splits)
  then show ?thesis by (simp only: update_requirement_id_set)
qed

text \<open>Cancelling one booking and reconciling its requirement restores the ledger.\<close>

lemma cancel_ledger:
  assumes ok: "market_ok d" and b: "findUnique bk_id i (bookings d) = Some b"
    and st: "bk_status b = booking_status_str st" "st \<noteq> CANCELLED"
    and d1: "d1 = booking_step_effect u i f a ac rs d"
    and rec: "cancel_reconcile now b d1 = Inr d2"
  shows "ledger_ok d2"
proof -
  have aud: "booking_audited d" and led: "ledger_ok d" using ok by (simp_all add: market_ok_def)
  have dist: "distinct (map bk_id (bookings d))" using aud by (simp add: booking_audited_def)
  have others: "requirement_ok d1 r" if "r \<in> set (requirements d1)" "rq_id r \<noteq> bk_requirement_id b" for r
  proof -
    have "requirement_ok d r" using that led d1 by (simp add: ledger_ok_def)
    with that step_keeps_count [OF aud b st, of u "rq_id r"] d1 show ?thesis by (simp add: requirement_ok_def)
  qed
  have "bk_status x \<in> set ACTIVE_BOOKING_STATUSES" if "x \<in> set (bookings d)" "bk_id x = i" for x
    using findUnique_distinct [OF dist that(1)] that(2) b st active_str by simp
  then have less: "activeBookingsCount k d1 \<le> activeBookingsCount k d" for k
    unfolding d1 by (rule step_lowers_count)
  have mine: "0 < rq_needed r \<and> activeBookingsCount (bk_requirement_id b) d1 \<le> rq_needed r"
    if "r \<in> set (requirements d1)" "rq_id r = bk_requirement_id b" for r
    using that led less [of "bk_requirement_id b"] d1 by (auto simp: ledger_ok_def requirement_ok_def)
  have ids: "distinct (map rq_id (requirements d1))" using led d1 by (simp add: ledger_ok_def)
  note parts = cancel_reconcile_parts [OF rec]
  show ?thesis
  proof (cases "bk_requirement_id b = []")
    case True
    have "ledger_ok d1" using ok others True ids d1 by (auto simp: ledger_ok_def market_ok_def)
    with parts(1) parts(4) [OF True] ledger_cong [of d2 d1] show ?thesis by simp
  next
    case False
    from parts(3) [OF False] obtain c e where e: "reconcileCapacity now (bk_requirement_id b) d1 = Inr (c, e)"
      "requirements d2 = requirements e" by blast
    have "ledger_ok e" by (rule reconcileCapacity_ledger [OF e(1) ids]) (use others mine in auto)
    moreover have "bookings e = bookings d1"
      using e(1) by (auto simp: reconcileCapacity_def Let_def split: option.splits sum.splits)
    ultimately show ?thesis using parts(1) e(2) ledger_cong [of d2 e] by simp
  qed
qed

lemma cancelBooking_market:
  assumes ok: "market_ok d" and c: "cancelBooking oid now i uid reason actor d = Inr (r, d')"
  shows "market_ok d'"
  using c
proof (cases rule: cancelBooking_InrE)
  case (1 b0 res d1)
  have dist: "distinct (map bk_id (bookings d))" using ok by (simp add: market_ok_def booking_audited_def)
  have b0: "b0 \<in> set (bookings d)" "bk_id b0 = i" using findFirst_Some [OF 1(1)] by (auto simp: cancel_scope_def)
  then have b: "findUnique bk_id i (bookings d) = Some b0" using findUnique_distinct [OF dist] by blast
  obtain st where st: "bk_status b0 = booking_status_str st" using market_booking [OF ok b0(1)] by blast
  from 1(4) b st show ?thesis
  proof (cases rule: booking_transition_InrE)
    case idempotent
    then show ?thesis by auto
  next
    case (step rule u)
    have live: "st \<noteq> CANCELLED" using step by auto
    from 1(5) step obtain d2 where d2: "cancel_reconcile now b0 d1 = Inr d2"
      "requirements d' = requirements d2" "bookings d' = bookings d2" "booking_log d' = booking_log d2" by auto
    note parts = cancel_reconcile_parts [OF d2(1)]
    have led: "ledger_ok d2" by (rule cancel_ledger [OF ok b st live step(13) d2(1)])
    have ids: "\<forall>r \<in> set (requirements d2). rq_id r \<noteq> []"
      using parts(3,4) reconcile_requirement_ids ok step by (cases "bk_requirement_id b0 = []") (auto simp: market_ok_def)
    note ms = market_step [OF ok b st, of u BookingAction.CANCEL _ "map_option trim reason"]
    have idset: "rq_id ` set (requirements d2) = rq_id ` set (requirements d)"
    proof (cases "bk_requirement_id b0 = []")
      case True
      with parts(4) step show ?thesis by simp
    next
      case False
      with parts(3) obtain c e where "reconcileCapacity now (bk_requirement_id b0) d1 = Inr (c, e)"
        "requirements d2 = requirements e" by blast
      with reconcile_id_set [of now "bk_requirement_id b0" d1 c e] step show ?thesis by simp
    qed
    have "booking_audited d2" using ms step parts booking_audited_cong [OF parts(1,2)] by simp
    with led ids idset ms step parts ok have "market_ok d2" by (simp add: market_ok_def)
    with d2 market_cong [of d' d2] show ?thesis by simp
  qed
qed

section \<open>The OTP attempt counter\<close>

definition otp_attempts_of :: "booking \<Rightarrow> int" where
  "otp_attempts_of b = (case bk_otp_attempts b of Some n \<Rightarrow> n | None \<Rightarrow> 0)"

text \<open>A booking that waits for its OTP, with \<open>n\<close> wrong guesses counted.\<close>

definition awaiting_otp :: "int \<Rightarrow> string \<Rightarrow> timestamp \<Rightarrow> uuid \<Rightarrow> int \<Rightarrow> booking \<Rightarrow> bool" where
  "awaiting_otp mx hash expires w n b \<longleftrightarrow> bk_status b = ''CONFIRMED'' \<and> \<not> bk_otp_verified b \<and>
     bk_otp_consumed_at b = None \<and> bk_otp_hash b = Some hash \<and> bk_otp_expires_at b = Some expires \<and>
     bk_worker_id b = w \<and> otp_attempts_of b = n \<and> (n < mx \<longrightarrow> bk_otp_locked_at b = None)"

text \<open>One guess by the assigned worker.\<close>

definition otp_guess ::
  "(string \<Rightarrow> string \<Rightarrow> bool) \<Rightarrow> int \<Rightarrow> uuid \<Rightarrow> uuid \<Rightarrow> timestamp \<times> string \<Rightarrow> db \<Rightarrow> db" where
  "otp_guess cmp mx i w g d = snd (verifyOtp cmp mx (fst g) i w (snd g) None d)"

lemma confirmed_normal [simp]: "booking_normalizeStatus (Some ''CONFIRMED'') = ''CONFIRMED''"
  using booking_normalize_str [of CONFIRMED] by simp

lemma otp_lock_found:
  assumes "findUnique bk_id i (bookings d) = Some b" and "otp_lock i w actor d = Inr x"
    and "distinct (map bk_id (bookings d))"
  shows "x = b"
proof -
  from assms(2) have "x \<in> set (bookings d) \<and> bk_id x = i"
    by (auto simp: otp_lock_def Let_def split: option.splits sum.splits dest: findUnique_Some)
  with assms(1,3) findUnique_distinct [of bk_id "bookings d" x] show ?thesis by simp
qed

lemma otp_lock_assigned:
  assumes "findUnique bk_id i (bookings d) = Some b" and "distinct (map bk_id (bookings d))"
  shows "otp_lock i (bk_worker_id b) None d = Inr b"
proof -
  have b: "b \<in> set (bookings d)" "bk_id b = i" using findUnique_Some [OF assms(1)] by auto
  have "findFirst (\<lambda>x. bk_id x = i \<and> bk_worker_id x = bk_worker_id b) (bookings d) = Some b"
  proof (cases "findFirst (\<lambda>x. bk_id x = i \<and> bk_worker_id x = bk_worker_id b) (bookings d)")
    case None
    with b show ?thesis by (auto simp: table_simps)
  next
    case (Some x)
    with b key_unique [OF assms(2), of x b] show ?thesis by (auto dest!: findFirst_Some)
  qed
  then show ?thesis by (simp add: otp_lock_def effective_id_def is_admin_def otp_authorize_def)
qed

lemma verifyOtp_locked:
  assumes "distinct (map bk_id (bookings d))" "findUnique bk_id i (bookings d) = Some b"
    and "bk_otp_locked_at b \<noteq> None \<or> mx \<le> otp_attempts_of b"
  shows "\<exists>e. verifyOtp cmp mx now i w otp actor d = (Inl e, d)"
proof (cases "otp_lock i w actor d")
  case (Inl e)
  then show ?thesis by (simp add: verifyOtp_def run_tx_def verifyOtp_tx_def)
next
  case (Inr x)
  with otp_lock_found [OF assms(2) Inr assms(1)] have "x = b" by simp
  moreover have "otp_guards now mx b \<noteq> None"
    using assms(3) by (auto simp: otp_guards_def otp_attempts_of_def)
  ultimately show ?thesis using Inr by (auto simp: verifyOtp_def run_tx_def verifyOtp_tx_def)
qed

interpretation otp_table: keyed_update bk_id "\<lambda>(now, n, l). otp_failed now n l"
  by unfold_locales (auto simp: otp_failed_def)

lemma verifyOtp_wrong:
  assumes "distinct (map bk_id (bookings d))" "findUnique bk_id i (bookings d) = Some b"
    and "awaiting_otp mx hash expires w n b" and "n < mx" and "now \<le> expires" and "\<not> cmp otp hash"
  shows "verifyOtp cmp mx now i w otp None d =
     (Inl (if mx \<le> n + 1 then BookingOtpLockedError else BookingOtpInvalidError),
      update_booking i (otp_failed now (n + 1) (mx \<le> n + 1)) d)"
proof -
  have w: "bk_worker_id b = w" using assms(3) by (simp add: awaiting_otp_def)
  with otp_lock_assigned [OF assms(2,1)] have "otp_lock i w None d = Inr b" by simp
  moreover have "otp_guards now mx b = None"
    using assms(3-5) by (simp add: otp_guards_def awaiting_otp_def otp_attempts_of_def)
  ultimately show ?thesis
    using assms(3,6) by (simp add: verifyOtp_def run_tx_def verifyOtp_tx_def Let_def awaiting_otp_def otp_attempts_of_def)
qed

lemma otp_guess_step:
  assumes "distinct (map bk_id (bookings d))" "findUnique bk_id i (bookings d) = Some b"
    and "awaiting_otp mx hash expires w n b" and "n < mx" and "fst g \<le> expires" and "\<not> cmp (snd g) hash"
  shows "distinct (map bk_id (bookings (otp_guess cmp mx i w g d))) \<and>
     (\<exists>b'. findUnique bk_id i (bookings (otp_guess cmp mx i w g d)) = Some b' \<and> awaiting_otp mx hash expires w (n + 1) b')"
proof -
  let ?f = "otp_failed (fst g) (n + 1) (mx \<le> n + 1)"
  have d': "otp_guess cmp mx i w g d = update_booking i ?f d"
    using verifyOtp_wrong [OF assms(1-5), of cmp "snd g"] assms(6) by (simp add: otp_guess_def)
  have ids: "map bk_id (bookings (update_booking i ?f d)) = map bk_id (bookings d)"
    by (simp add: update_booking_def) (rule updateMany_map_eq, simp add: otp_failed_def)
  have "findUnique bk_id i (bookings (update_booking i ?f d)) = Some (?f b)"
    using otp_table.findUnique_update_same [OF assms(2), of "(fst g, n + 1, mx \<le> n + 1)"]
    by (simp add: update_booking_def)
  moreover have "awaiting_otp mx hash expires w (n + 1) (?f b)"
    using assms(3,4) by (auto simp: awaiting_otp_def otp_failed_def otp_attempts_of_def)
  ultimately show ?thesis using ids assms(1) d' by simp
qed

lemma otp_guesses:
  assumes "distinct (map bk_id (bookings d))" "findUnique bk_id i (bookings d) = Some b"
    and "awaiting_otp mx hash expires w n b" and "n + int (length gs) \<le> mx"
    and "\<forall>g \<in> set gs. fst g \<le> expires \<and> \<not> cmp (snd g) hash"
  shows "distinct (map bk_id (bookings (fold (otp_guess cmp mx i w) gs d))) \<and>
     (\<exists>b'. findUnique bk_id i (bookings (fold (otp_guess cmp mx i w) gs d)) = Some b' \<and>
        awaiting_otp mx hash expires w (n + int (length gs)) b')"
  using assms
proof (induction gs arbitrary: d b n)
  case Nil
  then show ?case by auto
next
  case (Cons g gs)
  have "n < mx" using Cons.prems(4) by simp
  with otp_guess_step [OF Cons.prems(1-3), of g cmp] Cons.prems(5) obtain b' where
    b': "distinct (map bk_id (bookings (otp_guess cmp mx i w g d)))"
      "findUnique bk_id i (bookings (otp_guess cmp mx i w g d)) = Some b'"
      "awaiting_otp mx hash expires w (n + 1) b'" by auto
  from Cons.IH [OF b'] Cons.prems(4,5) show ?case by (simp add: algebra_simps)
qed

lemma job_invalid_from:
  "job_transition now i a ac r None d = Inl (JobInvalidTransitionError f x) \<Longrightarrow>
   \<exists>j. findUnique jb_id i (jobs d) = Some j \<and> js_or (Some (jb_status j)) ''OPEN'' = f"
  by (auto simp: job_transition_def Let_def split: option.splits if_splits)

lemma sync_job_status:
  assumes "distinct (map jb_id (jobs d))" and "sync_job now i a ac r ign d = Inr d'"
    and "JobStatus.OPEN \<notin> set ign"
  shows "\<exists>j. findUnique jb_id i (jobs d') = Some j \<and>
     ((\<exists>st. job_step st a (the (job_status_of (jb_status j))) \<and> job_status_of (jb_status j) \<noteq> None) \<or>
      jb_status j \<in> set (map job_status_str ign))"
proof (cases "job_transition now i a ac (Some r) None d")
  case (Inr p)
  then obtain res where t: "job_transition now i a ac (Some r) None d = Inr (res, d')"
    using assms(2) by (cases p) (auto simp: sync_job_def)
  from t show ?thesis
  proof (cases rule: job_transition_InrE)
    case (1 j st rule)
    from 1(10) obtain k where k: "k \<in> set (jobs d)" "jb_id k = i" "jb_status k = job_status_str st" by blast
    then have "k = j" using findUnique_distinct [OF assms(1) k(1)] 1(1) by simp
    with k 1 have "findUnique jb_id i (jobs d') =
        Some (apply_job_update (job_update_data (jr_target rule) a ac now) j)"
      by (simp add: job_step_effect_def job_table.findUnique_updateMany)
    with 1(3) show ?thesis by (auto simp: job_step_def)
  qed
next
  case (Inl e)
  with assms(2) obtain f x where f: "e = JobInvalidTransitionError f x" "f \<in> set (map job_status_str ign)" "d' = d"
    by (auto simp: sync_job_def split: error.splits if_splits)
  from job_invalid_from Inl f(1) obtain j where j: "findUnique jb_id i (jobs d) = Some j"
    "js_or (Some (jb_status j)) ''OPEN'' = f" by blast
  from f(2) obtain st where st: "f = job_status_str st" "st \<in> set ign" by auto
  with assms(3) have "st \<noteq> JobStatus.OPEN" by auto
  with st(1) have "f \<noteq> ''OPEN''" using job_status_str_inj [of st JobStatus.OPEN] by simp
  then have "jb_status j = f" using j(2) by (auto simp: js_or_def split: if_splits)
  with f j show ?thesis by auto
qed

lemma otp_lock_authorized:
  "otp_lock i w actor d = Inr b \<Longrightarrow>
   (case actor of None \<Rightarrow> bk_worker_id b = w
    | Some a \<Rightarrow> au_role a = ADMIN \<or> (au_role a = WORKER \<and> bk_worker_id b = au_id a))"
  by (auto simp: otp_lock_def Let_def otp_authorize_def booking_canVerifyOtp_def
      split: option.splits sum.splits if_splits)

lemma verifyOtp_success:
  assumes "verifyOtp cmp mx now i w otp actor d = (Inr (), d')"
  obtains b h res d1 where "otp_lock i w actor d = Inr b" "otp_guards now mx b = None"
    "bk_otp_hash b = Some h" "cmp otp h"
    "booking_transition now i BookingAction.START_WORK
       (user_actor (effective_id WORKER actor w) (effective_role WORKER actor))
       (Some (''Worker verified OTP for booking '' @ i)) None d = Inr (res, d1)"
    "if bk_job_id b \<noteq> [] then sync_job now (bk_job_id b) JobAction.START_WORK
         (user_actor (effective_id WORKER actor w) WORKER) (''Worker verified OTP for booking '' @ i)
         [JobStatus.IN_PROGRESS] d1 = Inr d' else d' = d1"
proof -
  from assms have t: "verifyOtp_tx cmp mx now i w otp actor d = Inr (OtpStarted, d')"
    by (cases "verifyOtp_tx cmp mx now i w otp actor d")
      (auto simp: verifyOtp_def run_tx_def split: prod.splits otp_outcome.splits if_splits)
  then show thesis unfolding verifyOtp_tx_def Let_def
    by (auto simp: truthy_iff split: option.splits sum.splits prod.splits if_splits intro: that)
qed

section \<open>Properties\<close>

text \<open>
  C7. The start OTP cannot be searched: after as many wrong guesses as the configured maximum, made
  before the OTP expires, every further call on that booking, by anybody and even with the right
  OTP, is refused and changes nothing. Each wrong guess is counted although the call fails.
\<close>

theorem otp_brute_force_locked:
  assumes "distinct (map bk_id (bookings d))" and "findUnique bk_id i (bookings d) = Some b"
    and "awaiting_otp mx hash expires w 0 b" and "int (length gs) = mx"
    and "\<forall>g \<in> set gs. fst g \<le> expires \<and> \<not> cmp (snd g) hash"
  shows "\<exists>e. verifyOtp cmp mx now i w' otp actor (fold (otp_guess cmp mx i w) gs d)
            = (Inl e, fold (otp_guess cmp mx i w) gs d)"
proof -
  from otp_guesses [where gs = gs and cmp = cmp, OF assms(1-3) _ assms(5)] assms(4) obtain b' where
    b': "distinct (map bk_id (bookings (fold (otp_guess cmp mx i w) gs d)))"
      "findUnique bk_id i (bookings (fold (otp_guess cmp mx i w) gs d)) = Some b'"
      "awaiting_otp mx hash expires w mx b'" by auto
  have "mx \<le> otp_attempts_of b'" using b'(3) by (simp add: awaiting_otp_def)
  with verifyOtp_locked [OF b'(1,2)] show ?thesis by simp
qed

theorem otp_brute_force_locked_witness:
  "\<exists>e. verifyOtp (=) 2 20 ''b1'' ''w1'' ''h'' None
         (fold (otp_guess (=) 2 ''b1'' ''w1'') [(10, ''x''), (11, ''y'')] sample_booking_db)
       = (Inl e, fold (otp_guess (=) 2 ''b1'' ''w1'') [(10, ''x''), (11, ''y'')] sample_booking_db)"
  by (rule otp_brute_force_locked [where b = sample_booking and hash = "''h''" and expires = 100])
    (simp_all add: sample_booking_db_def sample_booking_def findUnique_def awaiting_otp_def otp_attempts_of_def)

text \<open>
  A successful OTP verification proves what it should: the booking was CONFIRMED with an OTP
  that was neither consumed, locked, exhausted nor expired and that matches the stored hash, the
  caller is the assigned worker (or an admin), and afterwards the booking is IN_PROGRESS with the
  OTP consumed, and so is its job.
\<close>

theorem verifyOtp_starts_work:
  assumes "booking_audited d" and "distinct (map jb_id (jobs d))"
    and "verifyOtp cmp mx now i w otp actor d = (Inr (), d')"
  shows "\<exists>b b' h. findUnique bk_id i (bookings d) = Some b \<and> bk_status b = ''CONFIRMED'' \<and>
     bk_otp_hash b = Some h \<and> cmp otp h \<and> bk_otp_locked_at b = None \<and> otp_attempts_of b < mx \<and>
     \<not> bk_otp_verified b \<and> (\<forall>t. bk_otp_expires_at b = Some t \<longrightarrow> now \<le> t) \<and>
     (case actor of None \<Rightarrow> bk_worker_id b = w
      | Some a \<Rightarrow> au_role a = ADMIN \<or> (au_role a = WORKER \<and> bk_worker_id b = au_id a)) \<and>
     findUnique bk_id i (bookings d') = Some b' \<and> bk_status b' = ''IN_PROGRESS'' \<and> bk_otp_verified b' \<and>
     bk_otp_consumed_at b' = Some now \<and>
     (bk_job_id b \<noteq> [] \<longrightarrow> map_option jb_status (findUnique jb_id (bk_job_id b) (jobs d')) = Some ''IN_PROGRESS'')"
  using assms(3)
proof (cases rule: verifyOtp_success)
  case (1 b h res d1)
  have dist: "distinct (map bk_id (bookings d))" using assms(1) by (simp add: booking_audited_def)
  from 1(5) obtain b0 where b0: "findUnique bk_id i (bookings d) = Some b0"
    by (auto simp: booking_transition_def split: option.splits)
  with otp_lock_found [OF b0 1(1) dist] have b: "findUnique bk_id i (bookings d) = Some b" by simp
  then obtain st where st: "bk_status b = booking_status_str st"
    using booking_audited_status [OF assms(1)] findUnique_Some by metis
  have g: "st = CONFIRMED" "bk_otp_locked_at b = None" "otp_attempts_of b < mx" "\<not> bk_otp_verified b"
      "\<forall>t. bk_otp_expires_at b = Some t \<longrightarrow> now \<le> t"
    using 1(2) st booking_status_str_inj [of st CONFIRMED]
    by (auto simp: otp_guards_def otp_attempts_of_def split: if_splits)
  from 1(5) b st have "\<exists>u. bu_target u = IN_PROGRESS \<and> bu_now u = now \<and>
      bookings d1 = bookings (update_booking i (apply_booking_update u) d) \<and> jobs d1 = jobs d"
  proof (cases rule: booking_transition_InrE)
    case idempotent
    then show ?thesis by auto
  next
    case (step rule u)
    have "br_target rule = IN_PROGRESS" using step(1) g(1) by (auto simp: bk_rule_def)
    with step show ?thesis by (intro exI [of _ u]) (simp add: booking_step_effect_def update_booking_def)
  qed
  then obtain u where u: "bu_target u = IN_PROGRESS" "bu_now u = now"
      "bookings d1 = bookings (update_booking i (apply_booking_update u) d)" "jobs d1 = jobs d" by blast
  have d1: "findUnique bk_id i (bookings d1) = Some (apply_booking_update u b)"
    using b u(3) by (simp add: update_booking_def booking_table.findUnique_update_same)
  have same: "bookings d' = bookings d1"
    using 1(6) sync_job_frame(2) by (auto split: if_splits)
  have job: "bk_job_id b \<noteq> [] \<longrightarrow> map_option jb_status (findUnique jb_id (bk_job_id b) (jobs d')) = Some ''IN_PROGRESS''"
  proof
    assume "bk_job_id b \<noteq> []"
    with 1(6) have "sync_job now (bk_job_id b) JobAction.START_WORK (user_actor (effective_id WORKER actor w) WORKER)
        (''Worker verified OTP for booking '' @ i) [JobStatus.IN_PROGRESS] d1 = Inr d'" by simp
    from sync_job_status [OF _ this] assms(2) u(4) obtain j where
      j: "findUnique jb_id (bk_job_id b) (jobs d') = Some j"
        "(\<exists>s. job_step s JobAction.START_WORK (the (job_status_of (jb_status j))) \<and> job_status_of (jb_status j) \<noteq> None) \<or>
         jb_status j = ''IN_PROGRESS''" by auto
    have only: "job_step s JobAction.START_WORK t \<Longrightarrow> t = JobStatus.IN_PROGRESS" for s t
      by (cases s) (auto simp: job_step_def mk_rule_def)
    from j(2) have "jb_status j = ''IN_PROGRESS''"
    proof
      assume "\<exists>s. job_step s JobAction.START_WORK (the (job_status_of (jb_status j))) \<and> job_status_of (jb_status j) \<noteq> None"
      then obtain s y where y: "job_step s JobAction.START_WORK y" "job_status_of (jb_status j) = Some y" by auto
      from only [OF y(1)] job_status_of_Some [OF y(2)] show ?thesis by simp
    qed
    with j(1) show "map_option jb_status (findUnique jb_id (bk_job_id b) (jobs d')) = Some ''IN_PROGRESS''" by simp
  qed
  show ?thesis
    using b st g 1(3,4) otp_lock_authorized [OF 1(1)] d1 same u job
    by (intro exI [of _ b] exI [of _ "apply_booking_update u b"] exI [of _ h])
      (simp add: apply_booking_update.simps)
qed

definition sample_work_db :: db where
  "sample_work_db = sample_booking_db\<lparr>jobs := [sample_job]\<rparr>"

lemma sample_verify: "\<exists>d'. verifyOtp (=) 5 20 ''b1'' ''w1'' ''h'' None sample_work_db = (Inr (), d')"
  by (simp add: verifyOtp_def run_tx_def verifyOtp_tx_def otp_lock_def otp_authorize_def otp_guards_def
      sample_work_db_def sample_booking_db_def sample_booking_def sample_job_def findFirst_def findUnique_def
      effective_id_def effective_role_def is_admin_def Let_def booking_transition_def booking_transition_fresh_def
      booking_canTransition_def booking_status_of_def bk_rule_def user_actor_def sync_job_def job_transition_def
      js_or_def job_canTransition_def job_status_of_def all_job_statuses_def mk_rule_def update_booking_def)

theorem verifyOtp_starts_work_witness:
  "\<exists>d'. verifyOtp (=) 5 20 ''b1'' ''w1'' ''h'' None sample_work_db = (Inr (), d') \<and>
     map_option jb_status (findUnique jb_id ''j1'' (jobs d')) = Some ''IN_PROGRESS''"
proof -
  from sample_verify obtain d' where v: "verifyOtp (=) 5 20 ''b1'' ''w1'' ''h'' None sample_work_db = (Inr (), d')"
    by blast
  have "booking_audited sample_work_db" "distinct (map jb_id (jobs sample_work_db))"
    by (simp_all add: sample_work_db_def sample_booking_db_def sample_booking_def booking_audited_def
        booking_status_of_def history_of_def empty_db_def)
  from verifyOtp_starts_work [OF this v] v show ?thesis
    by (auto simp: sample_work_db_def sample_booking_db_def sample_booking_def findUnique_def)
qed

lemma countWhere_one:
  assumes "distinct (map key t)" "x \<in> set t" "Q x" "\<not> Q (f x)"
  shows "Suc (countWhere Q (updateMany (\<lambda>r. key r = key x) f t)) = countWhere Q t"
  using assms
proof (induction t)
  case Nil
  then show ?case by simp
next
  case (Cons r t)
  show ?case
  proof (cases "r = x")
    case True
    then have "updateMany (\<lambda>r. key r = key x) f t = t"
      using Cons.prems(1) by (intro updateMany_none) (auto simp: image_iff)
    with True Cons.prems show ?thesis by (simp add: updateMany_def)
  next
    case False
    then have "x \<in> set t" "key r \<noteq> key x" using Cons.prems by (auto simp: image_iff)
    with Cons show ?thesis by (simp add: updateMany_def)
  qed
qed

lemma reconcile_row:
  assumes "reconcileCapacity now k d = Inr (c, e)"
  obtains q where "findUnique rq_id k (requirements d) = Some q" "0 < rq_needed q"
    "findUnique rq_id k (requirements e) = Some (apply_req_update \<lparr>ru_status =
        Some (req_status_str (reconciled_status (req_normalizeStatus (rq_status q)) c)),
        ru_filled = Some (activeBookingsCount k d), ru_needed = None, ru_now = now\<rparr> q)"
    "isFilled c \<longleftrightarrow> rq_needed q \<le> activeBookingsCount k d"
proof -
  from assms obtain q where q: "findUnique rq_id k (requirements d) = Some q"
      and c: "calculateRequirementCapacity (num_of_int (rq_needed q)) (activeBookingsCount k d) = Inr c"
      and e: "e = update_requirement k \<lparr>ru_status =
        Some (req_status_str (reconciled_status (req_normalizeStatus (rq_status q)) c)),
        ru_filled = Some (activeBookingsCount k d), ru_needed = None, ru_now = now\<rparr> d"
    by (auto simp: reconcileCapacity_def Let_def split: option.splits sum.splits)
  show thesis
    by (rule that [OF q]) (use capacity_cases [OF c] q e in
      \<open>auto simp: update_requirement_def requirement_table.findUnique_update_same\<close>)
qed

lemma cancel_slot_row:
  assumes ok: "market_ok d" and same: "requirements d1 = requirements d"
    and rec: "cancel_reconcile now b d1 = Inr d2"
    and less: "activeBookingsCount (bk_requirement_id b) d1 = activeBookingsCount (bk_requirement_id b) d - 1"
    and ne: "bk_requirement_id b \<noteq> []"
  shows "\<exists>q q'. findUnique rq_id (bk_requirement_id b) (requirements d) = Some q \<and>
        findUnique rq_id (bk_requirement_id b) (requirements d2) = Some q' \<and>
        rq_filled q' = rq_filled q - 1 \<and> rq_status q' \<noteq> ''FILLED''"
proof -
  from cancel_reconcile_parts(3) [OF rec ne] obtain c e where
    e: "reconcileCapacity now (bk_requirement_id b) d1 = Inr (c, e)" "requirements d2 = requirements e" by blast
  from e(1) show ?thesis
  proof (rule reconcile_row)
    fix q assume q: "findUnique rq_id (bk_requirement_id b) (requirements d1) = Some q" "0 < rq_needed q"
      "findUnique rq_id (bk_requirement_id b) (requirements e) = Some (apply_req_update \<lparr>ru_status =
        Some (req_status_str (reconciled_status (req_normalizeStatus (rq_status q)) c)),
        ru_filled = Some (activeBookingsCount (bk_requirement_id b) d1), ru_needed = None, ru_now = now\<rparr> q)"
      "isFilled c \<longleftrightarrow> rq_needed q \<le> activeBookingsCount (bk_requirement_id b) d1"
    have "requirement_ok d q" "rq_id q = bk_requirement_id b"
      using ok q(1) same findUnique_Some [of rq_id _ _ q] by (auto simp: market_ok_def ledger_ok_def)
    then have f: "rq_filled q = activeBookingsCount (bk_requirement_id b) d" "rq_filled q \<le> rq_needed q"
      by (simp_all add: requirement_ok_def)
    then have "reconciled_status (req_normalizeStatus (rq_status q)) c \<noteq> FILLED"
      using q(4) less by (auto simp: reconciled_status_def)
    then have "req_status_str (reconciled_status (req_normalizeStatus (rq_status q)) c) \<noteq> ''FILLED''"
      using req_status_str_inj [of _ FILLED] by auto
    with q f less same e(2) show ?thesis by (simp add: apply_req_update_def)
  qed
qed

text \<open>
  C8. Cancelling a booking gives its slot back: the caller is a participant (or admin) and gave a
  non-blank reason, the booking is CANCELLED with that trimmed reason, and the requirement counts
  exactly one filled slot less and is no longer \<^verbatim>\<open>FILLED\<close>, so that it can be dispatched again.
\<close>

theorem cancelBooking_releases_slot:
  assumes ok: "market_ok d" and c: "cancelBooking oid now i uid reason actor d = Inr (r, d')"
  shows "\<exists>b. findUnique bk_id i (bookings d) = Some b \<and> bk_status b \<in> {''CONFIRMED'', ''IN_PROGRESS'', ''AWAITING_CONFIRMATION''} \<and>
     (case actor of None \<Rightarrow> bk_customer_id b = uid
      | Some a \<Rightarrow> booking_canCancel a b = Allowed) \<and>
     findUnique bk_id i (bookings d') = Some r \<and> bk_status r = ''CANCELLED'' \<and>
     bk_cancellation_reason r = map_option trim reason \<and> truthy (bk_cancellation_reason r) \<and>
     (bk_requirement_id b \<noteq> [] \<longrightarrow> (\<exists>q q'. findUnique rq_id (bk_requirement_id b) (requirements d) = Some q \<and>
        findUnique rq_id (bk_requirement_id b) (requirements d') = Some q' \<and>
        rq_filled q' = rq_filled q - 1 \<and> rq_status q' \<noteq> ''FILLED''))"
  using c
proof (cases rule: cancelBooking_InrE)
  case (1 b res d1)
  have dist: "distinct (map bk_id (bookings d))" using ok by (simp add: market_ok_def booking_audited_def)
  have b0: "b \<in> set (bookings d)" "bk_id b = i" and scope: "cancel_scope i (js_or (map_option au_id actor) uid)
      (effective_role CUSTOMER actor) b" using findFirst_Some [OF 1(1)] by (auto simp: cancel_scope_def)
  then have b: "findUnique bk_id i (bookings d) = Some b" using findUnique_distinct [OF dist] by blast
  obtain st where st: "bk_status b = booking_status_str st" using market_booking [OF ok b0(1)] by blast
  have r: "r = bt_booking res" using c 1 unfolding cancelBooking_def Let_def
    by (auto split: option.splits sum.splits if_splits)
  from 1(4) b st show ?thesis
  proof (cases rule: booking_transition_InrE)
    case idempotent
    then show ?thesis by auto
  next
    case (step rule u)
    have live: "st \<notin> {CANCELLED, COMPLETED}" using step(1) by auto
    have target: "bu_target u = CANCELLED" using step booking_target_cancel by metis
    from 1(5) step obtain d2 where d2: "cancel_reconcile now b d1 = Inr d2"
      "requirements d' = requirements d2" "bookings d' = bookings d2" by auto
    note parts = cancel_reconcile_parts [OF d2(1)]
    have row: "findUnique bk_id i (bookings d') = Some r"
      using b d2 parts step r by (simp add: update_booking_def booking_table.findUnique_update_same)
    have "active_booking (bk_requirement_id b) b" "\<not> active_booking (bk_requirement_id b) (apply_booking_update u b)"
      using st live target active_str [of st] active_str [of CANCELLED] by (simp_all add: active_booking_def)
    from countWhere_one [where key = bk_id and Q = "active_booking (bk_requirement_id b)"
          and f = "apply_booking_update u", OF dist b0(1) this]
    have "activeBookingsCount (bk_requirement_id b) d1 = activeBookingsCount (bk_requirement_id b) d - 1"
      using step(13) b0 by (simp add: activeBookingsCount_def update_booking_def)
    then have slot: "bk_requirement_id b \<noteq> [] \<longrightarrow> (\<exists>q q'. findUnique rq_id (bk_requirement_id b) (requirements d) = Some q \<and>
        findUnique rq_id (bk_requirement_id b) (requirements d') = Some q' \<and>
        rq_filled q' = rq_filled q - 1 \<and> rq_status q' \<noteq> ''FILLED'')"
      using cancel_slot_row [OF ok _ d2(1)] step d2(2) by simp
    have status: "bk_status b \<in> {''CONFIRMED'', ''IN_PROGRESS'', ''AWAITING_CONFIRMATION''}"
      using st live by (cases st) auto
    have who: "case actor of None \<Rightarrow> bk_customer_id b = uid | Some a \<Rightarrow> booking_canCancel a b = Allowed"
      using 1(2) scope by (auto simp: cancel_scope_def effective_role_def js_or_def split: option.splits)
    have stamps: "bk_status r = ''CANCELLED''" "bk_cancellation_reason r = map_option trim reason"
      using r step(12,14) target by (auto simp: apply_booking_update.simps trim_idem)
    with 1(3) have "truthy (bk_cancellation_reason r)" by simp
    with b status who row stamps slot show ?thesis by (intro exI [of _ b] conjI)
  qed
qed

definition sample_cancel_db :: db where
  "sample_cancel_db = sample_booking_db\<lparr>jobs := [sample_job],
     requirements := [sample_requirement\<lparr>rq_needed := 1, rq_filled := 1\<rparr>]\<rparr>"

lemma sample_cancel_ok: "market_ok sample_cancel_db"
  by (simp add: market_ok_def ledger_ok_def requirement_ok_def activeBookingsCount_def active_booking_def
      ACTIVE_BOOKING_STATUSES_def booking_audited_def booking_status_of_def history_of_def
      sample_cancel_db_def sample_booking_db_def sample_booking_def sample_requirement_def empty_db_def)

lemma sample_cancel:
  "\<exists>r d'. cancelBooking ''o1'' 20 ''b1'' ''c1'' (Some ''rain'') None sample_cancel_db = Inr (r, d')"
proof -
  have trim: "trim ''rain'' = ''rain''" by (simp add: trim_def is_space_def)
  show ?thesis
    by (simp add: cancelBooking_def trim effective_role_def js_or_def cancel_scope_def findFirst_def findUnique_def
        sample_cancel_db_def sample_booking_db_def sample_booking_def sample_job_def sample_requirement_def Let_def
        booking_transition_def booking_transition_fresh_def booking_canTransition_def booking_status_of_def
        bk_rule_def user_actor_def cancel_reconcile_def reconcileCapacity_def activeBookingsCount_def
        update_booking_def updateMany_def apply_booking_update.simps active_booking_def ACTIVE_BOOKING_STATUSES_def
        calculateRequirementCapacity_def update_requirement_def apply_req_update_def active_bookings_of_job_def
        sync_job_def job_transition_def job_canTransition_def job_status_of_def all_job_statuses_def mk_rule_def
        system_actor_def)
qed

theorem cancelBooking_releases_slot_witness:
  "\<exists>r d'. cancelBooking ''o1'' 20 ''b1'' ''c1'' (Some ''rain'') None sample_cancel_db = Inr (r, d') \<and>
     map_option rq_filled (findUnique rq_id ''r1'' (requirements d')) = Some 0"
proof -
  from sample_cancel obtain r d' where
    c: "cancelBooking ''o1'' 20 ''b1'' ''c1'' (Some ''rain'') None sample_cancel_db = Inr (r, d')" by blast
  from cancelBooking_releases_slot [OF sample_cancel_ok c] c show ?thesis
    by (auto simp: sample_cancel_db_def sample_booking_db_def sample_booking_def sample_requirement_def findUnique_def)
qed

text \<open>
  Reading a booking: without an actor 401; an unknown id 404; otherwise the row is returned to
  exactly its customer, its worker and admins, and everybody else gets the policy's 404, so a
  stranger cannot tell a foreign booking from a missing one by the status.
\<close>

theorem getBookingDetail_exact:
  assumes "distinct (map bk_id (bookings d))" and "i \<noteq> []"
  shows "getBookingDetail i actor d =
     (case actor of None \<Rightarrow> Inl (AuthorizationError 401 ''FORBIDDEN'')
      | Some a \<Rightarrow> (case findUnique bk_id i (bookings d) of None \<Rightarrow> Inl (AuthorizationError 404 ''FORBIDDEN'')
          | Some b \<Rightarrow> if au_role a = ADMIN \<or> (au_role a = CUSTOMER \<and> bk_customer_id b = au_id a)
                         \<or> (au_role a = WORKER \<and> bk_worker_id b = au_id a)
                      then Inr b else Inl (AuthorizationError 404 ''RESOURCE_NOT_FOUND'')))"
proof (cases actor)
  case None
  then show ?thesis by (simp add: getBookingDetail_def)
next
  case (Some a)
  have read: "getBookingDetail i actor d =
      policy_read (booking_scopeRead a (Some i)) (\<lambda>b. bk_id b = i) (booking_canRead a)
        (AuthorizationError 404 ''FORBIDDEN'') (bookings d)"
  proof (cases "findFirst (booking_scopeRead a (Some i)) (bookings d)")
    case None
    with Some show ?thesis by (simp add: getBookingDetail_def policy_read_def findUnique_def findFirst_def)
  next
    case (Some b)
    then have "booking_canRead a b = Allowed"
      using booking_access.scoped_find [of "bookings d" i a b] assms(2) by simp
    with Some \<open>actor = Some a\<close> show ?thesis by (simp add: getBookingDetail_def policy_read_def)
  qed
  show ?thesis unfolding read using Some assms
    by (cases "au_role a")
      (auto simp: booking_access.policy_read_spec booking_canRead_def split: option.splits)
qed

theorem getBookingDetail_exact_witness:
  "getBookingDetail ''b1'' (Some \<lparr>au_id = ''c9'', au_role = CUSTOMER\<rparr>) sample_booking_db
     = Inl (AuthorizationError 404 ''RESOURCE_NOT_FOUND'')"
  using getBookingDetail_exact [of sample_booking_db "''b1''" "Some \<lparr>au_id = ''c9'', au_role = CUSTOMER\<rparr>"]
  by (simp add: sample_booking_db_def sample_booking_def findUnique_def)

end
