(* ===== verification/Job_Service.thy ===== *)
theory Job_Service
  imports Booking_Service
begin

text \<open>
  Jobs and their requirements as services: \<^verbatim>\<open>src/features/jobs/job.services.ts\<close> (create, read,
  cancel, complete), \<^verbatim>\<open>src/features/jobs/jobReqServices.ts\<close> (add a requirement, change its demand)
  and the coordinate validator \<^verbatim>\<open>src/utils/coordinateValidator.ts\<close>. Generated ids, the clock, the
  resolution of a skill name and the digest of the operation ids are arguments; the best-effort
  writes of \<^verbatim>\<open>location_geo\<close> and \<^verbatim>\<open>job_requirement_skill\<close> are left out.
\<close>

section \<open>Coordinates\<close>

text \<open>An unknown input: absent, or a JSON value; a number may be NaN or infinite.\<close>

definition coord_present :: "json option \<Rightarrow> bool" where
  "coord_present v \<longleftrightarrow> v \<noteq> None \<and> v \<noteq> Some JNull"

fun coord_number :: "json option \<Rightarrow> js_number option" where
  "coord_number (Some (JNum n)) = Some n"
| "coord_number (Some (JInt i)) = Some (num_of_int i)"
| "coord_number _ = None"

fun finite_value :: "js_number \<Rightarrow> rat option" where
  "finite_value (Finite q) = Some q"
| "finite_value _ = None"

definition in_range :: "rat \<Rightarrow> json option \<Rightarrow> bool" where
  "in_range bound v = (case Option.bind (coord_number v) finite_value of
     None \<Rightarrow> False | Some q \<Rightarrow> - bound \<le> q \<and> q \<le> bound)"

definition isValidLatitude :: "json option \<Rightarrow> bool" where
  "isValidLatitude lat = in_range 90 lat"

definition isValidLongitude :: "json option \<Rightarrow> bool" where
  "isValidLongitude lon = in_range 180 lon"

text \<open>\<open>Inr None\<close> is a valid absent location; a rational has no negative zero to normalise, and the
  received value that closes the two range messages is left out.\<close>

definition validateCoordinatePair :: "json option \<Rightarrow> json option \<Rightarrow> string + (rat \<times> rat) option" where
  "validateCoordinatePair latitude longitude =
     (if \<not> coord_present latitude \<and> \<not> coord_present longitude then Inl ''Coordinates are required: both latitude and longitude must be provided''
      else if \<not> coord_present latitude \<or> \<not> coord_present longitude
      then Inl ''Partial coordinate pair rejected: both latitude and longitude must be provided together''
      else case (coord_number latitude, coord_number longitude) of
        (Some x, Some y) \<Rightarrow>
          (case (finite_value x, finite_value y) of
             (Some lat, Some lon) \<Rightarrow>
               if lat < -90 \<or> lat > 90 then Inl ''Latitude must be between -90 and 90 degrees''
               else if lon < -180 \<or> lon > 180 then Inl ''Longitude must be between -180 and 180 degrees''
               else Inr (Some (lat, lon))
           | _ \<Rightarrow> Inl ''Coordinates must be finite numbers (NaN and Infinities are rejected)'')
      | _ \<Rightarrow> Inl ''Coordinates must be numeric values'')"

definition validateOptionalCoordinatePair :: "json option \<Rightarrow> json option \<Rightarrow> string + (rat \<times> rat) option" where
  "validateOptionalCoordinatePair latitude longitude =
     (if \<not> coord_present latitude \<and> \<not> coord_present longitude then Inr None
      else validateCoordinatePair latitude longitude)"

section \<open>createJob\<close>

record requirement_req =
  rp_id :: uuid
  rp_skill_id :: "uuid option"
  rp_skill_type :: "string option"
  rp_needed :: int
  rp_rate_per_day :: "int option"

record create_job_req =
  cj_latitude :: "json option"
  cj_longitude :: "json option"
  cj_requirements :: "requirement_req list"

definition canonicalSkillId :: "(string \<Rightarrow> uuid option) \<Rightarrow> requirement_req \<Rightarrow> uuid option" where
  "canonicalSkillId resolveSkillId r =
     (if truthy (rp_skill_id r) then rp_skill_id r
      else if truthy (rp_skill_type r) then resolveSkillId (the (rp_skill_type r))
      else None)"

text \<open>
  The insert, with the constraints of the table: the id is a real uuid and new, the demand positive.
\<close>

definition create_requirement :: "job_requirement \<Rightarrow> db \<Rightarrow> error + db" where
  "create_requirement r d =
     (if rq_id r = [] then Inl (PlainError ''invalid input syntax for type uuid'')
      else if list_ex (\<lambda>q. rq_id q = rq_id r) (requirements d) then Inl (PrismaUniqueViolation ''id'')
      else if rq_needed r \<le> 0 then Inl CheckViolation
      else Inr (d\<lparr>requirements := requirements d @ [r]\<rparr>))"

definition new_requirement ::
  "(string \<Rightarrow> uuid option) \<Rightarrow> timestamp \<Rightarrow> uuid \<Rightarrow> requirement_req \<Rightarrow> job_requirement" where
  "new_requirement resolveSkillId now jobId r =
     \<lparr>rq_id = rp_id r, rq_job_id = jobId, rq_skill_id = canonicalSkillId resolveSkillId r,
      rq_skill_type = rp_skill_type r, rq_needed = rp_needed r, rq_filled = 0,
      rq_rate_per_day = rp_rate_per_day r, rq_status = req_status_str OPEN, rq_updated_at = now\<rparr>"

fun create_requirements ::
  "(string \<Rightarrow> uuid option) \<Rightarrow> timestamp \<Rightarrow> uuid \<Rightarrow> requirement_req list \<Rightarrow> db \<Rightarrow> error + db" where
  "create_requirements f now jobId [] d = Inr d"
| "create_requirements f now jobId (r # rs) d =
     (case create_requirement (new_requirement f now jobId r) d of
        Inl e \<Rightarrow> Inl e | Inr d' \<Rightarrow> create_requirements f now jobId rs d')"

definition new_job :: "timestamp \<Rightarrow> uuid \<Rightarrow> uuid \<Rightarrow> (rat \<times> rat) option \<Rightarrow> job" where
  "new_job now jobId customerId coords =
     \<lparr>jb_id = jobId, jb_customer_id = customerId, jb_latitude = map_option (\<lambda>c. Finite (fst c)) coords,
      jb_longitude = map_option (\<lambda>c. Finite (snd c)) coords, jb_status = job_status_str JobStatus.OPEN,
      jb_dispatch_status = ''IDLE'', jb_updated_at = now, jb_cancelled_at = None, jb_cancelled_by = None,
      jb_completed_at = None\<rparr>"

definition job_created_row :: "uuid \<Rightarrow> uuid \<Rightarrow> transition_row" where
  "job_created_row jobId customerId =
     \<lparr>tr_entity_id = jobId, tr_from = ''INITIAL'', tr_to = job_status_str JobStatus.OPEN,
      tr_action = job_action_str JobAction.CREATE, tr_actor_type = user_role_str CUSTOMER,
      tr_actor_id = Some customerId, tr_reason = Some ''Job created by customer''\<rparr>"

text \<open>The first transaction: the job, its creation in the history, its requirements.\<close>

definition create_job_tx ::
  "(string \<Rightarrow> uuid option) \<Rightarrow> timestamp \<Rightarrow> uuid \<Rightarrow> uuid \<Rightarrow> (rat \<times> rat) option \<Rightarrow> requirement_req list \<Rightarrow> db
   \<Rightarrow> error + (job \<times> db)" where
  "create_job_tx f now jobId customerId coords rs d =
     (if list_ex (\<lambda>j. jb_id j = jobId) (jobs d) then Inl (PrismaUniqueViolation ''id'')
      else
        let j = new_job now jobId customerId coords;
            d1 = d\<lparr>jobs := jobs d @ [j], job_log := job_log d @ [job_created_row jobId customerId]\<rparr>
        in case create_requirements f now jobId rs d1 of Inl e \<Rightarrow> Inl e | Inr d2 \<Rightarrow> Inr (j, d2))"

definition set_requirements_status ::
  "timestamp \<Rightarrow> (job_requirement \<Rightarrow> bool) \<Rightarrow> RequirementStatus \<Rightarrow> db \<Rightarrow> db" where
  "set_requirements_status now hit s d =
     d\<lparr>requirements := updateMany hit (apply_req_update \<lparr>ru_status = Some (req_status_str s), ru_filled = None,
         ru_needed = None, ru_now = now\<rparr>) (requirements d)\<rparr>"

text \<open>The second transaction: job and requirements start dispatching.\<close>

definition start_dispatch_tx :: "timestamp \<Rightarrow> uuid \<Rightarrow> db \<Rightarrow> error + (unit \<times> db)" where
  "start_dispatch_tx now jobId d =
     (case job_transition now jobId JobAction.START_DISPATCH system_actor (Some ''BullMQ dispatch wave initiated'') None d of
        Inl e \<Rightarrow> Inl e
      | Inr (_, d1) \<Rightarrow> Inr ((), set_requirements_status now
            (\<lambda>r. rq_job_id r = jobId \<and> rq_status r = req_status_str OPEN) RequirementStatus.DISPATCHING d1))"

definition already_dispatching :: "error \<Rightarrow> bool" where
  "already_dispatching e = (case e of
     JobInvalidTransitionError from _ \<Rightarrow> from = job_status_str JobStatus.DISPATCHING | _ \<Rightarrow> False)"

definition createJob ::
  "(string \<Rightarrow> uuid option) \<Rightarrow> (string \<Rightarrow> string) \<Rightarrow> timestamp \<Rightarrow> uuid \<Rightarrow> uuid \<Rightarrow> create_job_req \<Rightarrow> db
   \<Rightarrow> (error + (job \<times> dispatch_message list)) \<times> db" where
  "createJob resolveSkillId sha256hex now jobId customerId payload d =
     (case validateOptionalCoordinatePair (cj_latitude payload) (cj_longitude payload) of
        Inl m \<Rightarrow> (Inl (StatusError 400 (js_or (Some m) ''Invalid geographic coordinates'')), d)
      | Inr coords \<Rightarrow>
     (case run_tx (create_job_tx resolveSkillId now jobId customerId coords (cj_requirements payload)) d of
        (Inl e, d1) \<Rightarrow> (Inl e, d1)
      | (Inr j, d1) \<Rightarrow>
          let createdRequirements = filter (\<lambda>r. rq_job_id r = jobId) (requirements d1);
              messages = map (\<lambda>r. dispatch_message_for sha256hex (rq_id r) jobId 1) createdRequirements
          in case run_tx (start_dispatch_tx now jobId) d1 of
               (Inl e, d2) \<Rightarrow> if already_dispatching e then (Inr (j, messages), d2) else (Inl e, d2)
             | (Inr _, d2) \<Rightarrow> (Inr (j, messages), d2)))"

section \<open>Cancel and complete\<close>

definition cancelJob ::
  "timestamp \<Rightarrow> uuid \<Rightarrow> uuid \<Rightarrow> AuthenticatedUser option \<Rightarrow> string option \<Rightarrow> db \<Rightarrow> error + (job_transition_result \<times> db)" where
  "cancelJob now jobId customerId actor reason d =
     (case (case actor of Some a \<Rightarrow> Some (user_actor (au_id a) (au_role a))
            | None \<Rightarrow> if customerId \<noteq> [] then Some (user_actor customerId CUSTOMER) else None) of
        None \<Rightarrow> Inl (AuthorizationError 401 ''UNAUTHORIZED'')
      | Some who \<Rightarrow>
          (case job_transition now jobId JobAction.CANCEL who
                  (Some (js_or reason ''Job cancelled by customer/admin'')) None d of
             Inl e \<Rightarrow> Inl e
           | Inr (res, d1) \<Rightarrow>
               let d2 = set_requirements_status now
                     (\<lambda>r. rq_job_id r = jobId \<and>
                        rq_status r \<notin> {req_status_str FILLED, req_status_str RequirementStatus.CANCELLED})
                     RequirementStatus.CANCELLED d1;
                   reqs = map rq_id (filter (\<lambda>r. rq_job_id r = jobId) (requirements d2));
                   d3 = d2\<lparr>dispatches := updateMany
                        (\<lambda>p. dp_requirement_id p \<in> set reqs \<and> dp_status p = ''pending'')
                        (\<lambda>p. p\<lparr>dp_status := ''cancelled'', dp_responded_at := Some now\<rparr>) (dispatches d2)\<rparr>
               in Inr (res, d3)))"

definition completeJob ::
  "timestamp \<Rightarrow> uuid \<Rightarrow> transition_actor \<Rightarrow> string option \<Rightarrow> db \<Rightarrow> error + (job_transition_result \<times> db)" where
  "completeJob now jobId actor reason d =
     job_transition now jobId JobAction.COMPLETE actor (Some (js_or reason ''All requirements completed'')) None d"

section \<open>Reads\<close>

definition getJobsByCustomer :: "uuid \<Rightarrow> db \<Rightarrow> job list" where
  "getJobsByCustomer customerId d = filter (\<lambda>j. jb_customer_id j = customerId) (jobs d)"

definition getJobDetail :: "uuid \<Rightarrow> AuthenticatedUser option \<Rightarrow> db \<Rightarrow> error + job" where
  "getJobDetail jobId actor d =
     (case actor of None \<Rightarrow> Inl (AuthorizationError 401 ''UNAUTHORIZED'')
      | Some a \<Rightarrow> policy_read (job_scopeRead a (Some jobId) d) (\<lambda>j. jb_id j = jobId)
          (\<lambda>j. job_canRead a (job_resource d j)) (PlainError ''Job not found'') (jobs d))"

definition getJobRequirements :: "uuid \<Rightarrow> AuthenticatedUser option \<Rightarrow> db \<Rightarrow> error + job_requirement list" where
  "getJobRequirements jobId actor d =
     (case getJobDetail jobId actor d of Inl e \<Rightarrow> Inl e
      | Inr _ \<Rightarrow> Inr (filter (\<lambda>r. rq_job_id r = jobId) (requirements d)))"

definition getJobBookings :: "uuid \<Rightarrow> AuthenticatedUser option \<Rightarrow> db \<Rightarrow> error + booking list" where
  "getJobBookings jobId actor d =
     (case actor of None \<Rightarrow> Inl (AuthorizationError 401 ''UNAUTHORIZED'')
      | Some a \<Rightarrow>
          (case policy_read (job_scopeRead a (Some jobId) d) (\<lambda>j. jb_id j = jobId)
                  (\<lambda>j. job_canReadBookings a (job_resource d j)) (PlainError ''Job not found'') (jobs d) of
             Inl e \<Rightarrow> Inl e
           | Inr _ \<Rightarrow> Inr (filter (\<lambda>b. bk_job_id b = jobId \<and>
                               (au_role a = WORKER \<longrightarrow> bk_worker_id b = au_id a)) (bookings d))))"

section \<open>Requirements\<close>

definition createJobReq ::
  "(string \<Rightarrow> uuid option) \<Rightarrow> timestamp \<Rightarrow> uuid \<Rightarrow> requirement_req \<Rightarrow> js_number option \<Rightarrow> AuthenticatedUser option \<Rightarrow> db
   \<Rightarrow> (error + job_requirement) \<times> db" where
  "createJobReq resolveSkillId now jobId payload needed actor d =
     (case actor of None \<Rightarrow> (Inl (AuthorizationError 401 ''UNAUTHORIZED''), d)
      | Some a \<Rightarrow>
     (case findUnique jb_id jobId (jobs d) of None \<Rightarrow> (Inl (PlainError ''Job not found''), d)
      | Some j \<Rightarrow>
     (case assertPolicy (job_canCreateRequirement a \<lparr>jv_customer_id = jb_customer_id j,
             jv_status = Some (jb_status j), jv_booking = None, jv_job_requirement = None\<rparr>) of
        Inl e \<Rightarrow> (Inl e, d)
      | Inr _ \<Rightarrow>
          if needed = None \<or> \<not> js_isInteger (the needed) \<or> js_int (the needed) \<le> 0
          then (Inl RequirementInvalidWorkerCountError, d)
          else
            let r = (new_requirement resolveSkillId now jobId (payload\<lparr>rp_needed := js_int (the needed)\<rparr>))
                      \<lparr>rq_skill_type := Some (js_or (rp_skill_type payload) ''General'')\<rparr>
            in case create_requirement r d of Inl e \<Rightarrow> (Inl e, d) | Inr d' \<Rightarrow> (Inr r, d'))))"

definition getRequirementDetail :: "uuid \<Rightarrow> uuid \<Rightarrow> AuthenticatedUser option \<Rightarrow> db \<Rightarrow> error + job_requirement" where
  "getRequirementDetail jobId requirementId actor d =
     (case actor of None \<Rightarrow> Inl (AuthorizationError 401 ''UNAUTHORIZED'')
      | Some a \<Rightarrow>
          (case findFirst (\<lambda>r. requirement_scopeRead a (Some requirementId) d r \<and> rq_job_id r = jobId) (requirements d) of
             None \<Rightarrow> Inl (PlainError ''Requirement not found'')
           | Some r \<Rightarrow> (case assertPolicy (requirement_canRead a (requirement_resource d r)) of
                 Inl e \<Rightarrow> Inl e | Inr _ \<Rightarrow> Inr r)))"

definition updateRequirementDemand ::
  "timestamp \<Rightarrow> uuid \<Rightarrow> uuid \<Rightarrow> js_number \<Rightarrow> AuthenticatedUser option \<Rightarrow> db
   \<Rightarrow> error + ((job_requirement \<times> RequirementCapacity) \<times> db)" where
  "updateRequirementDemand now jobId requirementId newWorkerCountNeeded actor d =
     (case actor of None \<Rightarrow> Inl (AuthorizationError 401 ''UNAUTHORIZED'')
      | Some a \<Rightarrow>
          (case findFirst (\<lambda>r. rq_id r = requirementId \<and> rq_job_id r = jobId) (requirements d) of
             None \<Rightarrow> Inl (PlainError ''Requirement not found'')
           | Some r \<Rightarrow> (case assertPolicy (requirement_canUpdate a (requirement_resource d r)) of
                 Inl e \<Rightarrow> Inl e
               | Inr _ \<Rightarrow> updateDemand now requirementId newWorkerCountNeeded (user_actor (au_id a) (au_role a)) d)))"

section \<open>The invariant of the jobs\<close>

text \<open>The jobs are audited and the rows of the job log belong to jobs.\<close>

definition jobs_ok :: "db \<Rightarrow> bool" where
  "jobs_ok d \<longleftrightarrow> job_audited d \<and> (\<forall>l \<in> set (job_log d). tr_entity_id l \<in> jb_id ` set (jobs d))"

definition system_ok :: "db \<Rightarrow> bool" where
  "system_ok d \<longleftrightarrow> market_ok d \<and> jobs_ok d"

section \<open>Lemmas\<close>

lemma jobs_ok_cong: "jobs d' = jobs d \<Longrightarrow> job_log d' = job_log d \<Longrightarrow> jobs_ok d' = jobs_ok d"
  by (simp add: jobs_ok_def job_audited_def job_getTransitionHistory_def)

lemma job_transition_jobs_ok:
  assumes "jobs_ok d" and "job_transition now i a ac r e d = Inr (res, d')"
  shows "jobs_ok d'"
  using assms(2)
proof (cases rule: job_transition_InrE)
  case (1 j st rule)
  have "job_audited d'" using assms(1) job_step_effect_audited 1(7,10) by (simp add: jobs_ok_def)
  moreover have "jb_id ` set (jobs d') = jb_id ` set (jobs d)"
    using job_table.map_key_updateMany [THEN arg_cong [where f = set]] 1(7) by (simp add: job_step_effect_def)
  moreover have "i \<in> jb_id ` set (jobs d)" using 1(10) by blast
  ultimately show ?thesis
    using assms(1) 1(7) by (auto simp: jobs_ok_def job_step_effect_def job_log_row_def)
qed

lemma sync_job_jobs_ok:
  assumes "jobs_ok d" and "sync_job now i a ac r ig d = Inr d'"
  shows "jobs_ok d'"
  using assms job_transition_jobs_ok
  by (auto simp: sync_job_def split: sum.splits prod.splits error.splits if_splits)

lemma set_dispatch_status_jobs_ok:
  assumes "jobs_ok d"
  shows "jobs_ok (set_dispatch_status i s d)"
proof -
  let ?d = "set_dispatch_status i s d"
  have ids: "map jb_id (jobs ?d) = map jb_id (jobs d)"
    by (simp add: set_dispatch_status_def) (rule updateMany_map_eq, simp)
  have "bk \<in> set (jobs ?d) \<Longrightarrow> \<exists>j \<in> set (jobs d). jb_id bk = jb_id j \<and> jb_status bk = jb_status j" for bk
    by (auto simp: set_dispatch_status_def set_updateMany)
  then have "job_audited ?d"
    using assms ids by (fastforce simp: jobs_ok_def job_audited_def job_getTransitionHistory_def)
  moreover have "jb_id ` set (jobs ?d) = jb_id ` set (jobs d)" by (metis ids set_map)
  ultimately show ?thesis using assms by (simp add: jobs_ok_def)
qed

lemma checkJobComplete_jobs_ok:
  assumes "jobs_ok d" and "checkJobComplete now i d = Inr (b, d')"
  shows "jobs_ok d'"
  using assms job_transition_jobs_ok set_dispatch_status_jobs_ok
  by (auto simp: checkJobComplete_def Let_def split: if_splits sum.splits prod.splits)

lemma accept_close_jobs_ok:
  assumes "jobs_ok d" and "accept_close x req d = Inr (ws, d')"
  shows "jobs_ok d'"
proof -
  from assms(2) obtain t full where "checkJobComplete (ai_now x) (rq_job_id req) (d\<lparr>dispatches := t\<rparr>) = Inr (full, d')"
    by (auto simp: accept_close_def Let_def split: sum.splits prod.splits)
  moreover have "jobs_ok (d\<lparr>dispatches := t\<rparr>)" using assms(1) jobs_ok_cong [of "d\<lparr>dispatches := t\<rparr>" d] by simp
  ultimately show ?thesis using checkJobComplete_jobs_ok by blast
qed

lemma update_requirement_jobs [simp]:
  "job_log (update_requirement i u d) = job_log d"
  by (simp add: update_requirement_def)

lemma jobs_ok_frame [simp]:
  "jobs_ok (d\<lparr>requirements := a\<rparr>) = jobs_ok d" "jobs_ok (d\<lparr>bookings := b\<rparr>) = jobs_ok d"
  "jobs_ok (d\<lparr>dispatches := c\<rparr>) = jobs_ok d" "jobs_ok (d\<lparr>waves := w\<rparr>) = jobs_ok d"
  "jobs_ok (d\<lparr>outbox := e\<rparr>) = jobs_ok d" "jobs_ok (update_requirement i u d) = jobs_ok d"
  "jobs_ok (update_booking k f d) = jobs_ok d"
  by (rule jobs_ok_cong; simp add: update_booking_def)+

lemma accept_jobs_ok:
  assumes "jobs_ok d"
  shows "jobs_ok (snd (acceptDispatch x d))"
proof (cases x d rule: acceptDispatch_cases)
  case refused
  with assms show ?thesis by simp
next
  case (committed res d')
  from committed(2) obtain req where r: "accept_reserve x req d = Inr (res, d')" by (rule accept_tx_InrE) blast
  from r assms have "jobs_ok d'"
    by (auto simp: accept_reserve_def reserve_slot_def create_booking_def create_outbox_def Let_def
        split: if_splits option.splits sum.splits prod.splits dest: accept_close_jobs_ok [rotated])
  with committed(1) show ?thesis by simp
qed

lemma decline_jobs:
  "jobs (snd (declineDispatch cfg h now r w d)) = jobs d" "job_log (snd (declineDispatch cfg h now r w d)) = job_log d"
  by (simp_all add: declineDispatch_def run_tx_def decline_tx_def decline_follow_up_def Let_def
        split: sum.splits option.splits)

lemma booking_transition_jobs:
  assumes "booking_transition now i action actor reason expd d = Inr (res, d')"
  shows "jobs d' = jobs d" "job_log d' = job_log d"
  using assms
  by (auto simp: booking_transition_def booking_transition_fresh_def Let_def update_booking_def
      split: option.splits sum.splits if_splits)

subsection \<open>The job side of the booking operations\<close>

lemma booking_transition_jobs_ok:
  "booking_transition now i action actor reason expd d = Inr (res, d') \<Longrightarrow> jobs_ok d' = jobs_ok d"
  using booking_transition_jobs jobs_ok_cong by metis

lemma verifyOtp_jobs_ok:
  assumes "jobs_ok d"
  shows "jobs_ok (snd (verifyOtp cmp mx now i w otp actor d))"
proof -
  have "jobs_ok d'" if t: "verifyOtp_tx cmp mx now i w otp actor d = Inr (res, d')" for res d'
    using t assms unfolding verifyOtp_tx_def Let_def
    by (auto split: sum.splits option.splits prod.splits if_splits
        dest: booking_transition_jobs_ok intro: sync_job_jobs_ok)
  then show ?thesis
    by (cases "verifyOtp_tx cmp mx now i w otp actor d")
      (auto simp: verifyOtp_def run_tx_def assms split: prod.splits otp_outcome.splits)
qed

lemma completeBooking_jobs_ok:
  assumes "jobs_ok d" and "completeBooking now i w actor d = Inr (u, d')"
  shows "jobs_ok d'"
  using assms by (auto simp: completeBooking_def Let_def split: option.splits sum.splits prod.splits
      dest: booking_transition_jobs_ok)

lemma jobs_ok_once [simp]:
  "jobs_ok (create_outbox_once e d) = jobs_ok d" "jobs_ok (create_review_once r d) = jobs_ok d"
  by (rule jobs_ok_cong; simp add: create_outbox_once_def create_outbox_def create_review_once_def split: sum.splits)+

lemma confirmComplete_jobs_ok:
  assumes "jobs_ok d" and "confirmComplete oid now i c p actor d = Inr (u, d')"
  shows "jobs_ok d'"
  using assms(2)
proof (cases rule: confirmComplete_InrE)
  case (1 b res d1)
  then have "jobs_ok d1" using assms(1) booking_transition_jobs_ok by blast
  with 1(4) show ?thesis
    by (auto simp: confirm_effects_def Let_def split: sum.splits if_splits dest: sync_job_jobs_ok [rotated])
qed

lemma reconcile_jobs_ok:
  assumes "reconcileCapacity now k d = Inr (c, e)"
  shows "jobs_ok e = jobs_ok d"
  using assms by (auto simp: reconcileCapacity_def Let_def split: option.splits sum.splits)

lemma cancel_reconcile_jobs_ok:
  assumes "jobs_ok d" and "cancel_reconcile now b d = Inr d'"
  shows "jobs_ok d'"
proof -
  let ?rec = "if bk_requirement_id b \<noteq> [] then map_sum id snd (reconcileCapacity now (bk_requirement_id b) d) else Inr d"
  obtain e where e: "?rec = Inr e"
    using assms(2) by (cases ?rec) (simp_all add: cancel_reconcile_def)
  with assms(1) have "jobs_ok e"
    using reconcile_jobs_ok by (cases "reconcileCapacity now (bk_requirement_id b) d") (auto split: if_splits)
  then have "jobs_ok (if bk_requirement_id b \<noteq> [] \<and> bk_worker_id b \<noteq> [] then e\<lparr>dispatches := t\<rparr> else e)" for t
    by simp
  with assms(2) e show ?thesis
    unfolding cancel_reconcile_def e Let_def sum.case
    by (auto split: if_splits dest: sync_job_jobs_ok [rotated])
qed

lemma cancelBooking_jobs_ok:
  assumes "jobs_ok d" and "cancelBooking oid now i uid reason actor d = Inr (r, d')"
  shows "jobs_ok d'"
  using assms(2)
proof (cases rule: cancelBooking_InrE)
  case (1 b res d1)
  then have "jobs_ok d1" using assms(1) booking_transition_jobs_ok by blast
  with 1(5) cancel_reconcile_jobs_ok show ?thesis by auto
qed

subsection \<open>The operations of this theory keep both invariants\<close>

lemma ledger_reqs_update:
  assumes "ledger_ok d" and "ru_filled u = None" and "ru_needed u = None"
  shows "ledger_ok (d\<lparr>requirements := updateMany P (apply_req_update u) (requirements d)\<rparr>)"
  using assms requirement_table.distinct_updateMany [of "requirements d" P u]
  by (auto simp: ledger_ok_def set_updateMany requirement_ok_def activeBookingsCount_def
      requirement_table.key_upd apply_req_update_def)

lemma set_requirements_status_market:
  assumes "market_ok d"
  shows "market_ok (set_requirements_status now hit s d)"
proof -
  let ?u = "\<lparr>ru_status = Some (req_status_str s), ru_filled = None, ru_needed = None, ru_now = now\<rparr>"
  have "rq_id ` set (updateMany hit (apply_req_update ?u) (requirements d)) = rq_id ` set (requirements d)"
    using requirement_table.map_key_updateMany [of hit ?u "requirements d", THEN arg_cong [where f = set]] by simp
  moreover from this have "\<forall>r \<in> set (updateMany hit (apply_req_update ?u) (requirements d)). rq_id r \<noteq> []"
    using assms unfolding market_ok_def by (metis (no_types, lifting) imageE imageI)
  ultimately show ?thesis
    using assms ledger_reqs_update [of d ?u hit]
    by (simp add: market_ok_def set_requirements_status_def booking_audited_def)
qed

lemma market_dispatches [simp]: "market_ok (d\<lparr>dispatches := t\<rparr>) = market_ok d"
  by (rule market_cong) simp_all

lemma set_requirements_status_jobs_ok [simp]:
  "jobs_ok (set_requirements_status now hit s d) = jobs_ok d"
  by (simp add: set_requirements_status_def)

lemma create_requirement_market:
  assumes ok: "market_ok d" and c: "create_requirement r d = Inr d'" and z: "rq_filled r = 0"
  shows "market_ok d'"
proof -
  have ne: "rq_id r \<noteq> []" and pos: "0 < rq_needed r" and l: "\<not> list_ex (\<lambda>q. rq_id q = rq_id r) (requirements d)"
    using c by (auto simp: create_requirement_def split: if_splits)
  then have d': "d' = d\<lparr>requirements := requirements d @ [r]\<rparr>" using c by (simp add: create_requirement_def)
  from l have new: "rq_id r \<notin> rq_id ` set (requirements d)"
    unfolding list_ex_iff image_iff by metis
  have "bk_requirement_id ` set (bookings d) \<subseteq> rq_id ` set (requirements d)" using ok by (simp add: market_ok_def)
  with new have "\<forall>b \<in> set (bookings d). bk_requirement_id b \<noteq> rq_id r" by (metis imageI subsetD)
  then have "activeBookingsCount (rq_id r) d = 0"
    by (auto simp: activeBookingsCount_def table_simps active_booking_def)
  moreover have "activeBookingsCount k d' = activeBookingsCount k d" for k
    using d' by (simp add: activeBookingsCount_def)
  ultimately have "requirement_ok d' r" "\<forall>q \<in> set (requirements d). requirement_ok d' q = requirement_ok d q"
    using pos z by (simp_all add: requirement_ok_def)
  with ok d' new have "ledger_ok d'" by (simp add: market_ok_def ledger_ok_def)
  with ok d' ne show ?thesis by (simp add: market_ok_def booking_audited_def subset_insertI2)
qed

lemma create_requirements_keep:
  assumes "create_requirements f now j rs d = Inr d'"
  shows "market_ok d \<Longrightarrow> market_ok d'" "jobs_ok d' = jobs_ok d" "jobs d' = jobs d" "job_log d' = job_log d"
    "bookings d' = bookings d" "dispatches d' = dispatches d"
  using assms
proof (induction rs arbitrary: d)
  case (Cons r rs)
  have step: "(market_ok d \<longrightarrow> market_ok d1) \<and> jobs_ok d1 = jobs_ok d \<and> jobs d1 = jobs d \<and> job_log d1 = job_log d
      \<and> bookings d1 = bookings d \<and> dispatches d1 = dispatches d"
    if c: "create_requirement (new_requirement f now j r) d = Inr d1" for d d1
    using c create_requirement_market [OF _ c]
    by (auto simp: create_requirement_def new_requirement_def split: if_splits)
  { case 1 then show ?case using Cons.IH(1) step by (auto split: sum.splits) }
  { case 2 then show ?case using Cons.IH(2) step by (auto split: sum.splits) }
  { case 3 then show ?case using Cons.IH(3) step by (auto split: sum.splits) }
  { case 4 then show ?case using Cons.IH(4) step by (auto split: sum.splits) }
  { case 5 then show ?case using Cons.IH(5) step by (auto split: sum.splits) }
  { case 6 then show ?case using Cons.IH(6) step by (auto split: sum.splits) }
qed simp_all

lemma job_transition_keeps:
  assumes "job_transition now i a ac r e d = Inr (res, d')"
  shows "requirements d' = requirements d" "bookings d' = bookings d" "booking_log d' = booking_log d"
    "dispatches d' = dispatches d" "market_ok d' = market_ok d"
proof -
  from assms obtain t l where "d' = d\<lparr>jobs := t, job_log := l\<rparr>"
    by (rule job_transition_InrE) (auto simp: job_step_effect_def)
  then show "requirements d' = requirements d" "bookings d' = bookings d" "booking_log d' = booking_log d"
    "dispatches d' = dispatches d" by simp_all
  then show "market_ok d' = market_ok d" by (intro market_cong)
qed

lemma create_job_tx_InrE:
  assumes "create_job_tx f now i c co rs d = Inr (j, d')"
  obtains d1 where "\<forall>q \<in> set (jobs d). jb_id q \<noteq> i" "j = new_job now i c co"
    "d1 = d\<lparr>jobs := jobs d @ [j], job_log := job_log d @ [job_created_row i c]\<rparr>"
    "create_requirements f now i rs d1 = Inr d'"
  using assms by (auto simp: create_job_tx_def Let_def list_ex_iff split: if_splits sum.splits)

lemma create_job_tx_ok:
  assumes "system_ok d" and "create_job_tx f now i c co rs d = Inr (j, d')"
  shows "system_ok d'"
proof (rule create_job_tx_InrE [OF assms(2)])
  fix d1 assume new: "\<forall>q \<in> set (jobs d). jb_id q \<noteq> i" and j: "j = new_job now i c co"
    and d1: "d1 = d\<lparr>jobs := jobs d @ [j], job_log := job_log d @ [job_created_row i c]\<rparr>"
    and reqs: "create_requirements f now i rs d1 = Inr d'"
  have ok: "market_ok d" "jobs_ok d" using assms(1) by (simp_all add: system_ok_def)
  have "market_ok d1" using ok(1) market_cong [of d1 d] d1 by simp
  moreover have "history_of i (job_log d) = []"
    using ok(2) new unfolding jobs_ok_def history_of_def filter_empty_conv by (metis imageE)
  then have "jobs_ok d1"
    using ok(2) new j by (auto simp: d1 jobs_ok_def job_audited_def job_getTransitionHistory_def new_job_def
        job_created_row_def)
  ultimately show "system_ok d'"
    using create_requirements_keep(1,2) [OF reqs] by (simp add: system_ok_def)
qed

lemma start_dispatch_ok:
  assumes "system_ok d" and "start_dispatch_tx now i d = Inr (u, d')"
  shows "system_ok d'"
proof -
  from assms(2) obtain res d1 where t: "job_transition now i JobAction.START_DISPATCH system_actor
      (Some ''BullMQ dispatch wave initiated'') None d = Inr (res, d1)"
    and d': "d' = set_requirements_status now (\<lambda>r. rq_job_id r = i \<and> rq_status r = req_status_str OPEN)
       RequirementStatus.DISPATCHING d1"
    by (auto simp: start_dispatch_tx_def split: sum.splits prod.splits)
  have "market_ok d1" "jobs_ok d1"
    using assms(1) t job_transition_keeps(5) [OF t] job_transition_jobs_ok by (auto simp: system_ok_def)
  then show ?thesis
    unfolding d' system_ok_def using set_requirements_status_market by simp
qed

lemma createJob_ok:
  assumes "system_ok d"
  shows "system_ok (snd (createJob f h now i c p d))"
proof -
  have one: "system_ok (snd (run_tx (create_job_tx f now i c co rs) d))" for co rs
    by (rule run_tx_preserves [of system_ok, OF assms]) (rule create_job_tx_ok [OF assms])
  have two: "system_ok (snd (run_tx (start_dispatch_tx now i) d1))" if "system_ok d1" for d1
    by (rule run_tx_preserves [of system_ok, OF that]) (rule start_dispatch_ok [OF that])
  have "system_ok d1" if "run_tx (create_job_tx f now i c co rs) d = (r, d1)" for co rs r d1
    using one [of co rs] that by simp
  moreover have "system_ok d2" if "run_tx (start_dispatch_tx now i) d1 = (r, d2)" "system_ok d1" for d1 d2 r
    using two [of d1] that by simp
  ultimately show ?thesis
    using assms by (auto simp: createJob_def Let_def split: sum.splits prod.splits)
qed

lemma cancelJob_InrE:
  assumes "cancelJob now i cu actor reason d = Inr (res, d')"
  obtains who d1 d2 where "job_transition now i JobAction.CANCEL who
      (Some (js_or reason ''Job cancelled by customer/admin'')) None d = Inr (res, d1)"
    "d2 = set_requirements_status now (\<lambda>r. rq_job_id r = i \<and>
        rq_status r \<notin> {req_status_str FILLED, req_status_str RequirementStatus.CANCELLED}) RequirementStatus.CANCELLED d1"
    "d' = d2\<lparr>dispatches := updateMany
        (\<lambda>p. dp_requirement_id p \<in> set (map rq_id (filter (\<lambda>r. rq_job_id r = i) (requirements d2))) \<and> dp_status p = ''pending'')
        (\<lambda>p. p\<lparr>dp_status := ''cancelled'', dp_responded_at := Some now\<rparr>) (dispatches d2)\<rparr>"
    "actor = None \<longrightarrow> who = user_actor cu CUSTOMER" "\<forall>a. actor = Some a \<longrightarrow> who = user_actor (au_id a) (au_role a)"
proof -
  obtain who where who: "(case actor of Some a \<Rightarrow> Some (user_actor (au_id a) (au_role a))
            | None \<Rightarrow> if cu \<noteq> [] then Some (user_actor cu CUSTOMER) else None) = Some who"
    using assms by (auto simp: cancelJob_def split: option.splits if_splits)
  obtain d1 where t: "job_transition now i JobAction.CANCEL who
      (Some (js_or reason ''Job cancelled by customer/admin'')) None d = Inr (res, d1)"
    using assms unfolding cancelJob_def who by (auto simp: Let_def split: sum.splits prod.splits)
  have "actor = None \<longrightarrow> who = user_actor cu CUSTOMER" "\<forall>a. actor = Some a \<longrightarrow> who = user_actor (au_id a) (au_role a)"
    using who by (auto split: option.splits if_splits)
  then show thesis
    by (intro that [OF t refl]) (use assms in \<open>simp_all add: cancelJob_def who t Let_def\<close>)
qed

lemma cancelJob_ok:
  assumes "system_ok d" and "cancelJob now i cu actor reason d = Inr (res, d')"
  shows "system_ok d'"
proof (rule cancelJob_InrE [OF assms(2)])
  fix who d1 d2 assume t: "job_transition now i JobAction.CANCEL who
      (Some (js_or reason ''Job cancelled by customer/admin'')) None d = Inr (res, d1)"
    and d2: "d2 = set_requirements_status now (\<lambda>r. rq_job_id r = i \<and>
        rq_status r \<notin> {req_status_str FILLED, req_status_str RequirementStatus.CANCELLED}) RequirementStatus.CANCELLED d1"
    and d': "d' = d2\<lparr>dispatches := updateMany
        (\<lambda>p. dp_requirement_id p \<in> set (map rq_id (filter (\<lambda>r. rq_job_id r = i) (requirements d2))) \<and> dp_status p = ''pending'')
        (\<lambda>p. p\<lparr>dp_status := ''cancelled'', dp_responded_at := Some now\<rparr>) (dispatches d2)\<rparr>"
  have "market_ok d1" "jobs_ok d1"
    using assms(1) job_transition_keeps(5) [OF t] job_transition_jobs_ok [OF _ t] by (simp_all add: system_ok_def)
  then have "market_ok d2" "jobs_ok d2"
    unfolding d2 using set_requirements_status_market by simp_all
  then show "system_ok d'" unfolding d' system_ok_def by simp
qed

lemma completeJob_ok:
  assumes "system_ok d" and "completeJob now i actor reason d = Inr (res, d')"
  shows "system_ok d'"
  using assms job_transition_keeps(5) job_transition_jobs_ok unfolding completeJob_def system_ok_def by blast

lemma createJobReq_ok:
  assumes "system_ok d"
  shows "system_ok (snd (createJobReq f now i p n actor d))"
proof -
  have "system_ok d'" if c: "create_requirement r d = Inr d'" and "rq_filled r = 0" for r d'
    using create_requirement_market [OF _ that] assms c
    by (auto simp: system_ok_def create_requirement_def split: if_splits)
  then show ?thesis
    using assms by (auto simp: createJobReq_def Let_def new_requirement_def split: option.splits sum.splits)
qed

lemma updateRequirementDemand_ok:
  assumes "system_ok d" and "updateRequirementDemand now j i n actor d = Inr (res, d')"
  shows "system_ok d'"
proof -
  from assms(2) obtain ac where u: "updateDemand now i n ac d = Inr (res, d')"
    by (auto simp: updateRequirementDemand_def split: option.splits sum.splits)
  then obtain s where d': "d' = update_requirement i s d" by (rule updateDemand_InrE) blast
  have "ledger_ok d'" using updateDemand_ledger [OF _ u] assms(1) by (simp add: system_ok_def market_ok_def)
  with assms(1) d' show ?thesis using market_requirement_update by (simp add: system_ok_def)
qed

lemma job_transition_row:
  assumes "job_transition now i a ac r e d = Inr (res, d')" and "distinct (map jb_id (jobs d))"
  shows "map_option jb_status (findUnique jb_id i (jobs d')) = Some (job_status_str (jt_current res))"
  using assms(1)
proof (cases rule: job_transition_InrE)
  case (1 j st rule)
  obtain q :: job where q: "q \<in> set (jobs d)" "jb_id q = i" "jb_status q = job_status_str st" using 1(10) by blast
  then have "findUnique jb_id i (jobs d) = Some q" using findUnique_distinct [OF assms(2)] by blast
  with q 1(7,8) show ?thesis by (simp add: job_step_effect_def job_table.findUnique_updateMany)
qed

lemma cancel_target: "JOB_TRANSITION_TABLE st JobAction.CANCEL = Some rule \<Longrightarrow> jr_target rule = JobStatus.CANCELLED"
  by (cases st) (auto simp: mk_rule_def)

lemma accept_inactive_refused:
  assumes "findUnique rq_id (ai_requirement x) (requirements d) = Some req" and "accept_inactive req d"
  shows "acceptDispatch x d = (Inl (DispatchAcceptanceError ''REQUIREMENT_CANCELLED'' 409), d)"
  using assms by (simp add: acceptDispatch_def accept_preflight_def Let_def)

lemma create_requirements_rows:
  assumes "create_requirements f now j rs d = Inr d'"
  shows "requirements d' = requirements d @ map (new_requirement f now j) rs"
  using assms
proof (induction rs arbitrary: d)
  case (Cons r rs)
  then show ?case by (fastforce simp: create_requirement_def split: sum.splits if_splits)
qed simp

section \<open>Properties\<close>

text \<open>
  Coordinates are all or nothing: the validator accepts exactly the pairs whose two components
  pass the single-value tests (finite, within 90 and 180 degrees), returns them unchanged, and
  accepts an absent location only when both are absent; a half-given pair is never stored.
\<close>

theorem coordinates_all_or_nothing:
  "(validateOptionalCoordinatePair lat lon = Inr None \<longleftrightarrow> \<not> coord_present lat \<and> \<not> coord_present lon) \<and>
   (\<forall>x y. validateOptionalCoordinatePair lat lon = Inr (Some (x, y)) \<longleftrightarrow>
      isValidLatitude lat \<and> isValidLongitude lon \<and>
      coord_number lat = Some (Finite x) \<and> coord_number lon = Some (Finite y))"
proof -
  have fin: "finite_value n = Some q \<longleftrightarrow> n = Finite q" for n q by (cases n) auto
  have num: "coord_number v \<noteq> None \<Longrightarrow> coord_present v" for v
    by (cases v rule: coord_number.cases) (auto simp: coord_present_def)
  show ?thesis
    using num [of lat] num [of lon]
    by (auto simp: validateOptionalCoordinatePair_def validateCoordinatePair_def isValidLatitude_def
        isValidLongitude_def in_range_def fin split: option.splits if_splits)
qed

theorem coordinates_all_or_nothing_witness:
  "validateOptionalCoordinatePair (Some (JNum (Finite 12))) (Some (JNum (Finite (-77)))) = Inr (Some (12, -77))"
  using coordinates_all_or_nothing [of "Some (JNum (Finite 12))" "Some (JNum (Finite (-77)))"]
  by (simp add: isValidLatitude_def isValidLongitude_def in_range_def)


text \<open>
  C10. Cancelling a job closes it for good: the job is CANCELLED, none of its requirements is left
  open, none of their offers pending, no booking is touched, and every later acceptance of one of
  its requirements is refused without a write, whatever the worker's own offer says.
\<close>

theorem cancelJob_closes:
  assumes ok: "system_ok d" and c: "cancelJob now i cu actor reason d = Inr (res, d')"
  shows "map_option jb_status (findUnique jb_id i (jobs d')) = Some ''CANCELLED'' \<and> bookings d' = bookings d \<and>
     (\<forall>r \<in> set (requirements d'). rq_job_id r = i \<longrightarrow> rq_status r \<in> {''FILLED'', ''CANCELLED''} \<and>
        (\<forall>p \<in> set (dispatches d'). dp_requirement_id p = rq_id r \<longrightarrow> dp_status p \<noteq> ''pending'') \<and>
        (\<forall>x. ai_requirement x = rq_id r \<longrightarrow>
           acceptDispatch x d' = (Inl (DispatchAcceptanceError ''REQUIREMENT_CANCELLED'' 409), d')))"
proof (rule cancelJob_InrE [OF c])
  fix who d1 d2 assume t: "job_transition now i JobAction.CANCEL who
      (Some (js_or reason ''Job cancelled by customer/admin'')) None d = Inr (res, d1)"
    and d2: "d2 = set_requirements_status now (\<lambda>r. rq_job_id r = i \<and>
        rq_status r \<notin> {req_status_str FILLED, req_status_str RequirementStatus.CANCELLED}) RequirementStatus.CANCELLED d1"
    and d': "d' = d2\<lparr>dispatches := updateMany
        (\<lambda>p. dp_requirement_id p \<in> set (map rq_id (filter (\<lambda>r. rq_job_id r = i) (requirements d2))) \<and> dp_status p = ''pending'')
        (\<lambda>p. p\<lparr>dp_status := ''cancelled'', dp_responded_at := Some now\<rparr>) (dispatches d2)\<rparr>"
  have "jt_current res = JobStatus.CANCELLED"
    using t by (cases rule: job_transition_InrE) (simp add: cancel_target)
  moreover have "distinct (map jb_id (jobs d))" using ok by (simp add: system_ok_def jobs_ok_def job_audited_def)
  ultimately have job: "map_option jb_status (findUnique jb_id i (jobs d')) = Some ''CANCELLED''"
    using job_transition_row [OF t] by (simp add: d' d2 set_requirements_status_def)
  have "system_ok d'" using cancelJob_ok [OF ok c] .
  then have rdist: "distinct (map rq_id (requirements d'))" by (simp add: system_ok_def market_ok_def ledger_ok_def)
  have bk: "bookings d' = bookings d" using job_transition_keeps(2) [OF t] by (simp add: d' d2 set_requirements_status_def)
  have closed: "rq_status r \<in> {''FILLED'', ''CANCELLED''}" if "r \<in> set (requirements d')" "rq_job_id r = i" for r
  proof -
    from that(1) obtain r0 where "r = (if rq_job_id r0 = i \<and> rq_status r0 \<notin> {''FILLED'', ''CANCELLED''}
        then apply_req_update \<lparr>ru_status = Some ''CANCELLED'', ru_filled = None, ru_needed = None, ru_now = now\<rparr> r0 else r0)"
      unfolding d' d2 set_requirements_status_def by (auto dest!: updateMany_memD)
    with that(2) show ?thesis by (auto simp: apply_req_update_def split: if_splits)
  qed
  have offers: "dp_status p \<noteq> ''pending''" if "r \<in> set (requirements d')" "rq_job_id r = i"
      "p \<in> set (dispatches d')" "dp_requirement_id p = rq_id r" for r p
  proof -
    let ?hit = "\<lambda>p. dp_requirement_id p \<in> set (map rq_id (filter (\<lambda>r. rq_job_id r = i) (requirements d2))) \<and> dp_status p = ''pending''"
    from that(3) obtain p0 where p0: "p = (if ?hit p0 then p0\<lparr>dp_status := ''cancelled'', dp_responded_at := Some now\<rparr> else p0)"
      unfolding d' by (auto dest!: updateMany_memD)
    have "rq_id r \<in> set (map rq_id (filter (\<lambda>r. rq_job_id r = i) (requirements d2)))"
      using that(1,2) by (simp add: d')
    with that(4) p0 show ?thesis by (cases "?hit p0") auto
  qed
  have refuse: "acceptDispatch x d' = (Inl (DispatchAcceptanceError ''REQUIREMENT_CANCELLED'' 409), d')"
    if r: "r \<in> set (requirements d')" "rq_job_id r = i" and "ai_requirement x = rq_id r" for r x
  proof (rule accept_inactive_refused)
    show "findUnique rq_id (ai_requirement x) (requirements d') = Some r"
      using findUnique_distinct [OF rdist r(1)] that(3) by simp
    show "accept_inactive r d'"
      using job r(2) by (auto simp: accept_inactive_def toUpperCase_def upper_char_def)
  qed
  show ?thesis using job bk closed offers refuse by (intro conjI ballI impI allI) auto
qed

definition sample_new_job :: create_job_req where
  "sample_new_job = \<lparr>cj_latitude = None, cj_longitude = None, cj_requirements =
     [\<lparr>rp_id = ''r1'', rp_skill_id = Some ''s1'', rp_skill_type = None, rp_needed = 2, rp_rate_per_day = None\<rparr>]\<rparr>"

lemmas sample_create_defs = createJob_def sample_new_job_def validateOptionalCoordinatePair_def coord_present_def
  run_tx_def create_job_tx_def Let_def create_requirement_def new_requirement_def start_dispatch_tx_def
  job_transition_def new_job_def findUnique_def js_or_def system_actor_def job_canTransition_def mk_rule_def
  job_status_of_def all_job_statuses_def

lemma sample_create:
  "\<exists>j ms d'. createJob (\<lambda>_. None) id 9 ''j1'' ''c1'' sample_new_job empty_db = (Inr (j, ms), d')"
  by (simp add: sample_create_defs empty_db_def)


definition sample_open_db :: db where
  "sample_open_db = empty_db\<lparr>jobs := [sample_job\<lparr>jb_status := ''DISPATCHING''\<rparr>],
     job_log := [\<lparr>tr_entity_id = ''j1'', tr_from = ''INITIAL'', tr_to = ''DISPATCHING'', tr_action = ''CREATE'',
       tr_actor_type = ''customer'', tr_actor_id = Some ''c1'', tr_reason = None\<rparr>],
     requirements := [sample_requirement\<lparr>rq_needed := 1, rq_filled := 0\<rparr>]\<rparr>"

theorem cancelJob_closes_witness:
  "\<exists>res d'. cancelJob 9 ''j1'' ''c1'' None None sample_open_db = Inr (res, d') \<and>
     map_option jb_status (findUnique jb_id ''j1'' (jobs d')) = Some ''CANCELLED''"
proof -
  have ok: "system_ok sample_open_db"
    by (simp add: system_ok_def market_ok_def ledger_ok_def requirement_ok_def activeBookingsCount_def
        booking_audited_def jobs_ok_def job_audited_def job_getTransitionHistory_def history_of_def
        sample_open_db_def sample_requirement_def sample_job_def empty_db_def)
  have "\<exists>res d'. cancelJob 9 ''j1'' ''c1'' None None sample_open_db = Inr (res, d')"
    by (simp add: cancelJob_def sample_open_db_def sample_job_def Let_def job_transition_def findUnique_def js_or_def
        user_actor_def job_canTransition_def mk_rule_def job_status_of_def all_job_statuses_def)
  then obtain res d' where c: "cancelJob 9 ''j1'' ''c1'' None None sample_open_db = Inr (res, d')" by blast
  from cancelJob_closes [OF ok c] c show ?thesis by blast
qed

end
