(* ===== verification/Marketplace.thy ===== *)
theory Marketplace
  imports Job_Service
begin

text \<open>
  The services composed: the requests that reach the job, requirement, dispatch and booking services
  as one datatype, their execution one committed transaction after the other, the invariant that any
  schedule of them keeps, and the abstract slot ledger they refine.
\<close>

section \<open>Requests\<close>

datatype request =
    CreateJob timestamp uuid uuid create_job_req
  | CancelJob timestamp uuid uuid "AuthenticatedUser option" "string option"
  | CompleteJob timestamp uuid transition_actor "string option"
  | CreateJobReq timestamp uuid requirement_req "js_number option" "AuthenticatedUser option"
  | UpdateDemand timestamp uuid uuid js_number "AuthenticatedUser option"
  | AcceptDispatch accept_input
  | DeclineDispatch timestamp uuid uuid
  | VerifyOtp timestamp uuid uuid string "AuthenticatedUser option"
  | CompleteBooking timestamp uuid uuid "AuthenticatedUser option"
  | ConfirmComplete uuid timestamp uuid uuid confirm_payload "AuthenticatedUser option"
  | CancelBooking uuid timestamp uuid uuid "string option" "AuthenticatedUser option"

text \<open>What the requests use of the world: skill lookup, digest, password comparison and configuration.\<close>

record world =
  wo_resolveSkillId :: "string \<Rightarrow> uuid option"
  wo_sha256hex :: "string \<Rightarrow> string"
  wo_comparePassword :: "string \<Rightarrow> string \<Rightarrow> bool"
  wo_maxAttempts :: int
  wo_config :: DispatchWaveConfiguration

text \<open>The database after a request, whether it succeeds or throws.\<close>

fun serve :: "world \<Rightarrow> request \<Rightarrow> db \<Rightarrow> db" where
  "serve w (CreateJob now i c p) d = snd (createJob (wo_resolveSkillId w) (wo_sha256hex w) now i c p d)"
| "serve w (CancelJob now i c a r) d = snd (run_tx (cancelJob now i c a r) d)"
| "serve w (CompleteJob now i a r) d = snd (run_tx (completeJob now i a r) d)"
| "serve w (CreateJobReq now i p n a) d = snd (createJobReq (wo_resolveSkillId w) now i p n a d)"
| "serve w (UpdateDemand now j i n a) d = snd (run_tx (updateRequirementDemand now j i n a) d)"
| "serve w (AcceptDispatch x) d = snd (acceptDispatch x d)"
| "serve w (DeclineDispatch now r k) d = snd (declineDispatch (wo_config w) (wo_sha256hex w) now r k d)"
| "serve w (VerifyOtp now i k otp a) d =
     snd (verifyOtp (wo_comparePassword w) (wo_maxAttempts w) now i k otp a d)"
| "serve w (CompleteBooking now i k a) d = snd (run_tx (completeBooking now i k a) d)"
| "serve w (ConfirmComplete oid now i c p a) d = snd (run_tx (confirmComplete oid now i c p a) d)"
| "serve w (CancelBooking oid now i u r a) d = snd (run_tx (cancelBooking oid now i u r a) d)"

lemma decline_jobs_ok: "jobs_ok d \<Longrightarrow> jobs_ok (snd (declineDispatch cfg h now r w d))"
  using decline_jobs jobs_ok_cong by blast

lemma run_tx_system:
  assumes "system_ok d" and "\<And>a d'. m d = Inr (a, d') \<Longrightarrow> market_ok d'" and "\<And>a d'. m d = Inr (a, d') \<Longrightarrow> jobs_ok d'"
  shows "system_ok (snd (run_tx m d))"
  by (rule run_tx_preserves [of system_ok, OF assms(1)]) (use assms(2,3) in \<open>auto simp: system_ok_def\<close>)

interpretation marketplace: invariant_system "serve w" system_ok for w
proof unfold_locales
  fix d q assume ok: "system_ok d"
  then have m: "market_ok d" and j: "jobs_ok d" by (simp_all add: system_ok_def)
  show "system_ok (serve w q d)"
  proof (cases q)
    case (CreateJob now i c p)
    with createJob_ok [OF ok] show ?thesis by simp
  next
    case (CancelJob now i c a r)
    show ?thesis unfolding CancelJob serve.simps
      by (rule run_tx_preserves [of system_ok, OF ok]) (rule cancelJob_ok [OF ok])
  next
    case (CompleteJob now i a r)
    show ?thesis unfolding CompleteJob serve.simps
      by (rule run_tx_preserves [of system_ok, OF ok]) (rule completeJob_ok [OF ok])
  next
    case (CreateJobReq now i p n a)
    with createJobReq_ok [OF ok] show ?thesis by simp
  next
    case (UpdateDemand now j i n a)
    show ?thesis unfolding UpdateDemand serve.simps
      by (rule run_tx_preserves [of system_ok, OF ok]) (rule updateRequirementDemand_ok [OF ok])
  next
    case (AcceptDispatch x)
    with accept_market [OF m] accept_jobs_ok [OF j] show ?thesis by (simp add: system_ok_def)
  next
    case (DeclineDispatch now r k)
    with decline_market [OF m] decline_jobs_ok [OF j] show ?thesis by (simp add: system_ok_def)
  next
    case (VerifyOtp now i k otp a)
    with verifyOtp_market [OF m] verifyOtp_jobs_ok [OF j] show ?thesis by (simp add: system_ok_def)
  next
    case (CompleteBooking now i k a)
    show ?thesis unfolding CompleteBooking serve.simps
      by (rule run_tx_system [OF ok]) (rule completeBooking_market [OF m], assumption, rule completeBooking_jobs_ok [OF j])
  next
    case (ConfirmComplete oid now i c p a)
    show ?thesis unfolding ConfirmComplete serve.simps
      by (rule run_tx_system [OF ok]) (rule confirmComplete_market [OF m], assumption, rule confirmComplete_jobs_ok [OF j])
  next
    case (CancelBooking oid now i u r a)
    show ?thesis unfolding CancelBooking serve.simps
      by (rule run_tx_system [OF ok]) (rule cancelBooking_market [OF m], assumption, rule cancelBooking_jobs_ok [OF j])
  qed
qed

lemma system_ok_empty: "system_ok empty_db"
  by (simp add: system_ok_def market_ok_def ledger_ok_def booking_audited_def jobs_ok_def job_audited_def empty_db_def)

section \<open>The abstract slot ledger\<close>

text \<open>
  What the marketplace promises about slots: a demand per requirement and the set of workers who hold
  one of its slots. A step opens a requirement, resizes it (never below its holders), lets one more
  worker in while a slot is free, or lets one go.
\<close>

type_synonym slots = "(uuid \<rightharpoonup> int) \<times> (uuid \<Rightarrow> uuid set)"

inductive slot_step :: "slots \<Rightarrow> slots \<Rightarrow> bool" where
  opened: "dem r = None \<Longrightarrow> W r = {} \<Longrightarrow> 0 < n \<Longrightarrow> slot_step (dem, W) (dem(r \<mapsto> n), W)"
| resized: "dem r = Some m \<Longrightarrow> int (card (W r)) \<le> n \<Longrightarrow> 0 < n \<Longrightarrow> slot_step (dem, W) (dem(r \<mapsto> n), W)"
| claimed: "dem r = Some n \<Longrightarrow> w \<notin> W r \<Longrightarrow> int (card (W r)) < n \<Longrightarrow>
     slot_step (dem, W) (dem, W(r := insert w (W r)))"
| released: "w \<in> W r \<Longrightarrow> slot_step (dem, W) (dem, W(r := W r - {w}))"

text \<open>The abstraction of a database: the demands, and the workers of the active bookings.\<close>

definition demand_of :: "db \<Rightarrow> uuid \<rightharpoonup> int" where
  "demand_of d r = map_option rq_needed (findUnique rq_id r (requirements d))"

definition holders :: "db \<Rightarrow> uuid \<Rightarrow> uuid set" where
  "holders d r = bk_worker_id ` set (filter (active_booking r) (bookings d))"

definition slots_of :: "db \<Rightarrow> slots" where
  "slots_of d = (demand_of d, holders d)"

lemma holders_cong: "bookings d' = bookings d \<Longrightarrow> holders d' = holders d"
  by (simp add: holders_def fun_eq_iff)

lemma slots_cong: "requirements d' = requirements d \<Longrightarrow> bookings d' = bookings d \<Longrightarrow> slots_of d' = slots_of d"
  by (simp add: slots_of_def holders_def demand_of_def fun_eq_iff)

lemma demand_updateMany:
  assumes "ru_needed u = None"
  shows "demand_of (d\<lparr>requirements := updateMany P (apply_req_update u) (requirements d)\<rparr>) = demand_of d"
  using assms
  by (auto simp: demand_of_def fun_eq_iff requirement_table.findUnique_updateMany option.map_comp comp_def
      apply_req_update_def intro!: option.map_cong)

lemma slots_update_requirement:
  assumes "ru_needed u = None"
  shows "slots_of (update_requirement i u d) = slots_of d"
  using demand_updateMany [OF assms, of "\<lambda>r. rq_id r = i" d] holders_cong [of "update_requirement i u d" d]
  by (simp add: slots_of_def update_requirement_def)

lemma slots_set_requirements_status [simp]: "slots_of (set_requirements_status now hit s d) = slots_of d"
  using holders_cong [of "set_requirements_status now hit s d" d]
  by (simp add: slots_of_def set_requirements_status_def demand_updateMany)

lemma job_transition_slots: "job_transition now i a ac r e d = Inr (res, d') \<Longrightarrow> slots_of d' = slots_of d"
  by (rule slots_cong) (auto dest: job_transition_keeps(1,2))

lemma sync_job_slots: "sync_job now i a ac r ig d = Inr d' \<Longrightarrow> slots_of d' = slots_of d"
  by (rule slots_cong) (auto dest: sync_job_frame)

lemma holders_card: "int (card (holders d r)) \<le> activeBookingsCount r d"
  unfolding holders_def activeBookingsCount_def countWhere_def
  by (metis card_length length_map list.set_map of_nat_mono)

lemma update_booking_holders:
  assumes "\<And>b. b \<in> set (bookings d) \<Longrightarrow> bk_id b = i \<Longrightarrow>
      bk_worker_id (f b) = bk_worker_id b \<and> (\<forall>r. active_booking r (f b) = active_booking r b)"
  shows "holders (update_booking i f d) = holders d"
proof (rule ext)
  fix r
  have "map bk_worker_id (filter (active_booking r) (updateMany (\<lambda>b. bk_id b = i) f t)) =
      map bk_worker_id (filter (active_booking r) t)" if "set t \<subseteq> set (bookings d)" for t
    using that assms by (induction t) (auto simp: updateMany_def)
  from this [of "bookings d"] show "holders (update_booking i f d) r = holders d r"
    unfolding holders_def update_booking_def set_map [symmetric] by simp
qed

lemma booking_transition_slots:
  assumes ok: "market_ok d" and t: "booking_transition now i action actor reason expd d = Inr (res, d')"
    and nc: "action \<noteq> BookingAction.CANCEL"
  shows "slots_of d' = slots_of d"
proof -
  have dist: "distinct (map bk_id (bookings d))" using ok by (simp add: market_ok_def booking_audited_def)
  from t obtain b where b: "findUnique bk_id i (bookings d) = Some b"
    by (auto simp: booking_transition_def split: option.splits)
  then obtain st where st: "bk_status b = booking_status_str st"
    using market_booking [OF ok] findUnique_Some by metis
  from t b st show ?thesis
  proof (cases rule: booking_transition_InrE)
    case (step rule u)
    have target: "bu_target u \<noteq> CANCELLED" using step nc booking_target_cancel by metis
    have live: "st \<noteq> CANCELLED" using step by auto
    have "holders (update_booking i (apply_booking_update u) d) = holders d"
    proof (rule update_booking_holders)
      fix x assume x: "x \<in> set (bookings d)" "bk_id x = i"
      then have "x = b" using findUnique_distinct [OF dist x(1)] b by simp
      with st live target show "bk_worker_id (apply_booking_update u x) = bk_worker_id x \<and>
          (\<forall>r. active_booking r (apply_booking_update u x) = active_booking r x)"
        by (simp add: active_booking_def active_str)
    qed
    with step(13) show ?thesis
      using holders_cong [of d' "update_booking i (apply_booking_update u) d"]
      by (simp add: slots_of_def demand_of_def [abs_def])
  qed simp
qed

lemma verifyOtp_slots:
  assumes ok: "market_ok d"
  shows "slots_of (snd (verifyOtp cmp mx now i w otp actor d)) = slots_of d"
proof -
  have wrong: "slots_of (update_booking i (otp_failed now n l) d) = slots_of d" for n l
  proof -
    have "holders (update_booking i (otp_failed now n l) d) = holders d"
      by (rule update_booking_holders) (simp add: otp_failed_def active_booking_def)
    then show ?thesis by (simp add: slots_of_def demand_of_def [abs_def] update_booking_def)
  qed
  have "slots_of d' = slots_of d" if t: "verifyOtp_tx cmp mx now i w otp actor d = Inr (res, d')" for res d'
    using t booking_transition_slots [OF ok] unfolding verifyOtp_tx_def Let_def
    by (auto simp: wrong split: sum.splits option.splits prod.splits if_splits dest!: sync_job_slots)
  then show ?thesis
    by (cases "verifyOtp_tx cmp mx now i w otp actor d")
      (auto simp: verifyOtp_def run_tx_def split: prod.splits otp_outcome.splits)
qed

lemma completeBooking_slots:
  assumes "market_ok d" and "completeBooking now i w actor d = Inr (u, d')"
  shows "slots_of d' = slots_of d"
  using assms booking_transition_slots
  by (auto simp: completeBooking_def Let_def split: option.splits sum.splits prod.splits)

lemma confirmComplete_slots:
  assumes "market_ok d" and "confirmComplete oid now i c p actor d = Inr (u, d')"
  shows "slots_of d' = slots_of d"
  using assms(2)
proof (cases rule: confirmComplete_InrE)
  case (1 b res d1)
  have "slots_of d' = slots_of d1" using confirm_effects_frame [OF 1(4)] by (intro slots_cong)
  with booking_transition_slots [OF assms(1) 1(3)] show ?thesis by simp
qed

lemma decline_slots: "slots_of (snd (declineDispatch cfg h now r w d)) = slots_of d"
proof -
  have frame: "slots_of (d1\<lparr>waves := v\<rparr>) = slots_of d1" "slots_of (d1\<lparr>dispatches := t, workers := k\<rparr>) = slots_of d1"
    for d1 v t k by (rule slots_cong; simp)+
  show ?thesis
    by (simp add: declineDispatch_def run_tx_def decline_tx_def decline_follow_up_def Let_def frame
        slots_update_requirement split: sum.splits option.splits)
qed

lemma accept_slots:
  assumes ok: "market_ok d"
  shows "slot_step\<^sup>*\<^sup>* (slots_of d) (slots_of (snd (acceptDispatch x d)))"
proof (cases x d rule: acceptDispatch_cases)
  case (committed res d')
  let ?r = "ai_requirement x" and ?w = "ai_worker x"
  from committed(2) obtain req where req: "findUnique rq_id ?r (requirements d) = Some req"
    and r: "accept_reserve x req d = Inr (res, d')" by (rule accept_tx_InrE) blast
  from r have "slot_step (slots_of d) (slots_of d')"
  proof (cases rule: accept_reserve_InrE)
    case (1 j)
    have "demand_of d' = demand_of (update_requirement ?r (accept_update x req) d)"
      using 1(3) by (simp add: demand_of_def fun_eq_iff)
    then have dem: "demand_of d' = demand_of d"
      using slots_update_requirement [of "accept_update x req" ?r d] by (simp add: accept_update_def slots_of_def)
    have "active_booking k (new_booking x req c) \<longleftrightarrow> k = ?r" for k c
      by (auto simp: active_booking_def new_booking_def ACTIVE_BOOKING_STATUSES_def)
    then have hold: "holders d' = (holders d)(?r := insert ?w (holders d ?r))"
      by (auto simp: fun_eq_iff holders_def 1(4) new_booking_def)
    have "?w \<notin> holders d ?r" using 1(10) by (auto simp: holders_def active_booking_def booking_pair_def)
    moreover have "requirement_ok d req" "rq_id req = ?r"
      using ok findUnique_Some [OF req] by (auto simp: market_ok_def ledger_ok_def)
    then have "int (card (holders d ?r)) < rq_needed req"
      using holders_card [of d ?r] 1(9) by (simp add: requirement_ok_def)
    ultimately show ?thesis
      unfolding slots_of_def dem hold by (intro claimed) (simp_all add: demand_of_def req)
  qed
  with committed(1) show ?thesis by simp
qed simp

lemma cancel_holders:
  assumes "distinct (map bk_id t)" and "distinct (map booking_pair t)" and "b \<in> set t"
    and "\<And>k. active_booking k b \<longleftrightarrow> k = bk_requirement_id b" and "\<And>k. \<not> active_booking k (f b)"
  shows "bk_worker_id ` set (filter (active_booking k) (updateMany (\<lambda>x. bk_id x = bk_id b) f t)) =
     ((\<lambda>k. bk_worker_id ` set (filter (active_booking k) t))(bk_requirement_id b :=
        bk_worker_id ` set (filter (active_booking (bk_requirement_id b)) t) - {bk_worker_id b})) k"
proof -
  have upd: "set (filter (active_booking k) (updateMany (\<lambda>x. bk_id x = bk_id b) f t)) =
      {x \<in> set t. active_booking k x \<and> x \<noteq> b}"
    using assms(1,3,5) key_unique [OF assms(1) _ assms(3)] by (auto simp: updateMany_def) metis+
  have one: "x = b" if "x \<in> set t" "active_booking (bk_requirement_id b) x" "bk_worker_id x = bk_worker_id b" for x
    by (rule key_unique [OF assms(2) that(1) assms(3)]) (use that in \<open>simp add: booking_pair_def active_booking_def\<close>)
  show ?thesis
  proof (cases "k = bk_requirement_id b")
    case True
    with upd one show ?thesis by auto
  next
    case False
    with assms(4) have "{x \<in> set t. active_booking k x \<and> x \<noteq> b} = {x \<in> set t. active_booking k x}" by auto
    with upd False show ?thesis by simp
  qed
qed

lemma cancelBooking_slots:
  assumes ok: "market_ok d" and c: "cancelBooking oid now i uid reason actor d = Inr (r, d')"
  shows "slot_step\<^sup>*\<^sup>* (slots_of d) (slots_of d')"
  using c
proof (cases rule: cancelBooking_InrE)
  case (1 b res d1)
  have dist: "distinct (map bk_id (bookings d))" and pairs: "distinct (map booking_pair (bookings d))"
    using ok by (simp_all add: market_ok_def booking_audited_def)
  have b0: "b \<in> set (bookings d)" "bk_id b = i" using findFirst_Some [OF 1(1)] by (auto simp: cancel_scope_def)
  then have b: "findUnique bk_id i (bookings d) = Some b" using findUnique_distinct [OF dist] by blast
  obtain st where st: "bk_status b = booking_status_str st" using market_booking [OF ok b0(1)] by blast
  let ?r = "bk_requirement_id b" and ?w = "bk_worker_id b"
  from 1(4) b st show ?thesis
  proof (cases rule: booking_transition_InrE)
    case (step rule u)
    have live: "st \<noteq> CANCELLED" and target: "bu_target u = CANCELLED" using step booking_target_cancel by auto
    from 1(5) step obtain d2 where d2: "cancel_reconcile now b d1 = Inr d2"
      "requirements d' = requirements d2" "bookings d' = bookings d2" by auto
    note parts = cancel_reconcile_parts [OF d2(1)]
    have "demand_of d2 = demand_of d1"
    proof (cases "?r = []")
      case False
      from parts(3) [OF False] obtain k e where e: "reconcileCapacity now ?r d1 = Inr (k, e)"
        "requirements d2 = requirements e" by blast
      from e(1) obtain s where "e = update_requirement ?r \<lparr>ru_status = Some s,
          ru_filled = Some (activeBookingsCount ?r d1), ru_needed = None, ru_now = now\<rparr> d1"
        by (auto simp: reconcileCapacity_def Let_def split: option.splits sum.splits)
      then have "demand_of e = demand_of d1"
        using slots_update_requirement [of "\<lparr>ru_status = Some s, ru_filled = Some (activeBookingsCount ?r d1),
            ru_needed = None, ru_now = now\<rparr>" ?r d1] by (simp add: slots_of_def)
      with e(2) show ?thesis by (simp add: demand_of_def fun_eq_iff)
    qed (use parts(4) in \<open>simp add: demand_of_def fun_eq_iff\<close>)
    then have dem: "demand_of d' = demand_of d" using d2(2) step(13) by (simp add: demand_of_def fun_eq_iff)
    have bks: "bookings d' = updateMany (\<lambda>x. bk_id x = i) (apply_booking_update u) (bookings d)"
      using d2(3) parts(1) step(13) by (simp add: update_booking_def)
    have hold: "holders d' = (holders d)(?r := holders d ?r - {?w})"
    proof (rule ext)
      fix k
      show "holders d' k = ((holders d)(?r := holders d ?r - {?w})) k"
        unfolding holders_def bks b0(2) [symmetric] by (rule cancel_holders [OF dist pairs b0(1)])
          (use b0 st live target active_str [of CANCELLED] in \<open>auto simp: active_booking_def active_str\<close>)
    qed
    have "?w \<in> holders d ?r" using b0(1) st live active_str [of st] by (auto simp: holders_def active_booking_def)
    then have "slot_step (slots_of d) (slots_of d')" unfolding slots_of_def dem hold by (rule released)
    then show ?thesis by simp
  qed (use 1(5) in auto)
qed

lemma create_requirement_slots:
  assumes ok: "market_ok d" and c: "create_requirement r d = Inr d'"
  shows "slot_step (slots_of d) (slots_of d')"
proof -
  have pos: "0 < rq_needed r" and l: "\<not> list_ex (\<lambda>q. rq_id q = rq_id r) (requirements d)"
    using c by (auto simp: create_requirement_def split: if_splits)
  then have d': "d' = d\<lparr>requirements := requirements d @ [r]\<rparr>" using c
    by (auto simp: create_requirement_def split: if_splits)
  have new: "demand_of d (rq_id r) = None" using l by (simp add: demand_of_def findUnique_None list_ex_iff)
  have "bk_requirement_id ` set (bookings d) \<subseteq> rq_id ` set (requirements d)" using ok by (simp add: market_ok_def)
  moreover have "rq_id r \<notin> rq_id ` set (requirements d)" using l unfolding list_ex_iff image_iff by metis
  ultimately have "\<forall>b \<in> set (bookings d). bk_requirement_id b \<noteq> rq_id r" by (metis imageI subsetD)
  then have none: "holders d (rq_id r) = {}" by (auto simp: holders_def active_booking_def)
  have "List.find P (t @ [r]) = (case List.find P t of None \<Rightarrow> if P r then Some r else None | Some q \<Rightarrow> Some q)" for P t
    by (induction t) auto
  then have "demand_of d' = (demand_of d)(rq_id r \<mapsto> rq_needed r)"
    using new by (auto simp: d' demand_of_def fun_eq_iff findUnique_def split: option.splits)
  moreover have "holders d' = holders d" by (rule holders_cong) (simp add: d')
  ultimately show ?thesis unfolding slots_of_def using new none pos by (simp add: opened)
qed

lemma create_requirements_slots:
  assumes "market_ok d" and "create_requirements f now j rs d = Inr d'"
  shows "slot_step\<^sup>*\<^sup>* (slots_of d) (slots_of d')"
  using assms
proof (induction rs arbitrary: d)
  case (Cons r rs)
  then obtain d1 where c: "create_requirement (new_requirement f now j r) d = Inr d1"
    and rest: "create_requirements f now j rs d1 = Inr d'" by (auto split: sum.splits)
  have "market_ok d1" using create_requirement_market [OF Cons.prems(1) c] by (simp add: new_requirement_def)
  with Cons.IH rest create_requirement_slots [OF Cons.prems(1) c] show ?case by (meson converse_rtranclp_into_rtranclp)
qed simp

lemma createJob_slots:
  assumes ok: "system_ok d"
  shows "slot_step\<^sup>*\<^sup>* (slots_of d) (slots_of (snd (createJob f h now i c p d)))"
proof -
  have one: "slot_step\<^sup>*\<^sup>* (slots_of d) (slots_of d1)" if "create_job_tx f now i c co rs d = Inr (j, d1)" for co rs j d1
  proof (rule create_job_tx_InrE [OF that])
    fix d0 assume d0: "d0 = d\<lparr>jobs := jobs d @ [j], job_log := job_log d @ [job_created_row i c]\<rparr>"
      and c: "create_requirements f now i rs d0 = Inr d1"
    have "market_ok d0" using ok market_cong [of d0 d] d0 by (simp add: system_ok_def)
    moreover have "slots_of d0 = slots_of d" by (rule slots_cong) (simp_all add: d0)
    ultimately show ?thesis using create_requirements_slots [OF _ c] by simp
  qed
  have two: "slots_of (snd (run_tx (start_dispatch_tx now i) d1)) = slots_of d1" for d1
    by (auto simp: run_tx_def start_dispatch_tx_def split: sum.splits prod.splits dest: job_transition_slots)
  have three: "slots_of d2 = slots_of d1" if "run_tx (start_dispatch_tx now i) d1 = (r, d2)" for d1 d2 r
    using two [of d1] that by simp
  show ?thesis
    using one by (auto simp: createJob_def run_tx_def [of "create_job_tx _ _ _ _ _ _"] Let_def
        split: sum.splits prod.splits dest!: three)
qed

lemma updateDemand_slots:
  assumes ok: "market_ok d" and u: "updateDemand now i n actor d = Inr (res, d')"
  shows "slot_step (slots_of d) (slots_of d')"
  using u
proof (rule updateDemand_InrE)
  fix q s assume q: "findUnique rq_id i (requirements d) = Some q" "rq_filled q \<le> js_int n" "0 < js_int n"
    and d': "d' = update_requirement i \<lparr>ru_status = Some s, ru_filled = None, ru_needed = Some (js_int n), ru_now = now\<rparr> d"
  have "requirement_ok d q" "rq_id q = i" using ok findUnique_Some [OF q(1)] by (auto simp: market_ok_def ledger_ok_def)
  then have le: "int (card (holders d i)) \<le> js_int n" using holders_card [of d i] q(2) by (simp add: requirement_ok_def)
  have "demand_of d' k = ((demand_of d)(i \<mapsto> js_int n)) k" for k
  proof (cases "k = i")
    case True
    then show ?thesis using requirement_table.findUnique_update_same [OF q(1)]
      by (simp add: d' demand_of_def update_requirement_def apply_req_update_def)
  next
    case False
    then show ?thesis by (simp add: d' demand_of_def update_requirement_def requirement_table.findUnique_update_other)
  qed
  then have "demand_of d' = (demand_of d)(i \<mapsto> js_int n)" by (rule ext)
  moreover have "holders d' = holders d" by (rule holders_cong) (simp add: d')
  ultimately show ?thesis unfolding slots_of_def
    using resized [of "demand_of d" i "rq_needed q" "holders d"] le q by (simp add: demand_of_def)
qed

lemma run_tx_slots:
  assumes "\<And>a d'. m d = Inr (a, d') \<Longrightarrow> slot_step\<^sup>*\<^sup>* (slots_of d) (slots_of d')"
  shows "slot_step\<^sup>*\<^sup>* (slots_of d) (slots_of (snd (run_tx m d)))"
  by (rule run_tx_preserves [of "\<lambda>e. slot_step\<^sup>*\<^sup>* (slots_of d) (slots_of e)"]) (simp_all add: assms)

section \<open>Properties\<close>




end
