(* ===== verification/Sessions.thy ===== *)
theory Sessions
  imports Schema
begin

text \<open>
  Server-side refresh sessions, \<^verbatim>\<open>src/features/auth/session.service.ts\<close>: the opaque token and its
  parser, login, rotation with reuse detection, revocation, listing and cleanup. Rotation is split
  at the point where other requests can interleave: \<open>rotate_check\<close> is everything up to the
  transaction, \<open>rotate_commit\<close> the transaction; the step relation at the end interleaves them freely.

  Random ids and secrets, their bcrypt hashes, the clock and \<^verbatim>\<open>bcrypt.compare\<close> are arguments. The
  best-effort audit event of a detected reuse is left out.
\<close>

section \<open>The raw token\<close>

definition REFRESH_TOKEN_SEPARATOR :: char where
  "REFRESH_TOKEN_SEPARATOR = CHR ''.''"

definition REFRESH_SECRET_BYTES :: nat where
  "REFRESH_SECRET_BYTES = 32"

definition is_hex :: "char \<Rightarrow> bool" where
  "is_hex c = (let n = (of_char c :: nat) in (48 \<le> n \<and> n \<le> 57) \<or> (97 \<le> n \<and> n \<le> 102) \<or> (65 \<le> n \<and> n \<le> 70))"

text \<open>The pattern \<^verbatim>\<open>UUID_RE\<close>: groups of 8, 4, 4, 4 and 12 hexadecimal digits.\<close>

definition uuid_shape :: "string \<Rightarrow> bool" where
  "uuid_shape s \<longleftrightarrow> length s = 36 \<and>
     list_all (\<lambda>(i, c). if i \<in> {8, 13, 18, 23} then c = CHR ''-'' else is_hex c) (zip [0..<36] s)"

definition buildRawToken :: "string \<Rightarrow> string \<Rightarrow> string" where
  "buildRawToken sessionId secret = sessionId @ [REFRESH_TOKEN_SEPARATOR] @ secret"

definition parseRawToken :: "string \<Rightarrow> (string \<times> string) option" where
  "parseRawToken rawToken =
     (let sessionId = takeWhile (\<lambda>c. c \<noteq> REFRESH_TOKEN_SEPARATOR) rawToken;
          secret = tl (dropWhile (\<lambda>c. c \<noteq> REFRESH_TOKEN_SEPARATOR) rawToken)
      in if REFRESH_TOKEN_SEPARATOR \<notin> set rawToken \<or> sessionId = [] then None
         else if sessionId = [] \<or> secret = [] \<or> length secret \<noteq> REFRESH_SECRET_BYTES * 2 then None
         else if \<not> uuid_shape sessionId then None
         else Some (sessionId, secret))"

section \<open>Login\<close>

datatype session_update = Rotated timestamp uuid | Revoked timestamp string

fun apply_session_update :: "session_update \<Rightarrow> refresh_session \<Rightarrow> refresh_session" where
  "apply_session_update (Rotated now newId) s =
     s\<lparr>se_status := ''ROTATED'', se_rotated_at := Some now, se_rotated_to_id := Some newId\<rparr>"
| "apply_session_update (Revoked now reason) s =
     s\<lparr>se_status := ''REVOKED'', se_revoked_at := Some now, se_revoked_reason := Some reason\<rparr>"

record create_session_opts =
  so_userId :: uuid
  so_userRole :: string
  so_deviceId :: "string option"
  so_userAgent :: "string option"
  so_ipAddress :: "string option"
  so_ttlDays :: "int option"

text \<open>What the random generator and bcrypt supply.\<close>

record generated =
  gn_id :: uuid
  gn_secret :: string
  gn_hash :: string

definition ttl_ms :: "int \<Rightarrow> int" where
  "ttl_ms days = days * 24 * 60 * 60 * 1000"

definition new_session ::
  "timestamp \<Rightarrow> timestamp \<Rightarrow> uuid \<Rightarrow> generated \<Rightarrow> create_session_opts \<Rightarrow> refresh_session" where
  "new_session now expiresAt familyId g opts =
     \<lparr>se_id = gn_id g, se_user_id = so_userId opts, se_user_role = so_userRole opts, se_token_hash = gn_hash g,
      se_family_id = familyId, se_device_id = so_deviceId opts, se_user_agent = so_userAgent opts,
      se_ip_address = so_ipAddress opts, se_status = ''ACTIVE'', se_created_at = now, se_expires_at = expiresAt,
      se_last_used_at = None, se_rotated_at = None, se_rotated_to_id = None, se_revoked_at = None,
      se_revoked_reason = None\<rparr>"

definition insert_session :: "refresh_session \<Rightarrow> db \<Rightarrow> error + db" where
  "insert_session s d =
     (if list_ex (\<lambda>r. se_id r = se_id s) (sessions d) then Inl (PrismaUniqueViolation ''id'')
      else Inr (d\<lparr>sessions := sessions d @ [s]\<rparr>))"

text \<open>The result: the raw token, the session id and the expiry.\<close>

definition createSession ::
  "int \<Rightarrow> timestamp \<Rightarrow> generated \<Rightarrow> uuid \<Rightarrow> create_session_opts \<Rightarrow> db \<Rightarrow> error + ((string \<times> uuid \<times> timestamp) \<times> db)" where
  "createSession ttlDaysDefault now g familyId opts d =
     (let ttlDays = (case so_ttlDays opts of Some n \<Rightarrow> n | None \<Rightarrow> ttlDaysDefault);
          s = new_session now (now + ttl_ms ttlDays) familyId g opts
      in case insert_session s d of Inl e \<Rightarrow> Inl e
         | Inr d' \<Rightarrow> Inr ((buildRawToken (se_id s) (gn_secret g), se_id s, se_expires_at s), d'))"

section \<open>Revocation\<close>

definition update_sessions :: "(refresh_session \<Rightarrow> bool) \<Rightarrow> session_update \<Rightarrow> db \<Rightarrow> nat \<times> db" where
  "update_sessions hit u d =
     (countWhere hit (sessions d), d\<lparr>sessions := updateMany hit (apply_session_update u) (sessions d)\<rparr>)"

definition revocable :: "refresh_session \<Rightarrow> bool" where
  "revocable s \<longleftrightarrow> se_status s \<in> {''ACTIVE'', ''ROTATED''}"

definition revokeSession :: "timestamp \<Rightarrow> uuid \<Rightarrow> uuid \<Rightarrow> string \<Rightarrow> db \<Rightarrow> nat \<times> db" where
  "revokeSession now sessionId userId reason d =
     update_sessions (\<lambda>s. se_id s = sessionId \<and> se_user_id s = userId \<and> revocable s) (Revoked now reason) d"

definition revokeAllUserSessions :: "timestamp \<Rightarrow> uuid \<Rightarrow> string \<Rightarrow> db \<Rightarrow> nat \<times> db" where
  "revokeAllUserSessions now userId reason d =
     update_sessions (\<lambda>s. se_user_id s = userId \<and> revocable s) (Revoked now reason) d"

definition revokeFamilyByFamilyId :: "timestamp \<Rightarrow> uuid \<Rightarrow> string \<Rightarrow> db \<Rightarrow> nat \<times> db" where
  "revokeFamilyByFamilyId now familyId reason d =
     update_sessions (\<lambda>s. se_family_id s = familyId \<and> se_status s \<noteq> ''REVOKED'') (Revoked now reason) d"

definition revokeByRawToken :: "timestamp \<Rightarrow> string \<Rightarrow> uuid \<Rightarrow> db \<Rightarrow> nat \<times> db" where
  "revokeByRawToken now rawToken userId d =
     (case parseRawToken rawToken of None \<Rightarrow> (0, d)
      | Some (sessionId, _) \<Rightarrow> revokeSession now sessionId userId ''LOGOUT'' d)"

section \<open>Rotation\<close>

text \<open>The account of the session's owner, when it is a worker or a customer.\<close>

definition account_refusal :: "refresh_session \<Rightarrow> db \<Rightarrow> error option" where
  "account_refusal s d =
     (if se_user_role s = user_role_str WORKER then
        (case findUnique wk_id (se_user_id s) (workers d) of
           None \<Rightarrow> Some (CodedError ''ACCOUNT_SUSPENDED'')
         | Some w \<Rightarrow> if wk_deleted_at w \<noteq> None \<or> wk_verification_status w = ''suspended''
                     then Some (CodedError ''ACCOUNT_SUSPENDED'') else None)
      else if se_user_role s = user_role_str CUSTOMER then
        (case findUnique cu_id (se_user_id s) (customers d) of
           None \<Rightarrow> Some (CodedError ''ACCOUNT_INACTIVE'')
         | Some c \<Rightarrow> if cu_deleted_at c \<noteq> None then Some (CodedError ''ACCOUNT_INACTIVE'') else None)
      else None)"

definition rotate_check ::
  "(string \<Rightarrow> string \<Rightarrow> bool) \<Rightarrow> timestamp \<Rightarrow> string \<Rightarrow> db \<Rightarrow> (error + refresh_session) \<times> db" where
  "rotate_check bcryptCompare now rawToken d =
     (case parseRawToken rawToken of
        None \<Rightarrow> (Inl (CodedError ''INVALID_REFRESH_TOKEN''), d)
      | Some (sessionId, secret) \<Rightarrow>
     (case findUnique se_id sessionId (sessions d) of
        None \<Rightarrow> (Inl (CodedError ''INVALID_REFRESH_TOKEN''), d)
      | Some s \<Rightarrow>
          if se_status s = ''ROTATED'' \<or> se_status s = ''REVOKED''
          then (Inl (CodedError ''REFRESH_TOKEN_REUSE''), snd (revokeFamilyByFamilyId now (se_family_id s) ''REUSE'' d))
          else if se_expires_at s < now then (Inl (CodedError ''REFRESH_SESSION_EXPIRED''), d)
          else if \<not> bcryptCompare secret (se_token_hash s) then (Inl (CodedError ''INVALID_REFRESH_TOKEN''), d)
          else case account_refusal s d of
            Some e \<Rightarrow> (Inl e, snd (revokeFamilyByFamilyId now (se_family_id s) ''SUSPENDED'' d))
          | None \<Rightarrow> (Inr s, d)))"

record rotate_result =
  rt_newRawToken :: string
  rt_newSessionId :: uuid
  rt_expiresAt :: timestamp
  rt_userId :: uuid
  rt_userRole :: string

definition successor :: "timestamp \<Rightarrow> timestamp \<Rightarrow> generated \<Rightarrow> refresh_session \<Rightarrow> refresh_session" where
  "successor now expiresAt g s =
     (new_session now expiresAt (se_family_id s) g
        \<lparr>so_userId = se_user_id s, so_userRole = se_user_role s, so_deviceId = se_device_id s,
         so_userAgent = se_user_agent s, so_ipAddress = se_ip_address s, so_ttlDays = None\<rparr>)
     \<lparr>se_last_used_at := Some now\<rparr>"

text \<open>The transaction; \<open>None\<close> is the lost race, which commits without a write.\<close>

definition rotate_tx ::
  "timestamp \<Rightarrow> timestamp \<Rightarrow> generated \<Rightarrow> refresh_session \<Rightarrow> db \<Rightarrow> error + (refresh_session option \<times> db)" where
  "rotate_tx now expiresAt g s d =
     (let (n, d1) = update_sessions (\<lambda>r. se_id r = se_id s \<and> se_status r = ''ACTIVE'') (Rotated now (gn_id g)) d
      in if n = 0 then Inr (None, d1)
         else case insert_session (successor now expiresAt g s) d1 of
           Inl e \<Rightarrow> Inl e | Inr d2 \<Rightarrow> Inr (Some (successor now expiresAt g s), d2))"

definition rotate_commit ::
  "int \<Rightarrow> timestamp \<Rightarrow> generated \<Rightarrow> refresh_session \<Rightarrow> db \<Rightarrow> (error + rotate_result) \<times> db" where
  "rotate_commit ttlDays now g s d =
     (case run_tx (rotate_tx now (now + ttl_ms ttlDays) g s) d of
        (Inl e, d') \<Rightarrow> (Inl e, d')
      | (Inr None, d') \<Rightarrow> (Inl (CodedError ''CONCURRENT_REFRESH_CONFLICT''), d')
      | (Inr (Some n), d') \<Rightarrow>
          (Inr \<lparr>rt_newRawToken = buildRawToken (se_id n) (gn_secret g), rt_newSessionId = se_id n,
                rt_expiresAt = se_expires_at n, rt_userId = se_user_id s, rt_userRole = se_user_role s\<rparr>, d'))"

definition rotateSession ::
  "(string \<Rightarrow> string \<Rightarrow> bool) \<Rightarrow> int \<Rightarrow> timestamp \<Rightarrow> generated \<Rightarrow> string \<Rightarrow> db \<Rightarrow> (error + rotate_result) \<times> db" where
  "rotateSession bcryptCompare ttlDays now g rawToken d =
     (case rotate_check bcryptCompare now rawToken d of
        (Inl e, d') \<Rightarrow> (Inl e, d')
      | (Inr s, d') \<Rightarrow> rotate_commit ttlDays now g s d')"

section \<open>Listing and cleanup\<close>

definition listActiveSessions :: "timestamp \<Rightarrow> uuid \<Rightarrow> db \<Rightarrow> refresh_session list" where
  "listActiveSessions now userId d =
     rev (sort_key se_created_at
       (filter (\<lambda>s. se_user_id s = userId \<and> se_status s = ''ACTIVE'' \<and> se_expires_at s > now) (sessions d)))"

definition cleanupExpiredSessions :: "int \<Rightarrow> timestamp \<Rightarrow> int option \<Rightarrow> db \<Rightarrow> nat \<times> db" where
  "cleanupExpiredSessions retentionDefault now override d =
     (let retentionDays = (case override of Some n \<Rightarrow> n | None \<Rightarrow> retentionDefault);
          cutoff = now - ttl_ms retentionDays
      in (countWhere (\<lambda>s. se_expires_at s < cutoff) (sessions d),
          d\<lparr>sessions := deleteMany (\<lambda>s. se_expires_at s < cutoff) (sessions d)\<rparr>))"

section \<open>Interleaved requests\<close>

text \<open>
  The database, the sessions that requests in flight have checked but not yet rotated, and every
  random id handed out so far; a random id is never handed out twice.
\<close>

type_synonym session_state = "db \<times> refresh_session list \<times> uuid set"

inductive session_step :: "(string \<Rightarrow> string \<Rightarrow> bool) \<Rightarrow> int \<Rightarrow> session_state \<Rightarrow> session_state \<Rightarrow> bool"
  for cmp ttl where
  login: "createSession ttl now g f opts d = Inr (r, d') \<Longrightarrow> gn_id g \<notin> U \<Longrightarrow> f \<notin> U \<Longrightarrow>
     session_step cmp ttl (d, P, U) (d', P, insert (gn_id g) (insert f U))"
| refused: "rotate_check cmp now tok d = (Inl e, d') \<Longrightarrow> session_step cmp ttl (d, P, U) (d', P, U)"
| checked: "rotate_check cmp now tok d = (Inr s, d') \<Longrightarrow> session_step cmp ttl (d, P, U) (d', s # P, U)"
| rotated: "s \<in> set P \<Longrightarrow> gn_id g \<notin> U \<Longrightarrow> rotate_commit ttl now g s d = (r, d') \<Longrightarrow>
     session_step cmp ttl (d, P, U) (d', P, insert (gn_id g) U)"
| revoked: "session_step cmp ttl (d, P, U) (snd (revokeSession now i u reason d), P, U)"
| revoked_all: "session_step cmp ttl (d, P, U) (snd (revokeAllUserSessions now u reason d), P, U)"
| cleaned: "session_step cmp ttl (d, P, U) (snd (cleanupExpiredSessions n now ov d), P, U)"

section \<open>Lemmas\<close>

interpretation session_table: keyed_update se_id apply_session_update
proof unfold_locales
  fix u r
  show "se_id (apply_session_update u r) = se_id r" by (cases u) simp_all
qed

lemma apply_session_update_fields [simp]:
  "se_id (apply_session_update u s) = se_id s" "se_family_id (apply_session_update u s) = se_family_id s"
  "se_user_id (apply_session_update u s) = se_user_id s" "se_status (apply_session_update u s) \<noteq> ''ACTIVE''"
  "se_status (apply_session_update (Revoked now reason) s) = ''REVOKED''"
  by (cases u; simp)+

text \<open>The live sessions of a table, and what an update leaves of them.\<close>

definition live :: "refresh_session list \<Rightarrow> refresh_session list" where
  "live t = filter (\<lambda>s. se_status s = ''ACTIVE'') t"

lemma live_updateMany: "live (updateMany hit (apply_session_update u) t) = filter (\<lambda>s. \<not> hit s) (live t)"
  by (induction t) (auto simp: live_def updateMany_def)

lemma live_append [simp]: "live (t @ u) = live t @ live u" by (simp add: live_def)

lemma uuid_no_dot: "uuid_shape s \<Longrightarrow> REFRESH_TOKEN_SEPARATOR \<notin> set s"
proof
  assume u: "uuid_shape s" and "REFRESH_TOKEN_SEPARATOR \<in> set s"
  then obtain i where i: "i < length s" "s ! i = CHR ''.''" by (auto simp: in_set_conv_nth REFRESH_TOKEN_SEPARATOR_def)
  then have "(i, s ! i) \<in> set (zip [0..<36] s)" using u
    by (auto simp: uuid_shape_def in_set_zip intro!: exI [of _ i])
  then have "(if i \<in> {8, 13, 18, 23} then s ! i = CHR ''-'' else is_hex (s ! i))"
    using u by (auto simp: uuid_shape_def list_all_iff)
  with i(2) show False by (auto simp: is_hex_def split: if_splits)
qed

lemma parse_build:
  assumes "uuid_shape i" "length s = 64"
  shows "parseRawToken (buildRawToken i s) = Some (i, s)"
proof -
  have no: "\<forall>c \<in> set i. c \<noteq> REFRESH_TOKEN_SEPARATOR" using uuid_no_dot [OF assms(1)] by auto
  have "takeWhile (\<lambda>c. c \<noteq> REFRESH_TOKEN_SEPARATOR) (buildRawToken i s) = i"
    "dropWhile (\<lambda>c. c \<noteq> REFRESH_TOKEN_SEPARATOR) (buildRawToken i s) = REFRESH_TOKEN_SEPARATOR # s"
    using no by (simp_all add: buildRawToken_def)
  moreover have "i \<noteq> []" "s \<noteq> []" using assms by (auto simp: uuid_shape_def)
  ultimately show ?thesis
    using assms by (simp add: parseRawToken_def Let_def REFRESH_SECRET_BYTES_def) (simp add: buildRawToken_def)
qed

lemma parse_Some:
  assumes "parseRawToken t = Some (i, s)"
  shows "t = buildRawToken i s" "uuid_shape i" "length s = 64"
proof -
  have parts: "i = takeWhile (\<lambda>c. c \<noteq> REFRESH_TOKEN_SEPARATOR) t" "s = tl (dropWhile (\<lambda>c. c \<noteq> REFRESH_TOKEN_SEPARATOR) t)"
    "REFRESH_TOKEN_SEPARATOR \<in> set t"
    using assms by (auto simp: parseRawToken_def Let_def split: if_splits)
  have "dropWhile (\<lambda>c. c \<noteq> REFRESH_TOKEN_SEPARATOR) t \<noteq> []" using parts(3) by simp
  then obtain c r where r: "dropWhile (\<lambda>c. c \<noteq> REFRESH_TOKEN_SEPARATOR) t = c # r" by (cases "dropWhile (\<lambda>c. c \<noteq> REFRESH_TOKEN_SEPARATOR) t") auto
  then have "c = REFRESH_TOKEN_SEPARATOR" using hd_dropWhile [of "\<lambda>c. c \<noteq> REFRESH_TOKEN_SEPARATOR" t] by simp
  then show "t = buildRawToken i s"
    using takeWhile_dropWhile_id [of "\<lambda>c. c \<noteq> REFRESH_TOKEN_SEPARATOR" t] r parts by (simp add: buildRawToken_def)
  show "uuid_shape i" "length s = 64"
    using assms by (auto simp: parseRawToken_def Let_def REFRESH_SECRET_BYTES_def split: if_splits)
qed

lemma findUnique_append:
  "findUnique key k (a @ b) = (case findUnique key k a of None \<Rightarrow> findUnique key k b | Some x \<Rightarrow> Some x)"
  by (induction a) (auto simp: findUnique_def)

lemma insert_session_Inr:
  "insert_session s d = Inr d' \<longleftrightarrow> se_id s \<notin> set (map se_id (sessions d)) \<and> d' = d\<lparr>sessions := sessions d @ [s]\<rparr>"
  by (auto simp: insert_session_def list_ex_key simp del: set_map)

lemma rotate_check_db:
  "sessions (snd (rotate_check cmp now tok d)) = sessions d \<or>
   (\<exists>hit reason. sessions (snd (rotate_check cmp now tok d)) =
      updateMany hit (apply_session_update (Revoked now reason)) (sessions d))"
  by (auto simp: rotate_check_def revokeFamilyByFamilyId_def update_sessions_def split: option.splits prod.splits)

lemma rotate_check_Inr:
  assumes "rotate_check cmp now tok d = (Inr s, d')"
  shows "d' = d" "s \<in> set (sessions d)" "se_status s \<notin> {''ROTATED'', ''REVOKED''}" "now \<le> se_expires_at s"
    "\<exists>i sec. parseRawToken tok = Some (i, sec) \<and> se_id s = i \<and> cmp sec (se_token_hash s)" "account_refusal s d = None"
  using assms findUnique_Some [of se_id _ "sessions d" s]
  by (auto simp: rotate_check_def split: option.splits prod.splits if_splits)

text \<open>A committed rotation: the old session was active and stops being so, the successor is new.\<close>

lemma rotate_commit_sessions:
  assumes "rotate_commit ttl now g s d = (r, d')"
  shows "d' = d \<or> (\<exists>q. sessions d' = updateMany (\<lambda>r. se_id r = se_id s \<and> se_status r = ''ACTIVE'')
       (apply_session_update (Rotated now (gn_id g))) (sessions d) @ [q] \<and> se_id q = gn_id g \<and>
       se_family_id q = se_family_id s \<and> se_user_id q = se_user_id s \<and> se_status q = ''ACTIVE'' \<and>
       gn_id g \<notin> set (map se_id (sessions d)) \<and> (\<exists>a \<in> set (sessions d). se_id a = se_id s \<and> se_status a = ''ACTIVE''))"
proof -
  let ?hit = "\<lambda>r. se_id r = se_id s \<and> se_status r = ''ACTIVE''"
  show ?thesis
  proof (cases "countWhere ?hit (sessions d) = 0")
    case True
    then have "updateMany ?hit f (sessions d) = sessions d" for f
      by (intro updateMany_none) (simp add: table_simps)
    with True assms show ?thesis by (simp add: rotate_commit_def run_tx_def rotate_tx_def update_sessions_def)
  next
    case False
    then have "\<exists>a \<in> set (sessions d). ?hit a" by (simp add: table_simps)
    with False assms show ?thesis
      by (auto simp: rotate_commit_def run_tx_def rotate_tx_def update_sessions_def insert_session_def successor_def
          new_session_def list_ex_key session_table.map_key_updateMany simp del: set_map split: if_splits)
  qed
qed

text \<open>What interleaved requests keep: unique ids, at most one live session per family.\<close>

definition session_inv :: "session_state \<Rightarrow> bool" where
  "session_inv = (\<lambda>(d, P, U). distinct (map se_id (sessions d)) \<and> distinct (map se_family_id (live (sessions d))) \<and>
     (\<forall>s \<in> set (sessions d) \<union> set P. se_id s \<in> U \<and> se_family_id s \<in> U) \<and>
     (\<forall>p \<in> set P. \<forall>s \<in> set (sessions d). se_id s = se_id p \<longrightarrow> se_family_id s = se_family_id p))"

lemma session_inv_known:
  assumes "session_inv (d, P, U)" and "s \<in> set (sessions d) \<or> s \<in> set P"
  shows "se_id s \<in> U" "se_family_id s \<in> U"
  using assms by (auto simp: session_inv_def)

lemma session_inv_pending:
  "session_inv (d, P, U) \<Longrightarrow> p \<in> set P \<Longrightarrow> s \<in> set (sessions d) \<Longrightarrow> se_id s = se_id p \<Longrightarrow> se_family_id s = se_family_id p"
  by (auto simp: session_inv_def)

lemma session_invI:
  assumes "distinct (map se_id (sessions d))" and "distinct (map se_family_id (live (sessions d)))"
    and "\<And>s. s \<in> set (sessions d) \<Longrightarrow> se_id s \<in> U \<and> se_family_id s \<in> U"
    and "\<And>s. s \<in> set P \<Longrightarrow> se_id s \<in> U \<and> se_family_id s \<in> U"
    and "\<And>p s. p \<in> set P \<Longrightarrow> s \<in> set (sessions d) \<Longrightarrow> se_id s = se_id p \<Longrightarrow> se_family_id s = se_family_id p"
  shows "session_inv (d, P, U)"
  using assms by (auto simp: session_inv_def)

lemma distinct_map_filter_key: "distinct (map f t) \<Longrightarrow> distinct (map f (filter Q t))"
  by (induction t) auto

lemma updated_row:
  "s' \<in> set (updateMany hit (apply_session_update u) t) \<Longrightarrow>
   \<exists>s \<in> set t. se_id s' = se_id s \<and> se_family_id s' = se_family_id s"
  by (auto dest!: updateMany_memD)

lemma session_inv_update:
  assumes "session_inv (d, P, U)" and "sessions d' = updateMany hit (apply_session_update u) (sessions d)"
  shows "session_inv (d', P, U)"
proof -
  have dist: "distinct (map se_id (sessions d'))" "distinct (map se_family_id (live (sessions d')))"
    using assms by (simp_all add: session_inv_def session_table.map_key_updateMany live_updateMany distinct_map_filter_key)
  have old: "\<exists>s \<in> set (sessions d). se_id s' = se_id s \<and> se_family_id s' = se_family_id s" if "s' \<in> set (sessions d')" for s'
    using updated_row that assms(2) by metis
  show ?thesis
    by (rule session_invI [OF dist])
      (use old session_inv_known [OF assms(1)] session_inv_pending [OF assms(1)] in metis)+
qed

lemma session_inv_delete:
  assumes "session_inv (d, P, U)" and "sessions d' = deleteMany hit (sessions d)"
  shows "session_inv (d', P, U)"
proof -
  have "live (sessions d') = filter (\<lambda>s. \<not> hit s) (live (sessions d))"
    using assms(2) by (simp add: live_def deleteMany_def conj_commute)
  with assms show ?thesis by (auto simp: session_inv_def distinct_map_filter_key deleteMany_def)
qed

lemma session_inv_insert:
  assumes inv: "session_inv (d, P, U)" and new: "se_id q \<notin> U" and fam: "se_family_id q \<notin> set (map se_family_id (live (sessions d)))"
    and d': "sessions d' = sessions d @ [q]" and U': "U' = insert (se_id q) (insert (se_family_id q) U)"
  shows "session_inv (d', P, U')"
proof -
  have ids: "se_id q \<notin> se_id ` set (sessions d)" and pend: "\<forall>p \<in> set P. se_id p \<noteq> se_id q"
    using session_inv_known(1) [OF inv] new by (metis imageE, metis)
  have "distinct (map se_family_id (live (sessions d')))"
    using inv fam d' by (auto simp: session_inv_def live_def)
  with inv ids pend d' U' show ?thesis by (auto simp: session_inv_def)
qed

lemma session_step_inv: "session_step cmp ttl x y \<Longrightarrow> session_inv x \<Longrightarrow> session_inv y"
proof (induction rule: session_step.induct)
  case (login now g f opts d r d' U P)
  from login(1) obtain q where q: "sessions d' = sessions d @ [q]" "se_id q = gn_id g" "se_family_id q = f"
    by (auto simp: createSession_def Let_def insert_session_Inr new_session_def split: sum.splits)
  have "f \<notin> se_family_id ` set (live (sessions d))" using login(3,4) by (auto simp: session_inv_def live_def)
  with session_inv_insert [OF login(4) _ _ q(1)] login(2) q show ?case by simp
next
  case (refused now tok d e d' P U)
  then show ?case using rotate_check_db [of cmp now tok d] session_inv_update [of d P U d']
    by (auto simp: session_inv_def)
next
  case (checked now tok d s d' P U)
  note c = rotate_check_Inr [OF checked(1)]
  have "se_id a = se_id s \<Longrightarrow> a \<in> set (sessions d) \<Longrightarrow> a = s" for a
    using checked(2) c(2) key_unique [of se_id "sessions d" a s] by (simp add: session_inv_def)
  with checked(2) c(1,2) show ?case by (auto simp: session_inv_def)
next
  case (rotated s P g U now d r d')
  let ?hit = "\<lambda>r. se_id r = se_id s \<and> se_status r = ''ACTIVE''"
  let ?d1 = "d\<lparr>sessions := updateMany ?hit (apply_session_update (Rotated now (gn_id g))) (sessions d)\<rparr>"
  from rotate_commit_sessions [OF rotated(3)] show ?case
  proof (elim disjE exE conjE)
    assume "d' = d"
    with rotated(4) show ?thesis by (auto simp: session_inv_def)
  next
    fix q assume d': "sessions d' = updateMany ?hit (apply_session_update (Rotated now (gn_id g))) (sessions d) @ [q]"
      and q: "se_id q = gn_id g" "se_family_id q = se_family_id s" and "\<exists>a \<in> set (sessions d). ?hit a"
    then obtain a where a: "a \<in> set (live (sessions d))" "se_id a = se_id s" "se_family_id a = se_family_id s"
      using rotated(1,4) by (auto simp: session_inv_def live_def)
    have one: "session_inv (?d1, P, U)" by (rule session_inv_update [OF rotated(4)]) simp
    have fam: "distinct (map se_family_id (live (sessions d)))" using rotated(4) by (simp add: session_inv_def)
    have "se_family_id s \<noteq> se_family_id b" if "b \<in> set (live (sessions d))" "\<not> ?hit b" for b
      using key_unique [OF fam that(1) a(1)] that a by (auto simp: live_def)
    then have "se_family_id q \<notin> set (map se_family_id (live (sessions ?d1)))"
      using q by (auto simp: live_updateMany simp del: apply_session_update.simps)
    moreover have "insert (gn_id g) U = insert (se_id q) (insert (se_family_id q) U)"
      using session_inv_known(2) [OF rotated(4)] rotated(1) q by (simp add: insert_absorb)
    ultimately show ?thesis using session_inv_insert [OF one, of q d' "insert (gn_id g) U"] d' q rotated(2) by simp
  qed
qed (auto intro: session_inv_update session_inv_delete
    simp: revokeSession_def revokeAllUserSessions_def update_sessions_def cleanupExpiredSessions_def Let_def)

lemma session_steps_inv: "(session_step cmp ttl)\<^sup>*\<^sup>* x y \<Longrightarrow> session_inv x \<Longrightarrow> session_inv y"
  by (induction rule: rtranclp_induct) (auto intro: session_step_inv)

text \<open>A family is dead when its id was handed out and all its sessions are revoked.\<close>

definition family_dead :: "uuid \<Rightarrow> session_state \<Rightarrow> bool" where
  "family_dead f = (\<lambda>(d, P, U). f \<in> U \<and> (\<forall>s \<in> set (sessions d). se_family_id s = f \<longrightarrow> se_status s = ''REVOKED''))"

lemma family_dead_revoke:
  assumes "family_dead f (d, P, U)" and "sessions d' = updateMany hit (apply_session_update (Revoked now reason)) (sessions d)"
  shows "family_dead f (d', P', U)"
  using assms by (auto simp: family_dead_def dest!: updateMany_memD split: if_splits)

lemma family_dead_step:
  "session_step cmp ttl x y \<Longrightarrow> session_inv x \<Longrightarrow> family_dead f x \<Longrightarrow> family_dead f y"
proof (induction rule: session_step.induct)
  case (login now g f' opts d r d' U P)
  then show ?case
    by (auto simp: createSession_def Let_def insert_session_Inr new_session_def family_dead_def split: sum.splits)
next
  case (refused now tok d e d' P U)
  then show ?case using rotate_check_db [of cmp now tok d] family_dead_revoke [of f d P U d' _ now _ P]
    by (auto simp: family_dead_def)
next
  case (checked now tok d s d' P U)
  then show ?case using rotate_check_Inr(1) [OF checked(1)] by (simp add: family_dead_def)
next
  case (rotated s P g U now d r d')
  let ?hit = "\<lambda>r. se_id r = se_id s \<and> se_status r = ''ACTIVE''"
  from rotate_commit_sessions [OF rotated(3)] show ?case
  proof (elim disjE exE conjE)
    assume "d' = d"
    with rotated(5) show ?thesis by (simp add: family_dead_def)
  next
    fix q assume d': "sessions d' = updateMany ?hit (apply_session_update (Rotated now (gn_id g))) (sessions d) @ [q]"
      and q: "se_family_id q = se_family_id s" and "\<exists>a \<in> set (sessions d). ?hit a"
    then obtain a where a: "a \<in> set (sessions d)" "?hit a" by blast
    have "se_family_id a = se_family_id s" using session_inv_pending [OF rotated(4,1) a(1)] a(2) by simp
    with a rotated(5) have other: "se_family_id s \<noteq> f" by (auto simp: family_dead_def)
    have "se_status b' = ''REVOKED''" if b': "b' \<in> set (sessions d')" "se_family_id b' = f" for b'
    proof -
      from b' d' q other obtain b where b: "b \<in> set (sessions d)"
        "b' = (if ?hit b then apply_session_update (Rotated now (gn_id g)) b else b)"
        by (auto dest!: updateMany_memD)
      then have "\<not> ?hit b" using b'(2) rotated(5) by (auto simp: family_dead_def split: if_splits)
      with b b'(2) rotated(5) show ?thesis by (auto simp: family_dead_def)
    qed
    with rotated(5) show ?thesis by (simp add: family_dead_def)
  qed
next
  case (revoked d P U now i u reason)
  then show ?case using family_dead_revoke [of f d P U]
    by (auto simp: revokeSession_def update_sessions_def)
next
  case (revoked_all d P U now u reason)
  then show ?case using family_dead_revoke [of f d P U]
    by (auto simp: revokeAllUserSessions_def update_sessions_def)
next
  case (cleaned d P U n now ov)
  then show ?case by (auto simp: family_dead_def cleanupExpiredSessions_def deleteMany_def Let_def)
qed

lemma family_dead_steps:
  "(session_step cmp ttl)\<^sup>*\<^sup>* x y \<Longrightarrow> session_inv x \<Longrightarrow> family_dead f x \<Longrightarrow> family_dead f y"
  by (induction rule: rtranclp_induct) (auto intro: family_dead_step session_steps_inv)

lemma revokeFamily_dead:
  "\<forall>s \<in> set (sessions (snd (revokeFamilyByFamilyId now f reason d))). se_family_id s = f \<longrightarrow> se_status s = ''REVOKED''"
  by (auto simp: revokeFamilyByFamilyId_def update_sessions_def dest!: updateMany_memD split: if_splits)

section \<open>Properties\<close>

text \<open>
  The opaque token is a faithful code of session id and secret: parsing what was built gives both
  back, and whatever the parser accepts is exactly the token built from its result, with an id in
  UUID form and a secret of 64 characters.
\<close>

theorem raw_token_roundtrip:
  "(uuid_shape i \<and> length s = 64 \<longrightarrow> parseRawToken (buildRawToken i s) = Some (i, s)) \<and>
   (parseRawToken t = Some (i, s) \<longrightarrow> t = buildRawToken i s \<and> uuid_shape i \<and> length s = 64)"
  using parse_build parse_Some by blast

definition sample_uuid :: string where
  "sample_uuid = ''0a1b2c3d-0000-4000-8000-0123456789ab''"

lemma sample_uuid_shape: "uuid_shape sample_uuid"
  by (simp add: sample_uuid_def uuid_shape_def is_hex_def upt_conv_Cons)

theorem raw_token_roundtrip_witness:
  "parseRawToken (buildRawToken sample_uuid (replicate 64 CHR ''f'')) = Some (sample_uuid, replicate 64 CHR ''f'')"
  using raw_token_roundtrip [of sample_uuid "replicate 64 CHR ''f''"] sample_uuid_shape by simp




definition sample_session :: refresh_session where
  "sample_session = \<lparr>se_id = sample_uuid, se_user_id = ''u1'', se_user_role = ''admin'', se_token_hash = ''h'',
     se_family_id = ''f1'', se_device_id = None, se_user_agent = None, se_ip_address = None, se_status = ''ROTATED'',
     se_created_at = 0, se_expires_at = 100, se_last_used_at = None, se_rotated_at = Some 5, se_rotated_to_id = None,
     se_revoked_at = None, se_revoked_reason = None\<rparr>"


definition account_live :: "refresh_session \<Rightarrow> db \<Rightarrow> bool" where
  "account_live s d \<longleftrightarrow> account_refusal s d = None"

lemma active_token_rotates:
  assumes "distinct (map se_id (sessions d))" and "s \<in> set (sessions d)" and "se_status s = ''ACTIVE''"
    and "uuid_shape (se_id s)" and "length sec = 64" and "cmp sec (se_token_hash s)" and "now \<le> se_expires_at s"
    and "account_live s d" and "gn_id g \<notin> set (map se_id (sessions d))"
  shows "\<exists>d'. rotateSession cmp ttl now g (buildRawToken (se_id s) sec) d =
     (Inr \<lparr>rt_newRawToken = buildRawToken (gn_id g) (gn_secret g), rt_newSessionId = gn_id g,
           rt_expiresAt = now + ttl_ms ttl, rt_userId = se_user_id s, rt_userRole = se_user_role s\<rparr>, d') \<and>
     sessions d' = updateMany (\<lambda>r. se_id r = se_id s \<and> se_status r = ''ACTIVE'')
        (apply_session_update (Rotated now (gn_id g))) (sessions d) @ [successor now (now + ttl_ms ttl) g s]"
proof -
  have fu: "findUnique se_id (se_id s) (sessions d) = Some s" using findUnique_distinct [OF assms(1,2)] .
  have chk: "rotate_check cmp now (buildRawToken (se_id s) sec) d = (Inr s, d)"
    using assms fu parse_build [OF assms(4,5)] by (simp add: rotate_check_def account_live_def)
  have hit: "countWhere (\<lambda>r. se_id r = se_id s \<and> se_status r = ''ACTIVE'') (sessions d) \<noteq> 0"
    using assms(2,3) by (auto simp: table_simps)
  show ?thesis
    using hit assms(9) by (simp add: rotateSession_def chk rotate_commit_def run_tx_def rotate_tx_def update_sessions_def
        insert_session_def list_ex_key session_table.map_key_updateMany successor_def new_session_def del: set_map)
qed

text \<open>
  C13. Refreshing makes progress: the token a login hands out is accepted until it expires (the secret
  matching its hash and the account not being refused) and gives a successor of the same user and
  family, whose token can be refreshed in turn; the token itself then counts as reused.
\<close>

theorem issued_token_refreshes:
  assumes "distinct (map se_id (sessions d))" and "uuid_shape (gn_id g)" and "length (gn_secret g) = 64"
    and "cmp (gn_secret g) (gn_hash g)"
    and "createSession ttl now g f opts d = Inr ((tok, i, expiry), d1)"
    and "t \<le> expiry" and "account_live (new_session now expiry f g opts) d1"
    and "gn_id g2 \<notin> set (map se_id (sessions d1))"
  shows "\<exists>res d2. rotateSession cmp ttl t g2 tok d1 = (Inr res, d2) \<and>
     rt_userId res = so_userId opts \<and> rt_newRawToken res = buildRawToken (gn_id g2) (gn_secret g2) \<and>
     (\<exists>q \<in> set (sessions d2). se_id q = gn_id g2 \<and> se_status q = ''ACTIVE'' \<and> se_family_id q = f) \<and>
     (\<forall>g3 t3. fst (rotateSession cmp ttl t3 g3 tok d2) = Inl (CodedError ''REFRESH_TOKEN_REUSE''))"
proof -
  let ?s = "new_session now expiry f g opts"
  have d1: "d1 = d\<lparr>sessions := sessions d @ [?s]\<rparr>" and fresh: "gn_id g \<notin> set (map se_id (sessions d))"
      and tok: "tok = buildRawToken (gn_id g) (gn_secret g)"
    using assms(5) by (auto simp: createSession_def Let_def insert_session_Inr new_session_def split: sum.splits)
  have s: "se_id ?s = gn_id g" "se_status ?s = ''ACTIVE''" "se_token_hash ?s = gn_hash g" "se_expires_at ?s = expiry"
    "se_user_id ?s = so_userId opts" "se_family_id ?s = f" by (simp_all add: new_session_def)
  have dist: "distinct (map se_id (sessions d1))" using assms(1) fresh s(1) by (simp add: d1)
  have in1: "?s \<in> set (sessions d1)" by (simp add: d1)
  obtain d2 where rot: "rotateSession cmp ttl t g2 tok d1 =
     (Inr \<lparr>rt_newRawToken = buildRawToken (gn_id g2) (gn_secret g2), rt_newSessionId = gn_id g2,
           rt_expiresAt = t + ttl_ms ttl, rt_userId = so_userId opts, rt_userRole = se_user_role ?s\<rparr>, d2)"
    and rows: "sessions d2 = updateMany (\<lambda>r. se_id r = gn_id g \<and> se_status r = ''ACTIVE'')
        (apply_session_update (Rotated t (gn_id g2))) (sessions d1) @ [successor t (t + ttl_ms ttl) g2 ?s]"
    using active_token_rotates [OF dist in1 s(2), of "gn_secret g" cmp t g2 ttl] s assms(2-4,6-8) tok by auto
  have new: "successor t (t + ttl_ms ttl) g2 ?s \<in> set (sessions d2)" by (simp add: rows)
  have fu1: "findUnique se_id (gn_id g) (sessions d1) = Some ?s" using findUnique_distinct [OF dist in1] s(1) by simp
  have "findUnique se_id (gn_id g) (sessions d2) = Some (apply_session_update (Rotated t (gn_id g2)) ?s)"
    using session_table.findUnique_updateMany [of "gn_id g" "\<lambda>r. se_id r = gn_id g \<and> se_status r = ''ACTIVE''"
        "Rotated t (gn_id g2)" "sessions d1"] fu1 s
    by (simp add: rows findUnique_append)
  then have again: "fst (rotateSession cmp ttl t3 g3 tok d2) = Inl (CodedError ''REFRESH_TOKEN_REUSE'')" for g3 t3
    using parse_build [OF assms(2,3)] by (simp add: rotateSession_def rotate_check_def tok)
  show ?thesis
    using rot again by (intro exI conjI) (auto intro!: bexI [OF _ new] simp: successor_def new_session_def)
qed

definition sample_login :: "generated \<times> create_session_opts" where
  "sample_login = (\<lparr>gn_id = sample_uuid, gn_secret = replicate 64 CHR ''f'', gn_hash = replicate 64 CHR ''f''\<rparr>,
     \<lparr>so_userId = ''u1'', so_userRole = ''admin'', so_deviceId = None, so_userAgent = None, so_ipAddress = None,
      so_ttlDays = None\<rparr>)"

theorem issued_token_refreshes_witness:
  "\<exists>tok expiry d1 res d2. createSession 30 0 (fst sample_login) ''f1'' (snd sample_login) empty_db =
       Inr ((tok, sample_uuid, expiry), d1) \<and>
     rotateSession (=) 30 9 \<lparr>gn_id = ''n'', gn_secret = ''x'', gn_hash = ''x''\<rparr> tok d1 = (Inr res, d2) \<and>
     rt_userId res = ''u1''"
proof -
  let ?g = "fst sample_login" and ?o = "snd sample_login" and ?e = "ttl_ms 30"
  let ?d1 = "empty_db\<lparr>sessions := [new_session 0 ?e ''f1'' ?g ?o]\<rparr>"
  let ?tok = "buildRawToken sample_uuid (replicate 64 CHR ''f'')"
  have c: "createSession 30 0 ?g ''f1'' ?o empty_db = Inr ((?tok, sample_uuid, ?e), ?d1)"
    by (simp add: createSession_def insert_session_def new_session_def sample_login_def Let_def empty_db_def)
  have "\<exists>res d2. rotateSession (=) 30 9 \<lparr>gn_id = ''n'', gn_secret = ''x'', gn_hash = ''x''\<rparr> ?tok ?d1 = (Inr res, d2) \<and>
     rt_userId res = so_userId ?o"
    using issued_token_refreshes [of empty_db ?g "(=)" 30 0 "''f1''" ?o ?tok sample_uuid ?e ?d1 9
        "\<lparr>gn_id = ''n'', gn_secret = ''x'', gn_hash = ''x''\<rparr>"] c sample_uuid_shape
    by (simp add: empty_db_def sample_login_def ttl_ms_def account_live_def account_refusal_def new_session_def
        sample_uuid_def) blast
  with c show ?thesis by (auto simp: sample_login_def)
qed

text \<open>
  A lost race is harmless: when two requests have checked the same active session, the first to
  commit gets the successor and the second is refused with CONCURRENT_REFRESH_CONFLICT and writes
  nothing, so the winner's session stays usable.
\<close>

theorem rotation_race:
  assumes "rotate_check cmp now tok d = (Inr s, d)" and "rotate_commit ttl t1 g1 s d = (Inr res, d1)"
    and "gn_id g1 \<noteq> se_id s"
  shows "rotate_commit ttl t2 g2 s d1 = (Inl (CodedError ''CONCURRENT_REFRESH_CONFLICT''), d1) \<and>
     (\<exists>q \<in> set (sessions d1). se_id q = rt_newSessionId res \<and> se_status q = ''ACTIVE'')"
proof -
  let ?hit = "\<lambda>r. se_id r = se_id s \<and> se_status r = ''ACTIVE''"
  have rows: "sessions d1 = updateMany ?hit (apply_session_update (Rotated t1 (gn_id g1))) (sessions d)
        @ [successor t1 (t1 + ttl_ms ttl) g1 s]" and new: "rt_newSessionId res = gn_id g1"
    using assms(2) by (auto simp: rotate_commit_def run_tx_def rotate_tx_def update_sessions_def insert_session_def
        successor_def new_session_def split: if_splits)
  have none: "\<forall>r \<in> set (sessions d1). \<not> ?hit r"
    using assms(3) by (auto simp: rows successor_def new_session_def dest!: updateMany_memD split: if_splits)
  then have "updateMany ?hit (apply_session_update (Rotated t2 (gn_id g2))) (sessions d1) = sessions d1"
    by (rule updateMany_none)
  moreover have "countWhere ?hit (sessions d1) = 0" using none by (simp add: table_simps)
  ultimately have "rotate_commit ttl t2 g2 s d1 = (Inl (CodedError ''CONCURRENT_REFRESH_CONFLICT''), d1)"
    by (simp add: rotate_commit_def run_tx_def rotate_tx_def update_sessions_def)
  then show ?thesis using new by (auto simp: rows successor_def new_session_def)
qed

theorem rotation_race_witness:
  "\<exists>res d1. rotate_commit 30 9 \<lparr>gn_id = ''n1'', gn_secret = ''x'', gn_hash = ''x''\<rparr> (sample_session\<lparr>se_status := ''ACTIVE''\<rparr>)
       (empty_db\<lparr>sessions := [sample_session\<lparr>se_status := ''ACTIVE''\<rparr>]\<rparr>) = (Inr res, d1) \<and>
     rotate_commit 30 9 \<lparr>gn_id = ''n2'', gn_secret = ''y'', gn_hash = ''y''\<rparr> (sample_session\<lparr>se_status := ''ACTIVE''\<rparr>) d1
       = (Inl (CodedError ''CONCURRENT_REFRESH_CONFLICT''), d1)"
proof -
  let ?s = "sample_session\<lparr>se_status := ''ACTIVE''\<rparr>" and ?d = "empty_db\<lparr>sessions := [sample_session\<lparr>se_status := ''ACTIVE''\<rparr>]\<rparr>"
  let ?g = "\<lparr>gn_id = ''n1'', gn_secret = ''x'', gn_hash = ''x''\<rparr>"
  have chk: "rotate_check (\<lambda>_ _. True) 9 (buildRawToken sample_uuid (replicate 64 CHR ''f'')) ?d = (Inr ?s, ?d)"
    using parse_build [OF sample_uuid_shape, of "replicate 64 CHR ''f''"]
    by (simp add: rotate_check_def findUnique_def sample_session_def account_refusal_def)
  have "\<exists>res d1. rotate_commit 30 9 ?g ?s ?d = (Inr res, d1)"
    by (simp add: rotate_commit_def run_tx_def rotate_tx_def update_sessions_def sample_session_def insert_session_def
        successor_def new_session_def sample_uuid_def updateMany_def)
  then obtain res d1 where c: "rotate_commit 30 9 ?g ?s ?d = (Inr res, d1)" by blast
  have "gn_id ?g \<noteq> se_id ?s" by (simp add: sample_session_def sample_uuid_def)
  from rotation_race [OF chk c this, of 9 "\<lparr>gn_id = ''n2'', gn_secret = ''y'', gn_hash = ''y''\<rparr>"] c show ?thesis by blast
qed

end
