(* ===== verification/Otp_Auth.thy ===== *)
theory Otp_Auth
  imports Sessions Wave_Planner
begin

text \<open>
  Phone authentication, \<^verbatim>\<open>src/features/auth/auth.services.ts\<close>: sending and verifying a one-time
  password, refreshing and ending the login, cleanup; with \<^verbatim>\<open>normalizePhoneToE164\<close> and \<^verbatim>\<open>maskPhone\<close> of
  \<^verbatim>\<open>src/utils/authUtils.ts\<close> and the JWT secret checks of \<^verbatim>\<open>src/config/authConfig.ts\<close>.

  Verification is split where requests interleave: \<open>otp_find\<close> (read the challenge and compare),
  \<open>count_attempt\<close> and \<open>lock_challenge\<close> (the two writes of a failure) and \<open>otp_claim\<close> (the conditional
  update); \<open>otp_check\<close> is the first three in a row. The phone parser, bcrypt, the token signer, the
  SMS provider's answer, the clock and random values are arguments; metrics are left out.
\<close>

section \<open>Phone numbers\<close>

definition INVALID_PHONE :: error where
  "INVALID_PHONE = CodedError ''INVALID_PHONE_NUMBER''"

text \<open>\<open>parsePhone\<close> is the library: \<open>Some\<close> the E.164 form of a valid number.\<close>

definition normalizePhoneToE164 :: "(string \<Rightarrow> string option) \<Rightarrow> string \<Rightarrow> error + string" where
  "normalizePhoneToE164 parsePhone phone =
     (if phone = [] then Inl INVALID_PHONE
      else if trim phone = [] then Inl INVALID_PHONE
      else case parsePhone (trim phone) of None \<Rightarrow> Inl INVALID_PHONE | Some e164 \<Rightarrow> Inr e164)"

definition maskPhone :: "string \<Rightarrow> string" where
  "maskPhone phone =
     (if phone = [] \<or> length phone < 5 then ''****''
      else
        let startLen = (if startsWith phone ''+'' then 3 else 2 :: nat); endLen = 4
        in if length phone \<le> startLen + endLen then take 2 phone @ ''****''
           else take startLen phone
                @ replicate (max 4 (length phone - startLen - endLen)) CHR ''*''
                @ drop (length phone - endLen) phone)"

section \<open>JWT secrets\<close>

definition KNOWN_INSECURE_SECRETS :: "string list" where
  "KNOWN_INSECURE_SECRETS =
     [''default_secret_key'', ''fallback_secret_key'', ''fallback_refresh_key'', ''secret'', ''password'',
      ''jwt_secret'', ''jwt_access_secret'', ''jwt_refresh_secret'', ''development-secret'', ''test-secret'',
      ''123456'', ''changeme'']"

definition MIN_JWT_SECRET_LENGTH :: nat where
  "MIN_JWT_SECRET_LENGTH = 32"

definition validateJwtSecret :: "string option \<Rightarrow> error + string" where
  "validateJwtSecret secret =
     (case secret of None \<Rightarrow> Inl (PlainError ''missing'')
      | Some s \<Rightarrow>
          let trimmed = trim s
          in if length trimmed = 0 then Inl (PlainError ''empty'')
             else if toLowerCase trimmed \<in> set KNOWN_INSECURE_SECRETS then Inl (PlainError ''known insecure'')
             else if length trimmed < MIN_JWT_SECRET_LENGTH then Inl (PlainError ''too short'')
             else Inr trimmed)"

record jwt_env =
  je_access :: "string option"
  je_legacy :: "string option"
  je_refresh :: "string option"
  je_access_expires :: "string option"
  je_refresh_expires :: "string option"

record JwtConfig =
  jw_accessSecret :: string
  jw_refreshSecret :: string
  jw_accessTokenExpiresIn :: string
  jw_refreshTokenExpiresIn :: string
  jw_algorithm :: string

definition getJwtConfig :: "jwt_env \<Rightarrow> error + JwtConfig" where
  "getJwtConfig env =
     (let rawAccess = (if \<not> truthy (je_access env) \<and> truthy (je_legacy env) then je_legacy env else je_access env)
      in case validateJwtSecret rawAccess of Inl e \<Rightarrow> Inl e
         | Inr access \<Rightarrow>
        (case validateJwtSecret (je_refresh env) of Inl e \<Rightarrow> Inl e
         | Inr refresh \<Rightarrow>
             if access = refresh then Inl (PlainError ''identical'')
             else Inr \<lparr>jw_accessSecret = access, jw_refreshSecret = refresh,
                       jw_accessTokenExpiresIn = js_or (je_access_expires env) ''1h'',
                       jw_refreshTokenExpiresIn = js_or (je_refresh_expires env) ''7d'',
                       jw_algorithm = ''HS256''\<rparr>))"

section \<open>sendOtp\<close>

record auth_config =
  ac_otpTtlSeconds :: int
  ac_otpMaxAttempts :: int
  ac_otpResendCooldownSeconds :: int
  ac_otpCleanupRetentionDays :: int
  ac_sessionTtlDays :: int

definition same_purpose :: "string \<Rightarrow> string \<Rightarrow> otp_challenge \<Rightarrow> bool" where
  "same_purpose phone type c \<longleftrightarrow> oc_phone c = phone \<and> oc_purpose c = type"

definition update_challenges :: "(otp_challenge \<Rightarrow> bool) \<Rightarrow> (otp_challenge \<Rightarrow> otp_challenge) \<Rightarrow> db \<Rightarrow> db" where
  "update_challenges hit f d = d\<lparr>otp_challenges := updateMany hit f (otp_challenges d)\<rparr>"

definition close_challenge :: "string \<Rightarrow> timestamp \<Rightarrow> otp_challenge \<Rightarrow> otp_challenge" where
  "close_challenge status now c = c\<lparr>oc_status := status, oc_consumed_at := Some now\<rparr>"

definition send_tx ::
  "auth_config \<Rightarrow> timestamp \<Rightarrow> uuid \<Rightarrow> string \<Rightarrow> string \<Rightarrow> string \<Rightarrow> db \<Rightarrow> error + (uuid \<times> db)" where
  "send_tx cfg now challengeId otpHash phone type d =
     (let cooldownThreshold = now - ac_otpResendCooldownSeconds cfg * 1000
      in if findFirst (\<lambda>c. same_purpose phone type c \<and> oc_created_at c > cooldownThreshold) (otp_challenges d) \<noteq> None
         then Inl (CodedError ''OTP_RESEND_COOLDOWN'')
         else
           let d1 = update_challenges (\<lambda>c. same_purpose phone type c \<and> oc_status c = ''ACTIVE'')
                      (close_challenge ''EXPIRED'' now) d
           in if list_ex (\<lambda>c. oc_id c = challengeId) (otp_challenges d1) then Inl (PrismaUniqueViolation ''id'')
              else Inr (challengeId, d1\<lparr>otp_challenges := otp_challenges d1 @
                [\<lparr>oc_id = challengeId, oc_phone = phone, oc_purpose = type, oc_otp_hash = otpHash,
                  oc_expires_at = now + ac_otpTtlSeconds cfg * 1000, oc_attempt_count = 0,
                  oc_status = ''ACTIVE'', oc_consumed_at = None, oc_created_at = now\<rparr>]\<rparr>))"

definition sendOtp ::
  "(string \<Rightarrow> string option) \<Rightarrow> auth_config \<Rightarrow> timestamp \<Rightarrow> uuid \<Rightarrow> string \<Rightarrow> bool \<Rightarrow> string \<Rightarrow> string \<Rightarrow> db
   \<Rightarrow> (error + unit) \<times> db" where
  "sendOtp parsePhone cfg now challengeId otpHash smsDelivered rawPhone type d =
     (case normalizePhoneToE164 parsePhone rawPhone of Inl e \<Rightarrow> (Inl e, d)
      | Inr phone \<Rightarrow>
     (case run_tx (send_tx cfg now challengeId otpHash phone type) d of
        (Inl e, d') \<Rightarrow> (Inl e, d')
      | (Inr cid, d') \<Rightarrow>
          if smsDelivered then (Inr (), d')
          else (Inl (CodedError ''SMS_DELIVERY_FAILED''),
                update_challenges (\<lambda>c. oc_id c = cid) (close_challenge ''EXPIRED'' now) d')))"

section \<open>verifyOtp\<close>

definition claimable_challenge :: "timestamp \<Rightarrow> string \<Rightarrow> string option \<Rightarrow> otp_challenge \<Rightarrow> bool" where
  "claimable_challenge now phone type c \<longleftrightarrow>
     oc_phone c = phone \<and> oc_status c = ''ACTIVE'' \<and> oc_expires_at c > now \<and> oc_consumed_at c = None \<and>
     (truthy type \<longrightarrow> oc_purpose c = the type)"

text \<open>\<^verbatim>\<open>findFirst\<close> with \<^verbatim>\<open>orderBy created_at desc\<close>: the newest matching challenge.\<close>

definition newest :: "otp_challenge list \<Rightarrow> otp_challenge option" where
  "newest t = (case rev (sort_key oc_created_at t) of [] \<Rightarrow> None | c # _ \<Rightarrow> Some c)"

text \<open>Steps 1 to 3: the read, the limit and the comparison decide what to do with the challenge.\<close>

datatype otp_verdict = NoChallenge | LimitReached otp_challenge | Mismatch otp_challenge | Match otp_challenge

definition otp_find ::
  "(string \<Rightarrow> string \<Rightarrow> bool) \<Rightarrow> auth_config \<Rightarrow> timestamp \<Rightarrow> string \<Rightarrow> string \<Rightarrow> string option \<Rightarrow> db \<Rightarrow> otp_verdict" where
  "otp_find comparePassword cfg now phone otp type d =
     (case newest (filter (claimable_challenge now phone type) (otp_challenges d)) of
        None \<Rightarrow> NoChallenge
      | Some c \<Rightarrow>
          if oc_attempt_count c \<ge> ac_otpMaxAttempts cfg then LimitReached c
          else if \<not> comparePassword otp (oc_otp_hash c) then Mismatch c else Match c)"

definition lock_challenge :: "timestamp \<Rightarrow> uuid \<Rightarrow> db \<Rightarrow> db" where
  "lock_challenge now i d = update_challenges (\<lambda>x. oc_id x = i) (close_challenge ''LOCKED'' now) d"

text \<open>The increment returns the updated row's count.\<close>

definition count_attempt :: "uuid \<Rightarrow> db \<Rightarrow> int \<times> db" where
  "count_attempt i d =
     (let d' = update_challenges (\<lambda>x. oc_id x = i) (\<lambda>c. c\<lparr>oc_attempt_count := oc_attempt_count c + 1\<rparr>) d
      in (case findUnique oc_id i (otp_challenges d') of None \<Rightarrow> 0 | Some c \<Rightarrow> oc_attempt_count c, d'))"

definition otp_check ::
  "(string \<Rightarrow> string \<Rightarrow> bool) \<Rightarrow> auth_config \<Rightarrow> timestamp \<Rightarrow> string \<Rightarrow> string \<Rightarrow> string option \<Rightarrow> db
   \<Rightarrow> (error + otp_challenge) \<times> db" where
  "otp_check comparePassword cfg now phone otp type d =
     (case otp_find comparePassword cfg now phone otp type d of
        NoChallenge \<Rightarrow> (Inl (CodedError ''OTP_INVALID''), d)
      | LimitReached c \<Rightarrow> (Inl (CodedError ''OTP_MAX_ATTEMPTS''), lock_challenge now (oc_id c) d)
      | Mismatch c \<Rightarrow>
          let (n, d1) = count_attempt (oc_id c) d
          in if n \<ge> ac_otpMaxAttempts cfg then (Inl (CodedError ''OTP_MAX_ATTEMPTS''), lock_challenge now (oc_id c) d1)
             else (Inl (CodedError ''OTP_INVALID''), d1)
      | Match c \<Rightarrow> (Inr c, d))"

text \<open>Step 4: the atomic claim.\<close>

definition otp_claim :: "timestamp \<Rightarrow> otp_challenge \<Rightarrow> db \<Rightarrow> (error + unit) \<times> db" where
  "otp_claim now c d =
     (let hit = (\<lambda>x. oc_id x = oc_id c \<and> oc_status x = ''ACTIVE'' \<and> oc_consumed_at x = None)
      in if countWhere hit (otp_challenges d) = 0 then (Inl (CodedError ''OTP_ALREADY_USED''), d)
         else (Inr (), update_challenges hit (close_challenge ''CONSUMED'' now) d))"

datatype auth_user = AuthCustomer customer | AuthWorker worker

definition find_user :: "string \<Rightarrow> db \<Rightarrow> auth_user option" where
  "find_user phone d =
     (case findUnique cu_phone phone (customers d) of
        Some c \<Rightarrow> Some (AuthCustomer c)
      | None \<Rightarrow> map_option AuthWorker (findUnique wk_phone phone (workers d)))"

fun user_refusal :: "auth_user \<Rightarrow> error option" where
  "user_refusal (AuthWorker w) =
     (if wk_deleted_at w \<noteq> None \<or> wk_verification_status w = ''suspended''
      then Some (CodedError ''ACCOUNT_SUSPENDED'') else None)"
| "user_refusal (AuthCustomer c) =
     (if cu_deleted_at c \<noteq> None then Some (CodedError ''ACCOUNT_INACTIVE'') else None)"

fun user_id :: "auth_user \<Rightarrow> uuid" where
  "user_id (AuthCustomer c) = cu_id c"
| "user_id (AuthWorker w) = wk_id w"

fun user_role :: "auth_user \<Rightarrow> UserRole" where
  "user_role (AuthCustomer c) = CUSTOMER"
| "user_role (AuthWorker w) = WORKER"

datatype login_result =
    PhoneVerified string
  | LoggedIn auth_user UserRole string string timestamp

record device_opts =
  do_deviceId :: "string option"
  do_userAgent :: "string option"
  do_ipAddress :: "string option"

text \<open>Steps 5 to 7: the user, the account check, the access token and the refresh session.\<close>

definition otp_login ::
  "(uuid \<Rightarrow> UserRole \<Rightarrow> string \<Rightarrow> string) \<Rightarrow> auth_config \<Rightarrow> timestamp \<Rightarrow> generated \<Rightarrow> uuid \<Rightarrow> string \<Rightarrow> string option
   \<Rightarrow> otp_challenge \<Rightarrow> device_opts \<Rightarrow> db \<Rightarrow> (error + login_result) \<times> db" where
  "otp_login signAccessToken cfg now g familyId phone type c opts d =
     (case find_user phone d of
        None \<Rightarrow> if type = Some ''register'' \<or> oc_purpose c = ''register'' then (Inr (PhoneVerified phone), d)
                else (Inl (CodedError ''USER_NOT_FOUND''), d)
      | Some u \<Rightarrow>
     (case user_refusal u of Some e \<Rightarrow> (Inl e, d)
      | None \<Rightarrow>
     (case createSession (ac_sessionTtlDays cfg) now g familyId
             \<lparr>so_userId = user_id u, so_userRole = user_role_str (user_role u), so_deviceId = do_deviceId opts,
              so_userAgent = do_userAgent opts, so_ipAddress = do_ipAddress opts, so_ttlDays = None\<rparr> d of
        Inl e \<Rightarrow> (Inl e, d)
      | Inr ((rawToken, _, expiresAt), d') \<Rightarrow>
          (Inr (LoggedIn u (user_role u) (signAccessToken (user_id u) (user_role u) phone) rawToken expiresAt), d'))))"

definition verifyAuthOtp ::
  "(string \<Rightarrow> string option) \<Rightarrow> (string \<Rightarrow> string \<Rightarrow> bool) \<Rightarrow> (uuid \<Rightarrow> UserRole \<Rightarrow> string \<Rightarrow> string) \<Rightarrow> auth_config
   \<Rightarrow> timestamp \<Rightarrow> generated \<Rightarrow> uuid \<Rightarrow> string \<Rightarrow> string \<Rightarrow> string option \<Rightarrow> device_opts \<Rightarrow> db
   \<Rightarrow> (error + login_result) \<times> db" where
  "verifyAuthOtp parsePhone comparePassword signAccessToken cfg now g familyId rawPhone otp type opts d =
     (case normalizePhoneToE164 parsePhone rawPhone of Inl e \<Rightarrow> (Inl e, d)
      | Inr phone \<Rightarrow>
     (case otp_check comparePassword cfg now phone otp type d of
        (Inl e, d1) \<Rightarrow> (Inl e, d1)
      | (Inr c, d1) \<Rightarrow>
     (case otp_claim now c d1 of
        (Inl e, d2) \<Rightarrow> (Inl e, d2)
      | (Inr _, d2) \<Rightarrow> otp_login signAccessToken cfg now g familyId phone type c opts d2)))"

section \<open>refreshToken, logout, cleanup\<close>

definition hard_refresh_errors :: "string list" where
  "hard_refresh_errors = [''REFRESH_TOKEN_REUSE'', ''REFRESH_SESSION_EXPIRED'', ''ACCOUNT_SUSPENDED'',
     ''ACCOUNT_INACTIVE'', ''CONCURRENT_REFRESH_CONFLICT'']"

text \<open>\<open>verifyLegacy\<close> decodes a legacy JWT refresh token into id, role and phone.\<close>

definition refreshToken ::
  "(string \<Rightarrow> string \<Rightarrow> bool) \<Rightarrow> (uuid \<Rightarrow> string \<Rightarrow> string option \<Rightarrow> string) \<Rightarrow> (string \<Rightarrow> (uuid \<times> string \<times> string option) option)
   \<Rightarrow> auth_config \<Rightarrow> timestamp \<Rightarrow> generated \<Rightarrow> uuid \<Rightarrow> string \<Rightarrow> db \<Rightarrow> (error + (string \<times> string)) \<times> db" where
  "refreshToken bcryptCompare signAccessToken verifyLegacy cfg now g familyId rawToken d =
     (case rotateSession bcryptCompare (ac_sessionTtlDays cfg) now g rawToken d of
        (Inr r, d') \<Rightarrow> (Inr (signAccessToken (rt_userId r) (rt_userRole r) None, rt_newRawToken r), d')
      | (Inl e, d') \<Rightarrow>
          if (case e of CodedError c \<Rightarrow> c \<in> set hard_refresh_errors | _ \<Rightarrow> False) then (Inl e, d')
          else (case verifyLegacy rawToken of
                  Some (i, role, phone) \<Rightarrow>
                    if i \<noteq> [] \<and> role \<noteq> [] then
                      (case createSession (ac_sessionTtlDays cfg) now g familyId
                              \<lparr>so_userId = i, so_userRole = role, so_deviceId = None, so_userAgent = None,
                               so_ipAddress = None, so_ttlDays = None\<rparr> d' of
                         Inl e2 \<Rightarrow> (Inl e2, d')
                       | Inr ((tok, _, _), d'') \<Rightarrow> (Inr (signAccessToken i role phone, tok), d''))
                    else (Inl e, d')
                | None \<Rightarrow> (Inl e, d')))"

definition logout :: "timestamp \<Rightarrow> string \<Rightarrow> uuid \<Rightarrow> db \<Rightarrow> db" where
  "logout now rawRefreshToken userId d = snd (revokeByRawToken now rawRefreshToken userId d)"

definition cleanupExpiredOtpChallenges :: "auth_config \<Rightarrow> timestamp \<Rightarrow> db \<Rightarrow> nat \<times> db" where
  "cleanupExpiredOtpChallenges cfg now d =
     (let cutoff = now - ac_otpCleanupRetentionDays cfg * 24 * 60 * 60 * 1000;
          hit = (\<lambda>c. oc_expires_at c < cutoff \<or>
                  (oc_status c \<in> {''CONSUMED'', ''EXPIRED'', ''LOCKED''} \<and> oc_created_at c < cutoff))
      in (countWhere hit (otp_challenges d), d\<lparr>otp_challenges := deleteMany hit (otp_challenges d)\<rparr>))"

section \<open>Schedules\<close>

text \<open>
  The requests of the OTP flow split at their database steps, and what a schedule of them does to the
  database and to the set of challenge ids handed out so far. \<open>CheckOtp\<close> is a failure served without
  interruption; \<open>CountOtp\<close> and \<open>LockOtp\<close> are its writes when another request comes in between.
\<close>

datatype otp_request =
    SendOtp timestamp uuid string bool string string
  | CheckOtp timestamp string string "string option"
  | CountOtp uuid
  | LockOtp timestamp uuid
  | ClaimOtp timestamp otp_challenge
  | CleanupOtp timestamp

record otp_world =
  ow_parsePhone :: "string \<Rightarrow> string option"
  ow_compare :: "string \<Rightarrow> string \<Rightarrow> bool"
  ow_config :: auth_config

fun otp_serve :: "otp_world \<Rightarrow> otp_request \<Rightarrow> db \<times> uuid set \<Rightarrow> db \<times> uuid set" where
  "otp_serve w (SendOtp now cid h ok phone type) (d, U) =
     (if cid \<in> U then (d, U)
      else (snd (sendOtp (ow_parsePhone w) (ow_config w) now cid h ok phone type d), insert cid U))"
| "otp_serve w (CheckOtp now phone otp type) (d, U) = (snd (otp_check (ow_compare w) (ow_config w) now phone otp type d), U)"
| "otp_serve w (CountOtp i) (d, U) = (snd (count_attempt i d), U)"
| "otp_serve w (LockOtp now i) (d, U) = (lock_challenge now i d, U)"
| "otp_serve w (ClaimOtp now c) (d, U) = (snd (otp_claim now c d), U)"
| "otp_serve w (CleanupOtp now) (d, U) = (snd (cleanupExpiredOtpChallenges (ow_config w) now d), U)"

text \<open>A schedule in which no failed verification is interrupted.\<close>

fun undivided :: "otp_request \<Rightarrow> bool" where
  "undivided (CountOtp i) = False"
| "undivided (LockOtp now i) = False"
| "undivided _ = True"

section \<open>Lemmas\<close>

definition active_keys :: "otp_challenge list \<Rightarrow> (string \<times> string) list" where
  "active_keys t = map (\<lambda>c. (oc_phone c, oc_purpose c)) (filter (\<lambda>c. oc_status c = ''ACTIVE'') t)"

definition bounded :: "int \<Rightarrow> otp_challenge \<Rightarrow> bool" where
  "bounded mx c \<longleftrightarrow> oc_attempt_count c \<le> mx \<and> (oc_attempt_count c = mx \<longrightarrow> oc_status c \<noteq> ''ACTIVE'')"

text \<open>\<open>b\<close> says whether the attempt limit is part of the invariant.\<close>

definition otp_ok :: "bool \<Rightarrow> int \<Rightarrow> db \<times> uuid set \<Rightarrow> bool" where
  "otp_ok b mx = (\<lambda>(d, U). distinct (map oc_id (otp_challenges d)) \<and> set (map oc_id (otp_challenges d)) \<subseteq> U \<and>
     distinct (active_keys (otp_challenges d)) \<and> (b \<longrightarrow> 0 < mx \<and> list_all (bounded mx) (otp_challenges d)))"

lemma closed_fields [simp]:
  "oc_id (close_challenge s now c) = oc_id c" "oc_status (close_challenge s now c) = s"
  "oc_attempt_count (close_challenge s now c) = oc_attempt_count c"
  "oc_phone (close_challenge s now c) = oc_phone c" "oc_purpose (close_challenge s now c) = oc_purpose c"
  by (simp_all add: close_challenge_def)

lemma update_ids:
  assumes "\<And>c. oc_id (f c) = oc_id c"
  shows "map oc_id (updateMany hit f t) = map oc_id t"
  using assms by (induction t) (auto simp: updateMany_def)

text \<open>An update that never activates a challenge and keeps its phone and purpose.\<close>

definition quiescent :: "(otp_challenge \<Rightarrow> otp_challenge) \<Rightarrow> bool" where
  "quiescent f \<longleftrightarrow> (\<forall>c. oc_id (f c) = oc_id c \<and> (oc_status (f c) = ''ACTIVE'' \<longrightarrow> oc_status c = ''ACTIVE'') \<and>
     oc_phone (f c) = oc_phone c \<and> oc_purpose (f c) = oc_purpose c)"

lemma quiescent_close: "s \<noteq> ''ACTIVE'' \<Longrightarrow> quiescent (close_challenge s now)"
  by (simp add: quiescent_def)

lemma quiescent_count: "quiescent (\<lambda>c. c\<lparr>oc_attempt_count := oc_attempt_count c + 1\<rparr>)"
  by (simp add: quiescent_def)

lemma quiescent_keys:
  assumes "quiescent f" and "distinct (active_keys t)"
  shows "distinct (active_keys (updateMany hit f t))"
proof -
  let ?key = "\<lambda>c. (oc_phone c, oc_purpose c)" and ?R = "\<lambda>c. oc_status (if hit c then f c else c) = ''ACTIVE''"
  have k: "oc_phone (f c) = oc_phone c" "oc_purpose (f c) = oc_purpose c"
    and a: "oc_status (f c) = ''ACTIVE'' \<Longrightarrow> oc_status c = ''ACTIVE''" for c
    using assms(1) unfolding quiescent_def by blast+
  have "active_keys (updateMany hit f t) = map ?key (filter ?R (filter (\<lambda>c. oc_status c = ''ACTIVE'') t))"
    by (induction t) (auto simp: k active_keys_def updateMany_def dest: a)
  with assms(2) show ?thesis by (simp only: active_keys_def distinct_map_filter_key)
qed

lemma otp_ok_update:
  assumes "otp_ok b mx (d, U)" and "quiescent f"
    and "\<And>c. b \<Longrightarrow> c \<in> set (otp_challenges d) \<Longrightarrow> hit c \<Longrightarrow> bounded mx c \<Longrightarrow> bounded mx (f c)"
  shows "otp_ok b mx (update_challenges hit f d, U)"
proof -
  have "map oc_id (updateMany hit f (otp_challenges d)) = map oc_id (otp_challenges d)"
    using assms(2) unfolding quiescent_def by (intro update_ids) blast
  moreover have "list_all (bounded mx) (updateMany hit f (otp_challenges d))" if b
    using that assms(1,3) by (auto simp: otp_ok_def list_all_iff dest!: updateMany_memD split: if_splits)
  ultimately show ?thesis
    using assms(1) quiescent_keys [OF assms(2)] by (simp add: otp_ok_def update_challenges_def del: set_map)
qed

lemma bounded_close: "bounded mx c \<Longrightarrow> s \<noteq> ''ACTIVE'' \<Longrightarrow> bounded mx (close_challenge s now c)"
  by (simp add: bounded_def)

lemma otp_ok_close:
  assumes "otp_ok b mx (d, U)" and "s \<noteq> ''ACTIVE''"
  shows "otp_ok b mx (update_challenges hit (close_challenge s now) d, U)"
  by (rule otp_ok_update [OF assms(1) quiescent_close [OF assms(2)]])
    (rule bounded_close [OF _ assms(2)])

lemma newest_Some: "newest t = Some c \<Longrightarrow> c \<in> set t"
proof -
  assume "newest t = Some c"
  then obtain r where "rev (sort_key oc_created_at t) = c # r" by (auto simp: newest_def split: list.splits)
  then have "c \<in> set (rev (sort_key oc_created_at t))" by simp
  then show ?thesis by simp
qed

lemma otp_lock_ok: "otp_ok b mx (d, U) \<Longrightarrow> otp_ok b mx (lock_challenge now i d, U)"
  by (simp add: lock_challenge_def otp_ok_close)

lemma otp_count_ok: "otp_ok False mx (d, U) \<Longrightarrow> otp_ok False mx (snd (count_attempt i d), U)"
  unfolding count_attempt_def Let_def snd_conv by (rule otp_ok_update [OF _ quiescent_count]) simp_all

lemma otp_find_Some:
  assumes "otp_find cmp cfg now phone otp type d = Mismatch c \<or> otp_find cmp cfg now phone otp type d = Match c"
  shows "c \<in> set (otp_challenges d)" "claimable_challenge now phone type c"
    "oc_attempt_count c < ac_otpMaxAttempts cfg"
proof -
  have n: "newest (filter (claimable_challenge now phone type) (otp_challenges d)) = Some c"
    and "oc_attempt_count c < ac_otpMaxAttempts cfg"
    using assms by (auto simp: otp_find_def split: option.splits if_splits)
  then show "c \<in> set (otp_challenges d)" "claimable_challenge now phone type c"
    "oc_attempt_count c < ac_otpMaxAttempts cfg" using newest_Some [OF n] by auto
qed

lemma count_attempt_value:
  assumes "distinct (map oc_id (otp_challenges d))" and "c \<in> set (otp_challenges d)"
  shows "fst (count_attempt (oc_id c) d) = oc_attempt_count c + 1"
proof -
  have "findUnique oc_id i (updateMany (\<lambda>x. oc_id x = i) f t) = map_option f (findUnique oc_id i t)"
    if "\<And>x. oc_id (f x) = oc_id x" for f i and t :: "otp_challenge list"
    using that by (induction t) (auto simp: findUnique_def updateMany_def)
  then show ?thesis
    using findUnique_distinct [OF assms] by (simp add: count_attempt_def Let_def update_challenges_def)
qed

text \<open>The increment alone keeps the bound below the limit; at the limit the lock restores it.\<close>

lemma otp_check_ok:
  assumes ok: "otp_ok b (ac_otpMaxAttempts cfg) (d, U)"
  shows "otp_ok b (ac_otpMaxAttempts cfg) (snd (otp_check cmp cfg now phone otp type d), U)"
proof (cases "otp_find cmp cfg now phone otp type d")
  case (Mismatch c)
  let ?m = "ac_otpMaxAttempts cfg" and ?inc = "\<lambda>c. c\<lparr>oc_attempt_count := oc_attempt_count c + 1\<rparr>"
    and ?hit = "\<lambda>x. oc_id x = oc_id c" and ?fin = "\<lambda>x. if oc_attempt_count c + 1 \<ge> ac_otpMaxAttempts cfg
      then close_challenge ''LOCKED'' now (x\<lparr>oc_attempt_count := oc_attempt_count x + 1\<rparr>)
      else x\<lparr>oc_attempt_count := oc_attempt_count x + 1\<rparr>"
  have c: "c \<in> set (otp_challenges d)" "oc_attempt_count c < ?m" using otp_find_Some [of cmp cfg now phone otp type d c] Mismatch by auto
  have dist: "distinct (map oc_id (otp_challenges d))" using ok by (simp add: otp_ok_def)
  have two: "update_challenges ?hit f (update_challenges ?hit ?inc d) = update_challenges ?hit (\<lambda>x. f (?inc x)) d" for f
    by (auto simp: update_challenges_def updateMany_def)
  have "snd (otp_check cmp cfg now phone otp type d) = update_challenges ?hit ?fin d"
    using count_attempt_value [OF dist c(1)]
    by (auto simp: otp_check_def Mismatch count_attempt_def Let_def lock_challenge_def two)
  moreover have "otp_ok b ?m (update_challenges ?hit ?fin d, U)"
  proof (rule otp_ok_update [OF ok])
    show "quiescent ?fin" by (simp add: quiescent_def)
    show "bounded ?m (?fin x)" if "x \<in> set (otp_challenges d)" "oc_id x = oc_id c" for x
    proof -
      have "x = c" using key_unique [of oc_id "otp_challenges d" x c] dist that c by simp
      with c(2) show ?thesis by (auto simp: bounded_def)
    qed
  qed
  ultimately show ?thesis by simp
qed (use ok otp_lock_ok in \<open>auto simp: otp_check_def\<close>)

lemma send_tx_InrE:
  assumes "send_tx cfg now cid h phone type d = Inr (r, d')"
  obtains q where "r = cid"
    "d' = update_challenges (\<lambda>c. same_purpose phone type c \<and> oc_status c = ''ACTIVE'') (close_challenge ''EXPIRED'' now) d
            \<lparr>otp_challenges := updateMany (\<lambda>c. same_purpose phone type c \<and> oc_status c = ''ACTIVE'')
               (close_challenge ''EXPIRED'' now) (otp_challenges d) @ [q]\<rparr>"
    "oc_id q = cid" "oc_phone q = phone" "oc_purpose q = type" "oc_attempt_count q = 0" "oc_status q = ''ACTIVE''"
  using assms by (auto simp: send_tx_def Let_def update_challenges_def split: if_splits)

lemma active_keys_append: "active_keys (t @ [q]) = active_keys t @ (if oc_status q = ''ACTIVE'' then [(oc_phone q, oc_purpose q)] else [])"
  by (simp add: active_keys_def)

lemma active_key_iff: "(p, k) \<in> set (active_keys t) \<longleftrightarrow> (\<exists>c \<in> set t. oc_status c = ''ACTIVE'' \<and> same_purpose p k c)"
  by (auto simp: active_keys_def same_purpose_def)

lemma send_tx_ok:
  assumes ok: "otp_ok b mx (d, U)" and new: "cid \<notin> U" and t: "send_tx cfg now cid h phone type d = Inr (r, d')"
  shows "otp_ok b mx (d', insert cid U)" "r = cid"
proof -
  let ?hit = "\<lambda>c. same_purpose phone type c \<and> oc_status c = ''ACTIVE''"
  let ?t = "updateMany ?hit (close_challenge ''EXPIRED'' now) (otp_challenges d)"
  from t show "r = cid" by (rule send_tx_InrE)
  from t obtain q where d': "otp_challenges d' = ?t @ [q]"
    and q: "oc_id q = cid" "oc_phone q = phone" "oc_purpose q = type" "oc_attempt_count q = 0" "oc_status q = ''ACTIVE''"
    by (rule send_tx_InrE) simp
  have ok1: "otp_ok b mx (update_challenges ?hit (close_challenge ''EXPIRED'' now) d, U)"
    by (rule otp_ok_close [OF ok]) simp
  then have t1: "distinct (map oc_id ?t)" "set (map oc_id ?t) \<subseteq> U" "distinct (active_keys ?t)"
      and lim: "b \<Longrightarrow> 0 < mx \<and> list_all (bounded mx) ?t"
    by (simp_all add: otp_ok_def update_challenges_def del: set_map)
  have "\<not> (oc_status c = ''ACTIVE'' \<and> same_purpose phone type c)" if "c \<in> set ?t" for c
    using that by (auto simp: same_purpose_def dest!: updateMany_memD split: if_splits)
  then have "(phone, type) \<notin> set (active_keys ?t)" by (simp add: active_key_iff)
  then have k: "distinct (active_keys (?t @ [q]))" using t1(3) q by (simp add: active_keys_append)
  have "cid \<notin> set (map oc_id ?t)" using t1(2) new by blast
  then have i: "distinct (map oc_id (?t @ [q]))" using t1(1) q by (simp del: set_map)
  have "set (map oc_id (?t @ [q])) \<subseteq> insert cid U" using t1(2) q(1) by (simp del: set_map) blast
  moreover have "0 < mx \<and> list_all (bounded mx) (?t @ [q])" if b using lim [OF that] q by (simp add: bounded_def)
  ultimately show "otp_ok b mx (d', insert cid U)"
    using k i unfolding otp_ok_def prod.case d' by blast
qed

lemma otp_ok_insert: "otp_ok b mx (d, U) \<Longrightarrow> otp_ok b mx (d, insert i U)"
  by (auto simp: otp_ok_def)

lemma sendOtp_ok:
  assumes ok: "otp_ok b mx (d, U)" and new: "cid \<notin> U"
  shows "otp_ok b mx (snd (sendOtp pp cfg now cid h deliv phone type d), insert cid U)"
proof (cases "normalizePhoneToE164 pp phone")
  case (Inl e)
  with otp_ok_insert [OF ok] show ?thesis by (simp add: sendOtp_def)
next
  case (Inr p)
  show ?thesis
  proof (cases "send_tx cfg now cid h p type d")
    case (Inl e)
    with Inr otp_ok_insert [OF ok] show ?thesis by (simp add: sendOtp_def run_tx_def)
  next
    case t: (Inr r)
    then have "otp_ok b mx (snd r, insert cid U)" using send_tx_ok [OF ok new] by (cases r) auto
    then show ?thesis
      using Inr t otp_ok_close [of b mx "snd r" "insert cid U" "''EXPIRED''"]
      by (cases r) (simp add: sendOtp_def run_tx_def)
  qed
qed

lemma otp_serve_ok:
  assumes ok: "otp_ok b (ac_otpMaxAttempts (ow_config w)) s" and "b \<Longrightarrow> undivided q"
  shows "otp_ok b (ac_otpMaxAttempts (ow_config w)) (otp_serve w q s)"
proof -
  obtain d U where s: "s = (d, U)" by (cases s)
  show ?thesis
  proof (cases q)
    case (SendOtp now cid h deliv phone type)
    with ok s sendOtp_ok show ?thesis by simp
  next
    case (CheckOtp now phone otp type)
    with ok s otp_check_ok show ?thesis by simp
  next
    case (CountOtp i)
    with assms(2) have "b = False" by auto
    with CountOtp ok s otp_count_ok show ?thesis by simp
  next
    case (LockOtp now i)
    with ok s otp_lock_ok show ?thesis by simp
  next
    case (ClaimOtp now c)
    with ok s otp_ok_close show ?thesis by (simp add: otp_claim_def Let_def)
  next
    case (CleanupOtp now)
    have "active_keys (filter R t) = map (\<lambda>c. (oc_phone c, oc_purpose c)) (filter R (filter (\<lambda>c. oc_status c = ''ACTIVE'') t))" for R t
      by (simp add: active_keys_def conj_commute)
    then have "distinct (active_keys (filter R t))" if "distinct (active_keys t)" for R t
      using that by (simp only: active_keys_def distinct_map_filter_key)
    with CleanupOtp ok s show ?thesis
      by (auto simp: cleanupExpiredOtpChallenges_def deleteMany_def Let_def otp_ok_def distinct_map_filter_key list_all_iff)
  qed
qed

interpretation otp_system: invariant_system "otp_serve w" "otp_ok False (ac_otpMaxAttempts (ow_config w))" for w
  by unfold_locales (rule otp_serve_ok, auto)

interpretation otp_serial: invariant_system "\<lambda>q s. if undivided q then otp_serve w q s else s"
    "otp_ok True (ac_otpMaxAttempts (ow_config w))" for w
  by unfold_locales (auto intro: otp_serve_ok)

text \<open>A challenge whose id was handed out and that is not active any more.\<close>

definition challenge_closed :: "uuid \<Rightarrow> db \<times> uuid set \<Rightarrow> bool" where
  "challenge_closed i = (\<lambda>(d, U). i \<in> U \<and> (\<forall>c \<in> set (otp_challenges d). oc_id c = i \<longrightarrow> oc_status c \<noteq> ''ACTIVE''))"

lemma closed_update:
  assumes "challenge_closed i (d, U)" and "quiescent f"
  shows "challenge_closed i (update_challenges hit f d, U)"
proof -
  have "oc_id (f c) = oc_id c" "oc_status (f c) = ''ACTIVE'' \<Longrightarrow> oc_status c = ''ACTIVE''" for c
    using assms(2) unfolding quiescent_def by blast+
  with assms(1) show ?thesis
    by (fastforce simp: challenge_closed_def update_challenges_def dest!: updateMany_memD split: if_splits)
qed

interpretation otp_closed: invariant_system "otp_serve w" "challenge_closed i" for w i
proof unfold_locales
  fix s q assume ok: "challenge_closed i s"
  obtain d U where s: "s = (d, U)" by (cases s)
  have close: "challenge_closed i (update_challenges hit (close_challenge k now) e, V)"
    if "challenge_closed i (e, V)" "k \<noteq> ''ACTIVE''" for e V hit k now
    using closed_update [OF that(1) quiescent_close [OF that(2)]] .
  have lock: "challenge_closed i (lock_challenge now j e, V)" if "challenge_closed i (e, V)" for e V now j
    using close [OF that] by (simp add: lock_challenge_def)
  have count: "challenge_closed i (snd (count_attempt j e), V)" if "challenge_closed i (e, V)" for e V j
    using closed_update [OF that quiescent_count] by (simp add: count_attempt_def Let_def)
  have sent: "challenge_closed i (d', insert cid U)"
    if t: "send_tx cfg now cid h p type d = Inr (r, d')" and "cid \<notin> U" for cfg now cid h p type r d'
    using t
  proof (rule send_tx_InrE)
    fix k assume d': "d' = update_challenges (\<lambda>c. same_purpose p type c \<and> oc_status c = ''ACTIVE'') (close_challenge ''EXPIRED'' now) d
            \<lparr>otp_challenges := updateMany (\<lambda>c. same_purpose p type c \<and> oc_status c = ''ACTIVE'')
               (close_challenge ''EXPIRED'' now) (otp_challenges d) @ [k]\<rparr>" and k: "oc_id k = cid"
    from close [OF ok [unfolded s], of "''EXPIRED''"] d' k that(2) show ?thesis
      by (auto simp: challenge_closed_def update_challenges_def)
  qed
  have grow: "challenge_closed i (d, insert cid U)" for cid using ok s by (simp add: challenge_closed_def)
  show "challenge_closed i (otp_serve w q s)"
  proof (cases q)
    case (SendOtp now cid h deliv phone type)
    show ?thesis
    proof (cases "cid \<in> U")
      case True
      with SendOtp s ok show ?thesis by simp
    next
      case False
      with SendOtp s sent grow close show ?thesis
        by (auto simp: sendOtp_def run_tx_def split: sum.split prod.split)
    qed
  next
    case (CheckOtp now phone otp type)
    with ok s close lock count show ?thesis
      by (auto simp: otp_check_def Let_def split: otp_verdict.split prod.split) (metis count snd_conv)+
  next
    case (CountOtp j)
    with ok s count show ?thesis by simp
  next
    case (LockOtp now j)
    with ok s lock show ?thesis by simp
  next
    case (ClaimOtp now c)
    with ok s close show ?thesis by (simp add: otp_claim_def Let_def)
  next
    case (CleanupOtp now)
    with ok s show ?thesis by (auto simp: cleanupExpiredOtpChallenges_def deleteMany_def Let_def challenge_closed_def)
  qed
qed


section \<open>Properties\<close>

definition schedule :: "otp_world \<Rightarrow> otp_request list \<Rightarrow> db \<times> uuid set \<Rightarrow> db \<times> uuid set" where
  "schedule w qs s = fold (otp_serve w) qs s"

lemma fold_undivided:
  "list_all undivided qs \<Longrightarrow> fold (\<lambda>q s. if undivided q then f q s else s) qs s = fold f qs s"
  by (induction qs arbitrary: s) auto

lemma otp_init: "otp_ok False mx (empty_db, {})"
  by (simp add: otp_ok_def empty_db_def active_keys_def)

text \<open>
  C16. Whatever requests arrive, in whatever interleaving of their database steps, a phone has at most
  one active challenge per purpose; and when failed verifications are served one after the other, no
  challenge ever counts more than the configured number of attempts, and one that reached it is not
  active.
\<close>

theorem otp_challenges_disciplined:
  assumes "0 < ac_otpMaxAttempts (ow_config w)"
  shows "distinct (active_keys (otp_challenges (fst (schedule w qs (empty_db, {}))))) \<and>
     (list_all undivided qs \<longrightarrow>
        list_all (bounded (ac_otpMaxAttempts (ow_config w))) (otp_challenges (fst (schedule w qs (empty_db, {})))))"
proof -
  have init: "otp_ok b (ac_otpMaxAttempts (ow_config w)) (empty_db, {})" for b
    using assms by (simp add: otp_ok_def empty_db_def active_keys_def)
  have "otp_ok True (ac_otpMaxAttempts (ow_config w)) (schedule w qs (empty_db, {}))" if "list_all undivided qs"
    using otp_serial.fold_inv [OF init [of True], of qs] fold_undivided [OF that, of "otp_serve w"] by (simp add: schedule_def)
  moreover have "otp_ok False (ac_otpMaxAttempts (ow_config w)) (schedule w qs (empty_db, {}))"
    using otp_system.fold_inv [OF init [of False], of qs] by (simp add: schedule_def)
  ultimately show ?thesis by (auto simp: otp_ok_def split: prod.splits)
qed

definition sample_otp_world :: otp_world where
  "sample_otp_world = \<lparr>ow_parsePhone = Some, ow_compare = (=), ow_config = \<lparr>ac_otpTtlSeconds = 300,
     ac_otpMaxAttempts = 2, ac_otpResendCooldownSeconds = 60, ac_otpCleanupRetentionDays = 1, ac_sessionTtlDays = 30\<rparr>\<rparr>"

definition sample_otp_requests :: "otp_request list" where
  "sample_otp_requests = [SendOtp 0 ''c1'' ''123456'' True ''+911'' ''login'', CheckOtp 1 ''+911'' ''000000'' None,
     CheckOtp 2 ''+911'' ''111111'' None]"

theorem otp_challenges_disciplined_witness:
  "distinct (active_keys (otp_challenges (fst (schedule sample_otp_world sample_otp_requests (empty_db, {}))))) \<and>
   map oc_status (otp_challenges (fst (schedule sample_otp_world sample_otp_requests (empty_db, {})))) = [''LOCKED''] \<and>
   list_all (bounded 2) (otp_challenges (fst (schedule sample_otp_world sample_otp_requests (empty_db, {}))))"
proof -
  have "list_all undivided sample_otp_requests" by (simp add: sample_otp_requests_def)
  moreover have "map oc_status (otp_challenges (fst (schedule sample_otp_world sample_otp_requests (empty_db, {})))) = [''LOCKED'']"
    by code_simp
  ultimately show ?thesis
    using otp_challenges_disciplined [of sample_otp_world sample_otp_requests] by (simp add: sample_otp_world_def)
qed

text \<open>
  C17. A one-time password is used once: after a request claimed a challenge, and after any further
  requests in any interleaving, another request that had read the same challenge (and compared the
  code successfully) is refused with OTP_ALREADY_USED and writes nothing.
\<close>

theorem otp_single_use:
  assumes "schedule w ps (empty_db, {}) = (d, U)" and "otp_claim now c d = (Inr (), d1)"
    and "schedule w qs (d1, U) = (d2, V)"
  shows "otp_claim later c d2 = (Inl (CodedError ''OTP_ALREADY_USED''), d2)"
proof -
  have d1: "d1 = update_challenges (\<lambda>x. oc_id x = oc_id c \<and> oc_status x = ''ACTIVE'' \<and> oc_consumed_at x = None)
      (close_challenge ''CONSUMED'' now) d"
    and "countWhere (\<lambda>x. oc_id x = oc_id c \<and> oc_status x = ''ACTIVE'' \<and> oc_consumed_at x = None) (otp_challenges d) \<noteq> 0"
    using assms(2) by (auto simp: otp_claim_def Let_def split: if_splits)
  then obtain r where r: "r \<in> set (otp_challenges d)" "oc_id r = oc_id c" "oc_status r = ''ACTIVE''" "oc_consumed_at r = None"
    by (auto simp: table_simps)
  have dist: "distinct (map oc_id (otp_challenges d))" and U: "set (map oc_id (otp_challenges d)) \<subseteq> U"
    using otp_system.fold_inv [of w "(empty_db, {})" ps] assms(1) by (simp_all add: otp_init schedule_def) (simp_all add: otp_ok_def)
  have only: "x = r" if "x \<in> set (otp_challenges d)" "oc_id x = oc_id c" for x
    using key_unique [of oc_id "otp_challenges d" x r] dist r that by simp
  have "oc_id c \<in> U" using r(1,2) U by (metis imageI set_map subsetD)
  moreover have "oc_status x \<noteq> ''ACTIVE''" if "x \<in> set (otp_challenges d1)" "oc_id x = oc_id c" for x
  proof -
    let ?hit = "\<lambda>x. oc_id x = oc_id c \<and> oc_status x = ''ACTIVE'' \<and> oc_consumed_at x = None"
    from that(1) obtain y where y: "y \<in> set (otp_challenges d)" "x = (if ?hit y then close_challenge ''CONSUMED'' now y else y)"
      unfolding d1 update_challenges_def using updateMany_memD by fastforce
    show ?thesis
    proof (cases "?hit y")
      case True
      with y(2) show ?thesis by simp
    next
      case False
      with y that(2) have "oc_id y = oc_id c" by simp
      from only [OF y(1) this] False r show ?thesis by simp
    qed
  qed
  ultimately have "challenge_closed (oc_id c) (d1, U)" by (simp add: challenge_closed_def)
  from otp_closed.fold_inv [OF this, of w qs] have "challenge_closed (oc_id c) (d2, V)"
    using assms(3) by (simp add: schedule_def)
  then have "countWhere (\<lambda>x. oc_id x = oc_id c \<and> oc_status x = ''ACTIVE'' \<and> oc_consumed_at x = None) (otp_challenges d2) = 0"
    by (auto simp: table_simps challenge_closed_def)
  then show ?thesis by (simp add: otp_claim_def)
qed


definition sample_challenge :: otp_challenge where
  "sample_challenge = \<lparr>oc_id = ''c1'', oc_phone = ''+911'', oc_purpose = ''login'', oc_otp_hash = ''123456'',
     oc_expires_at = 300000, oc_attempt_count = 0, oc_status = ''ACTIVE'', oc_consumed_at = None, oc_created_at = 0\<rparr>"

theorem otp_single_use_witness:
  "\<exists>d U d1 d2 V. schedule sample_otp_world [SendOtp 0 ''c1'' ''123456'' True ''+911'' ''login''] (empty_db, {}) = (d, U) \<and>
     otp_claim 5 sample_challenge d = (Inr (), d1) \<and>
     schedule sample_otp_world [CheckOtp 6 ''+911'' ''123456'' None] (d1, U) = (d2, V) \<and>
     otp_claim 7 sample_challenge d2 = (Inl (CodedError ''OTP_ALREADY_USED''), d2)"
proof -
  let ?s = "schedule sample_otp_world [SendOtp 0 ''c1'' ''123456'' True ''+911'' ''login''] (empty_db, {})"
  obtain d U where s: "?s = (d, U)" by (cases ?s)
  have "fst (otp_claim 5 sample_challenge (fst ?s)) = Inr ()" by code_simp
  then obtain d1 where c: "otp_claim 5 sample_challenge d = (Inr (), d1)" unfolding s by (metis fst_conv prod.collapse)
  obtain d2 V where t: "schedule sample_otp_world [CheckOtp 6 ''+911'' ''123456'' None] (d1, U) = (d2, V)"
    by (cases "schedule sample_otp_world [CheckOtp 6 ''+911'' ''123456'' None] (d1, U)")
  from otp_single_use [OF s c t] s c t show ?thesis by blast
qed

lemma otp_claim_sessions: "sessions (snd (otp_claim now c d)) = sessions d"
  by (simp add: otp_claim_def Let_def update_challenges_def)

lemma otp_check_Inr: "otp_check cmp cfg now phone otp type d = (Inr c, d1) \<Longrightarrow>
   d1 = d \<and> otp_find cmp cfg now phone otp type d = Match c"
  by (auto simp: otp_check_def Let_def split: otp_verdict.splits prod.splits if_splits)

lemma otp_login_LoggedIn:
  assumes "otp_login sign cfg now g f phone type c opts d = (Inr (LoggedIn u role access tok expiry), d')"
  shows "find_user phone d = Some u \<and> user_refusal u = None \<and> tok = buildRawToken (gn_id g) (gn_secret g) \<and>
    (\<exists>q. sessions d' = sessions d @ [q] \<and> se_id q = gn_id g \<and> se_user_id q = user_id u \<and> se_status q = ''ACTIVE'' \<and>
         se_token_hash q = gn_hash g) \<and> otp_challenges d' = otp_challenges d"
proof -
  obtain v where v: "find_user phone d = Some v" using assms by (auto simp: otp_login_def split: option.splits if_splits)
  have n: "user_refusal v = None" using assms by (auto simp: otp_login_def v split: option.splits)
  from assms v n show ?thesis
    by (auto simp: otp_login_def createSession_def insert_session_Inr new_session_def Let_def split: sum.splits)
qed

text \<open>
  A login presupposes a fresh proof of possession: when \<^verbatim>\<open>verifyOtp\<close> logs a user in, the number has
  an active, unexpired challenge (of the requested purpose) whose code compared equal and whose
  attempts are below the limit; that challenge is consumed, the account is neither deleted nor
  suspended, and the refresh session written is that user's, with the token that is returned.
\<close>

theorem verifyAuthOtp_login:
  assumes "verifyAuthOtp pp cmp sign cfg now g f raw otp type opts d = (Inr (LoggedIn u role access tok expiry), d')"
  shows "\<exists>phone c. normalizePhoneToE164 pp raw = Inr phone \<and> c \<in> set (otp_challenges d) \<and>
     claimable_challenge now phone type c \<and> oc_attempt_count c < ac_otpMaxAttempts cfg \<and> cmp otp (oc_otp_hash c) \<and>
     close_challenge ''CONSUMED'' now c \<in> set (otp_challenges d') \<and>
     find_user phone d = Some u \<and> user_refusal u = None \<and> tok = buildRawToken (gn_id g) (gn_secret g) \<and>
     (\<exists>q. sessions d' = sessions d @ [q] \<and> se_id q = gn_id g \<and> se_user_id q = user_id u \<and> se_status q = ''ACTIVE'' \<and>
          se_token_hash q = gn_hash g)"
proof -
  obtain phone where p: "normalizePhoneToE164 pp raw = Inr phone"
    using assms by (auto simp: verifyAuthOtp_def split: sum.splits)
  obtain c d1 where k: "otp_check cmp cfg now phone otp type d = (Inr c, d1)"
    using assms by (auto simp: verifyAuthOtp_def p split: sum.splits prod.splits)
  then have m: "otp_find cmp cfg now phone otp type d = Match c" and [simp]: "d1 = d" using otp_check_Inr by blast+
  have ct: "claimable_challenge now phone type c" "c \<in> set (otp_challenges d)" "oc_attempt_count c < ac_otpMaxAttempts cfg"
    using otp_find_Some [OF disjI2, OF m] by auto
  have eq: "cmp otp (oc_otp_hash c)" using m by (auto simp: otp_find_def split: option.splits if_splits)
  obtain d2 where cl: "otp_claim now c d = (Inr (), d2)"
      and lg: "otp_login sign cfg now g f phone type c opts d2 = (Inr (LoggedIn u role access tok expiry), d')"
    using assms k by (auto simp: verifyAuthOtp_def p split: sum.splits prod.splits)
  have d2: "d2 = update_challenges (\<lambda>x. oc_id x = oc_id c \<and> oc_status x = ''ACTIVE'' \<and> oc_consumed_at x = None)
      (close_challenge ''CONSUMED'' now) d"
    using cl by (auto simp: otp_claim_def Let_def split: if_splits)
  have "close_challenge ''CONSUMED'' now c \<in> set (otp_challenges d2)"
    using ct by (force simp: d2 update_challenges_def updateMany_def claimable_challenge_def)
  moreover have "find_user phone d2 = find_user phone d" by (simp add: find_user_def d2 update_challenges_def split: option.split)
  moreover have "sessions d2 = sessions d" using otp_claim_sessions [of now c d] cl by simp
  ultimately show ?thesis using p ct eq otp_login_LoggedIn [OF lg] by simp blast
qed


definition sample_auth_db :: db where
  "sample_auth_db = empty_db\<lparr>customers := [\<lparr>cu_id = ''u1'', cu_phone = ''+911'', cu_deleted_at = None\<rparr>],
     otp_challenges := [sample_challenge]\<rparr>"

theorem verifyAuthOtp_login_witness:
  "\<exists>u role access tok expiry d'. verifyAuthOtp Some (=) (\<lambda>i r p. i) (ow_config sample_otp_world) 9
       \<lparr>gn_id = ''s1'', gn_secret = ''x'', gn_hash = ''x''\<rparr> ''f1'' ''+911'' ''123456'' (Some ''login'')
       \<lparr>do_deviceId = None, do_userAgent = None, do_ipAddress = None\<rparr> sample_auth_db
       = (Inr (LoggedIn u role access tok expiry), d') \<and> find_user ''+911'' sample_auth_db = Some u \<and>
     close_challenge ''CONSUMED'' 9 (hd (otp_challenges sample_auth_db)) \<in> set (otp_challenges d')"
proof -
  let ?v = "verifyAuthOtp Some (=) (\<lambda>i r p. i) (ow_config sample_otp_world) 9
       \<lparr>gn_id = ''s1'', gn_secret = ''x'', gn_hash = ''x''\<rparr> ''f1'' ''+911'' ''123456'' (Some ''login'')
       \<lparr>do_deviceId = None, do_userAgent = None, do_ipAddress = None\<rparr> sample_auth_db"
  have n: "normalizePhoneToE164 Some ''+911'' = Inr ''+911''" by code_simp
  have one: "otp_challenges sample_auth_db = [hd (otp_challenges sample_auth_db)]" by (simp add: sample_auth_db_def)
  have "\<exists>u role access tok expiry d'. ?v = (Inr (LoggedIn u role access tok expiry), d')"
    by (simp add: verifyAuthOtp_def n otp_check_def otp_find_def newest_def claimable_challenge_def otp_claim_def sample_challenge_def
        countWhere_def sample_auth_db_def sample_otp_world_def otp_login_def find_user_def findUnique_def update_challenges_def
        createSession_def insert_session_def new_session_def Let_def empty_db_def)
  then obtain u role access tok expiry d' where v: "?v = (Inr (LoggedIn u role access tok expiry), d')" by blast
  from verifyAuthOtp_login [OF v] have "find_user ''+911'' sample_auth_db = Some u \<and>
     (\<exists>c \<in> set (otp_challenges sample_auth_db). close_challenge ''CONSUMED'' 9 c \<in> set (otp_challenges d'))"
    using n by auto
  with one v show ?thesis by (metis list.set_cases set_ConsD empty_iff list.set(1))
qed

text \<open>
  The attempt limit does not bind concurrent requests: however many requests have read the challenge
  and compared a wrong code before the first of them counts its failure, all their guesses were
  tried, and the counter ends beyond the limit.
\<close>

lemma attempt_limit_bypassed:
  assumes "otp_find cmp cfg now phone otp type d = Mismatch c"
  shows "\<exists>r \<in> set (otp_challenges (fst ((otp_serve w (CountOtp (oc_id c)) ^^ k) (d, U)))).
    oc_id r = oc_id c \<and> oc_attempt_count r = oc_attempt_count c + int k"
proof (induction k)
  case 0
  then show ?case using otp_find_Some(1) [OF disjI1, OF assms] by auto
next
  case (Suc k)
  obtain a V where s: "(otp_serve w (CountOtp (oc_id c)) ^^ k) (d, U) = (a, V)" by (cases "(otp_serve w (CountOtp (oc_id c)) ^^ k) (d, U)")
  with Suc obtain r where "r \<in> set (otp_challenges a)" "oc_id r = oc_id c" "oc_attempt_count r = oc_attempt_count c + int k" by auto
  then have "r\<lparr>oc_attempt_count := oc_attempt_count r + 1\<rparr> \<in> set (otp_challenges (snd (count_attempt (oc_id c) a)))"
    "oc_attempt_count (r\<lparr>oc_attempt_count := oc_attempt_count r + 1\<rparr>) = oc_attempt_count c + int (Suc k)"
    "oc_id (r\<lparr>oc_attempt_count := oc_attempt_count r + 1\<rparr>) = oc_id c"
    by (force simp: count_attempt_def Let_def update_challenges_def updateMany_def)+
  then have "\<exists>r \<in> set (otp_challenges (snd (count_attempt (oc_id c) a))). oc_id r = oc_id c \<and>
      oc_attempt_count r = oc_attempt_count c + int (Suc k)" by blast
  then show ?case using s by simp
qed

end
