(* ===== verification/Outbox.thy ===== *)
theory Outbox
  imports Wave_Planner
begin

text \<open>
  The transactional outbox: \<^verbatim>\<open>src/services/outboxService.ts\<close> (events, leases, retries, retention),
  the delivery loop of \<^verbatim>\<open>src/workers/outboxWorker.ts\<close> and the customer's inbox of
  \<^verbatim>\<open>src/features/customer_notification/customer_notification.service.ts\<close>, which reads and acknowledges
  the same rows.

  The socket server's and the push service's answers are arguments of the delivery. The schema declares
  \<^verbatim>\<open>updated_at\<close> with \<^verbatim>\<open>@updatedAt\<close>, so every client update writes it: \<open>update_outbox\<close>. Correlation
  ids, log lines and metrics are left out.
\<close>

section \<open>createOutboxEvent\<close>

record CreateOutboxEventDTO =
  oe_eventType :: string
  oe_aggregateType :: string
  oe_aggregateId :: uuid
  oe_aggregateVersion :: "int option"
  oe_recipientType :: string
  oe_recipientId :: uuid
  oe_payload :: json_object
  oe_idempotencyKey :: "string option"

definition outbox_key :: "CreateOutboxEventDTO \<Rightarrow> string" where
  "outbox_key dto = js_or (oe_idempotencyKey dto)
     (oe_eventType dto @ '':'' @ oe_aggregateType dto @ '':'' @ oe_aggregateId dto @ '':'' @ oe_recipientId dto)"

definition new_outbox :: "uuid \<Rightarrow> timestamp \<Rightarrow> CreateOutboxEventDTO \<Rightarrow> notification_outbox" where
  "new_outbox i now dto =
     \<lparr>ob_id = i, ob_event_type = oe_eventType dto, ob_aggregate_type = oe_aggregateType dto,
      ob_aggregate_id = oe_aggregateId dto,
      ob_aggregate_version = (case oe_aggregateVersion dto of None \<Rightarrow> 1 | Some v \<Rightarrow> v),
      ob_recipient_type = oe_recipientType dto, ob_recipient_id = oe_recipientId dto, ob_payload = oe_payload dto,
      ob_status = ''PENDING'', ob_socket_status = ''PENDING'', ob_socket_sent_at = None,
      ob_socket_error = None, ob_fcm_status = ''PENDING'', ob_fcm_sent_at = None, ob_fcm_error = None,
      ob_attempts = 0, ob_max_attempts = 5, ob_available_at = now, ob_processed_at = None,
      ob_failed_at = None, ob_last_error = None, ob_idempotency_key = Some (outbox_key dto),
      ob_acknowledged_at = None, ob_acknowledged_by = None, ob_created_at = now, ob_updated_at = now\<rparr>"

definition same_delivery :: "uuid \<Rightarrow> uuid \<Rightarrow> string \<Rightarrow> notification_delivery \<Rightarrow> bool" where
  "same_delivery i rid ch r \<longleftrightarrow> nd_event_id r = i \<and> nd_recipient_id r = rid \<and> nd_channel r = ch"

text \<open>\<^verbatim>\<open>createMany\<close> with \<^verbatim>\<open>skipDuplicates\<close>.\<close>

definition pending_delivery :: "uuid \<Rightarrow> uuid \<Rightarrow> string \<Rightarrow> notification_delivery list \<Rightarrow> notification_delivery list" where
  "pending_delivery i rid ch t =
     (if list_ex (same_delivery i rid ch) t then t
      else t @ [\<lparr>nd_event_id = i, nd_recipient_id = rid, nd_channel = ch, nd_status = ''PENDING'',
                 nd_attempt_count = 0, nd_last_error = None, nd_delivered_at = None\<rparr>])"

definition createOutboxEvent ::
  "uuid \<Rightarrow> timestamp \<Rightarrow> CreateOutboxEventDTO \<Rightarrow> db \<Rightarrow> notification_outbox \<times> db" where
  "createOutboxEvent i now dto d =
     (case findUnique ob_idempotency_key (Some (outbox_key dto)) (outbox d) of
        Some e \<Rightarrow> (e, d)
      | None \<Rightarrow>
          (new_outbox i now dto,
           d\<lparr>outbox := outbox d @ [new_outbox i now dto],
             deliveries := pending_delivery i (oe_recipientId dto) ''fcm''
               (pending_delivery i (oe_recipientId dto) ''socket'' (deliveries d))\<rparr>))"

section \<open>Claiming a batch\<close>

definition update_outbox ::
  "timestamp \<Rightarrow> (notification_outbox \<Rightarrow> bool) \<Rightarrow> (notification_outbox \<Rightarrow> notification_outbox) \<Rightarrow> db \<Rightarrow> db" where
  "update_outbox now hit f d = d\<lparr>outbox := updateMany hit (\<lambda>e. (f e)\<lparr>ob_updated_at := now\<rparr>) (outbox d)\<rparr>"

definition minutes_ms :: "int \<Rightarrow> int" where
  "minutes_ms m = m * 60 * 1000"

definition days_ms :: "int \<Rightarrow> int" where
  "days_ms n = n * 24 * 60 * 60 * 1000"

definition claimable_event :: "timestamp \<Rightarrow> int \<Rightarrow> notification_outbox \<Rightarrow> bool" where
  "claimable_event now staleMinutes e \<longleftrightarrow>
     ob_status e = ''PENDING'' \<and> ob_available_at e \<le> now \<or>
     ob_status e = ''PROCESSING'' \<and> ob_updated_at e \<le> now - minutes_ms staleMinutes"

text \<open>The CTE: the oldest claimable rows are locked, set to PROCESSING and returned as updated.\<close>

definition claimPendingEvents :: "timestamp \<Rightarrow> nat \<Rightarrow> int \<Rightarrow> db \<Rightarrow> notification_outbox list \<times> db" where
  "claimPendingEvents now batchSize staleMinutes d =
     (let ids = map ob_id (take batchSize (sort_key ob_created_at (filter (claimable_event now staleMinutes) (outbox d))));
          d' = update_outbox now (\<lambda>e. ob_id e \<in> set ids) (\<lambda>e. e\<lparr>ob_status := ''PROCESSING''\<rparr>) d
      in (filter (\<lambda>e. ob_id e \<in> set ids) (outbox d'), d'))"

section \<open>Channel outcomes\<close>

datatype channel = Socket | Fcm

fun channel_str :: "channel \<Rightarrow> string" where
  "channel_str Socket = ''socket''"
| "channel_str Fcm = ''fcm''"

fun channel_status :: "channel \<Rightarrow> notification_outbox \<Rightarrow> string" where
  "channel_status Socket e = ob_socket_status e"
| "channel_status Fcm e = ob_fcm_status e"

text \<open>
  The upsert by event, recipient and channel; creating a row for an event that does not exist violates
  the foreign key, which the caller logs and ignores.
\<close>

definition upsert_delivery ::
  "uuid \<Rightarrow> uuid \<Rightarrow> channel \<Rightarrow> (notification_delivery \<Rightarrow> notification_delivery) \<Rightarrow> db \<Rightarrow> db" where
  "upsert_delivery i rid ch f d =
     (if list_ex (same_delivery i rid (channel_str ch)) (deliveries d)
      then d\<lparr>deliveries := updateMany (same_delivery i rid (channel_str ch))
               (\<lambda>r. f (r\<lparr>nd_attempt_count := nd_attempt_count r + 1\<rparr>)) (deliveries d)\<rparr>
      else if list_ex (\<lambda>e. ob_id e = i) (outbox d)
      then d\<lparr>deliveries := deliveries d @
               [f \<lparr>nd_event_id = i, nd_recipient_id = rid, nd_channel = channel_str ch, nd_status = ''PENDING'',
                   nd_attempt_count = 1, nd_last_error = None, nd_delivered_at = None\<rparr>]\<rparr>
      else d)"

fun sent_on :: "channel \<Rightarrow> timestamp \<Rightarrow> notification_outbox \<Rightarrow> notification_outbox" where
  "sent_on Socket now e = e\<lparr>ob_socket_status := ''SENT'', ob_socket_sent_at := Some now, ob_socket_error := None\<rparr>"
| "sent_on Fcm now e = e\<lparr>ob_fcm_status := ''SENT'', ob_fcm_sent_at := Some now, ob_fcm_error := None\<rparr>"

fun failed_on :: "channel \<Rightarrow> string \<Rightarrow> notification_outbox \<Rightarrow> notification_outbox" where
  "failed_on Socket msg e = e\<lparr>ob_socket_status := ''FAILED'', ob_socket_error := Some msg\<rparr>"
| "failed_on Fcm msg e = e\<lparr>ob_fcm_status := ''FAILED'', ob_fcm_error := Some msg\<rparr>"

definition recordChannelSuccess :: "timestamp \<Rightarrow> uuid \<Rightarrow> uuid \<Rightarrow> channel \<Rightarrow> db \<Rightarrow> db" where
  "recordChannelSuccess now i rid ch d =
     update_outbox now (\<lambda>e. ob_id e = i) (sent_on ch now)
       (upsert_delivery i rid ch
          (\<lambda>r. r\<lparr>nd_status := ''SENT'', nd_delivered_at := Some now, nd_last_error := None\<rparr>) d)"

definition recordChannelFailure :: "timestamp \<Rightarrow> uuid \<Rightarrow> uuid \<Rightarrow> channel \<Rightarrow> string \<Rightarrow> bool \<Rightarrow> db \<Rightarrow> db" where
  "recordChannelFailure now i rid ch msg isPermanent d =
     update_outbox now (\<lambda>e. ob_id e = i) (failed_on ch msg)
       (upsert_delivery i rid ch
          (\<lambda>r. r\<lparr>nd_status := (if isPermanent then ''FAILED_PERMANENT'' else ''FAILED''), nd_last_error := Some msg\<rparr>) d)"

definition getEventDeliveryState :: "uuid \<Rightarrow> db \<Rightarrow> notification_outbox option \<times> notification_delivery list" where
  "getEventDeliveryState i d = (findUnique ob_id i (outbox d), filter (\<lambda>r. nd_event_id r = i) (deliveries d))"

section \<open>Event outcomes\<close>

definition held :: "uuid \<Rightarrow> timestamp option \<Rightarrow> notification_outbox \<Rightarrow> bool" where
  "held i expected e \<longleftrightarrow> ob_id e = i \<and> ob_status e \<in> {''PROCESSING'', ''PENDING''} \<and>
     (case expected of None \<Rightarrow> True | Some t \<Rightarrow> ob_updated_at e = t)"

definition markEventSuccess :: "timestamp \<Rightarrow> uuid \<Rightarrow> timestamp option \<Rightarrow> db \<Rightarrow> bool \<times> db" where
  "markEventSuccess now i expected d =
     (countWhere (held i expected) (outbox d) > 0,
      update_outbox now (held i expected) (\<lambda>e. e\<lparr>ob_status := ''SENT'', ob_processed_at := Some now\<rparr>) d)"

definition backoffSeconds :: "int \<Rightarrow> int" where
  "backoffSeconds nextAttempt = min 300 (3 ^ nat nextAttempt * 5)"

definition failed_event :: "timestamp \<Rightarrow> int \<Rightarrow> string \<Rightarrow> notification_outbox \<Rightarrow> notification_outbox" where
  "failed_event now n msg e = e\<lparr>ob_status := ''FAILED'', ob_attempts := n, ob_failed_at := Some now, ob_last_error := Some msg\<rparr>"

definition retried_event :: "timestamp \<Rightarrow> int \<Rightarrow> string \<Rightarrow> notification_outbox \<Rightarrow> notification_outbox" where
  "retried_event now n msg e =
     e\<lparr>ob_status := ''PENDING'', ob_attempts := n, ob_available_at := now + backoffSeconds n * 1000, ob_last_error := Some msg\<rparr>"

definition markEventFailure :: "timestamp \<Rightarrow> uuid \<Rightarrow> string \<Rightarrow> bool \<Rightarrow> timestamp option \<Rightarrow> db \<Rightarrow> bool \<times> db" where
  "markEventFailure now i msg isPermanent expected d =
     (case findFirst (held i expected) (outbox d) of
        None \<Rightarrow> (False, d)
      | Some e \<Rightarrow>
          let nextAttempt = ob_attempts e + 1
          in if isPermanent \<or> nextAttempt \<ge> ob_max_attempts e
             then (True, update_outbox now (held i expected) (failed_event now nextAttempt msg) d)
             else (True, update_outbox now (held i expected) (retried_event now nextAttempt msg) d))"

definition reconcileStaleEvents :: "timestamp \<Rightarrow> int \<Rightarrow> db \<Rightarrow> nat \<times> db" where
  "reconcileStaleEvents now staleMinutes d =
     (let hit = (\<lambda>e. ob_status e = ''PROCESSING'' \<and> ob_updated_at e \<le> now - minutes_ms staleMinutes)
      in (countWhere hit (outbox d), update_outbox now hit (\<lambda>e. e\<lparr>ob_status := ''PENDING''\<rparr>) d))"

text \<open>Retention; deleting an event cascades to its delivery rows.\<close>

definition aged :: "timestamp \<Rightarrow> int \<Rightarrow> int \<Rightarrow> int \<Rightarrow> notification_outbox \<Rightarrow> bool" where
  "aged now ackDays unackDays failedDays e \<longleftrightarrow>
     ob_status e = ''SENT'' \<and> (case ob_acknowledged_at e of
        Some t \<Rightarrow> t \<le> now - days_ms ackDays
      | None \<Rightarrow> ob_created_at e \<le> now - days_ms unackDays) \<or>
     ob_status e = ''FAILED'' \<and> (case ob_failed_at e of None \<Rightarrow> False | Some t \<Rightarrow> t \<le> now - days_ms failedDays)"

definition cleanupAgedEvents :: "timestamp \<Rightarrow> int option \<Rightarrow> int option \<Rightarrow> int option \<Rightarrow> db \<Rightarrow> nat \<times> db" where
  "cleanupAgedEvents now ack unack failed d =
     (let hit = aged now (case ack of None \<Rightarrow> 30 | Some n \<Rightarrow> n) (case unack of None \<Rightarrow> 90 | Some n \<Rightarrow> n)
                  (case failed of None \<Rightarrow> 30 | Some n \<Rightarrow> n);
          gone = map ob_id (filter hit (outbox d))
      in (countWhere hit (outbox d),
          d\<lparr>outbox := deleteMany hit (outbox d),
            deliveries := deleteMany (\<lambda>r. nd_event_id r \<in> set gone) (deliveries d)\<rparr>))"

section \<open>The delivery worker\<close>

text \<open>
  What the outside world answers to one delivery: there is no socket server, the emit succeeds or it
  throws; the push service throws (with a permanent or a transient error) or returns one result per
  device.
\<close>

datatype socket_answer = NoServer | Emitted | EmitThrows string

record FCMDeliveryResult =
  fr_success :: bool
  fr_isInvalidToken :: bool
  fr_error :: "string option"

datatype fcm_answer = FcmResults "FCMDeliveryResult list" | FcmThrows "string option" bool

record channel_outcome =
  co_delivered :: bool
  co_error :: "string option"
  co_permanent :: bool

definition deliver_socket :: "timestamp \<Rightarrow> socket_answer \<Rightarrow> notification_outbox \<Rightarrow> db \<Rightarrow> channel_outcome \<times> db" where
  "deliver_socket now ans r d =
     (if ob_socket_status r = ''SENT'' then (\<lparr>co_delivered = True, co_error = None, co_permanent = False\<rparr>, d)
      else case ans of
        EmitThrows m \<Rightarrow>
          (let msg = js_or (Some m) ''Socket emission failed''
           in (\<lparr>co_delivered = False, co_error = Some msg, co_permanent = False\<rparr>,
               recordChannelFailure now (ob_id r) (ob_recipient_id r) Socket msg False d))
      | _ \<Rightarrow> (\<lparr>co_delivered = True, co_error = None, co_permanent = False\<rparr>,
               recordChannelSuccess now (ob_id r) (ob_recipient_id r) Socket d))"

definition transient_result :: "FCMDeliveryResult \<Rightarrow> bool" where
  "transient_result x \<longleftrightarrow> \<not> fr_success x \<and> \<not> fr_isInvalidToken x"

definition ALL_INVALID :: string where
  "ALL_INVALID = ''All recipient device tokens were permanently invalid/unregistered''"

definition fcm_outcome :: "FCMDeliveryResult list \<Rightarrow> channel_outcome" where
  "fcm_outcome results =
     (if results = [] \<or> list_ex fr_success results then \<lparr>co_delivered = True, co_error = None, co_permanent = False\<rparr>
      else case findFirst transient_result results of
        Some x \<Rightarrow> \<lparr>co_delivered = False, co_error = Some (js_or (fr_error x) ''FCM delivery failed''), co_permanent = False\<rparr>
      | None \<Rightarrow> \<lparr>co_delivered = False, co_error = Some ALL_INVALID, co_permanent = True\<rparr>)"

text \<open>\<open>Inl\<close> is the exception of the push service, which leaves the try block.\<close>

definition deliver_fcm ::
  "timestamp \<Rightarrow> fcm_answer \<Rightarrow> notification_outbox \<Rightarrow> db \<Rightarrow> ((string option \<times> bool) + channel_outcome) \<times> db" where
  "deliver_fcm now ans r d =
     (if ob_fcm_status r = ''SENT'' then (Inr \<lparr>co_delivered = True, co_error = None, co_permanent = False\<rparr>, d)
      else if ob_recipient_type r = ''worker'' \<or> ob_recipient_type r = ''customer'' then
        (case ans of
           FcmThrows m permanent \<Rightarrow> (Inl (m, permanent), d)
         | FcmResults rs \<Rightarrow>
             let o1 = fcm_outcome rs
             in (Inr o1, if co_delivered o1 then recordChannelSuccess now (ob_id r) (ob_recipient_id r) Fcm d
                         else recordChannelFailure now (ob_id r) (ob_recipient_id r) Fcm (the (co_error o1)) (co_permanent o1) d))
      else (Inr \<lparr>co_delivered = True, co_error = None, co_permanent = False\<rparr>,
            recordChannelSuccess now (ob_id r) (ob_recipient_id r) Fcm d))"

definition failure_reason :: "string option \<Rightarrow> string option \<Rightarrow> string" where
  "failure_reason socketError fcmError =
     (case (socketError, fcmError) of
        (Some s, Some f) \<Rightarrow> ''Socket error: '' @ s @ ''; FCM error: '' @ f
      | (Some s, None) \<Rightarrow> ''Socket error: '' @ s
      | (None, Some f) \<Rightarrow> ''FCM error: '' @ f
      | (None, None) \<Rightarrow> [])"

definition settle :: "timestamp \<Rightarrow> uuid \<Rightarrow> channel_outcome \<Rightarrow> channel_outcome \<Rightarrow> db \<Rightarrow> db" where
  "settle now i s f d =
     (let fcmTransient = (\<not> co_delivered f \<and> \<not> co_permanent f); fcmPermanent = (\<not> co_delivered f \<and> co_permanent f)
      in if co_delivered s \<and> co_delivered f then snd (markEventSuccess now i None d)
         else if fcmTransient \<or> (\<not> co_delivered s \<and> co_error s \<noteq> None)
         then snd (markEventFailure now i (failure_reason (co_error s) (if fcmTransient then co_error f else None)) False None d)
         else snd (markEventFailure now i (failure_reason (co_error s) (if fcmPermanent then co_error f else None)) True None d))"

definition executeRecordDelivery :: "timestamp \<Rightarrow> socket_answer \<Rightarrow> fcm_answer \<Rightarrow> notification_outbox \<Rightarrow> db \<Rightarrow> db" where
  "executeRecordDelivery now sa fa r d =
     (let (s, d1) = deliver_socket now sa r d
      in case deliver_fcm now fa r d1 of
           (Inr f, d2) \<Rightarrow> settle now (ob_id r) s f d2
         | (Inl (m, permanent), d2) \<Rightarrow>
             snd (markEventFailure now (ob_id r) (js_or m ''Outbox processing failed'') permanent None d2))"

datatype OutboxWorkerState = IDLE | RUNNING | STOPPING | STOPPED

fun worker_start :: "OutboxWorkerState \<Rightarrow> OutboxWorkerState" where
  "worker_start RUNNING = RUNNING"
| "worker_start STOPPING = STOPPING"
| "worker_start _ = RUNNING"

text \<open>\<^verbatim>\<open>stop\<close> before and after the drain.\<close>

fun worker_stop :: "OutboxWorkerState \<Rightarrow> OutboxWorkerState" where
  "worker_stop STOPPED = STOPPED"
| "worker_stop _ = STOPPING"

fun worker_drained :: "OutboxWorkerState \<Rightarrow> OutboxWorkerState" where
  "worker_drained STOPPING = STOPPED"
| "worker_drained s = s"

text \<open>The answers of the two channels to each record of a batch.\<close>

definition processRecord ::
  "OutboxWorkerState \<Rightarrow> timestamp \<Rightarrow> (uuid \<Rightarrow> socket_answer \<times> fcm_answer) \<Rightarrow> notification_outbox \<Rightarrow> db \<Rightarrow> db" where
  "processRecord st now world r d =
     (if st = STOPPED then d else executeRecordDelivery now (fst (world (ob_id r))) (snd (world (ob_id r))) r d)"

definition processBatch ::
  "OutboxWorkerState \<Rightarrow> timestamp \<Rightarrow> nat \<Rightarrow> int \<Rightarrow> (uuid \<Rightarrow> socket_answer \<times> fcm_answer) \<Rightarrow> db \<Rightarrow> nat \<times> db" where
  "processBatch st now batchSize staleMinutes world d =
     (if st = STOPPING \<or> st = STOPPED then (0, d)
      else let (records, d1) = claimPendingEvents now batchSize staleMinutes d
           in (length records, fold (processRecord st now world) records d1))"

section \<open>The customer's inbox\<close>

definition inbox_of :: "uuid \<Rightarrow> notification_outbox \<Rightarrow> bool" where
  "inbox_of customerId e \<longleftrightarrow> ob_recipient_type e = ''customer'' \<and> ob_recipient_id e = customerId"

definition safe_limit :: "int option \<Rightarrow> int" where
  "safe_limit l = min 100 (max 1 (case l of None \<Rightarrow> 50 | Some n \<Rightarrow> if n = 0 then 50 else n))"

definition safe_offset :: "int option \<Rightarrow> int" where
  "safe_offset off = max 0 (case off of None \<Rightarrow> 0 | Some n \<Rightarrow> n)"

record notification_page =
  np_rows :: "notification_outbox list"
  np_total :: nat
  np_unread :: nat
  np_nextCursor :: "uuid option"

text \<open>Offset pagination.\<close>

definition listNotifications :: "uuid \<Rightarrow> bool \<Rightarrow> int option \<Rightarrow> int option \<Rightarrow> db \<Rightarrow> notification_page" where
  "listNotifications customerId unreadOnly limit offset d =
     (let matching = filter (\<lambda>e. inbox_of customerId e \<and> (unreadOnly \<longrightarrow> ob_acknowledged_at e = None)) (outbox d);
          rows = take (nat (safe_limit limit)) (drop (nat (safe_offset offset)) (rev (sort_key ob_created_at matching)))
      in \<lparr>np_rows = rows, np_total = countWhere (inbox_of customerId) (outbox d),
          np_unread = countWhere (\<lambda>e. inbox_of customerId e \<and> ob_acknowledged_at e = None) (outbox d),
          np_nextCursor = (if int (length rows) = safe_limit limit then Some (ob_id (last rows)) else None)\<rparr>)"

definition getUnreadNotifications :: "uuid \<Rightarrow> int \<Rightarrow> db \<Rightarrow> notification_outbox list" where
  "getUnreadNotifications customerId limit d = np_rows (listNotifications customerId True (Some limit) None d)"

definition acknowledge :: "timestamp \<Rightarrow> uuid \<Rightarrow> notification_outbox \<Rightarrow> notification_outbox" where
  "acknowledge now customerId e = e\<lparr>ob_acknowledged_at := Some now, ob_acknowledged_by := Some customerId\<rparr>"

definition acknowledgeNotification :: "timestamp \<Rightarrow> uuid \<Rightarrow> uuid \<Rightarrow> db \<Rightarrow> (error + timestamp) \<times> db" where
  "acknowledgeNotification now customerId i d =
     (case findFirst (\<lambda>e. ob_id e = i \<and> inbox_of customerId e) (outbox d) of
        None \<Rightarrow> (Inl (StatusError 404 ''Notification not found or access denied''), d)
      | Some e \<Rightarrow>
          (case ob_acknowledged_at e of
             Some t \<Rightarrow> (Inr t, d)
           | None \<Rightarrow> (Inr now, update_outbox now (\<lambda>e. ob_id e = i) (acknowledge now customerId) d)))"

definition acknowledgeAll :: "timestamp \<Rightarrow> uuid \<Rightarrow> db \<Rightarrow> nat \<times> db" where
  "acknowledgeAll now customerId d =
     (let hit = (\<lambda>e. inbox_of customerId e \<and> ob_acknowledged_at e = None)
      in (countWhere hit (outbox d), update_outbox now hit (acknowledge now customerId) d))"

section \<open>One row at a time\<close>

text \<open>Everything a delivery does to the outbox is a function of the one row it is about.\<close>

definition rowwise :: "uuid \<Rightarrow> (notification_outbox \<Rightarrow> notification_outbox) \<Rightarrow> db \<Rightarrow> db \<Rightarrow> bool" where
  "rowwise i g d d' \<longleftrightarrow> outbox d' = updateMany (\<lambda>e. ob_id e = i) g (outbox d) \<and> (\<forall>e. ob_id (g e) = ob_id e)"

lemma rowwise_refl: "rowwise i (\<lambda>e. e) d d"
  by (simp add: rowwise_def updateMany_def)

lemma rowwise_trans: "rowwise i g d d1 \<Longrightarrow> rowwise i h d1 d2 \<Longrightarrow> rowwise i (\<lambda>e. h (g e)) d d2"
  by (auto simp: rowwise_def updateMany_def)

lemma rowwise_update:
  assumes "\<And>e. ob_id (f e) = ob_id e" and "outbox d0 = outbox d" and "\<And>e. hit e \<Longrightarrow> ob_id e = i"
  shows "rowwise i (\<lambda>e. if hit e then (f e)\<lparr>ob_updated_at := now\<rparr> else e) d (update_outbox now hit f d0)"
  using assms by (auto simp: rowwise_def update_outbox_def updateMany_def)

lemma rowwise_ids: "rowwise i g d d' \<Longrightarrow> map ob_id (outbox d') = map ob_id (outbox d)"
  by (auto simp: rowwise_def updateMany_def)

lemma rowwise_row: "rowwise i g d d' \<Longrightarrow> e \<in> set (outbox d') \<Longrightarrow>
   \<exists>e0 \<in> set (outbox d). e = (if ob_id e0 = i then g e0 else e0)"
  by (auto simp: rowwise_def dest!: updateMany_memD)

lemma sent_on_fields [simp]:
  "ob_id (sent_on ch now e) = ob_id e" "ob_status (sent_on ch now e) = ob_status e"
  "ob_attempts (sent_on ch now e) = ob_attempts e" "ob_max_attempts (sent_on ch now e) = ob_max_attempts e"
  "channel_status c (sent_on ch now e) = (if c = ch then ''SENT'' else channel_status c e)"
  by (cases ch; cases c; simp)+

lemma failed_on_fields [simp]:
  "ob_id (failed_on ch m e) = ob_id e" "ob_status (failed_on ch m e) = ob_status e"
  "ob_attempts (failed_on ch m e) = ob_attempts e" "ob_max_attempts (failed_on ch m e) = ob_max_attempts e"
  "channel_status c (failed_on ch m e) = (if c = ch then ''FAILED'' else channel_status c e)"
  by (cases ch; cases c; simp)+

lemma channel_status_updates [simp]:
  "channel_status c (ob_status_update f1 e) = channel_status c e"
  "channel_status c (ob_updated_at_update f2 e) = channel_status c e"
  "channel_status c (ob_processed_at_update f3 e) = channel_status c e"
  "channel_status c (ob_attempts_update f4 e) = channel_status c e"
  "channel_status c (ob_failed_at_update f5 e) = channel_status c e"
  "channel_status c (ob_last_error_update f6 e) = channel_status c e"
  "channel_status c (ob_available_at_update f7 e) = channel_status c e"
  "channel_status c (ob_acknowledged_at_update f8 e) = channel_status c e"
  "channel_status c (ob_acknowledged_by_update f9 e) = channel_status c e"
  by (cases c; simp)+

lemma upsert_outbox [simp]: "outbox (upsert_delivery i rid ch f d) = outbox d"
  by (simp add: upsert_delivery_def)

text \<open>An update that leaves the lifecycle fields alone, and one that leaves the channels alone.\<close>

definition keeps_lifecycle :: "(notification_outbox \<Rightarrow> notification_outbox) \<Rightarrow> bool" where
  "keeps_lifecycle g \<longleftrightarrow> (\<forall>e. ob_status (g e) = ob_status e \<and> ob_attempts (g e) = ob_attempts e \<and>
     ob_max_attempts (g e) = ob_max_attempts e)"

definition keeps_channels :: "(notification_outbox \<Rightarrow> notification_outbox) \<Rightarrow> bool" where
  "keeps_channels g \<longleftrightarrow> (\<forall>e c. channel_status c (g e) = channel_status c e)"

lemma record_success_row:
  "\<exists>g. rowwise i g d (recordChannelSuccess now i rid ch d) \<and> keeps_lifecycle g \<and>
     (\<forall>e c. ob_id e = i \<longrightarrow> channel_status c (g e) = (if c = ch then ''SENT'' else channel_status c e))"
  unfolding recordChannelSuccess_def
  by (rule exI, rule conjI, rule rowwise_update) (auto simp: keeps_lifecycle_def)

lemma record_failure_row:
  "\<exists>g. rowwise i g d (recordChannelFailure now i rid ch m p d) \<and> keeps_lifecycle g \<and>
     (\<forall>e c. ob_id e = i \<longrightarrow> channel_status c (g e) = (if c = ch then ''FAILED'' else channel_status c e))"
  unfolding recordChannelFailure_def
  by (rule exI, rule conjI, rule rowwise_update) (auto simp: keeps_lifecycle_def)

lemma mark_success_row:
  "\<exists>g. rowwise i g d (snd (markEventSuccess now i x d)) \<and> keeps_channels g"
  unfolding markEventSuccess_def snd_conv
  by (rule exI, rule conjI, rule rowwise_update) (auto simp: keeps_channels_def held_def)

lemma mark_failure_row:
  "\<exists>g. rowwise i g d (snd (markEventFailure now i m p x d)) \<and> keeps_channels g"
proof -
  have f: "channel_status c (failed_event now n m e) = channel_status c e" "ob_id (failed_event now n m e) = ob_id e"
    "channel_status c (retried_event now n m e) = channel_status c e" "ob_id (retried_event now n m e) = ob_id e" for c n e
    by (simp_all add: failed_event_def retried_event_def)
  have u: "\<exists>g. rowwise i g d (update_outbox now (held i x) h d) \<and> keeps_channels g"
    if "\<And>e. ob_id (h e) = ob_id e" "\<And>e c. channel_status c (h e) = channel_status c e" for h
  proof (intro exI conjI)
    show "rowwise i (\<lambda>e. if held i x e then (h e)\<lparr>ob_updated_at := now\<rparr> else e) d (update_outbox now (held i x) h d)"
      using that(1) by (rule rowwise_update) (simp_all add: held_def)
    show "keeps_channels (\<lambda>e. if held i x e then (h e)\<lparr>ob_updated_at := now\<rparr> else e)"
      using that(2) by (simp add: keeps_channels_def)
  qed
  have "\<exists>g. rowwise i g d d \<and> keeps_channels g" using rowwise_refl by (force simp: keeps_channels_def)
  then show ?thesis using u f by (auto simp: markEventFailure_def Let_def split: option.split)
qed

text \<open>What one channel's delivery does to the row: nothing when it was sent before, else the outcome.\<close>

definition channel_effect ::
  "channel \<Rightarrow> bool \<Rightarrow> notification_outbox \<Rightarrow> (notification_outbox \<Rightarrow> notification_outbox) \<Rightarrow> bool" where
  "channel_effect ch delivered r g \<longleftrightarrow> keeps_lifecycle g \<and> (\<forall>e c. ob_id e = ob_id r \<longrightarrow>
     channel_status c (g e) =
       (if c = ch \<and> channel_status ch r \<noteq> ''SENT'' then (if delivered then ''SENT'' else ''FAILED'') else channel_status c e))"

lemma skip_effect: "channel_status ch r = ''SENT'' \<Longrightarrow> channel_effect ch b r (\<lambda>e. e)"
  by (simp add: channel_effect_def keeps_lifecycle_def)

lemma success_effect: "channel_status ch r \<noteq> ''SENT'' \<Longrightarrow>
   \<exists>g. rowwise (ob_id r) g d (recordChannelSuccess now (ob_id r) rid ch d) \<and> channel_effect ch True r g"
  using record_success_row [of "ob_id r" d now rid ch] by (auto simp: channel_effect_def)

lemma failure_effect: "channel_status ch r \<noteq> ''SENT'' \<Longrightarrow>
   \<exists>g. rowwise (ob_id r) g d (recordChannelFailure now (ob_id r) rid ch m p d) \<and> channel_effect ch False r g"
  using record_failure_row [of "ob_id r" d now rid ch m p] by (auto simp: channel_effect_def)

lemma socket_row:
  "\<exists>g. rowwise (ob_id r) g d (snd (deliver_socket now sa r d)) \<and>
     channel_effect Socket (co_delivered (fst (deliver_socket now sa r d))) r g"
proof (cases "channel_status Socket r = ''SENT''")
  case True
  then show ?thesis using rowwise_refl skip_effect [OF True] by (auto simp: deliver_socket_def)
next
  case False
  show ?thesis
  proof (cases sa)
    case (EmitThrows m)
    with False failure_effect [OF False] show ?thesis by (simp add: deliver_socket_def Let_def)
  qed (use False success_effect [OF False] in \<open>simp_all add: deliver_socket_def\<close>)
qed

lemma fcm_row:
  assumes "deliver_fcm now fa r d = (out, d')"
  shows "(\<exists>x. out = Inl x \<and> d' = d) \<or>
    (\<exists>o1 g. out = Inr o1 \<and> rowwise (ob_id r) g d d' \<and> channel_effect Fcm (co_delivered o1) r g)"
proof (cases "channel_status Fcm r = ''SENT''")
  case True
  with assms have "out = Inr \<lparr>co_delivered = True, co_error = None, co_permanent = False\<rparr>" "d' = d"
    by (simp_all add: deliver_fcm_def)
  with rowwise_refl skip_effect [OF True] show ?thesis by blast
next
  case False
  note eff = success_effect [OF False] failure_effect [OF False]
  show ?thesis
  proof (cases "ob_recipient_type r = ''worker'' \<or> ob_recipient_type r = ''customer''")
    case t: True
    show ?thesis
    proof (cases fa)
      case (FcmResults rs)
      with assms False t have "out = Inr (fcm_outcome rs)"
        "d' = (if co_delivered (fcm_outcome rs) then recordChannelSuccess now (ob_id r) (ob_recipient_id r) Fcm d
           else recordChannelFailure now (ob_id r) (ob_recipient_id r) Fcm (the (co_error (fcm_outcome rs)))
             (co_permanent (fcm_outcome rs)) d)"
        by (auto simp: deliver_fcm_def Let_def)
      then show ?thesis using eff by simp
    qed (use assms False t in \<open>auto simp: deliver_fcm_def\<close>)
  next
    case t: False
    with assms False have "out = Inr \<lparr>co_delivered = True, co_error = None, co_permanent = False\<rparr>"
      "d' = recordChannelSuccess now (ob_id r) (ob_recipient_id r) Fcm d" by (auto simp: deliver_fcm_def)
    then show ?thesis using eff(1) by simp
  qed
qed

lemma settle_row: "\<exists>g. rowwise i g d (settle now i s f d) \<and> keeps_channels g"
  using mark_success_row [of i d now None] mark_failure_row [of i d now _ _ None] by (simp add: settle_def Let_def)

section \<open>No channel is delivered twice\<close>

text \<open>The channels on which an execution reaches the recipient.\<close>

definition emissions :: "socket_answer \<Rightarrow> fcm_answer \<Rightarrow> notification_outbox \<Rightarrow> channel list" where
  "emissions sa fa r =
     (if ob_socket_status r \<noteq> ''SENT'' \<and> sa = Emitted then [Socket] else []) @
     (if ob_fcm_status r \<noteq> ''SENT'' \<and> (ob_recipient_type r = ''worker'' \<or> ob_recipient_type r = ''customer'') \<and>
         (case fa of FcmResults rs \<Rightarrow> list_ex fr_success rs | FcmThrows m p \<Rightarrow> False) then [Fcm] else [])"

lemma emissions_unsent: "c \<in> set (emissions sa fa r) \<Longrightarrow> channel_status c r \<noteq> ''SENT''"
  by (auto simp: emissions_def split: if_splits)

lemma emission_socket: "Socket \<in> set (emissions sa fa r) \<Longrightarrow> co_delivered (fst (deliver_socket now sa r d))"
  by (auto simp: emissions_def deliver_socket_def split: if_splits)

lemma emission_fcm:
  assumes "Fcm \<in> set (emissions sa fa r)"
  shows "\<exists>o1. fst (deliver_fcm now fa r d) = Inr o1 \<and> co_delivered o1"
proof -
  obtain rs where "fa = FcmResults rs" "list_ex fr_success rs" "ob_fcm_status r \<noteq> ''SENT''"
      "ob_recipient_type r = ''worker'' \<or> ob_recipient_type r = ''customer''"
    using assms by (cases fa) (auto simp: emissions_def split: if_splits)
  then show ?thesis by (simp add: deliver_fcm_def fcm_outcome_def Let_def)
qed

text \<open>What a whole delivery guarantees of the row.\<close>

definition delivery_effect ::
  "channel set \<Rightarrow> notification_outbox \<Rightarrow> (notification_outbox \<Rightarrow> notification_outbox) \<Rightarrow> bool" where
  "delivery_effect C r g \<longleftrightarrow> (\<forall>e c. ob_id e = ob_id r \<longrightarrow>
     (c \<in> C \<longrightarrow> channel_status c (g e) = ''SENT'') \<and>
     (channel_status c r = ''SENT'' \<and> channel_status c e = ''SENT'' \<longrightarrow> channel_status c (g e) = ''SENT''))"

lemma channel_delivery: "channel_effect ch b r g \<Longrightarrow> C \<subseteq> {ch} \<Longrightarrow> (ch \<in> C \<Longrightarrow> b \<and> channel_status ch r \<noteq> ''SENT'') \<Longrightarrow>
   delivery_effect C r g"
  unfolding channel_effect_def delivery_effect_def by auto

lemma delivery_trans:
  assumes "delivery_effect C r g" and "delivery_effect D r h" and "\<And>e. ob_id (g e) = ob_id e"
    and "channel_effect ch b r h" and "ch \<notin> C"
  shows "delivery_effect (C \<union> D) r (\<lambda>e. h (g e))"
  using assms unfolding delivery_effect_def channel_effect_def by auto

lemma delivery_settled:
  "delivery_effect C r g \<Longrightarrow> keeps_channels h \<Longrightarrow> delivery_effect C r (\<lambda>e. h (g e))"
  by (simp add: delivery_effect_def keeps_channels_def)

lemma delivery_row:
  "\<exists>g. rowwise (ob_id r) g d (executeRecordDelivery now sa fa r d) \<and> delivery_effect (set (emissions sa fa r)) r g"
proof -
  let ?E = "set (emissions sa fa r)"
  obtain s d1 where ds: "deliver_socket now sa r d = (s, d1)" by (cases "deliver_socket now sa r d")
  obtain g1 where g1: "rowwise (ob_id r) g1 d d1" "channel_effect Socket (co_delivered s) r g1"
    using socket_row [of r d now sa] ds by auto
  have e1: "delivery_effect (?E \<inter> {Socket}) r g1"
  proof (rule channel_delivery [OF g1(2)])
    show "co_delivered s \<and> channel_status Socket r \<noteq> ''SENT''" if "Socket \<in> ?E \<inter> {Socket}"
      using that emission_socket [of sa fa r now d] emissions_unsent [of Socket sa fa r] ds by simp
  qed blast
  have E: "?E = (?E \<inter> {Socket}) \<union> (?E \<inter> {Fcm})"
  proof (rule set_eqI)
    show "c \<in> ?E \<longleftrightarrow> c \<in> (?E \<inter> {Socket}) \<union> (?E \<inter> {Fcm})" for c by (cases c) simp_all
  qed
  obtain out d2 where df: "deliver_fcm now fa r d1 = (out, d2)" by (cases "deliver_fcm now fa r d1")
  from fcm_row [OF df] show ?thesis
  proof (elim disjE exE conjE)
    fix x assume out: "out = Inl x" and [simp]: "d2 = d1"
    obtain m p where x: "x = (m, p)" by (cases x)
    obtain h where h: "rowwise (ob_id r) h d1 (snd (markEventFailure now (ob_id r) (js_or m ''Outbox processing failed'') p None d1))"
      "keeps_channels h" using mark_failure_row by blast
    have "Fcm \<notin> ?E" using emission_fcm [of sa fa r now d1] df out by auto
    then have "delivery_effect ?E r g1" using e1 E by (simp add: insert_absorb)
    with rowwise_trans [OF g1(1) h(1)] delivery_settled [OF _ h(2)] show ?thesis
      using ds df out x by (auto simp: executeRecordDelivery_def)
  next
    fix o1 g2 assume out: "out = Inr o1" and g2: "rowwise (ob_id r) g2 d1 d2" "channel_effect Fcm (co_delivered o1) r g2"
    obtain h where h: "rowwise (ob_id r) h d2 (settle now (ob_id r) s o1 d2)" "keeps_channels h" using settle_row by blast
    have "delivery_effect (?E \<inter> {Fcm}) r g2"
    proof (rule channel_delivery [OF g2(2)])
      show "co_delivered o1 \<and> channel_status Fcm r \<noteq> ''SENT''" if "Fcm \<in> ?E \<inter> {Fcm}"
        using that emission_fcm [of sa fa r now d1] emissions_unsent [of Fcm sa fa r] df out by simp
    qed blast
    then have "delivery_effect ((?E \<inter> {Socket}) \<union> (?E \<inter> {Fcm})) r (\<lambda>e. g2 (g1 e))"
      using delivery_trans [OF e1 _ _ g2(2)] g1(1) by (simp add: rowwise_def)
    then have "delivery_effect ?E r (\<lambda>e. g2 (g1 e))" using E by simp
    with rowwise_trans [OF rowwise_trans [OF g1(1) g2(1)] h(1)] delivery_settled [OF _ h(2)] show ?thesis
      using ds df out by (auto simp: executeRecordDelivery_def)
  qed
qed

text \<open>
  A schedule of outbox requests, with the log of everything delivered and the event ids used so far.
  Batches do not overlap: a batch is delivered before the next claim, as with one worker, or with
  several whose deliveries end within the lease.
\<close>

datatype outbox_request =
    Enqueue timestamp uuid CreateOutboxEventDTO
  | Batch OutboxWorkerState timestamp nat int "uuid \<Rightarrow> socket_answer \<times> fcm_answer"
  | Reconcile timestamp int
  | CleanupAged timestamp "int option" "int option" "int option"
  | AckOne timestamp uuid uuid
  | AckEvery timestamp uuid

definition process_logged ::
  "OutboxWorkerState \<Rightarrow> timestamp \<Rightarrow> (uuid \<Rightarrow> socket_answer \<times> fcm_answer) \<Rightarrow> notification_outbox
   \<Rightarrow> db \<times> (uuid \<times> channel) list \<Rightarrow> db \<times> (uuid \<times> channel) list" where
  "process_logged st now world r = (\<lambda>(d, lg).
     (processRecord st now world r d,
      if st = STOPPED then lg
      else lg @ map (Pair (ob_id r)) (emissions (fst (world (ob_id r))) (snd (world (ob_id r))) r)))"

definition batch_logged ::
  "OutboxWorkerState \<Rightarrow> timestamp \<Rightarrow> nat \<Rightarrow> int \<Rightarrow> (uuid \<Rightarrow> socket_answer \<times> fcm_answer)
   \<Rightarrow> db \<times> (uuid \<times> channel) list \<Rightarrow> db \<times> (uuid \<times> channel) list" where
  "batch_logged st now n stale world = (\<lambda>(d, lg).
     if st = STOPPING \<or> st = STOPPED then (d, lg)
     else let (records, d1) = claimPendingEvents now n stale d in fold (process_logged st now world) records (d1, lg))"

lemma fold_logged: "fst (fold (process_logged st now world) rs (d, lg)) = fold (processRecord st now world) rs d"
  by (induction rs arbitrary: d lg) (auto simp: process_logged_def)

lemma batch_logged_db: "fst (batch_logged st now n stale world (d, lg)) = snd (processBatch st now n stale world d)"
  by (simp add: batch_logged_def processBatch_def fold_logged split: prod.split)

type_synonym outbox_state = "(db \<times> (uuid \<times> channel) list) \<times> uuid set"

fun outbox_serve :: "outbox_request \<Rightarrow> outbox_state \<Rightarrow> outbox_state" where
  "outbox_serve (Enqueue now i dto) ((d, lg), U) =
     (if i \<in> U then ((d, lg), U) else ((snd (createOutboxEvent i now dto d), lg), insert i U))"
| "outbox_serve (Batch st now n stale world) (s, U) = (batch_logged st now n stale world s, U)"
| "outbox_serve (Reconcile now stale) ((d, lg), U) = ((snd (reconcileStaleEvents now stale d), lg), U)"
| "outbox_serve (CleanupAged now a u f) ((d, lg), U) = ((snd (cleanupAgedEvents now a u f d), lg), U)"
| "outbox_serve (AckOne now c i) ((d, lg), U) = ((snd (acknowledgeNotification now c i d), lg), U)"
| "outbox_serve (AckEvery now c) ((d, lg), U) = ((snd (acknowledgeAll now c d), lg), U)"

definition outbox_inv :: "outbox_state \<Rightarrow> bool" where
  "outbox_inv = (\<lambda>((d, lg), U). distinct (map ob_id (outbox d)) \<and> set (map ob_id (outbox d)) \<subseteq> U \<and> distinct lg \<and>
     (\<forall>i c. (i, c) \<in> set lg \<longrightarrow> i \<in> U \<and> (\<forall>e \<in> set (outbox d). ob_id e = i \<longrightarrow> channel_status c e = ''SENT'')))"

lemma outbox_invD:
  assumes "outbox_inv ((d, lg), U)"
  shows "distinct (map ob_id (outbox d))" "e \<in> set (outbox d) \<Longrightarrow> ob_id e \<in> U" "distinct lg"
    "(i, c) \<in> set lg \<Longrightarrow> i \<in> U" "(ob_id e, c) \<in> set lg \<Longrightarrow> e \<in> set (outbox d) \<Longrightarrow> channel_status c e = ''SENT''"
  using assms by (auto simp: outbox_inv_def)

text \<open>Writes that keep ids and channels, and deletions, keep the invariant.\<close>

lemma outbox_inv_shrink:
  assumes inv: "outbox_inv ((d, lg), U)" and "distinct (map ob_id (outbox d'))"
    and sub: "\<And>e. e \<in> set (outbox d') \<Longrightarrow> \<exists>e0 \<in> set (outbox d). ob_id e = ob_id e0 \<and> (\<forall>c. channel_status c e = channel_status c e0)"
  shows "outbox_inv ((d', lg), U)"
proof -
  have "ob_id e \<in> U \<and> ((ob_id e, c) \<in> set lg \<longrightarrow> channel_status c e = ''SENT'')" if "e \<in> set (outbox d')" for e c
    using sub [OF that] outbox_invD(2,5) [OF inv] by metis
  with assms(2) outbox_invD(3,4) [OF inv] show ?thesis by (auto simp: outbox_inv_def)
qed

lemma outbox_inv_update:
  assumes "outbox_inv ((d, lg), U)" and "\<And>e. ob_id (f e) = ob_id e" and "\<And>e c. channel_status c (f e) = channel_status c e"
  shows "outbox_inv ((update_outbox now hit f d, lg), U)"
proof (rule outbox_inv_shrink [OF assms(1)])
  have "map ob_id (outbox (update_outbox now hit f d)) = map ob_id (outbox d)"
    using assms(2) by (auto simp: update_outbox_def updateMany_def)
  then show "distinct (map ob_id (outbox (update_outbox now hit f d)))" using outbox_invD(1) [OF assms(1)] by simp
  show "\<exists>e0 \<in> set (outbox d). ob_id e = ob_id e0 \<and> (\<forall>c. channel_status c e = channel_status c e0)"
    if "e \<in> set (outbox (update_outbox now hit f d))" for e
    using that assms(2,3) by (auto simp: update_outbox_def dest!: updateMany_memD)
qed

text \<open>The records of a batch still to be delivered.\<close>

definition due :: "notification_outbox list \<Rightarrow> (uuid \<times> channel) list \<Rightarrow> uuid set \<Rightarrow> bool" where
  "due rs lg U \<longleftrightarrow> distinct (map ob_id rs) \<and>
     (\<forall>r \<in> set rs. ob_id r \<in> U \<and> (\<forall>c. (ob_id r, c) \<in> set lg \<longrightarrow> channel_status c r = ''SENT''))"

lemma emissions_distinct: "distinct (emissions sa fa r)"
  by (simp add: emissions_def)

lemma process_logged_inv:
  assumes inv: "outbox_inv ((d, lg), U)" and due: "due (r # rs) lg U"
    and p: "process_logged st now world r (d, lg) = (d', lg')"
  shows "outbox_inv ((d', lg'), U) \<and> due rs lg' U"
proof (cases "st = STOPPED")
  case True
  with p inv due show ?thesis by (simp add: process_logged_def processRecord_def due_def)
next
  case False
  let ?E = "emissions (fst (world (ob_id r))) (snd (world (ob_id r))) r"
  have d': "d' = executeRecordDelivery now (fst (world (ob_id r))) (snd (world (ob_id r))) r d"
    and lg': "lg' = lg @ map (Pair (ob_id r)) ?E"
    using p False by (auto simp: process_logged_def processRecord_def)
  obtain g where g: "rowwise (ob_id r) g d d'" "delivery_effect (set ?E) r g" using delivery_row d' by blast
  have fresh: "(ob_id r, c) \<notin> set lg" if "c \<in> set ?E" for c
    using emissions_unsent [OF that] due by (auto simp: due_def)
  have rU: "ob_id r \<in> U" and kept: "(ob_id r, c) \<in> set lg \<Longrightarrow> channel_status c r = ''SENT''" for c
    using due by (auto simp: due_def)
  have ids: "map ob_id (outbox d') = map ob_id (outbox d)" by (rule rowwise_ids [OF g(1)])
  have rows: "channel_status c e = ''SENT''" if e: "e \<in> set (outbox d')" and l: "(ob_id e, c) \<in> set lg'" for e c
  proof -
    obtain e0 where e0: "e0 \<in> set (outbox d)" "e = (if ob_id e0 = ob_id r then g e0 else e0)"
      using rowwise_row [OF g(1) e] by blast
    have i: "ob_id e = ob_id e0" using e0(2) g(1) by (simp add: rowwise_def)
    show ?thesis
    proof (cases "(ob_id e, c) \<in> set lg")
      case True
      then have "channel_status c e0 = ''SENT''" using outbox_invD(5) [OF inv] e0(1) i by simp
      then show ?thesis using e0(2) g(2) kept True i unfolding delivery_effect_def by (cases "ob_id e0 = ob_id r") auto
    next
      case False
      with l lg' have "ob_id e = ob_id r" "c \<in> set ?E" by auto
      then show ?thesis using e0(2) g(2) i unfolding delivery_effect_def by auto
    qed
  qed
  have "distinct lg'"
    using outbox_invD(3) [OF inv] fresh emissions_distinct by (auto simp: lg' distinct_map inj_on_def)
  moreover have "i \<in> U" if "(i, c) \<in> set lg'" for i c using that outbox_invD(4) [OF inv] rU by (auto simp: lg')
  ultimately have "outbox_inv ((d', lg'), U)"
    using rows ids inv unfolding outbox_inv_def by (simp del: set_map) blast
  moreover have "ob_id q \<noteq> ob_id r" if "q \<in> set rs" for q using due that by (metis due_def distinct.simps(2) image_eqI list.simps(9) set_map)
  then have "due rs lg' U" using due by (auto simp: due_def lg')
  ultimately show ?thesis by blast
qed

lemma fold_logged_inv:
  "outbox_inv (s, U) \<Longrightarrow> due rs (snd s) U \<Longrightarrow> outbox_inv (fold (process_logged st now world) rs s, U)"
proof (induction rs arbitrary: s)
  case (Cons r rs)
  obtain d lg where s: "s = (d, lg)" by (cases s)
  obtain d' lg' where p: "process_logged st now world r (d, lg) = (d', lg')" by fastforce
  from process_logged_inv [OF _ _ p] Cons.prems s have "outbox_inv ((d', lg'), U)" "due rs lg' U" by auto
  with Cons.IH [of "(d', lg')"] s p show ?case by simp
qed simp

lemma claim_inv:
  assumes inv: "outbox_inv ((d, lg), U)" and c: "claimPendingEvents now n stale d = (rs, d1)"
  shows "outbox_inv ((d1, lg), U) \<and> due rs lg U"
proof -
  define ids where "ids = map ob_id (take n (sort_key ob_created_at (filter (claimable_event now stale) (outbox d))))"
  have d1: "d1 = update_outbox now (\<lambda>e. ob_id e \<in> set ids) (\<lambda>e. e\<lparr>ob_status := ''PROCESSING''\<rparr>) d"
    and rs: "rs = filter (\<lambda>e. ob_id e \<in> set ids) (outbox d1)"
    using c unfolding claimPendingEvents_def Let_def ids_def by blast+
  have i: "outbox_inv ((d1, lg), U)" unfolding d1 by (rule outbox_inv_update [OF inv]) simp_all
  have "distinct (map ob_id rs)" using outbox_invD(1) [OF i] by (simp add: rs distinct_map_filter)
  with outbox_invD(2,5) [OF i] i show ?thesis by (auto simp: due_def rs)
qed

lemma enqueue_inv:
  assumes inv: "outbox_inv ((d, lg), U)" and "i \<notin> U"
  shows "outbox_inv ((snd (createOutboxEvent i now dto d), lg), insert i U)"
proof (cases "findUnique ob_idempotency_key (Some (outbox_key dto)) (outbox d)")
  case (Some e)
  with inv show ?thesis by (auto simp: createOutboxEvent_def outbox_inv_def)
next
  case None
  have "i \<notin> ob_id ` set (outbox d)" "(i, c) \<notin> set lg" for c using outbox_invD(2,4) [OF inv] assms(2) by auto
  with None inv show ?thesis by (auto simp: createOutboxEvent_def outbox_inv_def new_outbox_def)
qed

interpretation outbox_system: invariant_system outbox_serve outbox_inv
proof unfold_locales
  fix s q assume inv: "outbox_inv s"
  obtain d lg U where s: "s = ((d, lg), U)" by (metis surj_pair)
  show "outbox_inv (outbox_serve q s)"
  proof (cases q)
    case (Enqueue now i dto)
    with inv s enqueue_inv show ?thesis by simp
  next
    case (Batch st now n stale world)
    obtain rs d1 where c: "claimPendingEvents now n stale d = (rs, d1)" by fastforce
    from claim_inv [OF inv [unfolded s] c] fold_logged_inv [of "(d1, lg)" U rs] show ?thesis
      using Batch s inv c by (simp add: batch_logged_def)
  next
    case (CleanupAged now a u f)
    have "outbox_inv ((snd (cleanupAgedEvents now a u f d), lg), U)"
      using outbox_invD(1) [OF inv [unfolded s]]
      by (intro outbox_inv_shrink [OF inv [unfolded s]]) (auto simp: cleanupAgedEvents_def Let_def deleteMany_def distinct_map_filter)
    with CleanupAged s show ?thesis by simp
  next
    case (AckOne now c i)
    have "outbox_inv ((update_outbox now h (acknowledge now c) d, lg), U)" for h
      by (rule outbox_inv_update [OF inv [unfolded s]]) (simp_all add: acknowledge_def)
    with AckOne s inv show ?thesis by (auto simp: acknowledgeNotification_def split: option.split)
  next
    case (AckEvery now c)
    have "outbox_inv ((update_outbox now h (acknowledge now c) d, lg), U)" for h
      by (rule outbox_inv_update [OF inv [unfolded s]]) (simp_all add: acknowledge_def)
    with AckEvery s show ?thesis by (simp add: acknowledgeAll_def Let_def)
  next
    case (Reconcile now stale)
    have "outbox_inv ((update_outbox now h (\<lambda>e. e\<lparr>ob_status := ''PENDING''\<rparr>) d, lg), U)" for h
      by (rule outbox_inv_update [OF inv [unfolded s]]) simp_all
    with Reconcile s show ?thesis by (simp add: reconcileStaleEvents_def Let_def)
  qed
qed

section \<open>Retries end\<close>

text \<open>One more attempt to deliver an event, if it is still open.\<close>

definition attempt :: "uuid \<Rightarrow> timestamp \<times> socket_answer \<times> fcm_answer \<Rightarrow> db \<Rightarrow> db" where
  "attempt i = (\<lambda>(now, sa, fa) d.
     case findUnique ob_id i (outbox d) of
       None \<Rightarrow> d
     | Some e \<Rightarrow> if ob_status e \<in> {''PENDING'', ''PROCESSING''} then executeRecordDelivery now sa fa e d else d)"

text \<open>The event's row has status \<open>st\<close> after \<open>n\<close> of its \<open>mx\<close> attempts.\<close>

definition event_at :: "uuid \<Rightarrow> string \<Rightarrow> int \<Rightarrow> int \<Rightarrow> db \<Rightarrow> bool" where
  "event_at i st n mx d \<longleftrightarrow> distinct (map ob_id (outbox d)) \<and>
     (\<exists>e \<in> set (outbox d). ob_id e = i \<and> ob_status e = st \<and> ob_attempts e = n \<and> ob_max_attempts e = mx)"

lemma event_at_lifecycle:
  assumes "rowwise i g d d'" and "keeps_lifecycle g" and "event_at i st n mx d"
  shows "event_at i st n mx d'"
proof -
  from assms(3) obtain e where e: "e \<in> set (outbox d)" "ob_id e = i" "ob_status e = st" "ob_attempts e = n" "ob_max_attempts e = mx"
    by (auto simp: event_at_def)
  have "g e \<in> set (outbox d')" using assms(1) e by (auto simp: rowwise_def updateMany_def)
  moreover have "ob_id (g e) = i \<and> ob_status (g e) = st \<and> ob_attempts (g e) = n \<and> ob_max_attempts (g e) = mx"
    using assms(1,2) e by (simp add: rowwise_def keeps_lifecycle_def)
  ultimately show ?thesis using rowwise_ids [OF assms(1)] assms(3) unfolding event_at_def by metis
qed

lemma event_at_update:
  assumes "event_at i st n mx d" and "st \<in> {''PENDING'', ''PROCESSING''}"
    and "\<And>e. ob_id (f e) = ob_id e" and "\<And>e. ob_status (f e) = st'"
    and "\<And>e. ob_attempts e = n \<Longrightarrow> ob_attempts (f e) = n'" and "\<And>e. ob_max_attempts (f e) = ob_max_attempts e"
  shows "event_at i st' n' mx (update_outbox now (held i None) f d)"
proof -
  from assms(1) obtain e where e: "e \<in> set (outbox d)" "ob_id e = i" "ob_status e = st" "ob_attempts e = n" "ob_max_attempts e = mx"
    by (auto simp: event_at_def)
  then have "held i None e" using assms(2) by (auto simp: held_def)
  then have "(f e)\<lparr>ob_updated_at := now\<rparr> \<in> set (outbox (update_outbox now (held i None) f d))"
    using e(1) by (auto simp: update_outbox_def updateMany_def intro!: rev_image_eqI)
  moreover have "map ob_id (outbox (update_outbox now (held i None) f d)) = map ob_id (outbox d)"
    using assms(3) by (auto simp: update_outbox_def updateMany_def)
  moreover have "ob_id ((f e)\<lparr>ob_updated_at := now\<rparr>) = i \<and> ob_status ((f e)\<lparr>ob_updated_at := now\<rparr>) = st' \<and>
     ob_attempts ((f e)\<lparr>ob_updated_at := now\<rparr>) = n' \<and> ob_max_attempts ((f e)\<lparr>ob_updated_at := now\<rparr>) = mx"
    using e assms(3-6) by simp
  ultimately show ?thesis using assms(1) unfolding event_at_def by metis
qed

lemma mark_success_at:
  "event_at i st n mx d \<Longrightarrow> st \<in> {''PENDING'', ''PROCESSING''} \<Longrightarrow> event_at i ''SENT'' n mx (snd (markEventSuccess now i None d))"
  unfolding markEventSuccess_def snd_conv by (rule event_at_update) simp_all

lemma mark_failure_at:
  assumes ev: "event_at i st n mx d" and st: "st \<in> {''PENDING'', ''PROCESSING''}"
  shows "event_at i (if p \<or> n + 1 \<ge> mx then ''FAILED'' else ''PENDING'') (n + 1) mx (snd (markEventFailure now i m p None d))"
proof -
  from ev obtain e where e: "e \<in> set (outbox d)" "ob_id e = i" "ob_status e = st" "ob_attempts e = n" "ob_max_attempts e = mx"
      and dist: "distinct (map ob_id (outbox d))" by (auto simp: event_at_def)
  obtain x where x: "findFirst (held i None) (outbox d) = Some x"
    using e st by (metis findFirst_None held_def insertCI insertE option.exhaust option.simps(4) singletonD)
  then have "x \<in> set (outbox d)" "ob_id x = i" using findFirst_Some [OF x] by (auto simp: held_def)
  then have "x = e" using key_unique [of ob_id "outbox d" x e] dist e by simp
  then have "snd (markEventFailure now i m p None d) = update_outbox now (held i None)
      (if p \<or> n + 1 \<ge> mx then failed_event now (n + 1) m else retried_event now (n + 1) m) d"
    using x e by (simp add: markEventFailure_def Let_def)
  moreover have "event_at i ''FAILED'' (n + 1) mx (update_outbox now (held i None) (failed_event now (n + 1) m) d)"
    by (rule event_at_update [OF ev st]) (simp_all add: failed_event_def)
  moreover have "event_at i ''PENDING'' (n + 1) mx (update_outbox now (held i None) (retried_event now (n + 1) m) d)"
    by (rule event_at_update [OF ev st]) (simp_all add: retried_event_def)
  ultimately show ?thesis by simp
qed

lemma attempt_at:
  assumes ev: "event_at i st n mx d" and st: "st \<in> {''PENDING'', ''PROCESSING''}"
  shows "\<exists>st' n'. event_at i st' n' mx (attempt i x d) \<and>
    (st' = ''SENT'' \<and> n' = n \<or> st' = ''FAILED'' \<and> n' = n + 1 \<or> st' = ''PENDING'' \<and> n' = n + 1 \<and> n' < mx)"
proof -
  obtain now sa fa where x: "x = (now, sa, fa)" by (metis surj_pair)
  from ev obtain e where e: "e \<in> set (outbox d)" "ob_id e = i" "ob_status e = st" and dist: "distinct (map ob_id (outbox d))"
    by (auto simp: event_at_def)
  have at: "attempt i x d = executeRecordDelivery now sa fa e d"
    using findUnique_distinct [OF dist e(1)] e(2,3) st by (simp add: attempt_def x)
  obtain s d1 where ds: "deliver_socket now sa e d = (s, d1)" by (cases "deliver_socket now sa e d")
  obtain g1 where g1: "rowwise i g1 d d1" "channel_effect Socket (co_delivered s) e g1"
    using socket_row [of e d now sa] ds e(2) by auto
  have ev1: "event_at i st n mx d1"
    using event_at_lifecycle [OF g1(1) _ ev] g1(2) by (simp add: channel_effect_def)
  obtain out d2 where df: "deliver_fcm now fa e d1 = (out, d2)" by (cases "deliver_fcm now fa e d1")
  have ev2: "event_at i st n mx d2"
    using fcm_row [OF df] ev1 event_at_lifecycle [OF _ _ ev1, of _ d2] e(2) by (auto simp: channel_effect_def)
  have fails: "\<exists>st' n'. event_at i st' n' mx (snd (markEventFailure now i m p None d2)) \<and>
    (st' = ''SENT'' \<and> n' = n \<or> st' = ''FAILED'' \<and> n' = n + 1 \<or> st' = ''PENDING'' \<and> n' = n + 1 \<and> n' < mx)" for m p
  proof (intro exI conjI)
    show "event_at i (if p \<or> n + 1 \<ge> mx then ''FAILED'' else ''PENDING'') (n + 1) mx (snd (markEventFailure now i m p None d2))"
      by (rule mark_failure_at [OF ev2 st])
  qed auto
  have succ: "\<exists>st' n'. event_at i st' n' mx (snd (markEventSuccess now i None d2)) \<and>
    (st' = ''SENT'' \<and> n' = n \<or> st' = ''FAILED'' \<and> n' = n + 1 \<or> st' = ''PENDING'' \<and> n' = n + 1 \<and> n' < mx)"
    using mark_success_at [OF ev2 st] by blast
  show ?thesis
  proof (cases out)
    case (Inl y)
    obtain m p where "y = (m, p)" by (cases y)
    with Inl fails at ds df e(2) show ?thesis by (simp add: executeRecordDelivery_def)
  next
    case (Inr f)
    then have "attempt i x d = settle now i s f d2" using at ds df e(2) by (simp add: executeRecordDelivery_def)
    with fails succ show ?thesis by (simp add: settle_def Let_def)
  qed
qed

lemma attempt_closed:
  assumes "event_at i st n mx d" and "st \<in> {''SENT'', ''FAILED''}"
  shows "attempt i x d = d"
proof -
  from assms obtain e where e: "e \<in> set (outbox d)" "ob_id e = i" "ob_status e = st" and "distinct (map ob_id (outbox d))"
    by (auto simp: event_at_def)
  then have "findUnique ob_id i (outbox d) = Some e" using findUnique_distinct [of ob_id "outbox d" e] by simp
  with e assms(2) show ?thesis by (cases x) (auto simp: attempt_def)
qed

lemma attempts_closed: "event_at i st n mx d \<Longrightarrow> st \<in> {''SENT'', ''FAILED''} \<Longrightarrow> fold (attempt i) xs d = d"
  by (induction xs) (simp_all only: fold_simps attempt_closed)

lemma attempts_end:
  "event_at i st n mx d \<Longrightarrow> st \<in> {''PENDING'', ''PROCESSING''} \<Longrightarrow> n < mx \<Longrightarrow> nat (mx - n) \<le> length xs \<Longrightarrow>
   \<exists>st' n'. event_at i st' n' mx (fold (attempt i) xs d) \<and> st' \<in> {''SENT'', ''FAILED''} \<and> n' \<le> mx"
proof (induction xs arbitrary: st n d)
  case (Cons x xs)
  from attempt_at [OF Cons.prems(1,2), of x] obtain st' n' where a: "event_at i st' n' mx (attempt i x d)"
    "st' = ''SENT'' \<and> n' = n \<or> st' = ''FAILED'' \<and> n' = n + 1 \<or> st' = ''PENDING'' \<and> n' = n + 1 \<and> n' < mx" by blast
  show ?case
  proof (cases "st' \<in> {''SENT'', ''FAILED''}")
    case True
    then have "fold (attempt i) (x # xs) d = attempt i x d" using attempts_closed [OF a(1)] by simp
    moreover have "n' \<le> mx" using a(2) Cons.prems(3) by auto
    ultimately show ?thesis using a(1) True by metis
  next
    case False
    with a(2) have p: "st' = ''PENDING''" "n' = n + 1" "n' < mx" by auto
    then have "\<exists>s m. event_at i s m mx (fold (attempt i) xs (attempt i x d)) \<and> s \<in> {''SENT'', ''FAILED''} \<and> m \<le> mx"
      using Cons.prems(4) by (intro Cons.IH [OF a(1)]) auto
    then show ?thesis by simp
  qed
qed simp

section \<open>Properties\<close>


definition sample_dto :: CreateOutboxEventDTO where
  "sample_dto = \<lparr>oe_eventType = ''PAYMENT_COMPLETED'', oe_aggregateType = ''payment'', oe_aggregateId = ''p1'',
     oe_aggregateVersion = None, oe_recipientType = ''customer'', oe_recipientId = ''u1'', oe_payload = [],
     oe_idempotencyKey = None\<rparr>"

text \<open>The socket emit works and the push fails, twice; the retry does not emit again.\<close>

definition sample_outbox_requests :: "outbox_request list" where
  "sample_outbox_requests = [Enqueue 0 ''e1'' sample_dto,
     Batch RUNNING 1 20 5 (\<lambda>_. (Emitted, FcmThrows None False)), Batch RUNNING 60000 20 5 (\<lambda>_. (Emitted, FcmThrows None False))]"


text \<open>
  C24. Retries end: whatever the channels answer, an open event is SENT or FAILED after at most the
  attempts it has left, and its counter never passes the maximum.
\<close>

theorem retries_end:
  assumes "distinct (map ob_id (outbox d))" and "e \<in> set (outbox d)" and "ob_status e \<in> {''PENDING'', ''PROCESSING''}"
    and "ob_attempts e < ob_max_attempts e" and "nat (ob_max_attempts e - ob_attempts e) \<le> length answers"
  shows "\<exists>e' \<in> set (outbox (fold (attempt (ob_id e)) answers d)). ob_id e' = ob_id e \<and>
    ob_status e' \<in> {''SENT'', ''FAILED''} \<and> ob_attempts e' \<le> ob_max_attempts e"
proof -
  have "event_at (ob_id e) (ob_status e) (ob_attempts e) (ob_max_attempts e) d"
    using assms(1,2) by (auto simp: event_at_def)
  from attempts_end [OF this assms(3-5)] show ?thesis by (fastforce simp: event_at_def)
qed

theorem retries_end_witness:
  "\<exists>e' \<in> set (outbox (fold (attempt ''e1'') (replicate 5 (9, EmitThrows ''x'', FcmThrows None False))
       (empty_db\<lparr>outbox := [new_outbox ''e1'' 0 sample_dto]\<rparr>))). ob_status e' \<in> {''SENT'', ''FAILED''} \<and> ob_attempts e' \<le> 5"
  using retries_end [of "empty_db\<lparr>outbox := [new_outbox ''e1'' 0 sample_dto]\<rparr>" "new_outbox ''e1'' 0 sample_dto"
      "replicate 5 (9, EmitThrows ''x'', FcmThrows None False)"]
  by (simp add: new_outbox_def del: fold_replicate replicate.simps) blast

end
