(* ===== verification/Payment_Provider.thy ===== *)
theory Payment_Provider
  imports Schema
begin

text \<open>
  The payment provider's adapter \<^verbatim>\<open>src/providers/razorpay/razorpayProvider.ts\<close> and the configuration
  \<^verbatim>\<open>src/config/paymentConfig.ts\<close>. The answers of the Razorpay SDK and the HMAC function are arguments;
  what the adapter checks of an answer, and how it maps failures, is modelled.
\<close>

section \<open>Configuration\<close>

definition KNOWN_INSECURE_PAYMENT_VALUES :: "string list" where
  "KNOWN_INSECURE_PAYMENT_VALUES = [''test'', ''secret'', ''password'', ''razorpay'', ''key_id'', ''key_secret'',
     ''webhook_secret'', ''changeme'', ''your_key_id'', ''your_key_secret'', ''your_webhook_secret'']"

definition validatePaymentSecret :: "string option \<Rightarrow> nat \<Rightarrow> error + string" where
  "validatePaymentSecret v minLength =
     (case v of None \<Rightarrow> Inl (PlainError ''missing'')
      | Some s \<Rightarrow>
          let trimmed = trim s
          in if length trimmed = 0 then Inl (PlainError ''empty'')
             else if toLowerCase trimmed \<in> set KNOWN_INSECURE_PAYMENT_VALUES then Inl (PlainError ''known insecure'')
             else if length trimmed < minLength then Inl (PlainError ''too short'')
             else Inr trimmed)"

record payment_env =
  pe_nodeEnv :: string
  pe_keyId :: "string option"
  pe_keySecret :: "string option"
  pe_webhookSecret :: "string option"

record PaymentConfig =
  pc_keyId :: string
  pc_keySecret :: string
  pc_webhookSecret :: string
  pc_currency :: string
  pc_isTestMode :: bool

definition trimmed_or_empty :: "string option \<Rightarrow> string" where
  "trimmed_or_empty v = (case v of None \<Rightarrow> [] | Some s \<Rightarrow> trim s)"

definition getPaymentConfig :: "payment_env \<Rightarrow> error + PaymentConfig" where
  "getPaymentConfig env =
     (let config = Inr \<lparr>pc_keyId = trimmed_or_empty (pe_keyId env), pc_keySecret = trimmed_or_empty (pe_keySecret env),
            pc_webhookSecret = trimmed_or_empty (pe_webhookSecret env), pc_currency = ''INR'',
            pc_isTestMode = (pe_nodeEnv env \<noteq> ''production'')\<rparr>
      in if pe_nodeEnv env = ''production'' then
           (case validatePaymentSecret (pe_keyId env) 10 of Inl e \<Rightarrow> Inl e | Inr _ \<Rightarrow>
           (case validatePaymentSecret (pe_keySecret env) 10 of Inl e \<Rightarrow> Inl e | Inr _ \<Rightarrow>
           (case validatePaymentSecret (pe_webhookSecret env) 10 of Inl e \<Rightarrow> Inl e | Inr _ \<Rightarrow> config)))
         else config)"

section \<open>Orders\<close>

text \<open>A provider error: its code and HTTP status.\<close>

record RazorpayProviderError =
  pe_code :: string
  pe_statusCode :: int

definition provider_error :: "string \<Rightarrow> int \<Rightarrow> RazorpayProviderError" where
  "provider_error c s = \<lparr>pe_code = c, pe_statusCode = s\<rparr>"

text \<open>The SDK throws, or returns an order; an amount that is not a number is \<open>None\<close>.\<close>

datatype sdk_order = OrderThrows | OrderReturned "string option" "int option" "string option"

record RazorpayOrderResult =
  ro_orderId :: string
  ro_amount :: int
  ro_currency :: string

definition getRazorpayInstance :: "PaymentConfig \<Rightarrow> RazorpayProviderError + unit" where
  "getRazorpayInstance cfg =
     (if pc_keyId cfg = [] \<or> pc_keySecret cfg = [] then Inl (provider_error ''PAYMENT_NOT_CONFIGURED'' 503) else Inr ())"

definition check_order :: "int \<Rightarrow> string \<Rightarrow> sdk_order \<Rightarrow> RazorpayProviderError + RazorpayOrderResult" where
  "check_order amountPaise currency ans =
     (case ans of
        OrderThrows \<Rightarrow> Inl (provider_error ''PAYMENT_ORDER_CREATION_FAILED'' 502)
      | OrderReturned oid amount cur \<Rightarrow>
          if (case oid of None \<Rightarrow> True | Some i \<Rightarrow> trim i = []) then Inl (provider_error ''PAYMENT_PROVIDER_RESPONSE_INVALID'' 502)
          else if amount \<noteq> Some amountPaise then Inl (provider_error ''PAYMENT_AMOUNT_MISMATCH'' 502)
          else let returned = toUpperCase (case cur of None \<Rightarrow> [] | Some c \<Rightarrow> c)
               in if returned \<noteq> toUpperCase currency then Inl (provider_error ''PAYMENT_CURRENCY_MISMATCH'' 502)
                  else Inr \<lparr>ro_orderId = the oid, ro_amount = amountPaise, ro_currency = returned\<rparr>)"

definition razorpayCreateOrder ::
  "PaymentConfig \<Rightarrow> sdk_order \<Rightarrow> int \<Rightarrow> string \<Rightarrow> RazorpayProviderError + RazorpayOrderResult" where
  "razorpayCreateOrder cfg ans amountPaise currency =
     (if amountPaise \<le> 0 then Inl (provider_error ''PAYMENT_AMOUNT_INVALID'' 422)
      else if currency \<noteq> ''INR'' then Inl (provider_error ''PAYMENT_CURRENCY_UNSUPPORTED'' 422)
      else case getRazorpayInstance cfg of Inl e \<Rightarrow> Inl e
         | Inr _ \<Rightarrow> check_order amountPaise currency ans)"

section \<open>Webhook signatures\<close>

definition hex_digit :: "char \<Rightarrow> nat option" where
  "hex_digit c = (let n = (of_char c :: nat) in
     if 48 \<le> n \<and> n \<le> 57 then Some (n - 48)
     else if 97 \<le> n \<and> n \<le> 102 then Some (n - 87)
     else if 65 \<le> n \<and> n \<le> 70 then Some (n - 55) else None)"

text \<open>\<^verbatim>\<open>Buffer.from(s, "hex")\<close>: pairs of digits up to the first that is not one.\<close>

fun hex_bytes :: "string \<Rightarrow> nat list" where
  "hex_bytes (a # b # s) =
     (case (hex_digit a, hex_digit b) of (Some x, Some y) \<Rightarrow> (16 * x + y) # hex_bytes s | _ \<Rightarrow> [])"
| "hex_bytes _ = []"

definition verifyWebhookSignature :: "(string \<Rightarrow> string \<Rightarrow> string) \<Rightarrow> string \<Rightarrow> string \<Rightarrow> string \<Rightarrow> bool" where
  "verifyWebhookSignature hmac rawBody signature secret =
     (if trim secret = [] \<or> trim signature = [] \<or> rawBody = [] then False
      else let expected = hex_bytes (hmac (trim secret) rawBody); received = hex_bytes (trim signature)
           in if length expected \<noteq> length received \<or> length expected = 0 then False else expected = received)"

section \<open>Refunds and reconciliation\<close>

datatype sdk_refund = RefundThrows | RefundReturned "string option" "int option" "string option" "string option"

record RazorpayRefundResult =
  rr_refundId :: string
  rr_amount :: int
  rr_currency :: string
  rr_status :: string

text \<open>\<^verbatim>\<open>a || b\<close> on numbers.\<close>

definition num_or :: "int option \<Rightarrow> int \<Rightarrow> int" where
  "num_or a b = (case a of None \<Rightarrow> b | Some n \<Rightarrow> if n = 0 then b else n)"

definition razorpayCreateRefund ::
  "PaymentConfig \<Rightarrow> sdk_refund \<Rightarrow> string \<Rightarrow> int option \<Rightarrow> RazorpayProviderError + RazorpayRefundResult" where
  "razorpayCreateRefund cfg ans paymentId amountPaise =
     (if trim paymentId = [] then Inl (provider_error ''REFUND_INVALID_PAYMENT_ID'' 422)
      else if (case amountPaise of None \<Rightarrow> False | Some n \<Rightarrow> n \<le> 0) then Inl (provider_error ''REFUND_AMOUNT_INVALID'' 422)
      else case getRazorpayInstance cfg of Inl e \<Rightarrow> Inl e
         | Inr _ \<Rightarrow>
        (case ans of
           RefundThrows \<Rightarrow> Inl (provider_error ''REFUND_PROVIDER_FAILED'' 502)
         | RefundReturned rid amount cur status \<Rightarrow>
             if (case rid of None \<Rightarrow> True | Some i \<Rightarrow> trim i = []) then Inl (provider_error ''REFUND_PROVIDER_RESPONSE_INVALID'' 502)
             else Inr \<lparr>rr_refundId = the rid, rr_amount = num_or amount (num_or amountPaise 0),
                       rr_currency = toUpperCase (js_or cur ''INR''), rr_status = js_or status ''processed''\<rparr>))"

datatype sdk_payment = FetchThrows | PaymentFetched string "int option" "string option"

record provider_payment =
  pp_status :: string
  pp_amountRefunded :: int
  pp_refundStatus :: "string option"

definition fetchPayment :: "PaymentConfig \<Rightarrow> sdk_payment \<Rightarrow> RazorpayProviderError + provider_payment" where
  "fetchPayment cfg ans =
     (case getRazorpayInstance cfg of Inl e \<Rightarrow> Inl e
      | Inr _ \<Rightarrow>
     (case ans of
        FetchThrows \<Rightarrow> Inl (provider_error ''FETCH_PAYMENT_FAILED'' 502)
      | PaymentFetched status refunded rstatus \<Rightarrow>
          Inr \<lparr>pp_status = status, pp_amountRefunded = num_or refunded 0,
               pp_refundStatus = (if truthy rstatus then rstatus else None)\<rparr>))"

section \<open>Lemmas\<close>

text \<open>An order the adapter accepts is for exactly the amount and currency that were asked for.\<close>

lemma createOrder_exact:
  "razorpayCreateOrder cfg ans n cur = Inr r \<Longrightarrow> ro_amount r = n \<and> 0 < n \<and> cur = ''INR'' \<and> ro_currency r = ''INR'' \<and> ro_orderId r \<noteq> []"
  by (auto simp: razorpayCreateOrder_def check_order_def Let_def js_simps trim_Nil toUpperCase_def upper_char_def
      split: if_splits sum.splits sdk_order.splits option.splits)

text \<open>Every refusal of the provider itself arrives as a 502: only the local checks give a 4xx status.\<close>

lemma refund_refusal_ambiguous:
  "trim pid \<noteq> [] \<Longrightarrow> amountPaise = None \<Longrightarrow> razorpayCreateRefund cfg ans pid amountPaise = Inl e \<Longrightarrow> pe_statusCode e \<ge> 500"
  by (auto simp: razorpayCreateRefund_def getRazorpayInstance_def provider_error_def split: if_splits sdk_refund.splits)

lemma verify_needs_secret: "verifyWebhookSignature hmac body sig secret \<Longrightarrow> trim secret \<noteq> [] \<and> trim sig \<noteq> [] \<and> body \<noteq> []"
  by (auto simp: verifyWebhookSignature_def split: if_splits)

end
