(* ===== verification/Payments.thy ===== *)
theory Payments
  imports Outbox Payment_Provider Policies
begin

text \<open>
  The payment service, \<^verbatim>\<open>src/features/payment/paymentServices.ts\<close>: the status machine, order creation,
  the webhook with its three handlers, status reads and refunds.

  An operation that talks to the provider between two database steps is split there: the steps are
  definitions of their own, and \<open>createOrder\<close> and \<open>refundPayment\<close> compose them. The provider's answers
  (through \<open>Payment_Provider\<close>), the parsed webhook body, generated ids and the clock are arguments. The
  \<^verbatim>\<open>title\<close> and \<^verbatim>\<open>body\<close> texts of notifications, metrics, logs and the best-effort audit record are left
  out; an error keeps its code and status, and its code stands for its message where one is stored.
\<close>

section \<open>The status machine\<close>

datatype PaymentStatus =
    PENDING | COMPLETED | FAILED | REFUND_PENDING | REFUNDED | REFUND_FAILED | REFUND_UNKNOWN

fun payment_status_str :: "PaymentStatus \<Rightarrow> string" where
  "payment_status_str PENDING = ''PENDING''"
| "payment_status_str COMPLETED = ''COMPLETED''"
| "payment_status_str FAILED = ''FAILED''"
| "payment_status_str REFUND_PENDING = ''REFUND_PENDING''"
| "payment_status_str REFUNDED = ''REFUNDED''"
| "payment_status_str REFUND_FAILED = ''REFUND_FAILED''"
| "payment_status_str REFUND_UNKNOWN = ''REFUND_UNKNOWN''"

fun LEGAL_PAYMENT_TRANSITIONS :: "PaymentStatus \<Rightarrow> PaymentStatus list" where
  "LEGAL_PAYMENT_TRANSITIONS PENDING = [COMPLETED, FAILED]"
| "LEGAL_PAYMENT_TRANSITIONS COMPLETED = [REFUND_PENDING]"
| "LEGAL_PAYMENT_TRANSITIONS REFUND_PENDING = [REFUNDED, REFUND_FAILED, REFUND_UNKNOWN]"
| "LEGAL_PAYMENT_TRANSITIONS REFUND_UNKNOWN = [REFUNDED, REFUND_PENDING, REFUND_FAILED]"
| "LEGAL_PAYMENT_TRANSITIONS REFUND_FAILED = [REFUND_PENDING]"
| "LEGAL_PAYMENT_TRANSITIONS FAILED = [PENDING]"
| "LEGAL_PAYMENT_TRANSITIONS REFUNDED = []"

definition PAYABLE_BOOKING_STATUSES :: "string list" where
  "PAYABLE_BOOKING_STATUSES = [''confirmed'', ''CONFIRMED'', ''OTP_PENDING'', ''PENDING'']"

definition has_status :: "PaymentStatus \<Rightarrow> payment \<Rightarrow> bool" where
  "has_status s p \<longleftrightarrow> py_status p = Some (payment_status_str s)"

definition update_payment :: "timestamp \<Rightarrow> (payment \<Rightarrow> bool) \<Rightarrow> (payment \<Rightarrow> payment) \<Rightarrow> db \<Rightarrow> db" where
  "update_payment now hit f d = d\<lparr>payments := updateMany hit (\<lambda>p. (f p)\<lparr>py_updated_at := now\<rparr>) (payments d)\<rparr>"

text \<open>The metadata is an update of the row.\<close>

definition transitionPaymentStatus ::
  "timestamp \<Rightarrow> uuid \<Rightarrow> PaymentStatus \<Rightarrow> PaymentStatus \<Rightarrow> (payment \<Rightarrow> payment) \<Rightarrow> db \<Rightarrow> error + (bool \<times> db)" where
  "transitionPaymentStatus now pid from to metadata d =
     (if to \<notin> set (LEGAL_PAYMENT_TRANSITIONS from) then Inl (PaymentError ''PAYMENT_INVALID_STATE_TRANSITION'' 409)
      else let hit = (\<lambda>p. py_id p = pid \<and> has_status from p)
           in Inr (countWhere hit (payments d) > 0,
                   update_payment now hit (\<lambda>p. metadata (p\<lparr>py_status := Some (payment_status_str to)\<rparr>)) d))"

section \<open>createOrder\<close>

record PaymentOrderResponse =
  or_paymentId :: uuid
  or_orderId :: string
  or_amount :: int
  or_currency :: string
  or_status :: string
  or_bookingId :: uuid

text \<open>Steps 1 to 3: ownership, payable state, and the amount derived from the requirement's rate.\<close>

definition order_quote :: "uuid \<Rightarrow> uuid \<Rightarrow> db \<Rightarrow> error + int" where
  "order_quote bookingId customerId d =
     (case findFirst (\<lambda>b. bk_id b = bookingId \<and> bk_customer_id b = customerId) (bookings d) of
        None \<Rightarrow> Inl (PaymentError ''PAYMENT_NOT_AUTHORIZED'' 403)
      | Some b \<Rightarrow>
          if bk_status b \<notin> set PAYABLE_BOOKING_STATUSES then Inl (PaymentError ''PAYMENT_NOT_PAYABLE'' 409)
          else case findUnique rq_id (bk_requirement_id b) (requirements d) of
            None \<Rightarrow> Inl (PaymentError ''PAYMENT_RATE_MISSING'' 422)
          | Some r \<Rightarrow>
              (case rq_rate_per_day r of
                 None \<Rightarrow> Inl (PaymentError ''PAYMENT_RATE_MISSING'' 422)
               | Some rate \<Rightarrow> if rate \<le> 0 then Inl (PaymentError ''PAYMENT_RATE_MISSING'' 422) else Inr (rate * 100)))"

definition order_response :: "int \<Rightarrow> uuid \<Rightarrow> payment \<Rightarrow> PaymentOrderResponse" where
  "order_response amountPaise bookingId p =
     \<lparr>or_paymentId = py_id p, or_orderId = the (py_order_id p),
      or_amount = (case py_amount p of None \<Rightarrow> amountPaise | Some n \<Rightarrow> n), or_currency = py_currency p,
      or_status = (case py_status p of None \<Rightarrow> ''PENDING'' | Some s \<Rightarrow> s), or_bookingId = bookingId\<rparr>"

text \<open>
  Step 5, after the read of step 4: the claim. \<open>Claimed\<close> makes this request the one that calls the
  provider, \<open>Contender\<close> resolves to somebody else's order, \<open>Settled\<close> is the idempotent answer of step 4.
\<close>

datatype order_turn = Settled PaymentOrderResponse | Claimed payment | Contender "payment option"

definition new_payment :: "timestamp \<Rightarrow> uuid \<Rightarrow> uuid \<Rightarrow> int \<Rightarrow> string \<Rightarrow> payment" where
  "new_payment now pid bookingId amountPaise currency =
     \<lparr>py_id = pid, py_booking_id = bookingId, py_order_id = None, py_payment_id = None, py_refund_id = None,
      py_status = Some ''PENDING'', py_amount = Some amountPaise, py_currency = currency, py_refund_amount = None,
      py_refund_status = None, py_refund_reason = None, py_quarantine_reason = None,
      py_idempotency_key = Some bookingId, py_created_at = now, py_updated_at = now\<rparr>"

text \<open>The amount column is a 32-bit integer and the booking id is unique.\<close>

definition create_payment :: "payment \<Rightarrow> db \<Rightarrow> error + db" where
  "create_payment p d =
     (if the (py_amount p) > 2147483647 then Inl (PlainError ''integer out of range'')
      else if list_ex (\<lambda>q. py_id q = py_id p \<or> py_booking_id q = py_booking_id p \<or> py_idempotency_key q = py_idempotency_key p) (payments d)
      then Inl (PrismaUniqueViolation ''booking_id'')
      else Inr (d\<lparr>payments := payments d @ [p]\<rparr>))"

definition order_existing :: "int \<Rightarrow> uuid \<Rightarrow> payment \<Rightarrow> (error + PaymentOrderResponse) option" where
  "order_existing amountPaise bookingId p =
     (if has_status COMPLETED p \<or> has_status REFUNDED p then Some (Inl (PaymentError ''PAYMENT_ALREADY_COMPLETED'' 409))
      else if has_status PENDING p \<and> truthy (py_order_id p) then Some (Inr (order_response amountPaise bookingId p))
      else None)"

definition order_claim ::
  "timestamp \<Rightarrow> uuid \<Rightarrow> uuid \<Rightarrow> int \<Rightarrow> string \<Rightarrow> payment option \<Rightarrow> db \<Rightarrow> (error + order_turn) \<times> db" where
  "order_claim now newId bookingId amountPaise currency existing d =
     (case existing of
        None \<Rightarrow>
          (case create_payment (new_payment now newId bookingId amountPaise currency) d of
             Inr d' \<Rightarrow> (Inr (Claimed (new_payment now newId bookingId amountPaise currency)), d')
           | Inl (PrismaUniqueViolation _) \<Rightarrow> (Inr (Contender (findUnique py_booking_id bookingId (payments d))), d)
           | Inl e \<Rightarrow> (Inl e, d))
      | Some p \<Rightarrow>
          (case order_existing amountPaise bookingId p of
             Some (Inl e) \<Rightarrow> (Inl e, d)
           | Some (Inr r) \<Rightarrow> (Inr (Settled r), d)
           | None \<Rightarrow>
               if has_status FAILED p then
                 (let hit = (\<lambda>q. py_id q = py_id p \<and> has_status FAILED q);
                      d' = update_payment now hit (\<lambda>q. q\<lparr>py_status := Some ''PENDING'', py_amount := Some amountPaise,
                             py_currency := currency, py_order_id := None\<rparr>) d
                  in if countWhere hit (payments d) > 0
                     then (Inr (case findUnique py_id (py_id p) (payments d') of None \<Rightarrow> Contender None | Some q \<Rightarrow> Claimed q), d')
                     else (Inr (Contender (findUnique py_id (py_id p) (payments d))), d))
               else (Inr (Contender (Some p)), d)))"

text \<open>Step 6: the claimant records what the provider answered.\<close>

definition order_failed :: "timestamp \<Rightarrow> uuid \<Rightarrow> string \<Rightarrow> db \<Rightarrow> db" where
  "order_failed now pid reason d =
     update_payment now (\<lambda>p. py_id p = pid \<and> py_order_id p = None)
       (\<lambda>p. p\<lparr>py_status := Some ''FAILED'', py_quarantine_reason := Some reason\<rparr>) d"

definition order_persist ::
  "timestamp \<Rightarrow> uuid \<Rightarrow> uuid \<Rightarrow> RazorpayOrderResult \<Rightarrow> db \<Rightarrow> (error + PaymentOrderResponse) \<times> db" where
  "order_persist now bookingId pid r d =
     (if list_ex (\<lambda>p. py_order_id p = Some (ro_orderId r) \<and> py_id p \<noteq> pid) (payments d) \<or>
         findUnique py_id pid (payments d) = None
      then (Inl (PaymentError ''PAYMENT_PERSISTENCE_FAILED'' 500), d)
      else
        (Inr \<lparr>or_paymentId = pid, or_orderId = ro_orderId r, or_amount = ro_amount r, or_currency = ro_currency r,
              or_status = ''PENDING'', or_bookingId = bookingId\<rparr>,
         update_payment now (\<lambda>p. py_id p = pid)
           (\<lambda>p. p\<lparr>py_order_id := Some (ro_orderId r), py_amount := Some (ro_amount r), py_currency := ro_currency r,
                   py_status := Some ''PENDING''\<rparr>) d))"

definition order_finish ::
  "timestamp \<Rightarrow> uuid \<Rightarrow> uuid \<Rightarrow> (RazorpayProviderError + RazorpayOrderResult) \<Rightarrow> db \<Rightarrow> (error + PaymentOrderResponse) \<times> db" where
  "order_finish now bookingId pid answer d =
     (case answer of
        Inl e \<Rightarrow> (Inl (PaymentError (pe_code e) (pe_statusCode e)), order_failed now pid (pe_code e) d)
      | Inr r \<Rightarrow> order_persist now bookingId pid r d)"

text \<open>Step 7: a contender polls; each element is the row one of the 25 reads finds.\<close>

fun order_poll :: "int \<Rightarrow> uuid \<Rightarrow> payment option list \<Rightarrow> error + PaymentOrderResponse" where
  "order_poll amountPaise bookingId [] = Inl (PaymentError ''PAYMENT_ORDER_CREATION_IN_PROGRESS'' 409)"
| "order_poll amountPaise bookingId (None # rs) = order_poll amountPaise bookingId rs"
| "order_poll amountPaise bookingId (Some p # rs) =
     (if truthy (py_order_id p) then Inr (order_response amountPaise bookingId p)
      else if has_status FAILED p then Inl (PaymentError ''PAYMENT_ORDER_CREATION_FAILED'' 502)
      else order_poll amountPaise bookingId rs)"

definition maxPollAttempts :: nat where
  "maxPollAttempts = 25"

definition order_contend :: "int \<Rightarrow> uuid \<Rightarrow> payment option \<Rightarrow> payment option list \<Rightarrow> error + PaymentOrderResponse" where
  "order_contend amountPaise bookingId p reads =
     (case p of
        Some q \<Rightarrow> if truthy (py_order_id q) then Inr (order_response amountPaise bookingId q)
                  else order_poll amountPaise bookingId (take maxPollAttempts reads)
      | None \<Rightarrow> order_poll amountPaise bookingId (take maxPollAttempts reads))"

text \<open>The whole request when nobody else interferes: every poll reads the same row.\<close>

definition createOrder ::
  "PaymentConfig \<Rightarrow> (uuid \<Rightarrow> sdk_order) \<Rightarrow> timestamp \<Rightarrow> uuid \<Rightarrow> uuid \<Rightarrow> uuid \<Rightarrow> db
   \<Rightarrow> (error + PaymentOrderResponse) \<times> db" where
  "createOrder cfg sdk now newId bookingId customerId d =
     (case order_quote bookingId customerId d of Inl e \<Rightarrow> (Inl e, d)
      | Inr amountPaise \<Rightarrow>
     (let currency = (if pc_currency cfg = [] then ''INR'' else pc_currency cfg)
      in case order_claim now newId bookingId amountPaise currency (findUnique py_booking_id bookingId (payments d)) d of
           (Inl e, d1) \<Rightarrow> (Inl e, d1)
         | (Inr (Settled r), d1) \<Rightarrow> (Inr r, d1)
         | (Inr (Claimed p), d1) \<Rightarrow>
             order_finish now bookingId (py_id p) (razorpayCreateOrder cfg (sdk (py_id p)) amountPaise currency) d1
         | (Inr (Contender p), d1) \<Rightarrow>
             (order_contend amountPaise bookingId p
                (replicate maxPollAttempts (findUnique py_booking_id bookingId (payments d1))), d1)))"

section \<open>Webhooks\<close>

text \<open>The parts of the parsed body the handler reads.\<close>

record payment_entity =
  en_id :: "string option"
  en_order_id :: "string option"
  en_amount :: "int option"
  en_currency :: "string option"

record refund_entity =
  rf_id :: "string option"
  rf_payment_id :: "string option"
  rf_amount :: "int option"

record webhook_body =
  wb_event :: "string option"
  wb_payment :: "payment_entity option"
  wb_refund :: "refund_entity option"

datatype webhook_outcome =
    NoIdentity | Ignored | MissingIdentifiers | DuplicateEvent | NoLocalPayment | AmountMismatch | CurrencyMismatch
  | Captured | AlreadyCompleted | PaymentFailed | AlreadyTransitioned | RefundRecorded

definition deriveWebhookEventId :: "string \<Rightarrow> string option \<Rightarrow> string option \<Rightarrow> string option" where
  "deriveWebhookEventId eventType paymentEntityId orderId =
     (if eventType = ''payment.captured'' \<and> truthy paymentEntityId then paymentEntityId
      else if eventType = ''payment.failed'' \<and> truthy orderId then Some (the orderId @ '':failed'')
      else if startsWith eventType ''refund.'' \<and> truthy paymentEntityId then Some (the paymentEntityId @ '':'' @ eventType)
      else if truthy orderId then Some (the orderId @ '':'' @ eventType)
      else None)"

definition is_event :: "string \<Rightarrow> webhook_event \<Rightarrow> bool" where
  "is_event i e \<longleftrightarrow> we_provider e = ''razorpay'' \<and> we_event_id e = i"

definition create_webhook :: "string \<Rightarrow> string \<Rightarrow> db \<Rightarrow> error + db" where
  "create_webhook i eventType d =
     (if list_ex (is_event i) (webhooks d) then Inl (PrismaUniqueViolation ''providerEventId'')
      else Inr (d\<lparr>webhooks := webhooks d @ [\<lparr>we_provider = ''razorpay'', we_event_id = i, we_event_type = eventType,
             we_status = ''PROCESSING'', we_failure_reason = None, we_processed_at = None\<rparr>]\<rparr>))"

definition update_webhook :: "string \<Rightarrow> (webhook_event \<Rightarrow> webhook_event) \<Rightarrow> db \<Rightarrow> db" where
  "update_webhook i f d = d\<lparr>webhooks := updateMany (is_event i) f (webhooks d)\<rparr>"

definition webhook_failed :: "string \<Rightarrow> string \<Rightarrow> db \<Rightarrow> db" where
  "webhook_failed i reason = update_webhook i (\<lambda>e. e\<lparr>we_status := ''FAILED'', we_failure_reason := Some reason\<rparr>)"

definition webhook_processed :: "string \<Rightarrow> timestamp \<Rightarrow> db \<Rightarrow> db" where
  "webhook_processed i now = update_webhook i (\<lambda>e. e\<lparr>we_status := ''PROCESSED'', we_processed_at := Some now\<rparr>)"

definition int_str :: "int \<Rightarrow> string" where
  "int_str n = (if n < 0 then ''-'' @ digits (nat (- n)) else digits (nat n))"

definition opt_json :: "('a \<Rightarrow> json) \<Rightarrow> 'a option \<Rightarrow> json" where
  "opt_json f v = (case v of None \<Rightarrow> JNull | Some x \<Rightarrow> f x)"

text \<open>A field whose value is undefined is not serialised.\<close>

definition opt_field :: "string \<Rightarrow> ('a \<Rightarrow> json) \<Rightarrow> 'a option \<Rightarrow> json_object" where
  "opt_field k f v = (case v of None \<Rightarrow> [] | Some x \<Rightarrow> [(k, f x)])"

definition payment_dto :: "string \<Rightarrow> string \<Rightarrow> uuid \<Rightarrow> payment \<Rightarrow> json_object \<Rightarrow> CreateOutboxEventDTO" where
  "payment_dto event rtype rid p extra =
     \<lparr>oe_eventType = event, oe_aggregateType = ''payment'', oe_aggregateId = py_id p, oe_aggregateVersion = None,
      oe_recipientType = rtype, oe_recipientId = rid,
      oe_payload = [(''paymentId'', JStr (py_id p)), (''bookingId'', JStr (py_booking_id p))] @ extra,
      oe_idempotencyKey = Some (event @ '':payment:'' @ py_id p @ '':'' @ rid)\<rparr>"

text \<open>\<^verbatim>\<open>if (booking?.customer_id)\<close> and the worker likewise.\<close>

definition notify_customer :: "uuid \<Rightarrow> timestamp \<Rightarrow> string \<Rightarrow> payment \<Rightarrow> json_object \<Rightarrow> db \<Rightarrow> db" where
  "notify_customer i now event p extra d =
     (case findUnique bk_id (py_booking_id p) (bookings d) of
        None \<Rightarrow> d
      | Some b \<Rightarrow> if bk_customer_id b = [] then d
                  else snd (createOutboxEvent i now (payment_dto event ''customer'' (bk_customer_id b) p extra) d))"

definition notify_worker :: "uuid \<Rightarrow> timestamp \<Rightarrow> string \<Rightarrow> payment \<Rightarrow> json_object \<Rightarrow> db \<Rightarrow> db" where
  "notify_worker i now event p extra d =
     (case findUnique bk_id (py_booking_id p) (bookings d) of
        None \<Rightarrow> d
      | Some b \<Rightarrow> if bk_worker_id b = [] then d
                  else snd (createOutboxEvent i now (payment_dto event ''worker'' (bk_worker_id b) p extra) d))"

text \<open>The generated ids of the outbox rows.\<close>

record webhook_ids =
  wi_customer :: uuid
  wi_worker :: uuid

definition quarantine :: "timestamp \<Rightarrow> uuid \<Rightarrow> string \<Rightarrow> db \<Rightarrow> db" where
  "quarantine now pid reason = update_payment now (\<lambda>p. py_id p = pid) (\<lambda>p. p\<lparr>py_quarantine_reason := Some reason\<rparr>)"

definition amount_differs :: "int option \<Rightarrow> payment \<Rightarrow> bool" where
  "amount_differs captured p \<longleftrightarrow> captured \<noteq> None \<and> py_amount p \<noteq> None \<and> captured \<noteq> py_amount p"

definition currency_differs :: "string option \<Rightarrow> payment \<Rightarrow> bool" where
  "currency_differs captured p \<longleftrightarrow>
     truthy captured \<and> py_currency p \<noteq> [] \<and> toUpperCase (the captured) \<noteq> toUpperCase (py_currency p)"

definition captured_tx ::
  "timestamp \<Rightarrow> webhook_ids \<Rightarrow> string \<Rightarrow> string \<Rightarrow> string \<Rightarrow> int option \<Rightarrow> string option \<Rightarrow> db
   \<Rightarrow> error + (webhook_outcome \<times> db)" where
  "captured_tx now ids ev orderId paymentId amount currency d =
     (case create_webhook ev ''payment.captured'' d of Inl e \<Rightarrow> Inl e
      | Inr d1 \<Rightarrow>
     (case findUnique py_order_id (Some orderId) (payments d1) of
        None \<Rightarrow> Inr (NoLocalPayment, webhook_failed ev ''No matching local payment'' d1)
      | Some p \<Rightarrow>
          if amount_differs amount p then
            Inr (AmountMismatch, quarantine now (py_id p)
                   (''Amount mismatch: local='' @ int_str (the (py_amount p)) @ ''p, provider='' @ int_str (the amount) @ ''p'')
                   (webhook_failed ev (''Amount mismatch: local='' @ int_str (the (py_amount p)) @
                      '', provider='' @ int_str (the amount)) d1))
          else if currency_differs currency p then
            Inr (CurrencyMismatch, quarantine now (py_id p)
                   (''Currency mismatch: local='' @ py_currency p @ '', provider='' @ the currency)
                   (webhook_failed ev (''Currency mismatch: local='' @ py_currency p @ '', provider='' @ the currency) d1))
          else case transitionPaymentStatus now (py_id p) PENDING COMPLETED (\<lambda>q. q\<lparr>py_payment_id := Some paymentId\<rparr>) d1 of
            Inl e \<Rightarrow> Inl e
          | Inr (False, d2) \<Rightarrow> Inr (AlreadyCompleted, webhook_processed ev now d2)
          | Inr (True, d2) \<Rightarrow>
              (let extra = [(''amount'', opt_json JInt (py_amount p)), (''currency'', JStr (py_currency p))]
               in Inr (Captured, webhook_processed ev now
                    (notify_worker (wi_worker ids) now ''PAYMENT_COMPLETED'' p extra
                      (notify_customer (wi_customer ids) now ''PAYMENT_COMPLETED'' p extra d2))))))"

text \<open>\<^verbatim>\<open>isPrismaUniqueConstraintError\<close>: a duplicate is a success.\<close>

definition dedup :: "(error + webhook_outcome) \<times> db \<Rightarrow> (error + webhook_outcome) \<times> db" where
  "dedup r = (case r of (Inl (PrismaUniqueViolation _), d) \<Rightarrow> (Inr DuplicateEvent, d) | _ \<Rightarrow> r)"

definition processPaymentCaptured ::
  "timestamp \<Rightarrow> webhook_ids \<Rightarrow> string \<Rightarrow> string option \<Rightarrow> string option \<Rightarrow> int option \<Rightarrow> string option \<Rightarrow> db
   \<Rightarrow> (error + webhook_outcome) \<times> db" where
  "processPaymentCaptured now ids ev orderId paymentId amount currency d =
     (if \<not> truthy orderId \<or> \<not> truthy paymentId then (Inr MissingIdentifiers, d)
      else dedup (run_tx (captured_tx now ids ev (the orderId) (the paymentId) amount currency) d))"

definition failed_tx :: "timestamp \<Rightarrow> webhook_ids \<Rightarrow> string \<Rightarrow> string \<Rightarrow> db \<Rightarrow> error + (webhook_outcome \<times> db)" where
  "failed_tx now ids ev orderId d =
     (case create_webhook ev ''payment.failed'' d of Inl e \<Rightarrow> Inl e
      | Inr d1 \<Rightarrow>
     (case findUnique py_order_id (Some orderId) (payments d1) of
        None \<Rightarrow> Inr (NoLocalPayment, webhook_failed ev ''No matching local payment'' d1)
      | Some p \<Rightarrow>
          (case transitionPaymentStatus now (py_id p) PENDING FAILED (\<lambda>q. q) d1 of
             Inr (True, d2) \<Rightarrow> Inr (PaymentFailed, webhook_processed ev now (notify_customer (wi_customer ids) now ''PAYMENT_FAILED'' p [] d2))
           | Inr (False, d2) \<Rightarrow> Inr (AlreadyTransitioned, webhook_processed ev now d2)
           | Inl _ \<Rightarrow> Inr (AlreadyTransitioned, webhook_processed ev now d1))))"

definition processPaymentFailed ::
  "timestamp \<Rightarrow> webhook_ids \<Rightarrow> string \<Rightarrow> string option \<Rightarrow> db \<Rightarrow> (error + webhook_outcome) \<times> db" where
  "processPaymentFailed now ids ev orderId d =
     (if \<not> truthy orderId then (Inr MissingIdentifiers, d) else dedup (run_tx (failed_tx now ids ev (the orderId)) d))"

text \<open>The refund id is unique among payments.\<close>

definition str_or_opt :: "string option \<Rightarrow> string option \<Rightarrow> string option" where
  "str_or_opt a b = (if truthy a then a else b)"

definition int_or_opt :: "int option \<Rightarrow> int option \<Rightarrow> int option" where
  "int_or_opt a b = (if a = None \<or> a = Some 0 then b else a)"

definition refund_id_taken :: "string option \<Rightarrow> uuid \<Rightarrow> db \<Rightarrow> bool" where
  "refund_id_taken rid pid d \<longleftrightarrow> rid \<noteq> None \<and> list_ex (\<lambda>p. py_refund_id p = rid \<and> py_id p \<noteq> pid) (payments d)"

definition refund_tx ::
  "timestamp \<Rightarrow> webhook_ids \<Rightarrow> string \<Rightarrow> string \<Rightarrow> string \<Rightarrow> string option \<Rightarrow> int option \<Rightarrow> db \<Rightarrow> error + (webhook_outcome \<times> db)" where
  "refund_tx now ids ev eventType paymentId refundId amount d =
     (case create_webhook ev eventType d of Inl e \<Rightarrow> Inl e
      | Inr d1 \<Rightarrow>
     (case findFirst (\<lambda>p. py_payment_id p = Some paymentId) (payments d1) of
        None \<Rightarrow> Inr (NoLocalPayment, webhook_failed ev ''No matching payment for refund'' d1)
      | Some p \<Rightarrow>
          if has_status COMPLETED p \<or> has_status REFUND_PENDING p \<or> has_status REFUND_FAILED p \<or> has_status REFUND_UNKNOWN p then
            (let rid = str_or_opt refundId (py_refund_id p)
             in if refund_id_taken rid (py_id p) d1 then Inl (PrismaUniqueViolation ''razorpay_refund_id'')
                else let d2 = update_payment now (\<lambda>q. py_id q = py_id p)
                            (\<lambda>q. q\<lparr>py_status := Some ''REFUNDED'', py_refund_id := rid,
                                    py_refund_amount := int_or_opt amount (py_refund_amount p), py_refund_status := Some ''processed''\<rparr>) d1
                     in Inr (RefundRecorded, webhook_processed ev now
                          (notify_customer (wi_customer ids) now ''REFUND_COMPLETED'' p
                             (opt_field ''refundId'' JStr refundId @ opt_field ''amount'' JInt amount) d2)))
          else if has_status REFUNDED p \<and> \<not> truthy (py_refund_id p) \<and> truthy refundId then
            (if refund_id_taken refundId (py_id p) d1 then Inl (PrismaUniqueViolation ''razorpay_refund_id'')
             else Inr (RefundRecorded, webhook_processed ev now
                    (update_payment now (\<lambda>q. py_id q = py_id p)
                       (\<lambda>q. q\<lparr>py_refund_id := refundId, py_refund_amount := int_or_opt amount (py_refund_amount p),
                               py_refund_status := Some ''processed''\<rparr>) d1)))
          else Inr (RefundRecorded, webhook_processed ev now d1)))"

definition processRefundProcessed ::
  "timestamp \<Rightarrow> webhook_ids \<Rightarrow> string \<Rightarrow> string \<Rightarrow> string option \<Rightarrow> string option \<Rightarrow> int option \<Rightarrow> db
   \<Rightarrow> (error + webhook_outcome) \<times> db" where
  "processRefundProcessed now ids ev eventType paymentId refundId amount d =
     (if \<not> truthy paymentId then (Inr MissingIdentifiers, d)
      else dedup (run_tx (refund_tx now ids ev eventType (the paymentId) refundId amount) d))"

text \<open>Step 5 of \<^verbatim>\<open>handleWebhook\<close>, on the verified and parsed event.\<close>

definition webhook_dispatch :: "timestamp \<Rightarrow> webhook_ids \<Rightarrow> webhook_body \<Rightarrow> db \<Rightarrow> (error + webhook_outcome) \<times> db" where
  "webhook_dispatch now ids w d =
     (let eventType = (case wb_event w of None \<Rightarrow> [] | Some e \<Rightarrow> e);
          orderId = Option.bind (wb_payment w) en_order_id;
          refundPayment = Option.bind (wb_refund w) rf_payment_id;
          paymentId = str_or_opt (Option.bind (wb_payment w) en_id) refundPayment
      in case deriveWebhookEventId eventType paymentId orderId of
           None \<Rightarrow> (Inr NoIdentity, d)
         | Some ev \<Rightarrow>
             if ev = [] then (Inr NoIdentity, d)
             else if eventType = ''payment.captured'' then
               processPaymentCaptured now ids ev orderId paymentId (Option.bind (wb_payment w) en_amount)
                 (Option.bind (wb_payment w) en_currency) d
             else if eventType = ''payment.failed'' then processPaymentFailed now ids ev orderId d
             else if eventType = ''refund.processed'' \<or> eventType = ''refund.created'' then
               processRefundProcessed now ids ev eventType paymentId (Option.bind (wb_refund w) rf_id)
                 (Option.bind (wb_refund w) rf_amount) d
             else (Inr Ignored, d))"

definition handleWebhook ::
  "(string \<Rightarrow> string \<Rightarrow> string) \<Rightarrow> (string \<Rightarrow> webhook_body option) \<Rightarrow> string option \<Rightarrow> timestamp \<Rightarrow> webhook_ids
   \<Rightarrow> string \<Rightarrow> string \<Rightarrow> db \<Rightarrow> (error + webhook_outcome) \<times> db" where
  "handleWebhook hmac parse secret now ids rawBody signature d =
     (if (case secret of None \<Rightarrow> True | Some s \<Rightarrow> trim s = []) then (Inl (PaymentError ''WEBHOOK_SECRET_NOT_CONFIGURED'' 500), d)
      else if trim signature = [] then (Inl (PaymentError ''WEBHOOK_MISSING_SIGNATURE'' 401), d)
      else if \<not> verifyWebhookSignature hmac rawBody (trim signature) (trim (the secret))
      then (Inl (PaymentError ''WEBHOOK_INVALID_SIGNATURE'' 401), d)
      else case parse rawBody of
        None \<Rightarrow> (Inl (PaymentError ''WEBHOOK_INVALID_BODY'' 400), d)
      | Some w \<Rightarrow> webhook_dispatch now ids w d)"

section \<open>getPaymentStatus\<close>

definition getPaymentStatus :: "uuid \<Rightarrow> AuthenticatedUser \<Rightarrow> db \<Rightarrow> error + payment" where
  "getPaymentStatus bookingId actor d =
     (if au_role actor = WORKER then Inl (PaymentError ''PAYMENT_NOT_AUTHORIZED'' 403)
      else if au_role actor = CUSTOMER \<and>
              findFirst (\<lambda>b. bk_id b = bookingId \<and> bk_customer_id b = au_id actor) (bookings d) = None
      then Inl (PaymentError ''PAYMENT_NOT_AUTHORIZED'' 403)
      else case findFirst (payment_scopeRead actor bookingId d) (payments d) of
        None \<Rightarrow> Inl (PaymentError ''PAYMENT_NOT_FOUND'' 404)
      | Some p \<Rightarrow> Inr p)"

section \<open>refundPayment\<close>

datatype refund_result = AlreadyRefunded "string option" | Reconciled "string option" | RefundDone string

text \<open>Steps 1 and 2: authorization and the payment.\<close>

definition refund_load :: "uuid \<Rightarrow> AuthenticatedUser \<Rightarrow> db \<Rightarrow> error + (booking \<times> payment)" where
  "refund_load bookingId actor d =
     (if au_role actor = WORKER then Inl (PaymentError ''REFUND_NOT_AUTHORIZED'' 403)
      else case findFirst (\<lambda>b. bk_id b = bookingId \<and> (au_role actor = CUSTOMER \<longrightarrow> bk_customer_id b = au_id actor)) (bookings d) of
        None \<Rightarrow> Inl (PaymentError ''REFUND_NOT_AUTHORIZED'' 403)
      | Some b \<Rightarrow>
          (let normalized = (if bk_customer_id b \<noteq> [] then b
                             else b\<lparr>bk_customer_id := (if au_role actor = CUSTOMER then au_id actor else [])\<rparr>)
           in case assertPolicy (payment_canRefund actor normalized) of
                Inl e \<Rightarrow> Inl e
              | Inr _ \<Rightarrow>
                  (case findUnique py_booking_id bookingId (payments d) of
                     None \<Rightarrow> Inl (PaymentError ''REFUND_NO_PAYMENT'' 404)
                   | Some p \<Rightarrow> Inr (b, p))))"

definition provider_refunded :: "provider_payment \<Rightarrow> bool" where
  "provider_refunded x \<longleftrightarrow> pp_status x = ''refunded'' \<or> pp_amountRefunded x > 0 \<or>
     (pp_refundStatus x \<noteq> None \<and> pp_refundStatus x \<noteq> Some ''null'')"

text \<open>
  Step 3, for an ambiguous or pending refund: ask the provider, then reconcile or claim the retry.
  \<open>Inr None\<close> means the claim is held and the provider is to be called.
\<close>

definition retry_claimable :: "uuid \<Rightarrow> payment \<Rightarrow> bool" where
  "retry_claimable pid p \<longleftrightarrow> py_id p = pid \<and> (has_status REFUND_UNKNOWN p \<or> has_status REFUND_PENDING p)"

definition refund_reconcile ::
  "timestamp \<Rightarrow> string option \<Rightarrow> (RazorpayProviderError + provider_payment) \<Rightarrow> payment \<Rightarrow> db \<Rightarrow> (error + refund_result option) \<times> db" where
  "refund_reconcile now reason answer p d =
     (case answer of
        Inl e \<Rightarrow> (Inl (PaymentError ''REFUND_RECONCILIATION_REQUIRED'' 409), d)
      | Inr x \<Rightarrow>
          if provider_refunded x then
            (Inr (Some (Reconciled (py_refund_id p))),
             update_payment now (\<lambda>q. py_id q = py_id p)
               (\<lambda>q. q\<lparr>py_status := Some ''REFUNDED'',
                       py_refund_amount := (if pp_amountRefunded x \<noteq> 0 then Some (pp_amountRefunded x) else py_amount p),
                       py_refund_status := Some (js_or (pp_refundStatus x) ''processed'')\<rparr>) d)
          else if countWhere (retry_claimable (py_id p)) (payments d) = 0
          then (Inl (PaymentError ''REFUND_ALREADY_PENDING'' 409), d)
          else (Inr None, update_payment now (retry_claimable (py_id p))
                  (\<lambda>q. q\<lparr>py_status := Some ''REFUND_PENDING'',
                          py_refund_reason := Some (js_or reason ''Retry after provider reconciliation verified unrefunded'')\<rparr>) d))"

definition refund_claimable :: "uuid \<Rightarrow> payment \<Rightarrow> bool" where
  "refund_claimable pid p \<longleftrightarrow> py_id p = pid \<and> (has_status COMPLETED p \<or> has_status REFUND_FAILED p)"

definition refund_claim :: "timestamp \<Rightarrow> string option \<Rightarrow> payment \<Rightarrow> db \<Rightarrow> (error + refund_result option) \<times> db" where
  "refund_claim now reason p d =
     (if countWhere (refund_claimable (py_id p)) (payments d) = 0 then
        (case findUnique py_id (py_id p) (payments d) of
           None \<Rightarrow> (Inl (PaymentError ''REFUND_INVALID_STATE'' 409), d)
         | Some q \<Rightarrow>
             if has_status REFUNDED q then (Inr (Some (AlreadyRefunded (py_refund_id q))), d)
             else if has_status REFUND_PENDING q \<or> has_status REFUND_UNKNOWN q
             then (Inl (PaymentError ''REFUND_ALREADY_PENDING'' 409), d)
             else (Inl (PaymentError ''REFUND_INVALID_STATE'' 409), d))
      else (Inr None, update_payment now (refund_claimable (py_id p))
              (\<lambda>q. q\<lparr>py_status := Some ''REFUND_PENDING'',
                      py_refund_reason := Some (js_or reason ''Customer/Admin requested refund'')\<rparr>) d))"

text \<open>Steps 5 and 6: what the provider's answer does to the payment.\<close>

definition refund_success_tx ::
  "timestamp \<Rightarrow> uuid \<Rightarrow> uuid \<Rightarrow> booking \<Rightarrow> payment \<Rightarrow> RazorpayRefundResult \<Rightarrow> db \<Rightarrow> error + (unit \<times> db)" where
  "refund_success_tx now outboxId bookingId b p r d =
     (if refund_id_taken (Some (rr_refundId r)) (py_id p) d then Inl (PrismaUniqueViolation ''razorpay_refund_id'')
      else let d1 = update_payment now (\<lambda>q. py_id q = py_id p)
                      (\<lambda>q. q\<lparr>py_status := Some ''REFUNDED'', py_refund_id := Some (rr_refundId r),
                              py_refund_amount := Some (rr_amount r), py_refund_status := Some (rr_status r)\<rparr>) d
           in Inr ((), if bk_customer_id b = [] then d1
                       else snd (createOutboxEvent outboxId now (payment_dto ''REFUND_COMPLETED'' ''customer'' (bk_customer_id b) p
                              [(''refundId'', JStr (rr_refundId r)), (''amount'', JInt (rr_amount r))]) d1)))"

definition refund_failed :: "timestamp \<Rightarrow> uuid \<Rightarrow> string \<Rightarrow> int \<Rightarrow> db \<Rightarrow> (error + refund_result) \<times> db" where
  "refund_failed now pid msg httpStatus d =
     (let st = (if 400 \<le> httpStatus \<and> httpStatus < 500 then REFUND_FAILED else REFUND_UNKNOWN)
      in (Inl (PaymentError (if st = REFUND_UNKNOWN then ''REFUND_UNKNOWN'' else ''REFUND_FAILED'') 502),
          update_payment now (\<lambda>q. py_id q = pid)
            (\<lambda>q. q\<lparr>py_status := Some (payment_status_str st),
                    py_refund_reason := Some (''Provider refund failure ('' @ payment_status_str st @ ''): '' @ msg)\<rparr>) d))"

definition refund_settle ::
  "timestamp \<Rightarrow> uuid \<Rightarrow> uuid \<Rightarrow> booking \<Rightarrow> payment \<Rightarrow> (RazorpayProviderError + RazorpayRefundResult) \<Rightarrow> db
   \<Rightarrow> (error + refund_result) \<times> db" where
  "refund_settle now outboxId bookingId b p answer d =
     (case answer of
        Inl e \<Rightarrow> refund_failed now (py_id p) (pe_code e) (pe_statusCode e) d
      | Inr r \<Rightarrow>
          (case run_tx (refund_success_tx now outboxId bookingId b p r) d of
             (Inr _, d') \<Rightarrow> (Inr (RefundDone (rr_refundId r)), d')
           | (Inl _, d') \<Rightarrow> refund_failed now (py_id p) ''P2002'' 500 d'))"

definition refundPayment ::
  "PaymentConfig \<Rightarrow> sdk_payment \<Rightarrow> sdk_refund \<Rightarrow> timestamp \<Rightarrow> uuid \<Rightarrow> uuid \<Rightarrow> AuthenticatedUser \<Rightarrow> int option \<Rightarrow> string option
   \<Rightarrow> db \<Rightarrow> (error + refund_result) \<times> db" where
  "refundPayment cfg fetched sdk now outboxId bookingId actor refundAmountPaise reason d =
     (case refund_load bookingId actor d of Inl e \<Rightarrow> (Inl e, d)
      | Inr (b, p) \<Rightarrow>
          if has_status REFUNDED p then (Inr (AlreadyRefunded (py_refund_id p)), d)
          else if \<not> truthy (py_payment_id p) then (Inl (PaymentError ''REFUND_MISSING_CAPTURE_REF'' 422), d)
          else case (if has_status REFUND_UNKNOWN p \<or> has_status REFUND_PENDING p
                     then refund_reconcile now reason (fetchPayment cfg fetched) p d
                     else refund_claim now reason p d) of
            (Inl e, d1) \<Rightarrow> (Inl e, d1)
          | (Inr (Some r), d1) \<Rightarrow> (Inr r, d1)
          | (Inr None, d1) \<Rightarrow>
              refund_settle now outboxId bookingId b p
                (razorpayCreateRefund cfg sdk (the (py_payment_id p)) refundAmountPaise) d1)"

section \<open>Interleavings\<close>

text \<open>
  The database steps of the payment service as requests. The rows and provider answers a step works
  with were obtained earlier, so they are arbitrary arguments: other requests may have run since.
\<close>

datatype payment_request =
    ClaimOrder timestamp uuid uuid int string "payment option"
  | FinishOrder timestamp uuid uuid "RazorpayProviderError + RazorpayOrderResult"
  | Webhook timestamp webhook_ids webhook_body
  | ReconcileRefund timestamp "string option" "RazorpayProviderError + provider_payment" payment
  | ClaimRefund timestamp "string option" payment
  | SettleRefund timestamp uuid uuid booking payment "RazorpayProviderError + RazorpayRefundResult"

fun payment_serve :: "payment_request \<Rightarrow> db \<Rightarrow> db" where
  "payment_serve (ClaimOrder now i bid n cur existing) d = snd (order_claim now i bid n cur existing d)"
| "payment_serve (FinishOrder now bid pid answer) d = snd (order_finish now bid pid answer d)"
| "payment_serve (Webhook now ids w) d = snd (webhook_dispatch now ids w d)"
| "payment_serve (ReconcileRefund now reason answer p) d = snd (refund_reconcile now reason answer p d)"
| "payment_serve (ClaimRefund now reason p) d = snd (refund_claim now reason p d)"
| "payment_serve (SettleRefund now oid bid b p answer) d = snd (refund_settle now oid bid b p answer d)"

section \<open>Lemmas\<close>

lemma payment_status_str_inj [simp]: "payment_status_str a = payment_status_str b \<longleftrightarrow> a = b"
  by (cases a; cases b) simp_all

definition typed_status :: "payment \<Rightarrow> bool" where
  "typed_status p \<longleftrightarrow> (\<exists>s. has_status s p)"

definition payments_typed :: "db \<Rightarrow> bool" where
  "payments_typed d \<longleftrightarrow> distinct (map py_id (payments d)) \<and> distinct (map py_booking_id (payments d)) \<and>
     list_all typed_status (payments d)"

text \<open>An update of payments that keeps the keys and sets known statuses only.\<close>

definition typed_update :: "(payment \<Rightarrow> payment) \<Rightarrow> bool" where
  "typed_update f \<longleftrightarrow> (\<forall>p. py_id (f p) = py_id p \<and> py_booking_id (f p) = py_booking_id p \<and> (typed_status p \<longrightarrow> typed_status (f p)))"

lemma typed_literal:
  "typed_status (p\<lparr>py_status := Some (payment_status_str s)\<rparr>)" by (auto simp: typed_status_def has_status_def)

lemma typed_by_status: "py_status p = Some (payment_status_str s) \<Longrightarrow> typed_status p"
  by (auto simp: typed_status_def has_status_def)

lemma payments_typed_update:
  assumes "payments_typed d" and "typed_update f"
  shows "payments_typed (update_payment now hit f d)"
proof -
  let ?g = "\<lambda>p. (f p)\<lparr>py_updated_at := now\<rparr>"
  have k: "py_id (f p) = py_id p" "py_booking_id (f p) = py_booking_id p" "typed_status p \<Longrightarrow> typed_status (f p)" for p
    using assms(2) by (auto simp: typed_update_def)
  have "typed_status (?g p) = typed_status (f p)" for p by (simp add: typed_status_def has_status_def)
  with k have "typed_status q" if "q \<in> set (updateMany hit ?g (payments d))" for q
    using that assms(1) by (auto simp: payments_typed_def list_all_iff dest!: updateMany_memD)
  moreover have "map py_id (updateMany hit ?g (payments d)) = map py_id (payments d)"
    "map py_booking_id (updateMany hit ?g (payments d)) = map py_booking_id (payments d)"
    by (auto simp: updateMany_def k)
  ultimately show ?thesis using assms(1) by (simp add: payments_typed_def update_payment_def list_all_iff)
qed

lemma payments_frame [simp]:
  "payments (snd (createOutboxEvent i now dto d)) = payments d"
  "payments (update_webhook ev f d) = payments d"
  "payments (webhook_failed ev r d) = payments d" "payments (webhook_processed ev now d) = payments d"
  by (auto simp: createOutboxEvent_def update_webhook_def webhook_failed_def webhook_processed_def split: option.split)

lemma notify_payments [simp]:
  "payments (notify_customer i now event p x d) = payments d" "payments (notify_worker i now event p x d) = payments d"
  by (auto simp: notify_customer_def notify_worker_def split: option.split)

lemma create_webhook_payments: "create_webhook i t d = Inr d' \<Longrightarrow> payments d' = payments d"
  by (auto simp: create_webhook_def split: if_splits)

lemma payments_typed_cong: "payments d' = payments d \<Longrightarrow> payments_typed d' = payments_typed d"
  by (simp add: payments_typed_def)

lemma typed_frame [simp]:
  "payments_typed (webhook_failed ev r d) = payments_typed d" "payments_typed (webhook_processed ev now d) = payments_typed d"
  "payments_typed (notify_customer i now event p x d) = payments_typed d"
  "payments_typed (notify_worker i now event p x d) = payments_typed d"
  "payments_typed (snd (createOutboxEvent i now dto d)) = payments_typed d"
  by (rule payments_typed_cong, simp)+

lemma transition_typed:
  assumes "payments_typed d" and "\<And>p. py_id (m p) = py_id p \<and> py_booking_id (m p) = py_booking_id p \<and> py_status (m p) = py_status p"
    and "transitionPaymentStatus now pid a b m d = Inr (r, d')"
  shows "payments_typed d'"
proof -
  have "typed_update (\<lambda>p. m (p\<lparr>py_status := Some (payment_status_str b)\<rparr>))"
    using assms(2) by (auto simp: typed_update_def intro!: typed_by_status)
  with assms(1,3) show ?thesis
    by (auto simp: transitionPaymentStatus_def Let_def intro: payments_typed_update split: if_splits)
qed

lemma dedup_run_tx:
  assumes "I d" and "\<And>a d'. m d = Inr (a, d') \<Longrightarrow> I d'"
  shows "I (snd (dedup (run_tx m d)))"
  using assms by (cases "m d") (auto simp: dedup_def run_tx_def split: error.split)

lemma typed_strings:
  "py_status p = Some ''PENDING'' \<Longrightarrow> typed_status p" "py_status p = Some ''FAILED'' \<Longrightarrow> typed_status p"
  "py_status p = Some ''REFUNDED'' \<Longrightarrow> typed_status p" "py_status p = Some ''REFUND_PENDING'' \<Longrightarrow> typed_status p"
  "py_status p = Some ''REFUND_FAILED'' \<Longrightarrow> typed_status p" "py_status p = Some ''REFUND_UNKNOWN'' \<Longrightarrow> typed_status p"
  using typed_by_status [of p PENDING] typed_by_status [of p FAILED] typed_by_status [of p REFUNDED]
    typed_by_status [of p REFUND_PENDING] typed_by_status [of p REFUND_FAILED] typed_by_status [of p REFUND_UNKNOWN] by simp_all

lemma typed_updateI:
  "(\<And>p. py_id (f p) = py_id p) \<Longrightarrow> (\<And>p. py_booking_id (f p) = py_booking_id p) \<Longrightarrow> (\<And>p. typed_status p \<Longrightarrow> typed_status (f p)) \<Longrightarrow>
   typed_update f"
  by (simp add: typed_update_def)

lemma typed_same: "py_status q = py_status p \<Longrightarrow> typed_status p \<Longrightarrow> typed_status q"
  by (simp add: typed_status_def has_status_def)

lemma create_payment_typed: "payments_typed d \<Longrightarrow> create_payment p d = Inr d' \<Longrightarrow> typed_status p \<Longrightarrow> payments_typed d'"
  by (fastforce simp: create_payment_def payments_typed_def list_all_iff list_ex_iff split: if_splits)

lemma order_claim_typed: 
  assumes ok: "payments_typed d"
  shows "payments_typed (snd (order_claim now i bid n cur existing d))"
proof (cases existing)
  case None
  have "typed_status (new_payment now i bid n cur)" by (rule typed_strings) (simp add: new_payment_def)
  with None ok create_payment_typed show ?thesis by (auto simp: order_claim_def split: sum.split error.split)
next
  case (Some p)
  have u: "payments_typed (update_payment now h (\<lambda>q. q\<lparr>py_status := Some ''PENDING'', py_amount := Some n, py_currency := cur, py_order_id := None\<rparr>) d)" for h
    by (rule payments_typed_update [OF ok], rule typed_updateI) (simp_all add: typed_strings)
  show ?thesis
  proof (cases "order_existing n bid p")
    case None
    with Some ok u show ?thesis by (simp add: order_claim_def Let_def)
  next
    case (Some r)
    with \<open>existing = Some p\<close> ok show ?thesis by (cases r) (simp_all add: order_claim_def)
  qed
qed

lemma order_finish_typed:
  assumes ok: "payments_typed d"
  shows "payments_typed (snd (order_finish now bid pid answer d))"
proof (cases answer)
  case (Inl e)
  have "payments_typed (order_failed now pid m d)" for m unfolding order_failed_def
    by (rule payments_typed_update [OF ok], rule typed_updateI) (simp_all add: typed_strings)
  with Inl show ?thesis by (simp add: order_finish_def)
next
  case (Inr r)
  have "payments_typed (update_payment now h (\<lambda>p. p\<lparr>py_order_id := a, py_amount := b, py_currency := c, py_status := Some ''PENDING''\<rparr>) d)" for h a b c
    by (rule payments_typed_update [OF ok], rule typed_updateI) (simp_all add: typed_strings)
  with Inr ok show ?thesis by (simp add: order_finish_def order_persist_def)
qed

lemma quarantine_typed: "payments_typed d \<Longrightarrow> payments_typed (quarantine now pid m d)"
  unfolding quarantine_def by (rule payments_typed_update, assumption, rule typed_updateI) (auto elim: typed_same [rotated])

lemma captured_tx_typed:
  assumes ok: "payments_typed d" and t: "captured_tx now ids ev oid pid am cur d = Inr (r, d')"
  shows "payments_typed d'"
proof -
  obtain d1 where d1: "create_webhook ev ''payment.captured'' d = Inr d1" using t by (auto simp: captured_tx_def split: sum.splits)
  then have ok1: "payments_typed d1" using ok create_webhook_payments payments_typed_cong by metis
  have tr: "payments_typed d2" if "transitionPaymentStatus now i PENDING COMPLETED (\<lambda>q. q\<lparr>py_payment_id := Some pid\<rparr>) d1 = Inr (b, d2)" for i b d2
    by (rule transition_typed [OF ok1 _ that]) simp
  from t d1 ok1 tr show ?thesis
    by (auto simp: captured_tx_def Let_def quarantine_typed split: option.splits if_splits sum.splits bool.splits)
qed

lemma failed_tx_typed:
  assumes ok: "payments_typed d" and t: "failed_tx now ids ev oid d = Inr (r, d')"
  shows "payments_typed d'"
proof -
  obtain d1 where d1: "create_webhook ev ''payment.failed'' d = Inr d1" using t by (auto simp: failed_tx_def split: sum.splits)
  then have ok1: "payments_typed d1" using ok create_webhook_payments payments_typed_cong by metis
  have tr: "payments_typed d2" if "transitionPaymentStatus now i PENDING FAILED (\<lambda>q. q) d1 = Inr (b, d2)" for i b d2
    by (rule transition_typed [OF ok1 _ that]) simp
  from t d1 ok1 tr show ?thesis
    by (auto simp: failed_tx_def split: option.splits sum.splits bool.splits)
qed

lemma refund_tx_typed:
  assumes ok: "payments_typed d" and t: "refund_tx now ids ev et pid rid am d = Inr (r, d')"
  shows "payments_typed d'"
proof -
  obtain d1 where d1: "create_webhook ev et d = Inr d1" using t by (auto simp: refund_tx_def split: sum.splits)
  then have ok1: "payments_typed d1" using ok create_webhook_payments payments_typed_cong by metis
  have u: "payments_typed (update_payment now h (\<lambda>q. q\<lparr>py_status := Some ''REFUNDED'', py_refund_id := a, py_refund_amount := b, py_refund_status := c\<rparr>) d1)" for h a b c
    by (rule payments_typed_update [OF ok1], rule typed_updateI) (simp_all add: typed_strings)
  have v: "payments_typed (update_payment now h (\<lambda>q. q\<lparr>py_refund_id := a, py_refund_amount := b, py_refund_status := c\<rparr>) d1)" for h a b c
    by (rule payments_typed_update [OF ok1], rule typed_updateI) (auto elim: typed_same [rotated])
  from t d1 ok1 u v show ?thesis
    by (auto simp: refund_tx_def Let_def split: option.splits if_splits)
qed

lemma webhook_dispatch_keeps:
  assumes "I d" and "\<And>ev o1 p a c r d'. captured_tx now ids ev o1 p a c d = Inr (r, d') \<Longrightarrow> I d'"
    and "\<And>ev o1 r d'. failed_tx now ids ev o1 d = Inr (r, d') \<Longrightarrow> I d'"
    and "\<And>ev et p i a r d'. refund_tx now ids ev et p i a d = Inr (r, d') \<Longrightarrow> I d'"
  shows "I (snd (webhook_dispatch now ids w d))"
proof -
  have "I (snd (processPaymentCaptured now ids ev o1 p a c d))" "I (snd (processPaymentFailed now ids ev o1 d))"
    "I (snd (processRefundProcessed now ids ev et p i a d))" for ev o1 p a c et i
    using assms by (auto simp: processPaymentCaptured_def processPaymentFailed_def processRefundProcessed_def intro!: dedup_run_tx [of I])
  with assms(1) show ?thesis by (simp add: webhook_dispatch_def Let_def split: option.split)
qed

lemma refund_failed_typed: "payments_typed d \<Longrightarrow> payments_typed (snd (refund_failed now pid m code d))"
  unfolding refund_failed_def Let_def snd_conv
  by (rule payments_typed_update, assumption, rule typed_updateI) (simp_all add: typed_strings)

lemma refund_settle_typed:
  assumes ok: "payments_typed d"
  shows "payments_typed (snd (refund_settle now oid bid b p answer d))"
proof (cases answer)
  case (Inl e)
  with refund_failed_typed [OF ok] show ?thesis by (simp add: refund_settle_def)
next
  case (Inr r)
  have u: "payments_typed (update_payment now h (\<lambda>q. q\<lparr>py_status := Some ''REFUNDED'', py_refund_id := x, py_refund_amount := y, py_refund_status := z\<rparr>) d)" for h x y z
    by (rule payments_typed_update [OF ok], rule typed_updateI) (simp_all add: typed_strings)
  show ?thesis
  proof (cases "refund_success_tx now oid bid b p r d")
    case (Inl e)
    with Inr refund_failed_typed [OF ok] show ?thesis by (simp add: refund_settle_def run_tx_def)
  next
    case s: (Inr x)
    then have "payments_typed (snd x)" using u by (auto simp: refund_success_tx_def Let_def split: if_splits)
    with Inr s show ?thesis by (cases x) (simp add: refund_settle_def run_tx_def)
  qed
qed

lemma refund_steps_typed:
  assumes ok: "payments_typed d"
  shows "payments_typed (snd (refund_claim now reason p d))" "payments_typed (snd (refund_reconcile now reason answer p d))"
proof -
  have c: "payments_typed (update_payment now h (\<lambda>q. q\<lparr>py_status := Some ''REFUND_PENDING'', py_refund_reason := x\<rparr>) d)" for h x
    by (rule payments_typed_update [OF ok], rule typed_updateI) (simp_all add: typed_strings)
  have r: "payments_typed (update_payment now h (\<lambda>q. q\<lparr>py_status := Some ''REFUNDED'', py_refund_amount := x, py_refund_status := y\<rparr>) d)" for h x y
    by (rule payments_typed_update [OF ok], rule typed_updateI) (simp_all add: typed_strings)
  show "payments_typed (snd (refund_claim now reason p d))" using ok c by (simp add: refund_claim_def split: option.split)
  show "payments_typed (snd (refund_reconcile now reason answer p d))"
    using ok c r by (simp add: refund_reconcile_def split: sum.split)
qed

interpretation payment_types: invariant_system payment_serve payments_typed
proof unfold_locales
  fix d q assume ok: "payments_typed d"
  show "payments_typed (payment_serve q d)"
  proof (cases q)
    case (Webhook now ids w)
    then show ?thesis
      using webhook_dispatch_keeps [of payments_typed, OF ok captured_tx_typed [OF ok] failed_tx_typed [OF ok] refund_tx_typed [OF ok]]
      by simp
  qed (use ok in \<open>simp_all add: order_claim_typed order_finish_typed refund_settle_typed refund_steps_typed\<close>)
qed

text \<open>The webhook events on record.\<close>

definition seen :: "string \<Rightarrow> db \<Rightarrow> bool" where
  "seen ev d \<longleftrightarrow> list_ex (is_event ev) (webhooks d)"

lemma webhooks_frame [simp]:
  "webhooks (update_payment now h f d) = webhooks d" "webhooks (snd (createOutboxEvent i now dto d)) = webhooks d"
  "webhooks (notify_customer i now event p x d) = webhooks d" "webhooks (notify_worker i now event p x d) = webhooks d"
  "webhooks (quarantine now pid m d) = webhooks d"
  by (auto simp: update_payment_def createOutboxEvent_def notify_customer_def notify_worker_def quarantine_def split: option.split)

lemma seen_update [simp]:
  assumes "\<And>e. is_event ev (f e) = is_event ev e"
  shows "seen ev (update_webhook i f d) = seen ev d"
  using assms by (auto simp: seen_def update_webhook_def updateMany_def list_ex_iff)

lemma seen_marks [simp]:
  "seen ev (webhook_failed i m d) = seen ev d" "seen ev (webhook_processed i now d) = seen ev d"
  by (simp_all add: webhook_failed_def webhook_processed_def is_event_def)

lemma seen_frame [simp]:
  "seen ev (update_payment now h f d) = seen ev d" "seen ev (notify_customer i now event p x d) = seen ev d"
  "seen ev (notify_worker i now event p x d) = seen ev d" "seen ev (quarantine now pid m d) = seen ev d"
  "seen ev (snd (createOutboxEvent i now dto d)) = seen ev d"
  by (simp_all add: seen_def)

lemma create_webhook_seen: "create_webhook i t d = Inr d' \<Longrightarrow> seen ev d' \<longleftrightarrow> seen ev d \<or> ev = i"
  by (auto simp: create_webhook_def seen_def is_event_def split: if_splits)

lemma transition_seen: "transitionPaymentStatus now pid a b m d = Inr (r, d') \<Longrightarrow> seen ev d' = seen ev d"
  by (auto simp: transitionPaymentStatus_def Let_def split: if_splits)

lemma captured_tx_seen: "captured_tx now ids i oid pid am cur d = Inr (r, d') \<Longrightarrow> seen ev d' \<longleftrightarrow> seen ev d \<or> ev = i"
  by (auto simp: captured_tx_def Let_def create_webhook_seen dest!: transition_seen [of _ _ _ _ _ _ _ _ ev]
      split: sum.splits option.splits if_splits bool.splits)

lemma failed_tx_seen: "failed_tx now ids i oid d = Inr (r, d') \<Longrightarrow> seen ev d' \<longleftrightarrow> seen ev d \<or> ev = i"
  by (auto simp: failed_tx_def create_webhook_seen dest!: transition_seen [of _ _ _ _ _ _ _ _ ev]
      split: sum.splits option.splits bool.splits)

lemma refund_tx_seen: "refund_tx now ids i et pid rid am d = Inr (r, d') \<Longrightarrow> seen ev d' \<longleftrightarrow> seen ev d \<or> ev = i"
  by (auto simp: refund_tx_def Let_def create_webhook_seen split: sum.splits option.splits if_splits)

lemma webhook_dispatch_seen: "seen ev d \<Longrightarrow> seen ev (snd (webhook_dispatch now ids w d))"
  by (rule webhook_dispatch_keeps) (auto simp: captured_tx_seen failed_tx_seen refund_tx_seen)

interpretation seen_events: invariant_system payment_serve "seen ev" for ev
proof unfold_locales
  fix d q assume ok: "seen ev d"
  show "seen ev (payment_serve q d)"
  proof (cases q)
    case (ClaimOrder now i bid n cur existing)
    have c: "seen ev d'" if "create_payment p d = Inr d'" for p d'
      using that ok by (auto simp: create_payment_def seen_def split: if_splits)
    show ?thesis
    proof (cases existing)
      case None
      with ClaimOrder ok c show ?thesis by (auto simp: order_claim_def split: sum.split error.split)
    next
      case (Some p)
      with ClaimOrder ok show ?thesis
        by (cases "order_existing n bid p") (auto simp: order_claim_def Let_def split: sum.split)
    qed
  next
    case (FinishOrder now bid pid answer)
    with ok show ?thesis by (simp add: order_finish_def order_failed_def order_persist_def split: sum.split)
  next
    case (SettleRefund now oid bid b p answer)
    have f: "seen ev (snd (refund_failed now pid m code d))" for pid m code using ok by (simp add: refund_failed_def Let_def)
    have s: "seen ev d'" if "refund_success_tx now oid bid b p r d = Inr (u, d')" for r u d'
      using that ok by (auto simp: refund_success_tx_def Let_def split: if_splits)
    show ?thesis
    proof (cases answer)
      case (Inr r)
      show ?thesis using SettleRefund Inr f s
        by (cases "refund_success_tx now oid bid b p r d") (auto simp: refund_settle_def run_tx_def)
    qed (use SettleRefund f in \<open>simp add: refund_settle_def\<close>)
  qed (use ok in \<open>simp_all add: webhook_dispatch_seen refund_claim_def refund_reconcile_def split: option.split sum.split\<close>)
qed

text \<open>An outcome that recorded the event.\<close>

definition handled :: "webhook_outcome \<Rightarrow> bool" where
  "handled out \<longleftrightarrow> out \<notin> {NoIdentity, Ignored, MissingIdentifiers, DuplicateEvent}"

lemma dedup_seen:
  assumes "\<And>a d'. m d = Inr (a, d') \<Longrightarrow> seen ev d'" and "dedup (run_tx m d) = (Inr out, d1)" and "handled out"
  shows "seen ev d1"
  using assms by (cases "m d") (auto simp: dedup_def run_tx_def handled_def split: error.splits)

lemma create_webhook_dup: "seen ev d \<Longrightarrow> create_webhook ev t d = Inl (PrismaUniqueViolation ''providerEventId'')"
  by (simp add: create_webhook_def seen_def)

lemma redelivered:
  assumes "seen ev d"
  shows "dedup (run_tx (captured_tx now ids ev o1 p a c) d) = (Inr DuplicateEvent, d)"
    "dedup (run_tx (failed_tx now ids ev o1) d) = (Inr DuplicateEvent, d)"
    "dedup (run_tx (refund_tx now ids ev et p i a) d) = (Inr DuplicateEvent, d)"
  using create_webhook_dup [OF assms] by (simp_all add: dedup_def run_tx_def captured_tx_def failed_tx_def refund_tx_def)

lemma dispatch_records:
  assumes w: "webhook_dispatch now ids w d = (Inr out, d1)" and h: "handled out"
  shows "\<exists>ev. seen ev d1 \<and> (\<forall>t i d2. seen ev d2 \<longrightarrow> webhook_dispatch t i w d2 = (Inr DuplicateEvent, d2))"
proof -
  define eventType where "eventType = (case wb_event w of None \<Rightarrow> [] | Some e \<Rightarrow> e)"
  define orderId where "orderId = Option.bind (wb_payment w) en_order_id"
  define paymentId where "paymentId = str_or_opt (Option.bind (wb_payment w) en_id) (Option.bind (wb_refund w) rf_payment_id)"
  note defs = webhook_dispatch_def Let_def eventType_def [symmetric] orderId_def [symmetric] paymentId_def [symmetric]
  obtain ev where ev: "deriveWebhookEventId eventType paymentId orderId = Some ev" "ev \<noteq> []"
    using w h by (auto simp: defs handled_def split: option.splits if_splits)
  have cap: "seen ev d1" if "dedup (run_tx (captured_tx now ids ev o1 p a c) d) = (Inr out, d1)" for o1 p a c
    by (rule dedup_seen [OF _ that h]) (auto simp: captured_tx_seen)
  have fail: "seen ev d1" if "dedup (run_tx (failed_tx now ids ev o1) d) = (Inr out, d1)" for o1
    by (rule dedup_seen [OF _ that h]) (auto simp: failed_tx_seen)
  have ref: "seen ev d1" if "dedup (run_tx (refund_tx now ids ev et p i a) d) = (Inr out, d1)" for et p i a
    by (rule dedup_seen [OF _ that h]) (auto simp: refund_tx_seen)
  have "seen ev d1"
    using w h ev cap fail ref by (auto simp: defs handled_def processPaymentCaptured_def processPaymentFailed_def
        processRefundProcessed_def split: if_splits)
  moreover have "webhook_dispatch t i w d2 = (Inr DuplicateEvent, d2)" if "seen ev d2" for t i d2
    using w h ev redelivered [OF that] by (auto simp: defs handled_def processPaymentCaptured_def processPaymentFailed_def
        processRefundProcessed_def split: if_splits)
  ultimately show ?thesis by blast
qed

section \<open>Properties\<close>


text \<open>
  C26. A webhook event takes effect once: after an event was recorded, and after any further steps of the
  payment service, delivering the same event again is acknowledged as a duplicate and changes nothing.
\<close>

theorem webhook_once:
  assumes "webhook_dispatch now ids w d = (Inr out, d1)" and "handled out"
  shows "webhook_dispatch later ids' w (fold payment_serve qs d1) = (Inr DuplicateEvent, fold payment_serve qs d1)"
proof -
  obtain ev where "seen ev d1" and dup: "seen ev d2 \<longrightarrow> webhook_dispatch t i w d2 = (Inr DuplicateEvent, d2)" for t i d2
    using dispatch_records [OF assms] by blast
  then show ?thesis using seen_events.fold_inv [of ev d1 qs] by blast
qed

definition sample_capture :: webhook_body where
  "sample_capture = \<lparr>wb_event = Some ''payment.captured'',
     wb_payment = Some \<lparr>en_id = Some ''pay_1'', en_order_id = Some ''order_1'', en_amount = Some 50000, en_currency = Some ''INR''\<rparr>,
     wb_refund = None\<rparr>"

definition sample_payment :: payment where
  "sample_payment = (new_payment 0 ''p1'' ''b1'' 50000 ''INR'')\<lparr>py_order_id := Some ''order_1''\<rparr>"

definition sample_pay_db :: db where
  "sample_pay_db = empty_db\<lparr>payments := [sample_payment]\<rparr>"

lemma sample_captured: "fst (webhook_dispatch 5 \<lparr>wi_customer = ''o1'', wi_worker = ''o2''\<rparr> sample_capture sample_pay_db) = Inr Captured"
  by code_simp

theorem webhook_once_witness:
  "\<exists>d1. webhook_dispatch 5 \<lparr>wi_customer = ''o1'', wi_worker = ''o2''\<rparr> sample_capture sample_pay_db = (Inr Captured, d1) \<and>
     webhook_dispatch 9 \<lparr>wi_customer = ''o3'', wi_worker = ''o4''\<rparr> sample_capture (fold payment_serve [ClaimRefund 6 None sample_payment] d1)
       = (Inr DuplicateEvent, fold payment_serve [ClaimRefund 6 None sample_payment] d1)"
proof -
  obtain d1 where c: "webhook_dispatch 5 \<lparr>wi_customer = ''o1'', wi_worker = ''o2''\<rparr> sample_capture sample_pay_db = (Inr Captured, d1)"
    using sample_captured by (metis prod.collapse)
  from webhook_once [OF c, of 9 "\<lparr>wi_customer = ''o3'', wi_worker = ''o4''\<rparr>" "[ClaimRefund 6 None sample_payment]"] c show ?thesis
    by (auto simp: handled_def)
qed

text \<open>The notification a payment event is keyed by is on record.\<close>

definition notified :: "string \<Rightarrow> payment \<Rightarrow> uuid \<Rightarrow> db \<Rightarrow> bool" where
  "notified event p rid d \<longleftrightarrow> list_ex (\<lambda>e. ob_idempotency_key e = Some (event @ '':payment:'' @ py_id p @ '':'' @ rid)) (outbox d)"

lemma createOutboxEvent_notified: "event \<noteq> [] \<Longrightarrow> notified event p rid (snd (createOutboxEvent i now (payment_dto event rt rid p x) d))"
  by (auto simp: createOutboxEvent_def notified_def payment_dto_def outbox_key_def js_or_def new_outbox_def list_ex_iff
      dest!: findUnique_Some split: option.split)

lemma notified_mono: "notified event p rid d \<Longrightarrow> notified event p rid (snd (createOutboxEvent i now dto d))"
  by (auto simp: createOutboxEvent_def notified_def split: option.split)

lemma outbox_bookings_frame [simp]:
  "bookings (snd (createOutboxEvent i now dto d)) = bookings d" "bookings (notify_customer i now event p x d) = bookings d"
  "bookings (update_payment now h f d) = bookings d" "notified event p rid (webhook_processed ev now d) = notified event p rid d"
  by (auto simp: createOutboxEvent_def notify_customer_def update_payment_def webhook_processed_def update_webhook_def
      notified_def split: option.split)

lemma notify_both:
  assumes "findUnique bk_id (py_booking_id p) (bookings d) = Some b" and "event \<noteq> []"
  shows "(bk_customer_id b \<noteq> [] \<longrightarrow> notified event p (bk_customer_id b) (notify_worker j now event p x (notify_customer i now event p x d))) \<and>
     (bk_worker_id b \<noteq> [] \<longrightarrow> notified event p (bk_worker_id b) (notify_worker j now event p x (notify_customer i now event p x d)))"
  using assms by (auto simp: notify_worker_def notify_customer_def createOutboxEvent_notified notified_mono)

lemma create_webhook_bookings: "create_webhook i t d = Inr d' \<Longrightarrow> bookings d' = bookings d"
  by (auto simp: create_webhook_def split: if_splits)

lemma captured_tx_Captured:
  assumes "captured_tx now ids ev oid pid am cur d = Inr (Captured, d')"
  shows "\<exists>p. p \<in> set (payments d) \<and> py_order_id p = Some oid \<and> \<not> amount_differs am p \<and> \<not> currency_differs cur p \<and>
     (\<exists>q \<in> set (payments d). py_id q = py_id p \<and> has_status PENDING q) \<and>
     payments d' = updateMany (\<lambda>q. py_id q = py_id p \<and> has_status PENDING q)
       (\<lambda>q. q\<lparr>py_status := Some ''COMPLETED'', py_payment_id := Some pid, py_updated_at := now\<rparr>) (payments d) \<and>
     (\<forall>b. findUnique bk_id (py_booking_id p) (bookings d) = Some b \<longrightarrow>
        (bk_customer_id b \<noteq> [] \<longrightarrow> notified ''PAYMENT_COMPLETED'' p (bk_customer_id b) d') \<and>
        (bk_worker_id b \<noteq> [] \<longrightarrow> notified ''PAYMENT_COMPLETED'' p (bk_worker_id b) d'))"
proof -
  obtain d1 where d1: "create_webhook ev ''payment.captured'' d = Inr d1" using assms by (auto simp: captured_tx_def split: sum.splits)
  note fr = create_webhook_payments [OF d1] create_webhook_bookings [OF d1]
  obtain p where p: "findUnique py_order_id (Some oid) (payments d1) = Some p"
    using assms d1 by (auto simp: captured_tx_def split: option.splits)
  have ok: "\<not> amount_differs am p" "\<not> currency_differs cur p" using assms d1 p by (auto simp: captured_tx_def split: if_splits)
  let ?hit = "\<lambda>q. py_id q = py_id p \<and> has_status PENDING q"
  let ?d2 = "update_payment now ?hit (\<lambda>q. q\<lparr>py_status := Some ''COMPLETED'', py_payment_id := Some pid\<rparr>) d1"
  let ?x = "[(''amount'', opt_json JInt (py_amount p)), (''currency'', JStr (py_currency p))]"
  have tr: "transitionPaymentStatus now (py_id p) PENDING COMPLETED (\<lambda>q. q\<lparr>py_payment_id := Some pid\<rparr>) d1 =
      Inr (countWhere ?hit (payments d1) > 0, ?d2)"
    by (simp add: transitionPaymentStatus_def Let_def)
  define d3 where "d3 = webhook_processed ev now
      (notify_worker (wi_worker ids) now ''PAYMENT_COMPLETED'' p ?x (notify_customer (wi_customer ids) now ''PAYMENT_COMPLETED'' p ?x ?d2))"
  define d4 where "d4 = webhook_processed ev now ?d2"
  have e: "captured_tx now ids ev oid pid am cur d =
      (if countWhere ?hit (payments d1) > 0 then Inr (Captured, d3) else Inr (AlreadyCompleted, d4))"
    using ok by (simp add: captured_tx_def d1 p tr Let_def d3_def d4_def)
  have r: "(if countWhere ?hit (payments d1) > 0 then Inr (Captured, d3) else Inr (AlreadyCompleted, d4)) = (Inr (Captured, d') :: error + _)"
    using assms by (simp only: e)
  have pos: "countWhere ?hit (payments d1) > 0"
  proof (rule ccontr)
    assume "\<not> ?thesis"
    then have "Inr (AlreadyCompleted, d4) = (Inr (Captured, d') :: error + _)" using r by (simp only: if_False)
    then show False by simp
  qed
  then have "d' = d3" using r by (simp only: if_True sum.inject prod.inject)
  then have d': "d' = webhook_processed ev now
      (notify_worker (wi_worker ids) now ''PAYMENT_COMPLETED'' p ?x (notify_customer (wi_customer ids) now ''PAYMENT_COMPLETED'' p ?x ?d2))"
    by (simp only: d3_def)
  have pay: "payments d' = updateMany ?hit (\<lambda>q. q\<lparr>py_status := Some ''COMPLETED'', py_payment_id := Some pid, py_updated_at := now\<rparr>) (payments d)"
    by (simp add: d' update_payment_def fr)
  have "\<exists>q \<in> set (payments d). ?hit q"
  proof (rule ccontr)
    assume "\<not> ?thesis"
    then have "countWhere ?hit (payments d1) = 0" unfolding fr(1) countWhere_zero by blast
    with pos show False by simp
  qed
  moreover have "p \<in> set (payments d)" "py_order_id p = Some oid" using findUnique_Some [OF p] fr by auto
  moreover have "(bk_customer_id b \<noteq> [] \<longrightarrow> notified ''PAYMENT_COMPLETED'' p (bk_customer_id b) d') \<and>
        (bk_worker_id b \<noteq> [] \<longrightarrow> notified ''PAYMENT_COMPLETED'' p (bk_worker_id b) d')"
    if "findUnique bk_id (py_booking_id p) (bookings d) = Some b" for b
    using notify_both [of p ?d2 b "''PAYMENT_COMPLETED''"] that fr by (simp add: d')
  ultimately show ?thesis using ok pay by blast
qed



section \<open>What the status machine does not guarantee\<close>

text \<open>
  A capture that arrives after a failed attempt on the same order is acknowledged but not recorded: the
  event counts as processed and the payment stays FAILED.
\<close>

lemma capture_after_failure_lost:
  assumes "distinct (map py_id (payments d))" and "findUnique py_order_id (Some oid) (payments d) = Some p" and "has_status FAILED p"
    and "\<not> amount_differs am p" and "\<not> currency_differs cur p" and "\<not> seen ev d"
  shows "\<exists>d'. captured_tx now ids ev oid pid am cur d = Inr (AlreadyCompleted, d') \<and> payments d' = payments d"
proof -
  let ?hit = "\<lambda>q. py_id q = py_id p \<and> has_status PENDING q"
  obtain d1 where d1: "create_webhook ev ''payment.captured'' d = Inr d1" using assms(6) by (simp add: create_webhook_def seen_def)
  note fr = create_webhook_payments [OF d1]
  have none: "\<forall>q \<in> set (payments d). \<not> ?hit q"
  proof
    fix q assume "q \<in> set (payments d)"
    then have "q = p" if "py_id q = py_id p"
      using key_unique [of py_id "payments d" q p] findUnique_Some [OF assms(2)] assms(1) that by blast
    with assms(3) show "\<not> ?hit q" by (auto simp: has_status_def)
  qed
  have "countWhere ?hit (payments d1) = 0" using none by (simp add: fr table_simps)
  moreover have "payments (update_payment now ?hit f d1) = payments d" for f
    using none by (simp add: update_payment_def fr updateMany_none)
  ultimately show ?thesis
    using assms(2,4,5) by (simp add: captured_tx_def d1 fr transitionPaymentStatus_def Let_def)
qed

text \<open>
  An intent whose claimant never recorded an order id can be claimed by nobody: every later request for
  the booking polls and gives up.
\<close>

lemma orphaned_intent_stuck:
  assumes "order_quote bookingId customerId d = Inr n" and "findUnique py_booking_id bookingId (payments d) = Some p"
    and "has_status PENDING p" and "py_order_id p = None"
  shows "createOrder cfg sdk now i bookingId customerId d = (Inl (PaymentError ''PAYMENT_ORDER_CREATION_IN_PROGRESS'' 409), d)"
proof -
  have "order_poll n bookingId (replicate k (Some p)) = Inl (PaymentError ''PAYMENT_ORDER_CREATION_IN_PROGRESS'' 409)" for k
    using assms(3,4) by (induction k) (auto simp: has_status_def)
  then show ?thesis
    using assms by (simp add: createOrder_def Let_def order_claim_def order_existing_def has_status_def order_contend_def)
qed

text \<open>
  The claim of a refund that is pending or unknown is not exclusive: of two requests that both learnt
  from the provider that nothing was refunded, both obtain it and both call the provider.
\<close>

lemma refund_retry_not_exclusive:
  assumes "p \<in> set (payments d)" and "has_status REFUND_UNKNOWN p" and "\<not> provider_refunded x"
  shows "fst (refund_reconcile now reason (Inr x) p d) = Inr None \<and>
    fst (refund_reconcile later reason' (Inr x) p (snd (refund_reconcile now reason (Inr x) p d))) = Inr None"
proof -
  have c: "retry_claimable (py_id p) p" using assms(2) by (simp add: retry_claimable_def)
  let ?f = "\<lambda>q. q\<lparr>py_status := Some ''REFUND_PENDING'', py_refund_reason := Some (js_or reason ''Retry after provider reconciliation verified unrefunded'')\<rparr>"
  let ?d = "update_payment now (retry_claimable (py_id p)) ?f d"
  have n: "countWhere (retry_claimable (py_id p)) (payments d) \<noteq> 0" using assms(1) c by (auto simp: table_simps)
  have "(?f p)\<lparr>py_updated_at := now\<rparr> \<in> set (payments ?d)"
    using assms(1) c by (auto simp: update_payment_def updateMany_def intro!: rev_image_eqI)
  moreover have "retry_claimable (py_id p) ((?f p)\<lparr>py_updated_at := now\<rparr>)" by (simp add: retry_claimable_def has_status_def)
  ultimately have "countWhere (retry_claimable (py_id p)) (payments ?d) \<noteq> 0" unfolding countWhere_zero by blast
  then show ?thesis using n assms(3) by (simp add: refund_reconcile_def)
qed

text \<open>A refund the webhook has already confirmed is overwritten when the provider call of the same refund times out.\<close>

lemma refunded_overwritten:
  assumes "p \<in> set (payments d)"
  shows "\<exists>q \<in> set (payments (snd (refund_settle now oid bid b p (Inl (provider_error ''REFUND_PROVIDER_FAILED'' 502)) d))).
    py_id q = py_id p \<and> has_status REFUND_UNKNOWN q"
proof -
  let ?f = "\<lambda>q. q\<lparr>py_status := Some ''REFUND_UNKNOWN'',
      py_refund_reason := Some (''Provider refund failure (REFUND_UNKNOWN): REFUND_PROVIDER_FAILED'')\<rparr>"
  have "snd (refund_settle now oid bid b p (Inl (provider_error ''REFUND_PROVIDER_FAILED'' 502)) d) =
      update_payment now (\<lambda>q. py_id q = py_id p) ?f d"
    by (simp add: refund_settle_def refund_failed_def provider_error_def Let_def)
  moreover have "(?f p)\<lparr>py_updated_at := now\<rparr> \<in> set (payments (update_payment now (\<lambda>q. py_id q = py_id p) ?f d))"
    using assms by (auto simp: update_payment_def updateMany_def intro!: rev_image_eqI)
  moreover have "py_id ((?f p)\<lparr>py_updated_at := now\<rparr>) = py_id p \<and> has_status REFUND_UNKNOWN ((?f p)\<lparr>py_updated_at := now\<rparr>)"
    by (simp add: has_status_def)
  ultimately show ?thesis by metis
qed

end
