(* ===== verification/Skills.thy ===== *)
theory Skills
  imports Wave_Planner "HOL-Library.List_Lexorder" "HOL-Library.Char_ord"
begin

text \<open>
  The skill taxonomy, \<^verbatim>\<open>src/features/skill/skill.service.ts\<close>: canonical skills and their names, the resolver
  from a UUID or a free text to a skill, and the skills of workers and requirements. Generated ids are
  arguments. Matching \<^verbatim>\<open>mode: "insensitive"\<close> compares lower case; the unique key of the table compares the
  names as they are. The branches for mocked clients are left out.
\<close>

section \<open>Names\<close>

definition CANONICAL_DEFAULT_SKILLS :: "string list" where
  "CANONICAL_DEFAULT_SKILLS =
     [''Plumber'', ''Electrician'', ''Carpenter'', ''Painter'', ''Mason'', ''Helper'', ''Cleaner'', ''Welder'']"

text \<open>\<^verbatim>\<open>replace(/\\s+/g, " ")\<close>\<close>

lemma dropWhile_shorter [termination_simp]: "length (dropWhile P xs) < Suc (length xs)"
  by (simp add: le_imp_less_Suc length_dropWhile_le)

fun collapse_spaces :: "string \<Rightarrow> string" where
  "collapse_spaces [] = []"
| "collapse_spaces (c # cs) =
     (if is_space c then CHR '' '' # collapse_spaces (dropWhile is_space cs) else c # collapse_spaces cs)"

definition normalizeSkillName :: "string \<Rightarrow> string" where
  "normalizeSkillName name = collapse_spaces (trim name)"

definition same_name :: "string \<Rightarrow> skill_category \<Rightarrow> bool" where
  "same_name n c \<longleftrightarrow> toLowerCase (sc_name c) = toLowerCase n"

section \<open>Resolving\<close>

definition UUID_shape :: "string \<Rightarrow> bool" where
  "UUID_shape s \<longleftrightarrow> length s = 36 \<and>
     list_all (\<lambda>i. if i \<in> {8, 13, 18, 23} then s ! i = CHR ''-''
                   else if i = 14 then s ! i \<in> set ''12345''
                   else if i = 19 then lower_char (s ! i) \<in> set ''89ab''
                   else is_digit (s ! i) \<or> lower_char (s ! i) \<in> set ''abcdef'') [0..<36]"

definition resolveSkillId :: "string option \<Rightarrow> db \<Rightarrow> uuid option" where
  "resolveSkillId input d =
     (case input of None \<Rightarrow> None
      | Some s \<Rightarrow>
          if trim s = [] then None
          else if UUID_shape (trim s) then
            (case findUnique sc_id (trim s) (skill_categories d) of Some c \<Rightarrow> Some (sc_id c) | None \<Rightarrow> Some (trim s))
          else map_option sc_id (findFirst (same_name (trim s)) (skill_categories d)))"


definition getSkillById :: "string \<Rightarrow> db \<Rightarrow> skill_category option" where
  "getSkillById i d = (if i = [] \<or> \<not> UUID_shape i then None else findUnique sc_id i (skill_categories d))"

definition getSkills :: "bool \<Rightarrow> db \<Rightarrow> skill_category list" where
  "getSkills includeInactive d =
     sort_key sc_name (filter (\<lambda>c. includeInactive \<or> sc_is_active c \<noteq> Some False) (skill_categories d))"

section \<open>The taxonomy\<close>

definition new_skill :: "uuid \<Rightarrow> string \<Rightarrow> skill_category" where
  "new_skill i n = \<lparr>sc_id = i, sc_name = n, sc_is_active = Some True\<rparr>"

definition create_skill_row :: "uuid \<Rightarrow> string \<Rightarrow> db \<Rightarrow> error + db" where
  "create_skill_row i n d =
     (if list_ex (\<lambda>c. sc_id c = i \<or> sc_name c = n) (skill_categories d) then Inl (PrismaUniqueViolation ''name'')
      else Inr (d\<lparr>skill_categories := skill_categories d @ [new_skill i n]\<rparr>))"

text \<open>The duplicate check reads \<open>d0\<close>, the insert runs on \<open>d\<close>.\<close>

definition createSkill :: "uuid \<Rightarrow> string \<Rightarrow> db \<Rightarrow> db \<Rightarrow> (error + skill_category) \<times> db" where
  "createSkill i name d0 d =
     (let n = normalizeSkillName name
      in if n = [] then (Inl (StatusError 400 ''INVALID_SKILL_NAME''), d)
         else if findFirst (same_name n) (skill_categories d0) \<noteq> None then (Inl (StatusError 409 ''SKILL_ALREADY_EXISTS''), d)
         else (case create_skill_row i n d of
                 Inr d' \<Rightarrow> (Inr (new_skill i n), d')
               | Inl _ \<Rightarrow> (Inl (StatusError 409 ''SKILL_ALREADY_EXISTS''), d)))"

definition updateSkillStatus :: "uuid \<Rightarrow> bool \<Rightarrow> db \<Rightarrow> (error + unit) \<times> db" where
  "updateSkillStatus i isActive d =
     (case getSkillById i d of
        None \<Rightarrow> (Inl (StatusError 404 ''SKILL_NOT_FOUND''), d)
      | Some _ \<Rightarrow> (Inr (), d\<lparr>skill_categories :=
          updateMany (\<lambda>c. sc_id c = i) (\<lambda>c. c\<lparr>sc_is_active := Some isActive\<rparr>) (skill_categories d)\<rparr>))"

text \<open>Seeding; \<open>ids\<close> gives the id of each new row. A violated key ends the loop with an exception.\<close>

fun seedCanonicalSkills :: "(string \<Rightarrow> uuid) \<Rightarrow> string list \<Rightarrow> db \<Rightarrow> (error + unit) \<times> db" where
  "seedCanonicalSkills ids [] d = (Inr (), d)"
| "seedCanonicalSkills ids (name # names) d =
     (let n = normalizeSkillName name
      in if n = [] \<or> findFirst (same_name n) (skill_categories d) \<noteq> None then seedCanonicalSkills ids names d
         else (case create_skill_row (ids n) n d of
                 Inr d' \<Rightarrow> seedCanonicalSkills ids names d'
               | Inl e \<Rightarrow> (Inl e, d)))"

section \<open>Skills of workers and requirements\<close>

text \<open>The resolved ids, each once, in the order of the request.\<close>

definition resolve_all :: "string list \<Rightarrow> db \<Rightarrow> uuid list" where
  "resolve_all sids d = fold (\<lambda>s acc. case resolveSkillId (Some s) d of
     Some r \<Rightarrow> if r \<in> set acc then acc else acc @ [r] | None \<Rightarrow> acc) sids []"

text \<open>\<^verbatim>\<open>upsert\<close> on the pair, which the foreign keys refuse for an unknown worker or skill.\<close>

definition upsert_worker_skill :: "uuid \<Rightarrow> uuid \<Rightarrow> db \<Rightarrow> error + db" where
  "upsert_worker_skill w s d =
     (if (w, s) \<in> set (worker_skills d) then Inr d
      else if findUnique wk_id w (workers d) = None \<or> findUnique sc_id s (skill_categories d) = None then Inl (CodedError ''P2003'')
      else Inr (d\<lparr>worker_skills := worker_skills d @ [(w, s)]\<rparr>))"

fun upsert_worker_skills :: "uuid \<Rightarrow> uuid list \<Rightarrow> db \<Rightarrow> (error + unit) \<times> db" where
  "upsert_worker_skills w [] d = (Inr (), d)"
| "upsert_worker_skills w (s # ss) d =
     (case upsert_worker_skill w s d of Inl e \<Rightarrow> (Inl e, d) | Inr d' \<Rightarrow> upsert_worker_skills w ss d')"

definition getWorkerSkills :: "uuid \<Rightarrow> db \<Rightarrow> skill_category list" where
  "getWorkerSkills w d =
     (if w = [] \<or> \<not> UUID_shape w then []
      else case findUnique wk_id w (workers d) of None \<Rightarrow> []
       | Some row \<Rightarrow>
           let ids = wk_skill_category_id row # map snd (filter (\<lambda>p. fst p = w) (worker_skills d));
               skills = concat (map (\<lambda>i. case findUnique sc_id i (skill_categories d) of Some c \<Rightarrow> [c] | None \<Rightarrow> []) ids)
           in rev (remdups (rev skills)))"

definition assignWorkerSkills :: "uuid \<Rightarrow> string list \<Rightarrow> db \<Rightarrow> (error + skill_category list) \<times> db" where
  "assignWorkerSkills w sids d =
     (if w = [] \<or> \<not> UUID_shape w then (Inl (StatusError 400 ''INVALID_WORKER_ID''), d)
      else (case upsert_worker_skills w (resolve_all sids d) d of
              (Inl e, d') \<Rightarrow> (Inl e, d')
            | (Inr _, d') \<Rightarrow> (Inr (getWorkerSkills w d'), d')))"

definition removeWorkerSkill :: "uuid \<Rightarrow> uuid \<Rightarrow> db \<Rightarrow> db" where
  "removeWorkerSkill w s d =
     (if w = [] \<or> s = [] then d else d\<lparr>worker_skills := deleteMany (\<lambda>p. p = (w, s)) (worker_skills d)\<rparr>)"

fun assign_requirement_skills :: "uuid \<Rightarrow> string list \<Rightarrow> db \<Rightarrow> (error + unit) \<times> db" where
  "assign_requirement_skills r [] d = (Inr (), d)"
| "assign_requirement_skills r (x # xs) d =
     (case resolveSkillId (Some x) d of
        None \<Rightarrow> assign_requirement_skills r xs d
      | Some s \<Rightarrow>
          if (r, s) \<in> set (requirement_skills d) then assign_requirement_skills r xs d
          else if findUnique rq_id r (requirements d) = None \<or> findUnique sc_id s (skill_categories d) = None
          then (Inl (CodedError ''P2003''), d)
          else assign_requirement_skills r xs (d\<lparr>requirement_skills := requirement_skills d @ [(r, s)]\<rparr>))"

definition assignRequirementSkills :: "uuid \<Rightarrow> string list \<Rightarrow> db \<Rightarrow> (error + unit) \<times> db" where
  "assignRequirementSkills r sids d =
     (if r = [] \<or> \<not> UUID_shape r then (Inr (), d) else assign_requirement_skills r sids d)"

section \<open>Lemmas\<close>

text \<open>Names are pairwise different, also without regard to case.\<close>

definition taxonomy_ok :: "db \<Rightarrow> bool" where
  "taxonomy_ok d \<longleftrightarrow> distinct (map (\<lambda>c. toLowerCase (sc_name c)) (skill_categories d)) \<and> distinct (map sc_id (skill_categories d))"

lemma create_skill_rowE:
  assumes "create_skill_row i n d = Inr d'"
  obtains "d' = d\<lparr>skill_categories := skill_categories d @ [new_skill i n]\<rparr>" "i \<notin> sc_id ` set (skill_categories d)"
  using assms by (auto simp: create_skill_row_def list_ex_iff split: if_splits)

lemma create_row_ok:
  assumes "taxonomy_ok d" and "create_skill_row i n d = Inr d'" and "findFirst (same_name n) (skill_categories d) = None"
  shows "taxonomy_ok d'"
  using assms(2)
proof (rule create_skill_rowE)
  assume d': "d' = d\<lparr>skill_categories := skill_categories d @ [new_skill i n]\<rparr>" and i: "i \<notin> sc_id ` set (skill_categories d)"
  have "toLowerCase n \<notin> (\<lambda>c. toLowerCase (sc_name c)) ` set (skill_categories d)"
    using assms(3) by (auto simp: findFirst_None same_name_def)
  with assms(1) i show ?thesis by (auto simp: taxonomy_ok_def d' new_skill_def)
qed

lemma seed_ok: "taxonomy_ok d \<Longrightarrow> taxonomy_ok (snd (seedCanonicalSkills ids ns d))"
  by (induction ids ns d rule: seedCanonicalSkills.induct) (auto simp: Let_def create_row_ok split: sum.splits)

lemma findFirst_append: "findFirst P (t @ u) = (case findFirst P t of Some r \<Rightarrow> Some r | None \<Rightarrow> findFirst P u)"
  by (induction t) (auto simp: findFirst_def)

lemma findFirst_none_ex: "findFirst P t = None \<longleftrightarrow> \<not> list_ex P t"
  by (auto simp: findFirst_None list_ex_iff)

definition has_name :: "string \<Rightarrow> db \<Rightarrow> bool" where
  "has_name n d \<longleftrightarrow> list_ex (same_name n) (skill_categories d)"

lemma seed_Cons:
  "seedCanonicalSkills ids (name # names) d =
     (if normalizeSkillName name = [] \<or> has_name (normalizeSkillName name) d then seedCanonicalSkills ids names d
      else (case create_skill_row (ids (normalizeSkillName name)) (normalizeSkillName name) d of
              Inr d' \<Rightarrow> seedCanonicalSkills ids names d'
            | Inl e \<Rightarrow> (Inl e, d)))"
  by (simp add: Let_def findFirst_none_ex has_name_def)

declare seedCanonicalSkills.simps(2) [simp del]

lemma row_named: "create_skill_row i n d = Inr d' \<Longrightarrow> has_name m d' \<longleftrightarrow> has_name m d \<or> toLowerCase n = toLowerCase m"
  by (erule create_skill_rowE) (auto simp: has_name_def same_name_def new_skill_def list_ex_iff)

lemma seed_keeps: "has_name n d \<Longrightarrow> has_name n (snd (seedCanonicalSkills ids ns d))"
  by (induction ns arbitrary: d) (auto simp: seed_Cons row_named split: sum.splits)

text \<open>Once seeded, a skill name is there, so seeding again writes nothing.\<close>

lemma seed_present:
  assumes "seedCanonicalSkills ids ns d = (Inr (), d')" and "m \<in> set ns" and "normalizeSkillName m \<noteq> []"
  shows "has_name (normalizeSkillName m) d'"
  using assms
proof (induction ns arbitrary: d)
  case (Cons name names)
  let ?n = "normalizeSkillName name"
  from Cons.prems(1) obtain d1 where run: "seedCanonicalSkills ids names d1 = (Inr (), d')" and "?n = [] \<or> has_name ?n d1"
    by (auto simp: seed_Cons row_named split: if_splits sum.splits)
  then have "?n = [] \<or> has_name ?n d'" using seed_keeps [of ?n d1 ids names] by auto
  with Cons.IH [OF run] Cons.prems(2,3) show ?case by auto
qed simp

lemma seed_idle:
  "(\<And>m. m \<in> set ns \<Longrightarrow> normalizeSkillName m \<noteq> [] \<Longrightarrow> has_name (normalizeSkillName m) d) \<Longrightarrow> seedCanonicalSkills ids ns d = (Inr (), d)"
  by (induction ns) (auto simp: seed_Cons)

lemma seed_idempotent:
  assumes "seedCanonicalSkills ids ns d = (Inr (), d')"
  shows "seedCanonicalSkills ids' ns d' = (Inr (), d')"
  by (rule seed_idle) (rule seed_present [OF assms])

text \<open>The duplicate check and the unique key differ: two requests at the same time create a name twice.\<close>

lemma case_variants_race:
  "map sc_name (skill_categories (snd (createSkill ''k2'' ''plumber'' empty_db (snd (createSkill ''k1'' ''Plumber'' empty_db empty_db))))) =
   [''Plumber'', ''plumber'']"
  by code_simp

lemma create_resolves:
  assumes "taxonomy_ok d" and "createSkill i name d d = (Inr c, d')"
    and "toLowerCase (trim s) = toLowerCase (normalizeSkillName name)" and "\<not> UUID_shape (trim s)"
  shows "resolveSkillId (Some s) d' = Some i" and "taxonomy_ok d'"
proof -
  let ?n = "normalizeSkillName name"
  from assms(2) have n: "?n \<noteq> []" "findFirst (same_name ?n) (skill_categories d) = None"
    and row: "create_skill_row i ?n d = Inr d'"
    by (auto simp: createSkill_def Let_def split: if_splits sum.splits)
  show "taxonomy_ok d'" by (rule create_row_ok [OF assms(1) row n(2)])
  have same: "same_name (trim s) = same_name ?n" by (rule ext) (simp add: same_name_def assms(3))
  have "trim s \<noteq> []" using assms(3) n(1) by (auto simp: toLowerCase_def)
  moreover have "findFirst (same_name ?n) (skill_categories d') = Some (new_skill i ?n)"
    using row by (rule create_skill_rowE) (simp add: findFirst_append n(2), simp add: findFirst_def same_name_def new_skill_def)
  ultimately show "resolveSkillId (Some s) d' = Some i"
    using assms(4) same by (simp add: resolveSkillId_def new_skill_def)
qed

end
