(* ===== verification/Candidates.thy ===== *)
theory Candidates
  imports Job_Service Skills "HOL-Library.Product_Lexorder" "HOL-Library.List_Lexorder" "HOL-Library.Char_ord"
begin

text \<open>
  Who can be offered a job: \<^verbatim>\<open>src/features/dispatch/dispatchCandidate.service.ts\<close> with the location
  freshness policy \<^verbatim>\<open>src/features/dispatch/locationFreshnessPolicy.ts\<close>, its configuration
  \<^verbatim>\<open>src/config/locationFreshnessConfig.ts\<close>; skills are resolved by \<open>Skills\<close>.

  The eligibility query is the SQL statement's where clause, order and limit over the worker table.
  PostGIS is an argument: \<open>geo\<close> gives the distance in metres from a stored location to a point, which
  \<^verbatim>\<open>ST_DWithin\<close> compares with the radius. A cursor is its decoded payload.
\<close>

section \<open>Location freshness\<close>

definition DEFAULT_FRESHNESS_SECONDS :: int where
  "DEFAULT_FRESHNESS_SECONDS = 300"

definition DEFAULT_CLOCK_SKEW_MS :: int where
  "DEFAULT_CLOCK_SKEW_MS = 60000"

definition parsePositiveInteger :: "string option \<Rightarrow> int \<Rightarrow> error + int" where
  "parsePositiveInteger v fallback =
     (case v of None \<Rightarrow> Inr fallback
      | Some s \<Rightarrow>
          if trim s = [] then Inr fallback
          else if \<not> list_all is_digit (trim s) then Inl (PlainError ''must be a positive integer in seconds'')
          else let parsed = decimal_val (trim s)
               in if \<not> isSafeInteger parsed \<or> parsed \<le> 0 then Inl (PlainError ''must be a positive integer > 0'')
                  else if parsed < 10 then Inl (PlainError ''cannot be less than 10 seconds'')
                  else if parsed > 86400 then Inl (PlainError ''cannot exceed 86400 seconds'')
                  else Inr parsed)"

datatype LocationFreshnessReason = FRESH | STALE | MISSING | INVALID | FUTURE_SKEW_EXCEEDED

definition getFreshnessCutoffDate :: "timestamp \<Rightarrow> int \<Rightarrow> timestamp" where
  "getFreshnessCutoffDate now maxAgeSeconds = now - maxAgeSeconds * 1000"

text \<open>The reason of the verdict; the argument is null, something that is not a date, or a date.\<close>

definition isLocationFresh :: "timestamp option option \<Rightarrow> timestamp \<Rightarrow> int \<Rightarrow> int \<Rightarrow> LocationFreshnessReason" where
  "isLocationFresh lastLocationAt now maxAgeSeconds maxClockSkewMs =
     (case lastLocationAt of None \<Rightarrow> MISSING
      | Some None \<Rightarrow> INVALID
      | Some (Some ts) \<Rightarrow>
          if ts > now + maxClockSkewMs then FUTURE_SKEW_EXCEEDED
          else if ts \<ge> getFreshnessCutoffDate now maxAgeSeconds then FRESH else STALE)"

section \<open>The eligibility query\<close>

record candidate_query =
  cq_requirementId :: uuid
  cq_latitude :: "js_number option"
  cq_longitude :: "js_number option"
  cq_radiusMeters :: int
  cq_skillId :: "string option"
  cq_skillType :: "string option"
  cq_limit :: int
  cq_offset :: int
  cq_requireLocationFreshness :: bool
  cq_maxLocationAgeSeconds :: int
  cq_excludeDispatched :: bool

text \<open>A ranking position: distance, score (a missing score counts as -1) and id.\<close>

record CandidateCursorPayload =
  cc_dist_m :: rat
  cc_worker_score :: "rat option"
  cc_id :: uuid

definition candidate_skill :: "candidate_query \<Rightarrow> db \<Rightarrow> string option" where
  "candidate_skill q d =
     (let raw = (if truthy (cq_skillId q) then cq_skillId q else cq_skillType q)
      in if truthy raw \<and> trim (the raw) \<noteq> [] then
           (case resolveSkillId raw d of Some i \<Rightarrow> Some i | None \<Rightarrow> Some NIL_UUID)
         else if truthy raw then raw else None)"

definition has_skill :: "db \<Rightarrow> string option \<Rightarrow> worker \<Rightarrow> bool" where
  "has_skill d skill w \<longleftrightarrow>
     (case skill of None \<Rightarrow> True
      | Some s \<Rightarrow> wk_skill_category_id w = s \<or> (wk_id w, s) \<in> set (worker_skills d))"

definition sql_fresh :: "timestamp \<Rightarrow> int \<Rightarrow> worker \<Rightarrow> bool" where
  "sql_fresh now maxAge w \<longleftrightarrow>
     (case wk_last_location_at w of None \<Rightarrow> False
      | Some t \<Rightarrow> t \<ge> now - maxAge * 1000 \<and> t \<le> now + 60 * 1000)"

type_synonym geo = "string \<Rightarrow> js_number \<Rightarrow> js_number \<Rightarrow> rat"

definition dist_m :: "geo \<Rightarrow> candidate_query \<Rightarrow> worker \<Rightarrow> rat" where
  "dist_m geo q w = geo (the (wk_location_geo w)) (the (cq_latitude q)) (the (cq_longitude q))"

definition eligible :: "geo \<Rightarrow> timestamp \<Rightarrow> candidate_query \<Rightarrow> db \<Rightarrow> worker \<Rightarrow> bool" where
  "eligible geo now q d w \<longleftrightarrow>
     wk_is_online w = Some True \<and> wk_deleted_at w = None \<and> wk_verification_status w = ''verified'' \<and>
     wk_location_geo w \<noteq> None \<and> dist_m geo q w \<le> of_int (cq_radiusMeters q) \<and>
     has_skill d (candidate_skill q d) w \<and>
     (\<not> cq_excludeDispatched q \<or>
        \<not> list_ex (\<lambda>p. dp_requirement_id p = cq_requirementId q \<and> dp_worker_id p = wk_id w) (dispatches d)) \<and>
     \<not> list_ex (\<lambda>b. bk_worker_id b = wk_id w \<and> bk_status b \<in> {''CONFIRMED'', ''IN_PROGRESS''}) (bookings d) \<and>
     (\<not> cq_requireLocationFreshness q \<or> sql_fresh now (cq_maxLocationAgeSeconds q) w)"

text \<open>\<^verbatim>\<open>ORDER BY dist_m ASC, worker_score DESC NULLS LAST, id ASC\<close>\<close>

definition rank_key :: "geo \<Rightarrow> candidate_query \<Rightarrow> worker \<Rightarrow> rat \<times> (bool \<times> rat) \<times> uuid" where
  "rank_key geo q w =
     (dist_m geo q w, (case wk_worker_score w of None \<Rightarrow> (True, 0) | Some s \<Rightarrow> (False, - s)), wk_id w)"

text \<open>The cursor's comparison, which puts a missing score at -1.\<close>

definition after_cursor :: "geo \<Rightarrow> candidate_query \<Rightarrow> CandidateCursorPayload \<Rightarrow> worker \<Rightarrow> bool" where
  "after_cursor geo q c w \<longleftrightarrow>
     (let score = (case wk_worker_score w of None \<Rightarrow> -1 | Some s \<Rightarrow> s);
          cursorScore = (case cc_worker_score c of None \<Rightarrow> -1 | Some s \<Rightarrow> s)
      in dist_m geo q w > cc_dist_m c \<or>
         dist_m geo q w = cc_dist_m c \<and> (score < cursorScore \<or> score = cursorScore \<and> wk_id w > cc_id c))"

definition candidate_cursor :: "geo \<Rightarrow> candidate_query \<Rightarrow> worker \<Rightarrow> CandidateCursorPayload" where
  "candidate_cursor geo q w = \<lparr>cc_dist_m = dist_m geo q w, cc_worker_score = wk_worker_score w, cc_id = wk_id w\<rparr>"

record CandidatePageResult =
  cp_candidates :: "worker list"
  cp_hasMore :: bool
  cp_pageSize :: int
  cp_nextCursor :: "CandidateCursorPayload option"

definition safe_page :: "int \<Rightarrow> int" where
  "safe_page n = max 1 (min n 100)"

definition validateDispatchCoordinates :: "js_number option \<Rightarrow> js_number option \<Rightarrow> bool" where
  "validateDispatchCoordinates lat lon =
     (case validateCoordinatePair (map_option JNum lat) (map_option JNum lon) of Inr _ \<Rightarrow> True | Inl _ \<Rightarrow> False)"

definition candidate_rows ::
  "geo \<Rightarrow> timestamp \<Rightarrow> candidate_query \<Rightarrow> CandidateCursorPayload option \<Rightarrow> db \<Rightarrow> worker list" where
  "candidate_rows geo now q cursor d =
     (let rows = sort_key (rank_key geo q)
                   (filter (\<lambda>w. eligible geo now q d w \<and> (case cursor of None \<Rightarrow> True | Some c \<Rightarrow> after_cursor geo q c w)) (workers d))
      in take (nat (safe_page (cq_limit q)) + 1) (drop (if cursor = None then nat (max 0 (cq_offset q)) else 0) rows))"

text \<open>The argument \<open>ok\<close> tells whether the statement succeeds; its failure is caught and gives an empty page.\<close>

definition getEligibleCandidatePage ::
  "bool \<Rightarrow> geo \<Rightarrow> timestamp \<Rightarrow> candidate_query \<Rightarrow> CandidateCursorPayload option \<Rightarrow> db \<Rightarrow> CandidatePageResult" where
  "getEligibleCandidatePage ok geo now q cursor d =
     (if \<not> validateDispatchCoordinates (cq_latitude q) (cq_longitude q) \<or> cq_radiusMeters q \<le> 0 \<or> \<not> ok
      then \<lparr>cp_candidates = [], cp_hasMore = False, cp_pageSize = safe_page (cq_limit q), cp_nextCursor = None\<rparr>
      else
        let rows = candidate_rows geo now q cursor d;
            hasMore = (length rows > nat (safe_page (cq_limit q)));
            candidates = (if hasMore then take (nat (safe_page (cq_limit q))) rows else rows)
        in \<lparr>cp_candidates = candidates, cp_hasMore = hasMore, cp_pageSize = safe_page (cq_limit q),
            cp_nextCursor = (if hasMore \<and> candidates \<noteq> [] then Some (candidate_cursor geo q (last candidates)) else None)\<rparr>)"

definition getEligibleDispatchCandidates :: "bool \<Rightarrow> geo \<Rightarrow> timestamp \<Rightarrow> candidate_query \<Rightarrow> db \<Rightarrow> worker list" where
  "getEligibleDispatchCandidates ok geo now q d = cp_candidates (getEligibleCandidatePage ok geo now q None d)"

definition getWaveRadiusMeters :: "DispatchWaveConfiguration \<Rightarrow> int \<Rightarrow> int option" where
  "getWaveRadiusMeters cfg wave =
     (let i = max 1 (min wave (maxWaves cfg)) - 1
      in if i < int (length (radiusMetersByWave cfg)) then Some (radiusMetersByWave cfg ! nat i) else None)"

section \<open>Paging\<close>

text \<open>A client that follows the cursors, at most \<open>n\<close> times.\<close>

fun all_pages :: "geo \<Rightarrow> timestamp \<Rightarrow> candidate_query \<Rightarrow> db \<Rightarrow> nat \<Rightarrow> CandidateCursorPayload option \<Rightarrow> worker list" where
  "all_pages geo now q d 0 cursor = []"
| "all_pages geo now q d (Suc n) cursor =
     (let page = getEligibleCandidatePage True geo now q cursor d
      in cp_candidates page @
         (case cp_nextCursor page of None \<Rightarrow> [] | Some c \<Rightarrow> all_pages geo now q d n (Some c)))"

section \<open>Lemmas\<close>

lemma rank_key_inj: "rank_key geo q v = rank_key geo q w \<Longrightarrow> wk_id v = wk_id w"
  by (simp add: rank_key_def)

text \<open>With scores above -1 the cursor comparison is the ranking order.\<close>

definition scored :: "worker \<Rightarrow> bool" where
  "scored w \<longleftrightarrow> (case wk_worker_score w of None \<Rightarrow> True | Some s \<Rightarrow> s > -1)"

lemma after_cursor_iff:
  assumes "scored v" and "scored w"
  shows "after_cursor geo q (candidate_cursor geo q v) w \<longleftrightarrow> rank_key geo q v < rank_key geo q w"
  using assms
  by (cases "wk_worker_score v"; cases "wk_worker_score w")
    (auto simp: after_cursor_def candidate_cursor_def rank_key_def scored_def less_prod_def' Let_def)

lemma filter_above:
  assumes "sorted (map k xs)" and "distinct (map k xs)" and "i < length xs"
  shows "filter (\<lambda>x. k (xs ! i) < k x) xs = drop (Suc i) xs"
proof -
  have st: "k (xs ! a) < k (xs ! b)" if "a < b" "b < length xs" for a b
  proof -
    have "sorted_wrt (<) (map k xs)" using assms(1,2) by (simp add: strict_sorted_iff)
    from sorted_wrt_nth_less [OF this that(1)] that show ?thesis by simp
  qed
  have "filter (\<lambda>x. k (xs ! i) < k x) (take (Suc i) xs) = []"
  proof -
    have "\<not> k (xs ! i) < k x" if "x \<in> set (take (Suc i) xs)" for x
    proof -
      from that obtain j where "j < Suc i" "x = xs ! j" using assms(3) by (auto simp: in_set_conv_nth)
      then show ?thesis using st [of j i] assms(3) by (cases "j = i") (auto simp: less_Suc_eq)
    qed
    then show ?thesis by (simp add: filter_empty_conv)
  qed
  moreover have "filter (\<lambda>x. k (xs ! i) < k x) (drop (Suc i) xs) = drop (Suc i) xs"
  proof -
    have "k (xs ! i) < k x" if "x \<in> set (drop (Suc i) xs)" for x
    proof -
      from that obtain j where "j < length xs - Suc i" "x = xs ! (Suc i + j)" by (auto simp: in_set_conv_nth)
      then show ?thesis using st [of i "Suc i + j"] by simp
    qed
    then show ?thesis by (simp add: filter_id_conv)
  qed
  ultimately show ?thesis by (metis append_Nil append_take_drop_id filter_append)
qed

text \<open>The full ranking, and what is left of it after a cursor.\<close>

definition ranking :: "geo \<Rightarrow> timestamp \<Rightarrow> candidate_query \<Rightarrow> db \<Rightarrow> worker list" where
  "ranking geo now q d = sort_key (rank_key geo q) (filter (eligible geo now q d) (workers d))"

lemma ranking_sorted: "sorted (map (rank_key geo q) (ranking geo now q d))"
  by (simp add: ranking_def)

lemma ranking_distinct:
  assumes "distinct (map wk_id (workers d))"
  shows "distinct (map (rank_key geo q) (ranking geo now q d))"
proof -
  have "inj_on wk_id (set (workers d))" "distinct (workers d)" using assms by (auto simp: distinct_map)
  then have "inj_on (rank_key geo q) (set (workers d))" by (auto simp: inj_on_def dest: rank_key_inj)
  then have "inj_on (rank_key geo q) (set (filter (eligible geo now q d) (workers d)))" by (rule inj_on_subset) auto
  with \<open>distinct (workers d)\<close> show ?thesis by (simp add: ranking_def distinct_map)
qed

lemma ranking_set: "w \<in> set (ranking geo now q d) \<longleftrightarrow> w \<in> set (workers d) \<and> eligible geo now q d w"
  by (auto simp: ranking_def)

lemma rows_after:
  assumes "distinct (map wk_id (workers d))" and "list_all scored (workers d)" and "i < length (ranking geo now q d)"
  shows "sort_key (rank_key geo q) (filter (\<lambda>w. eligible geo now q d w \<and>
      after_cursor geo q (candidate_cursor geo q (ranking geo now q d ! i)) w) (workers d)) = drop (Suc i) (ranking geo now q d)"
proof -
  let ?R = "ranking geo now q d" and ?k = "rank_key geo q"
  have sc: "scored w" if "w \<in> set (workers d)" for w using assms(2) that by (simp add: list_all_iff)
  have v: "?R ! i \<in> set (workers d)" using nth_mem [OF assms(3)] by (simp add: ranking_set)
  have "sort_key ?k (filter (\<lambda>w. eligible geo now q d w \<and> after_cursor geo q (candidate_cursor geo q (?R ! i)) w) (workers d)) =
    filter (after_cursor geo q (candidate_cursor geo q (?R ! i))) ?R"
    by (simp add: ranking_def filter_sort conj_commute)
  also have "\<dots> = filter (\<lambda>w. ?k (?R ! i) < ?k w) ?R"
    by (rule filter_cong) (auto simp: ranking_set sc v after_cursor_iff)
  also have "\<dots> = drop (Suc i) ?R"
    by (rule filter_above [OF ranking_sorted ranking_distinct [OF assms(1)] assms(3)])
  finally show ?thesis .
qed

text \<open>The part of the ranking that is still to come at a cursor.\<close>

definition remaining :: "geo \<Rightarrow> timestamp \<Rightarrow> candidate_query \<Rightarrow> db \<Rightarrow> CandidateCursorPayload option \<Rightarrow> worker list" where
  "remaining geo now q d cursor = drop (if cursor = None then nat (max 0 (cq_offset q)) else 0)
     (sort_key (rank_key geo q) (filter (\<lambda>w. eligible geo now q d w \<and> (case cursor of None \<Rightarrow> True | Some c \<Rightarrow> after_cursor geo q c w)) (workers d)))"

lemma page_remaining:
  assumes "validateDispatchCoordinates (cq_latitude q) (cq_longitude q)" and "0 < cq_radiusMeters q"
  shows "cp_candidates (getEligibleCandidatePage True geo now q cursor d) = take (nat (safe_page (cq_limit q))) (remaining geo now q d cursor)"
    "cp_nextCursor (getEligibleCandidatePage True geo now q cursor d) =
       (if length (remaining geo now q d cursor) > nat (safe_page (cq_limit q))
        then Some (candidate_cursor geo q (remaining geo now q d cursor ! (nat (safe_page (cq_limit q)) - 1))) else None)"
proof -
  let ?n = "nat (safe_page (cq_limit q))" and ?r = "remaining geo now q d cursor"
  have n: "0 < ?n" by (simp add: safe_page_def)
  have rows: "candidate_rows geo now q cursor d = take (?n + 1) ?r" by (simp add: candidate_rows_def remaining_def)
  have more: "length (take (?n + 1) ?r) > ?n \<longleftrightarrow> length ?r > ?n" by auto
  show "cp_candidates (getEligibleCandidatePage True geo now q cursor d) = take ?n ?r"
    using assms by (simp add: getEligibleCandidatePage_def Let_def rows min_def) 
  have "last (take ?n ?r) = ?r ! (?n - 1)" if "length ?r > ?n" using that n by (subst last_conv_nth) (auto simp: min_def)
  then show "cp_nextCursor (getEligibleCandidatePage True geo now q cursor d) =
       (if length ?r > ?n then Some (candidate_cursor geo q (?r ! (?n - 1))) else None)"
    using assms n by (auto simp: getEligibleCandidatePage_def Let_def rows min_def)
qed


lemma remaining_none: "cq_offset q \<le> 0 \<Longrightarrow> remaining geo now q d None = ranking geo now q d"
  by (simp add: remaining_def ranking_def)

lemma remaining_some:
  assumes "distinct (map wk_id (workers d))" and "list_all scored (workers d)" and "i < length (ranking geo now q d)"
  shows "remaining geo now q d (Some (candidate_cursor geo q (ranking geo now q d ! i))) = drop (Suc i) (ranking geo now q d)"
  by (simp add: remaining_def rows_after [OF assms])

lemma all_pages_suffix:
  assumes q: "validateDispatchCoordinates (cq_latitude q) (cq_longitude q)" "0 < cq_radiusMeters q"
    and d: "distinct (map wk_id (workers d))" "list_all scored (workers d)"
    and "remaining geo now q d cursor = drop k (ranking geo now q d)"
    and "length (remaining geo now q d cursor) < n"
  shows "all_pages geo now q d n cursor = remaining geo now q d cursor"
  using assms(5,6)
proof (induction n arbitrary: cursor k)
  case 0
  then show ?case by simp
next
  case (Suc n)
  let ?R = "ranking geo now q d" and ?r = "remaining geo now q d cursor" and ?s = "nat (safe_page (cq_limit q))"
  have s: "0 < ?s" by (simp add: safe_page_def)
  note page = page_remaining [OF q, of geo now cursor d]
  show ?case
  proof (cases "length ?r > ?s")
    case False
    then show ?thesis by (simp add: page Let_def)
  next
    case True
    let ?i = "k + (?s - 1)"
    let ?c = "candidate_cursor geo q (?R ! ?i)"
    have i: "?i < length ?R" using True s Suc.prems(1) by simp
    have "?r ! (?s - 1) = ?R ! ?i" using i Suc.prems(1) by simp
    then have nc: "cp_nextCursor (getEligibleCandidatePage True geo now q cursor d) = Some ?c" using True by (simp add: page)
    have rem: "remaining geo now q d (Some ?c) = drop (Suc ?i) ?R" by (rule remaining_some [OF d i])
    also have "Suc ?i = ?s + k" using s by simp
    also have "drop (?s + k) ?R = drop ?s ?r" using Suc.prems(1) by simp
    finally have tl: "remaining geo now q d (Some ?c) = drop ?s ?r" .
    have "all_pages geo now q d n (Some ?c) = remaining geo now q d (Some ?c)"
    proof (rule Suc.IH [OF rem])
      show "length (remaining geo now q d (Some ?c)) < n" unfolding tl length_drop using Suc.prems(2) s True by linarith
    qed
    moreover have "all_pages geo now q d (Suc n) cursor = take ?s ?r @ all_pages geo now q d n (Some ?c)"
      unfolding all_pages.simps Let_def nc page(1) by simp
    ultimately show ?thesis using tl by simp
  qed
qed

text \<open>The SQL freshness test is the policy of the location module.\<close>

lemma sql_fresh_policy:
  "sql_fresh now maxAge w \<longleftrightarrow> isLocationFresh (map_option Some (wk_last_location_at w)) now maxAge DEFAULT_CLOCK_SKEW_MS = FRESH"
  by (auto simp: sql_fresh_def isLocationFresh_def getFreshnessCutoffDate_def DEFAULT_CLOCK_SKEW_MS_def split: option.split)

text \<open>What every returned candidate is: the checks the eligibility contract promises.\<close>

lemma candidates_eligible:
  assumes "w \<in> set (cp_candidates (getEligibleCandidatePage ok geo now q cursor d))"
  shows "w \<in> set (workers d)" and "eligible geo now q d w" and "validateDispatchCoordinates (cq_latitude q) (cq_longitude q)"
proof -
  have *: "validateDispatchCoordinates (cq_latitude q) (cq_longitude q) \<and> 0 < cq_radiusMeters q \<and> ok"
    by (rule ccontr) (use assms in \<open>auto simp: getEligibleCandidatePage_def\<close>)
  then show "validateDispatchCoordinates (cq_latitude q) (cq_longitude q)" by blast
  from * have "w \<in> set (remaining geo now q d cursor)"
    using assms page_remaining(1) [of q geo now cursor d] by (auto dest: in_set_takeD)
  then have "w \<in> set (filter (\<lambda>w. eligible geo now q d w \<and> (case cursor of None \<Rightarrow> True | Some c \<Rightarrow> after_cursor geo q c w)) (workers d))"
    by (auto simp: remaining_def dest: in_set_dropD)
  then show "w \<in> set (workers d)" "eligible geo now q d w" by auto
qed

lemma candidates_bounded: "length (getEligibleDispatchCandidates ok geo now q d) \<le> nat (safe_page (cq_limit q))"
proof (cases "validateDispatchCoordinates (cq_latitude q) (cq_longitude q) \<and> 0 < cq_radiusMeters q \<and> ok")
  case True
  then show ?thesis using page_remaining(1) [of q geo now None d] by (simp add: getEligibleDispatchCandidates_def)
next
  case False
  then have "cp_candidates (getEligibleCandidatePage ok geo now q None d) = []" by (auto simp: getEligibleCandidatePage_def)
  then show ?thesis by (simp add: getEligibleDispatchCandidates_def)
qed

text \<open>
  C37. Following the cursors enumerates the ranking: for valid coordinates, a positive radius and scores above -1
  (the value the cursor comparison gives a missing score), the pages of \<^verbatim>\<open>getEligibleCandidatePage\<close>, put together,
  are exactly the eligible workers in ranking order, each once, and one request per eligible worker and one more
  are enough to reach the last page.
\<close>

theorem pages_enumerate:
  assumes "validateDispatchCoordinates (cq_latitude q) (cq_longitude q)" and "0 < cq_radiusMeters q" and "cq_offset q \<le> 0"
    and "distinct (map wk_id (workers d))" and "list_all scored (workers d)"
    and "length (filter (eligible geo now q d) (workers d)) < n"
  shows "all_pages geo now q d n None = sort_key (rank_key geo q) (filter (eligible geo now q d) (workers d))"
  unfolding ranking_def [symmetric] remaining_none [OF assms(3), symmetric]
proof (rule all_pages_suffix [OF assms(1,2,4,5), where k = 0])
  show "remaining geo now q d None = drop 0 (ranking geo now q d)" by (simp add: remaining_none [OF assms(3)])
  show "length (remaining geo now q d None) < n" using assms(6) by (simp add: remaining_none [OF assms(3)] ranking_def)
qed

definition sample_query :: candidate_query where
  "sample_query = \<lparr>cq_requirementId = ''r1'', cq_latitude = Some (Finite 12), cq_longitude = Some (Finite 77), cq_radiusMeters = 5000,
     cq_skillId = None, cq_skillType = None, cq_limit = 1, cq_offset = 0, cq_requireLocationFreshness = True,
     cq_maxLocationAgeSeconds = 300, cq_excludeDispatched = True\<rparr>"

definition sample_geo :: geo where
  "sample_geo g lat lon = (if g = ''near'' then 100 else 900)"

definition sample_candidates_db :: db where
  "sample_candidates_db = empty_db\<lparr>workers :=
     [sample_worker\<lparr>wk_id := ''w2'', wk_is_online := Some True, wk_location_geo := Some ''far'', wk_last_location_at := Some 0\<rparr>,
      sample_worker\<lparr>wk_id := ''w3'', wk_is_online := Some True, wk_location_geo := Some ''near'', wk_last_location_at := Some 0\<rparr>]\<rparr>"

theorem pages_enumerate_witness:
  "all_pages sample_geo 1000 sample_query sample_candidates_db 3 None =
     sort_key (rank_key sample_geo sample_query)
       (filter (eligible sample_geo 1000 sample_query sample_candidates_db) (workers sample_candidates_db)) \<and>
   map wk_id (all_pages sample_geo 1000 sample_query sample_candidates_db 3 None) = [''w3'', ''w2'']"
proof
  show eq: "all_pages sample_geo 1000 sample_query sample_candidates_db 3 None =
     sort_key (rank_key sample_geo sample_query)
       (filter (eligible sample_geo 1000 sample_query sample_candidates_db) (workers sample_candidates_db))"
    by (rule pages_enumerate) code_simp+
  show "map wk_id (all_pages sample_geo 1000 sample_query sample_candidates_db 3 None) = [''w3'', ''w2'']"
    by code_simp
qed

end
