(* ===== verification/Dispatch_Workers.thy ===== *)
theory Dispatch_Workers
  imports Candidates Marketplace
begin

text \<open>
  The dispatch engine behind the queues: \<^verbatim>\<open>processDispatchJob\<close> of \<^verbatim>\<open>src/workers/dispatchWorker.ts\<close>
  (one wave of offers), \<^verbatim>\<open>processTimeoutJob\<close> of \<^verbatim>\<open>src/workers/timeoutWorker.ts\<close> (a wave runs out) and
  \<^verbatim>\<open>reconcileDispatchState\<close> of \<^verbatim>\<open>src/features/dispatch/dispatchReconciliationService.ts\<close> (recovery after a
  crash).

  A queue is the list of messages an operation adds to it. \<open>processDispatchJob\<close> reads from one database and
  runs its transaction on another: what other requests commit in between. The answers of the outside world
  (clock, generated ids, whether the candidate query, the transaction and the queue succeed) are the fields
  of \<open>dispatch_run\<close>. The branches for a database client without transactions or without the outbox table,
  which serve mocked tests, are left out, as are log lines and metrics.
\<close>

section \<open>Messages and results\<close>

record dispatch_env =
  de_config :: DispatchWaveConfiguration
  de_sha256hex :: "string \<Rightarrow> string"
  de_geo :: geo
  de_maxAgeSeconds :: int

record DispatchJobData =
  dj_requirementId :: uuid
  dj_jobId :: uuid
  dj_waveNumber :: "int option"
  dj_offset :: "int option"

text \<open>\<open>dr_details\<close> holds the fields of the notification that only its reader uses (place, customer name, texts).\<close>

record dispatch_run =
  dr_now :: timestamp
  dr_wave_id :: uuid
  dr_outbox_id :: "uuid \<Rightarrow> uuid"
  dr_details :: json_object
  dr_query_ok :: bool
  dr_aborted :: bool
  dr_queue_ok :: bool

record DispatchOperationResult =
  or_operationId :: string
  or_requirementId :: uuid
  or_jobId :: uuid
  or_waveNumber :: int
  or_waveId :: "uuid option"
  or_status :: string
  or_workersDispatchedCount :: int
  or_workerIds :: "uuid list"

record TimeoutJobData =
  tj_requirementId :: uuid
  tj_jobId :: uuid
  tj_waveNumber :: int
  tj_totalWorkersFound :: "int option"
  tj_offset :: "int option"
  tj_waveSize :: "int option"
  tj_hasMoreCandidates :: "bool option"
  tj_candidatesExhausted :: "bool option"

record timeout_message =
  tm_data :: TimeoutJobData
  tm_operationId :: string
  tm_delay :: int
  tm_key :: string

definition wave_timeout_key :: "uuid \<Rightarrow> int \<Rightarrow> string" where
  "wave_timeout_key r n = ''wave-timeout:'' @ r @ '':wave-'' @ digits (nat n)"

section \<open>A wave of offers\<close>

definition same_wave :: "string \<Rightarrow> uuid \<Rightarrow> int \<Rightarrow> dispatch_wave \<Rightarrow> bool" where
  "same_wave opId r n v \<longleftrightarrow> wv_operation_id v = Some opId \<or> wv_requirement_id v = r \<and> wv_wave_number v = n"

definition in_wave :: "uuid \<Rightarrow> int \<Rightarrow> job_dispatch \<Rightarrow> bool" where
  "in_wave r n p \<longleftrightarrow> dp_requirement_id p = r \<and> dp_wave_number p = Some n"

text \<open>The stored outcome of a wave that was dispatched before.\<close>

definition existing_result ::
  "string \<Rightarrow> uuid \<Rightarrow> uuid \<Rightarrow> int \<Rightarrow> dispatch_wave option \<Rightarrow> db \<Rightarrow> DispatchOperationResult" where
  "existing_result opId r jobId n v d =
     (let ids = map dp_worker_id (filter (in_wave r n) (dispatches d))
      in \<lparr>or_operationId = opId, or_requirementId = r, or_jobId = jobId, or_waveNumber = n,
          or_waveId = map_option wv_id v, or_status = ''already_processed'',
          or_workersDispatchedCount = (case Option.bind v wv_workers_notified of Some k \<Rightarrow> k | None \<Rightarrow> int (length ids)),
          or_workerIds = ids\<rparr>)"

definition empty_result :: "string \<Rightarrow> uuid \<Rightarrow> uuid \<Rightarrow> int \<Rightarrow> string \<Rightarrow> DispatchOperationResult" where
  "empty_result opId r jobId n s =
     \<lparr>or_operationId = opId, or_requirementId = r, or_jobId = jobId, or_waveNumber = n, or_waveId = None,
      or_status = s, or_workersDispatchedCount = 0, or_workerIds = []\<rparr>"

text \<open>\<^verbatim>\<open>createMany({ skipDuplicates: true })\<close> on a table with a unique key.\<close>

fun createManySkip :: "('r \<Rightarrow> 'k) \<Rightarrow> 'r list \<Rightarrow> 'r list \<Rightarrow> 'r list" where
  "createManySkip key [] t = t"
| "createManySkip key (r # rs) t =
     createManySkip key rs (if list_ex (\<lambda>x. key x = key r) t then t else t @ [r])"

definition offer_key :: "job_dispatch \<Rightarrow> uuid \<times> uuid" where
  "offer_key p = (dp_requirement_id p, dp_worker_id p)"

definition wave_offer :: "uuid \<Rightarrow> int \<Rightarrow> timestamp \<Rightarrow> timestamp \<Rightarrow> nat \<times> worker \<Rightarrow> job_dispatch" where
  "wave_offer r n now expiresAt = (\<lambda>(i, w).
     \<lparr>dp_requirement_id = r, dp_worker_id = wk_id w, dp_wave_number = Some n, dp_wave_position = Some (int i + 1),
      dp_status = ''pending'', dp_notified_at = Some now, dp_expires_at = Some expiresAt, dp_responded_at = None\<rparr>)"

definition incoming_job_key :: "uuid \<Rightarrow> int \<Rightarrow> uuid \<Rightarrow> string" where
  "incoming_job_key r n w = ''incoming_job:'' @ r @ '':'' @ digits (nat n) @ '':'' @ w"

definition incoming_job_event :: "dispatch_run \<Rightarrow> uuid \<Rightarrow> uuid \<Rightarrow> int \<Rightarrow> worker \<Rightarrow> notification_outbox" where
  "incoming_job_event x r jobId n w =
     \<lparr>ob_id = dr_outbox_id x (wk_id w), ob_event_type = ''incoming_job'', ob_aggregate_type = ''requirement'',
      ob_aggregate_id = r, ob_aggregate_version = 1, ob_recipient_type = ''worker'', ob_recipient_id = wk_id w,
      ob_payload = [(''jobId'', JStr jobId), (''requirementId'', JStr r),
        (''waveNumber'', JNum (Finite (of_int n)))] @ dr_details x,
      ob_status = ''PENDING'', ob_socket_status = ''PENDING'', ob_socket_sent_at = None,
      ob_socket_error = None, ob_fcm_status = ''PENDING'', ob_fcm_sent_at = None, ob_fcm_error = None,
      ob_attempts = 0, ob_max_attempts = 5, ob_available_at = dr_now x, ob_processed_at = None,
      ob_failed_at = None, ob_last_error = None, ob_idempotency_key = Some (incoming_job_key r n (wk_id w)),
      ob_acknowledged_at = None, ob_acknowledged_by = None, ob_created_at = dr_now x, ob_updated_at = dr_now x\<rparr>"

definition new_wave :: "dispatch_run \<Rightarrow> string \<Rightarrow> uuid \<Rightarrow> int \<Rightarrow> int \<Rightarrow> dispatch_wave" where
  "new_wave x opId r n waveSize =
     \<lparr>wv_id = dr_wave_id x, wv_operation_id = Some opId, wv_requirement_id = r, wv_wave_number = n,
      wv_status = ''active'', wv_notified_at = Some (dr_now x), wv_resolved_at = None,
      wv_workers_notified = Some waveSize\<rparr>"

text \<open>The transaction: the unique keys of a wave are its id, its operation id and (requirement, number).\<close>

definition executeWrites ::
  "dispatch_run \<Rightarrow> string \<Rightarrow> uuid \<Rightarrow> uuid \<Rightarrow> int \<Rightarrow> int \<Rightarrow> timestamp \<Rightarrow> worker list \<Rightarrow> db \<Rightarrow> error + (dispatch_wave \<times> db)" where
  "executeWrites x opId r jobId n waveSize expiresAt waveWorkers d =
     (if dr_aborted x then Inl PrismaConflict
      else if list_ex (\<lambda>v. wv_id v = dr_wave_id x) (waves d) then Inl (PrismaUniqueViolation ''id'')
      else if list_ex (\<lambda>v. wv_operation_id v = Some opId) (waves d) then Inl (PrismaUniqueViolation ''operation_id'')
      else if list_ex (\<lambda>v. wv_requirement_id v = r \<and> wv_wave_number v = n) (waves d)
      then Inl (PrismaUniqueViolation ''requirement_id'')
      else Inr (new_wave x opId r n waveSize,
             d\<lparr>waves := waves d @ [new_wave x opId r n waveSize],
               dispatches := createManySkip offer_key
                 (map (wave_offer r n (dr_now x) expiresAt) (enumerate 0 waveWorkers)) (dispatches d),
               outbox := createManySkip ob_idempotency_key
                 (map (incoming_job_event x r jobId n) waveWorkers) (outbox d)\<rparr>))"

definition mark_no_workers :: "timestamp \<Rightarrow> uuid \<Rightarrow> db \<Rightarrow> db" where
  "mark_no_workers now r d = update_requirement r
     \<lparr>ru_status = Some (req_status_str NO_WORKERS_AVAILABLE), ru_filled = None, ru_needed = None, ru_now = now\<rparr> d"

text \<open>A radius beyond the configured list is \<^verbatim>\<open>undefined\<close>, which the query refuses like 0.\<close>

definition wave_query :: "dispatch_env \<Rightarrow> job_requirement \<Rightarrow> job \<Rightarrow> DispatchWavePlan \<Rightarrow> candidate_query" where
  "wave_query E req j plan =
     \<lparr>cq_requirementId = rq_id req, cq_latitude = jb_latitude j, cq_longitude = jb_longitude j,
      cq_radiusMeters = (case pl_radiusMeters plan of Some m \<Rightarrow> m | None \<Rightarrow> 0),
      cq_skillId = rq_skill_id req, cq_skillType = rq_skill_type req, cq_limit = pl_targetCandidateCount plan,
      cq_offset = 0, cq_requireLocationFreshness = True, cq_maxLocationAgeSeconds = de_maxAgeSeconds E,
      cq_excludeDispatched = True\<rparr>"

definition wave_timeout ::
  "string \<Rightarrow> uuid \<Rightarrow> uuid \<Rightarrow> int \<Rightarrow> int \<Rightarrow> int \<Rightarrow> int \<Rightarrow> DispatchWavePlan \<Rightarrow> DispatchWavePlan \<Rightarrow> timeout_message" where
  "wave_timeout opId r jobId n found offset waveSize initialPlan plan =
     \<lparr>tm_data = \<lparr>tj_requirementId = r, tj_jobId = jobId, tj_waveNumber = n, tj_totalWorkersFound = Some found,
        tj_offset = Some offset, tj_waveSize = Some waveSize, tj_hasMoreCandidates = Some (found \<ge> waveSize),
        tj_candidatesExhausted = Some (found = 0 \<and> pl_isFinalAllowedWave initialPlan)\<rparr>,
      tm_operationId = opId, tm_delay = pl_timeoutMs plan, tm_key = wave_timeout_key r n\<rparr>"

text \<open>From the persistence step on; \<open>found\<close> are the candidates of the query.\<close>

definition dispatch_persist ::
  "dispatch_run \<Rightarrow> DispatchJobData \<Rightarrow> string \<Rightarrow> int \<Rightarrow> worker list \<Rightarrow> DispatchWavePlan \<Rightarrow> DispatchWavePlan \<Rightarrow> db
   \<Rightarrow> (error + DispatchOperationResult) \<times> timeout_message list \<times> db" where
  "dispatch_persist x q opId n found initialPlan plan d =
     (let r = dj_requirementId q; jobId = dj_jobId q;
          waveSize = pl_targetCandidateCount plan;
          waveWorkers = take (nat waveSize) found;
          expiresAt = dr_now x + pl_timeoutMs plan;
          offset = (case dj_offset q of Some k \<Rightarrow> k | None \<Rightarrow> 0)
      in case run_tx (executeWrites x opId r jobId n waveSize expiresAt waveWorkers) d of
           (Inl (PrismaUniqueViolation t), d1) \<Rightarrow>
             (Inr (existing_result opId r jobId n (findFirst (same_wave opId r n) (waves d1)) d1), [], d1)
         | (Inl e, d1) \<Rightarrow> (Inl e, [], d1)
         | (Inr v, d1) \<Rightarrow>
             if \<not> dr_queue_ok x then (Inl (PlainError ''queue''), [], d1)
             else (Inr \<lparr>or_operationId = opId, or_requirementId = r, or_jobId = jobId, or_waveNumber = n,
                        or_waveId = Some (wv_id v), or_status = ''created'',
                        or_workersDispatchedCount = int (length waveWorkers), or_workerIds = map wk_id waveWorkers\<rparr>,
                   [wave_timeout opId r jobId n (int (length found)) offset waveSize initialPlan plan], d1))"

definition dispatch_give_up ::
  "dispatch_run \<Rightarrow> DispatchJobData \<Rightarrow> string \<Rightarrow> int \<Rightarrow> db
   \<Rightarrow> (error + DispatchOperationResult) \<times> timeout_message list \<times> db" where
  "dispatch_give_up x q opId n d =
     (if findUnique rq_id (dj_requirementId q) (requirements d) = None then (Inl PrismaRecordNotFound, [], d)
      else (Inr (empty_result opId (dj_requirementId q) (dj_jobId q) n ''no_workers''), [],
            mark_no_workers (dr_now x) (dj_requirementId q) d))"

definition wave_of :: "DispatchJobData \<Rightarrow> int" where
  "wave_of q = (case dj_waveNumber q of Some n \<Rightarrow> n | None \<Rightarrow> 1)"

definition operation_of :: "dispatch_env \<Rightarrow> DispatchJobData \<Rightarrow> string" where
  "operation_of E q =
     generateDispatchOperationId (de_sha256hex E) (Some (dj_requirementId q)) (Some (wave_of q)) (Some ''WAVE_DISPATCH'')"

definition processDispatchJob ::
  "dispatch_env \<Rightarrow> dispatch_run \<Rightarrow> DispatchJobData \<Rightarrow> db \<Rightarrow> db
   \<Rightarrow> (error + DispatchOperationResult) \<times> timeout_message list \<times> db" where
  "processDispatchJob E x q d0 d =
     (let r = dj_requirementId q; jobId = dj_jobId q; n = wave_of q; opId = operation_of E q
      in case findUnique rq_id r (requirements d0) of
           None \<Rightarrow> (Inr (empty_result opId r jobId n ''skipped_not_found''), [], d)
         | Some req \<Rightarrow>
             if toUpperCase (rq_status req) = ''FILLED'' \<or> toUpperCase (rq_status req) = ''CANCELLED''
             then (Inr (empty_result opId r jobId n ''skipped_terminal''), [], d)
             else (case findFirst (same_wave opId r n) (waves d0) of
                Some v \<Rightarrow> (Inr (existing_result opId r jobId n (Some v) d0), [], d)
              | None \<Rightarrow> (case findUnique jb_id (rq_job_id req) (jobs d0) of
                  None \<Rightarrow> (Inl JsTypeError, [], d)
                | Some j \<Rightarrow>
                    if \<not> validateDispatchCoordinates (jb_latitude j) (jb_longitude j) then dispatch_give_up x q opId n d
                    else (case planDispatchWave (de_config E) (rq_needed req) (rq_filled req) n None False of
                        Inl e \<Rightarrow> (Inl e, [], d)
                      | Inr initialPlan \<Rightarrow>
                          if \<not> pl_canDispatch initialPlan
                          then (Inr (empty_result opId r jobId n ''skipped_terminal''), [], d)
                          else
                            let found = getEligibleDispatchCandidates (dr_query_ok x) (de_geo E) (dr_now x)
                                          (wave_query E req j initialPlan) d0
                            in (case planDispatchWave (de_config E) (rq_needed req) (rq_filled req) n
                                       (Some (int (length found))) False of
                                  Inl e \<Rightarrow> (Inl e, [], d)
                                | Inr plan \<Rightarrow>
                                    if \<not> pl_canDispatch plan then dispatch_give_up x q opId n d
                                    else dispatch_persist x q opId n found initialPlan plan d)))))"

section \<open>A wave runs out\<close>

text \<open>Offers of one wave that nobody answered, and the wave itself, are closed.\<close>

definition timeout_offers :: "timestamp \<Rightarrow> uuid \<Rightarrow> int \<Rightarrow> db \<Rightarrow> db" where
  "timeout_offers now r n d =
     d\<lparr>dispatches := updateMany (\<lambda>p. in_wave r n p \<and> dp_status p = ''pending'')
         (\<lambda>p. p\<lparr>dp_status := ''timeout'', dp_responded_at := Some now\<rparr>) (dispatches d)\<rparr>"

definition exhaust_waves :: "timestamp \<Rightarrow> (dispatch_wave \<Rightarrow> bool) \<Rightarrow> db \<Rightarrow> db" where
  "exhaust_waves now hit d =
     d\<lparr>waves := updateMany hit (\<lambda>v. v\<lparr>wv_status := ''exhausted'', wv_resolved_at := Some now\<rparr>) (waves d)\<rparr>"

definition isCandidatesExhausted :: "TimeoutJobData \<Rightarrow> bool" where
  "isCandidatesExhausted t =
     (case tj_candidatesExhausted t of Some b \<Rightarrow> b
      | None \<Rightarrow> (case tj_hasMoreCandidates t of Some b \<Rightarrow> \<not> b \<and> tj_waveNumber t + 1 > 4
        | None \<Rightarrow> (case tj_offset t of Some k \<Rightarrow> k | None \<Rightarrow> 0) + (case tj_waveSize t of Some k \<Rightarrow> k | None \<Rightarrow> 0)
                   \<ge> (case tj_totalWorkersFound t of Some k \<Rightarrow> k | None \<Rightarrow> 0)))"

definition next_offset :: "TimeoutJobData \<Rightarrow> int" where
  "next_offset t = (case tj_offset t of Some k \<Rightarrow> k | None \<Rightarrow> 0) + (case tj_waveSize t of Some k \<Rightarrow> k | None \<Rightarrow> 0)"

text \<open>The requirement is read once, from \<open>d0\<close>; the statements that follow run on \<open>d\<close>, each on its own.\<close>

definition processTimeoutJob ::
  "dispatch_env \<Rightarrow> timestamp \<Rightarrow> bool \<Rightarrow> TimeoutJobData \<Rightarrow> db \<Rightarrow> db \<Rightarrow> (error + unit) \<times> dispatch_message list \<times> db" where
  "processTimeoutJob E now queue_ok t d0 d =
     (let r = tj_requirementId t; n = tj_waveNumber t
      in case findUnique rq_id r (requirements d0) of
           None \<Rightarrow> (Inr (), [], d)
         | Some req \<Rightarrow>
             if rq_status req = ''FILLED'' \<or> rq_status req = ''CANCELLED'' then (Inr (), [], d)
             else
               let d1 = exhaust_waves now (\<lambda>v. wv_requirement_id v = r \<and> wv_wave_number v = n) (timeout_offers now r n d)
               in (case planDispatchWave (de_config E) (rq_needed req) (rq_filled req) (n + 1) None (isCandidatesExhausted t) of
                     Inl e \<Rightarrow> (Inl e, [], d1)
                   | Inr nextPlan \<Rightarrow>
                       if \<not> pl_canDispatch nextPlan \<or> \<not> pl_shouldTryNextWave nextPlan
                       then (if findUnique rq_id r (requirements d1) = None then (Inl PrismaRecordNotFound, [], d1)
                             else (Inr (), [], mark_no_workers now r d1))
                       else if \<not> queue_ok then (Inl (PlainError ''queue''), [], d1)
                       else (Inr (), [(dispatch_message_for (de_sha256hex E) r (tj_jobId t) (n + 1))\<lparr>dm_offset := next_offset t\<rparr>], d1)))"

section \<open>Recovery\<close>

record ReconciliationReport =
  rp_scannedRequirements :: nat
  rp_expiredWavesClosed :: nat
  rp_activeTimeoutsRestored :: nat
  rp_missingWavesScheduled :: nat
  rp_errors :: "uuid list"

record recovery =
  rc_db :: db
  rc_report :: ReconciliationReport
  rc_dispatch :: "dispatch_message list"
  rc_timeouts :: "timeout_message list"

text \<open>What the recovery meets: rows locked by another instance, and requirements whose queue message is refused.\<close>

record recovery_world =
  rw_now :: timestamp
  rw_locked :: "uuid \<Rightarrow> bool"
  rw_queue_ok :: "uuid \<Rightarrow> bool"

definition recoverable :: "db \<Rightarrow> job_requirement \<Rightarrow> bool" where
  "recoverable d req \<longleftrightarrow>
     rq_status req \<in> {''DISPATCHING'', ''OPEN'', ''dispatching'', ''open''} \<and>
     (case findUnique jb_id (rq_job_id req) (jobs d) of None \<Rightarrow> False
      | Some j \<Rightarrow> jb_status j \<notin> {''BOOKED'', ''COMPLETED'', ''CANCELLED'', ''booked'', ''completed'', ''cancelled''})"

definition recovery_done :: "job_requirement \<Rightarrow> bool" where
  "recovery_done req \<longleftrightarrow>
     toUpperCase (rq_status req) \<in> {''FILLED'', ''CANCELLED'', ''NO_WORKERS_AVAILABLE''} \<or> rq_filled req \<ge> rq_needed req"

definition latest_wave :: "uuid \<Rightarrow> db \<Rightarrow> dispatch_wave option" where
  "latest_wave r d = (case sort_key (\<lambda>v. - wv_wave_number v) (filter (\<lambda>v. wv_requirement_id v = r) (waves d)) of
     [] \<Rightarrow> None | v # vs \<Rightarrow> Some v)"

definition wave_expires :: "DispatchWaveConfiguration \<Rightarrow> dispatch_wave \<Rightarrow> timestamp" where
  "wave_expires cfg v = (case wv_notified_at v of Some t \<Rightarrow> t | None \<Rightarrow> 0) + timeoutMs cfg"

text \<open>
  A refused queue message aborts the transaction, so its writes are lost, but the counters of the
  report keep what was counted before.
\<close>

definition recovery_enqueue ::
  "recovery_world \<Rightarrow> job_requirement \<Rightarrow> dispatch_message list \<Rightarrow> timeout_message list
   \<Rightarrow> (ReconciliationReport \<Rightarrow> ReconciliationReport) \<Rightarrow> recovery \<Rightarrow> recovery \<Rightarrow> recovery" where
  "recovery_enqueue W req ms ts count before s =
     (if rw_queue_ok W (rq_id req)
      then s\<lparr>rc_dispatch := rc_dispatch s @ ms, rc_timeouts := rc_timeouts s @ ts, rc_report := count (rc_report s)\<rparr>
      else s\<lparr>rc_db := rc_db before,
             rc_report := (rc_report s)\<lparr>rp_errors := rp_errors (rc_report s) @ [rq_id req]\<rparr>\<rparr>)"

definition recovery_error :: "job_requirement \<Rightarrow> recovery \<Rightarrow> recovery \<Rightarrow> recovery" where
  "recovery_error req before s = s\<lparr>rc_db := rc_db before,
     rc_report := (rc_report s)\<lparr>rp_errors := rp_errors (rc_report s) @ [rq_id req]\<rparr>\<rparr>"

definition count_scheduled :: "ReconciliationReport \<Rightarrow> ReconciliationReport" where
  "count_scheduled p = p\<lparr>rp_missingWavesScheduled := rp_missingWavesScheduled p + 1\<rparr>"

definition count_restored :: "ReconciliationReport \<Rightarrow> ReconciliationReport" where
  "count_restored p = p\<lparr>rp_activeTimeoutsRestored := rp_activeTimeoutsRestored p + 1\<rparr>"

definition count_closed :: "ReconciliationReport \<Rightarrow> ReconciliationReport" where
  "count_closed p = p\<lparr>rp_expiredWavesClosed := rp_expiredWavesClosed p + 1\<rparr>"

text \<open>Cases A and D end alike: the wave after \<open>v\<close> is planned and queued, or the requirement is given up.\<close>

definition schedule_after ::
  "dispatch_env \<Rightarrow> recovery_world \<Rightarrow> job_requirement \<Rightarrow> dispatch_wave \<Rightarrow> recovery \<Rightarrow> recovery \<Rightarrow> recovery" where
  "schedule_after E W req v before s =
     (let nextWave = wv_wave_number v + 1
      in case planDispatchWave (de_config E) (rq_needed req) (rq_filled req) nextWave None False of
           Inl e \<Rightarrow> recovery_error req before s
         | Inr nextPlan \<Rightarrow>
             if \<not> pl_canDispatch nextPlan then s\<lparr>rc_db := mark_no_workers (rw_now W) (rq_id req) (rc_db s)\<rparr>
             else recovery_enqueue W req
                    [(dispatch_message_for (de_sha256hex E) (rq_id req) (rq_job_id req) nextWave)
                       \<lparr>dm_offset := wv_wave_number v *
                          (case wv_workers_notified v of Some k \<Rightarrow> k | None \<Rightarrow> pl_targetCandidateCount nextPlan)\<rparr>]
                    [] count_scheduled before s)"

definition restored_timeout :: "dispatch_env \<Rightarrow> timestamp \<Rightarrow> job_requirement \<Rightarrow> dispatch_wave \<Rightarrow> timeout_message" where
  "restored_timeout E now req v =
     (let notified = (case wv_workers_notified v of Some k \<Rightarrow> k | None \<Rightarrow> 0)
      in \<lparr>tm_data = \<lparr>tj_requirementId = rq_id req, tj_jobId = rq_job_id req, tj_waveNumber = wv_wave_number v,
            tj_totalWorkersFound = Some (case wv_workers_notified v of Some k \<Rightarrow> k | None \<Rightarrow> 30),
            tj_offset = Some ((wv_wave_number v - 1) * notified), tj_waveSize = Some notified,
            tj_hasMoreCandidates = None, tj_candidatesExhausted = None\<rparr>,
          tm_operationId = generateDispatchOperationId (de_sha256hex E) (Some (rq_id req)) (Some (wv_wave_number v)) None,
          tm_delay = max 500 (wave_expires (de_config E) v - now),
          tm_key = wave_timeout_key (rq_id req) (wv_wave_number v)\<rparr>)"

definition reconcile_requirement :: "dispatch_env \<Rightarrow> recovery_world \<Rightarrow> job_requirement \<Rightarrow> recovery \<Rightarrow> recovery" where
  "reconcile_requirement E W req s =
     (if recovery_done req \<or> rw_locked W (rq_id req) then s
      else case latest_wave (rq_id req) (rc_db s) of
        None \<Rightarrow>
          recovery_enqueue W req [dispatch_message_for (de_sha256hex E) (rq_id req) (rq_job_id req) 1] [] count_scheduled s
            (if rq_status req \<noteq> ''DISPATCHING'' \<and> rq_status req \<noteq> ''dispatching''
             then s\<lparr>rc_db := update_requirement (rq_id req)
                    \<lparr>ru_status = Some (req_status_str DISPATCHING), ru_filled = None, ru_needed = None, ru_now = rw_now W\<rparr> (rc_db s)\<rparr>
             else s)
      | Some v \<Rightarrow>
          if wv_status v = ''active'' then
            (if wave_expires (de_config E) v \<le> rw_now W
             then schedule_after E W req v s
                    (s\<lparr>rc_db := exhaust_waves (rw_now W) (\<lambda>u. wv_id u = wv_id v)
                         (timeout_offers (rw_now W) (rq_id req) (wv_wave_number v) (rc_db s)),
                       rc_report := count_closed (rc_report s)\<rparr>)
             else recovery_enqueue W req [] [restored_timeout E (rw_now W) req v] count_restored s s)
          else if wv_status v = ''exhausted'' then schedule_after E W req v s s
          else s)"

definition empty_report :: ReconciliationReport where
  "empty_report = \<lparr>rp_scannedRequirements = 0, rp_expiredWavesClosed = 0, rp_activeTimeoutsRestored = 0,
     rp_missingWavesScheduled = 0, rp_errors = []\<rparr>"

definition reconcileDispatchState :: "dispatch_env \<Rightarrow> recovery_world \<Rightarrow> db \<Rightarrow> recovery" where
  "reconcileDispatchState E W d =
     (let candidates = filter (recoverable d) (requirements d)
      in fold (reconcile_requirement E W) candidates
           \<lparr>rc_db = d, rc_report = empty_report\<lparr>rp_scannedRequirements := length candidates\<rparr>,
            rc_dispatch = [], rc_timeouts = []\<rparr>)"

section \<open>Lemmas\<close>

lemma createManySkip_keys: "key ` set (createManySkip key rs t) = key ` set t \<union> key ` set rs"
  by (induction rs arbitrary: t) (auto simp: list_ex_key)

lemma createManySkip_distinct: "distinct (map key t) \<Longrightarrow> distinct (map key (createManySkip key rs t))"
proof (induction rs arbitrary: t)
  case (Cons r rs)
  then show ?case using Cons.IH [of "t @ [r]"] by (simp add: list_ex_key)
qed simp

lemma createManySkip_new:
  "distinct (map key rs) \<Longrightarrow> key ` set t \<inter> key ` set rs = {} \<Longrightarrow> createManySkip key rs t = t @ rs"
proof (induction rs arbitrary: t)
  case Nil
  then show ?case by simp
next
  case (Cons r rs)
  then have "\<not> list_ex (\<lambda>x. key x = key r) t" unfolding list_ex_key by auto
  moreover have "createManySkip key rs (t @ [r]) = (t @ [r]) @ rs"
    by (rule Cons.IH) (use Cons.prems in auto)
  ultimately show ?case by simp
qed

lemma createManySkip_mem:
  "p \<in> set (createManySkip key rs t) \<Longrightarrow> p \<in> set t \<or> p \<in> set rs \<and> key p \<notin> key ` set t"
proof (induction rs arbitrary: t)
  case Nil
  then show ?case by simp
next
  case (Cons r rs)
  from Cons.IH [of "if list_ex (\<lambda>x. key x = key r) t then t else t @ [r]"] Cons.prems
  show ?case by (cases "list_ex (\<lambda>x. key x = key r) t") (auto simp: list_ex_key)
qed

lemma createManySkip_old: "p \<in> set t \<Longrightarrow> p \<in> set (createManySkip key rs t)"
  by (induction rs arbitrary: t) auto

text \<open>What a run that created a wave went through.\<close>

lemma dispatch_createdE:
  assumes "processDispatchJob E x q d0 d = (Inr res, ms, d')" and "or_status res = ''created''"
  obtains req j plan0 plan where "findUnique rq_id (dj_requirementId q) (requirements d0) = Some req"
    "toUpperCase (rq_status req) \<noteq> ''FILLED''" "toUpperCase (rq_status req) \<noteq> ''CANCELLED''"
    "findUnique jb_id (rq_job_id req) (jobs d0) = Some j"
    "planDispatchWave (de_config E) (rq_needed req) (rq_filled req) (wave_of q) None False = Inr plan0"
    "planDispatchWave (de_config E) (rq_needed req) (rq_filled req) (wave_of q)
       (Some (int (length (getEligibleDispatchCandidates (dr_query_ok x) (de_geo E) (dr_now x) (wave_query E req j plan0) d0)))) False = Inr plan"
    "pl_canDispatch plan"
    "dispatch_persist x q (operation_of E q) (wave_of q)
       (getEligibleDispatchCandidates (dr_query_ok x) (de_geo E) (dr_now x) (wave_query E req j plan0) d0) plan0 plan d = (Inr res, ms, d')"
  using assms
  by (auto simp: processDispatchJob_def Let_def empty_result_def existing_result_def dispatch_give_up_def
      split: option.splits if_splits sum.splits)

lemma persist_createdE:
  assumes "dispatch_persist x q opId n found plan0 plan d = (Inr res, ms, d')" and "or_status res = ''created''"
  obtains "executeWrites x opId (dj_requirementId q) (dj_jobId q) n (pl_targetCandidateCount plan) (dr_now x + pl_timeoutMs plan)
      (take (nat (pl_targetCandidateCount plan)) found) d = Inr (new_wave x opId (dj_requirementId q) n (pl_targetCandidateCount plan), d')"
    "or_workerIds res = map wk_id (take (nat (pl_targetCandidateCount plan)) found)"
    "or_waveId res = Some (dr_wave_id x)"
    "or_workersDispatchedCount res = int (length (take (nat (pl_targetCandidateCount plan)) found))"
    "map tm_key ms = [wave_timeout_key (dj_requirementId q) n]" "map tm_delay ms = [pl_timeoutMs plan]"
proof -
  let ?w = "executeWrites x opId (dj_requirementId q) (dj_jobId q) n (pl_targetCandidateCount plan) (dr_now x + pl_timeoutMs plan)
      (take (nat (pl_targetCandidateCount plan)) found)"
  show thesis
  proof (cases "?w d")
    case (Inl e)
    with assms show thesis
      by (cases e) (auto simp: dispatch_persist_def Let_def existing_result_def)
  next
    case (Inr p)
    then obtain v d1 where p: "?w d = Inr (v, d1)" by (cases p) auto
    then have v: "v = new_wave x opId (dj_requirementId q) n (pl_targetCandidateCount plan)"
      by (auto simp: executeWrites_def split: if_splits)
    from p assms show thesis
      by (intro that) (auto simp: dispatch_persist_def Let_def v new_wave_def wave_timeout_def split: if_splits)
  qed
qed

lemma executeWrites_InrE:
  assumes "executeWrites x opId r jobId n sz expiresAt ws d = Inr (v, d')"
  obtains "\<not> list_ex (same_wave opId r n) (waves d)"
    "v = new_wave x opId r n sz" "waves d' = waves d @ [v]"
    "dispatches d' = createManySkip offer_key (map (wave_offer r n (dr_now x) expiresAt) (enumerate 0 ws)) (dispatches d)"
    "outbox d' = createManySkip ob_idempotency_key (map (incoming_job_event x r jobId n) ws) (outbox d)"
    "requirements d' = requirements d" "bookings d' = bookings d" "booking_log d' = booking_log d"
    "jobs d' = jobs d" "job_log d' = job_log d"
  using assms by (auto simp: executeWrites_def same_wave_def list_ex_iff split: if_splits)

lemma offers_keys:
  "offer_key ` set (map (wave_offer r n now e) (enumerate k ws)) = Pair r ` wk_id ` set ws"
proof -
  have "map (offer_key \<circ> wave_offer r n now e) (enumerate k ws) = map (Pair r \<circ> wk_id) ws"
    by (induction ws arbitrary: k) (auto simp: offer_key_def wave_offer_def)
  then have "set (map (offer_key \<circ> wave_offer r n now e) (enumerate k ws)) = set (map (Pair r \<circ> wk_id) ws)" by (rule arg_cong)
  then show ?thesis unfolding set_map image_comp .
qed

lemma events_keys:
  "ob_idempotency_key ` set (map (incoming_job_event x r jobId n) ws) = (\<lambda>w. Some (incoming_job_key r n (wk_id w))) ` set ws"
  by (simp add: image_image incoming_job_event_def)

lemma wave_offer_mem:
  assumes "p \<in> set (map (wave_offer r n now e) (enumerate k ws))"
  shows "in_wave r n p" "dp_status p = ''pending''" "dp_expires_at p = Some e" "dp_worker_id p \<in> wk_id ` set ws"
proof -
  from assms obtain i w where w: "(i, w) \<in> set (enumerate k ws)" "p = wave_offer r n now e (i, w)" by auto
  from w(1) have "w \<in> snd ` set (enumerate k ws)" by force
  then have "w \<in> set ws" by (metis map_snd_enumerate set_map)
  with w(2) show "in_wave r n p" "dp_status p = ''pending''" "dp_expires_at p = Some e" "dp_worker_id p \<in> wk_id ` set ws"
    by (auto simp: wave_offer_def in_wave_def)
qed

lemma plan_target:
  assumes "planDispatchWave cfg needed filled n (Some k) ex = Inr p" and "pl_canDispatch p"
  shows "pl_targetCandidateCount p \<le> (needed - filled) * workerMultiplier cfg" "pl_targetCandidateCount p \<le> k"
    "0 < pl_targetCandidateCount p" "pl_timeoutMs p = timeoutMs cfg"
  using assms by (auto simp: planDispatchWave_def Let_def max_def split: if_splits)

lemma candidates_distinct:
  assumes "distinct (map wk_id (workers d))"
  shows "distinct (map wk_id (getEligibleDispatchCandidates ok geo now q d))"
proof (cases "validateDispatchCoordinates (cq_latitude q) (cq_longitude q) \<and> 0 < cq_radiusMeters q \<and> ok")
  case True
  have inj: "inj_on wk_id (set (workers d))" "distinct (workers d)" using assms by (auto simp: distinct_map)
  have sub: "set (getEligibleDispatchCandidates ok geo now q d) \<subseteq> set (workers d)"
    using candidates_eligible(1) by (auto simp: getEligibleDispatchCandidates_def)
  have "distinct (getEligibleDispatchCandidates ok geo now q d)"
    using True inj(2) page_remaining(1) [of q geo now None d] by (simp add: getEligibleDispatchCandidates_def remaining_def)
  with inj_on_subset [OF inj(1) sub] show ?thesis by (simp add: distinct_map)
next
  case False
  then have "getEligibleDispatchCandidates ok geo now q d = []"
    by (auto simp: getEligibleDispatchCandidates_def getEligibleCandidatePage_def)
  then show ?thesis by simp
qed

lemma mark_no_workers_frame [simp]:
  "waves (mark_no_workers now r d) = waves d" "dispatches (mark_no_workers now r d) = dispatches d"
  "outbox (mark_no_workers now r d) = outbox d" "bookings (mark_no_workers now r d) = bookings d"
  "jobs (mark_no_workers now r d) = jobs d" "job_log (mark_no_workers now r d) = job_log d"
  "booking_log (mark_no_workers now r d) = booking_log d" "workers (mark_no_workers now r d) = workers d"
  by (simp_all add: mark_no_workers_def update_requirement_def)

lemma persist_existing:
  assumes "list_ex (\<lambda>v. wv_requirement_id v = dj_requirementId q \<and> wv_wave_number v = n) (waves d)"
  shows "\<exists>res. dispatch_persist x q opId n found plan0 plan d = (res, [], d)"
proof -
  let ?w = "executeWrites x opId (dj_requirementId q) (dj_jobId q) n (pl_targetCandidateCount plan) (dr_now x + pl_timeoutMs plan)
      (take (nat (pl_targetCandidateCount plan)) found)"
  have "\<exists>e. ?w d = Inl e" using assms by (simp add: executeWrites_def)
  then obtain e where "?w d = Inl e" by blast
  then show ?thesis by (cases e) (simp_all add: dispatch_persist_def Let_def)
qed

lemma mark_no_workers_status:
  assumes "findUnique rq_id r (requirements d) = Some req"
  shows "\<exists>req'. findUnique rq_id r (requirements (mark_no_workers now r d)) = Some req' \<and> rq_status req' = ''NO_WORKERS_AVAILABLE''"
  unfolding mark_no_workers_def update_requirement_def
  by (simp add: requirement_table.findUnique_update_same [OF assms] apply_req_update_def)

lemma mark_no_workers_other:
  "r' \<noteq> r \<Longrightarrow> findUnique rq_id r' (requirements (mark_no_workers now r d)) = findUnique rq_id r' (requirements d)"
  unfolding mark_no_workers_def update_requirement_def by (simp add: requirement_table.findUnique_update_other)

text \<open>After a timeout no offer of the wave is pending and the wave is exhausted.\<close>

definition wave_closed :: "uuid \<Rightarrow> int \<Rightarrow> db \<Rightarrow> bool" where
  "wave_closed r n d \<longleftrightarrow>
     list_all (\<lambda>p. in_wave r n p \<longrightarrow> dp_status p \<noteq> ''pending'') (dispatches d) \<and>
     list_all (\<lambda>v. wv_requirement_id v = r \<and> wv_wave_number v = n \<longrightarrow> wv_status v = ''exhausted'') (waves d)"

lemma list_all_updateMany: "list_all P (updateMany h f t) \<longleftrightarrow> list_all (\<lambda>r. P (if h r then f r else r)) t"
  by (induction t) (auto simp: updateMany_def)

lemma timeout_closes:
  "wave_closed r n (exhaust_waves now (\<lambda>v. wv_requirement_id v = r \<and> wv_wave_number v = n) (timeout_offers now r n d))"
  unfolding wave_closed_def exhaust_waves_def timeout_offers_def list_all_iff [symmetric]
  by (simp add: list_all_updateMany in_wave_def) (auto simp: list_all_iff)

lemma wave_closed_mark [simp]: "wave_closed r n (mark_no_workers now i d) = wave_closed r n d"
  by (simp add: wave_closed_def)

lemma close_frame [simp]:
  "requirements (timeout_offers now r n d) = requirements d" "waves (timeout_offers now r n d) = waves d"
  "requirements (exhaust_waves now h d) = requirements d"
  by (simp_all add: exhaust_waves_def timeout_offers_def)

lemma dispatch_message_for_wave [simp]:
  "dm_waveNumber (dispatch_message_for h r j n) = n" "dm_requirementId (dispatch_message_for h r j n) = r"
  by (simp_all add: dispatch_message_for_def)

text \<open>What the recovery owes a requirement whose latest wave is \<open>v\<close>.\<close>

definition next_step_taken :: "dispatch_env \<Rightarrow> timestamp \<Rightarrow> uuid \<Rightarrow> dispatch_wave option \<Rightarrow> recovery \<Rightarrow> bool" where
  "next_step_taken E now r v s =
     (case v of
        None \<Rightarrow> list_ex (\<lambda>m. dm_requirementId m = r \<and> dm_waveNumber m = 1) (rc_dispatch s)
      | Some v \<Rightarrow>
          if wv_status v = ''active'' \<and> now < wave_expires (de_config E) v
          then list_ex (\<lambda>m. tj_requirementId (tm_data m) = r \<and> tj_waveNumber (tm_data m) = wv_wave_number v) (rc_timeouts s)
          else if wv_wave_number v < maxWaves (de_config E)
          then list_ex (\<lambda>m. dm_requirementId m = r \<and> dm_waveNumber m = wv_wave_number v + 1) (rc_dispatch s)
          else \<exists>req. findUnique rq_id r (requirements (rc_db s)) = Some req \<and> rq_status req = ''NO_WORKERS_AVAILABLE'')"

text \<open>Recovering one requirement leaves the rows and messages of the others alone.\<close>

definition keeps_others :: "uuid \<Rightarrow> recovery \<Rightarrow> recovery \<Rightarrow> bool" where
  "keeps_others i s s' \<longleftrightarrow>
     set (rc_dispatch s) \<subseteq> set (rc_dispatch s') \<and> set (rc_timeouts s) \<subseteq> set (rc_timeouts s') \<and>
     map wv_id (waves (rc_db s')) = map wv_id (waves (rc_db s)) \<and>
     (\<forall>r. r \<noteq> i \<longrightarrow> findUnique rq_id r (requirements (rc_db s')) = findUnique rq_id r (requirements (rc_db s)) \<and>
        filter (\<lambda>v. wv_requirement_id v = r) (waves (rc_db s')) = filter (\<lambda>v. wv_requirement_id v = r) (waves (rc_db s)))"

lemma keeps_others_refl [simp]: "keeps_others i s s"
  by (simp add: keeps_others_def)

lemma keeps_others_trans: "keeps_others i s t \<Longrightarrow> keeps_others i t u \<Longrightarrow> keeps_others i s u"
  unfolding keeps_others_def by auto

lemma keeps_enqueue:
  assumes "keeps_others (rq_id req) before s"
  shows "keeps_others (rq_id req) before (recovery_enqueue W req ms ts c before s)"
  using assms unfolding keeps_others_def recovery_enqueue_def by (cases "rw_queue_ok W (rq_id req)") auto

lemma keeps_mark:
  assumes "keeps_others i before s"
  shows "keeps_others i before (s\<lparr>rc_db := mark_no_workers now i (rc_db s)\<rparr>)"
  using assms unfolding keeps_others_def by (simp add: mark_no_workers_other)

lemma keeps_schedule:
  assumes "keeps_others (rq_id req) before s"
  shows "keeps_others (rq_id req) before (schedule_after E W req v before s)"
proof (cases "planDispatchWave (de_config E) (rq_needed req) (rq_filled req) (wv_wave_number v + 1) None False")
  case (Inl e)
  with assms show ?thesis by (simp add: schedule_after_def Let_def recovery_error_def keeps_others_def)
next
  case (Inr p)
  with keeps_mark [OF assms] keeps_enqueue [OF assms] show ?thesis
    by (simp add: schedule_after_def Let_def del: list.set)
qed

lemma filter_updateMany_other:
  assumes "\<And>v. v \<in> set t \<Longrightarrow> h v \<Longrightarrow> \<not> P v \<and> \<not> P (f v)"
  shows "filter P (updateMany h f t) = filter P t"
  using assms by (induction t) (auto simp: updateMany_def)

lemma latest_wave_mem: "latest_wave r d = Some v \<Longrightarrow> v \<in> set (waves d) \<and> wv_requirement_id v = r"
proof -
  assume "latest_wave r d = Some v"
  then obtain vs where vs: "sort_key (\<lambda>v. - wv_wave_number v) (filter (\<lambda>v. wv_requirement_id v = r) (waves d)) = v # vs"
    by (auto simp: latest_wave_def split: list.splits)
  have "v \<in> set (sort_key (\<lambda>v. - wv_wave_number v) (filter (\<lambda>v. wv_requirement_id v = r) (waves d)))" unfolding vs by simp
  then show ?thesis by simp
qed

lemma keeps_close:
  assumes "distinct (map wv_id (waves (rc_db s)))" and "latest_wave i (rc_db s) = Some v"
  shows "keeps_others i s (s\<lparr>rc_db := exhaust_waves now (\<lambda>u. wv_id u = wv_id v) (timeout_offers now i n (rc_db s)), rc_report := rep\<rparr>)"
proof -
  let ?f = "\<lambda>v. v\<lparr>wv_status := ''exhausted'', wv_resolved_at := Some now\<rparr>"
  have v: "v \<in> set (waves (rc_db s))" "wv_requirement_id v = i" using latest_wave_mem [OF assms(2)] by auto
  have "filter (\<lambda>u. wv_requirement_id u = r) (updateMany (\<lambda>u. wv_id u = wv_id v) ?f (waves (rc_db s))) =
    filter (\<lambda>u. wv_requirement_id u = r) (waves (rc_db s))" if "r \<noteq> i" for r
    by (rule filter_updateMany_other) (use that v key_unique [OF assms(1)] in auto)
  moreover have "map wv_id (updateMany (\<lambda>u. wv_id u = wv_id v) ?f (waves (rc_db s))) = map wv_id (waves (rc_db s))"
    by (simp add: updateMany_def)
  ultimately show ?thesis by (simp add: keeps_others_def exhaust_waves_def)
qed

lemma reconcile_keeps:
  assumes "distinct (map wv_id (waves (rc_db s)))"
  shows "keeps_others (rq_id req) s (reconcile_requirement E W req s)"
proof (cases "recovery_done req \<or> rw_locked W (rq_id req)")
  case True
  then show ?thesis by (simp add: reconcile_requirement_def)
next
  case go: False
  show ?thesis
  proof (cases "latest_wave (rq_id req) (rc_db s)")
    case None
    have "keeps_others (rq_id req) s (s\<lparr>rc_db := update_requirement (rq_id req) u (rc_db s)\<rparr>)" for u
      by (simp add: keeps_others_def update_requirement_def requirement_table.findUnique_update_other)
    with go None show ?thesis by (simp add: reconcile_requirement_def keeps_enqueue)
  next
    case (Some v)
    with go show ?thesis
      by (simp add: reconcile_requirement_def keeps_enqueue keeps_schedule keeps_close [OF assms Some])
  qed
qed

lemma next_step_kept:
  assumes "keeps_others i s s'" and "i \<noteq> r" and "next_step_taken E now r v s"
  shows "next_step_taken E now r v s'"
proof -
  have sub: "set (rc_dispatch s) \<subseteq> set (rc_dispatch s')" "set (rc_timeouts s) \<subseteq> set (rc_timeouts s')"
    and req: "findUnique rq_id r (requirements (rc_db s')) = findUnique rq_id r (requirements (rc_db s))"
    using assms(1,2) by (auto simp: keeps_others_def)
  have "list_ex P (rc_dispatch s) \<Longrightarrow> list_ex P (rc_dispatch s')" "list_ex Q (rc_timeouts s) \<Longrightarrow> list_ex Q (rc_timeouts s')" for P Q
    using sub by (auto simp: list_ex_iff)
  with assms(3) show ?thesis by (simp add: next_step_taken_def req split: option.splits if_splits)
qed

lemma latest_kept:
  assumes "keeps_others i s s'" and "i \<noteq> r"
  shows "latest_wave r (rc_db s') = latest_wave r (rc_db s)"
  using assms by (simp add: keeps_others_def latest_wave_def)

lemma reconcile_distinct:
  assumes "distinct (map wv_id (waves (rc_db s)))"
  shows "distinct (map wv_id (waves (rc_db (reconcile_requirement E W req s))))"
  using assms reconcile_keeps [OF assms, of req E W] unfolding keeps_others_def by argo

lemma recovery_fold_kept:
  assumes "distinct (map wv_id (waves (rc_db s)))" and "r \<notin> rq_id ` set qs"
  shows "distinct (map wv_id (waves (rc_db (fold (reconcile_requirement E W) qs s)))) \<and>
    latest_wave r (rc_db (fold (reconcile_requirement E W) qs s)) = latest_wave r (rc_db s) \<and>
    findUnique rq_id r (requirements (rc_db (fold (reconcile_requirement E W) qs s))) = findUnique rq_id r (requirements (rc_db s)) \<and>
    (next_step_taken E now r v s \<longrightarrow> next_step_taken E now r v (fold (reconcile_requirement E W) qs s))"
  using assms
proof (induction qs arbitrary: s)
  case Nil
  then show ?case by simp
next
  case (Cons q qs)
  let ?s = "reconcile_requirement E W q s"
  have r: "rq_id q \<noteq> r" "r \<notin> rq_id ` set qs" using Cons.prems(2) by auto
  have keep: "keeps_others (rq_id q) s ?s" by (rule reconcile_keeps [OF Cons.prems(1)])
  then have "findUnique rq_id r (requirements (rc_db ?s)) = findUnique rq_id r (requirements (rc_db s))"
    using r(1) by (simp add: keeps_others_def)
  with Cons.IH [OF reconcile_distinct [OF Cons.prems(1)] r(2), of E W q]
    latest_kept [OF keep r(1)] next_step_kept [OF keep r(1), of E now v]
  show ?case by simp
qed

text \<open>The conditions under which the planner answers for every wave of a requirement.\<close>

definition plannable :: "job_requirement \<Rightarrow> db \<Rightarrow> bool" where
  "plannable req d \<longleftrightarrow> nonNegativeInteger (rq_needed req) \<and> nonNegativeInteger (rq_filled req) \<and>
     list_all (\<lambda>v. wv_requirement_id v = rq_id req \<longrightarrow> nonNegativeInteger (wv_wave_number v) \<and>
        isSafeInteger (wv_wave_number v + 1) \<and> wv_status v \<in> {''active'', ''exhausted''}) (waves d)"

lemma schedule_after_step:
  assumes "wave_config_ok (de_config E)" and "nonNegativeInteger (rq_needed req)" "nonNegativeInteger (rq_filled req)"
    and "nonNegativeInteger (wv_wave_number v)" "isSafeInteger (wv_wave_number v + 1)"
    and "rq_filled req < rq_needed req" and "rw_queue_ok W (rq_id req)"
    and "findUnique rq_id (rq_id req) (requirements (rc_db s)) = Some req"
    and "\<not> (wv_status v = ''active'' \<and> now < wave_expires (de_config E) v)"
  shows "next_step_taken E now (rq_id req) (Some v) (schedule_after E W req v before s)"
proof -
  have n: "nonNegativeInteger (wv_wave_number v + 1)" "1 \<le> wv_wave_number v + 1"
    using assms(4,5) by (auto simp: nonNegativeInteger_def)
  obtain p where p: "planDispatchWave (de_config E) (rq_needed req) (rq_filled req) (wv_wave_number v + 1) None False = Inr p"
    and can: "pl_canDispatch p \<longleftrightarrow> wv_wave_number v + 1 \<le> maxWaves (de_config E) \<and> rq_filled req < rq_needed req \<and> None \<noteq> Some (0::int)"
    by (rule plan_ok [OF assms(1-3) n, of None False]) auto
  show ?thesis
  proof (cases "pl_canDispatch p")
    case True
    then show ?thesis using can assms(7,9)
      by (auto simp: schedule_after_def Let_def p next_step_taken_def recovery_enqueue_def)
  next
    case False
    then show ?thesis using can assms(6,9) mark_no_workers_status [OF assms(8), of "rw_now W"]
      by (auto simp: schedule_after_def Let_def p next_step_taken_def)
  qed
qed

lemma reconcile_step:
  assumes "wave_config_ok (de_config E)" and "plannable req d" and "rq_filled req < rq_needed req"
    and "rq_status req \<in> {''DISPATCHING'', ''OPEN'', ''dispatching'', ''open''}"
    and "\<not> rw_locked W (rq_id req)" "rw_queue_ok W (rq_id req)"
    and "findUnique rq_id (rq_id req) (requirements (rc_db s)) = Some req"
    and "latest_wave (rq_id req) (rc_db s) = latest_wave (rq_id req) d"
  shows "next_step_taken E (rw_now W) (rq_id req) (latest_wave (rq_id req) d) (reconcile_requirement E W req s)"
proof -
  have nd: "\<not> recovery_done req" using assms(3,4) by (auto simp: recovery_done_def toUpperCase_def upper_char_def)
  show ?thesis
  proof (cases "latest_wave (rq_id req) d")
    case None
    then show ?thesis using nd assms(5,6,8)
      by (simp add: reconcile_requirement_def next_step_taken_def recovery_enqueue_def)
  next
    case (Some v)
    then have v: "v \<in> set (waves d)" "wv_requirement_id v = rq_id req" using latest_wave_mem by auto
    with assms(2) have ok: "nonNegativeInteger (rq_needed req)" "nonNegativeInteger (rq_filled req)"
      "nonNegativeInteger (wv_wave_number v)" "isSafeInteger (wv_wave_number v + 1)" and st: "wv_status v \<in> {''active'', ''exhausted''}"
      by (auto simp: plannable_def list_all_iff)
    note step = schedule_after_step [OF assms(1) ok assms(3,6)]
    show ?thesis
    proof (cases "wv_status v = ''active'' \<and> rw_now W < wave_expires (de_config E) v")
      case True
      then show ?thesis using nd assms(5,6,8) Some
        by (simp add: reconcile_requirement_def next_step_taken_def recovery_enqueue_def restored_timeout_def Let_def)
    next
      case False
      then show ?thesis using nd assms(5,7,8) Some st step by (auto simp: reconcile_requirement_def)
    qed
  qed
qed

section \<open>Examples\<close>

definition sample_env :: dispatch_env where
  "sample_env = \<lparr>de_config = default_config, de_sha256hex = id, de_geo = sample_geo, de_maxAgeSeconds = 300\<rparr>"

definition sample_run :: dispatch_run where
  "sample_run = \<lparr>dr_now = 1000, dr_wave_id = ''v1'', dr_outbox_id = (\<lambda>w. ''o-'' @ w), dr_details = [],
     dr_query_ok = True, dr_aborted = False, dr_queue_ok = True\<rparr>"

definition sample_dispatch :: DispatchJobData where
  "sample_dispatch = \<lparr>dj_requirementId = ''r1'', dj_jobId = ''j1'', dj_waveNumber = None, dj_offset = None\<rparr>"

definition sample_engine_db :: db where
  "sample_engine_db = sample_candidates_db\<lparr>
     jobs := [sample_job\<lparr>jb_latitude := Some (Finite 12), jb_longitude := Some (Finite 77)\<rparr>],
     requirements := [sample_requirement\<lparr>rq_skill_id := None, rq_skill_type := None, rq_needed := 1, rq_filled := 0,
       rq_status := ''DISPATCHING''\<rparr>]\<rparr>"

definition sample_wave :: dispatch_wave where
  "sample_wave = \<lparr>wv_id = ''v3'', wv_operation_id = None, wv_requirement_id = ''r1'', wv_wave_number = 3, wv_status = ''active'',
     wv_notified_at = Some 0, wv_resolved_at = None, wv_workers_notified = Some 2\<rparr>"

definition sample_timeout :: TimeoutJobData where
  "sample_timeout = \<lparr>tj_requirementId = ''r1'', tj_jobId = ''j1'', tj_waveNumber = 3, tj_totalWorkersFound = Some 2,
     tj_offset = Some 0, tj_waveSize = Some 2, tj_hasMoreCandidates = Some True, tj_candidatesExhausted = Some False\<rparr>"

definition sample_recovery :: recovery_world where
  "sample_recovery = \<lparr>rw_now = 50000, rw_locked = (\<lambda>_. False), rw_queue_ok = (\<lambda>_. True)\<rparr>"

definition status_after :: "db \<Rightarrow> uuid \<Rightarrow> string option" where
  "status_after d r = map_option rq_status (findUnique rq_id r (requirements d))"

text \<open>
  The timeout's last write does not look at the requirement again: one that an acceptance fills between the
  read and the write ends as NO_WORKERS_AVAILABLE.
\<close>

lemma filled_overwritten:
  "status_after (snd (snd (processTimeoutJob sample_env 50000 True sample_timeout sample_engine_db
     (sample_engine_db\<lparr>requirements := [sample_requirement]\<rparr>)))) ''r1'' = Some ''NO_WORKERS_AVAILABLE'' \<and>
   status_after (sample_engine_db\<lparr>requirements := [sample_requirement]\<rparr>) ''r1'' = Some ''FILLED''"
  by code_simp

text \<open>
  A timeout that the recovery restores carries neither of the two flags, so the fallback compares the
  offset with the size of the same wave and always finds the candidates exhausted.
\<close>

lemma restored_timeout_exhausted:
  assumes "wv_workers_notified v = Some k" and "0 \<le> k" and "1 \<le> wv_wave_number v"
  shows "isCandidatesExhausted (tm_data (restored_timeout E now req v))"
proof -
  have "0 \<le> (wv_wave_number v - 1) * k" using assms(2,3) by simp
  then show ?thesis using assms(1) by (simp add: isCandidatesExhausted_def restored_timeout_def Let_def)
qed

text \<open>The same third wave is followed by the fourth when the recovery finds it, and by none when its timeout fires.\<close>

lemma last_wave_differs:
  "map dm_waveNumber (rc_dispatch (reconcileDispatchState sample_env sample_recovery
     (sample_engine_db\<lparr>jobs := [sample_job\<lparr>jb_status := ''DISPATCHING''\<rparr>], waves := [sample_wave]\<rparr>))) = [4] \<and>
   fst (snd (processTimeoutJob sample_env 50000 True sample_timeout
     (sample_engine_db\<lparr>waves := [sample_wave]\<rparr>) (sample_engine_db\<lparr>waves := [sample_wave]\<rparr>))) = []"
  by code_simp

text \<open>A requirement with one of its slots filled is not looked at, whatever the state of its waves.\<close>

lemma partially_filled_skipped:
  "rq_status req = ''PARTIALLY_FILLED'' \<Longrightarrow> \<not> recoverable d req"
  by (simp add: recoverable_def)

text \<open>And a timeout takes a requirement with a confirmed worker out of PARTIALLY_FILLED.\<close>

lemma partial_given_up:
  "status_after (snd (snd (processTimeoutJob sample_env 50000 True sample_timeout
     (sample_engine_db\<lparr>requirements := [sample_requirement\<lparr>rq_filled := 1, rq_status := ''PARTIALLY_FILLED''\<rparr>]\<rparr>)
     (sample_engine_db\<lparr>requirements := [sample_requirement\<lparr>rq_filled := 1, rq_status := ''PARTIALLY_FILLED''\<rparr>]\<rparr>)))) ''r1''
     = Some ''NO_WORKERS_AVAILABLE''"
  by code_simp

section \<open>Properties\<close>

text \<open>
  C31. A run that creates a wave offers the slots to the right workers and persists everything at once: at
  least one worker and at most the free slots times the multiplier, all different, each of them eligible
  when the candidates were read (online, verified, not deleted, near enough, skilled, fresh location, no
  active booking, not offered this requirement before). It adds one active wave, which was not there, one
  pending offer per worker that expires with the wave, one durable notification per worker and one timeout
  message; requirements, bookings and jobs are not touched. The database may have changed since the read.
\<close>

theorem wave_created:
  assumes "processDispatchJob E x q d0 d = (Inr res, ms, d')" and "or_status res = ''created''"
    and "distinct (map wk_id (workers d0))"
  shows "\<exists>req j plan. findUnique rq_id (dj_requirementId q) (requirements d0) = Some req \<and>
     findUnique jb_id (rq_job_id req) (jobs d0) = Some j \<and>
     0 < length (or_workerIds res) \<and>
     int (length (or_workerIds res)) \<le> (rq_needed req - rq_filled req) * workerMultiplier (de_config E) \<and>
     distinct (or_workerIds res) \<and>
     (\<forall>i \<in> set (or_workerIds res). \<exists>w \<in> set (workers d0). wk_id w = i \<and> eligible (de_geo E) (dr_now x) (wave_query E req j plan) d0 w) \<and>
     \<not> list_ex (same_wave (operation_of E q) (dj_requirementId q) (wave_of q)) (waves d) \<and>
     (\<exists>v. waves d' = waves d @ [v] \<and> wv_requirement_id v = dj_requirementId q \<and> wv_wave_number v = wave_of q \<and> wv_status v = ''active'') \<and>
     (\<forall>i \<in> set (or_workerIds res). (dj_requirementId q, i) \<in> offer_key ` set (dispatches d') \<and>
        Some (incoming_job_key (dj_requirementId q) (wave_of q) i) \<in> ob_idempotency_key ` set (outbox d')) \<and>
     (\<forall>p \<in> set (dispatches d'). p \<in> set (dispatches d) \<or> in_wave (dj_requirementId q) (wave_of q) p \<and>
        dp_status p = ''pending'' \<and> dp_expires_at p = Some (dr_now x + timeoutMs (de_config E)) \<and> dp_worker_id p \<in> set (or_workerIds res)) \<and>
     map tm_key ms = [wave_timeout_key (dj_requirementId q) (wave_of q)] \<and> map tm_delay ms = [timeoutMs (de_config E)] \<and>
     requirements d' = requirements d \<and> bookings d' = bookings d \<and> jobs d' = jobs d"
  using assms(1,2)
proof (cases rule: dispatch_createdE)
  case (1 req j plan0 plan)
  let ?r = "dj_requirementId q" and ?n = "wave_of q" and ?op = "operation_of E q"
  let ?found = "getEligibleDispatchCandidates (dr_query_ok x) (de_geo E) (dr_now x) (wave_query E req j plan0) d0"
  let ?ws = "take (nat (pl_targetCandidateCount plan)) ?found"
  note target = plan_target [OF 1(6,7)]
  from 1(8) assms(2) obtain
    w: "executeWrites x ?op ?r (dj_jobId q) ?n (pl_targetCandidateCount plan) (dr_now x + pl_timeoutMs plan) ?ws d =
      Inr (new_wave x ?op ?r ?n (pl_targetCandidateCount plan), d')"
    and ids: "or_workerIds res = map wk_id ?ws"
    and ms: "map tm_key ms = [wave_timeout_key ?r ?n]" "map tm_delay ms = [pl_timeoutMs plan]"
    by (rule persist_createdE) blast
  from w obtain fresh: "\<not> list_ex (same_wave ?op ?r ?n) (waves d)"
    and wv: "waves d' = waves d @ [new_wave x ?op ?r ?n (pl_targetCandidateCount plan)]"
    and dp: "dispatches d' = createManySkip offer_key
      (map (wave_offer ?r ?n (dr_now x) (dr_now x + pl_timeoutMs plan)) (enumerate 0 ?ws)) (dispatches d)"
    and ob: "outbox d' = createManySkip ob_idempotency_key (map (incoming_job_event x ?r (dj_jobId q) ?n) ?ws) (outbox d)"
    and frame: "requirements d' = requirements d" "bookings d' = bookings d" "jobs d' = jobs d"
    by (rule executeWrites_InrE) blast
  have len: "int (length ?ws) = pl_targetCandidateCount plan" using target(2,3) by simp
  have dist: "distinct (map wk_id ?ws)"
    using candidates_distinct [OF assms(3)] by (metis distinct_take take_map)
  have elig: "w \<in> set (workers d0) \<and> eligible (de_geo E) (dr_now x) (wave_query E req j plan0) d0 w" if "w \<in> set ?ws" for w
    using candidates_eligible(1,2) in_set_takeD [OF that] by (fastforce simp: getEligibleDispatchCandidates_def)
  have offered: "(?r, i) \<in> offer_key ` set (dispatches d')" if "i \<in> wk_id ` set ?ws" for i
    unfolding dp createManySkip_keys offers_keys using that by blast
  have told: "Some (incoming_job_key ?r ?n i) \<in> ob_idempotency_key ` set (outbox d')" if "i \<in> wk_id ` set ?ws" for i
    unfolding ob createManySkip_keys events_keys using that by blast
  have new: "in_wave ?r ?n p \<and> dp_status p = ''pending'' \<and> dp_expires_at p = Some (dr_now x + timeoutMs (de_config E)) \<and> dp_worker_id p \<in> wk_id ` set ?ws"
    if "p \<in> set (dispatches d')" "p \<notin> set (dispatches d)" for p
    using createManySkip_mem [OF that(1) [unfolded dp]] that(2) wave_offer_mem target(4) by metis
  show ?thesis
  proof (intro exI conjI)
    show "findUnique rq_id ?r (requirements d0) = Some req" by (rule 1(1))
    show "findUnique jb_id (rq_job_id req) (jobs d0) = Some j" by (rule 1(4))
    show "0 < length (or_workerIds res)" using len target(3) ids by (metis length_map of_nat_0_less_iff)
    show "int (length (or_workerIds res)) \<le> (rq_needed req - rq_filled req) * workerMultiplier (de_config E)"
      using len target(1) ids by (metis length_map)
    show "distinct (or_workerIds res)" using dist ids by simp
    show "\<forall>i \<in> set (or_workerIds res). \<exists>w \<in> set (workers d0). wk_id w = i \<and>
      eligible (de_geo E) (dr_now x) (wave_query E req j plan0) d0 w"
      unfolding ids set_map using elig by blast
    show "\<not> list_ex (same_wave ?op ?r ?n) (waves d)" by (rule fresh)
    show "waves d' = waves d @ [new_wave x ?op ?r ?n (pl_targetCandidateCount plan)]" by (rule wv)
    show "\<forall>i \<in> set (or_workerIds res). (?r, i) \<in> offer_key ` set (dispatches d') \<and>
        Some (incoming_job_key ?r ?n i) \<in> ob_idempotency_key ` set (outbox d')"
      unfolding ids set_map using offered told by blast
    show "\<forall>p \<in> set (dispatches d'). p \<in> set (dispatches d) \<or> in_wave ?r ?n p \<and>
        dp_status p = ''pending'' \<and> dp_expires_at p = Some (dr_now x + timeoutMs (de_config E)) \<and> dp_worker_id p \<in> set (or_workerIds res)"
      unfolding ids set_map using new by blast
    show "map tm_delay ms = [timeoutMs (de_config E)]" using ms(2) target(4) by simp
  qed (simp_all add: new_wave_def ms(1) frame)
qed

text \<open>
  A wave is dispatched once: when it is already stored, running its message again - also with a
  decision taken on a database from before the wave was there - adds no wave, no offer, no
  notification and no timeout message.
\<close>

theorem wave_replayed:
  assumes "processDispatchJob E x q d0 d = (res, ms, d')"
    and "list_ex (\<lambda>v. wv_requirement_id v = dj_requirementId q \<and> wv_wave_number v = wave_of q) (waves d)"
  shows "waves d' = waves d \<and> dispatches d' = dispatches d \<and> outbox d' = outbox d \<and> ms = []"
proof -
  have "\<exists>e. dispatch_persist x q (operation_of E q) (wave_of q) found plan0 plan d = (e, [], d)" for found plan0 plan
    by (rule persist_existing [OF assms(2)])
  with assms(1) show ?thesis
    by (auto simp: processDispatchJob_def Let_def dispatch_give_up_def split: option.splits if_splits sum.splits) (metis prod.inject)+
qed

theorem wave_created_witness:
  "\<exists>res ms d'. processDispatchJob sample_env sample_run sample_dispatch sample_engine_db sample_engine_db = (Inr res, ms, d') \<and>
     or_status res = ''created'' \<and> distinct (or_workerIds res) \<and> 0 < length (or_workerIds res)"
proof -
  let ?R = "processDispatchJob sample_env sample_run sample_dispatch sample_engine_db sample_engine_db"
  have "case fst ?R of Inl e \<Rightarrow> False | Inr res \<Rightarrow> or_status res = ''created''" by code_simp
  then obtain res where "fst ?R = Inr res" and res: "or_status res = ''created''" by (cases "fst ?R") auto
  then obtain ms d' where R: "?R = (Inr res, ms, d')" by (cases ?R) auto
  have "distinct (map wk_id (workers sample_engine_db))" by code_simp
  from wave_created [OF R res this] R res show ?thesis by blast
qed

theorem wave_replayed_witness:
  "\<exists>res ms d'. processDispatchJob sample_env sample_run sample_dispatch sample_engine_db
       (sample_engine_db\<lparr>waves := [new_wave sample_run ''op'' ''r1'' 1 2]\<rparr>) = (res, ms, d') \<and>
     length (waves d') = 1 \<and> dispatches d' = [] \<and> ms = []"
proof -
  let ?d = "sample_engine_db\<lparr>waves := [new_wave sample_run ''op'' ''r1'' 1 2]\<rparr>"
  obtain res ms d' where R: "processDispatchJob sample_env sample_run sample_dispatch sample_engine_db ?d = (res, ms, d')"
    by (rule prod_cases3)
  have w: "list_ex (\<lambda>v. wv_requirement_id v = dj_requirementId sample_dispatch \<and> wv_wave_number v = wave_of sample_dispatch) (waves ?d)"
    by code_simp
  have "dispatches ?d = []" by code_simp
  then have "length (waves d') = 1 \<and> dispatches d' = [] \<and> ms = []" using wave_replayed [OF R w] by simp
  with R show ?thesis by blast
qed

text \<open>
  C36. What a wave's timeout does to an open requirement with a valid configuration: it closes the wave and
  its unanswered offers, and then queues the next wave exactly when the next wave's number is below the
  configured maximum, a slot is free and the candidates are not known to be exhausted; in every other case
  the requirement becomes NO_WORKERS_AVAILABLE. The last allowed wave, number \<^verbatim>\<open>maxWaves\<close>, is thus never
  reached through a timeout.
\<close>

theorem timeout_decides:
  assumes "wave_config_ok (de_config E)"
    and "findUnique rq_id (tj_requirementId t) (requirements d) = Some req"
    and "rq_status req \<noteq> ''FILLED''" "rq_status req \<noteq> ''CANCELLED''"
    and "nonNegativeInteger (rq_needed req)" "nonNegativeInteger (rq_filled req)"
    and "nonNegativeInteger (tj_waveNumber t)" "isSafeInteger (tj_waveNumber t + 1)"
  shows "\<exists>ms d'. processTimeoutJob E now True t d d = (Inr (), ms, d') \<and>
    wave_closed (tj_requirementId t) (tj_waveNumber t) d' \<and>
    (if tj_waveNumber t + 1 < maxWaves (de_config E) \<and> rq_filled req < rq_needed req \<and> \<not> isCandidatesExhausted t
     then map dm_waveNumber ms = [tj_waveNumber t + 1] \<and> requirements d' = requirements d
     else ms = [] \<and> (\<exists>req'. findUnique rq_id (tj_requirementId t) (requirements d') = Some req' \<and>
                            rq_status req' = ''NO_WORKERS_AVAILABLE''))"
proof -
  let ?r = "tj_requirementId t" and ?n = "tj_waveNumber t"
  let ?d1 = "exhaust_waves now (\<lambda>v. wv_requirement_id v = ?r \<and> wv_wave_number v = ?n) (timeout_offers now ?r ?n d)"
  have n: "nonNegativeInteger (?n + 1)" "1 \<le> ?n + 1" using assms(7,8) by (auto simp: nonNegativeInteger_def)
  obtain p where p: "planDispatchWave (de_config E) (rq_needed req) (rq_filled req) (?n + 1) None (isCandidatesExhausted t) = Inr p"
    and can: "pl_canDispatch p \<longleftrightarrow> ?n + 1 \<le> maxWaves (de_config E) \<and> rq_filled req < rq_needed req \<and> None \<noteq> Some (0::int)"
    and again: "pl_shouldTryNextWave p \<longleftrightarrow> pl_canDispatch p \<and> ?n + 1 < maxWaves (de_config E) \<and> \<not> isCandidatesExhausted t"
    by (rule plan_ok [OF assms(1,5,6) n, of None "isCandidatesExhausted t"]) auto
  have closed: "wave_closed ?r ?n ?d1" by (rule timeout_closes)
  note run = processTimeoutJob_def [of E now True t d d, unfolded Let_def assms(2) option.case p sum.case]
  show ?thesis
  proof (cases "pl_shouldTryNextWave p")
    case True
    then have "processTimeoutJob E now True t d d =
      (Inr (), [(dispatch_message_for (de_sha256hex E) ?r (tj_jobId t) (?n + 1))\<lparr>dm_offset := next_offset t\<rparr>], ?d1)"
      using assms(3,4) again by (simp add: run)
    then show ?thesis using True can again closed by (simp add: dispatch_message_for_def)
  next
    case False
    then have "processTimeoutJob E now True t d d = (Inr (), [], mark_no_workers now ?r ?d1)"
      using assms(2-4) by (simp add: run)
    moreover have "\<not> (?n + 1 < maxWaves (de_config E) \<and> rq_filled req < rq_needed req \<and> \<not> isCandidatesExhausted t)"
      using False can again by auto
    moreover have "findUnique rq_id ?r (requirements ?d1) = Some req" using assms(2) by simp
    note mark_no_workers_status [OF this, of now]
    ultimately show ?thesis using closed by simp
  qed
qed

theorem timeout_decides_witness:
  "\<exists>ms d'. processTimeoutJob sample_env 50000 True (sample_timeout\<lparr>tj_waveNumber := 1\<rparr>) sample_engine_db sample_engine_db = (Inr (), ms, d') \<and>
     map dm_waveNumber ms = [2]"
proof -
  let ?t = "sample_timeout\<lparr>tj_waveNumber := 1\<rparr>"
  have "findUnique rq_id (tj_requirementId ?t) (requirements sample_engine_db) =
    Some (sample_requirement\<lparr>rq_skill_id := None, rq_skill_type := None, rq_needed := 1, rq_filled := 0, rq_status := ''DISPATCHING''\<rparr>)"
    by code_simp
  moreover have "wave_config_ok (de_config sample_env)" by code_simp
  ultimately have "\<exists>ms d'. processTimeoutJob sample_env 50000 True ?t sample_engine_db sample_engine_db = (Inr (), ms, d') \<and>
    wave_closed (tj_requirementId ?t) (tj_waveNumber ?t) d' \<and>
    (if tj_waveNumber ?t + 1 < maxWaves (de_config sample_env) \<and> (0::int) < 1 \<and> \<not> isCandidatesExhausted ?t
     then map dm_waveNumber ms = [tj_waveNumber ?t + 1] \<and> requirements d' = requirements sample_engine_db
     else ms = [] \<and> (\<exists>req'. findUnique rq_id (tj_requirementId ?t) (requirements d') = Some req' \<and>
                            rq_status req' = ''NO_WORKERS_AVAILABLE''))"
    using timeout_decides [of sample_env ?t sample_engine_db
      "sample_requirement\<lparr>rq_skill_id := None, rq_skill_type := None, rq_needed := 1, rq_filled := 0, rq_status := ''DISPATCHING''\<rparr>" 50000]
    by (simp add: nonNegativeInteger_def isSafeInteger_def MAX_SAFE_INTEGER_def sample_timeout_def)
  then show ?thesis
    by (auto simp: sample_timeout_def sample_env_def default_config_def isCandidatesExhausted_def)
qed



end
