(* ===== verification/Reviews_Chat.thy ===== *)
theory Reviews_Chat
  imports Booking_Service
begin

text \<open>
  What the two sides of a booking write about and to each other: reviews
  (\<^verbatim>\<open>src/features/review/reviewServices.ts\<close>) and the chat of a booking
  (\<^verbatim>\<open>src/features/chat/chatServices.ts\<close>).

  Neither service runs in a transaction, so the reads and the insert are separate steps: a definition with
  two databases reads the first and writes the second. The branches for mocked clients are left out.
\<close>

section \<open>Unique violations\<close>

text \<open>The fields of an exception that the classification looks at.\<close>

datatype err_target = NoTarget | TargetList "string list" | TargetString string

record db_error =
  ex_code :: "string option"
  ex_target :: err_target
  ex_message :: "string option"
  ex_constraint :: "string option"
  ex_detail :: "string option"

definition opt_includes :: "string option \<Rightarrow> string \<Rightarrow> bool" where
  "opt_includes m p = (case m of Some s \<Rightarrow> js_includes s p | None \<Rightarrow> False)"

definition isReviewUniqueConstraintError :: "db_error \<Rightarrow> bool" where
  "isReviewUniqueConstraintError e =
     (if ex_code e = Some ''P2002'' then
        (case ex_target e of
           TargetList ts \<Rightarrow> ''booking_id'' \<in> set ts \<or> list_ex (\<lambda>t. js_includes t ''booking'' \<or> js_includes t ''review'') ts
         | TargetString t \<Rightarrow> js_includes t ''booking_id'' \<or> js_includes t ''review''
         | NoTarget \<Rightarrow> opt_includes (ex_message e) ''review_booking_id_key'' \<or> opt_includes (ex_message e) ''uniq_review_booking'' \<or>
             opt_includes (ex_message e) ''booking_id'' \<or> opt_includes (ex_message e) ''review'')
      else if ex_code e = Some ''23505'' \<and>
        (ex_constraint e = Some ''uniq_review_booking'' \<or> ex_constraint e = Some ''review_booking_id_key'' \<or>
         opt_includes (ex_detail e) ''booking_id'') then True
      else opt_includes (ex_message e) ''review_booking_id_key'' \<or> opt_includes (ex_message e) ''uniq_review_booking'' \<or>
        opt_includes (ex_message e) ''Unique constraint failed'' \<and> opt_includes (ex_message e) ''booking_id'')"

section \<open>Reviews\<close>

record CreateReviewReq =
  cr_rating :: "rat option"
  cr_comment :: "string option"

text \<open>Steps 1 to 3: the checks, and the row that step 4 will insert.\<close>

definition review_check :: "uuid \<Rightarrow> uuid \<Rightarrow> CreateReviewReq \<Rightarrow> db \<Rightarrow> error + review" where
  "review_check bookingId customerId payload d =
     (case findFirst (\<lambda>b. bk_id b = bookingId \<and> bk_customer_id b = customerId) (bookings d) of
        None \<Rightarrow> (case findUnique bk_id bookingId (bookings d) of
            Some _ \<Rightarrow> Inl (ReviewError ''FORBIDDEN_BOOKING_ACCESS'' 403)
          | None \<Rightarrow> Inl (ReviewError ''BOOKING_NOT_FOUND'' 404))
      | Some b \<Rightarrow>
          if bk_status b \<noteq> ''COMPLETED'' then Inl (ReviewError ''BOOKING_NOT_COMPLETED'' 409)
          else if findFirst (\<lambda>r. rv_booking_id r = bookingId) (reviews d) \<noteq> None
          then Inl (ReviewError ''REVIEW_ALREADY_EXISTS'' 409)
          else Inr \<lparr>rv_booking_id = bookingId, rv_worker_id = bk_worker_id b, rv_customer_id = customerId,
                    rv_rating = cr_rating payload, rv_comment = cr_comment payload\<rparr>)"

text \<open>The insert: the unique key on the booking, or another failure of the database.\<close>

definition create_review :: "db_error option \<Rightarrow> review \<Rightarrow> db \<Rightarrow> db_error + db" where
  "create_review failure r d =
     (case failure of Some e \<Rightarrow> Inl e
      | None \<Rightarrow>
          if list_ex (\<lambda>x. rv_booking_id x = rv_booking_id r) (reviews d)
          then Inl \<lparr>ex_code = Some ''P2002'', ex_target = TargetList [''booking_id''], ex_message = None,
                    ex_constraint = None, ex_detail = None\<rparr>
          else Inr (d\<lparr>reviews := reviews d @ [r]\<rparr>))"

definition review_commit :: "db_error option \<Rightarrow> review \<Rightarrow> db \<Rightarrow> (error + review) \<times> db" where
  "review_commit failure r d =
     (case create_review failure r d of
        Inr d' \<Rightarrow> (Inr r, d')
      | Inl e \<Rightarrow>
          if isReviewUniqueConstraintError e then (Inl (ReviewError ''REVIEW_ALREADY_EXISTS'' 409), d)
          else (Inl (CodedError (js_or (ex_code e) [])), d))"

definition createReview ::
  "db_error option \<Rightarrow> uuid \<Rightarrow> uuid \<Rightarrow> CreateReviewReq \<Rightarrow> db \<Rightarrow> db \<Rightarrow> (error + review) \<times> db" where
  "createReview failure bookingId customerId payload d0 d =
     (case review_check bookingId customerId payload d0 of
        Inl e \<Rightarrow> (Inl e, d)
      | Inr r \<Rightarrow> review_commit failure r d)"

definition getWorkerReviews :: "uuid \<Rightarrow> db \<Rightarrow> review list" where
  "getWorkerReviews workerId d = filter (\<lambda>r. rv_worker_id r = workerId) (reviews d)"

definition getBookingReview :: "uuid \<Rightarrow> AuthenticatedUser option \<Rightarrow> db \<Rightarrow> error + review option" where
  "getBookingReview bookingId actor d =
     (let found = findFirst (\<lambda>r. rv_booking_id r = bookingId) (reviews d)
      in case actor of None \<Rightarrow> Inr found
         | Some a \<Rightarrow> (case findUnique bk_id bookingId (bookings d) of
              None \<Rightarrow> Inl (ReviewError ''BOOKING_NOT_FOUND'' 404)
            | Some b \<Rightarrow> (case assertPolicy (review_canReadBookingReview a b) of Inl e \<Rightarrow> Inl e | Inr _ \<Rightarrow> Inr found)))"

section \<open>Chat\<close>

text \<open>The participants of the booking, already read by the caller or looked up here.\<close>

record BookingParticipantContext =
  px_customer_id :: uuid
  px_worker_id :: uuid

definition context_of :: "booking \<Rightarrow> BookingParticipantContext" where
  "context_of b = \<lparr>px_customer_id = bk_customer_id b, px_worker_id = bk_worker_id b\<rparr>"

definition new_conversation :: "uuid \<Rightarrow> uuid \<Rightarrow> BookingParticipantContext \<Rightarrow> conversation" where
  "new_conversation i bookingId c =
     \<lparr>cv_id = i, cv_booking_id = bookingId, cv_worker_id = px_worker_id c, cv_customer_id = px_customer_id c\<rparr>"

text \<open>\<open>d0\<close> is the database of the lookup, \<open>d\<close> that of the insert, whose unique key is the booking.\<close>

definition getOrCreateConversation ::
  "uuid \<Rightarrow> uuid \<Rightarrow> BookingParticipantContext option \<Rightarrow> db \<Rightarrow> db \<Rightarrow> (error + conversation) \<times> db" where
  "getOrCreateConversation i bookingId bookingContext d0 d =
     (case (case bookingContext of Some c \<Rightarrow> Some c
            | None \<Rightarrow> map_option context_of (findUnique bk_id bookingId (bookings d0))) of
        None \<Rightarrow> (Inl (AuthorizationError 404 ''RESOURCE_NOT_FOUND''), d)
      | Some c \<Rightarrow>
          (case findFirst (\<lambda>v. cv_booking_id v = bookingId) (conversations d0) of
             Some v \<Rightarrow> (Inr v, d)
           | None \<Rightarrow>
               if list_ex (\<lambda>v. cv_booking_id v = bookingId \<or> cv_id v = i) (conversations d)
               then (case findFirst (\<lambda>v. cv_booking_id v = bookingId) (conversations d) of
                       Some v \<Rightarrow> (Inr v, d)
                     | None \<Rightarrow> (Inl (PrismaUniqueViolation ''id''), d))
               else (Inr (new_conversation i bookingId c),
                     d\<lparr>conversations := conversations d @ [new_conversation i bookingId c]\<rparr>)))"

definition chat_booking ::
  "(AuthenticatedUser \<Rightarrow> booking \<Rightarrow> PolicyDecision) \<Rightarrow> AuthenticatedUser \<Rightarrow> uuid \<Rightarrow> db \<Rightarrow> error + booking" where
  "chat_booking can actor bookingId d =
     (case findFirst (chat_scopeBooking actor bookingId) (bookings d) of
        Some b \<Rightarrow> Inr b
      | None \<Rightarrow> (case findUnique bk_id bookingId (bookings d) of
            Some b \<Rightarrow> (case assertPolicy (can actor b) of Inl e \<Rightarrow> Inl e | Inr _ \<Rightarrow> Inr b)
          | None \<Rightarrow> Inl (AuthorizationError 404 ''RESOURCE_NOT_FOUND'')))"

definition getMessages ::
  "uuid \<Rightarrow> uuid \<Rightarrow> AuthenticatedUser option \<Rightarrow> db \<Rightarrow> db \<Rightarrow> (error + message list) \<times> db" where
  "getMessages i bookingId actor d0 d =
     (case actor of None \<Rightarrow> (Inl (AuthorizationError 401 ''UNAUTHORIZED''), d)
      | Some a \<Rightarrow>
          (case chat_booking chat_canReadConversation a bookingId d0 of Inl e \<Rightarrow> (Inl e, d)
           | Inr b \<Rightarrow>
               (case getOrCreateConversation i bookingId (Some (context_of b)) d0 d of
                  (Inl e, d1) \<Rightarrow> (Inl e, d1)
                | (Inr v, d1) \<Rightarrow>
                    (Inr (sort_key ms_sent_at (filter (\<lambda>m. ms_conversation_id m = cv_id v) (messages d1))), d1))))"

text \<open>The generated ids of a conversation and of the message, and the clock.\<close>

definition sendMessage ::
  "uuid \<Rightarrow> uuid \<Rightarrow> timestamp \<Rightarrow> uuid \<Rightarrow> uuid \<Rightarrow> string \<Rightarrow> AuthenticatedUser option \<Rightarrow> db \<Rightarrow> db \<Rightarrow> (error + message) \<times> db" where
  "sendMessage i mid now bookingId senderId content actor d0 d =
     (case actor of None \<Rightarrow> (Inl (AuthorizationError 401 ''UNAUTHORIZED''), d)
      | Some a \<Rightarrow>
          (case chat_booking chat_canSendMessage a bookingId d0 of Inl e \<Rightarrow> (Inl e, d)
           | Inr b \<Rightarrow>
               (case getOrCreateConversation i bookingId (Some (context_of b)) d0 d of
                  (Inl e, d1) \<Rightarrow> (Inl e, d1)
                | (Inr v, d1) \<Rightarrow>
                    let m = \<lparr>ms_id = mid, ms_conversation_id = cv_id v, ms_sender_id = au_id a,
                             ms_content = trim content, ms_sent_at = now\<rparr>
                    in (Inr m, d1\<lparr>messages := messages d1 @ [m]\<rparr>))))"

section \<open>Schedules\<close>

text \<open>
  Reviews in flight between their checks and their insert, while bookings go on moving through their
  lifecycle.
\<close>

record review_system =
  vs_db :: db
  vs_pending :: "review list"

datatype review_event =
    StartReview uuid uuid CreateReviewReq
  | FinishReview nat "db_error option"
  | BookingStep booking_call

fun review_step :: "review_event \<Rightarrow> review_system \<Rightarrow> review_system" where
  "review_step (StartReview b c p) s =
     (case review_check b c p (vs_db s) of
        Inl _ \<Rightarrow> s
      | Inr r \<Rightarrow> s\<lparr>vs_pending := vs_pending s @ [r]\<rparr>)"
| "review_step (FinishReview k failure) s =
     (if k < length (vs_pending s)
      then \<lparr>vs_db = snd (review_commit failure (vs_pending s ! k) (vs_db s)),
            vs_pending = take k (vs_pending s) @ drop (Suc k) (vs_pending s)\<rparr>
      else s)"
| "review_step (BookingStep c) s = s\<lparr>vs_db := booking_exec c (vs_db s)\<rparr>"

text \<open>A review is backed by a completed booking of its author with its worker.\<close>

definition review_backed :: "db \<Rightarrow> review \<Rightarrow> bool" where
  "review_backed d r \<longleftrightarrow> (\<exists>b \<in> set (bookings d). bk_id b = rv_booking_id r \<and> bk_worker_id b = rv_worker_id r \<and>
     bk_customer_id b = rv_customer_id r \<and> bk_status b = ''COMPLETED'')"

definition reviews_ok :: "db \<Rightarrow> bool" where
  "reviews_ok d \<longleftrightarrow> booking_audited d \<and> distinct (map rv_booking_id (reviews d)) \<and> (\<forall>r \<in> set (reviews d). review_backed d r)"

definition review_system_ok :: "review_system \<Rightarrow> bool" where
  "review_system_ok s \<longleftrightarrow> reviews_ok (vs_db s) \<and> (\<forall>r \<in> set (vs_pending s). review_backed (vs_db s) r)"

section \<open>Lemmas\<close>

lemma completed_booking_kept:
  assumes "booking_audited d" and "b \<in> set (bookings d)" and "bk_status b = ''COMPLETED''"
  shows "b \<in> set (bookings (booking_exec c d))"
proof -
  let ?t = "booking_transition (bc_now c) (bc_booking c) (bc_action c) (bc_actor c) (bc_reason c) (bc_expected c)"
  show ?thesis
  proof (cases "?t" d rule: run_tx_cases)
    case throws
    with assms(2) show ?thesis by (simp add: booking_exec_def)
  next
    case (commits res d')
    then obtain b0 where b0: "findUnique bk_id (bc_booking c) (bookings d) = Some b0"
      by (auto simp: booking_transition_def split: option.splits)
    with assms(1) obtain st where st: "bk_status b0 = booking_status_str st"
      using booking_audited_status findUnique_Some by metis
    have "b \<in> set (bookings d')"
      using commits(1) b0 st
    proof (cases rule: booking_transition_InrE)
      case idempotent
      with assms(2) show ?thesis by simp
    next
      case (step rule u)
      have "bk_id b \<noteq> bc_booking c"
      proof
        assume "bk_id b = bc_booking c"
        then have "b = b0" using assms(1,2) findUnique_Some [OF b0] key_unique by (metis booking_audited_def)
        then have "booking_status_str st = booking_status_str COMPLETED" using assms(3) st by simp
        then have "st = COMPLETED" by (simp only: booking_status_str_inj)
        with step(1) show False by (cases "bc_action c") auto
      qed
      with assms(2) step(13) show ?thesis
        by (force simp: booking_step_effect_def update_booking_def set_updateMany)
    qed
    with commits(2) show ?thesis by (simp add: booking_exec_def)
  qed
qed

lemma booking_exec_reviews: "reviews (booking_exec c d) = reviews d"
proof -
  let ?t = "booking_transition (bc_now c) (bc_booking c) (bc_action c) (bc_actor c) (bc_reason c) (bc_expected c)"
  have "reviews d' = reviews d" if "?t d = Inr (res, d')" for res d'
    using that by (auto simp: booking_transition_def booking_transition_fresh_def Let_def update_booking_def
      split: option.splits if_splits sum.splits)
  then show ?thesis by (cases "?t" d rule: run_tx_cases) (auto simp: booking_exec_def)
qed

lemma review_backed_exec: "booking_audited d \<Longrightarrow> review_backed d r \<Longrightarrow> review_backed (booking_exec c d) r"
  unfolding review_backed_def using completed_booking_kept by blast

lemma review_check_backed:
  assumes "review_check bk cu p d = Inr r"
  shows "review_backed d r" and "rv_customer_id r = cu" and "rv_booking_id r = bk"
proof -
  from assms obtain b where b: "findFirst (\<lambda>b. bk_id b = bk \<and> bk_customer_id b = cu) (bookings d) = Some b"
    and "bk_status b = ''COMPLETED''"
    and r: "r = \<lparr>rv_booking_id = bk, rv_worker_id = bk_worker_id b, rv_customer_id = cu, rv_rating = cr_rating p, rv_comment = cr_comment p\<rparr>"
    by (auto simp: review_check_def split: option.splits if_splits)
  with findFirst_Some [OF b] show "review_backed d r" "rv_customer_id r = cu" "rv_booking_id r = bk"
    by (auto simp: review_backed_def)
qed

lemma review_commit_db:
  "snd (review_commit failure r d) = d \<or>
   (snd (review_commit failure r d) = d\<lparr>reviews := reviews d @ [r]\<rparr> \<and> rv_booking_id r \<notin> rv_booking_id ` set (reviews d))"
  by (auto simp: review_commit_def create_review_def list_ex_key split: option.splits)

lemma review_commit_ok:
  assumes "reviews_ok d" and "review_backed d r"
  shows "reviews_ok (snd (review_commit failure r d))" "review_backed (snd (review_commit failure r d)) r' = review_backed d r'"
  using review_commit_db [of failure r d] assms
  by (auto simp: reviews_ok_def booking_audited_def review_backed_def)

interpretation review_schedule: invariant_system review_step review_system_ok
proof unfold_locales
  fix s e assume ok: "review_system_ok s"
  then have d: "reviews_ok (vs_db s)" and p: "\<And>r. r \<in> set (vs_pending s) \<Longrightarrow> review_backed (vs_db s) r"
    by (auto simp: review_system_ok_def)
  show "review_system_ok (review_step e s)"
  proof (cases e)
    case (StartReview b c q)
    with ok review_check_backed(1) show ?thesis
      by (auto simp: review_system_ok_def split: sum.splits)
  next
    case (FinishReview k failure)
    show ?thesis
    proof (cases "k < length (vs_pending s)")
      case True
      then have r: "review_backed (vs_db s) (vs_pending s ! k)" using p nth_mem by blast
      have "set (take k (vs_pending s) @ drop (Suc k) (vs_pending s)) \<subseteq> set (vs_pending s)"
        using set_take_subset set_drop_subset by fastforce
      with FinishReview True review_commit_ok [OF d r] p show ?thesis
        by (auto simp: review_system_ok_def)
    next
      case False
      with FinishReview ok show ?thesis by simp
    qed
  next
    case (BookingStep c)
    have "booking_audited (vs_db s)" using d by (simp add: reviews_ok_def)
    with BookingStep ok booking_audit.exec_inv review_backed_exec show ?thesis
      by (auto simp: review_system_ok_def reviews_ok_def booking_exec_reviews)
  qed
qed

section \<open>Properties\<close>

text \<open>
  C19. Under every interleaving of review requests (each reads first and inserts later), failing inserts and
  booking transitions, a booking has at most one review, and every review is written by the customer of a
  completed booking about the worker of that booking.
\<close>

theorem one_honest_review_per_booking:
  assumes "booking_audited d" and "reviews d = []"
  shows "distinct (map rv_booking_id (reviews (vs_db (fold review_step es \<lparr>vs_db = d, vs_pending = []\<rparr>)))) \<and>
    (\<forall>r \<in> set (reviews (vs_db (fold review_step es \<lparr>vs_db = d, vs_pending = []\<rparr>))).
       review_backed (vs_db (fold review_step es \<lparr>vs_db = d, vs_pending = []\<rparr>)) r)"
proof -
  have "review_system_ok \<lparr>vs_db = d, vs_pending = []\<rparr>" using assms by (simp add: review_system_ok_def reviews_ok_def)
  from review_schedule.fold_inv [OF this, of es] show ?thesis by (simp add: review_system_ok_def reviews_ok_def)
qed

definition sample_review_db :: db where
  "sample_review_db = empty_db\<lparr>bookings := [sample_booking], booking_log := []\<rparr>"

definition sample_call :: "BookingAction \<Rightarrow> booking_call" where
  "sample_call a = \<lparr>bc_now = 5, bc_booking = ''b1'', bc_action = a, bc_actor = system_actor, bc_reason = None, bc_expected = None\<rparr>"

definition sample_review_events :: "review_event list" where
  "sample_review_events =
     [BookingStep (sample_call START_WORK), BookingStep (sample_call REQUEST_COMPLETION), BookingStep (sample_call CONFIRM_COMPLETION),
      StartReview ''b1'' (bk_customer_id sample_booking) \<lparr>cr_rating = Some 5, cr_comment = None\<rparr>,
      StartReview ''b1'' (bk_customer_id sample_booking) \<lparr>cr_rating = Some 1, cr_comment = None\<rparr>,
      FinishReview 0 None, FinishReview 0 None]"

theorem one_honest_review_per_booking_witness:
  "distinct (map rv_booking_id (reviews (vs_db (fold review_step sample_review_events \<lparr>vs_db = sample_review_db, vs_pending = []\<rparr>)))) \<and>
   map rv_rating (reviews (vs_db (fold review_step sample_review_events \<lparr>vs_db = sample_review_db, vs_pending = []\<rparr>))) = [Some 5]"
proof
  have "booking_audited sample_review_db" "reviews sample_review_db = []" by code_simp+
  from one_honest_review_per_booking [OF this, of sample_review_events]
  show "distinct (map rv_booking_id (reviews (vs_db (fold review_step sample_review_events \<lparr>vs_db = sample_review_db, vs_pending = []\<rparr>))))"
    by blast
  show "map rv_rating (reviews (vs_db (fold review_step sample_review_events \<lparr>vs_db = sample_review_db, vs_pending = []\<rparr>))) = [Some 5]"
    by code_simp
qed

definition chat_member :: "AuthenticatedUser \<Rightarrow> booking \<Rightarrow> bool" where
  "chat_member a b \<longleftrightarrow> au_role a = ADMIN \<or> au_role a = CUSTOMER \<and> bk_customer_id b = au_id a \<or>
     au_role a = WORKER \<and> bk_worker_id b = au_id a"

lemma chat_decisions:
  "chat_canSendMessage a b = (if chat_member a b then Allowed else Denied 403 ''NOT_PARTICIPANT'')"
  "chat_canReadConversation a b = (if chat_member a b then Allowed else Denied 403 ''NOT_PARTICIPANT'')"
  "chat_scopeBooking a i b \<longleftrightarrow> bk_id b = i \<and> chat_member a b"
  by (cases "au_role a"; simp add: chat_canSendMessage_def chat_canReadConversation_def chat_scopeBooking_def chat_member_def Let_def
      toLowerCase_def lower_char_def)+

lemma chat_booking_decides:
  assumes "distinct (map bk_id (bookings d))" and "findUnique bk_id i (bookings d) = Some b"
    and "\<And>b. can a b = (if chat_member a b then Allowed else Denied 403 ''NOT_PARTICIPANT'')"
  shows "chat_booking can a i d = (if chat_member a b then Inr b else Inl (AuthorizationError 403 ''NOT_PARTICIPANT''))"
proof -
  have b: "b \<in> set (bookings d)" "bk_id b = i" using findUnique_Some [OF assms(2)] by auto
  have only: "b' = b" if "b' \<in> set (bookings d)" "bk_id b' = i" for b'
    using key_unique [OF assms(1) that(1) b(1)] that(2) b(2) by simp
  show ?thesis
  proof (cases "findFirst (chat_scopeBooking a i) (bookings d)")
    case None
    then have "\<not> chat_member a b" using b by (auto simp: findFirst_None chat_decisions(3))
    with None assms(2,3) show ?thesis by (simp add: chat_booking_def)
  next
    case (Some b')
    then have "b' = b" "chat_member a b'" using only findFirst_Some [OF Some] by (auto simp: chat_decisions(3))
    with Some show ?thesis by (simp add: chat_booking_def)
  qed
qed

lemma conversation_found:
  assumes "set (conversations d0) \<subseteq> set (conversations d)" and "distinct (map cv_booking_id (conversations d))"
    and "i \<notin> cv_id ` set (conversations d)"
  obtains v d1 where "getOrCreateConversation i bookingId (Some c) d0 d = (Inr v, d1)"
    "v \<in> set (conversations d1)" "cv_booking_id v = bookingId" "distinct (map cv_booking_id (conversations d1))"
    "messages d1 = messages d" "set (conversations d) \<subseteq> set (conversations d1)"
proof (cases "findFirst (\<lambda>v. cv_booking_id v = bookingId) (conversations d0)")
  case (Some v)
  with assms findFirst_Some [OF Some] show thesis
    by (intro that [of v d]) (auto simp: getOrCreateConversation_def)
next
  case none: None
  show thesis
  proof (cases "findFirst (\<lambda>v. cv_booking_id v = bookingId) (conversations d)")
    case (Some v)
    with findFirst_Some [OF Some] have "list_ex (\<lambda>v. cv_booking_id v = bookingId \<or> cv_id v = i) (conversations d)"
      by (auto simp: list_ex_iff)
    with none Some assms findFirst_Some [OF Some] show thesis
      by (intro that [of v d]) (auto simp: getOrCreateConversation_def)
  next
    case None
    then have "\<not> list_ex (\<lambda>v. cv_booking_id v = bookingId \<or> cv_id v = i) (conversations d)"
      using assms(3) by (auto simp: findFirst_None list_ex_iff)
    moreover have "bookingId \<notin> cv_booking_id ` set (conversations d)" using None by (auto simp: findFirst_None)
    moreover have "cv_booking_id (new_conversation i bookingId c) = bookingId" by (simp add: new_conversation_def)
    ultimately show thesis using none assms(2)
      by (intro that [of "new_conversation i bookingId c" "d\<lparr>conversations := conversations d @ [new_conversation i bookingId c]\<rparr>"])
        (auto simp: getOrCreateConversation_def)
  qed
qed

text \<open>
  Who speaks in a booking's chat, and as whom: a message of a user who is neither an admin nor the
  customer or the worker of the booking is refused with 403 and nothing is written; everybody else's
  message is appended under the user's own id, whatever sender id the request names, with its content
  trimmed, to the booking's single conversation, also when that was created meanwhile by another request.
\<close>

theorem message_authentic:
  assumes "distinct (map bk_id (bookings d0))" and "findUnique bk_id bookingId (bookings d0) = Some b"
    and "set (conversations d0) \<subseteq> set (conversations d)" and "distinct (map cv_booking_id (conversations d))"
    and "i \<notin> cv_id ` set (conversations d)"
  shows "if chat_member a b
    then (\<exists>v m d'. sendMessage i mid now bookingId senderId content (Some a) d0 d = (Inr m, d') \<and>
            messages d' = messages d @ [m] \<and> ms_sender_id m = au_id a \<and> ms_content m = trim content \<and>
            v \<in> set (conversations d') \<and> cv_booking_id v = bookingId \<and> ms_conversation_id m = cv_id v \<and>
            distinct (map cv_booking_id (conversations d')))
    else sendMessage i mid now bookingId senderId content (Some a) d0 d = (Inl (AuthorizationError 403 ''NOT_PARTICIPANT''), d)"
proof -
  have bk: "chat_booking chat_canSendMessage a bookingId d0 =
    (if chat_member a b then Inr b else Inl (AuthorizationError 403 ''NOT_PARTICIPANT''))"
    by (rule chat_booking_decides [OF assms(1,2) chat_decisions(1)])
  obtain v d1 where v: "getOrCreateConversation i bookingId (Some (context_of b)) d0 d = (Inr v, d1)"
    "v \<in> set (conversations d1)" "cv_booking_id v = bookingId" "distinct (map cv_booking_id (conversations d1))"
    "messages d1 = messages d"
    by (rule conversation_found [OF assms(3-5)]) blast
  show ?thesis
  proof (cases "chat_member a b")
    case True
    then show ?thesis using bk v by (auto simp: sendMessage_def Let_def)
  next
    case False
    then show ?thesis using bk by (simp add: sendMessage_def)
  qed
qed

theorem message_authentic_witness:
  "\<exists>m d'. sendMessage ''v1'' ''m1'' 7 ''b1'' ''intruder'' '' hello '' (Some \<lparr>au_id = bk_worker_id sample_booking, au_role = WORKER\<rparr>)
       sample_review_db sample_review_db = (Inr m, d') \<and> ms_sender_id m = bk_worker_id sample_booking \<and> ms_content m = ''hello''"
proof -
  let ?a = "\<lparr>au_id = bk_worker_id sample_booking, au_role = WORKER\<rparr>"
  have b: "findUnique bk_id ''b1'' (bookings sample_review_db) = Some sample_booking" by code_simp
  have pre: "distinct (map bk_id (bookings sample_review_db))" "distinct (map cv_booking_id (conversations sample_review_db))"
    "''v1'' \<notin> cv_id ` set (conversations sample_review_db)" "trim '' hello '' = ''hello''" "chat_member ?a sample_booking"
    by code_simp+
  from message_authentic [OF pre(1) b subset_refl pre(2,3), of ?a "''m1''" 7 "''intruder''" "'' hello ''"] pre(4,5)
  show ?thesis by auto
qed

end
