(* ===== verification/Storage.thy ===== *)
theory Storage
  imports Wave_Planner Payment_Provider
begin

text \<open>
  Private documents: the storage service \<^verbatim>\<open>src/providers/storage/storage.service.ts\<close> (object keys, signed URLs),
  the driver for local files \<^verbatim>\<open>src/providers/storage/localStorageDriver.ts\<close>, the upload and download handlers
  of \<^verbatim>\<open>src/providers/storage/storage.controller.ts\<close> and the configuration \<^verbatim>\<open>src/config/storageConfig.ts\<close>.

  The WHATWG URL parser (\<^verbatim>\<open>new URL(s).pathname\<close>), \<^verbatim>\<open>decodeURIComponent\<close> and the HMAC are arguments, \<open>None\<close>
  standing for a thrown exception. POSIX path normalisation is written out. A file system maps a path to a
  file; the JSON of a metadata file is the content type it holds.
\<close>

section \<open>Paths\<close>

definition slash :: char where
  "slash = CHR 0x2F"

fun join_segs :: "string list \<Rightarrow> string" where
  "join_segs [] = []"
| "join_segs [s] = s"
| "join_segs (s # t # ss) = s @ [slash] @ join_segs (t # ss)"

text \<open>The loop of \<^verbatim>\<open>normalizeString\<close> in Node's path module, over the segments of the path.\<close>

fun normalize_segs :: "bool \<Rightarrow> string list \<Rightarrow> string list \<Rightarrow> string list" where
  "normalize_segs allowAbove acc [] = acc"
| "normalize_segs allowAbove acc (s # ss) =
     (if s = [] \<or> s = ''.'' then normalize_segs allowAbove acc ss
      else if s = ''..'' then
        (if acc \<noteq> [] \<and> last acc \<noteq> ''..'' then normalize_segs allowAbove (butlast acc) ss
         else if allowAbove then normalize_segs allowAbove (acc @ [s]) ss
         else normalize_segs allowAbove acc ss)
      else normalize_segs allowAbove (acc @ [s]) ss)"

definition absolute_path :: "string \<Rightarrow> bool" where
  "absolute_path p \<longleftrightarrow> p \<noteq> [] \<and> hd p = slash"

definition posix_normalize :: "string \<Rightarrow> string" where
  "posix_normalize p =
     (if p = [] then ''.''
      else let body = join_segs (normalize_segs (\<not> absolute_path p) [] (split_on slash p));
               trailing = (last p = slash)
           in if body = [] then (if absolute_path p then [slash] else if trailing then ''./'' else ''.'')
              else (if absolute_path p then [slash] else []) @ body @ (if trailing then [slash] else []))"

text \<open>\<^verbatim>\<open>path.resolve(rootDir, p)\<close> for an absolute rootDir.\<close>

definition path_resolve :: "string \<Rightarrow> string \<Rightarrow> string" where
  "path_resolve rootDir p =
     [slash] @ join_segs (normalize_segs False [] (if absolute_path p then split_on slash p else split_on slash rootDir @ split_on slash p))"

section \<open>Object keys\<close>

definition cut_prefix :: "string \<Rightarrow> string \<Rightarrow> string" where
  "cut_prefix pre s = drop (length pre) s"

definition url_key :: "string \<Rightarrow> string" where
  "url_key pathname =
     (if startsWith pathname ''download/'' then cut_prefix ''download/'' pathname
      else if startsWith pathname ''upload/'' then cut_prefix ''upload/'' pathname
      else if startsWith pathname ''api/storage/download/'' then cut_prefix ''api/storage/download/'' pathname
      else if startsWith pathname ''api/storage/upload/'' then cut_prefix ''api/storage/upload/'' pathname
      else pathname)"

definition raw_key :: "(string \<Rightarrow> string option) \<Rightarrow> (string \<Rightarrow> string option) \<Rightarrow> string \<Rightarrow> string" where
  "raw_key urlPathname decodeURI s =
     (if startsWith s ''http://'' \<or> startsWith s ''https://'' then
        (case urlPathname s of None \<Rightarrow> s
         | Some p \<Rightarrow> (case decodeURI (url_key (dropWhile (\<lambda>c. c = slash) p)) of None \<Rightarrow> s | Some r \<Rightarrow> r))
      else s)"

text \<open>Null bytes go, backslashes become slashes, leading slashes go.\<close>

definition sanitize_key :: "string \<Rightarrow> string" where
  "sanitize_key s = dropWhile (\<lambda>c. c = slash)
     (map (\<lambda>c. if c = CHR 0x5C then slash else c) (filter (\<lambda>c. c \<noteq> CHR 0x00) s))"

definition traversal :: "string \<Rightarrow> string \<Rightarrow> bool" where
  "traversal raw normalized \<longleftrightarrow>
     js_includes raw (slash # ''..'') \<or> js_includes raw (''..'' @ [slash]) \<or> raw = ''..'' \<or> normalized = ''..'' \<or>
     startsWith normalized (''..'' @ [slash]) \<or> js_includes normalized (slash # ''..'' @ [slash])"

definition normalizeObjectKey :: "(string \<Rightarrow> string option) \<Rightarrow> (string \<Rightarrow> string option) \<Rightarrow> string \<Rightarrow> error + string" where
  "normalizeObjectKey urlPathname decodeURI urlOrKey =
     (if urlOrKey = [] then Inr []
      else let raw = sanitize_key (raw_key urlPathname decodeURI urlOrKey); normalized = posix_normalize raw
           in if traversal raw normalized then Inl (PlainError ''Directory traversal attempt detected in storage key'')
              else Inr normalized)"

definition is_alnum :: "char \<Rightarrow> bool" where
  "is_alnum c \<longleftrightarrow> is_digit c \<or> (let n = (of_char (lower_char c) :: nat) in 97 \<le> n \<and> n \<le> 122)"

definition generateDocumentKey :: "uuid \<Rightarrow> uuid \<Rightarrow> string \<Rightarrow> string" where
  "generateDocumentKey documentId workerId ext =
     (let cleaned = toLowerCase (filter is_alnum ext); cleanExt = (if cleaned = [] then ''pdf'' else cleaned)
      in ''workers/'' @ workerId @ ''/documents/'' @ documentId @ ''.'' @ cleanExt)"

definition isWorkerDocumentKey ::
  "(string \<Rightarrow> string option) \<Rightarrow> (string \<Rightarrow> string option) \<Rightarrow> uuid \<Rightarrow> string \<Rightarrow> bool" where
  "isWorkerDocumentKey urlPathname decodeURI workerId key =
     (if workerId = [] \<or> key = [] then False
      else case normalizeObjectKey urlPathname decodeURI key of
             Inl _ \<Rightarrow> False
           | Inr k \<Rightarrow> startsWith k (''workers/'' @ workerId @ ''/documents/''))"

section \<open>Configuration\<close>

record StorageConfig =
  bucketName :: string
  signedUrlTtlSeconds :: int
  signingSecret :: string
  maxSizeBytes :: nat

definition allowedMimeTypes :: "string list" where
  "allowedMimeTypes = [''application/pdf'', ''image/jpeg'', ''image/png'']"

definition KNOWN_INSECURE_SECRETS :: "string list" where
  "KNOWN_INSECURE_SECRETS =
     [''test'', ''secret'', ''password'', ''changeme'', ''storage_secret'', ''signing_secret'', ''your_storage_secret'']"

definition TEST_STORAGE_SECRET :: string where
  "TEST_STORAGE_SECRET = ''test_storage_secret_key_1234567890_super_secure''"

definition validateStorageSecret :: "bool \<Rightarrow> string option \<Rightarrow> nat \<Rightarrow> error + string" where
  "validateStorageSecret isTest v minLength =
     (case v of
        None \<Rightarrow> if isTest then Inr TEST_STORAGE_SECRET else Inl (PlainError ''missing'')
      | Some s \<Rightarrow>
          let t = trim s
          in if t = [] then Inl (PlainError ''cannot be empty'')
             else if toLowerCase t \<in> set KNOWN_INSECURE_SECRETS
             then (if isTest then Inr TEST_STORAGE_SECRET else Inl (PlainError ''known insecure placeholder''))
             else if length t < minLength then (if isTest then Inr TEST_STORAGE_SECRET else Inl (PlainError ''too short''))
             else Inr t)"

record storage_env =
  STORAGE_SIGNING_SECRET :: "string option"
  STORAGE_PROVIDER :: "string option"
  SUPABASE_URL :: "string option"
  SUPABASE_SECRET_KEY :: "string option"
  SUPABASE_SERVICE_ROLE_KEY :: "string option"
  STORAGE_BUCKET_NAME :: "string option"

definition assertProductionStorageConfig :: "string option \<Rightarrow> storage_env \<Rightarrow> error + unit" where
  "assertProductionStorageConfig nodeEnv env =
     (if js_or nodeEnv ''development'' \<noteq> ''production'' then Inr ()
      else case validateStorageSecret False (STORAGE_SIGNING_SECRET env) 16 of
        Inl e \<Rightarrow> Inl e
      | Inr _ \<Rightarrow>
          if \<not> truthy (STORAGE_PROVIDER env) \<or> the (STORAGE_PROVIDER env) \<in> {''local'', ''mock''}
          then Inl (PlainError ''STORAGE_PROVIDER must be configured'')
          else if STORAGE_PROVIDER env = Some ''supabase'' \<and>
            (\<not> truthy (SUPABASE_URL env) \<or> \<not> startsWith (the (SUPABASE_URL env)) ''https://'')
          then Inl (PlainError ''SUPABASE_URL is missing or invalid'')
          else if STORAGE_PROVIDER env = Some ''supabase'' \<and>
            (let k = (if truthy (SUPABASE_SECRET_KEY env) then SUPABASE_SECRET_KEY env else SUPABASE_SERVICE_ROLE_KEY env)
             in \<not> truthy k \<or> length (trim (the k)) < 20)
          then Inl (PlainError ''SUPABASE_SECRET_KEY is missing or too short'')
          else if \<not> truthy (STORAGE_BUCKET_NAME env) \<or> trim (the (STORAGE_BUCKET_NAME env)) = []
          then Inl (PlainError ''STORAGE_BUCKET_NAME cannot be empty'')
          else Inr ())"

section \<open>Signed URLs\<close>

text \<open>\<^verbatim>\<open>parseInt(s, 10)\<close>, \<open>None\<close> for \<^verbatim>\<open>NaN\<close>.\<close>

definition parseInt10 :: "string \<Rightarrow> int option" where
  "parseInt10 s =
     (let t = dropWhile is_space s;
          neg = (t \<noteq> [] \<and> hd t = CHR ''-'');
          u = (if t \<noteq> [] \<and> (hd t = CHR ''-'' \<or> hd t = CHR ''+'') then tl t else t);
          ds = takeWhile is_digit u
      in if ds = [] then None else Some (if neg then - decimal_val ds else decimal_val ds))"

datatype url_method = GET | PUT

fun method_str :: "url_method \<Rightarrow> string" where
  "method_str GET = ''GET''"
| "method_str PUT = ''PUT''"

definition signed_payload :: "string \<Rightarrow> url_method \<Rightarrow> string \<Rightarrow> string option \<Rightarrow> int \<Rightarrow> string" where
  "signed_payload bucket m key contentType e =
     (if m = PUT \<and> truthy contentType
      then ''PUT:'' @ bucket @ '':'' @ key @ '':'' @ the contentType @ '':'' @ digits (nat e)
      else method_str m @ '':'' @ bucket @ '':'' @ key @ '':'' @ digits (nat e))"

record signed_result =
  su_objectKey :: string
  su_exp :: int
  su_signature :: string
  su_expiresIn :: int

definition url_ttl :: "StorageConfig \<Rightarrow> int option \<Rightarrow> int" where
  "url_ttl cfg expiresIn =
     min (case expiresIn of Some n \<Rightarrow> if n = 0 then signedUrlTtlSeconds cfg else n | None \<Rightarrow> signedUrlTtlSeconds cfg)
       (signedUrlTtlSeconds cfg)"

text \<open>What the platform gives: URL parsing, percent-decoding and the keyed hash.\<close>

record platform =
  pf_urlPathname :: "string \<Rightarrow> string option"
  pf_decodeURI :: "string \<Rightarrow> string option"
  pf_hmac :: "string \<Rightarrow> string \<Rightarrow> string"

definition object_key :: "platform \<Rightarrow> string \<Rightarrow> error + string" where
  "object_key F s = normalizeObjectKey (pf_urlPathname F) (pf_decodeURI F) s"

definition getSignedDownloadUrl :: "platform \<Rightarrow> StorageConfig \<Rightarrow> timestamp \<Rightarrow> string \<Rightarrow> int option \<Rightarrow> error + signed_result" where
  "getSignedDownloadUrl F cfg now key expiresIn =
     (case object_key F key of Inl e \<Rightarrow> Inl e
      | Inr k \<Rightarrow>
          let ttl = url_ttl cfg expiresIn; e = now div 1000 + ttl
          in Inr \<lparr>su_objectKey = k, su_exp = e,
                  su_signature = pf_hmac F (signingSecret cfg) (signed_payload (bucketName cfg) GET k None e), su_expiresIn = ttl\<rparr>)"

definition getSignedUploadUrl ::
  "platform \<Rightarrow> StorageConfig \<Rightarrow> timestamp \<Rightarrow> string \<Rightarrow> string \<Rightarrow> int option \<Rightarrow> error + signed_result" where
  "getSignedUploadUrl F cfg now key contentType expiresIn =
     (case object_key F key of Inl e \<Rightarrow> Inl e
      | Inr k \<Rightarrow>
          let ttl = url_ttl cfg expiresIn; e = now div 1000 + ttl
          in Inr \<lparr>su_objectKey = k, su_exp = e,
                  su_signature = pf_hmac F (signingSecret cfg)
                    (''PUT:'' @ bucketName cfg @ '':'' @ k @ '':'' @ contentType @ '':'' @ digits (nat e)), su_expiresIn = ttl\<rparr>)"

definition verifySignedUrl ::
  "platform \<Rightarrow> StorageConfig \<Rightarrow> timestamp \<Rightarrow> string \<Rightarrow> string \<Rightarrow> string \<Rightarrow> url_method \<Rightarrow> string option \<Rightarrow> bool" where
  "verifySignedUrl F cfg now key e signature m contentType =
     (if key = [] \<or> e = [] \<or> signature = [] then False
      else case parseInt10 e of None \<Rightarrow> False
       | Some expNum \<Rightarrow>
           if expNum \<le> now div 1000 then False
           else case object_key F key of Inl _ \<Rightarrow> False
            | Inr k \<Rightarrow>
                let expected = hex_bytes (pf_hmac F (signingSecret cfg) (signed_payload (bucketName cfg) m k contentType expNum));
                    received = hex_bytes signature
                in if length expected \<noteq> length received \<or> length expected = 0 then False else expected = received)"

section \<open>Files\<close>

type_synonym bytes = "nat list"

datatype fs_file = Data bytes | Meta string

type_synonym file_system = "string \<Rightarrow> fs_file option"

fun strip_updirs :: "string \<Rightarrow> string" where
  "strip_updirs (a # b # c # s) =
     (if [a, b] = ''..'' \<and> (c = slash \<or> c = CHR 0x5C) then strip_updirs s else a # b # c # s)"
| "strip_updirs s = s"

definition resolveSafePath :: "string \<Rightarrow> string \<Rightarrow> error + string" where
  "resolveSafePath rootDir key =
     (if key = [] then Inl (PlainError ''Invalid storage object key'')
      else let sanitizedKey = map (\<lambda>c. if c = CHR 0x5C then slash else c) (filter (\<lambda>c. c \<noteq> CHR 0x00) key);
               resolved = path_resolve rootDir (strip_updirs (posix_normalize sanitizedKey))
           in if \<not> startsWith resolved rootDir then Inl (PlainError ''Directory traversal attempt detected in storage key'')
              else Inr resolved)"

definition getMetadataPath :: "string \<Rightarrow> string" where
  "getMetadataPath p = p @ ''.meta.json''"

definition octet_stream :: string where
  "octet_stream = ''application/octet-stream''"

definition local_putObject :: "string \<Rightarrow> string \<Rightarrow> bytes \<Rightarrow> string \<Rightarrow> file_system \<Rightarrow> error + file_system" where
  "local_putObject rootDir key data contentType fs =
     (case resolveSafePath rootDir key of Inl e \<Rightarrow> Inl e
      | Inr p \<Rightarrow> Inr (fs(p \<mapsto> Data data, getMetadataPath p \<mapsto> Meta (if contentType = [] then octet_stream else contentType))))"

definition local_objectExists :: "string \<Rightarrow> string \<Rightarrow> file_system \<Rightarrow> bool" where
  "local_objectExists rootDir key fs =
     (case resolveSafePath rootDir key of Inl _ \<Rightarrow> False | Inr p \<Rightarrow> fs p \<noteq> None)"

definition path_extname :: "string \<Rightarrow> string" where
  "path_extname p =
     (let base = last (split_on slash p); r = rev base; e = takeWhile (\<lambda>c. c \<noteq> CHR ''.'') r
      in if length e + 1 < length base \<and> base \<noteq> ''..'' then CHR ''.'' # rev e else [])"

definition guessed_type :: "string \<Rightarrow> string" where
  "guessed_type p =
     (let ext = toLowerCase (path_extname p)
      in if ext = ''.pdf'' then ''application/pdf''
         else if ext = ''.jpg'' \<or> ext = ''.jpeg'' then ''image/jpeg''
         else if ext = ''.png'' then ''image/png'' else octet_stream)"

text \<open>A metadata file that holds no metadata cannot be parsed; its object's type is then guessed.\<close>

definition local_getObject :: "string \<Rightarrow> string \<Rightarrow> file_system \<Rightarrow> (bytes \<times> string) option" where
  "local_getObject rootDir key fs =
     (case resolveSafePath rootDir key of Inl _ \<Rightarrow> None
      | Inr p \<Rightarrow> (case fs p of None \<Rightarrow> None
          | Some f \<Rightarrow>
              let data = (case f of Data b \<Rightarrow> b | Meta t \<Rightarrow> map of_char t);
                  contentType = (case fs (getMetadataPath p) of
                      Some (Meta t) \<Rightarrow> if t = [] then octet_stream else t
                    | _ \<Rightarrow> guessed_type p)
              in Some (data, contentType)))"

definition local_deleteObject :: "string \<Rightarrow> string \<Rightarrow> file_system \<Rightarrow> file_system" where
  "local_deleteObject rootDir key fs =
     (case resolveSafePath rootDir key of Inl _ \<Rightarrow> fs | Inr p \<Rightarrow> fs(p := None, getMetadataPath p := None))"

section \<open>Upload and download\<close>

definition validateDocumentMagicBytes :: "bytes \<Rightarrow> string \<Rightarrow> bool" where
  "validateDocumentMagicBytes data contentType =
     (if length data < 4 then False
      else if contentType = ''application/pdf'' then take 5 data = [37, 80, 68, 70, 45]
      else if contentType = ''image/jpeg'' then take 3 data = [255, 216, 255]
      else if contentType = ''image/png'' then take 8 data = [137, 80, 78, 71, 13, 10, 26, 10]
      else False)"

record upload_request =
  ur_key :: string
  ur_exp :: string
  ur_sig :: string
  ur_contentType :: "string option"
  ur_body :: bytes

definition media_type :: "string \<Rightarrow> string" where
  "media_type raw = toLowerCase (trim (hd (split_on (CHR '';'') raw)))"

text \<open>The driver's operation is an argument; the answer is the HTTP status with its code.\<close>

definition uploadObject ::
  "(string \<Rightarrow> bytes \<Rightarrow> string \<Rightarrow> 's \<Rightarrow> error + 's) \<Rightarrow> platform \<Rightarrow> StorageConfig \<Rightarrow> timestamp \<Rightarrow> upload_request \<Rightarrow> 's
   \<Rightarrow> (int \<times> string) \<times> 's" where
  "uploadObject put F cfg now q s =
     (if ur_key q = [] \<or> ur_exp q = [] \<or> ur_sig q = [] then ((403, ''STORAGE_SIGNATURE_MISSING''), s)
      else if \<not> truthy (ur_contentType q) then ((400, ''STORAGE_MIME_MISSING''), s)
      else let contentType = media_type (the (ur_contentType q))
      in if contentType \<notin> set allowedMimeTypes then ((415, ''STORAGE_MIME_UNSUPPORTED''), s)
         else case object_key F (ur_key q) of Inl _ \<Rightarrow> ((403, ''STORAGE_KEY_INVALID''), s)
          | Inr key \<Rightarrow>
              if \<not> verifySignedUrl F cfg now key (ur_exp q) (ur_sig q) PUT (Some contentType)
              then ((403, ''STORAGE_SIGNATURE_INVALID''), s)
              else if ur_body q = [] then ((400, ''STORAGE_EMPTY_PAYLOAD''), s)
              else if length (ur_body q) > maxSizeBytes cfg then ((413, ''STORAGE_PAYLOAD_TOO_LARGE''), s)
              else if \<not> validateDocumentMagicBytes (ur_body q) contentType then ((415, ''STORAGE_MIME_MISMATCH''), s)
              else case object_key F key of Inl _ \<Rightarrow> ((500, ''STORAGE_UPLOAD_FAILED''), s)
               | Inr k \<Rightarrow> (case put k (ur_body q) contentType s of
                    Inl _ \<Rightarrow> ((500, ''STORAGE_UPLOAD_FAILED''), s)
                  | Inr s' \<Rightarrow> ((200, ''OK''), s')))"

record download_request =
  wr_key :: string
  wr_exp :: string
  wr_sig :: string

text \<open>The answer carries the bytes with their type, or the status and code of a refusal.\<close>

definition downloadObject ::
  "(string \<Rightarrow> 's \<Rightarrow> bool) \<Rightarrow> (string \<Rightarrow> 's \<Rightarrow> (bytes \<times> string) option) \<Rightarrow> platform \<Rightarrow> StorageConfig \<Rightarrow> timestamp \<Rightarrow>
   download_request \<Rightarrow> 's \<Rightarrow> (int \<times> string) + (bytes \<times> string)" where
  "downloadObject exists get F cfg now q s =
     (if wr_key q = [] \<or> wr_exp q = [] \<or> wr_sig q = [] then Inl (403, ''STORAGE_SIGNATURE_MISSING'')
      else case object_key F (wr_key q) of Inl _ \<Rightarrow> Inl (403, ''STORAGE_KEY_INVALID'')
       | Inr key \<Rightarrow>
           if \<not> verifySignedUrl F cfg now key (wr_exp q) (wr_sig q) GET None then Inl (403, ''STORAGE_SIGNATURE_INVALID'')
           else (case object_key F key of Inl _ \<Rightarrow> Inl (404, ''STORAGE_OBJECT_NOT_FOUND'')
             | Inr k \<Rightarrow>
                 if k = [] \<or> \<not> exists k s then Inl (404, ''STORAGE_OBJECT_NOT_FOUND'')
                 else (case get k s of None \<Rightarrow> Inl (404, ''STORAGE_OBJECT_NOT_FOUND'')
                   | Some (data, contentType) \<Rightarrow> Inr (data, if contentType = [] then octet_stream else contentType))))"

section \<open>Lemmas on paths\<close>

lemma split_on_nonempty [simp]: "split_on c s \<noteq> []"
  by (induction s) (auto split: list.splits)

lemma split_on_sep: "split_on c (s @ c # t) = split_on c s @ split_on c t"
  by (induction s) (auto split: list.splits simp: append_eq_Cons_conv)

lemma split_on_none: "c \<notin> set s \<Longrightarrow> split_on c s = [s]"
  by (induction s) auto

lemma split_on_clean: "x \<in> set (split_on c s) \<Longrightarrow> c \<notin> set x"
proof (induction s arbitrary: x)
  case (Cons a s)
  obtain p ps where p: "split_on c s = p # ps" by (meson list.exhaust split_on_nonempty)
  with Cons.IH have "c \<notin> set p" "\<And>y. y \<in> set ps \<Longrightarrow> c \<notin> set y" by auto
  with Cons.prems p show ?case by (auto split: if_splits)
qed simp

lemma split_on_Cons: "\<exists>p ps. split_on c s = p # ps"
  by (meson list.exhaust split_on_nonempty)

lemma join_append: "xs \<noteq> [] \<Longrightarrow> ys \<noteq> [] \<Longrightarrow> join_segs (xs @ ys) = join_segs xs @ [slash] @ join_segs ys"
  by (induction xs rule: join_segs.induct) (auto simp: neq_Nil_conv)

lemma join_Cons: "ys \<noteq> [] \<Longrightarrow> join_segs (x # ys) = x @ [slash] @ join_segs ys"
  by (cases ys) simp_all

lemma join_split [simp]: "join_segs (split_on slash s) = s"
proof (induction s)
  case (Cons a s)
  obtain p ps where p: "split_on slash s = p # ps" using split_on_Cons by blast
  with Cons show ?case by (cases ps) auto
qed simp

lemma split_join: "xs \<noteq> [] \<Longrightarrow> list_all (\<lambda>x. slash \<notin> set x) xs \<Longrightarrow> split_on slash (join_segs xs) = xs"
  by (induction xs rule: join_segs.induct) (auto simp: split_on_none split_on_sep)

text \<open>A key segment that names an entry of its directory: nothing a path resolution acts on.\<close>

definition plain_seg :: "string \<Rightarrow> bool" where
  "plain_seg x \<longleftrightarrow> x \<noteq> [] \<and> x \<noteq> ''.'' \<and> x \<noteq> ''..'' \<and> slash \<notin> set x"

lemma normalize_plain:
  "''..'' \<notin> set ss \<Longrightarrow> normalize_segs b acc ss = acc @ filter (\<lambda>x. x \<noteq> [] \<and> x \<noteq> ''.'') ss"
  by (induction b acc ss rule: normalize_segs.induct) auto

lemma plain_filter:
  assumes "''..'' \<notin> set (split_on slash s)"
  shows "list_all plain_seg (filter (\<lambda>x. x \<noteq> [] \<and> x \<noteq> ''.'') (split_on slash s))"
  using assms split_on_clean by (fastforce simp: list_all_iff plain_seg_def)

lemma join_plain_eq_Nil: "list_all plain_seg xs \<Longrightarrow> join_segs xs = [] \<longleftrightarrow> xs = []"
  by (induction xs rule: join_segs.induct) (auto simp: plain_seg_def)

lemma join_plain_relative: "list_all plain_seg xs \<Longrightarrow> \<not> absolute_path (join_segs xs)"
  by (cases xs rule: join_segs.cases) (auto simp: plain_seg_def absolute_path_def hd_append dest: hd_in_set)

lemma join_plain_last: "list_all plain_seg xs \<Longrightarrow> xs \<noteq> [] \<Longrightarrow> last (join_segs xs) \<noteq> slash"
proof (induction xs rule: join_segs.induct)
  case (2 s)
  then show ?case by (simp add: plain_seg_def) (metis last_in_set)
next
  case (3 s t ss)
  then show ?case using join_plain_eq_Nil [of "t # ss"] by simp
qed simp

text \<open>The shape of a key: plain segments, perhaps a final slash, or the directory itself.\<close>

definition plain_key :: "string list \<Rightarrow> bool \<Rightarrow> string" where
  "plain_key ss trailing = (if ss = [] then ''.'' else join_segs ss) @ (if trailing then [slash] else [])"

definition key_segs :: "string \<Rightarrow> string list" where
  "key_segs s = filter (\<lambda>x. x \<noteq> [] \<and> x \<noteq> ''.'') (split_on slash s)"

lemma normalize_shape:
  assumes "\<not> absolute_path s" "''..'' \<notin> set (split_on slash s)"
  shows "posix_normalize s = plain_key (key_segs s) (s \<noteq> [] \<and> last s = slash)"
proof -
  have pl: "list_all plain_seg (key_segs s)" unfolding key_segs_def using plain_filter [OF assms(2)] .
  have n: "normalize_segs b [] (split_on slash s) = key_segs s" for b by (simp add: normalize_plain [OF assms(2)] key_segs_def)
  show ?thesis
    using assms(1) join_plain_eq_Nil [OF pl] by (cases "s = []")
      (simp add: posix_normalize_def plain_key_def key_segs_def, simp add: posix_normalize_def n plain_key_def Let_def, simp add: slash_def)
qed

lemma filter_plain: "list_all plain_seg ss \<Longrightarrow> filter (\<lambda>x. x \<noteq> [] \<and> x \<noteq> ''.'') ss = ss"
  by (induction ss) (auto simp: plain_seg_def)

lemma plain_no_updir: "list_all plain_seg ss \<Longrightarrow> ''..'' \<notin> set ss"
  by (auto simp: list_all_iff plain_seg_def)

lemma split_plain_key:
  assumes "list_all plain_seg ss"
  shows "split_on slash (plain_key ss t) = (if ss = [] then [''.''] else ss) @ (if t then [[]] else [])"
proof -
  have j: "split_on slash (join_segs ss) = ss" if "ss \<noteq> []"
    using split_join [OF that] assms by (auto simp: list_all_iff plain_seg_def)
  show ?thesis
    using j split_on_sep [of slash "join_segs ss" "[]"] split_on_sep [of slash "''.''" "[]"]
    by (auto simp: plain_key_def split_on_none slash_def)
qed

lemma plain_key_nonempty [simp]: "list_all plain_seg ss \<Longrightarrow> plain_key ss t \<noteq> []"
  using join_plain_eq_Nil by (auto simp: plain_key_def)

lemma plain_key_relative: "list_all plain_seg ss \<Longrightarrow> \<not> absolute_path (plain_key ss t)"
  using join_plain_relative [of ss] join_plain_eq_Nil [of ss]
  by (auto simp: plain_key_def absolute_path_def slash_def)

lemma plain_key_last: "list_all plain_seg ss \<Longrightarrow> last (plain_key ss t) = slash \<longleftrightarrow> t"
  using join_plain_last [of ss] by (auto simp: plain_key_def slash_def)

lemma plain_key_no_updir: "list_all plain_seg ss \<Longrightarrow> ''..'' \<notin> set (split_on slash (plain_key ss t))"
  using plain_no_updir by (auto simp: split_plain_key)

lemma plain_key_normal:
  assumes "list_all plain_seg ss"
  shows "posix_normalize (plain_key ss t) = plain_key ss t"
proof -
  have n: "normalize_segs b [] (split_on slash (plain_key ss t)) = ss" for b
    unfolding normalize_plain [OF plain_key_no_updir [OF assms]]
    using assms by (simp add: split_plain_key filter_plain)
  show ?thesis
    using assms plain_key_relative [OF assms, of t] plain_key_last [OF assms, of t]
    by (simp add: posix_normalize_def n Let_def join_plain_eq_Nil)
      (simp add: plain_key_def slash_def absolute_path_def)
qed

text \<open>Where a run of dots meets a slash, seen from the segments.\<close>

lemma split_prefix: "c \<notin> set q \<Longrightarrow> split_on c (q @ b) = (q @ hd (split_on c b)) # tl (split_on c b)"
proof (induction q)
  case (Cons x q)
  then have "x \<noteq> c" by auto
  with Cons show ?case by simp
qed simp

lemma split_suffix: "c \<notin> set q \<Longrightarrow> split_on c (a @ q) = butlast (split_on c a) @ [last (split_on c a) @ q]"
proof (induction a)
  case (Cons x a)
  then show ?case using split_on_Cons [of c a] by (auto split: list.splits)
qed (simp add: split_on_none)

lemma includes_after_slash:
  assumes "slash \<notin> set q" "q \<noteq> []"
  shows "js_includes s (slash # q) \<longleftrightarrow> (\<exists>x\<in>set (tl (split_on slash s)). startsWith x q)"
proof
  assume "js_includes s (slash # q)"
  then obtain a b where s: "s = a @ slash # q @ b" by (auto simp: includes_iff)
  have "tl (split_on slash s) = tl (split_on slash a) @ (q @ hd (split_on slash b)) # tl (split_on slash b)"
    unfolding s split_on_sep split_prefix [OF assms(1)] by simp
  then show "\<exists>x\<in>set (tl (split_on slash s)). startsWith x q" by (auto simp: startsWith_iff)
next
  assume "\<exists>x\<in>set (tl (split_on slash s)). startsWith x q"
  then obtain x u where x: "x \<in> set (tl (split_on slash s))" "x = q @ u" by (auto simp: startsWith_iff)
  obtain p ps where p: "split_on slash s = p # ps" using split_on_Cons by blast
  with x(1) obtain xs ys where "ps = xs @ x # ys" by (auto dest: split_list)
  with p have "s = join_segs ((p # xs) @ x # ys)" by (metis append_Cons join_split)
  also have "\<dots> = join_segs (p # xs) @ [slash] @ join_segs (x # ys)" by (rule join_append) simp_all
  also have "\<exists>b. join_segs (x # ys) = x @ b" by (cases ys) auto
  then obtain b where "join_segs (x # ys) = x @ b" ..
  finally have "s = join_segs (p # xs) @ (slash # q) @ u @ b" using x(2) \<open>join_segs (x # ys) = x @ b\<close> by simp
  then show "js_includes s (slash # q)" unfolding includes_iff by blast
qed

lemma includes_before_slash:
  assumes "slash \<notin> set q" "q \<noteq> []"
  shows "js_includes s (q @ [slash]) \<longleftrightarrow> (\<exists>x\<in>set (butlast (split_on slash s)). \<exists>y. x = y @ q)"
proof
  assume "js_includes s (q @ [slash])"
  then obtain a b where s: "s = (a @ q) @ slash # b" by (auto simp: includes_iff)
  have "split_on slash s = butlast (split_on slash a) @ (last (split_on slash a) @ q) # split_on slash b"
    unfolding s split_on_sep split_suffix [OF assms(1)] by simp
  then show "\<exists>x\<in>set (butlast (split_on slash s)). \<exists>y. x = y @ q" by (auto simp: butlast_append)
next
  assume "\<exists>x\<in>set (butlast (split_on slash s)). \<exists>y. x = y @ q"
  then obtain x y where x: "x \<in> set (butlast (split_on slash s))" "x = y @ q" by blast
  then obtain xs ys where b: "butlast (split_on slash s) = xs @ x # ys" by (meson split_list)
  then have "split_on slash s = (xs @ [x]) @ ys @ [last (split_on slash s)]"
    using append_butlast_last_id [OF split_on_nonempty, of slash s] by simp
  then obtain zs where "split_on slash s = (xs @ [x]) @ zs" "zs \<noteq> []" by blast
  then have "s = join_segs (xs @ [x]) @ [slash] @ join_segs zs"
    using join_append [of "xs @ [x]" zs] by (metis append_is_Nil_conv join_split list.distinct(1))
  moreover have "\<exists>w. join_segs (xs @ [x]) = w @ x" by (cases "xs = []") (auto simp: join_append)
  ultimately obtain w where "s = (w @ y) @ (q @ [slash]) @ join_segs zs" using x(2) by auto
  then show "js_includes s (q @ [slash])" unfolding includes_iff by blast
qed

lemma updir_includes:
  assumes "''..'' \<in> set (split_on slash s)"
  shows "s = ''..'' \<or> js_includes s (slash # ''..'') \<or> js_includes s (''..'' @ [slash])"
proof -
  have c: "slash \<notin> set ''..''" "''..'' \<noteq> []" by (simp_all add: slash_def)
  obtain p ps where p: "split_on slash s = p # ps" using split_on_Cons by blast
  consider "''..'' \<in> set ps" | "p = ''..''" "ps = []" | "p = ''..''" "ps \<noteq> []" using assms p by auto
  then show ?thesis
  proof cases
    case 1
    then show ?thesis unfolding includes_after_slash [OF c] p by (auto simp: startsWith_iff)
  next
    case 2
    with p have "s = ''..''" by (metis join_segs.simps(2) join_split)
    then show ?thesis ..
  next
    case 3
    then have "\<exists>x\<in>set (butlast (split_on slash s)). \<exists>y. x = y @ ''..''" unfolding p by auto
    then show ?thesis unfolding includes_before_slash [OF c] by blast
  qed
qed

section \<open>Keys stay inside the storage root\<close>

lemma sanitize_relative: "\<not> absolute_path (sanitize_key s)"
proof -
  have "\<not> absolute_path (dropWhile (\<lambda>c. c = slash) xs)" for xs by (induction xs) (auto simp: absolute_path_def)
  then show ?thesis unfolding sanitize_key_def .
qed

lemma sanitize_clean_chars: "c \<in> set (sanitize_key s) \<Longrightarrow> c \<noteq> CHR 0x00 \<and> c \<noteq> CHR 0x5C"
  unfolding sanitize_key_def by (auto dest!: set_dropWhileD simp: slash_def)

lemma join_chars: "c \<in> set (join_segs xs) \<Longrightarrow> c = slash \<or> (\<exists>x\<in>set xs. c \<in> set x)"
  by (induction xs rule: join_segs.induct) auto

lemma split_chars: "x \<in> set (split_on slash s) \<Longrightarrow> set x \<subseteq> set s"
proof (induction s arbitrary: x)
  case (Cons a s)
  obtain p ps where p: "split_on slash s = p # ps" using split_on_Cons by blast
  with Cons.IH have "set p \<subseteq> set s" "\<And>y. y \<in> set ps \<Longrightarrow> set y \<subseteq> set s" by auto
  with Cons.prems p show ?case by (fastforce split: if_splits)
qed simp

definition key_chars :: "string \<Rightarrow> bool" where
  "key_chars s \<longleftrightarrow> list_all (\<lambda>c. c \<noteq> CHR 0x00 \<and> c \<noteq> CHR 0x5C) s"

lemma set_tl_filter: "x \<in> set (tl (filter Q xs)) \<Longrightarrow> x \<in> set (tl xs)"
proof (cases xs)
  case (Cons a ys)
  moreover assume "x \<in> set (tl (filter Q xs))"
  ultimately show ?thesis by (cases "Q a"; cases "filter Q ys") (auto dest: filter_eq_ConsD)
qed simp

lemma set_butlast_filter: "x \<in> set (butlast (filter Q xs)) \<Longrightarrow> x \<in> set (butlast xs)"
  by (cases xs rule: rev_cases) (auto dest: in_set_butlastD split: if_splits)

lemma trailing_segs:
  assumes "s \<noteq> []" "last s = slash" "x \<in> set (key_segs s)"
  shows "x \<in> set (butlast (split_on slash s))"
proof -
  from assms obtain r where "s = r @ slash # []" by (metis append_butlast_last_id)
  then have "split_on slash s = split_on slash r @ [[]]" by (simp add: split_on_sep)
  with assms(3) show ?thesis by (auto simp: key_segs_def)
qed

lemma includes_weaken:
  "startsWith s p \<Longrightarrow> js_includes s p"
  "js_includes s (p @ q) \<Longrightarrow> js_includes s p"
  unfolding includes_iff startsWith_iff by (metis append_Nil, metis append.assoc)

text \<open>Normalising a key brings no dots next to a slash.\<close>

lemma normalize_no_traversal:
  assumes "\<not> absolute_path s" "\<not> traversal s (posix_normalize s)"
  shows "\<not> traversal (posix_normalize s) (posix_normalize s)"
proof -
  have c: "slash \<notin> set ''..''" "''..'' \<noteq> []" by (simp_all add: slash_def)
  have up: "''..'' \<notin> set (split_on slash s)" using assms(2) updir_includes [of s] by (auto simp: traversal_def)
  let ?ss = "key_segs s" and ?t = "s \<noteq> [] \<and> last s = slash"
  have pl: "list_all plain_seg ?ss" using plain_filter [OF up] by (simp add: key_segs_def)
  note k = normalize_shape [OF assms(1) up]
  have sp: "split_on slash (posix_normalize s) = (if ?ss = [] then [''.''] else ?ss) @ (if ?t then [[]] else [])"
    unfolding k split_plain_key [OF pl] ..
  have "\<not> js_includes (posix_normalize s) (slash # ''..'')"
  proof
    assume "js_includes (posix_normalize s) (slash # ''..'')"
    then obtain x where x: "x \<in> set (tl (split_on slash (posix_normalize s)))" "startsWith x ''..''"
      unfolding includes_after_slash [OF c] by blast
    then have "x \<in> set (tl ?ss)" unfolding sp by (auto split: if_splits)
    then have "x \<in> set (tl (split_on slash s))" unfolding key_segs_def by (rule set_tl_filter)
    with x(2) assms(2) show False unfolding traversal_def includes_after_slash [OF c] by blast
  qed
  moreover have "\<not> js_includes (posix_normalize s) (''..'' @ [slash])"
  proof
    assume "js_includes (posix_normalize s) (''..'' @ [slash])"
    then obtain x where x: "x \<in> set (butlast (split_on slash (posix_normalize s)))" "\<exists>y. x = y @ ''..''"
      unfolding includes_before_slash [OF c] by blast
    then consider "?t" "x \<in> set ?ss" | "x \<in> set (butlast ?ss)" unfolding sp by (auto split: if_splits)
    then have "x \<in> set (butlast (split_on slash s))"
    proof cases
      case 1
      then show ?thesis using trailing_segs by blast
    next
      case 2
      then show ?thesis unfolding key_segs_def by (rule set_butlast_filter)
    qed
    with x(2) assms(2) show False unfolding traversal_def includes_before_slash [OF c] by blast
  qed
  ultimately show ?thesis using assms(2) by (auto simp: traversal_def intro: includes_weaken)
qed

lemma object_key_shape:
  assumes "object_key F s = Inr k" "k \<noteq> []"
  shows "\<exists>ss t. k = plain_key ss t \<and> list_all plain_seg ss \<and> key_chars k \<and> \<not> traversal k k"
proof -
  define raw where "raw = sanitize_key (raw_key (pf_urlPathname F) (pf_decodeURI F) s)"
  from assms have k: "k = posix_normalize raw" and nt: "\<not> traversal raw (posix_normalize raw)"
    by (auto simp: object_key_def normalizeObjectKey_def raw_def Let_def split: if_splits)
  have ra: "\<not> absolute_path raw" unfolding raw_def by (rule sanitize_relative)
  have up: "''..'' \<notin> set (split_on slash raw)" using nt updir_includes [of raw] by (auto simp: traversal_def)
  note sh = normalize_shape [OF ra up]
  have "c \<noteq> CHR 0x00 \<and> c \<noteq> CHR 0x5C" if "c \<in> set k" for c
  proof -
    from that consider "c = slash" | "c = CHR ''.''" | "c \<in> set (join_segs (key_segs raw))"
      unfolding k sh by (auto simp: plain_key_def split: if_splits)
    then show ?thesis
    proof cases
      case 3
      with split_chars have "c = slash \<or> c \<in> set raw" by (fastforce dest: join_chars simp: key_segs_def)
      then show ?thesis using sanitize_clean_chars by (auto simp: raw_def slash_def)
    qed (simp_all add: slash_def)
  qed
  moreover have "list_all plain_seg (key_segs raw)" using plain_filter [OF up] by (simp add: key_segs_def)
  ultimately show ?thesis using normalize_no_traversal [OF ra nt] k sh unfolding key_chars_def list_all_iff by blast
qed

lemma key_chars_clean: "key_chars k \<Longrightarrow> map (\<lambda>c. if c = CHR 0x5C then slash else c) (filter (\<lambda>c. c \<noteq> CHR 0x00) k) = k"
  by (induction k) (auto simp: key_chars_def)

lemma strip_none:
  assumes "''..'' \<notin> set (split_on slash k)" "key_chars k"
  shows "strip_updirs k = k"
proof (cases k rule: strip_updirs.cases)
  case (1 a b c r)
  have "\<not> ([a, b] = ''..'' \<and> c = slash)"
  proof
    assume "[a, b] = ''..'' \<and> c = slash"
    with 1 have "k = ''..'' @ slash # r" by simp
    then have "split_on slash k = split_on slash ''..'' @ split_on slash r" by (simp only: split_on_sep)
    with assms(1) show False by (simp add: slash_def)
  qed
  moreover from 1 assms(2) have "c \<noteq> CHR 0x5C" by (simp add: key_chars_def)
  ultimately show ?thesis unfolding 1 by auto
qed simp_all

text \<open>An absolute root directory, given by its segments.\<close>

definition root_path :: "string list \<Rightarrow> string" where
  "root_path rs = slash # join_segs rs"

lemma split_root: "rs \<noteq> [] \<Longrightarrow> list_all plain_seg rs \<Longrightarrow> split_on slash (root_path rs) = [] # rs"
  using split_on_sep [of slash "[]" "join_segs rs"] split_join [of rs]
  by (auto simp: root_path_def list_all_iff plain_seg_def)

lemma resolve_plain_key:
  assumes "list_all plain_seg ss" "key_chars (plain_key ss t)" "rs \<noteq> []" "list_all plain_seg rs"
  shows "resolveSafePath (root_path rs) (plain_key ss t) = Inr (root_path (rs @ ss))"
proof -
  let ?k = "plain_key ss t"
  note up = plain_key_no_updir [OF assms(1), of t]
  have "''..'' \<notin> set (split_on slash (root_path rs) @ split_on slash ?k)"
    using up plain_no_updir [OF assms(4)] by (simp add: split_root [OF assms(3,4)])
  from normalize_plain [OF this] have "path_resolve (root_path rs) ?k = root_path (rs @ ss)"
    using assms plain_key_relative [OF assms(1), of t]
    by (simp add: path_resolve_def split_root split_plain_key filter_plain) (simp add: root_path_def)
  moreover have "startsWith (root_path (rs @ ss)) (root_path rs)"
    using assms(3) by (cases "ss = []") (auto simp: startsWith_iff root_path_def join_append)
  ultimately show ?thesis
    using assms(1,2) by (simp add: resolveSafePath_def key_chars_clean plain_key_normal strip_none [OF up assms(2)] Let_def)
qed

lemma plain_key_no_url:
  assumes "list_all plain_seg ss" "plain_key ss t = p @ slash # slash # r" "slash \<notin> set p" "p \<noteq> ''.''"
  shows False
proof -
  have "split_on slash (plain_key ss t) = p # [] # split_on slash r"
    unfolding assms(2) split_on_sep split_on_none [OF assms(3)] by simp
  then have e: "(if ss = [] then [''.''] else ss) @ (if t then [[]] else []) = p # [] # split_on slash r"
    unfolding split_plain_key [OF assms(1)] .
  have "[] \<notin> set ss" using assms(1) by (auto simp: list_all_iff plain_seg_def)
  moreover obtain q qs where "split_on slash r = q # qs" using split_on_Cons by blast
  ultimately show False using e assms(4) by (auto simp: append_eq_Cons_conv split: if_splits)
qed

lemma plain_key_raw: "list_all plain_seg ss \<Longrightarrow> raw_key u dec (plain_key ss t) = plain_key ss t"
  using plain_key_no_url [of ss t "''http:''"] plain_key_no_url [of ss t "''https:''"]
  by (auto simp: raw_key_def startsWith_iff slash_def)

lemma plain_key_fixed:
  assumes "list_all plain_seg ss" "key_chars (plain_key ss t)" "\<not> traversal (plain_key ss t) (plain_key ss t)"
  shows "object_key F (plain_key ss t) = Inr (plain_key ss t)"
proof -
  let ?k = "plain_key ss t"
  have "dropWhile (\<lambda>c. c = slash) ?k = ?k"
    using plain_key_relative [OF assms(1), of t] assms(1) by (cases ?k) (auto simp: absolute_path_def)
  then have s: "sanitize_key ?k = ?k" by (simp add: sanitize_key_def key_chars_clean [OF assms(2)])
  with assms(1,3) show ?thesis
    by (simp add: object_key_def normalizeObjectKey_def plain_key_raw s plain_key_normal)
qed

lemma keys_confined_lemma:
  assumes "object_key F s = Inr k" "k \<noteq> []" and "rs \<noteq> []" "list_all plain_seg rs"
  shows "object_key F k = Inr k \<and>
    (\<exists>ss. resolveSafePath (root_path rs) k = Inr (root_path (rs @ ss)) \<and> list_all plain_seg ss)"
proof -
  from object_key_shape [OF assms(1,2)] obtain ss t where
    k: "k = plain_key ss t" and pl: "list_all plain_seg ss" and c: "key_chars k" "\<not> traversal k k" by blast
  show ?thesis
    using plain_key_fixed [OF pl c [unfolded k]] resolve_plain_key [OF pl c(1) [unfolded k] assms(3,4)] pl
    unfolding k by blast
qed

text \<open>
  C20. Whatever key or URL a request names, the object key that the storage service accepts is a fixed point of
  the normalisation and resolves to a path strictly built below the storage root: the root's segments followed by
  plain ones, none of them empty, a dot, or two dots. So no request reaches a file outside the root.
\<close>

theorem keys_confined:
  assumes "object_key F s = Inr k" "k \<noteq> []" and "rs \<noteq> []" "list_all plain_seg rs"
  shows "object_key F k = Inr k \<and>
    (\<exists>ss. resolveSafePath (root_path rs) k = Inr (root_path (rs @ ss)) \<and> list_all plain_seg ss)"
  using assms by (rule keys_confined_lemma)

definition sample_platform :: platform where
  "sample_platform = \<lparr>pf_urlPathname = \<lambda>s. None, pf_decodeURI = Some,
     pf_hmac = \<lambda>secret msg. replicate 64 (CHR ''a'')\<rparr>"

theorem keys_confined_witness:
  "object_key sample_platform ''workers//w1/./documents/d.pdf'' = Inr ''workers/w1/documents/d.pdf'' \<and>
   object_key sample_platform ''workers/w1/documents/d.pdf'' = Inr ''workers/w1/documents/d.pdf'' \<and>
   (\<exists>ss. resolveSafePath (root_path [''srv'', ''docs'']) ''workers/w1/documents/d.pdf'' = Inr (root_path ([''srv'', ''docs''] @ ss)) \<and>
     list_all plain_seg ss)"
proof -
  have 1: "object_key sample_platform ''workers//w1/./documents/d.pdf'' = Inr ''workers/w1/documents/d.pdf''" by code_simp
  have 2: "list_all plain_seg [''srv'', ''docs'']" by code_simp
  from keys_confined [OF 1 _ _ 2] 1 show ?thesis by simp
qed

text \<open>The check of the driver alone is a prefix test on strings: an absolute key may leave the root for a sibling
  whose name extends the root's. The service never passes an absolute key.\<close>

lemma sibling_passes_prefix_check:
  "resolveSafePath ''/srv/docs'' ''/srv/docs-old/x'' = Inr ''/srv/docs-old/x''"
  by code_simp

section \<open>What is uploaded is what is downloaded\<close>

text \<open>The contract of a storage driver that the handlers rely on.\<close>

locale object_store =
  fixes put :: "string \<Rightarrow> bytes \<Rightarrow> string \<Rightarrow> 's \<Rightarrow> error + 's"
    and exists :: "string \<Rightarrow> 's \<Rightarrow> bool"
    and get :: "string \<Rightarrow> 's \<Rightarrow> (bytes \<times> string) option"
  assumes exists_put: "put k b t s = Inr s' \<Longrightarrow> exists k s'"
    and get_put: "put k b t s = Inr s' \<Longrightarrow> t \<noteq> [] \<Longrightarrow> get k s' = Some (b, t)"
begin

lemma upload_stores:
  assumes "uploadObject put F cfg now q s = ((200, c), s')"
  shows "\<exists>key. object_key F (ur_key q) = Inr key \<and> (\<exists>k. object_key F key = Inr k \<and>
    put k (ur_body q) (media_type (the (ur_contentType q))) s = Inr s') \<and> media_type (the (ur_contentType q)) \<noteq> []"
  using assms unfolding uploadObject_def Let_def
  by (auto simp: allowedMimeTypes_def split: if_splits sum.splits)

lemma stored_is_served:
  assumes "put k b t s = Inr s'" "t \<noteq> []" "k \<noteq> []" "object_key F k = Inr k" "object_key F (wr_key q) = Inr k"
    and "verifySignedUrl F cfg now k (wr_exp q) (wr_sig q) GET None" "wr_key q \<noteq> []" 
  shows "downloadObject exists get F cfg now q s' = Inr (b, t)"
  using assms exists_put [OF assms(1)] get_put [OF assms(1,2)]
  by (auto simp: downloadObject_def verifySignedUrl_def)

end

interpretation local_store: object_store "local_putObject rootDir" "local_objectExists rootDir" "local_getObject rootDir" for rootDir
proof
  fix k b t s s'
  assume "local_putObject rootDir k b t s = Inr s'"
  then show "local_objectExists rootDir k s'"
    by (auto simp: local_putObject_def local_objectExists_def split: sum.splits)
next
  fix k b t s s'
  assume "local_putObject rootDir k b t s = Inr s'" "t \<noteq> []"
  then show "local_getObject rootDir k s' = Some (b, t)"
    by (auto simp: local_putObject_def local_getObject_def getMetadataPath_def Let_def split: sum.splits)
qed

lemma digits_nonempty [simp]: "digits n \<noteq> []"
  by (subst digits.simps) simp

lemma parseInt_digits: "parseInt10 (digits n) = Some (int n)"
proof -
  have all: "list_all is_digit (digits n)" by (rule digits_all)
  obtain d ds where d: "digits n = d # ds" by (meson list.exhaust digits_nonempty)
  with all have "is_digit d" by simp
  then have "\<not> is_space d" "d \<noteq> CHR ''-''" "d \<noteq> CHR ''+''" by (auto simp: is_digit_def is_space_def Let_def)
  moreover have "takeWhile is_digit (d # ds) = d # ds" using all unfolding d by (auto simp: list_all_iff takeWhile_eq_all_conv)
  ultimately show ?thesis using decimal_digits [of n] by (simp add: parseInt10_def d Let_def)
qed

text \<open>The keyed hash gives the hexadecimal form of 32 bytes.\<close>

definition sha256_hex :: "platform \<Rightarrow> bool" where
  "sha256_hex F \<longleftrightarrow> (\<forall>secret msg. length (hex_bytes (pf_hmac F secret msg)) = 32)"

lemma verify_own_signature:
  assumes "sha256_hex F" "object_key F k = Inr k" "k \<noteq> []" "0 \<le> now" "now div 1000 < e"
  shows "verifySignedUrl F cfg now k (digits (nat e))
    (pf_hmac F (signingSecret cfg) (signed_payload (bucketName cfg) m k ct e)) m ct"
proof -
  let ?p = "signed_payload (bucketName cfg) m k ct e"
  have h: "length (hex_bytes (pf_hmac F (signingSecret cfg) ?p)) = 32" using assms(1) by (simp add: sha256_hex_def)
  then have "pf_hmac F (signingSecret cfg) ?p \<noteq> []" "hex_bytes (pf_hmac F (signingSecret cfg) ?p) \<noteq> []" by auto
  moreover have "int (nat e) = e" using assms(4,5) by (smt (verit) pos_imp_zdiv_nonneg_iff int_nat_eq)
  ultimately show ?thesis using assms h by (simp add: verifySignedUrl_def parseInt_digits Let_def)
qed

lemma media_type_allowed: "ct \<in> set allowedMimeTypes \<Longrightarrow> media_type ct = ct \<and> ct \<noteq> []"
proof -
  have "list_all (\<lambda>t. media_type t = t \<and> t \<noteq> []) allowedMimeTypes" by code_simp
  then show "ct \<in> set allowedMimeTypes \<Longrightarrow> media_type ct = ct \<and> ct \<noteq> []" by (simp add: list_all_iff)
qed

text \<open>
  C23. A client that was given an upload URL and uses it in time with a body of the announced type gets status 200,
  and whoever is given a download URL for the same document and uses it in time receives exactly these bytes with
  that type. The keyed hash is only assumed to give the hexadecimal form of 32 bytes.
\<close>

theorem signed_upload_download:
  assumes F: "sha256_hex F" and root: "rs \<noteq> []" "list_all plain_seg rs"
    and up: "getSignedUploadUrl F cfg t0 key ct ttl = Inr u" "su_objectKey u \<noteq> []" "ct \<in> set allowedMimeTypes"
    and in_time: "0 \<le> t1" "t1 div 1000 < su_exp u"
    and body: "length body \<le> maxSizeBytes cfg" "validateDocumentMagicBytes body ct"
    and down: "getSignedDownloadUrl F cfg t2 key ttl2 = Inr v" "0 \<le> t3" "t3 div 1000 < su_exp v"
  shows "\<exists>fs'. uploadObject (local_putObject (root_path rs)) F cfg t1
      \<lparr>ur_key = su_objectKey u, ur_exp = digits (nat (su_exp u)), ur_sig = su_signature u,
       ur_contentType = Some ct, ur_body = body\<rparr> fs = ((200, ''OK''), fs') \<and>
    downloadObject (local_objectExists (root_path rs)) (local_getObject (root_path rs)) F cfg t3
      \<lparr>wr_key = su_objectKey v, wr_exp = digits (nat (su_exp v)), wr_sig = su_signature v\<rparr> fs' = Inr (body, ct)"
proof -
  note ct = media_type_allowed [OF up(3)]
  from up(1) obtain k where k: "object_key F key = Inr k" "su_objectKey u = k"
    by (auto simp: getSignedUploadUrl_def Let_def split: sum.splits)
  with up(2) have ne: "k \<noteq> []" by simp
  from keys_confined_lemma [OF k(1) ne root] obtain p where
    kk: "object_key F k = Inr k" and p: "resolveSafePath (root_path rs) k = Inr p" by blast
  define fs' where "fs' = fs(p \<mapsto> Data body, getMetadataPath p \<mapsto> Meta ct)"
  have put: "local_putObject (root_path rs) k body ct fs = Inr fs'"
    using ct by (simp add: local_putObject_def p fs'_def)
  have su: "su_signature u = pf_hmac F (signingSecret cfg) (signed_payload (bucketName cfg) PUT k (Some ct) (su_exp u))"
    using up(1) k(1) ct by (auto simp: getSignedUploadUrl_def signed_payload_def Let_def split: sum.splits)
  note vu = verify_own_signature [OF F kk ne in_time, of cfg PUT "Some ct", folded su]
  have sv: "su_signature v = pf_hmac F (signingSecret cfg) (signed_payload (bucketName cfg) GET k None (su_exp v))"
    and kv: "su_objectKey v = k"
    using down(1) k(1) by (auto simp: getSignedDownloadUrl_def Let_def split: sum.splits)
  note vd = verify_own_signature [OF F kk ne down(2,3), of cfg GET None, folded sv]
  have "su_signature u \<noteq> []" using vu by (auto simp: verifySignedUrl_def)
  moreover have "body \<noteq> []" using body(2) by (auto simp: validateDocumentMagicBytes_def)
  ultimately have "uploadObject (local_putObject (root_path rs)) F cfg t1
      \<lparr>ur_key = su_objectKey u, ur_exp = digits (nat (su_exp u)), ur_sig = su_signature u,
       ur_contentType = Some ct, ur_body = body\<rparr> fs = ((200, ''OK''), fs')"
    using vu body put ne kk ct up(3) by (simp add: uploadObject_def k(2) Let_def)
  moreover have "downloadObject (local_objectExists (root_path rs)) (local_getObject (root_path rs)) F cfg t3
      \<lparr>wr_key = su_objectKey v, wr_exp = digits (nat (su_exp v)), wr_sig = su_signature v\<rparr> fs' = Inr (body, ct)"
    using local_store.stored_is_served [OF put conjunct2 [OF ct] ne kk] kk vd ne by (simp add: kv)
  ultimately show ?thesis by blast
qed

definition sample_storage :: StorageConfig where
  "sample_storage = \<lparr>bucketName = ''docs'', signedUrlTtlSeconds = 300, signingSecret = ''k'', maxSizeBytes = 10\<rparr>"

lemma sample_sha256: "sha256_hex sample_platform"
proof -
  have "length (hex_bytes (replicate 64 (CHR ''a''))) = 32" by code_simp
  then show ?thesis by (simp add: sha256_hex_def sample_platform_def)
qed

theorem signed_upload_download_witness:
  "\<exists>fs'. uploadObject (local_putObject (root_path [''srv''])) sample_platform sample_storage 5000
      \<lparr>ur_key = ''w/d.pdf'', ur_exp = digits (nat 300), ur_sig = replicate 64 (CHR ''a''),
       ur_contentType = Some ''application/pdf'', ur_body = [37, 80, 68, 70, 45]\<rparr> (\<lambda>p. None) = ((200, ''OK''), fs') \<and>
    downloadObject (local_objectExists (root_path [''srv''])) (local_getObject (root_path [''srv''])) sample_platform sample_storage 7000
      \<lparr>wr_key = ''w/d.pdf'', wr_exp = digits (nat 300), wr_sig = replicate 64 (CHR ''a'')\<rparr> fs'
      = Inr ([37, 80, 68, 70, 45], ''application/pdf'')"
proof -
  let ?u = "\<lparr>su_objectKey = ''w/d.pdf'', su_exp = 300, su_signature = replicate 64 (CHR ''a''), su_expiresIn = 300\<rparr>"
  have k: "object_key sample_platform ''w/d.pdf'' = Inr ''w/d.pdf''" by code_simp
  have u: "getSignedUploadUrl sample_platform sample_storage 0 ''w/d.pdf'' ''application/pdf'' None = Inr ?u"
    using k by (simp add: getSignedUploadUrl_def sample_platform_def sample_storage_def url_ttl_def Let_def)
  have v: "getSignedDownloadUrl sample_platform sample_storage 0 ''w/d.pdf'' None = Inr ?u"
    using k by (simp add: getSignedDownloadUrl_def sample_platform_def sample_storage_def url_ttl_def Let_def)
  have r: "list_all plain_seg [''srv'']" by code_simp
  have m: "validateDocumentMagicBytes [37, 80, 68, 70, 45] ''application/pdf''" by code_simp
  show ?thesis
    using signed_upload_download [OF sample_sha256 _ r u _ _ _ _ _ m v, of 5000 7000 "\<lambda>p. None"]
    by (simp add: allowedMimeTypes_def sample_storage_def)
qed

end
