(* ===== verification/Devices.thy ===== *)
theory Devices
  imports Schema
begin

text \<open>
  Push devices: \<^verbatim>\<open>src/features/worker_device/worker_device.service.ts\<close> and
  \<^verbatim>\<open>src/features/customer_device/customer_device.service.ts\<close>, two services with the same operations on two
  tables. The operations are written once over a table of devices; the services apply them to their table of
  the database. The laws are proved once, in a locale over the table's place in the database, and interpreted
  for both services. Row ids and creation times are left out.
\<close>

record RegisterDeviceReq =
  rd_device_token :: string
  rd_device_id :: "string option"
  rd_platform :: "string option"

definition device_id_of :: "uuid \<Rightarrow> RegisterDeviceReq \<Rightarrow> string" where
  "device_id_of owner payload =
     (let raw = (case rd_device_id payload of None \<Rightarrow> [] | Some s \<Rightarrow> trim s)
      in if raw = [] then ''legacy_'' @ owner @ ''_default'' else raw)"

definition is_device :: "uuid \<Rightarrow> string \<Rightarrow> device \<Rightarrow> bool" where
  "is_device owner i v \<longleftrightarrow> dv_owner_id v = owner \<and> dv_device_id v = i"

definition active :: "device \<Rightarrow> bool" where
  "active v \<longleftrightarrow> dv_revoked_at v = None"

definition device_row :: "timestamp \<Rightarrow> uuid \<Rightarrow> RegisterDeviceReq \<Rightarrow> device" where
  "device_row now owner payload =
     \<lparr>dv_owner_id = owner, dv_device_id = device_id_of owner payload, dv_fcm_token = rd_device_token payload,
      dv_platform = js_or (rd_platform payload) ''android'', dv_last_seen_at = now, dv_revoked_at = None\<rparr>"

text \<open>The upsert on the unique key of owner and device.\<close>

definition upsert_device :: "timestamp \<Rightarrow> uuid \<Rightarrow> RegisterDeviceReq \<Rightarrow> device list \<Rightarrow> device list" where
  "upsert_device now owner payload t =
     (if list_ex (is_device owner (device_id_of owner payload)) t
      then updateMany (is_device owner (device_id_of owner payload)) (\<lambda>v. device_row now owner payload) t
      else t @ [device_row now owner payload])"

definition revoke_devices :: "timestamp \<Rightarrow> (device \<Rightarrow> bool) \<Rightarrow> device list \<Rightarrow> device list" where
  "revoke_devices now P t = updateMany (\<lambda>v. P v \<and> active v) (\<lambda>v. v\<lparr>dv_revoked_at := Some now\<rparr>) t"

definition active_devices :: "uuid \<Rightarrow> device list \<Rightarrow> device list" where
  "active_devices owner t = filter (\<lambda>v. dv_owner_id v = owner \<and> active v) t"

text \<open>The map built by the loop, in order of first insertion.\<close>

fun add_to_group :: "device \<Rightarrow> (uuid \<times> device list) list \<Rightarrow> (uuid \<times> device list) list" where
  "add_to_group v [] = [(dv_owner_id v, [v])]"
| "add_to_group v ((k, vs) # g) = (if k = dv_owner_id v then (k, vs @ [v]) # g else (k, vs) # add_to_group v g)"

definition active_devices_for :: "uuid list \<Rightarrow> device list \<Rightarrow> (uuid \<times> device list) list" where
  "active_devices_for owners t =
     (if owners = [] then []
      else fold add_to_group (filter (\<lambda>v. dv_owner_id v \<in> set owners \<and> active v) t) [])"

record DeviceDTO =
  dd_owner_id :: uuid
  dd_device_id :: string
  dd_platform :: string
  dd_last_seen_at :: timestamp
  dd_is_active :: bool

definition toDeviceDTO :: "device \<Rightarrow> DeviceDTO" where
  "toDeviceDTO v = \<lparr>dd_owner_id = dv_owner_id v, dd_device_id = dv_device_id v, dd_platform = dv_platform v,
     dd_last_seen_at = dv_last_seen_at v, dd_is_active = (dv_revoked_at v = None)\<rparr>"

definition device_list :: "uuid \<Rightarrow> device list \<Rightarrow> DeviceDTO list" where
  "device_list owner t = map toDeviceDTO (sort_key (\<lambda>v. - dv_last_seen_at v) (filter (\<lambda>v. dv_owner_id v = owner) t))"

section \<open>The services\<close>

definition worker_registerDevice :: "timestamp \<Rightarrow> uuid \<Rightarrow> RegisterDeviceReq \<Rightarrow> db \<Rightarrow> DeviceDTO \<times> db" where
  "worker_registerDevice now w payload d =
     (toDeviceDTO (device_row now w payload), d\<lparr>worker_devices := upsert_device now w payload (worker_devices d)\<rparr>)"

definition worker_getActiveDevices :: "uuid \<Rightarrow> db \<Rightarrow> device list" where
  "worker_getActiveDevices w d = active_devices w (worker_devices d)"

definition getActiveDevicesForWorkers :: "uuid list \<Rightarrow> db \<Rightarrow> (uuid \<times> device list) list" where
  "getActiveDevicesForWorkers ws d = active_devices_for ws (worker_devices d)"

definition worker_revokeDevice :: "timestamp \<Rightarrow> uuid \<Rightarrow> string \<Rightarrow> db \<Rightarrow> nat \<times> db" where
  "worker_revokeDevice now w i d =
     (countWhere (\<lambda>v. is_device w i v \<and> active v) (worker_devices d),
      d\<lparr>worker_devices := revoke_devices now (is_device w i) (worker_devices d)\<rparr>)"

definition worker_revokeByToken :: "timestamp \<Rightarrow> string \<Rightarrow> db \<Rightarrow> nat \<times> db" where
  "worker_revokeByToken now tok d =
     (if tok = [] then (0, d)
      else (countWhere (\<lambda>v. dv_fcm_token v = tok \<and> active v) (worker_devices d),
            d\<lparr>worker_devices := revoke_devices now (\<lambda>v. dv_fcm_token v = tok) (worker_devices d)\<rparr>))"

definition worker_listDevices :: "uuid \<Rightarrow> db \<Rightarrow> DeviceDTO list" where
  "worker_listDevices w d = device_list w (worker_devices d)"

definition customer_registerDevice :: "timestamp \<Rightarrow> uuid \<Rightarrow> RegisterDeviceReq \<Rightarrow> db \<Rightarrow> DeviceDTO \<times> db" where
  "customer_registerDevice now c payload d =
     (toDeviceDTO (device_row now c payload), d\<lparr>customer_devices := upsert_device now c payload (customer_devices d)\<rparr>)"

definition customer_getActiveDevices :: "uuid \<Rightarrow> db \<Rightarrow> device list" where
  "customer_getActiveDevices c d = active_devices c (customer_devices d)"

definition getActiveDevicesForCustomers :: "uuid list \<Rightarrow> db \<Rightarrow> (uuid \<times> device list) list" where
  "getActiveDevicesForCustomers cs d = active_devices_for cs (customer_devices d)"

definition customer_revokeDevice :: "timestamp \<Rightarrow> uuid \<Rightarrow> string \<Rightarrow> db \<Rightarrow> nat \<times> db" where
  "customer_revokeDevice now c i d =
     (countWhere (\<lambda>v. is_device c i v \<and> active v) (customer_devices d),
      d\<lparr>customer_devices := revoke_devices now (is_device c i) (customer_devices d)\<rparr>)"

definition customer_revokeByToken :: "timestamp \<Rightarrow> string \<Rightarrow> db \<Rightarrow> nat \<times> db" where
  "customer_revokeByToken now tok d =
     (if tok = [] then (0, d)
      else (countWhere (\<lambda>v. dv_fcm_token v = tok \<and> active v) (customer_devices d),
            d\<lparr>customer_devices := revoke_devices now (\<lambda>v. dv_fcm_token v = tok) (customer_devices d)\<rparr>))"

definition customer_listDevices :: "uuid \<Rightarrow> db \<Rightarrow> DeviceDTO list" where
  "customer_listDevices c d = device_list c (customer_devices d)"

section \<open>Laws of the table\<close>

definition device_key :: "device \<Rightarrow> uuid \<times> string" where
  "device_key v = (dv_owner_id v, dv_device_id v)"

lemma is_device_key: "is_device u i v \<longleftrightarrow> device_key v = (u, i)"
  by (simp add: is_device_def device_key_def)

lemma device_row_key [simp]: "device_key (device_row now u p) = (u, device_id_of u p)"
  by (simp add: device_row_def device_key_def)

lemma upsert_keys:
  "map device_key (upsert_device now u p t) =
   (if (u, device_id_of u p) \<in> set (map device_key t) then map device_key t
    else map device_key t @ [(u, device_id_of u p)])"
proof (cases "list_ex (is_device u (device_id_of u p)) t")
  case True
  have "map device_key (updateMany (is_device u (device_id_of u p)) (\<lambda>v. device_row now u p) t) = map device_key t" for t
    by (induction t) (auto simp: updateMany_def is_device_key)
  moreover from True have "(u, device_id_of u p) \<in> set (map device_key t)" unfolding is_device_key by (simp add: list_ex_key)
  ultimately show ?thesis using True by (simp add: upsert_device_def)
next
  case False
  then have "(u, device_id_of u p) \<notin> set (map device_key t)" by (auto simp: list_ex_iff is_device_key)
  with False show ?thesis by (simp add: upsert_device_def)
qed

lemma revoke_keys [simp]: "map device_key (revoke_devices now P t) = map device_key t"
  by (induction t) (auto simp: revoke_devices_def updateMany_def device_key_def)

lemma upsert_distinct: "distinct (map device_key t) \<Longrightarrow> distinct (map device_key (upsert_device now u p t))"
  unfolding upsert_keys by simp

lemma filter_key_single:
  "distinct (map key t) \<Longrightarrow> v \<in> set t \<Longrightarrow> filter (\<lambda>x. key x = key v) t = [v]"
proof (induction t)
  case (Cons a t)
  then show ?case
  proof (cases "a = v")
    case True
    with Cons.prems show ?thesis by (simp add: filter_empty_conv) (metis imageI)
  next
    case False
    with Cons show ?thesis by auto
  qed
qed simp

lemma active_after_upsert:
  assumes "distinct (map device_key t)"
  shows "filter (is_device u (device_id_of u p)) (filter active (upsert_device now u p t)) = [device_row now u p]"
proof -
  let ?r = "device_row now u p" and ?t = "upsert_device now u p t"
  have r: "active ?r" by (simp add: active_def device_row_def)
  have "?r \<in> set ?t" by (auto simp: upsert_device_def list_ex_iff set_updateMany)
  from filter_key_single [where key = device_key, OF upsert_distinct [OF assms] this]
  have "filter (is_device u (device_id_of u p)) ?t = [?r]" unfolding is_device_key device_row_key .
  then have "filter active (filter (is_device u (device_id_of u p)) ?t) = [?r]" using r by simp
  then show ?thesis by (simp add: conj_commute)
qed

lemma other_after_upsert:
  assumes "(u', i) \<noteq> (u, device_id_of u p)"
  shows "filter (is_device u' i) (upsert_device now u p t) = filter (is_device u' i) t"
proof -
  have "filter (is_device u' i) (updateMany (is_device u (device_id_of u p)) (\<lambda>v. device_row now u p) t) = filter (is_device u' i) t"
    using assms by (induction t) (auto simp: updateMany_def is_device_def device_row_def)
  with assms show ?thesis by (auto simp: upsert_device_def is_device_def device_row_def)
qed

lemma revoked_inactive: "filter active (filter P (revoke_devices now P t)) = []"
  if "\<And>v. P (v\<lparr>dv_revoked_at := Some now\<rparr>) = P v" for P
  using that by (auto simp: filter_empty_conv revoke_devices_def set_updateMany active_def)

lemma map_of_add_to_group:
  "map_of (add_to_group v g) k =
   (if k = dv_owner_id v then Some ((case map_of g k of None \<Rightarrow> [] | Some vs \<Rightarrow> vs) @ [v]) else map_of g k)"
  by (induction g) auto

lemma map_of_groups:
  "map_of (fold add_to_group t g) k =
   (let mine = filter (\<lambda>v. dv_owner_id v = k) t
    in if mine = [] then map_of g k else Some ((case map_of g k of None \<Rightarrow> [] | Some vs \<Rightarrow> vs) @ mine))"
  by (induction t arbitrary: g) (auto simp: map_of_add_to_group Let_def split: option.splits)

text \<open>The batch query gives every owner what the single query gives.\<close>

lemma batch_is_single:
  assumes "k \<in> set owners"
  shows "map_of (active_devices_for owners t) k = (if active_devices k t = [] then None else Some (active_devices k t))"
proof -
  have "filter (\<lambda>v. dv_owner_id v = k) (filter (\<lambda>v. dv_owner_id v \<in> set owners \<and> active v) t) = active_devices k t"
    unfolding active_devices_def filter_filter using assms by (intro filter_cong) auto
  moreover from assms have "owners \<noteq> []" by auto
  ultimately show ?thesis by (simp add: active_devices_for_def map_of_groups Let_def)
qed

section \<open>Schedules of both services\<close>

datatype device_event =
    Register timestamp uuid RegisterDeviceReq
  | Revoke timestamp uuid string
  | RevokeToken timestamp string

datatype device_call = WorkerCall device_event | CustomerCall device_event

fun device_exec :: "device_call \<Rightarrow> db \<Rightarrow> db" where
  "device_exec (WorkerCall (Register now w p)) d = snd (worker_registerDevice now w p d)"
| "device_exec (WorkerCall (Revoke now w i)) d = snd (worker_revokeDevice now w i d)"
| "device_exec (WorkerCall (RevokeToken now tok)) d = snd (worker_revokeByToken now tok d)"
| "device_exec (CustomerCall (Register now c p)) d = snd (customer_registerDevice now c p d)"
| "device_exec (CustomerCall (Revoke now c i)) d = snd (customer_revokeDevice now c i d)"
| "device_exec (CustomerCall (RevokeToken now tok)) d = snd (customer_revokeByToken now tok d)"

definition device_keys_ok :: "db \<Rightarrow> bool" where
  "device_keys_ok d \<longleftrightarrow> distinct (map device_key (worker_devices d)) \<and> distinct (map device_key (customer_devices d))"

lemmas device_service_defs = worker_registerDevice_def worker_revokeDevice_def worker_revokeByToken_def
  customer_registerDevice_def customer_revokeDevice_def customer_revokeByToken_def

interpretation device_system: invariant_system device_exec device_keys_ok
proof
  fix s l
  assume "device_keys_ok s"
  then show "device_keys_ok (device_exec l s)"
    by (cases "(l, s)" rule: device_exec.cases) (simp_all add: device_service_defs device_keys_ok_def upsert_distinct)
qed

text \<open>What a service promises for the table it owns, given by its place in the database.\<close>

locale device_service =
  fixes table :: "db \<Rightarrow> device list"
    and register :: "timestamp \<Rightarrow> uuid \<Rightarrow> RegisterDeviceReq \<Rightarrow> db \<Rightarrow> DeviceDTO \<times> db"
    and revoke :: "timestamp \<Rightarrow> uuid \<Rightarrow> string \<Rightarrow> db \<Rightarrow> nat \<times> db"
  assumes keys: "device_keys_ok d \<Longrightarrow> distinct (map device_key (table d))"
    and register_table: "table (snd (register now u p d)) = upsert_device now u p (table d)"
    and revoke_table: "table (snd (revoke now u i d)) = revoke_devices now (is_device u i) (table d)"
begin

lemma registered_once:
  assumes "device_keys_ok d"
  shows "filter (is_device u (device_id_of u p)) (filter active (table (snd (register now u p d)))) = [device_row now u p]"
  unfolding register_table using active_after_upsert [OF keys [OF assms]] .

lemma others_kept:
  assumes "(u', i) \<noteq> (u, device_id_of u p)"
  shows "filter (is_device u' i) (table (snd (register now u p d))) = filter (is_device u' i) (table d)"
  unfolding register_table using other_after_upsert [OF assms] .

lemma revoked_silent: "filter active (filter (is_device u i) (table (snd (revoke now u i d)))) = []"
  unfolding revoke_table by (rule revoked_inactive) (simp add: is_device_def)

end

interpretation worker_device: device_service worker_devices worker_registerDevice worker_revokeDevice
  by unfold_locales (simp_all add: device_keys_ok_def device_service_defs)

interpretation customer_device: device_service customer_devices customer_registerDevice customer_revokeDevice
  by unfold_locales (simp_all add: device_keys_ok_def device_service_defs)

text \<open>
  After any history of registrations and revocations of workers and customers, registering a device leaves
  exactly one active row for that owner and device, with the token just sent (a rotated token never makes a second
  device), and leaves every other device of the table alone; revoking it leaves none. The same holds for both
  services, and the batch lookup used for a broadcast finds for each worker exactly the devices the single
  lookup finds.
\<close>

theorem device_identity_stable:
  assumes "d = fold device_exec calls empty_db"
  shows "filter (is_device u (device_id_of u p)) (worker_getActiveDevices u (snd (worker_registerDevice now u p d))) = [device_row now u p]
    \<and> filter (is_device u (device_id_of u p)) (customer_getActiveDevices u (snd (customer_registerDevice now u p d))) = [device_row now u p]
    \<and> filter (is_device u i) (worker_getActiveDevices u (snd (worker_revokeDevice now u i d))) = []
    \<and> filter (is_device u i) (customer_getActiveDevices u (snd (customer_revokeDevice now u i d))) = []
    \<and> ((u', i) \<noteq> (u, device_id_of u p) \<longrightarrow>
        filter (is_device u' i) (worker_devices (snd (worker_registerDevice now u p d))) = filter (is_device u' i) (worker_devices d))
    \<and> (u \<in> set us \<longrightarrow> map_of (getActiveDevicesForWorkers us d) u =
        (if worker_getActiveDevices u d = [] then None else Some (worker_getActiveDevices u d)))"
proof -
  have ok: "device_keys_ok d" unfolding assms by (rule device_system.fold_inv) (simp add: device_keys_ok_def empty_db_def)
  have f: "filter (is_device u j) (filter (\<lambda>v. dv_owner_id v = u \<and> active v) t) = filter active (filter (is_device u j) t)" for j t
    unfolding filter_filter by (intro filter_cong) (auto simp: is_device_def)
  have g: "filter active (filter Q t) = filter Q (filter active t)" for Q t by (simp add: conj_commute)
  show ?thesis
    unfolding worker_getActiveDevices_def customer_getActiveDevices_def getActiveDevicesForWorkers_def
    using worker_device.registered_once [OF ok] customer_device.registered_once [OF ok]
      worker_device.revoked_silent customer_device.revoked_silent worker_device.others_kept batch_is_single
    by (simp add: active_devices_def f g del: filter_filter)
qed

definition sample_device_req :: RegisterDeviceReq where
  "sample_device_req = \<lparr>rd_device_token = ''t2'', rd_device_id = Some '' d1 '', rd_platform = None\<rparr>"

definition sample_device_calls :: "device_call list" where
  "sample_device_calls = [WorkerCall (Register 1 ''w1'' (sample_device_req\<lparr>rd_device_token := ''t1''\<rparr>)), WorkerCall (Register 2 ''w2'' sample_device_req)]"

theorem device_identity_stable_witness:
  "filter (is_device ''w1'' (device_id_of ''w1'' sample_device_req)) (worker_getActiveDevices ''w1''
     (snd (worker_registerDevice 3 ''w1'' sample_device_req (fold device_exec sample_device_calls empty_db))))
   = [device_row 3 ''w1'' sample_device_req]
   \<and> filter (is_device ''w2'' ''d1'') (worker_devices (snd (worker_registerDevice 3 ''w1'' sample_device_req (fold device_exec sample_device_calls empty_db))))
   = filter (is_device ''w2'' ''d1'') (worker_devices (fold device_exec sample_device_calls empty_db))
   \<and> length (worker_devices (fold device_exec sample_device_calls empty_db)) = 2"
proof -
  have n: "(''w2'', ''d1'') \<noteq> (''w1'', device_id_of ''w1'' sample_device_req)" by simp
  have l: "length (worker_devices (fold device_exec sample_device_calls empty_db)) = 2" by code_simp
  from device_identity_stable [OF refl, of "''w1''" sample_device_req 3 sample_device_calls "''d1''" "''w2''"] n l
  show ?thesis by blast
qed

text \<open>A token is not moved from its previous owner: a phone that changes hands is still reached by the
  notifications of both.\<close>

lemma token_shared_by_owners:
  "let d = fold device_exec [WorkerCall (Register 1 ''w1'' sample_device_req), WorkerCall (Register 2 ''w2'' sample_device_req)] empty_db
   in map dv_fcm_token (worker_getActiveDevices ''w1'' d) = [''t2''] \<and> map dv_fcm_token (worker_getActiveDevices ''w2'' d) = [''t2'']"
  by code_simp

end
