(* ===== verification/Http_Guards.thy ===== *)
theory Http_Guards
  imports Otp_Auth
begin

text \<open>
  What a request passes before a handler runs: the rate limiters
  (\<^verbatim>\<open>src/middlewares/rateLimiter.ts\<close>, \<^verbatim>\<open>src/middlewares/otpRateLimiter.ts\<close>), authentication and roles
  (\<^verbatim>\<open>src/middlewares/authMiddleware.ts\<close>, \<^verbatim>\<open>src/socket/socketAuth.ts\<close> with the access tokens of
  \<^verbatim>\<open>src/utils/authUtils.ts\<close>) and what an exception becomes (\<^verbatim>\<open>src/middlewares/errorHandler.ts\<close>).

  Redis is a map from keys to counters with an expiry; the Lua script runs atomically on it, and a failing call
  is an argument (\<open>up\<close>). The hash of identifiers and the verification of a JWT are arguments. Response bodies
  are reduced to the status and its code.
\<close>

section \<open>Counters in Redis\<close>

record redis_entry =
  re_count :: int
  re_expires_at :: "timestamp option"

type_synonym redis = "string \<Rightarrow> redis_entry option"

definition redis_get :: "timestamp \<Rightarrow> string \<Rightarrow> redis \<Rightarrow> redis_entry option" where
  "redis_get now key r =
     (case r key of None \<Rightarrow> None
      | Some e \<Rightarrow> (case re_expires_at e of None \<Rightarrow> Some e | Some t \<Rightarrow> if now < t then Some e else None))"

definition redis_incr :: "timestamp \<Rightarrow> string \<Rightarrow> redis \<Rightarrow> redis_entry" where
  "redis_incr now key r =
     (case redis_get now key r of None \<Rightarrow> \<lparr>re_count = 1, re_expires_at = None\<rparr>
      | Some e \<Rightarrow> e\<lparr>re_count := re_count e + 1\<rparr>)"

text \<open>\<^verbatim>\<open>TTL\<close> in seconds, rounded to the nearest; -1 without an expiry.\<close>

definition redis_ttl :: "timestamp \<Rightarrow> redis_entry \<Rightarrow> int" where
  "redis_ttl now e = (case re_expires_at e of None \<Rightarrow> -1 | Some t \<Rightarrow> (t - now + 500) div 1000)"

definition redis_expire :: "timestamp \<Rightarrow> int \<Rightarrow> redis_entry \<Rightarrow> redis_entry" where
  "redis_expire now seconds e = e\<lparr>re_expires_at := Some (now + seconds * 1000)\<rparr>"

text \<open>The script: the new count and the remaining seconds. Windows are positive.\<close>

definition RATE_LIMIT_LUA_SCRIPT :: "timestamp \<Rightarrow> string \<Rightarrow> int \<Rightarrow> redis \<Rightarrow> (int \<times> int) \<times> redis" where
  "RATE_LIMIT_LUA_SCRIPT now key windowSeconds r =
     (let e = redis_incr now key r;
          e1 = (if re_count e = 1 then redis_expire now windowSeconds e else e)
      in if redis_ttl now e1 = -1
         then ((re_count e1, windowSeconds), r(key \<mapsto> redis_expire now windowSeconds e1))
         else ((re_count e1, redis_ttl now e1), r(key \<mapsto> e1)))"

datatype RateLimitFailPolicy = fail_closed | fail_open

datatype rate_status = StatusOk | Exceeded | Unavailable

record RateLimitResult =
  rr_allowed :: bool
  rr_remaining :: int
  rr_resetAfterSeconds :: int
  rr_status :: rate_status

definition incrementRateLimit ::
  "bool \<Rightarrow> timestamp \<Rightarrow> string \<Rightarrow> int \<Rightarrow> int \<Rightarrow> RateLimitFailPolicy \<Rightarrow> redis \<Rightarrow> RateLimitResult \<times> redis" where
  "incrementRateLimit up now key maxLimit windowSeconds failPolicy r =
     (if up then
        (case RATE_LIMIT_LUA_SCRIPT now key windowSeconds r of ((count, rawTtl), r') \<Rightarrow>
           let ttl = (if rawTtl > 0 then rawTtl else windowSeconds)
           in if count > maxLimit
              then (\<lparr>rr_allowed = False, rr_remaining = 0, rr_resetAfterSeconds = ttl, rr_status = Exceeded\<rparr>, r')
              else (\<lparr>rr_allowed = True, rr_remaining = max 0 (maxLimit - count), rr_resetAfterSeconds = ttl, rr_status = StatusOk\<rparr>, r'))
      else if failPolicy = fail_closed
      then (\<lparr>rr_allowed = False, rr_remaining = 0, rr_resetAfterSeconds = windowSeconds, rr_status = Unavailable\<rparr>, r)
      else (\<lparr>rr_allowed = True, rr_remaining = 1, rr_resetAfterSeconds = windowSeconds, rr_status = StatusOk\<rparr>, r))"

section \<open>Limiters of routes\<close>

text \<open>A request goes on, or is answered with a status, a code and the seconds after which to retry.\<close>

datatype guard_result = Pass | Reject int string int

text \<open>The checks of a request, each a key with its limit, in order; the first refusal answers.\<close>

fun run_checks ::
  "(string \<Rightarrow> bool) \<Rightarrow> timestamp \<Rightarrow> int \<Rightarrow> RateLimitFailPolicy \<Rightarrow> string \<Rightarrow> (string \<times> int) list \<Rightarrow> redis \<Rightarrow> guard_result \<times> redis" where
  "run_checks up now windowSeconds failPolicy code [] r = (Pass, r)"
| "run_checks up now windowSeconds failPolicy code ((key, maxLimit) # checks) r =
     (case incrementRateLimit (up key) now key maxLimit windowSeconds failPolicy r of (result, r') \<Rightarrow>
        if rr_allowed result then run_checks up now windowSeconds failPolicy code checks r'
        else if rr_status result = Unavailable
        then (Reject 503 ''SECURITY_LIMITER_UNAVAILABLE'' (rr_resetAfterSeconds result), r')
        else (Reject 429 code (rr_resetAfterSeconds result), r'))"

record http_request =
  hq_user_id :: "string option"
  hq_worker_id :: "string option"
  hq_ip :: "string option"
  hq_remoteAddress :: "string option"
  hq_phone :: "string option"
  hq_body_device_id :: "string option"
  hq_header_device_id :: "string option"

text \<open>No limiter of the application is configured with a key generator of its own.\<close>

datatype dimension = Ip | User_or_ip | Worker_or_ip

record RateLimitOptions =
  ro_windowSeconds :: int
  ro_maxLimit :: int
  ro_keyPrefix :: string
  ro_dimension :: dimension
  ro_failPolicy :: "RateLimitFailPolicy option"
  ro_isSecuritySensitive :: bool

definition request_ip :: "http_request \<Rightarrow> string" where
  "request_ip q = js_or (hq_ip q) (js_or (hq_remoteAddress q) ''unknown_ip'')"

definition limiter_key :: "(string \<Rightarrow> string) \<Rightarrow> RateLimitOptions \<Rightarrow> http_request \<Rightarrow> string" where
  "limiter_key hashIdentifier o' q =
     (let pre = ''ratelimit:'' @ ro_keyPrefix o'; ipKey = pre @ '':ip:'' @ hashIdentifier (request_ip q)
      in case ro_dimension o' of
           User_or_ip \<Rightarrow> (let i = js_or (hq_user_id q) (js_or (hq_worker_id q) [])
                          in if i = [] then ipKey else pre @ '':user:'' @ hashIdentifier i)
         | Worker_or_ip \<Rightarrow> (let i = js_or (hq_worker_id q) (js_or (hq_user_id q) [])
                          in if i = [] then ipKey else pre @ '':worker:'' @ hashIdentifier i)
         | Ip \<Rightarrow> ipKey)"

definition fail_policy :: "RateLimitOptions \<Rightarrow> RateLimitFailPolicy" where
  "fail_policy o' = (case ro_failPolicy o' of Some p \<Rightarrow> p
     | None \<Rightarrow> if ro_isSecuritySensitive o' then fail_closed else fail_open)"

definition createRateLimiter ::
  "(string \<Rightarrow> string) \<Rightarrow> RateLimitOptions \<Rightarrow> (string \<Rightarrow> bool) \<Rightarrow> timestamp \<Rightarrow> http_request \<Rightarrow> redis \<Rightarrow> guard_result \<times> redis" where
  "createRateLimiter hashIdentifier o' up now q r =
     run_checks up now (ro_windowSeconds o') (fail_policy o') ''RATE_LIMITED''
       [(limiter_key hashIdentifier o' q, ro_maxLimit o')] r"

definition authEndpointRateLimiter :: RateLimitOptions where
  "authEndpointRateLimiter = \<lparr>ro_windowSeconds = 15 * 60, ro_maxLimit = 20, ro_keyPrefix = ''auth'', ro_dimension = Ip,
     ro_failPolicy = Some fail_closed, ro_isSecuritySensitive = True\<rparr>"

definition dispatchActionRateLimiter :: RateLimitOptions where
  "dispatchActionRateLimiter = \<lparr>ro_windowSeconds = 60, ro_maxLimit = 30, ro_keyPrefix = ''dispatch_action'',
     ro_dimension = Worker_or_ip, ro_failPolicy = Some fail_open, ro_isSecuritySensitive = False\<rparr>"

definition chatMessageRateLimiter :: RateLimitOptions where
  "chatMessageRateLimiter = \<lparr>ro_windowSeconds = 60, ro_maxLimit = 60, ro_keyPrefix = ''chat_msg'',
     ro_dimension = User_or_ip, ro_failPolicy = Some fail_open, ro_isSecuritySensitive = False\<rparr>"

definition workerLocationRateLimiter :: RateLimitOptions where
  "workerLocationRateLimiter = \<lparr>ro_windowSeconds = 60, ro_maxLimit = 120, ro_keyPrefix = ''worker_location'',
     ro_dimension = Worker_or_ip, ro_failPolicy = Some fail_open, ro_isSecuritySensitive = False\<rparr>"

definition paymentOrderRateLimiter :: RateLimitOptions where
  "paymentOrderRateLimiter = \<lparr>ro_windowSeconds = 15 * 60, ro_maxLimit = 10, ro_keyPrefix = ''payment_order'',
     ro_dimension = User_or_ip, ro_failPolicy = Some fail_closed, ro_isSecuritySensitive = True\<rparr>"

definition paymentRefundRateLimiter :: RateLimitOptions where
  "paymentRefundRateLimiter = \<lparr>ro_windowSeconds = 15 * 60, ro_maxLimit = 5, ro_keyPrefix = ''payment_refund'',
     ro_dimension = User_or_ip, ro_failPolicy = Some fail_closed, ro_isSecuritySensitive = True\<rparr>"

section \<open>Limiters of one-time passwords\<close>

definition safeNormalizePhone :: "(string \<Rightarrow> string option) \<Rightarrow> string option \<Rightarrow> string option" where
  "safeNormalizePhone parsePhone rawPhone =
     (if \<not> truthy rawPhone then None
      else case normalizePhoneToE164 parsePhone (the rawPhone) of Inl _ \<Rightarrow> None | Inr p \<Rightarrow> Some p)"

definition extractDeviceId :: "http_request \<Rightarrow> string option" where
  "extractDeviceId q =
     (let usable = (\<lambda>v. case v of Some s \<Rightarrow> if trim s \<noteq> [] then Some (trim s) else None | None \<Rightarrow> None)
      in case usable (hq_body_device_id q) of Some i \<Rightarrow> Some i | None \<Rightarrow> usable (hq_header_device_id q))"

record otp_limits =
  ol_perIp :: int
  ol_perPhone :: int
  ol_perDevice :: int

text \<open>What the limiter is given: the hash of identifiers, the phone parser and the configured window.\<close>

record limiter_env =
  le_hash :: "string \<Rightarrow> string"
  le_parsePhone :: "string \<Rightarrow> string option"
  le_windowSeconds :: int

definition otp_phone :: "limiter_env \<Rightarrow> http_request \<Rightarrow> string option" where
  "otp_phone E q = (case safeNormalizePhone (le_parsePhone E) (hq_phone q) of
     Some p \<Rightarrow> if p = [] then None else Some p | None \<Rightarrow> None)"

definition otp_checks :: "string \<Rightarrow> limiter_env \<Rightarrow> otp_limits \<Rightarrow> http_request \<Rightarrow> (string \<times> int) list" where
  "otp_checks kind E l q =
     (let pre = ''ratelimit:otp:'' @ kind
      in (pre @ '':ip:'' @ le_hash E (request_ip q), ol_perIp l)
         # (case otp_phone E q of Some p \<Rightarrow> [(pre @ '':phone:'' @ le_hash E p, ol_perPhone l)] | None \<Rightarrow> [])
         @ (case extractDeviceId q of Some i \<Rightarrow> [(pre @ '':device:'' @ le_hash E i, ol_perDevice l)] | None \<Rightarrow> []))"

text \<open>A refusal for the device tells the client to retry after the whole window when it asks for a code.\<close>

definition otpRequestRateLimiter ::
  "limiter_env \<Rightarrow> otp_limits \<Rightarrow> (string \<Rightarrow> bool) \<Rightarrow> timestamp \<Rightarrow> http_request \<Rightarrow> redis \<Rightarrow> guard_result \<times> redis" where
  "otpRequestRateLimiter E l up now q r =
     (let byDevice = (case extractDeviceId q of None \<Rightarrow> [] | Some i \<Rightarrow> [last (otp_checks ''req'' E l q)]);
          others = take (length (otp_checks ''req'' E l q) - length byDevice) (otp_checks ''req'' E l q)
      in case run_checks up now (le_windowSeconds E) fail_closed ''OTP_RATE_LIMITED'' others r of
           (Reject s c t, r') \<Rightarrow> (Reject s c t, r')
         | (Pass, r') \<Rightarrow> (case run_checks up now (le_windowSeconds E) fail_closed ''OTP_RATE_LIMITED'' byDevice r' of
             (Reject s c t, r2) \<Rightarrow> (Reject s c (if s = 429 then le_windowSeconds E else t), r2)
           | (Pass, r2) \<Rightarrow> (Pass, r2)))"

definition otpVerifyRateLimiter ::
  "limiter_env \<Rightarrow> otp_limits \<Rightarrow> (string \<Rightarrow> bool) \<Rightarrow> timestamp \<Rightarrow> http_request \<Rightarrow> redis \<Rightarrow> guard_result \<times> redis" where
  "otpVerifyRateLimiter E l up now q r =
     run_checks up now (le_windowSeconds E) fail_closed ''OTP_RATE_LIMITED'' (otp_checks ''verify'' E l q) r"

section \<open>Lemmas on counters\<close>

lemma script_live:
  assumes "r key = Some \<lparr>re_count = c, re_expires_at = Some e\<rparr>" "1 \<le> c" "now < e"
  shows "\<exists>ttl. RATE_LIMIT_LUA_SCRIPT now key w r = ((c + 1, ttl), r(key \<mapsto> \<lparr>re_count = c + 1, re_expires_at = Some e\<rparr>))"
proof -
  have "(e - now + 500) div 1000 \<noteq> -1" using assms(3) by (smt (verit) pos_imp_zdiv_nonneg_iff)
  with assms show ?thesis by (simp add: RATE_LIMIT_LUA_SCRIPT_def redis_incr_def redis_get_def redis_ttl_def Let_def)
qed

lemma script_fresh:
  assumes "redis_get now key r = None"
  shows "\<exists>ttl. RATE_LIMIT_LUA_SCRIPT now key w r =
    ((1, ttl), r(key \<mapsto> \<lparr>re_count = 1, re_expires_at = Some (now + w * 1000)\<rparr>))"
  using assms by (simp add: RATE_LIMIT_LUA_SCRIPT_def redis_incr_def redis_expire_def Let_def)

lemma increment_other: "k \<noteq> key \<Longrightarrow> snd (incrementRateLimit up now key m w pol r) k = r k"
  by (simp add: incrementRateLimit_def RATE_LIMIT_LUA_SCRIPT_def Let_def split: if_splits)

lemma increment_live:
  assumes "r key = Some \<lparr>re_count = c, re_expires_at = Some e\<rparr>" "1 \<le> c" "now < e"
    and "incrementRateLimit up now key m w fail_closed r = (res, r')"
  shows "\<exists>c'. r' key = Some \<lparr>re_count = c', re_expires_at = Some e\<rparr> \<and> c \<le> c' \<and> (rr_allowed res \<longrightarrow> c < c' \<and> c' \<le> m)"
proof -
  from script_live [of r key c e now w] assms(1-3) obtain ttl where
    "RATE_LIMIT_LUA_SCRIPT now key w r = ((c + 1, ttl), r(key \<mapsto> \<lparr>re_count = c + 1, re_expires_at = Some e\<rparr>))" by blast
  with assms(1,4) show ?thesis by (auto simp: incrementRateLimit_def Let_def split: if_splits)
qed

lemma increment_fresh:
  assumes "redis_get now key r = None"
    and "incrementRateLimit up now key m w fail_closed r = (res, r')"
  shows "r' key = r key \<and> \<not> rr_allowed res \<or>
    r' key = Some \<lparr>re_count = 1, re_expires_at = Some (now + w * 1000)\<rparr> \<and> (rr_allowed res \<longrightarrow> 1 \<le> m)"
proof -
  from script_fresh [of now key r w] assms(1) obtain ttl where
    "RATE_LIMIT_LUA_SCRIPT now key w r = ((1, ttl), r(key \<mapsto> \<lparr>re_count = 1, re_expires_at = Some (now + w * 1000)\<rparr>))" by blast
  with assms(2) show ?thesis by (auto simp: incrementRateLimit_def Let_def split: if_splits)
qed

lemma redis_get_cong: "r' k = r k \<Longrightarrow> redis_get now k r' = redis_get now k r"
  by (simp add: redis_get_def)

text \<open>The checks of a whole request, seen from one key whose limit is the same wherever it occurs.\<close>

definition limit_of :: "string \<Rightarrow> int \<Rightarrow> (string \<times> int) list \<Rightarrow> bool" where
  "limit_of k m cs \<longleftrightarrow> (\<forall>(k', m') \<in> set cs. k' = k \<longrightarrow> m' = m)"

lemma run_checks_live:
  assumes "run_checks up now w fail_closed code cs r = (g, r')" "limit_of k m cs"
    and "r k = Some \<lparr>re_count = c, re_expires_at = Some e\<rparr>" "1 \<le> c" "now < e"
  shows "\<exists>c'. r' k = Some \<lparr>re_count = c', re_expires_at = Some e\<rparr> \<and> c \<le> c' \<and> (k \<notin> fst ` set cs \<longrightarrow> c' = c) \<and>
    (g = Pass \<and> k \<in> fst ` set cs \<longrightarrow> c < c' \<and> c' \<le> m)"
  using assms
proof (induction cs arbitrary: r c)
  case (Cons km cs)
  obtain key m' where km: "km = (key, m')" by (cases km)
  obtain res r1 where i: "incrementRateLimit (up key) now key m' w fail_closed r = (res, r1)" by fastforce
  have lim: "limit_of k m cs" "key = k \<Longrightarrow> m' = m" using Cons.prems(2) by (auto simp: limit_of_def km)
  obtain c1 where c1: "r1 k = Some \<lparr>re_count = c1, re_expires_at = Some e\<rparr>" "c \<le> c1" "key \<noteq> k \<longrightarrow> c1 = c"
    "key = k \<and> rr_allowed res \<longrightarrow> c < c1 \<and> c1 \<le> m"
  proof (cases "key = k")
    case True
    with increment_live [of r k c e now] Cons.prems(3-5) i lim(2) that show ?thesis by blast
  next
    case False
    with increment_other [of k key "up key" now m' w fail_closed r] Cons.prems(3) i that [of c] show ?thesis by simp
  qed
  show ?case
  proof (cases "rr_allowed res")
    case False
    with Cons.prems(1) c1 show ?thesis by (auto simp: km i split: if_splits)
  next
    case True
    with Cons.prems(1) have rest: "run_checks up now w fail_closed code cs r1 = (g, r')" by (simp add: km i)
    have "1 \<le> c1" using c1(2) Cons.prems(4) by simp
    with Cons.IH [of r1 c1] rest lim(1) c1(1) Cons.prems(5) obtain c' where c':
      "r' k = Some \<lparr>re_count = c', re_expires_at = Some e\<rparr>" "c1 \<le> c'" "k \<notin> fst ` set cs \<longrightarrow> c' = c1"
      "g = Pass \<and> k \<in> fst ` set cs \<longrightarrow> c1 < c' \<and> c' \<le> m" by blast
    have "(k \<notin> fst ` set (km # cs) \<longrightarrow> c' = c) \<and> (g = Pass \<and> k \<in> fst ` set (km # cs) \<longrightarrow> c < c' \<and> c' \<le> m)"
      using c1 c' True by (cases "key = k"; cases "k \<in> fst ` set cs") (auto simp: km)
    with c' c1(2) show ?thesis by auto
  qed
qed simp

lemma run_checks_fresh:
  assumes "run_checks up now w fail_closed code cs r = (g, r')" "limit_of k m cs" and "redis_get now k r = None" "0 < w"
  shows "r' k = r k \<and> \<not> (g = Pass \<and> k \<in> fst ` set cs) \<or>
    (\<exists>c'. r' k = Some \<lparr>re_count = c', re_expires_at = Some (now + w * 1000)\<rparr> \<and> 1 \<le> c' \<and>
      (g = Pass \<and> k \<in> fst ` set cs \<longrightarrow> c' \<le> m))"
  using assms
proof (induction cs arbitrary: r)
  case (Cons km cs)
  obtain key m' where km: "km = (key, m')" by (cases km)
  obtain res r1 where i: "incrementRateLimit (up key) now key m' w fail_closed r = (res, r1)" by fastforce
  have lim: "limit_of k m cs" "key = k \<Longrightarrow> m' = m" using Cons.prems(2) by (auto simp: limit_of_def km)
  consider (same) "r1 k = r k" "key = k \<longrightarrow> \<not> rr_allowed res"
    | (set) "key = k" "r1 k = Some \<lparr>re_count = 1, re_expires_at = Some (now + w * 1000)\<rparr>" "rr_allowed res \<longrightarrow> 1 \<le> m"
  proof (cases "key = k")
    case True
    with increment_fresh [of now k r] Cons.prems(3) i lim(2) that show ?thesis by blast
  next
    case False
    with increment_other [of k key "up key" now m' w fail_closed r] i that(1) show ?thesis by simp
  qed
  then show ?case
  proof cases
    case same
    show ?thesis
    proof (cases "rr_allowed res")
      case False
      with Cons.prems(1) same show ?thesis by (auto simp: km i split: if_splits)
    next
      case True
      with Cons.prems(1) have rest: "run_checks up now w fail_closed code cs r1 = (g, r')" by (simp add: km i)
      from True same have "key \<noteq> k" by blast
      with Cons.IH [OF rest lim(1)] redis_get_cong [of r1 k r] Cons.prems(3,4) same(1) show ?thesis by (simp add: km)
    qed
  next
    case set
    show ?thesis
    proof (cases "rr_allowed res")
      case False
      with Cons.prems(1) have "r' = r1" "g \<noteq> Pass" by (auto simp: km i split: if_splits)
      with set(2) show ?thesis by auto
    next
      case True
      with Cons.prems(1) have rest: "run_checks up now w fail_closed code cs r1 = (g, r')" by (simp add: km i)
      from run_checks_live [OF rest lim(1) set(2)] Cons.prems(4) obtain c' where
        "r' k = Some \<lparr>re_count = c', re_expires_at = Some (now + w * 1000)\<rparr>" "1 \<le> c'" "k \<notin> fst ` set cs \<longrightarrow> c' = 1"
        "g = Pass \<and> k \<in> fst ` set cs \<longrightarrow> c' \<le> m" by auto
      with set True show ?thesis by (cases "k \<in> fst ` set cs") (auto simp: km)
    qed
  qed
qed simp

section \<open>How many requests a limiter lets through\<close>

record limited_request =
  lq_time :: timestamp
  lq_up :: "string \<Rightarrow> bool"
  lq_request :: http_request

type_synonym guard = "(string \<Rightarrow> bool) \<Rightarrow> timestamp \<Rightarrow> http_request \<Rightarrow> redis \<Rightarrow> guard_result \<times> redis"

definition guard_of :: "guard \<Rightarrow> limited_request \<Rightarrow> redis \<Rightarrow> guard_result \<times> redis" where
  "guard_of G x r = G (lq_up x) (lq_time x) (lq_request x) r"

text \<open>The requests of a sequence that pass.\<close>

fun passed :: "guard \<Rightarrow> limited_request list \<Rightarrow> redis \<Rightarrow> limited_request list" where
  "passed G [] r = []"
| "passed G (x # xs) r =
     (case guard_of G x r of (g, r') \<Rightarrow> if g = Pass then x # passed G xs r' else passed G xs r')"

text \<open>What a guard does to one counter: a running count only grows, and within the limit when a charged request
  passes; without a running count a charged request passes only by starting one.\<close>

locale counting_guard =
  fixes G :: guard
    and charged :: "limited_request \<Rightarrow> bool"
    and key :: string
    and maxLimit :: int
    and window :: int
  assumes live: "guard_of G x r = (g, r') \<Longrightarrow> r key = Some \<lparr>re_count = c, re_expires_at = Some e\<rparr> \<Longrightarrow> 1 \<le> c \<Longrightarrow> lq_time x < e \<Longrightarrow>
      \<exists>c'. r' key = Some \<lparr>re_count = c', re_expires_at = Some e\<rparr> \<and> c \<le> c' \<and> (g = Pass \<and> charged x \<longrightarrow> c < c' \<and> c' \<le> maxLimit)"
    and fresh: "guard_of G x r = (g, r') \<Longrightarrow> redis_get (lq_time x) key r = None \<Longrightarrow> 0 < window \<Longrightarrow>
      r' key = r key \<and> \<not> (g = Pass \<and> charged x) \<or>
      (\<exists>c'. r' key = Some \<lparr>re_count = c', re_expires_at = Some (lq_time x + window * 1000)\<rparr> \<and> 1 \<le> c' \<and>
        (g = Pass \<and> charged x \<longrightarrow> c' \<le> maxLimit))"
begin

lemma live_bound:
  assumes "r key = Some \<lparr>re_count = c, re_expires_at = Some e\<rparr>" "1 \<le> c" "\<forall>x\<in>set xs. lq_time x < e"
  shows "int (length (filter charged (passed G xs r))) \<le> max 0 (maxLimit - c)"
  using assms
proof (induction xs arbitrary: r c)
  case (Cons x xs)
  obtain g r' where g: "guard_of G x r = (g, r')" by fastforce
  with live [of x r g r' c e] Cons.prems obtain c' where c':
    "r' key = Some \<lparr>re_count = c', re_expires_at = Some e\<rparr>" "c \<le> c'" "g = Pass \<and> charged x \<longrightarrow> c < c' \<and> c' \<le> maxLimit" by auto
  with Cons.IH [of r' c'] Cons.prems have "int (length (filter charged (passed G xs r'))) \<le> max 0 (maxLimit - c')" by auto
  with c' show ?case by (auto simp: g)
qed simp

lemma fresh_bound:
  assumes "redis_get t0 key r = None" "\<forall>x\<in>set xs. t0 \<le> lq_time x \<and> lq_time x < t0 + window * 1000" "0 < window"
    "sorted (map lq_time xs)"
  shows "int (length (filter charged (passed G xs r))) \<le> max 0 maxLimit"
  using assms
proof (induction xs arbitrary: r)
  case (Cons x xs)
  obtain g r' where g: "guard_of G x r = (g, r')" by fastforce
  have n: "redis_get (lq_time x) key r = None" using Cons.prems(1,2) by (auto simp: redis_get_def split: option.splits if_splits)
  from fresh [OF g n Cons.prems(3)] show ?case
  proof (elim disjE exE conjE)
    assume same: "r' key = r key" "\<not> (g = Pass \<and> charged x)"
    then have "redis_get t0 key r' = None" using Cons.prems(1) redis_get_cong [of r' key r] by simp
    with Cons.IH [of r'] Cons.prems have "int (length (filter charged (passed G xs r'))) \<le> max 0 maxLimit" by simp
    with same(2) show ?case by (auto simp: g)
  next
    fix c'
    assume c': "r' key = Some \<lparr>re_count = c', re_expires_at = Some (lq_time x + window * 1000)\<rparr>" "1 \<le> c'"
      "g = Pass \<and> charged x \<longrightarrow> c' \<le> maxLimit"
    have "\<forall>y\<in>set xs. lq_time y < lq_time x + window * 1000" using Cons.prems(2) by fastforce
    with live_bound [of r' c' "lq_time x + window * 1000" xs] c'(1,2) have "int (length (filter charged (passed G xs r'))) \<le> max 0 (maxLimit - c')" by blast
    with c'(2,3) show ?case by (auto simp: g)
  qed
qed simp

lemma running_bound:
  assumes "r key = Some \<lparr>re_count = c, re_expires_at = Some e\<rparr>" "1 \<le> c" "sorted (map lq_time xs)"
    "\<forall>x\<in>set xs. t0 \<le> lq_time x \<and> lq_time x < t0 + window * 1000" "0 < window"
  shows "int (length (filter charged (passed G xs r))) \<le> max 0 (maxLimit - c) + max 0 maxLimit"
  using assms
proof (induction xs arbitrary: r c)
  case (Cons x xs)
  show ?case
  proof (cases "lq_time x < e")
    case True
    obtain g r' where g: "guard_of G x r = (g, r')" by fastforce
    with live [of x r g r' c e] Cons.prems True obtain c' where c':
      "r' key = Some \<lparr>re_count = c', re_expires_at = Some e\<rparr>" "c \<le> c'" "g = Pass \<and> charged x \<longrightarrow> c < c' \<and> c' \<le> maxLimit" by auto
    with Cons.IH [of r' c'] Cons.prems
    have "int (length (filter charged (passed G xs r'))) \<le> max 0 (maxLimit - c') + max 0 maxLimit" by auto
    with c' show ?thesis by (auto simp: g)
  next
    case False
    then have "redis_get (lq_time x) key r = None" using Cons.prems(1) by (simp add: redis_get_def)
    moreover have "\<forall>y\<in>set (x # xs). lq_time x \<le> lq_time y \<and> lq_time y < lq_time x + window * 1000"
      using Cons.prems(3,4) by fastforce
    ultimately have "int (length (filter charged (passed G (x # xs) r))) \<le> max 0 maxLimit"
      using fresh_bound Cons.prems(3,5) by blast
    then show ?thesis by linarith
  qed
qed simp

definition counted :: "redis \<Rightarrow> bool" where
  "counted r \<longleftrightarrow> (\<forall>e. r key = Some e \<longrightarrow> 1 \<le> re_count e \<and> re_expires_at e \<noteq> None)"

lemma counted_step: "counted r \<Longrightarrow> guard_of G x r = (g, r') \<Longrightarrow> 0 < window \<Longrightarrow> counted r'"
proof (cases "redis_get (lq_time x) key r")
  case None
  assume "counted r" "guard_of G x r = (g, r')" "0 < window"
  with fresh [of x r g r'] None show ?thesis by (auto simp: counted_def)
next
  case (Some en)
  assume a: "counted r" "guard_of G x r = (g, r')"
  from Some have "r key = Some en" by (auto simp: redis_get_def split: option.splits if_splits)
  with a(1) obtain e where en: "r key = Some \<lparr>re_count = re_count en, re_expires_at = Some e\<rparr>" "1 \<le> re_count en" "re_expires_at en = Some e"
    by (auto simp: counted_def)
  from Some \<open>r key = Some en\<close> en(3) have "lq_time x < e" by (auto simp: redis_get_def split: if_splits)
  with live [of x r g r' "re_count en" e] a(2) en show ?thesis by (auto simp: counted_def)
qed

lemma counted_run: "counted r \<Longrightarrow> 0 < window \<Longrightarrow> counted (fold (\<lambda>x r. snd (guard_of G x r)) xs r)"
proof (induction xs arbitrary: r)
  case (Cons x xs)
  have "counted (snd (guard_of G x r))" using counted_step [of r x] Cons.prems by (metis prod.collapse)
  with Cons show ?case by simp
qed simp

lemma window_bound:
  assumes "counted r" "sorted (map lq_time xs)" "\<forall>x\<in>set xs. t0 \<le> lq_time x \<and> lq_time x < t0 + window * 1000" "0 < window"
  shows "int (length (filter charged (passed G xs r))) \<le> 2 * max 0 maxLimit"
proof (cases "r key")
  case None
  then have "redis_get t0 key r = None" by (simp add: redis_get_def)
  from fresh_bound [OF this assms(3,4,2)] show ?thesis by linarith
next
  case (Some en)
  with assms(1) obtain e where e: "re_expires_at en = Some e" "1 \<le> re_count en" by (auto simp: counted_def)
  from e(1) have "en = \<lparr>re_count = re_count en, re_expires_at = Some e\<rparr>" by simp
  with Some have "r key = Some \<lparr>re_count = re_count en, re_expires_at = Some e\<rparr>" by simp
  from running_bound [where r = r, OF this e(2) assms(2-4)] show ?thesis using e(2) by linarith
qed

end

definition phone_key :: "string \<Rightarrow> limiter_env \<Rightarrow> string \<Rightarrow> string" where
  "phone_key kind E p = ''ratelimit:otp:'' @ kind @ '':phone:'' @ le_hash E p"

lemma phone_key_limit: "limit_of (phone_key kind E p) (ol_perPhone l) (otp_checks kind E l q)"
  by (auto simp: limit_of_def otp_checks_def phone_key_def Let_def split: option.splits)

lemma phone_key_charged: "otp_phone E q = Some p \<Longrightarrow> phone_key kind E p \<in> fst ` set (otp_checks kind E l q)"
  by (simp add: otp_checks_def phone_key_def Let_def)

text \<open>A guard that runs checks counts on every key it checks.\<close>

lemma run_checks_counts:
  assumes "\<And>x r. \<exists>code g. run_checks (lq_up x) (lq_time x) w fail_closed code (checks x) r = (g, snd (guard_of G x r)) \<and>
      (fst (guard_of G x r) = Pass \<longleftrightarrow> g = Pass)"
    and "\<And>x. limit_of k m (checks x)" and "\<And>x. charged x \<Longrightarrow> k \<in> fst ` set (checks x)"
  shows "counting_guard G charged k m w"
proof
  fix x r g r' c e
  assume a: "guard_of G x r = (g, r')" "r k = Some \<lparr>re_count = c, re_expires_at = Some e\<rparr>" "1 \<le> c" "lq_time x < e"
  from assms(1) [of x r] a(1) obtain code g' where
    run: "run_checks (lq_up x) (lq_time x) w fail_closed code (checks x) r = (g', r')" and g': "g = Pass \<longleftrightarrow> g' = Pass" by auto
  from run_checks_live [OF run assms(2) a(2-4)] g' assms(3) [of x]
  show "\<exists>c'. r' k = Some \<lparr>re_count = c', re_expires_at = Some e\<rparr> \<and> c \<le> c' \<and> (g = Pass \<and> charged x \<longrightarrow> c < c' \<and> c' \<le> m)"
    by blast
next
  fix x r g r'
  assume a: "guard_of G x r = (g, r')" "redis_get (lq_time x) k r = None" "0 < w"
  from assms(1) [of x r] a(1) obtain code g' where
    run: "run_checks (lq_up x) (lq_time x) w fail_closed code (checks x) r = (g', r')" and g': "g = Pass \<longleftrightarrow> g' = Pass" by auto
  from run_checks_fresh [OF run assms(2) a(2,3)] g' assms(3) [of x]
  show "r' k = r k \<and> \<not> (g = Pass \<and> charged x) \<or>
    (\<exists>c'. r' k = Some \<lparr>re_count = c', re_expires_at = Some (lq_time x + w * 1000)\<rparr> \<and> 1 \<le> c' \<and> (g = Pass \<and> charged x \<longrightarrow> c' \<le> m))"
    by blast
qed

lemma run_checks_append:
  "run_checks up now w pol code (as @ bs) r =
   (case run_checks up now w pol code as r of (Pass, r') \<Rightarrow> run_checks up now w pol code bs r' | (Reject s c t, r') \<Rightarrow> (Reject s c t, r'))"
  by (induction up now w pol code as r rule: run_checks.induct) (auto split: prod.splits)

lemma otpRequest_runs:
  "\<exists>g. run_checks up now (le_windowSeconds E) fail_closed ''OTP_RATE_LIMITED'' (otp_checks ''req'' E l q) r
      = (g, snd (otpRequestRateLimiter E l up now q r)) \<and> (fst (otpRequestRateLimiter E l up now q r) = Pass \<longleftrightarrow> g = Pass)"
proof -
  define byDevice where "byDevice = (case extractDeviceId q of None \<Rightarrow> [] | Some i \<Rightarrow> [last (otp_checks ''req'' E l q)])"
  define others where "others = take (length (otp_checks ''req'' E l q) - length byDevice) (otp_checks ''req'' E l q)"
  have "otp_checks ''req'' E l q = others @ byDevice"
    unfolding others_def byDevice_def by (cases "extractDeviceId q") (auto simp: otp_checks_def Let_def split: option.splits)
  then have "run_checks up now (le_windowSeconds E) fail_closed ''OTP_RATE_LIMITED'' (otp_checks ''req'' E l q) r =
    (case run_checks up now (le_windowSeconds E) fail_closed ''OTP_RATE_LIMITED'' others r of
       (Pass, r') \<Rightarrow> run_checks up now (le_windowSeconds E) fail_closed ''OTP_RATE_LIMITED'' byDevice r'
     | (Reject s c t, r') \<Rightarrow> (Reject s c t, r'))" by (simp add: run_checks_append)
  then show ?thesis
    unfolding otpRequestRateLimiter_def byDevice_def [symmetric] others_def [symmetric] Let_def
    by (auto split: prod.splits guard_result.splits)
qed

interpretation otp_verify_phone: counting_guard "otpVerifyRateLimiter E l" "\<lambda>x. otp_phone E (lq_request x) = Some p"
  "phone_key ''verify'' E p" "ol_perPhone l" "le_windowSeconds E" for E l p
  by (rule run_checks_counts [where checks = "\<lambda>x. otp_checks ''verify'' E l (lq_request x)"])
    (auto simp: guard_of_def otpVerifyRateLimiter_def phone_key_limit phone_key_charged intro!: exI)

interpretation otp_request_phone: counting_guard "otpRequestRateLimiter E l" "\<lambda>x. otp_phone E (lq_request x) = Some p"
  "phone_key ''req'' E p" "ol_perPhone l" "le_windowSeconds E" for E l p
  by (rule run_checks_counts [where checks = "\<lambda>x. otp_checks ''req'' E l (lq_request x)"])
    (use otpRequest_runs in \<open>auto simp: guard_of_def phone_key_limit phone_key_charged intro!: exI [of _ "''OTP_RATE_LIMITED''"]\<close>)

text \<open>
  C29. Whatever requests came before, from however many addresses and devices, on however many instances, and
  whenever Redis fails: among the requests of any stretch of time shorter than the configured window, at most
  twice the limit per phone number pass the limiter for verifying codes, and likewise for sending them. (Windows
  are fixed, so a stretch can touch two of them.)
\<close>

theorem otp_attempts_bounded:
  assumes "sorted (map lq_time xs)" "\<forall>x\<in>set xs. t0 \<le> lq_time x \<and> lq_time x < t0 + le_windowSeconds E * 1000" "0 < le_windowSeconds E"
  shows "int (length (filter (\<lambda>x. otp_phone E (lq_request x) = Some p)
      (passed (otpVerifyRateLimiter E l) xs (fold (\<lambda>x r. snd (guard_of (otpVerifyRateLimiter E l) x r)) before (\<lambda>k. None)))))
      \<le> 2 * max 0 (ol_perPhone l) \<and>
    int (length (filter (\<lambda>x. otp_phone E (lq_request x) = Some p)
      (passed (otpRequestRateLimiter E l) xs (fold (\<lambda>x r. snd (guard_of (otpRequestRateLimiter E l) x r)) before (\<lambda>k. None)))))
      \<le> 2 * max 0 (ol_perPhone l)"
  using otp_verify_phone.window_bound [OF otp_verify_phone.counted_run [OF _ assms(3)] assms]
    otp_request_phone.window_bound [OF otp_request_phone.counted_run [OF _ assms(3)] assms]
  by (simp add: otp_verify_phone.counted_def otp_request_phone.counted_def)

definition sample_limiter_env :: limiter_env where
  "sample_limiter_env = \<lparr>le_hash = id, le_parsePhone = Some, le_windowSeconds = 900\<rparr>"

definition sample_limited :: "timestamp \<Rightarrow> string \<Rightarrow> limited_request" where
  "sample_limited t ip = \<lparr>lq_time = t, lq_up = \<lambda>k. True, lq_request = \<lparr>hq_user_id = None, hq_worker_id = None, hq_ip = Some ip,
     hq_remoteAddress = None, hq_phone = Some ''+911'', hq_body_device_id = None, hq_header_device_id = None\<rparr>\<rparr>"

text \<open>Three addresses try a limit of one: the second and third are refused, and the bound applies.\<close>

theorem otp_attempts_bounded_witness:
  "let l = \<lparr>ol_perIp = 15, ol_perPhone = 1, ol_perDevice = 10\<rparr>;
       xs = [sample_limited 0 ''a'', sample_limited 5 ''b'', sample_limited 9 ''c''];
       n = length (filter (\<lambda>x. otp_phone sample_limiter_env (lq_request x) = Some ''+911'')
         (passed (otpVerifyRateLimiter sample_limiter_env l) xs (\<lambda>k. None)))
   in int n \<le> 2 \<and> n = 1"
proof -
  let ?l = "\<lparr>ol_perIp = 15, ol_perPhone = 1, ol_perDevice = 10\<rparr>"
    and ?xs = "[sample_limited 0 ''a'', sample_limited 5 ''b'', sample_limited 9 ''c'']"
  have "length (filter (\<lambda>x. otp_phone sample_limiter_env (lq_request x) = Some ''+911'')
      (passed (otpVerifyRateLimiter sample_limiter_env ?l) ?xs (\<lambda>k. None))) = 1" by code_simp
  moreover have "int (length (filter (\<lambda>x. otp_phone sample_limiter_env (lq_request x) = Some ''+911'')
      (passed (otpVerifyRateLimiter sample_limiter_env ?l) ?xs (\<lambda>k. None)))) \<le> 2"
    using otp_attempts_bounded [of ?xs 0 sample_limiter_env "''+911''" ?l "[]"]
    by (simp add: sample_limited_def sample_limiter_env_def)
  ultimately show ?thesis by (simp add: Let_def)
qed

end
