(* ===== verification/Access_Guards.thy ===== *)
theory Access_Guards
  imports Otp_Auth Wave_Planner
begin

text \<open>
  Who a request comes from: the access tokens of \<^verbatim>\<open>src/utils/authUtils.ts\<close>, the HTTP and socket
  authentication of \<^verbatim>\<open>src/middlewares/authMiddleware.ts\<close> and \<^verbatim>\<open>src/socket/socketAuth.ts\<close>, the role check, and
  the answer to an exception, \<^verbatim>\<open>src/middlewares/errorHandler.ts\<close>.

  The JWT library is an argument: it signs claims under a secret and gives back the claims of a valid token, or
  \<open>None\<close> where it throws. A failing database is an argument too. Log lines and the phone of the principal are
  left out; an answer is its status and code.
\<close>

section \<open>Access tokens\<close>

record token_claims =
  tk_id :: "string option"
  tk_role :: "string option"
  tk_token_type :: "string option"

type_synonym jwt_verify = "string \<Rightarrow> string \<Rightarrow> token_claims option"

definition signAccessToken :: "(string \<Rightarrow> token_claims \<Rightarrow> string) \<Rightarrow> JwtConfig \<Rightarrow> token_claims \<Rightarrow> string" where
  "signAccessToken jwtSign cfg payload = jwtSign (jw_accessSecret cfg) (payload\<lparr>tk_token_type := Some ''access''\<rparr>)"

definition signRefreshToken :: "(string \<Rightarrow> token_claims \<Rightarrow> string) \<Rightarrow> JwtConfig \<Rightarrow> token_claims \<Rightarrow> string" where
  "signRefreshToken jwtSign cfg payload = jwtSign (jw_refreshSecret cfg) (payload\<lparr>tk_token_type := Some ''refresh''\<rparr>)"

definition verifyAccessToken :: "jwt_verify \<Rightarrow> error + JwtConfig \<Rightarrow> string \<Rightarrow> token_claims option" where
  "verifyAccessToken jwtVerify config token =
     (case config of Inl _ \<Rightarrow> None
      | Inr cfg \<Rightarrow> (case jwtVerify (jw_accessSecret cfg) token of None \<Rightarrow> None
          | Some decoded \<Rightarrow> if truthy (tk_token_type decoded) \<and> tk_token_type decoded \<noteq> Some ''access'' then None else Some decoded))"

definition verifyRefreshToken :: "jwt_verify \<Rightarrow> error + JwtConfig \<Rightarrow> string \<Rightarrow> token_claims option" where
  "verifyRefreshToken jwtVerify config token =
     (case config of Inl _ \<Rightarrow> None
      | Inr cfg \<Rightarrow> (case jwtVerify (jw_refreshSecret cfg) token of None \<Rightarrow> None
          | Some decoded \<Rightarrow> if tk_token_type decoded \<noteq> Some ''refresh'' then None else Some decoded))"

section \<open>Requests\<close>

definition role_of :: "string \<Rightarrow> UserRole" where
  "role_of r = (if r = user_role_str WORKER then WORKER else if r = user_role_str CUSTOMER then CUSTOMER else ADMIN)"

definition worker_locked :: "worker option \<Rightarrow> bool" where
  "worker_locked w = (case w of None \<Rightarrow> True | Some x \<Rightarrow> wk_deleted_at x \<noteq> None \<or> wk_verification_status x = ''suspended'')"

definition customer_locked :: "customer option \<Rightarrow> bool" where
  "customer_locked c = (case c of None \<Rightarrow> True | Some x \<Rightarrow> cu_deleted_at x \<noteq> None)"

text \<open>The answer of a refusal, or the principal that the handlers see.\<close>

definition authenticateJWT ::
  "bool \<Rightarrow> jwt_verify \<Rightarrow> error + JwtConfig \<Rightarrow> string option \<Rightarrow> db \<Rightarrow> (int \<times> string) + AuthenticatedUser" where
  "authenticateJWT up jwtVerify config authHeader d =
     (if \<not> truthy authHeader \<or> \<not> startsWith (the authHeader) ''Bearer '' then Inl (401, '''')
      else case verifyAccessToken jwtVerify config (split_on (CHR '' '') (the authHeader) ! 1) of
        None \<Rightarrow> Inl (401, '''')
      | Some decoded \<Rightarrow>
          if \<not> truthy (tk_id decoded) then Inl (401, '''')
          else if \<not> truthy (tk_role decoded) \<or> \<not> isValidUserRole (the (tk_role decoded)) then Inl (401, '''')
          else let i = the (tk_id decoded); role = the (tk_role decoded)
          in if role = user_role_str WORKER then
               (if \<not> up then Inl (500, '''')
                else if worker_locked (findUnique wk_id i (workers d)) then Inl (401, ''ACCOUNT_SUSPENDED'')
                else Inr \<lparr>au_id = i, au_role = WORKER\<rparr>)
             else if role = user_role_str CUSTOMER then
               (if \<not> up then Inl (500, '''')
                else if customer_locked (findUnique cu_id i (customers d)) then Inl (401, ''ACCOUNT_INACTIVE'')
                else Inr \<lparr>au_id = i, au_role = CUSTOMER\<rparr>)
             else Inr \<lparr>au_id = i, au_role = role_of role\<rparr>)"

definition requireRole :: "UserRole list \<Rightarrow> AuthenticatedUser option \<Rightarrow> (int \<times> string) + unit" where
  "requireRole allowedRoles user =
     (case user of None \<Rightarrow> Inl (401, '''')
      | Some u \<Rightarrow> if au_role u \<in> set allowedRoles then Inr () else Inl (403, ''''))"

section \<open>Sockets\<close>

record handshake =
  hs_auth_token :: "string option"
  hs_authorization :: "string option"

definition handshake_token :: "handshake \<Rightarrow> string option" where
  "handshake_token h =
     (if \<not> truthy (hs_auth_token h) \<and> truthy (hs_authorization h)
      then (let a = the (hs_authorization h) in Some (if startsWith a ''Bearer '' then trim (drop 7 a) else trim a))
      else hs_auth_token h)"

definition socketAuthMiddleware ::
  "bool \<Rightarrow> jwt_verify \<Rightarrow> error + JwtConfig \<Rightarrow> handshake \<Rightarrow> db \<Rightarrow> error + AuthenticatedUser" where
  "socketAuthMiddleware up jwtVerify config h d =
     (case handshake_token h of None \<Rightarrow> Inl (PlainError ''Authentication required'')
      | Some token \<Rightarrow>
          if trim token = [] then Inl (PlainError ''Authentication required'')
          else case verifyAccessToken jwtVerify config (trim token) of
            None \<Rightarrow> Inl (PlainError ''Invalid authentication credentials'')
          | Some decoded \<Rightarrow>
              if \<not> truthy (tk_id decoded) \<or> \<not> truthy (tk_role decoded) \<or> \<not> isValidUserRole (the (tk_role decoded))
              then Inl (PlainError ''Invalid authentication credentials'')
              else let i = the (tk_id decoded); role = the (tk_role decoded)
              in if role = user_role_str WORKER then
                   (if \<not> up \<or> worker_locked (findUnique wk_id i (workers d)) then Inl (PlainError ''Invalid authentication credentials'')
                    else Inr \<lparr>au_id = i, au_role = WORKER\<rparr>)
                 else if role = user_role_str CUSTOMER then
                   (if \<not> up \<or> customer_locked (findUnique cu_id i (customers d)) then Inl (PlainError ''Invalid authentication credentials'')
                    else Inr \<lparr>au_id = i, au_role = CUSTOMER\<rparr>)
                 else Inr \<lparr>au_id = i, au_role = ADMIN\<rparr>)"

section \<open>Exceptions\<close>

text \<open>The class of an exception as the handler distinguishes it, and the fields it reads.\<close>

datatype thrown_class = AppErrorClass | ZodErrorClass | PrismaKnownRequest | PrismaInitialization | PrismaRustPanic | OtherClass

record thrown =
  th_class :: thrown_class
  th_message :: "string option"
  th_statusCode :: "int option"
  th_status :: "int option"
  th_code :: "string option"
  th_name :: "string option"

definition endsWith :: "string \<Rightarrow> string \<Rightarrow> bool" where
  "endsWith s p = startsWith (rev s) (rev p)"

definition cors_error :: "thrown \<Rightarrow> bool" where
  "cors_error e = (case th_message e of None \<Rightarrow> False
     | Some m \<Rightarrow> startsWith m ''Origin '' \<and> endsWith m ''not allowed by CORS'')"

text \<open>\<^verbatim>\<open>err.statusCode || err.status\<close>; no error class has a zero status.\<close>

definition error_status :: "thrown \<Rightarrow> int" where
  "error_status e = (case th_statusCode e of Some n \<Rightarrow> if n = 0 then the (th_status e) else n | None \<Rightarrow> the (th_status e))"

definition status_code_name :: "int \<Rightarrow> string" where
  "status_code_name s = (if s = 404 then ''NOT_FOUND'' else if s = 403 then ''FORBIDDEN'' else if s = 401 then ''UNAUTHORIZED''
     else if s = 409 then ''CONFLICT'' else ''APPLICATION_ERROR'')"

definition prisma_answer :: "string option \<Rightarrow> int \<times> string \<times> string" where
  "prisma_answer code =
     (if code = Some ''P2002'' then (409, ''CONFLICT'', ''A record with these unique details already exists.'')
      else if code = Some ''P2025'' then (404, ''RESOURCE_NOT_FOUND'', ''The requested resource was not found.'')
      else if code = Some ''P2003'' then (400, ''INVALID_RELATION'', ''Referenced entity does not exist.'')
      else if code = Some ''P2004'' then (400, ''CONSTRAINT_VIOLATION'', ''A database constraint was violated.'')
      else (500, ''DATABASE_ERROR'', ''A database operation could not be completed.''))"

text \<open>Status, code and the message the client sees.\<close>

definition errorHandler :: "thrown \<Rightarrow> int \<times> string \<times> string" where
  "errorHandler e =
     (if cors_error e then (403, ''FORBIDDEN_CORS_ORIGIN'', ''Origin not allowed'')
      else if th_class e = AppErrorClass then (the (th_statusCode e), the (th_code e), js_or (th_message e) [])
      else if th_statusCode e \<noteq> None \<or> th_status e \<noteq> None then
        (error_status e, js_or (th_code e) (status_code_name (error_status e)), js_or (th_message e) ''Request failed'')
      else if th_class e = ZodErrorClass then (400, ''VALIDATION_ERROR'', ''Validation failed'')
      else if th_class e = PrismaKnownRequest then prisma_answer (th_code e)
      else if th_class e = PrismaInitialization \<or> th_class e = PrismaRustPanic
      then (503, ''DATABASE_UNAVAILABLE'', ''Database service is temporarily unavailable.'')
      else if th_name e = Some ''JsonWebTokenError'' then (401, ''INVALID_TOKEN'', ''Authentication token is invalid.'')
      else if th_name e = Some ''TokenExpiredError'' then (401, ''TOKEN_EXPIRED'', ''Authentication token has expired.'')
      else (500, ''INTERNAL_SERVER_ERROR'', ''An unexpected internal error occurred.''))"

section \<open>Lemmas\<close>

lemma verifyAccessToken_Some:
  assumes "verifyAccessToken v config t = Some c"
  obtains cfg where "config = Inr cfg" "v (jw_accessSecret cfg) t = Some c" "tk_token_type c = Some ''access'' \<or> \<not> truthy (tk_token_type c)"
  using assms by (auto simp: verifyAccessToken_def split: sum.splits option.splits if_splits)

lemma valid_role_cases: "isValidUserRole r \<Longrightarrow> r = user_role_str (role_of r)"
  by (auto simp: isValidUserRole_def role_of_def)

lemma worker_live: "\<not> worker_locked (findUnique wk_id i ws) \<longleftrightarrow>
  (\<exists>w. findUnique wk_id i ws = Some w \<and> wk_deleted_at w = None \<and> wk_verification_status w \<noteq> ''suspended'')"
  by (auto simp: worker_locked_def split: option.splits)

lemma customer_live: "\<not> customer_locked (findUnique cu_id i cs) \<longleftrightarrow> (\<exists>c. findUnique cu_id i cs = Some c \<and> cu_deleted_at c = None)"
  by (auto simp: customer_locked_def split: option.splits)

text \<open>The account behind a principal is there and open; administrators have no account row.\<close>

definition account_live :: "db \<Rightarrow> AuthenticatedUser \<Rightarrow> bool" where
  "account_live d u =
     (case au_role u of
        WORKER \<Rightarrow> \<not> worker_locked (findUnique wk_id (au_id u) (workers d))
      | CUSTOMER \<Rightarrow> \<not> customer_locked (findUnique cu_id (au_id u) (customers d))
      | ADMIN \<Rightarrow> True)"

text \<open>What both middlewares establish of the principal they accept.\<close>

definition vouched :: "jwt_verify \<Rightarrow> error + JwtConfig \<Rightarrow> db \<Rightarrow> AuthenticatedUser \<Rightarrow> bool" where
  "vouched v config d u \<longleftrightarrow> (\<exists>cfg t c. config = Inr cfg \<and> v (jw_accessSecret cfg) t = Some c \<and>
     (tk_token_type c = Some ''access'' \<or> \<not> truthy (tk_token_type c)) \<and>
     tk_id c = Some (au_id u) \<and> tk_role c = Some (user_role_str (au_role u)) \<and> account_live d u)"

lemma user_role_distinct [simp]: "user_role_str CUSTOMER \<noteq> user_role_str WORKER" "user_role_str ADMIN \<noteq> user_role_str WORKER"
  "user_role_str ADMIN \<noteq> user_role_str CUSTOMER" "user_role_str WORKER \<noteq> user_role_str CUSTOMER"
  by simp_all

lemma vouchedI:
  assumes "verifyAccessToken v config t = Some c" "truthy (tk_id c)" "truthy (tk_role c)" "isValidUserRole (the (tk_role c))"
    and "account_live d \<lparr>au_id = the (tk_id c), au_role = role_of (the (tk_role c))\<rparr>"
  shows "vouched v config d \<lparr>au_id = the (tk_id c), au_role = role_of (the (tk_role c))\<rparr>"
proof -
  from assms(1) obtain cfg where c: "config = Inr cfg" "v (jw_accessSecret cfg) t = Some c"
    "tk_token_type c = Some ''access'' \<or> \<not> truthy (tk_token_type c)" by (rule verifyAccessToken_Some)
  from assms(2) have "tk_id c = Some (the (tk_id c))" by (cases "tk_id c") auto
  moreover from assms(3) have "tk_role c = Some (the (tk_role c))" by (cases "tk_role c") auto
  then have "tk_role c = Some (user_role_str (role_of (the (tk_role c))))" using valid_role_cases [OF assms(4)] by metis
  ultimately show ?thesis using c assms(5) unfolding vouched_def by (metis AuthenticatedUser.select_convs)
qed

lemma http_vouched:
  assumes "authenticateJWT up v config h d = Inr u"
  shows "vouched v config d u"
proof -
  let ?t = "split_on (CHR '' '') (the h) ! 1"
  from assms obtain c where v: "verifyAccessToken v config ?t = Some c"
    by (auto simp: authenticateJWT_def split: if_splits option.splits)
  with assms have t: "truthy (tk_id c)" "truthy (tk_role c)" "isValidUserRole (the (tk_role c))"
    by (auto simp: authenticateJWT_def split: if_splits)
  from assms v t have "u = \<lparr>au_id = the (tk_id c), au_role = role_of (the (tk_role c))\<rparr> \<and> account_live d u"
    by (auto simp: authenticateJWT_def account_live_def role_of_def Let_def split: if_splits)
  with vouchedI [OF v t] show ?thesis by metis
qed

lemma socket_vouched:
  assumes "socketAuthMiddleware up v config h d = Inr u"
  shows "vouched v config d u"
proof -
  from assms obtain tok where tok: "handshake_token h = Some tok" by (auto simp: socketAuthMiddleware_def split: option.splits)
  with assms obtain c where v: "verifyAccessToken v config (trim tok) = Some c"
    by (auto simp: socketAuthMiddleware_def split: if_splits option.splits)
  with assms tok have t: "truthy (tk_id c)" "truthy (tk_role c)" "isValidUserRole (the (tk_role c))"
    by (auto simp: socketAuthMiddleware_def split: if_splits)
  from assms tok v t have "u = \<lparr>au_id = the (tk_id c), au_role = role_of (the (tk_role c))\<rparr> \<and> account_live d u"
    by (auto simp: socketAuthMiddleware_def account_live_def role_of_def Let_def split: if_splits)
  with vouchedI [OF v t] show ?thesis by metis
qed

lemma vouched_not_locked: "vouched v config d u \<Longrightarrow> au_role u = WORKER \<Longrightarrow> \<not> worker_locked (findUnique wk_id (au_id u) (workers d))"
  by (auto simp: vouched_def account_live_def)

lemma locked_socket_refused:
  "worker_locked (findUnique wk_id w (workers d)) \<Longrightarrow> socketAuthMiddleware up v config h d \<noteq> Inr \<lparr>au_id = w, au_role = WORKER\<rparr>"
  using socket_vouched vouched_not_locked by fastforce

text \<open>A token without a type claim is taken for an access token.\<close>

lemma untyped_token_accepted:
  "tk_token_type c = None \<Longrightarrow> v (jw_accessSecret cfg) t = Some c \<Longrightarrow> verifyAccessToken v (Inr cfg) t = Some c"
  by (simp add: verifyAccessToken_def)

lemma errorHandler_hides:
  assumes "\<not> cors_error e" "th_class e \<noteq> AppErrorClass" "th_statusCode e = None" "th_status e = None"
  shows "errorHandler e = errorHandler (e\<lparr>th_message := None\<rparr>)"
  using assms by (simp add: errorHandler_def cors_error_def)

lemma bearer_token: "CHR '' '' \<notin> set t \<Longrightarrow> split_on (CHR '' '') (''Bearer '' @ t) ! 1 = t"
proof -
  assume "CHR '' '' \<notin> set t"
  then have "split_on (CHR '' '') t = [t]" by (induction t) auto
  then show ?thesis by simp
qed

text \<open>
  C30. A request or a socket is accepted only as a principal whose id and role stand in a token that verifies under
  the access secret and is not marked as a token for another purpose, and whose account exists and is neither
  deleted nor suspended at that moment. Conversely the access token signed for an open account is accepted as
  that account, and the refresh token signed for it is refused. (The JWT library is assumed to give back the
  claims that were signed, and no others.)
\<close>

theorem authentication_sound_complete:
  assumes "jwtVerify (jw_accessSecret cfg) (signAccessToken jwtSign cfg p) = Some (p\<lparr>tk_token_type := Some ''access''\<rparr>)"
    and "\<And>c. jwtVerify (jw_accessSecret cfg) (signRefreshToken jwtSign cfg p) = Some c \<Longrightarrow> c = p\<lparr>tk_token_type := Some ''refresh''\<rparr>"
    and "CHR '' '' \<notin> set (signAccessToken jwtSign cfg p)" "CHR '' '' \<notin> set (signRefreshToken jwtSign cfg p)"
    and "tk_id p = Some (au_id a)" "au_id a \<noteq> []" "tk_role p = Some (user_role_str (au_role a))" "account_live d a"
  shows "(authenticateJWT up jwtVerify config h d = Inr u \<longrightarrow> vouched jwtVerify config d u) \<and>
    (socketAuthMiddleware up jwtVerify config hs d = Inr u \<longrightarrow> vouched jwtVerify config d u) \<and>
    authenticateJWT True jwtVerify (Inr cfg) (Some (''Bearer '' @ signAccessToken jwtSign cfg p)) d = Inr a \<and>
    authenticateJWT True jwtVerify (Inr cfg) (Some (''Bearer '' @ signRefreshToken jwtSign cfg p)) d = Inl (401, '''')"
proof -
  have acc: "verifyAccessToken jwtVerify (Inr cfg) (signAccessToken jwtSign cfg p) = Some (p\<lparr>tk_token_type := Some ''access''\<rparr>)"
    using assms(1) by (simp add: verifyAccessToken_def)
  have ref: "verifyAccessToken jwtVerify (Inr cfg) (signRefreshToken jwtSign cfg p) = None"
    using assms(2) by (auto simp: verifyAccessToken_def split: option.splits)
  have pre: "startsWith (''Bearer '' @ t) ''Bearer ''" for t by (simp add: startsWith_iff)
  have a: "a = \<lparr>au_id = au_id a, au_role = au_role a\<rparr>" by simp
  have "authenticateJWT True jwtVerify (Inr cfg) (Some (''Bearer '' @ signAccessToken jwtSign cfg p)) d = Inr a"
    unfolding authenticateJWT_def option.sel bearer_token [OF assms(3)] acc using pre assms(5-8) a
    by (cases "au_role a") (simp_all add: account_live_def isValidUserRole_def role_of_def Let_def)
  moreover have "authenticateJWT True jwtVerify (Inr cfg) (Some (''Bearer '' @ signRefreshToken jwtSign cfg p)) d = Inl (401, '''')"
    unfolding authenticateJWT_def option.sel bearer_token [OF assms(4)] ref using pre by simp
  ultimately show ?thesis using http_vouched socket_vouched by blast
qed

definition sample_jwt :: JwtConfig where
  "sample_jwt = \<lparr>jw_accessSecret = ''A'', jw_refreshSecret = ''R'', jw_accessTokenExpiresIn = ''1h'',
     jw_refreshTokenExpiresIn = ''7d'', jw_algorithm = ''HS256''\<rparr>"

definition sample_claims :: token_claims where
  "sample_claims = \<lparr>tk_id = Some ''a1'', tk_role = Some ''admin'', tk_token_type = None\<rparr>"

definition sample_verify :: jwt_verify where
  "sample_verify secret t = (if t = secret @ ''.jwt'' then Some (sample_claims\<lparr>tk_token_type := Some ''access''\<rparr>) else None)"

theorem authentication_sound_complete_witness:
  "authenticateJWT True sample_verify (Inr sample_jwt) (Some ''Bearer A.jwt'') empty_db = Inr \<lparr>au_id = ''a1'', au_role = ADMIN\<rparr> \<and>
   authenticateJWT True sample_verify (Inr sample_jwt) (Some ''Bearer R.jwt'') empty_db = Inl (401, '''') \<and>
   vouched sample_verify (Inr sample_jwt) empty_db \<lparr>au_id = ''a1'', au_role = ADMIN\<rparr>"
proof -
  let ?sign = "\<lambda>s c. s @ ''.jwt'' :: string"
  have s: "signAccessToken ?sign sample_jwt sample_claims = ''A.jwt''" "signRefreshToken ?sign sample_jwt sample_claims = ''R.jwt''"
    by (simp_all add: signAccessToken_def signRefreshToken_def sample_jwt_def)
  note t = authentication_sound_complete [of sample_verify sample_jwt ?sign sample_claims "\<lparr>au_id = ''a1'', au_role = ADMIN\<rparr>" empty_db
      True "Inr sample_jwt" "Some ''Bearer A.jwt''" "\<lparr>au_id = ''a1'', au_role = ADMIN\<rparr>" "\<lparr>hs_auth_token = None, hs_authorization = None\<rparr>", unfolded s]
  show ?thesis using t by (simp add: sample_verify_def sample_jwt_def sample_claims_def account_live_def)
qed

end
