(* ===== verification/Audit_Log.thy ===== *)
theory Audit_Log
  imports Schema
begin

text \<open>
  The audit log, \<^verbatim>\<open>src/features/audit/audit.service.ts\<close>: metadata is cleaned of secrets before it is
  stored, rows are only appended, and administrators page through them. Correlation ids, addresses and
  user agents of an event are left out: they are copied and never looked at.
\<close>

definition FORBIDDEN_METADATA_KEYS :: "string list" where
  "FORBIDDEN_METADATA_KEYS =
     [''password'', ''password_hash'', ''token'', ''refresh_token'', ''access_token'', ''otp'', ''otp_hash'', ''secret'',
      ''private_key'', ''signed_url'', ''file_url'', ''authorization'', ''cookie'']"

definition forbidden_key :: "string \<Rightarrow> bool" where
  "forbidden_key k \<longleftrightarrow> toLowerCase k \<in> set FORBIDDEN_METADATA_KEYS"

definition signed_url :: "string \<Rightarrow> bool" where
  "signed_url s \<longleftrightarrow> (startsWith s ''http://'' \<or> startsWith s ''https://'') \<and> js_includes s ''token=''"

lemma json_field_size [termination_simp]: "kv \<in> set kvs \<Longrightarrow> size (snd kv) < Suc (size_list (size_prod (\<lambda>x. 0) size) kvs)"
proof (induction kvs)
  case (Cons a kvs)
  then show ?case by (cases a) auto
qed simp

text \<open>The value stored under one key that is not forbidden; objects are entered, arrays are not.\<close>

fun sanitize_value :: "json \<Rightarrow> json" where
  "sanitize_value (JObj kvs) =
     JObj (map (\<lambda>kv. (fst kv, if forbidden_key (fst kv) then JStr ''[REDACTED]'' else sanitize_value (snd kv))) kvs)"
| "sanitize_value (JStr s) = (if signed_url s then JStr ''[SIGNED_URL_REDACTED]'' else JStr s)"
| "sanitize_value v = v"

definition sanitizeMetadata :: "json_object option \<Rightarrow> json option" where
  "sanitizeMetadata m = map_option (\<lambda>kvs. sanitize_value (JObj kvs)) m"

record AuditEventInput =
  ae_actorId :: string
  ae_actorRole :: string
  ae_action :: string
  ae_targetType :: string
  ae_targetId :: string
  ae_reason :: "string option"
  ae_metadata :: "json_object option"

definition audit_row :: "timestamp \<Rightarrow> AuditEventInput \<Rightarrow> audit_log" where
  "audit_row now e =
     \<lparr>al_actor_id = ae_actorId e, al_actor_role = ae_actorRole e, al_action = ae_action e, al_target_type = ae_targetType e,
      al_target_id = ae_targetId e, al_reason = (if truthy (ae_reason e) then ae_reason e else None),
      al_metadata = sanitizeMetadata (ae_metadata e), al_created_at = now\<rparr>"

definition recordEvent :: "timestamp \<Rightarrow> AuditEventInput \<Rightarrow> db \<Rightarrow> audit_log \<times> db" where
  "recordEvent now e d = (audit_row now e, d\<lparr>audit_logs := audit_logs d @ [audit_row now e]\<rparr>)"

section \<open>Queries\<close>

record AuditLogQueryParams =
  aq_action :: "string option"
  aq_actorId :: "string option"
  aq_targetType :: "string option"
  aq_targetId :: "string option"
  aq_startDate :: "timestamp option"
  aq_endDate :: "timestamp option"
  aq_page :: "int option"
  aq_limit :: "int option"

definition wants :: "string option \<Rightarrow> string \<Rightarrow> bool" where
  "wants p v \<longleftrightarrow> truthy p \<longrightarrow> v = the p"

definition audit_matches :: "AuditLogQueryParams \<Rightarrow> audit_log \<Rightarrow> bool" where
  "audit_matches p r \<longleftrightarrow> wants (aq_action p) (al_action r) \<and> wants (aq_actorId p) (al_actor_id r) \<and>
     wants (aq_targetType p) (al_target_type r) \<and> wants (aq_targetId p) (al_target_id r) \<and>
     (case aq_startDate p of None \<Rightarrow> True | Some t \<Rightarrow> t \<le> al_created_at r) \<and>
     (case aq_endDate p of None \<Rightarrow> True | Some t \<Rightarrow> al_created_at r \<le> t)"

text \<open>\<^verbatim>\<open>value || fallback\<close> on an optional number: 0 counts as missing.\<close>

definition int_or :: "int option \<Rightarrow> int \<Rightarrow> int" where
  "int_or v fallback = (case v of None \<Rightarrow> fallback | Some n \<Rightarrow> if n = 0 then fallback else n)"

definition audit_page :: "AuditLogQueryParams \<Rightarrow> int" where
  "audit_page p = max 1 (int_or (aq_page p) 1)"

definition audit_limit :: "AuditLogQueryParams \<Rightarrow> int" where
  "audit_limit p = max 1 (min (int_or (aq_limit p) 50) 100)"

record audit_result =
  aw_items :: "audit_log list"
  aw_total :: nat
  aw_page :: int
  aw_limit :: int

definition queryAuditLogs :: "AuditLogQueryParams \<Rightarrow> db \<Rightarrow> audit_result" where
  "queryAuditLogs p d =
     (let rows = sort_key (\<lambda>r. - al_created_at r) (filter (audit_matches p) (audit_logs d));
          skip = (audit_page p - 1) * audit_limit p
      in \<lparr>aw_items = take (nat (audit_limit p)) (drop (nat skip) rows), aw_total = length rows,
          aw_page = audit_page p, aw_limit = audit_limit p\<rparr>)"

section \<open>Lemmas\<close>

text \<open>Metadata without secrets: no forbidden key holds a value and no string is a URL with a token.\<close>

fun clean :: "json \<Rightarrow> bool" where
  "clean (JObj kvs) = list_all (\<lambda>kv. (forbidden_key (fst kv) \<longrightarrow> snd kv = JStr ''[REDACTED]'') \<and> clean (snd kv)) kvs"
| "clean (JStr s) = (\<not> signed_url s)"
| "clean v = True"

lemma redacted_clean: "\<not> signed_url ''[REDACTED]''" "\<not> signed_url ''[SIGNED_URL_REDACTED]''"
  by (simp_all add: signed_url_def)

lemma sanitize_clean: "clean (sanitize_value v)"
  by (induction v rule: sanitize_value.induct) (auto simp: list_all_iff redacted_clean)

lemma clean_fixed: "clean v \<Longrightarrow> sanitize_value v = v"
proof (induction v rule: sanitize_value.induct)
  case (1 kvs)
  have "(fst kv, if forbidden_key (fst kv) then JStr ''[REDACTED]'' else sanitize_value (snd kv)) = kv" if "kv \<in> set kvs" for kv
    using 1 that by (cases kv) (auto simp: list_all_iff)
  then show ?case by (simp add: map_idI)
qed auto

lemma sanitize_idem: "sanitize_value (sanitize_value v) = sanitize_value v"
  by (rule clean_fixed [OF sanitize_clean])

text \<open>Secrets inside an array are stored as they are.\<close>

lemma array_not_sanitized:
  "sanitizeMetadata (Some [(''items'', JArr [JObj [(''password'', JStr ''hunter2'')]])]) =
   Some (JObj [(''items'', JArr [JObj [(''password'', JStr ''hunter2'')]])])"
  by code_simp

definition audit_clean :: "db \<Rightarrow> bool" where
  "audit_clean d \<longleftrightarrow> list_all (\<lambda>r. case al_metadata r of None \<Rightarrow> True | Some m \<Rightarrow> clean m) (audit_logs d)"

lemma recordEvent_clean: "audit_clean d \<Longrightarrow> audit_clean (snd (recordEvent now e d))"
  by (auto simp: audit_clean_def recordEvent_def audit_row_def sanitizeMetadata_def sanitize_clean
      simp del: sanitize_value.simps split: option.splits)

text \<open>The pages of a query, one after the other.\<close>

lemma take_pages: "n > 0 \<Longrightarrow> k * n \<ge> length xs \<Longrightarrow> concat (map (\<lambda>i. take n (drop (i * n) xs)) [0..<k]) = xs"
proof (induction k arbitrary: xs)
  case 0
  then show ?case by simp
next
  case (Suc k)
  have "concat (map (\<lambda>i. take n (drop (i * n) (drop n xs))) [0..<k]) = drop n xs"
    by (rule Suc.IH) (use Suc.prems in auto)
  moreover have "map (\<lambda>i. take n (drop (i * n) xs)) [0..<Suc k] = take n xs # map (\<lambda>i. take n (drop (i * n) (drop n xs))) [0..<k]"
    unfolding map_upt_Suc by (simp add: add.commute)
  ultimately show ?case by simp
qed

lemma audit_pages:
  assumes "aq_page p = None" and "length (filter (audit_matches p) (audit_logs d)) \<le> k * nat (audit_limit p)"
  shows "concat (map (\<lambda>i. aw_items (queryAuditLogs (p\<lparr>aq_page := Some (int i + 1)\<rparr>) d)) [0..<k]) =
    sort_key (\<lambda>r. - al_created_at r) (filter (audit_matches p) (audit_logs d))"
proof -
  let ?rows = "sort_key (\<lambda>r. - al_created_at r) (filter (audit_matches p) (audit_logs d))" and ?n = "nat (audit_limit p)"
  have n: "0 < audit_limit p" by (simp add: audit_limit_def)
  have m: "audit_matches (p\<lparr>aq_page := x\<rparr>) = audit_matches p" for x by (rule ext) (simp add: audit_matches_def)
  have l: "audit_limit (p\<lparr>aq_page := x\<rparr>) = audit_limit p" for x by (simp add: audit_limit_def)
  have "aw_items (queryAuditLogs (p\<lparr>aq_page := Some (int i + 1)\<rparr>) d) = take ?n (drop (i * ?n) ?rows)" for i
    using n by (simp add: queryAuditLogs_def Let_def audit_page_def int_or_def m l nat_mult_distrib)
  with take_pages [of ?n ?rows k] n assms(2) show ?thesis by simp
qed

interpretation audit_trail_log: invariant_system "\<lambda>(now, e) d. snd (recordEvent now e d)" audit_clean
  by unfold_locales (auto simp: recordEvent_clean split: prod.splits)

end
