(* ===== verification/Workers.thy ===== *)
theory Workers
  imports Candidates Sessions Otp_Auth Storage Audit_Log Devices
begin

text \<open>
  Workers and the administrators' view of them: \<^verbatim>\<open>src/features/worker/workerServices.ts\<close>,
  \<^verbatim>\<open>src/features/admin/adminServices.ts\<close>, location updates
  (\<^verbatim>\<open>src/features/worker_location/worker_location.service.ts\<close>) and the retention of their history
  (\<^verbatim>\<open>src/services/locationRetentionService.ts\<close>).

  The phone parser, bcrypt, generated ids, the clock, the geography of a point and the platform of the storage
  service are arguments. Foreign and unique keys are checked where the database checks them. Branches for mocked
  clients, metrics and the closing of sockets are left out.
\<close>

section \<open>What clients see of a worker\<close>

record WorkerSelfProfileDTO =
  sd_id :: uuid
  sd_name :: string
  sd_phone :: string
  sd_skill_type :: string
  sd_skill_category_id :: uuid
  sd_worker_score :: "rat option"
  sd_is_online :: "bool option"
  sd_aadhaar_last4 :: "string option"
  sd_verification_status :: string
  sd_skill_category :: "skill_category option"

definition toWorkerSelfDTO :: "db \<Rightarrow> worker \<Rightarrow> WorkerSelfProfileDTO" where
  "toWorkerSelfDTO d w =
     \<lparr>sd_id = wk_id w, sd_name = wk_name w, sd_phone = wk_phone w, sd_skill_type = wk_skill_type w,
      sd_skill_category_id = wk_skill_category_id w, sd_worker_score = wk_worker_score w, sd_is_online = wk_is_online w,
      sd_aadhaar_last4 = wk_aadhaar_last4 w, sd_verification_status = wk_verification_status w,
      sd_skill_category = findUnique sc_id (wk_skill_category_id w) (skill_categories d)\<rparr>"

record WorkerAdminDTO =
  ad_id :: uuid
  ad_name :: string
  ad_phone :: string
  ad_skill_type :: string
  ad_skill_category_id :: uuid
  ad_worker_score :: "rat option"
  ad_is_online :: "bool option"
  ad_aadhaar_last4 :: "string option"
  ad_verification_status :: string
  ad_decline_count :: "int option"
  ad_timeout_count :: "int option"

definition toWorkerAdminDTO :: "worker \<Rightarrow> WorkerAdminDTO" where
  "toWorkerAdminDTO w =
     \<lparr>ad_id = wk_id w, ad_name = wk_name w, ad_phone = wk_phone w, ad_skill_type = wk_skill_type w,
      ad_skill_category_id = wk_skill_category_id w, ad_worker_score = wk_worker_score w, ad_is_online = wk_is_online w,
      ad_aadhaar_last4 = wk_aadhaar_last4 w, ad_verification_status = wk_verification_status w,
      ad_decline_count = wk_decline_count w, ad_timeout_count = wk_timeout_count w\<rparr>"

definition update_worker :: "uuid \<Rightarrow> (worker \<Rightarrow> worker) \<Rightarrow> db \<Rightarrow> db" where
  "update_worker w f d = d\<lparr>workers := updateMany (\<lambda>x. wk_id x = w) f (workers d)\<rparr>"

section \<open>Registration and profile\<close>

record CreateWorkerReq =
  cw_name :: string
  cw_phone :: string
  cw_password :: string
  cw_skill_category_id :: "string option"
  cw_skill_type :: "string option"
  cw_aadhaar_last4 :: "string option"
  cw_device_token :: "string option"
  cw_device_id :: "string option"
  cw_platform :: "string option"

definition PHONE_ALREADY_REGISTERED :: error where
  "PHONE_ALREADY_REGISTERED = CodedError ''PHONE_ALREADY_REGISTERED''"

definition canonical_skill :: "CreateWorkerReq \<Rightarrow> db \<Rightarrow> string option" where
  "canonical_skill p d =
     (if truthy (cw_skill_category_id p) then cw_skill_category_id p
      else if truthy (cw_skill_type p) then resolveSkillId (cw_skill_type p) d else None)"

text \<open>The row with the defaults of the schema.\<close>

definition new_worker :: "uuid \<Rightarrow> string \<Rightarrow> string \<Rightarrow> uuid \<Rightarrow> CreateWorkerReq \<Rightarrow> worker" where
  "new_worker i phone passwordHash skill p =
     \<lparr>wk_id = i, wk_phone = phone, wk_verification_status = ''pending'', wk_deleted_at = None, wk_decline_count = Some 0,
      wk_name = cw_name p, wk_is_online = Some False, wk_location_geo = None, wk_last_location_at = None,
      wk_skill_category_id = skill, wk_worker_score = Some 5, wk_skill_type = js_or (cw_skill_type p) ''General'',
      wk_timeout_count = Some 0, wk_password = passwordHash, wk_aadhaar_last4 = cw_aadhaar_last4 p\<rparr>"

definition create_worker :: "worker \<Rightarrow> db \<Rightarrow> error + db" where
  "create_worker w d =
     (if list_ex (\<lambda>x. wk_phone x = wk_phone w \<or> wk_id x = wk_id w) (workers d) then Inl PHONE_ALREADY_REGISTERED
      else if findUnique sc_id (wk_skill_category_id w) (skill_categories d) = None then Inl (CodedError ''P2003'')
      else Inr (d\<lparr>workers := workers d @ [w]\<rparr>))"

definition or_same :: "db \<Rightarrow> error + db \<Rightarrow> db" where
  "or_same d r = (case r of Inl _ \<Rightarrow> d | Inr d' \<Rightarrow> d')"

text \<open>The checks read \<open>d0\<close>, the writes happen on \<open>d\<close>.\<close>

definition register ::
  "(string \<Rightarrow> string option) \<Rightarrow> (string \<Rightarrow> string) \<Rightarrow> timestamp \<Rightarrow> uuid \<Rightarrow> CreateWorkerReq \<Rightarrow> db \<Rightarrow> db \<Rightarrow> (error + WorkerSelfProfileDTO) \<times> db" where
  "register parsePhone hashPassword now i p d0 d =
     (case normalizePhoneToE164 parsePhone (cw_phone p) of Inl e \<Rightarrow> (Inl e, d)
      | Inr phone \<Rightarrow>
          if findUnique wk_phone phone (workers d0) \<noteq> None then (Inl PHONE_ALREADY_REGISTERED, d)
          else (case canonical_skill p d0 of
             None \<Rightarrow> (Inl (StatusError 400 ''Valid skill_category_id or resolvable skill_type is required''), d)
           | Some skill \<Rightarrow>
               let w = new_worker i phone (hashPassword (cw_password p)) skill p
               in (case create_worker w d of Inl e \<Rightarrow> (Inl e, d)
                   | Inr d1 \<Rightarrow>
                       let d2 = (if truthy (cw_device_token p)
                                 then snd (worker_registerDevice now i \<lparr>rd_device_token = the (cw_device_token p), rd_device_id = cw_device_id p,
                                        rd_platform = Some (js_or (cw_platform p) ''android'')\<rparr> d1)
                                 else d1);
                           d3 = or_same d2 (upsert_worker_skill i skill d2)
                       in (Inr (toWorkerSelfDTO d3 w), d3))))"

definition getProfile :: "uuid \<Rightarrow> db \<Rightarrow> error + WorkerSelfProfileDTO" where
  "getProfile w d = (case findUnique wk_id w (workers d) of None \<Rightarrow> Inl (PlainError ''Worker not found'') | Some x \<Rightarrow> Inr (toWorkerSelfDTO d x))"

record UpdateWorkerProfileReq =
  uw_name :: "string option"
  uw_phone :: "string option"
  uw_skill_category_id :: "string option"
  uw_skill_ids :: "string list option"
  uw_skill_type :: "string option"

definition apply_profile :: "UpdateWorkerProfileReq \<Rightarrow> string option \<Rightarrow> worker \<Rightarrow> worker" where
  "apply_profile p phone w =
     w\<lparr>wk_name := (case uw_name p of Some n \<Rightarrow> n | None \<Rightarrow> wk_name w),
       wk_phone := (case phone of Some n \<Rightarrow> n | None \<Rightarrow> wk_phone w),
       wk_skill_category_id := (case uw_skill_category_id p of Some s \<Rightarrow> s | None \<Rightarrow> wk_skill_category_id w),
       wk_skill_type := (case uw_skill_type p of Some s \<Rightarrow> s | None \<Rightarrow> wk_skill_type w)\<rparr>"

text \<open>The payload is passed on to the update as it is, and \<^verbatim>\<open>skill_ids\<close> is no column of the table: the client
  rejects the call.\<close>

definition updateProfile ::
  "(string \<Rightarrow> string option) \<Rightarrow> uuid \<Rightarrow> UpdateWorkerProfileReq \<Rightarrow> db \<Rightarrow> (error + WorkerSelfProfileDTO) \<times> db" where
  "updateProfile parsePhone w p d =
     (case (if truthy (uw_phone p) then map_sum id Some (normalizePhoneToE164 parsePhone (the (uw_phone p))) else Inr (uw_phone p)) of
        Inl e \<Rightarrow> (Inl e, d)
      | Inr phone \<Rightarrow>
          if uw_skill_ids p \<noteq> None then (Inl (PlainError ''PrismaClientValidationError''), d)
          else (case findUnique wk_id w (workers d) of None \<Rightarrow> (Inl PrismaRecordNotFound, d)
            | Some x \<Rightarrow>
                let x' = apply_profile p phone x
                in if list_ex (\<lambda>y. wk_phone y = wk_phone x' \<and> wk_id y \<noteq> w) (workers d) then (Inl PHONE_ALREADY_REGISTERED, d)
                   else if findUnique sc_id (wk_skill_category_id x') (skill_categories d) = None then (Inl (CodedError ''P2003''), d)
                   else let d1 = update_worker w (apply_profile p phone) d;
                            d2 = (if truthy (uw_skill_category_id p)
                                  then or_same d1 (upsert_worker_skill w (the (uw_skill_category_id p)) d1) else d1)
                        in (Inr (toWorkerSelfDTO d2 x'), d2)))"

definition removeSkill :: "uuid \<Rightarrow> uuid \<Rightarrow> db \<Rightarrow> skill_category list \<times> db" where
  "removeSkill w s d = (let d' = removeWorkerSkill w s d in (getWorkerSkills w d', d'))"

definition updateDeviceToken :: "timestamp \<Rightarrow> uuid \<Rightarrow> string \<Rightarrow> string option \<Rightarrow> string option \<Rightarrow> db \<Rightarrow> db" where
  "updateDeviceToken now w tok deviceId pf d =
     snd (worker_registerDevice now w \<lparr>rd_device_token = tok, rd_device_id = deviceId, rd_platform = pf\<rparr> d)"

definition updateOnlineStatus :: "uuid \<Rightarrow> bool \<Rightarrow> db \<Rightarrow> (error + WorkerSelfProfileDTO) \<times> db" where
  "updateOnlineStatus w online d =
     (case findUnique wk_id w (workers d) of None \<Rightarrow> (Inl PrismaRecordNotFound, d)
      | Some x \<Rightarrow> (Inr (toWorkerSelfDTO d (x\<lparr>wk_is_online := Some online\<rparr>)), update_worker w (\<lambda>x. x\<lparr>wk_is_online := Some online\<rparr>) d))"

definition worker_bookings :: "uuid \<Rightarrow> db \<Rightarrow> booking list" where
  "worker_bookings w d = filter (\<lambda>b. bk_worker_id b = w) (bookings d)"

definition getEarnings :: "uuid \<Rightarrow> db \<Rightarrow> int" where
  "getEarnings w d =
     sum_list (map (\<lambda>y. case py_amount y of Some n \<Rightarrow> n | None \<Rightarrow> 0)
       (filter (\<lambda>y. py_status y = Some ''COMPLETED'' \<and>
          (case findUnique bk_id (py_booking_id y) (bookings d) of Some b \<Rightarrow> bk_worker_id b = w | None \<Rightarrow> False)) (payments d)))"

section \<open>Documents\<close>

record UploadWorkerDocumentReq =
  ud_worker_id :: "string option"
  ud_document_type :: string
  ud_file_url :: string

definition uploadDocument :: "platform \<Rightarrow> uuid \<Rightarrow> uuid \<Rightarrow> UploadWorkerDocumentReq \<Rightarrow> db \<Rightarrow> (error + worker_document) \<times> db" where
  "uploadDocument F i w p d =
     (if truthy (ud_worker_id p) \<and> the (ud_worker_id p) \<noteq> w then (Inl (AuthorizationError 403 ''NOT_OWNER''), d)
      else case object_key F (ud_file_url p) of Inl e \<Rightarrow> (Inl e, d)
       | Inr k \<Rightarrow>
           if startsWith k ''workers/'' \<and> \<not> startsWith k (''workers/'' @ w @ ''/'')
           then (Inl (AuthorizationError 403 ''DOCUMENT_ATTACHMENT_FORBIDDEN''), d)
           else if findUnique wk_id w (workers d) = None \<or> list_ex (\<lambda>x. wd_id x = i) (worker_documents d) then (Inl (CodedError ''P2003''), d)
           else let doc = \<lparr>wd_id = i, wd_worker_id = w, wd_document_type = Some (ud_document_type p),
                           wd_file_url = Some (if k = [] then ud_file_url p else k), wd_status = ''PENDING''\<rparr>
                in (Inr doc, d\<lparr>worker_documents := worker_documents d @ [doc]\<rparr>))"

text \<open>The URL, the object key and the type of an upload.\<close>

definition requestUploadUrl ::
  "platform \<Rightarrow> StorageConfig \<Rightarrow> timestamp \<Rightarrow> uuid \<Rightarrow> uuid \<Rightarrow> string option \<Rightarrow> string option \<Rightarrow> error + (signed_result \<times> string)" where
  "requestUploadUrl F cfg now documentId w extension mimeType =
     (let effectiveMime = trim (toLowerCase (js_or mimeType ''application/pdf''))
      in if effectiveMime \<notin> set allowedMimeTypes then Inl (AuthorizationError 422 ''INVALID_MIME_TYPE'')
         else let defaultExt = (if effectiveMime = ''image/jpeg'' then ''jpg'' else if effectiveMime = ''image/png'' then ''png'' else ''pdf'')
              in map_sum id (\<lambda>u. (u, effectiveMime))
                   (getSignedUploadUrl F cfg now (generateDocumentKey documentId w (js_or extension defaultExt)) effectiveMime None))"

definition document_key :: "uuid \<Rightarrow> worker_document \<Rightarrow> string" where
  "document_key fresh doc = js_or (wd_file_url doc) (generateDocumentKey fresh (wd_worker_id doc) ''pdf'')"

definition getDocumentAccessUrl ::
  "platform \<Rightarrow> StorageConfig \<Rightarrow> timestamp \<Rightarrow> uuid \<Rightarrow> AuthenticatedUser \<Rightarrow> uuid \<Rightarrow> db \<Rightarrow> error + signed_result" where
  "getDocumentAccessUrl F cfg now fresh actor documentId d =
     (case findUnique wd_id documentId (worker_documents d) of None \<Rightarrow> Inl (AuthorizationError 404 ''DOCUMENT_NOT_FOUND'')
      | Some doc \<Rightarrow> (case assertPolicy (worker_canReadDocument actor (wd_worker_id doc)) of Inl e \<Rightarrow> Inl e
          | Inr _ \<Rightarrow> getSignedDownloadUrl F cfg now (document_key fresh doc) None))"

text \<open>The object goes first, as far as the driver can; then the row; then the audit row.\<close>

definition deleteDocument ::
  "platform \<Rightarrow> (string \<Rightarrow> 's \<Rightarrow> 's) \<Rightarrow> timestamp \<Rightarrow> AuthenticatedUser \<Rightarrow> uuid \<Rightarrow> 's \<times> db \<Rightarrow> (error + unit) \<times> 's \<times> db" where
  "deleteDocument F del now actor documentId sd =
     (case sd of (s, d) \<Rightarrow>
      (case findUnique wd_id documentId (worker_documents d) of None \<Rightarrow> (Inl (AuthorizationError 404 ''DOCUMENT_NOT_FOUND''), s, d)
       | Some doc \<Rightarrow> (case assertPolicy (worker_canDeleteDocument actor (wd_worker_id doc)) of Inl e \<Rightarrow> (Inl e, s, d)
          | Inr _ \<Rightarrow>
              let s' = (if truthy (wd_file_url doc) then
                          (case object_key F (the (wd_file_url doc)) of Inl _ \<Rightarrow> s
                           | Inr k \<Rightarrow> (case object_key F k of Inl _ \<Rightarrow> s | Inr k' \<Rightarrow> del k' s))
                        else s);
                  d1 = d\<lparr>worker_documents := deleteMany (\<lambda>x. wd_id x = documentId) (worker_documents d)\<rparr>;
                  (_, d2) = recordEvent now \<lparr>ae_actorId = au_id actor, ae_actorRole = toLowerCase (user_role_str (au_role actor)),
                     ae_action = ''DOCUMENT_DELETED'', ae_targetType = ''document'', ae_targetId = documentId,
                     ae_reason = Some ''Worker or Admin deleted document'',
                     ae_metadata = Some [(''workerId'', JStr (wd_worker_id doc)),
                       (''documentType'', case wd_document_type doc of Some t \<Rightarrow> JStr t | None \<Rightarrow> JNull)]\<rparr> d1
              in (Inr (), s', d2))))"

definition getDocuments :: "uuid \<Rightarrow> db \<Rightarrow> worker_document list" where
  "getDocuments w d = filter (\<lambda>x. wd_worker_id x = w) (worker_documents d)"

section \<open>Administration\<close>

definition getWorkers :: "db \<Rightarrow> WorkerAdminDTO list" where
  "getWorkers d = map toWorkerAdminDTO (workers d)"

definition flagged :: "worker \<Rightarrow> bool" where
  "flagged w \<longleftrightarrow> (case wk_decline_count w of Some n \<Rightarrow> n > 5 | None \<Rightarrow> False) \<or> (case wk_timeout_count w of Some n \<Rightarrow> n > 5 | None \<Rightarrow> False)"

definition getFlaggedWorkers :: "db \<Rightarrow> WorkerAdminDTO list" where
  "getFlaggedWorkers d = map toWorkerAdminDTO (filter flagged (workers d))"

definition pending_document :: "uuid \<Rightarrow> worker_document \<Rightarrow> bool" where
  "pending_document w x \<longleftrightarrow> wd_worker_id x = w \<and> wd_status x = ''PENDING''"

definition admin_event :: "string option \<Rightarrow> string \<Rightarrow> uuid \<Rightarrow> string \<Rightarrow> json_object \<Rightarrow> AuditEventInput" where
  "admin_event adminId action w reason metadata =
     \<lparr>ae_actorId = js_or adminId ''admin-system'', ae_actorRole = ''admin'', ae_action = action, ae_targetType = ''worker'',
      ae_targetId = w, ae_reason = Some reason, ae_metadata = Some metadata\<rparr>"

definition verify_tx :: "timestamp \<Rightarrow> uuid \<Rightarrow> string \<Rightarrow> string option \<Rightarrow> db \<Rightarrow> error + (WorkerAdminDTO \<times> db)" where
  "verify_tx now w status adminId d =
     (let docs = filter (pending_document w) (worker_documents d)
      in if docs = [] then Inl (PlainError ''No pending documents for this worker'')
         else let d1 = d\<lparr>worker_documents := updateMany (pending_document w) (\<lambda>x. x\<lparr>wd_status := status\<rparr>) (worker_documents d)\<rparr>;
                  workerStatus = (if status = ''VERIFIED'' then ''verified'' else ''rejected'')
              in case findUnique wk_id w (workers d1) of None \<Rightarrow> Inl PrismaRecordNotFound
                 | Some x \<Rightarrow>
                     let d2 = update_worker w (\<lambda>x. x\<lparr>wk_verification_status := workerStatus\<rparr>) d1;
                         d3 = snd (recordEvent now (admin_event adminId (if status = ''VERIFIED'' then ''WORKER_VERIFIED'' else ''WORKER_REJECTED'') w
                           (''Admin updated verification status to '' @ status)
                           [(''documentsUpdated'', JInt (int (length docs))), (''verificationStatus'', JStr workerStatus)]) d2)
                     in Inr (toWorkerAdminDTO (x\<lparr>wk_verification_status := workerStatus\<rparr>), d3))"

definition verifyWorkerDocument :: "timestamp \<Rightarrow> uuid \<Rightarrow> string \<Rightarrow> string option \<Rightarrow> db \<Rightarrow> (error + WorkerAdminDTO) \<times> db" where
  "verifyWorkerDocument now w status adminId d = run_tx (verify_tx now w status adminId) d"

definition suspend_row :: "timestamp \<Rightarrow> worker \<Rightarrow> worker" where
  "suspend_row now x = x\<lparr>wk_verification_status := ''suspended'', wk_deleted_at := Some now\<rparr>"

definition suspend_tx :: "timestamp \<Rightarrow> uuid \<Rightarrow> string \<Rightarrow> string \<Rightarrow> string option \<Rightarrow> db \<Rightarrow> error + (WorkerAdminDTO \<times> db)" where
  "suspend_tx now w prevStatus reason adminId d =
     (case findUnique wk_id w (workers d) of None \<Rightarrow> Inl PrismaRecordNotFound
      | Some x \<Rightarrow>
          let d1 = update_worker w (suspend_row now) d;
              (n, d2) = update_sessions (\<lambda>s. se_user_id s = w \<and> revocable s) (Revoked now ''SUSPENDED'') d1;
              d3 = snd (recordEvent now (admin_event adminId ''WORKER_SUSPENDED'' w
                (if reason = [] then ''Administrative suspension'' else reason)
                [(''prevStatus'', JStr prevStatus), (''newStatus'', JStr ''suspended''), (''revokedSessions'', JInt (int n))]) d2)
          in Inr (toWorkerAdminDTO (suspend_row now x), d3))"

text \<open>The row is read before the transaction, on \<open>d0\<close>.\<close>

definition suspendWorker :: "timestamp \<Rightarrow> uuid \<Rightarrow> string \<Rightarrow> string option \<Rightarrow> db \<Rightarrow> db \<Rightarrow> (error + WorkerAdminDTO) \<times> db" where
  "suspendWorker now w reason adminId d0 d =
     (case findUnique wk_id w (workers d0) of None \<Rightarrow> (Inl (AuthorizationError 404 ''WORKER_NOT_FOUND''), d)
      | Some x \<Rightarrow> run_tx (suspend_tx now w (js_or (Some (wk_verification_status x)) ''pending'') reason adminId) d)"

definition getWorkerDocumentAccess ::
  "platform \<Rightarrow> StorageConfig \<Rightarrow> timestamp \<Rightarrow> uuid \<Rightarrow> uuid \<Rightarrow> uuid \<Rightarrow> uuid \<Rightarrow> db \<Rightarrow> (error + signed_result) \<times> db" where
  "getWorkerDocumentAccess F cfg now fresh adminId w documentId d =
     (case findFirst (\<lambda>x. wd_id x = documentId \<and> wd_worker_id x = w) (worker_documents d) of
        None \<Rightarrow> (Inl (AuthorizationError 404 ''DOCUMENT_NOT_FOUND''), d)
      | Some doc \<Rightarrow> (case getSignedDownloadUrl F cfg now (document_key fresh doc) None of Inl e \<Rightarrow> (Inl e, d)
          | Inr u \<Rightarrow> (Inr u, snd (recordEvent now \<lparr>ae_actorId = adminId, ae_actorRole = ''admin'', ae_action = ''DOCUMENT_ACCESSED'',
               ae_targetType = ''document'', ae_targetId = documentId, ae_reason = Some ''Admin viewed worker document'',
               ae_metadata = Some [(''workerId'', JStr w), (''documentType'', case wd_document_type doc of Some t \<Rightarrow> JStr t | None \<Rightarrow> JNull)]\<rparr> d))))"

section \<open>Locations\<close>

text \<open>The statement updates the worker and appends to the history at once; \<open>point\<close> is the stored geography.\<close>

definition updateLocation ::
  "(rat \<Rightarrow> rat \<Rightarrow> string) \<Rightarrow> timestamp \<Rightarrow> uuid \<Rightarrow> uuid \<Rightarrow> json option \<Rightarrow> json option \<Rightarrow> db \<Rightarrow> (error + worker_location) \<times> db" where
  "updateLocation point now i w latitude longitude d =
     (if w = [] then (Inl (StatusError 401 ''Authenticated worker ID is required''), d)
      else case validateCoordinatePair latitude longitude of
        Inr (Some (lat, lon)) \<Rightarrow>
          (case findUnique wk_id w (workers d) of
             Some x \<Rightarrow>
               if wk_deleted_at x \<noteq> None then (Inl (StatusError 404 ''Worker not found or account is deactivated''), d)
               else let row = \<lparr>wl_id = i, wl_worker_id = w, wl_location_geo = Some (point lat lon), wl_updated_at = Some now\<rparr>
                    in (Inr row, (update_worker w (\<lambda>x. x\<lparr>wk_location_geo := Some (point lat lon), wk_last_location_at := Some now\<rparr>) d)
                          \<lparr>worker_locations := worker_locations d @ [row]\<rparr>)
           | None \<Rightarrow> (Inl (StatusError 404 ''Worker not found or account is deactivated''), d))
      | _ \<Rightarrow> (Inl (StatusError 400 ''Invalid geographic coordinates''), d))"

definition getRetentionDays :: "string option \<Rightarrow> int" where
  "getRetentionDays raw =
     (if \<not> truthy raw then 30
      else case parseInt10 (the raw) of None \<Rightarrow> 30
       | Some parsed \<Rightarrow> if parsed < 1 then 30 else if parsed > 365 then 365 else parsed)"

text \<open>Days of 24 hours: the calendar of the server is that of UTC.\<close>

definition getExpirationCutoffDate :: "string option \<Rightarrow> timestamp \<Rightarrow> int option \<Rightarrow> timestamp" where
  "getExpirationCutoffDate raw now retentionDays =
     now - (case retentionDays of Some n \<Rightarrow> n | None \<Rightarrow> getRetentionDays raw) * 24 * 60 * 60 * 1000"

definition expired_location :: "timestamp \<Rightarrow> worker_location \<Rightarrow> bool" where
  "expired_location cutoff x \<longleftrightarrow> (case wl_updated_at x of Some t \<Rightarrow> t < cutoff | None \<Rightarrow> False)"

definition delete_batch :: "nat \<Rightarrow> timestamp \<Rightarrow> worker_location list \<Rightarrow> nat \<times> worker_location list" where
  "delete_batch n cutoff t =
     (let ids = map wl_id (take n (filter (expired_location cutoff) t))
      in (countWhere (\<lambda>x. wl_id x \<in> set ids) t, deleteMany (\<lambda>x. wl_id x \<in> set ids) t))"

lemma delete_batch_shrinks:
  assumes "delete_batch n cutoff t = (k, t')"
  shows "length t' + k = length t"
  using assms sum_length_filter_compl [of "\<lambda>x. wl_id x \<in> set (map wl_id (take n (filter (expired_location cutoff) t)))" t]
  by (auto simp: delete_batch_def countWhere_def deleteMany_def Let_def)

text \<open>The loop; the batch size is never 0.\<close>

function cleanup_loop :: "nat \<Rightarrow> timestamp \<Rightarrow> nat \<times> nat \<Rightarrow> worker_location list \<Rightarrow> (nat \<times> nat) \<times> worker_location list" where
  "cleanup_loop n cutoff (tot, batches) t =
     (let (k, t') = delete_batch n cutoff t
      in if k < n \<or> n = 0 then ((tot + k, batches + 1), t') else cleanup_loop n cutoff (tot + k, batches + 1) t')"
  by pat_completeness auto
termination
proof (relation "measure (\<lambda>(n, c, acc, t). length t)")
  show "wf (measure (\<lambda>(n, c, acc, t). length t))" by simp
next
  fix n cutoff tot batches t p k t'
  assume "p = delete_batch n cutoff t" "(k, t') = p" "\<not> (k < n \<or> n = 0)"
  then show "((n, cutoff, (tot + k, batches + 1), t'), n, cutoff, (tot, batches), t) \<in> measure (\<lambda>(n, c, acc, t). length t)"
    using delete_batch_shrinks [of n cutoff t k t'] by simp
qed

definition batch_size :: "int option \<Rightarrow> int" where
  "batch_size o' = max 1 (min (int_or o' 1000) 5000)"

text \<open>The rows deleted and the number of batches.\<close>

definition cleanupExpiredLocationHistory ::
  "string option \<Rightarrow> timestamp \<Rightarrow> int option \<Rightarrow> int option \<Rightarrow> db \<Rightarrow> (nat \<times> nat) \<times> db" where
  "cleanupExpiredLocationHistory raw now batchSize retentionDays d =
     (let (r, t) = cleanup_loop (nat (batch_size batchSize)) (getExpirationCutoffDate raw now retentionDays) (0, 0) (worker_locations d)
      in (r, d\<lparr>worker_locations := t\<rparr>))"

section \<open>The history is cleaned up completely\<close>

lemma filter_take_drop: "distinct xs \<Longrightarrow> filter (\<lambda>x. x \<notin> set (take n xs)) xs = drop n xs"
proof -
  assume d: "distinct xs"
  have "filter (\<lambda>x. x \<notin> set (take n xs)) (take n xs @ drop n xs) = drop n xs"
    using set_take_disj_set_drop_if_distinct [OF d, of n n]
    unfolding filter_append by (auto simp: filter_empty_conv filter_id_conv)
  then show ?thesis by simp
qed

lemma delete_batch_exact:
  assumes "distinct (map wl_id t)"
  shows "delete_batch n cutoff t = (min n (length (filter (expired_location cutoff) t)),
    filter (\<lambda>x. x \<notin> set (take n (filter (expired_location cutoff) t))) t)"
proof -
  let ?E = "filter (expired_location cutoff) t"
  have sub: "set (take n ?E) \<subseteq> set t" using set_take_subset [of n ?E] by auto
  have mem: "wl_id x \<in> set (map wl_id (take n ?E)) \<longleftrightarrow> x \<in> set (take n ?E)" if "x \<in> set t" for x
    using that sub key_unique [OF assms] by auto
  have dt: "distinct t" using assms by (simp add: distinct_map)
  have "countWhere (\<lambda>x. wl_id x \<in> set (map wl_id (take n ?E))) t = length (filter (\<lambda>x. x \<in> set (take n ?E)) t)"
    unfolding countWhere_def by (intro arg_cong [where f = length] filter_cong refl mem)
  also have "\<dots> = card (set (take n ?E))"
    using dt sub by (simp add: distinct_card [symmetric] distinct_filter Int_absorb1 Collect_conj_eq Int_def [symmetric] del: set_take_subset)
  also have "\<dots> = min n (length ?E)" using dt by (simp add: distinct_card min.commute)
  finally have "countWhere (\<lambda>x. wl_id x \<in> set (map wl_id (take n ?E))) t = min n (length ?E)" .
  moreover have "deleteMany (\<lambda>x. wl_id x \<in> set (map wl_id (take n ?E))) t = filter (\<lambda>x. x \<notin> set (take n ?E)) t"
    unfolding deleteMany_def using mem by (intro filter_cong) auto
  ultimately show ?thesis by (simp add: delete_batch_def Let_def)
qed

lemma cleanup_loop_exact:
  assumes "distinct (map wl_id t)" "0 < n"
  shows "cleanup_loop n cutoff (a, b) t =
    ((a + length (filter (expired_location cutoff) t), b + length (filter (expired_location cutoff) t) div n + 1),
     filter (\<lambda>x. \<not> expired_location cutoff x) t)"
  using assms
proof (induction n cutoff "(a, b)" t arbitrary: a b rule: cleanup_loop.induct)
  case (1 n cutoff a b t)
  let ?E = "filter (expired_location cutoff) t" and ?t = "filter (\<lambda>x. x \<notin> set (take n (filter (expired_location cutoff) t))) t"
  note db = delete_batch_exact [OF 1(2), of n cutoff]
  have dt: "distinct t" using 1(2) by (simp add: distinct_map)
  have keep: "filter (\<lambda>x. \<not> expired_location cutoff x) ?t = filter (\<lambda>x. \<not> expired_location cutoff x) t"
    unfolding filter_filter by (intro filter_cong) (auto dest: in_set_takeD)
  have rest: "filter (expired_location cutoff) ?t = drop n ?E"
  proof -
    have "filter (expired_location cutoff) ?t = filter (\<lambda>x. x \<notin> set (take n ?E)) ?E"
      unfolding filter_filter by (intro filter_cong) auto
    then show ?thesis using filter_take_drop [of ?E n] dt by simp
  qed
  show ?case
  proof (cases "length ?E < n")
    case True
    then have "?t = filter (\<lambda>x. \<not> expired_location cutoff x) t" by (intro filter_cong) auto
    with True db show ?thesis by (simp add: Let_def)
  next
    case False
    have dist: "distinct (map wl_id ?t)" using 1(2) by (simp add: distinct_map_filter)
    from False have m: "min n (length ?E) = n" by simp
    have "cleanup_loop n cutoff (a, b) t = cleanup_loop n cutoff (a + n, b + 1) ?t"
      using db 1(3) by (subst cleanup_loop.simps) (simp add: m Let_def del: cleanup_loop.simps)
    also have "\<dots> = ((a + n + length (drop n ?E), b + 1 + length (drop n ?E) div n + 1), filter (\<lambda>x. \<not> expired_location cutoff x) t)"
      using 1(1) [OF refl, of n ?t] db dist 1(3) unfolding m by (simp add: rest keep del: cleanup_loop.simps filter_filter)
    also have "length (drop n ?E) div n + 1 = length ?E div n"
      using False 1(3) by (simp add: le_div_geq)
    ultimately show ?thesis using False by simp
  qed
qed

text \<open>
  The clean-up of the location history ends, whatever the batch size of a request, and then exactly the rows
  older than the retention window are gone, the others kept in order; it reports their number and one batch more
  than it filled. Live positions and everything else in the database stay as they are.
\<close>

theorem cleanup_complete:
  assumes "distinct (map wl_id (worker_locations d))"
    and "cleanupExpiredLocationHistory raw now batchSize retentionDays d = ((deleted, batches), d')"
    and "cutoff = getExpirationCutoffDate raw now retentionDays"
  shows "worker_locations d' = filter (\<lambda>x. \<not> expired_location cutoff x) (worker_locations d) \<and>
    deleted = countWhere (expired_location cutoff) (worker_locations d) \<and>
    int batches = int deleted div batch_size batchSize + 1 \<and> 1 \<le> batch_size batchSize \<and> batch_size batchSize \<le> 5000 \<and>
    d' = d\<lparr>worker_locations := worker_locations d'\<rparr>"
proof -
  have b: "1 \<le> batch_size batchSize" "batch_size batchSize \<le> 5000" by (simp_all add: batch_size_def)
  from cleanup_loop_exact [OF assms(1), of "nat (batch_size batchSize)" cutoff 0 0] assms(2,3) b
  have "((deleted, batches), d') = ((length (filter (expired_location cutoff) (worker_locations d)),
      length (filter (expired_location cutoff) (worker_locations d)) div nat (batch_size batchSize) + 1),
    d\<lparr>worker_locations := filter (\<lambda>x. \<not> expired_location cutoff x) (worker_locations d)\<rparr>)"
    by (auto simp: cleanupExpiredLocationHistory_def simp del: cleanup_loop.simps)
  with b show ?thesis by (auto simp: countWhere_def zdiv_int)
qed

definition sample_locations :: "worker_location list" where
  "sample_locations = [\<lparr>wl_id = ''l1'', wl_worker_id = ''w1'', wl_location_geo = None, wl_updated_at = Some 5\<rparr>,
     \<lparr>wl_id = ''l2'', wl_worker_id = ''w1'', wl_location_geo = None, wl_updated_at = Some 200000000\<rparr>]"

theorem cleanup_complete_witness:
  "let d = empty_db\<lparr>worker_locations := sample_locations\<rparr>;
       r = cleanupExpiredLocationHistory None 200000000 (Some 1) (Some 1) d
   in worker_locations (snd r) = filter (\<lambda>x. \<not> expired_location 113600000 x) sample_locations \<and> fst (fst r) = 1 \<and>
      snd (fst r) = 2"
proof -
  let ?d = "empty_db\<lparr>worker_locations := sample_locations\<rparr>"
  let ?r = "cleanupExpiredLocationHistory None 200000000 (Some 1) (Some 1) ?d"
  have d: "distinct (map wl_id (worker_locations ?d))" by code_simp
  have c: "113600000 = getExpirationCutoffDate None 200000000 (Some 1)" by code_simp
  have n: "countWhere (expired_location 113600000) (worker_locations ?d) = 1" by code_simp
  from cleanup_complete [OF d _ c, of "Some 1" "fst (fst ?r)" "snd (fst ?r)" "snd ?r"] n show ?thesis
    by (simp add: batch_size_def int_or_def Let_def)
qed

section \<open>Documents stay with their owner\<close>

text \<open>A stored document names a normalised object; below \<^verbatim>\<open>workers/\<close> it is one of its owner's.\<close>

definition document_ok :: "platform \<Rightarrow> worker_document \<Rightarrow> bool" where
  "document_ok F doc \<longleftrightarrow> (\<exists>k. wd_file_url doc = Some k \<and> k \<noteq> [] \<and> object_key F k = Inr k \<and>
     (startsWith k ''workers/'' \<longrightarrow> startsWith k (''workers/'' @ wd_worker_id doc @ ''/'')))"

datatype document_call =
    Upload uuid uuid UploadWorkerDocumentReq
  | Delete timestamp AuthenticatedUser uuid
  | Review timestamp uuid string "string option"

text \<open>The request schema demands a non-empty URL.\<close>

fun document_exec :: "platform \<Rightarrow> document_call \<Rightarrow> db \<Rightarrow> db" where
  "document_exec F (Upload i w p) d = (if ud_file_url p = [] then d else snd (uploadDocument F i w p d))"
| "document_exec F (Delete now a i) d = snd (snd (deleteDocument F (\<lambda>k s. s) now a i ((), d)))"
| "document_exec F (Review now w status admin) d = snd (verifyWorkerDocument now w status admin d)"

definition documents_ok :: "platform \<Rightarrow> db \<Rightarrow> bool" where
  "documents_ok F d \<longleftrightarrow> list_all (document_ok F) (worker_documents d)"

lemma posix_nonempty: "posix_normalize s \<noteq> []"
  by (simp add: posix_normalize_def Let_def)

lemma object_key_nonempty: "object_key F s = Inr k \<Longrightarrow> s \<noteq> [] \<Longrightarrow> k \<noteq> []"
  by (auto simp: object_key_def normalizeObjectKey_def posix_nonempty Let_def split: if_splits)

lemma object_key_fixed: "object_key F s = Inr k \<Longrightarrow> k \<noteq> [] \<Longrightarrow> object_key F k = Inr k"
  using keys_confined_lemma [of F s k "[''r'']"] by (simp add: plain_seg_def slash_def)

lemma upload_ok:
  assumes "documents_ok F d" "ud_file_url p \<noteq> []"
  shows "documents_ok F (snd (uploadDocument F i w p d))"
proof (cases "object_key F (ud_file_url p)")
  case (Inr k)
  note k = object_key_nonempty [OF Inr assms(2)]
  with object_key_fixed [OF Inr k] assms(1) Inr show ?thesis
    by (auto simp: uploadDocument_def documents_ok_def document_ok_def Let_def)
next
  case (Inl e)
  with assms(1) show ?thesis by (simp add: uploadDocument_def)
qed

lemma recordEvent_documents [simp]: "worker_documents (snd (recordEvent now e d)) = worker_documents d"
  by (simp add: recordEvent_def)

lemma delete_ok: "documents_ok F d \<Longrightarrow> documents_ok F (snd (snd (deleteDocument F del now a i (s, d))))"
  by (auto simp: deleteDocument_def recordEvent_def documents_ok_def deleteMany_def list_all_iff Let_def split: option.splits sum.splits)

lemma document_ok_status [simp]: "document_ok F (x\<lparr>wd_status := s\<rparr>) = document_ok F x"
  by (simp add: document_ok_def)

lemma review_ok: "documents_ok F d \<Longrightarrow> documents_ok F (snd (verifyWorkerDocument now w status admin d))"
  unfolding verifyWorkerDocument_def
proof (rule run_tx_preserves)
  fix a d'
  assume ok: "documents_ok F d" and v: "verify_tx now w status admin d = Inr (a, d')"
  from v have "worker_documents d' = updateMany (pending_document w) (\<lambda>x. x\<lparr>wd_status := status\<rparr>) (worker_documents d)"
    by (auto simp: verify_tx_def update_worker_def Let_def split: if_splits option.splits)
  with ok show "documents_ok F d'" by (auto simp: documents_ok_def list_all_iff set_updateMany)
qed

interpretation document_system: invariant_system "document_exec F" "documents_ok F" for F
proof
  fix s l
  assume "documents_ok F s"
  then show "documents_ok F (document_exec F l s)" by (cases l) (simp_all add: upload_ok delete_ok review_ok)
qed

lemma readable_document:
  "assertPolicy (worker_canReadDocument a w) = Inr x \<Longrightarrow> au_role a = ADMIN \<or> au_role a = WORKER \<and> au_id a = w"
proof -
  have r: "toLowerCase (user_role_str r) = user_role_str r" for r by (cases r) (simp_all add: toLowerCase_def lower_char_def)
  show "assertPolicy (worker_canReadDocument a w) = Inr x \<Longrightarrow> au_role a = ADMIN \<or> au_role a = WORKER \<and> au_id a = w"
    unfolding worker_canReadDocument_def r by (cases "au_role a") (auto split: if_splits)
qed

text \<open>
  C22. Whatever documents workers attach and delete and administrators review, whoever obtains a download link for a
  document is an administrator or the worker who attached it, and a link given to a worker never opens an object
  below another worker's directory: its key is outside \<^verbatim>\<open>workers/\<close> or below the worker's own.
\<close>

theorem documents_private:
  assumes "d = fold (document_exec F) calls d0" "worker_documents d0 = []"
    and "getDocumentAccessUrl F cfg now fresh actor i d = Inr u"
  shows "(\<exists>doc\<in>set (worker_documents d). wd_id doc = i \<and> wd_file_url doc = Some (su_objectKey u) \<and>
      (au_role actor = ADMIN \<or> au_role actor = WORKER \<and> wd_worker_id doc = au_id actor)) \<and>
    (au_role actor \<noteq> ADMIN \<longrightarrow> startsWith (su_objectKey u) ''workers/'' \<longrightarrow>
      startsWith (su_objectKey u) (''workers/'' @ au_id actor @ ''/''))"
proof -
  have ok: "documents_ok F d" unfolding assms(1)
    by (rule document_system.fold_inv) (simp add: documents_ok_def assms(2))
  from assms(3) obtain doc x where doc: "findUnique wd_id i (worker_documents d) = Some doc"
    and pol: "assertPolicy (worker_canReadDocument actor (wd_worker_id doc)) = Inr x"
    and u: "getSignedDownloadUrl F cfg now (document_key fresh doc) None = Inr u"
    by (auto simp: getDocumentAccessUrl_def split: option.splits sum.splits)
  note mem = findUnique_Some [OF doc]
  with ok obtain k where k: "wd_file_url doc = Some k" "k \<noteq> []" "object_key F k = Inr k"
    "startsWith k ''workers/'' \<longrightarrow> startsWith k (''workers/'' @ wd_worker_id doc @ ''/'')"
    by (auto simp: documents_ok_def document_ok_def list_all_iff)
  from u k have "su_objectKey u = k" by (auto simp: getSignedDownloadUrl_def document_key_def js_or_def Let_def)
  with mem k readable_document [OF pol] show ?thesis by auto
qed

definition sample_doc_worker :: worker where
  "sample_doc_worker = \<lparr>wk_id = ''w1'', wk_phone = ''+911'', wk_verification_status = ''pending'', wk_deleted_at = None,
     wk_decline_count = None, wk_name = ''n'', wk_is_online = None, wk_location_geo = None, wk_last_location_at = None,
     wk_skill_category_id = ''s1'', wk_worker_score = None, wk_skill_type = ''General'', wk_timeout_count = None,
     wk_password = ''h'', wk_aadhaar_last4 = None\<rparr>"

definition sample_document_calls :: "document_call list" where
  "sample_document_calls =
     [Upload ''d1'' ''w1'' \<lparr>ud_worker_id = None, ud_document_type = ''AADHAAR'', ud_file_url = ''workers/w2/documents/x.pdf''\<rparr>,
      Upload ''d1'' ''w1'' \<lparr>ud_worker_id = None, ud_document_type = ''AADHAAR'', ud_file_url = ''workers/w1//documents/x.pdf''\<rparr>]"

theorem documents_private_witness:
  "\<exists>u. getDocumentAccessUrl sample_platform sample_storage 0 ''f'' \<lparr>au_id = ''w1'', au_role = WORKER\<rparr> ''d1''
      (fold (document_exec sample_platform) sample_document_calls (empty_db\<lparr>workers := [sample_doc_worker]\<rparr>)) = Inr u \<and>
    su_objectKey u = ''workers/w1/documents/x.pdf'' \<and> startsWith (su_objectKey u) (''workers/'' @ ''w1'' @ ''/'')"
proof -
  let ?d0 = "empty_db\<lparr>workers := [sample_doc_worker]\<rparr>"
  let ?d = "fold (document_exec sample_platform) sample_document_calls ?d0"
  let ?a = "\<lparr>au_id = ''w1'', au_role = WORKER\<rparr>"
  have k: "(case getDocumentAccessUrl sample_platform sample_storage 0 ''f'' ?a ''d1'' ?d of Inr u \<Rightarrow> su_objectKey u | Inl e \<Rightarrow> [])
      = ''workers/w1/documents/x.pdf''" by code_simp
  then obtain u where u: "getDocumentAccessUrl sample_platform sample_storage 0 ''f'' ?a ''d1'' ?d = Inr u"
    by (cases "getDocumentAccessUrl sample_platform sample_storage 0 ''f'' ?a ''d1'' ?d") auto
  with k have s: "su_objectKey u = ''workers/w1/documents/x.pdf''" by simp
  from documents_private [OF refl _ u] have "startsWith (su_objectKey u) (''workers/'' @ ''w1'' @ ''/'')"
    by (simp add: s empty_db_def)
  with u s show ?thesis by blast
qed

section \<open>Suspension\<close>

interpretation worker_rows: keyed_update wk_id "\<lambda>now. suspend_row now"
  by unfold_locales (simp add: suspend_row_def)

lemma suspendWorker_Inr:
  assumes "suspendWorker now w reason admin d0 d = (Inr dto, d')"
  obtains x n where "findUnique wk_id w (workers d) = Some x" "dto = toWorkerAdminDTO (suspend_row now x)"
    "workers d' = updateMany (\<lambda>x. wk_id x = w) (suspend_row now) (workers d)"
    "sessions d' = updateMany (\<lambda>s. se_user_id s = w \<and> revocable s) (apply_session_update (Revoked now ''SUSPENDED'')) (sessions d)"
    "\<exists>e. audit_logs d' = audit_logs d @ [e] \<and> al_action e = ''WORKER_SUSPENDED'' \<and> al_target_id e = w"
proof -
  from assms obtain prev where "run_tx (suspend_tx now w prev reason admin) d = (Inr dto, d')"
    by (auto simp: suspendWorker_def split: option.splits)
  then have s: "suspend_tx now w prev reason admin d = Inr (dto, d')"
    by (cases "suspend_tx now w prev reason admin" d rule: run_tx_cases) auto
  then obtain x where "findUnique wk_id w (workers d) = Some x" by (auto simp: suspend_tx_def split: option.splits)
  with s that show ?thesis
    by (auto simp: suspend_tx_def update_sessions_def update_worker_def recordEvent_def audit_row_def admin_event_def Let_def)
qed

lemma suspended_row:
  assumes "suspendWorker now w reason admin d0 d = (Inr dto, d')"
  shows "\<exists>x. findUnique wk_id w (workers d') = Some x \<and> wk_deleted_at x = Some now \<and> wk_verification_status x = ''suspended''"
proof -
  from assms obtain x where x: "findUnique wk_id w (workers d) = Some x"
    "workers d' = updateMany (\<lambda>x. wk_id x = w) (suspend_row now) (workers d)" by (rule suspendWorker_Inr)
  from worker_rows.findUnique_update_same [OF x(1), of now] show ?thesis unfolding x(2) by (simp add: suspend_row_def)
qed

lemma suspended_sessions:
  assumes "suspendWorker now w reason admin d0 d = (Inr dto, d')" "s \<in> set (sessions d')" "se_user_id s = w"
  shows "\<not> revocable s"
proof -
  from assms(1) have "sessions d' = updateMany (\<lambda>s. se_user_id s = w \<and> revocable s) (apply_session_update (Revoked now ''SUSPENDED'')) (sessions d)"
    by (rule suspendWorker_Inr)
  with assms(2) have "s \<in> set (updateMany (\<lambda>s. se_user_id s = w \<and> revocable s) (apply_session_update (Revoked now ''SUSPENDED'')) (sessions d))"
    by simp
  from updateMany_memD [OF this] obtain s0 where s0: "s = (if se_user_id s0 = w \<and> revocable s0 then apply_session_update (Revoked now ''SUSPENDED'') s0 else s0)"
    by blast
  show ?thesis
  proof (cases "se_user_id s0 = w \<and> revocable s0")
    case True
    with s0 have "se_status s = ''REVOKED''" by simp
    then show ?thesis by (simp add: revocable_def)
  next
    case False
    with s0 assms(3) show ?thesis by simp
  qed
qed

text \<open>A review of pending documents renames the status but does not reopen a suspended account.\<close>

lemma review_keeps_deleted:
  assumes "findUnique wk_id w (workers d) = Some x" "wk_deleted_at x \<noteq> None"
  shows "\<exists>y. findUnique wk_id w (workers (snd (verifyWorkerDocument now v status admin d))) = Some y \<and> wk_deleted_at y \<noteq> None"
proof (cases "verify_tx now v status admin" d rule: run_tx_cases)
  case throws
  with assms show ?thesis by (simp add: verifyWorkerDocument_def)
next
  case (commits a d')
  then obtain st where "workers d' = updateMany (\<lambda>x. wk_id x = v) (\<lambda>x. x\<lparr>wk_verification_status := st\<rparr>) (workers d)"
    by (auto simp: verify_tx_def update_worker_def recordEvent_def Let_def split: if_splits option.splits)
  then have w: "workers (snd (verifyWorkerDocument now v status admin d)) =
    updateMany (\<lambda>x. wk_id x = v) (\<lambda>x. x\<lparr>wk_verification_status := st\<rparr>) (workers d)"
    using commits by (simp add: verifyWorkerDocument_def)
  have "findUnique wk_id w (updateMany (\<lambda>x. wk_id x = v) (\<lambda>x. x\<lparr>wk_verification_status := st\<rparr>) t) =
    map_option (\<lambda>r. if wk_id r = v then r\<lparr>wk_verification_status := st\<rparr> else r) (findUnique wk_id w t)" for t :: "worker list"
    by (induction t) (auto simp: findUnique_def updateMany_def)
  then show ?thesis unfolding w using assms by auto
qed

end
