(* ===== verification/Sockets.thy ===== *)
theory Sockets
  imports Marketplace Reviews_Chat Workers Access_Guards Outbox
begin

text \<open>
  The real-time side of the program: \<^verbatim>\<open>src/socket/socketHandlers.ts\<close>, \<^verbatim>\<open>roomHelpers.ts\<close>, \<^verbatim>\<open>socketLifecycle.ts\<close> and
  the broadcast of \<^verbatim>\<open>src/features/chat/chatController.ts\<close>. The state is a \<open>hub\<close>: the database, the handshakes that
  were accepted and not yet connected, the connected sockets with their rooms, and everything delivered so far,
  each delivery with the user whose socket received it.

  A handshake is two steps, the authentication and the connection, because the first waits for the database and
  anything may happen in between. An event handler is one step. What a handler takes from outside, a database that
  throws, the clock, generated ids and the stored geography, is the record \<open>event_env\<close>. An acknowledgement keeps
  its code and data; its texts are left out. The optional callback is always given, and a socket's own default
  room, which nothing is sent to, is left out.
\<close>

section \<open>Rooms\<close>

definition getBookingChatRoom :: "uuid \<Rightarrow> string" where
  "getBookingChatRoom bookingId = ''booking:'' @ bookingId"

definition getWorkerPersonalRoom :: "uuid \<Rightarrow> string" where
  "getWorkerPersonalRoom workerId = ''worker:'' @ workerId"

definition getCustomerPersonalRoom :: "uuid \<Rightarrow> string" where
  "getCustomerPersonalRoom customerId = ''customer:'' @ customerId"

definition getAdminPersonalRoom :: "uuid \<Rightarrow> string" where
  "getAdminPersonalRoom adminId = ''admin:'' @ adminId"

definition getJobRoom :: "uuid \<Rightarrow> string" where
  "getJobRoom jobId = ''job:'' @ jobId"

definition getRequirementRoom :: "uuid \<Rightarrow> string" where
  "getRequirementRoom requirementId = ''requirement:'' @ requirementId"

section \<open>The hub\<close>

record connection =
  cn_id :: string
  cn_user :: AuthenticatedUser
  cn_rooms :: "string list"

datatype emission =
    ErrorEvent string
  | WorkerLocation uuid rat rat
  | ChatMessage message
  | JobIncoming uuid uuid uuid

text \<open>A room is \<open>None\<close> where the event went to the one socket that caused it.\<close>

record delivery =
  dl_user :: AuthenticatedUser
  dl_room :: "string option"
  dl_event :: emission

record hub =
  hb_db :: db
  hb_server :: bool
  hb_pending :: "(string \<times> AuthenticatedUser) list"
  hb_sockets :: "connection list"
  hb_delivered :: "delivery list"

definition socket_join :: "connection \<Rightarrow> string \<Rightarrow> hub \<Rightarrow> hub" where
  "socket_join c room h = h\<lparr>hb_sockets :=
     updateMany (\<lambda>x. cn_id x = cn_id c) (\<lambda>x. x\<lparr>cn_rooms := List.insert room (cn_rooms x)\<rparr>) (hb_sockets h)\<rparr>"

definition deliver :: "string option \<Rightarrow> emission \<Rightarrow> (connection \<Rightarrow> bool) \<Rightarrow> hub \<Rightarrow> hub" where
  "deliver room e to h = h\<lparr>hb_delivered := hb_delivered h @
     map (\<lambda>c. \<lparr>dl_user = cn_user c, dl_room = room, dl_event = e\<rparr>) (filter to (hb_sockets h))\<rparr>"

text \<open>\<^verbatim>\<open>socket.emit(...)\<close> and \<^verbatim>\<open>io.to(room).emit(...)\<close>\<close>

definition socket_emit :: "connection \<Rightarrow> emission \<Rightarrow> hub \<Rightarrow> hub" where
  "socket_emit c e = deliver None e (\<lambda>x. cn_id x = cn_id c)"

definition io_emit :: "string \<Rightarrow> emission \<Rightarrow> hub \<Rightarrow> hub" where
  "io_emit room e = deliver (Some room) e (\<lambda>x. room \<in> set (cn_rooms x))"

section \<open>Acknowledgements\<close>

datatype ack_data = NoData | MessageData message | NotificationData "notification_outbox list" | AckedAt timestamp

datatype SocketAckResponse = AckOk ack_data | AckFail string

text \<open>Most refusals are sent as an error event and acknowledged with the same response.\<close>

definition refuse :: "connection \<Rightarrow> string \<Rightarrow> hub \<Rightarrow> SocketAckResponse \<times> hub" where
  "refuse c code h = (AckFail code, socket_emit c (ErrorEvent code) h)"

record event_env =
  ev_fault :: "error option"
  ev_write_fault :: "string option option"
  ev_now :: timestamp
  ev_ids :: "uuid \<times> uuid"
  ev_point :: "rat \<Rightarrow> rat \<Rightarrow> string"

text \<open>Client payloads are unchecked JSON.\<close>

fun json_truthy :: "json \<Rightarrow> bool" where
  "json_truthy (JStr s) = (s \<noteq> [])"
| "json_truthy (JInt n) = (n \<noteq> 0)"
| "json_truthy (JNum x) = (x \<noteq> NaN \<and> x \<noteq> Finite 0)"
| "json_truthy JNull = False"
| "json_truthy (JBool b) = b"
| "json_truthy (JArr _) = True"
| "json_truthy (JObj _) = True"

definition field_truthy :: "json option \<Rightarrow> bool" where
  "field_truthy v = (case v of None \<Rightarrow> False | Some j \<Rightarrow> json_truthy j)"

text \<open>\<^verbatim>\<open>!id || typeof id !== "string" || !isValidIdentifier(id)\<close>\<close>

definition valid_identifier :: "json option \<Rightarrow> uuid option" where
  "valid_identifier v = (case v of Some (JStr s) \<Rightarrow> if uuid_shape s then Some s else None | _ \<Rightarrow> None)"

section \<open>Connection\<close>

definition personal_rooms :: "AuthenticatedUser \<Rightarrow> string list" where
  "personal_rooms user =
     (case au_role user of
        WORKER \<Rightarrow> [getWorkerPersonalRoom (au_id user)]
      | CUSTOMER \<Rightarrow> [getCustomerPersonalRoom (au_id user)]
      | ADMIN \<Rightarrow> [getAdminPersonalRoom (au_id user), ''admins''])"

definition on_connection :: "string \<Rightarrow> AuthenticatedUser \<Rightarrow> hub \<Rightarrow> hub" where
  "on_connection sid user h =
     (if au_id user = [] then h
      else h\<lparr>hb_sockets := hb_sockets h @ [\<lparr>cn_id = sid, cn_user = user, cn_rooms = personal_rooms user\<rparr>]\<rparr>)"

definition on_disconnect :: "string \<Rightarrow> hub \<Rightarrow> hub" where
  "on_disconnect sid h = h\<lparr>hb_sockets := filter (\<lambda>c. cn_id c \<noteq> sid) (hb_sockets h)\<rparr>"

section \<open>Event handlers\<close>

definition join_worker :: "connection \<Rightarrow> json option \<Rightarrow> hub \<Rightarrow> SocketAckResponse \<times> hub" where
  "join_worker c workerId h =
     (let user = cn_user c in
      if au_role user \<noteq> WORKER \<and> au_role user \<noteq> ADMIN then refuse c ''FORBIDDEN'' h
      else if field_truthy workerId \<and> workerId \<noteq> Some (JStr (au_id user)) \<and> au_role user \<noteq> ADMIN
      then refuse c ''FORBIDDEN'' h
      else (AckOk NoData, socket_join c (getWorkerPersonalRoom (au_id user)) h))"

definition join_customer :: "connection \<Rightarrow> json option \<Rightarrow> hub \<Rightarrow> SocketAckResponse \<times> hub" where
  "join_customer c customerId h =
     (let user = cn_user c in
      if au_role user \<noteq> CUSTOMER \<and> au_role user \<noteq> ADMIN then refuse c ''FORBIDDEN'' h
      else if field_truthy customerId \<and> customerId \<noteq> Some (JStr (au_id user)) \<and> au_role user \<noteq> ADMIN
      then refuse c ''FORBIDDEN'' h
      else (AckOk NoData, socket_join c (getCustomerPersonalRoom (au_id user)) h))"

record WorkerLocationPayload =
  lp_customerId :: "json option"
  lp_lat :: "json option"
  lp_lng :: "json option"
  lp_workerId :: "json option"

text \<open>A customer id that is no string makes the query throw.\<close>

definition worker_location_update ::
  "event_env \<Rightarrow> connection \<Rightarrow> WorkerLocationPayload \<Rightarrow> hub \<Rightarrow> SocketAckResponse \<times> hub" where
  "worker_location_update E c p h =
     (let user = cn_user c in
      if au_role user \<noteq> WORKER then refuse c ''FORBIDDEN'' h
      else if field_truthy (lp_workerId p) \<and> lp_workerId p \<noteq> Some (JStr (au_id user)) then refuse c ''FORBIDDEN'' h
      else if \<not> field_truthy (lp_customerId p) then refuse c ''INVALID_REQUEST'' h
      else case validateCoordinatePair (lp_lat p) (lp_lng p) of
        Inr (Some (validLat, validLng)) \<Rightarrow>
          (case (ev_fault E, lp_customerId p) of
             (None, Some (JStr customerId)) \<Rightarrow>
               if findFirst (\<lambda>b. bk_worker_id b = au_id user \<and> bk_customer_id b = customerId \<and>
                    bk_status b \<in> set ACTIVE_LOCATION_STREAMING_STATUSES) (bookings (hb_db h)) = None
               then refuse c ''FORBIDDEN'' h
               else (case ev_write_fault E of Some code \<Rightarrow> refuse c (js_or code ''INVALID_REQUEST'') h
                 | None \<Rightarrow>
                     (case updateLocation (ev_point E) (ev_now E) (fst (ev_ids E)) (au_id user)
                             (Some (JNum (Finite validLat))) (Some (JNum (Finite validLng))) (hb_db h) of
                        (Inl e, d) \<Rightarrow> refuse c ''INVALID_REQUEST'' (h\<lparr>hb_db := d\<rparr>)
                      | (Inr _, d) \<Rightarrow> (AckOk NoData, io_emit (getCustomerPersonalRoom customerId)
                          (WorkerLocation (au_id user) validLat validLng) (h\<lparr>hb_db := d\<rparr>))))
           | _ \<Rightarrow> (AckFail ''INTERNAL_ERROR'', h))
      | _ \<Rightarrow> refuse c ''INVALID_REQUEST'' h)"

text \<open>
  The read of the three room handlers: the scoped query, then the unscoped one with the decision, whose code is the
  code of the refusal.
\<close>

definition find_authorized ::
  "('r \<Rightarrow> bool) \<Rightarrow> ('r \<Rightarrow> bool) \<Rightarrow> ('r \<Rightarrow> PolicyDecision) \<Rightarrow> (string \<Rightarrow> string) \<Rightarrow> 'r list \<Rightarrow> string + 'r" where
  "find_authorized scope isKey can code t =
     (case findFirst scope t of Some r \<Rightarrow> Inr r
      | None \<Rightarrow> (case findFirst isKey t of None \<Rightarrow> Inl ''RESOURCE_NOT_FOUND''
          | Some r \<Rightarrow> (case can r of Allowed \<Rightarrow> Inr r | Denied _ k \<Rightarrow> Inl (code k))))"

definition handleJoinBooking :: "event_env \<Rightarrow> connection \<Rightarrow> json option \<Rightarrow> hub \<Rightarrow> SocketAckResponse \<times> hub" where
  "handleJoinBooking E c bookingId h =
     (case valid_identifier bookingId of None \<Rightarrow> refuse c ''INVALID_REQUEST'' h
      | Some i \<Rightarrow>
          if ev_fault E \<noteq> None then (AckFail ''INTERNAL_ERROR'', h)
          else (case find_authorized (chat_scopeBooking (cn_user c) i) (\<lambda>b. bk_id b = i) (chat_canJoinRoom (cn_user c))
                  (\<lambda>_. ''FORBIDDEN'') (bookings (hb_db h)) of
              Inl code \<Rightarrow> refuse c code h
            | Inr _ \<Rightarrow> (AckOk NoData, socket_join c (getBookingChatRoom i) h)))"

definition join_job :: "event_env \<Rightarrow> connection \<Rightarrow> json option \<Rightarrow> hub \<Rightarrow> SocketAckResponse \<times> hub" where
  "join_job E c jobId h =
     (case valid_identifier jobId of None \<Rightarrow> refuse c ''INVALID_REQUEST'' h
      | Some i \<Rightarrow>
          if ev_fault E \<noteq> None then (AckFail ''INTERNAL_ERROR'', h)
          else (case find_authorized (job_scopeRead (cn_user c) (Some i) (hb_db h)) (\<lambda>j. jb_id j = i)
                  (\<lambda>j. job_canRead (cn_user c) (job_resource (hb_db h) j)) (\<lambda>k. js_or (Some k) ''FORBIDDEN'') (jobs (hb_db h)) of
              Inl code \<Rightarrow> refuse c code h
            | Inr _ \<Rightarrow> (AckOk NoData, socket_join c (getJobRoom i) h)))"

definition join_requirement :: "event_env \<Rightarrow> connection \<Rightarrow> json option \<Rightarrow> hub \<Rightarrow> SocketAckResponse \<times> hub" where
  "join_requirement E c requirementId h =
     (case valid_identifier requirementId of None \<Rightarrow> refuse c ''INVALID_REQUEST'' h
      | Some i \<Rightarrow>
          if ev_fault E \<noteq> None then (AckFail ''INTERNAL_ERROR'', h)
          else (case find_authorized (requirement_scopeRead (cn_user c) (Some i) (hb_db h)) (\<lambda>r. rq_id r = i)
                  (\<lambda>r. requirement_canRead (cn_user c) (requirement_resource (hb_db h) r)) (\<lambda>k. js_or (Some k) ''FORBIDDEN'')
                  (requirements (hb_db h)) of
              Inl code \<Rightarrow> refuse c code h
            | Inr _ \<Rightarrow> (AckOk NoData, socket_join c (getRequirementRoom i) h)))"

text \<open>The code of a failed message; errors without a code fall back to the last one.\<close>

fun chat_error_code :: "error \<Rightarrow> string" where
  "chat_error_code (AuthorizationError s k) =
     (if s = 403 then ''FORBIDDEN'' else if s = 404 then ''RESOURCE_NOT_FOUND'' else js_or (Some k) ''INTERNAL_ERROR'')"
| "chat_error_code (CodedError k) =
     (if k = ''NOT_PARTICIPANT'' then ''FORBIDDEN'' else if k = ''RESOURCE_NOT_FOUND'' then k else js_or (Some k) ''INTERNAL_ERROR'')"
| "chat_error_code (PlainError m) =
     (if m = ''Unauthorized'' \<or> js_includes m ''Forbidden'' then ''FORBIDDEN''
      else if m = ''Booking not found'' then ''RESOURCE_NOT_FOUND'' else ''INTERNAL_ERROR'')"
| "chat_error_code (PrismaUniqueViolation _) = ''P2002''"
| "chat_error_code PrismaRecordNotFound = ''P2025''"
| "chat_error_code _ = ''INTERNAL_ERROR''"

definition chat_message :: "event_env \<Rightarrow> connection \<Rightarrow> json option \<Rightarrow> json option \<Rightarrow> hub \<Rightarrow> SocketAckResponse \<times> hub" where
  "chat_message E c bookingId content h =
     (case (valid_identifier bookingId, content) of
        (Some i, Some (JStr text)) \<Rightarrow>
          if trim text = [] then refuse c ''INVALID_REQUEST'' h
          else if length (trim text) > 2000 then refuse c ''INVALID_REQUEST'' h
          else (case ev_fault E of Some e \<Rightarrow> refuse c (chat_error_code e) h
            | None \<Rightarrow>
                (case sendMessage (fst (ev_ids E)) (snd (ev_ids E)) (ev_now E) i (au_id (cn_user c)) (trim text)
                        (Some (cn_user c)) (hb_db h) (hb_db h) of
                   (Inl e, d) \<Rightarrow> refuse c (chat_error_code e) (h\<lparr>hb_db := d\<rparr>)
                 | (Inr m, d) \<Rightarrow> (AckOk (MessageData m), io_emit (getBookingChatRoom i) (ChatMessage m) (h\<lparr>hb_db := d\<rparr>))))
      | _ \<Rightarrow> refuse c ''INVALID_REQUEST'' h)"

definition notification_sync :: "event_env \<Rightarrow> connection \<Rightarrow> hub \<Rightarrow> SocketAckResponse \<times> hub" where
  "notification_sync E c h =
     (if au_role (cn_user c) = CUSTOMER
      then (if ev_fault E \<noteq> None then (AckFail ''SYNC_FAILED'', h)
            else (AckOk (NotificationData (getUnreadNotifications (au_id (cn_user c)) 50 (hb_db h))), h))
      else (AckOk (NotificationData []), h))"

definition notification_ack :: "event_env \<Rightarrow> connection \<Rightarrow> json option \<Rightarrow> hub \<Rightarrow> SocketAckResponse \<times> hub" where
  "notification_ack E c notificationId h =
     (if \<not> field_truthy notificationId then (AckFail ''BAD_REQUEST'', h)
      else if au_role (cn_user c) = CUSTOMER
      then (case (ev_fault E, notificationId) of
              (None, Some (JStr i)) \<Rightarrow>
                (case acknowledgeNotification (ev_now E) (au_id (cn_user c)) i (hb_db h) of
                   (Inl e, d) \<Rightarrow> (AckFail (if statusCode e = Some 404 then ''NOT_FOUND'' else ''ACK_FAILED''), h\<lparr>hb_db := d\<rparr>)
                 | (Inr t, d) \<Rightarrow> (AckOk (AckedAt t), h\<lparr>hb_db := d\<rparr>))
            | (Some e, _) \<Rightarrow> (AckFail (if statusCode e = Some 404 then ''NOT_FOUND'' else ''ACK_FAILED''), h)
            | _ \<Rightarrow> (AckFail ''ACK_FAILED'', h))
      else (AckOk NoData, h))"

datatype socket_event =
    JoinWorker "json option"
  | JoinCustomer "json option"
  | LocationUpdate WorkerLocationPayload
  | JoinBooking "json option"
  | JoinJob "json option"
  | JoinRequirement "json option"
  | ChatSend "json option" "json option"
  | NotificationSync
  | NotificationAck "json option"

fun socket_handle :: "event_env \<Rightarrow> connection \<Rightarrow> socket_event \<Rightarrow> hub \<Rightarrow> SocketAckResponse \<times> hub" where
  "socket_handle E c (JoinWorker i) h = join_worker c i h"
| "socket_handle E c (JoinCustomer i) h = join_customer c i h"
| "socket_handle E c (LocationUpdate p) h = worker_location_update E c p h"
| "socket_handle E c (JoinBooking i) h = handleJoinBooking E c i h"
| "socket_handle E c (JoinJob i) h = join_job E c i h"
| "socket_handle E c (JoinRequirement i) h = join_requirement E c i h"
| "socket_handle E c (ChatSend i t) h = chat_message E c i t h"
| "socket_handle E c NotificationSync h = notification_sync E c h"
| "socket_handle E c (NotificationAck i) h = notification_ack E c i h"

section \<open>Lifecycle and the callers of other components\<close>

definition registerSocketHandlers :: "db \<Rightarrow> hub" where
  "registerSocketHandlers d = \<lparr>hb_db = d, hb_server = True, hb_pending = [], hb_sockets = [], hb_delivered = []\<rparr>"

definition user_room :: "UserRole \<Rightarrow> uuid \<Rightarrow> string" where
  "user_room role userId =
     (case role of WORKER \<Rightarrow> getWorkerPersonalRoom userId | CUSTOMER \<Rightarrow> getCustomerPersonalRoom userId
      | ADMIN \<Rightarrow> getAdminPersonalRoom userId)"

definition disconnectUserSockets :: "uuid \<Rightarrow> UserRole \<Rightarrow> hub \<Rightarrow> hub" where
  "disconnectUserSockets userId role h =
     (if \<not> hb_server h then h
      else h\<lparr>hb_sockets := filter (\<lambda>c. user_room role userId \<notin> set (cn_rooms c)) (hb_sockets h)\<rparr>)"

text \<open>The suspension with the step after its transaction.\<close>

definition suspendWorker_live ::
  "timestamp \<Rightarrow> uuid \<Rightarrow> string \<Rightarrow> string option \<Rightarrow> db \<Rightarrow> hub \<Rightarrow> (error + WorkerAdminDTO) \<times> hub" where
  "suspendWorker_live now w reason adminId d0 h =
     (case suspendWorker now w reason adminId d0 (hb_db h) of
        (Inl e, d) \<Rightarrow> (Inl e, h\<lparr>hb_db := d\<rparr>)
      | (Inr dto, d) \<Rightarrow> (Inr dto, disconnectUserSockets w WORKER (h\<lparr>hb_db := d\<rparr>)))"

text \<open>The HTTP answers of the chat controller: the status, and the message or the messages.\<close>

fun handleChatError :: "error \<Rightarrow> int" where
  "handleChatError (AuthorizationError s _) = (if s = 0 then 403 else s)"
| "handleChatError (CodedError k) = (if k = ''NOT_PARTICIPANT'' then 403 else if k = ''RESOURCE_NOT_FOUND'' then 404 else 500)"
| "handleChatError (PlainError m) = (if js_includes m ''Forbidden'' then 403 else if m = ''Booking not found'' then 404 else 500)"
| "handleChatError e = (case statusCode e of Some s \<Rightarrow> if s = 0 then 500 else s | None \<Rightarrow> 500)"

definition http_getMessages :: "event_env \<Rightarrow> uuid \<Rightarrow> AuthenticatedUser option \<Rightarrow> hub \<Rightarrow> (int + message list) \<times> hub" where
  "http_getMessages E bookingId actor h =
     (case actor of None \<Rightarrow> (Inl 401, h)
      | Some a \<Rightarrow> (case getMessages (fst (ev_ids E)) bookingId (Some a) (hb_db h) (hb_db h) of
            (Inl e, d) \<Rightarrow> (Inl (handleChatError e), h\<lparr>hb_db := d\<rparr>)
          | (Inr ms, d) \<Rightarrow> (Inr ms, h\<lparr>hb_db := d\<rparr>)))"

definition http_sendMessage ::
  "event_env \<Rightarrow> uuid \<Rightarrow> string \<Rightarrow> AuthenticatedUser option \<Rightarrow> hub \<Rightarrow> (int + message) \<times> hub" where
  "http_sendMessage E bookingId content actor h =
     (case actor of None \<Rightarrow> (Inl 401, h)
      | Some a \<Rightarrow>
          (case sendMessage (fst (ev_ids E)) (snd (ev_ids E)) (ev_now E) bookingId (au_id a) content (Some a) (hb_db h) (hb_db h) of
             (Inl e, d) \<Rightarrow> (Inl (handleChatError e), h\<lparr>hb_db := d\<rparr>)
           | (Inr m, d) \<Rightarrow> (Inr m, if hb_server h then io_emit (getBookingChatRoom bookingId) (ChatMessage m) (h\<lparr>hb_db := d\<rparr>)
                                    else h\<lparr>hb_db := d\<rparr>)))"

text \<open>The offer of the notification worker: \<^verbatim>\<open>io.to(`worker:${w.id}`).emit('job:incoming', ...)\<close>.\<close>

definition emit_job_incoming :: "uuid \<Rightarrow> uuid \<Rightarrow> uuid \<Rightarrow> hub \<Rightarrow> hub" where
  "emit_job_incoming workerId requirementId jobId h =
     (if hb_server h then io_emit (getWorkerPersonalRoom workerId) (JobIncoming workerId requirementId jobId) h else h)"

section \<open>Runs\<close>

text \<open>
  What can happen to the hub, in any order: handshakes and connections, events of connected sockets, disconnections,
  the market requests of other processes, messages over HTTP, suspensions. Socket ids are fresh.
\<close>

inductive hub_step :: "jwt_verify \<Rightarrow> error + JwtConfig \<Rightarrow> hub \<Rightarrow> hub \<Rightarrow> bool" for v config where
  handshake: "socketAuthMiddleware up v config hs (hb_db h) = Inr u \<Longrightarrow>
     hub_step v config h (h\<lparr>hb_pending := (sid, u) # hb_pending h\<rparr>)"
| connects: "(sid, u) \<in> set (hb_pending h) \<Longrightarrow> sid \<notin> cn_id ` set (hb_sockets h) \<Longrightarrow>
     hub_step v config h (on_connection sid u (h\<lparr>hb_pending := remove1 (sid, u) (hb_pending h)\<rparr>))"
| event: "c \<in> set (hb_sockets h) \<Longrightarrow> hub_step v config h (snd (socket_handle E c e h))"
| disconnects: "hub_step v config h (on_disconnect sid h)"
| market: "hub_step v config h (h\<lparr>hb_db := serve w q (hb_db h)\<rparr>)"
| http_send: "hub_step v config h (snd (http_sendMessage E i text actor h))"
| http_get: "hub_step v config h (snd (http_getMessages E i actor h))"
| offers: "hub_step v config h (emit_job_incoming k r j h)"
| suspends: "hub_step v config h (snd (suspendWorker_live now w reason admin d0 h))"

text \<open>The invariants of a step relation: what every step keeps holds after every run.\<close>

locale transition_invariant =
  fixes step :: "'s \<Rightarrow> 's \<Rightarrow> bool"
    and inv :: "'s \<Rightarrow> bool"
  assumes step_inv: "step s s' \<Longrightarrow> inv s \<Longrightarrow> inv s'"
begin

lemma run_inv: "step\<^sup>*\<^sup>* s s' \<Longrightarrow> inv s \<Longrightarrow> inv s'"
  by (induction rule: rtranclp_induct) (auto intro: step_inv)

end

section \<open>Participants are never taken off a booking\<close>

definition seat :: "booking \<Rightarrow> uuid \<times> uuid \<times> uuid" where
  "seat b = (bk_id b, bk_customer_id b, bk_worker_id b)"

definition seats :: "db \<Rightarrow> (uuid \<times> uuid \<times> uuid) set" where
  "seats d = seat ` set (bookings d)"

lemma seats_cong: "bookings d' = bookings d \<Longrightarrow> seats d' = seats d"
  by (simp add: seats_def)

lemma seats_update:
  assumes "\<And>b. seat (f b) = seat b"
  shows "seat ` set (updateMany P f t) = seat ` set t"
proof -
  have "seat (if P b then f b else b) = seat b" for b using assms by simp
  then show ?thesis by (simp only: set_updateMany image_image)
qed

lemma seats_update_booking [simp]:
  "seats (update_booking i (apply_booking_update u) d) = seats d" "seats (update_booking i (otp_failed now n l) d) = seats d"
proof -
  have "seat (apply_booking_update u b) = seat b" "seat (otp_failed now n l b) = seat b" for b
    by (simp_all add: seat_def otp_failed_def)
  then show "seats (update_booking i (apply_booking_update u) d) = seats d" "seats (update_booking i (otp_failed now n l) d) = seats d"
    by (simp_all add: seats_def update_booking_def seats_update)
qed

lemma booking_transition_seats: "booking_transition now i a ac r e d = Inr (res, d') \<Longrightarrow> seats d' = seats d"
proof -
  have log: "seats (d\<lparr>booking_log := l\<rparr>) = seats d" for d l by (rule seats_cong) simp
  show "booking_transition now i a ac r e d = Inr (res, d') \<Longrightarrow> seats d' = seats d"
    by (auto simp: booking_transition_def booking_transition_fresh_def Let_def log
        split: option.splits if_splits sum.splits)
qed

lemma sync_job_seats: "sync_job now j a ac r ign d = Inr d' \<Longrightarrow> seats d' = seats d"
  by (rule seats_cong) (rule sync_job_frame)

lemma verifyOtp_seats: "seats (snd (verifyOtp cmp mx now i w otp actor d)) = seats d"
proof -
  have "seats d' = seats d" if "verifyOtp_tx cmp mx now i w otp actor d = Inr (res, d')" for res d'
    using that booking_transition_seats unfolding verifyOtp_tx_def Let_def
    by (auto split: sum.splits option.splits prod.splits if_splits dest!: sync_job_seats)
  then show ?thesis
    by (cases "verifyOtp_tx cmp mx now i w otp actor d")
      (auto simp: verifyOtp_def run_tx_def split: prod.splits otp_outcome.splits)
qed

lemma completeBooking_seats: "completeBooking now i w actor d = Inr (u, d') \<Longrightarrow> seats d' = seats d"
  by (auto simp: completeBooking_def Let_def split: option.splits sum.splits prod.splits dest!: booking_transition_seats)

lemma confirmComplete_seats:
  assumes "confirmComplete oid now i c p actor d = Inr (u, d')"
  shows "seats d' = seats d"
  using assms
proof (cases rule: confirmComplete_InrE)
  case (1 b res d1)
  have "seats d' = seats d1" using confirm_effects_frame [OF 1(4)] by (intro seats_cong)
  with booking_transition_seats [OF 1(3)] show ?thesis by simp
qed

lemma cancelBooking_seats:
  assumes "cancelBooking oid now i uid reason actor d = Inr (r, d')"
  shows "seats d' = seats d"
  using assms
proof (cases rule: cancelBooking_InrE)
  case (1 b res d1)
  have "bookings d' = bookings d1" using 1(5) cancel_reconcile_parts(1) by auto
  then show ?thesis using booking_transition_seats [OF 1(4)] seats_cong by metis
qed

lemma accept_seats: "seats d \<subseteq> seats (snd (acceptDispatch x d))"
proof (cases x d rule: acceptDispatch_cases)
  case (committed res d')
  from committed(2) obtain req where "accept_reserve x req d = Inr (res, d')" by (rule accept_tx_InrE) blast
  then obtain j :: job where "bookings d' = bookings d @ [new_booking x req (jb_customer_id j)]" by (rule accept_reserve_InrE) blast
  with committed(1) show ?thesis by (auto simp: seats_def)
qed simp

lemma run_tx_seats:
  assumes "\<And>a d'. m d = Inr (a, d') \<Longrightarrow> seats d' = seats d"
  shows "seats (snd (run_tx m d)) = seats d"
  by (rule run_tx_preserves [of "\<lambda>e. seats e = seats d"]) (simp_all add: assms)

lemma create_requirements_bookings: "create_requirements f now i rs d = Inr d' \<Longrightarrow> bookings d' = bookings d"
  by (induction rs arbitrary: d) (auto simp: create_requirement_def split: sum.splits if_splits)

lemma createJob_seats: "seats (snd (createJob f h now i c p d)) = seats d"
proof -
  have one: "seats (snd (run_tx (create_job_tx f now i c co rs) d)) = seats d" for co rs
    by (rule run_tx_seats, erule create_job_tx_InrE) (auto intro!: seats_cong dest: create_requirements_bookings)
  have two: "seats (snd (run_tx (start_dispatch_tx now i) d1)) = seats d1" for d1
    by (rule run_tx_seats) (auto simp: start_dispatch_tx_def set_requirements_status_def split: sum.splits prod.splits intro!: seats_cong dest!: job_transition_keeps(2))
  have "seats d1 = seats d" if "run_tx (create_job_tx f now i c co rs) d = (r, d1)" for co rs r d1
    using one [of co rs] that by simp
  moreover have "seats d2 = seats d1" if "run_tx (start_dispatch_tx now i) d1 = (r, d2)" for d1 d2 r
    using two [of d1] that by simp
  ultimately show ?thesis by (auto simp: createJob_def Let_def split: sum.splits prod.splits)
qed

lemma updateDemand_seats: "updateDemand now i n actor d = Inr (res, d') \<Longrightarrow> seats d' = seats d"
  by (erule updateDemand_InrE) (auto intro!: seats_cong)

lemma cancelJob_seats: "cancelJob now i c a r d = Inr (res, d') \<Longrightarrow> seats d' = seats d"
  by (erule cancelJob_InrE) (auto intro!: seats_cong simp: set_requirements_status_def dest: job_transition_keeps(2))

lemma decline_seats: "seats (snd (declineDispatch cfg h now r w d)) = seats d"
proof -
  have frame: "seats (d1\<lparr>waves := v\<rparr>) = seats d1" "seats (d1\<lparr>dispatches := t, workers := k\<rparr>) = seats d1"
    "seats (update_requirement i u d1) = seats d1" for d1 v t k i u by (rule seats_cong; simp)+
  show ?thesis
    by (simp add: declineDispatch_def run_tx_def decline_tx_def decline_follow_up_def Let_def frame split: sum.splits option.splits)
qed

text \<open>Only accepting an offer makes a booking.\<close>

lemma serve_seats_same:
  assumes "\<And>x. q \<noteq> AcceptDispatch x"
  shows "seats (serve w q d) = seats d"
proof (cases q)
  case (CreateJobReq now i p n a)
  show ?thesis unfolding CreateJobReq serve.simps seats_def
    by (auto simp: createJobReq_def create_requirement_def Let_def split: option.splits sum.splits)
next
  case (CompleteJob now i a r)
  have "seats d' = seats d" if "completeJob now i a r d = Inr (res, d')" for res d'
    by (rule seats_cong) (rule job_transition_keeps(2) [OF that [unfolded completeJob_def]])
  with CompleteJob show ?thesis by (simp add: run_tx_seats)
next
  case (UpdateDemand now j i n a)
  have "seats d' = seats d" if "updateRequirementDemand now j i n a d = Inr (r, d')" for r d'
    using that by (auto simp: updateRequirementDemand_def split: option.splits sum.splits dest!: updateDemand_seats)
  with UpdateDemand show ?thesis by (simp add: run_tx_seats)
next
  case (CompleteBooking now i k a)
  have "seats (snd (run_tx (completeBooking now i k a) d)) = seats d" by (rule run_tx_seats) (rule completeBooking_seats)
  with CompleteBooking show ?thesis by simp
next
  case (ConfirmComplete oid now i c p a)
  have "seats (snd (run_tx (confirmComplete oid now i c p a) d)) = seats d" by (rule run_tx_seats) (rule confirmComplete_seats)
  with ConfirmComplete show ?thesis by simp
qed (use assms in \<open>simp_all add: createJob_seats decline_seats verifyOtp_seats run_tx_seats cancelJob_seats cancelBooking_seats\<close>)

lemma serve_seats: "seats d \<subseteq> seats (serve w q d)"
  by (cases "\<exists>x. q = AcceptDispatch x") (use accept_seats serve_seats_same in fastforce)+

section \<open>Who is in which room\<close>

lemma rooms_disjoint [simp]:
  "getBookingChatRoom i = getBookingChatRoom j \<longleftrightarrow> i = j" "getWorkerPersonalRoom i = getWorkerPersonalRoom j \<longleftrightarrow> i = j"
  "getCustomerPersonalRoom i = getCustomerPersonalRoom j \<longleftrightarrow> i = j" "getAdminPersonalRoom i = getAdminPersonalRoom j \<longleftrightarrow> i = j"
  "getBookingChatRoom i \<noteq> getWorkerPersonalRoom j" "getBookingChatRoom i \<noteq> getCustomerPersonalRoom j"
  "getBookingChatRoom i \<noteq> getAdminPersonalRoom j" "getBookingChatRoom i \<noteq> getJobRoom j" "getBookingChatRoom i \<noteq> getRequirementRoom j"
  "getCustomerPersonalRoom i \<noteq> getWorkerPersonalRoom j" "getCustomerPersonalRoom i \<noteq> getAdminPersonalRoom j"
  "getCustomerPersonalRoom i \<noteq> getBookingChatRoom j" "getCustomerPersonalRoom i \<noteq> getJobRoom j" "getCustomerPersonalRoom i \<noteq> getRequirementRoom j"
  "getWorkerPersonalRoom i \<noteq> getCustomerPersonalRoom j" "getWorkerPersonalRoom i \<noteq> getAdminPersonalRoom j"
  "getWorkerPersonalRoom i \<noteq> getBookingChatRoom j" "getWorkerPersonalRoom i \<noteq> getJobRoom j" "getWorkerPersonalRoom i \<noteq> getRequirementRoom j"
  "getBookingChatRoom i \<noteq> ''admins''" "getCustomerPersonalRoom i \<noteq> ''admins''" "getWorkerPersonalRoom i \<noteq> ''admins''"
  by (simp_all add: getBookingChatRoom_def getWorkerPersonalRoom_def getCustomerPersonalRoom_def getAdminPersonalRoom_def
      getJobRoom_def getRequirementRoom_def)

definition seat_of :: "AuthenticatedUser \<Rightarrow> (uuid \<times> uuid \<times> uuid) set \<Rightarrow> uuid \<Rightarrow> bool" where
  "seat_of u S i \<longleftrightarrow> (\<exists>cu wk. (i, cu, wk) \<in> S \<and>
     (au_role u = ADMIN \<or> au_role u = CUSTOMER \<and> cu = au_id u \<or> au_role u = WORKER \<and> wk = au_id u))"

lemma seat_of_member: "seat_of u (seats d) i \<longleftrightarrow> (\<exists>b\<in>set (bookings d). bk_id b = i \<and> chat_member u b)"
proof
  assume "seat_of u (seats d) i"
  then obtain cu wk where m: "(i, cu, wk) \<in> seat ` set (bookings d)"
    and r: "au_role u = ADMIN \<or> au_role u = CUSTOMER \<and> cu = au_id u \<or> au_role u = WORKER \<and> wk = au_id u"
    unfolding seat_of_def seats_def by metis
  from m obtain b where "b \<in> set (bookings d)" "seat b = (i, cu, wk)" by (auto simp: image_iff)
  with r show "\<exists>b\<in>set (bookings d). bk_id b = i \<and> chat_member u b"
    by (intro bexI [of _ b]) (auto simp: seat_def chat_member_def)
next
  assume "\<exists>b\<in>set (bookings d). bk_id b = i \<and> chat_member u b"
  then obtain b where b: "b \<in> set (bookings d)" "bk_id b = i" "chat_member u b" by blast
  then have "(i, bk_customer_id b, bk_worker_id b) \<in> seats d" by (auto simp: seats_def seat_def)
  with b(3) show "seat_of u (seats d) i" unfolding seat_of_def chat_member_def by metis
qed

text \<open>The rooms a user may be in; those of jobs and requirements, which nothing is sent to, are decided on entry.\<close>

definition room_grant :: "(uuid \<times> uuid \<times> uuid) set \<Rightarrow> AuthenticatedUser \<Rightarrow> string \<Rightarrow> bool" where
  "room_grant S u r \<longleftrightarrow>
     r = getWorkerPersonalRoom (au_id u) \<and> au_role u \<noteq> CUSTOMER \<or>
     r = getCustomerPersonalRoom (au_id u) \<and> au_role u \<noteq> WORKER \<or>
     au_role u = ADMIN \<and> (r = getAdminPersonalRoom (au_id u) \<or> r = ''admins'') \<or>
     (\<exists>i. r = getBookingChatRoom i \<and> seat_of u S i) \<or>
     (\<exists>i. r = getJobRoom i \<or> r = getRequirementRoom i)"

text \<open>What a delivery to a room says about its event: a position goes from the worker to the customer of a booking, a
  message from one member of a booking to all.\<close>

definition sound_delivery :: "(uuid \<times> uuid \<times> uuid) set \<Rightarrow> delivery \<Rightarrow> bool" where
  "sound_delivery S x \<longleftrightarrow>
     (case dl_room x of None \<Rightarrow> (\<exists>k. dl_event x = ErrorEvent k)
      | Some r \<Rightarrow> room_grant S (dl_user x) r \<and>
          (case dl_event x of
             ErrorEvent _ \<Rightarrow> False
           | WorkerLocation w _ _ \<Rightarrow> (\<exists>i cu. r = getCustomerPersonalRoom cu \<and> (i, cu, w) \<in> S)
           | ChatMessage m \<Rightarrow> (\<exists>i s. r = getBookingChatRoom i \<and> au_id s = ms_sender_id m \<and> seat_of s S i)
           | JobIncoming w _ _ \<Rightarrow> r = getWorkerPersonalRoom w))"

definition hub_ok :: "hub \<Rightarrow> bool" where
  "hub_ok h \<longleftrightarrow> hb_server h \<and> distinct (map cn_id (hb_sockets h)) \<and>
     (\<forall>c\<in>set (hb_sockets h). (\<forall>r\<in>set (cn_rooms c). room_grant (seats (hb_db h)) (cn_user c) r) \<and>
        user_room (au_role (cn_user c)) (au_id (cn_user c)) \<in> set (cn_rooms c)) \<and>
     (\<forall>x\<in>set (hb_delivered h). sound_delivery (seats (hb_db h)) x)"

lemma grant_mono:
  assumes "S \<subseteq> T"
  shows "seat_of u S i \<Longrightarrow> seat_of u T i" "room_grant S u r \<Longrightarrow> room_grant T u r" "sound_delivery S x \<Longrightarrow> sound_delivery T x"
proof -
  show s: "seat_of u S i \<Longrightarrow> seat_of u T i" for u i using assms by (auto simp: seat_of_def)
  then show g: "room_grant S u r \<Longrightarrow> room_grant T u r" for u r unfolding room_grant_def by blast
  show "sound_delivery S x \<Longrightarrow> sound_delivery T x"
    using s g assms unfolding sound_delivery_def by (auto split: option.splits emission.splits) blast+
qed

lemma hub_ok_db:
  assumes "hub_ok h" "seats (hb_db h) \<subseteq> seats d"
  shows "hub_ok (h\<lparr>hb_db := d\<rparr>)"
  using assms(1) grant_mono [OF assms(2)] unfolding hub_ok_def by simp

lemma hub_ok_pending [simp]: "hub_ok (h\<lparr>hb_pending := p\<rparr>) = hub_ok h"
  by (simp add: hub_ok_def)

lemma hub_ok_filter: "hub_ok h \<Longrightarrow> hub_ok (h\<lparr>hb_sockets := filter P (hb_sockets h)\<rparr>)"
  by (simp add: hub_ok_def distinct_map_filter)

lemma hub_ok_disconnect: "hub_ok h \<Longrightarrow> hub_ok (disconnectUserSockets w role h)"
  by (simp add: disconnectUserSockets_def hub_ok_filter)

lemma hub_ok_emit:
  assumes "hub_ok h"
  shows "hub_ok (socket_emit c (ErrorEvent k) h)"
  using assms by (auto simp: hub_ok_def socket_emit_def deliver_def sound_delivery_def)

lemma hub_ok_refuse: "hub_ok h \<Longrightarrow> hub_ok (snd (refuse c k h))"
  by (simp add: refuse_def hub_ok_emit)

lemma hub_ok_io:
  assumes "hub_ok h" and "\<And>u. room_grant (seats (hb_db h)) u r \<Longrightarrow>
    sound_delivery (seats (hb_db h)) \<lparr>dl_user = u, dl_room = Some r, dl_event = e\<rparr>"
  shows "hub_ok (io_emit r e h)"
  using assms by (auto simp: hub_ok_def io_emit_def deliver_def)

lemma hub_ok_join:
  assumes ok: "hub_ok h" and c: "c \<in> set (hb_sockets h)" and g: "room_grant (seats (hb_db h)) (cn_user c) r"
  shows "hub_ok (socket_join c r h)"
proof -
  let ?f = "\<lambda>x. x\<lparr>cn_rooms := List.insert r (cn_rooms x)\<rparr>"
  have ids: "map cn_id (updateMany (\<lambda>x. cn_id x = cn_id c) ?f t) = map cn_id t" for t :: "connection list"
    by (induction t) (auto simp: updateMany_def)
  have one: "x = c" if "x \<in> set (hb_sockets h)" "cn_id x = cn_id c" for x
    by (rule key_unique [of cn_id]) (use ok c that in \<open>simp_all add: hub_ok_def\<close>)
  have "(\<forall>q\<in>set (cn_rooms y). room_grant (seats (hb_db h)) (cn_user y) q) \<and> user_room (au_role (cn_user y)) (au_id (cn_user y)) \<in> set (cn_rooms y)"
    if "y \<in> set (updateMany (\<lambda>x. cn_id x = cn_id c) ?f (hb_sockets h))" for y
  proof -
    from updateMany_memD [OF that] obtain x where x: "x \<in> set (hb_sockets h)" "y = (if cn_id x = cn_id c then ?f x else x)" by blast
    then show ?thesis using one [OF x(1)] ok g by (auto simp: hub_ok_def)
  qed
  with ok show ?thesis by (simp add: hub_ok_def socket_join_def ids)
qed

section \<open>Every step keeps it so\<close>

lemma conversation_bookings: "bookings (snd (getOrCreateConversation i b ctx d0 d)) = bookings d"
  by (simp add: getOrCreateConversation_def split: option.splits)

lemma sendMessage_bookings: "bookings (snd (sendMessage i m now b s t actor d0 d)) = bookings d"
proof -
  have "bookings d1 = bookings d" if "getOrCreateConversation i b ctx d0 d = (r, d1)" for ctx r d1
    using conversation_bookings [of i b ctx d0 d] that by simp
  then show ?thesis by (auto simp: sendMessage_def Let_def split: option.splits sum.splits prod.splits)
qed

lemma getMessages_bookings: "bookings (snd (getMessages i b actor d0 d)) = bookings d"
proof -
  have "bookings d1 = bookings d" if "getOrCreateConversation i b ctx d0 d = (r, d1)" for ctx r d1
    using conversation_bookings [of i b ctx d0 d] that by simp
  then show ?thesis by (auto simp: getMessages_def split: option.splits sum.splits prod.splits)
qed

lemma sendMessage_sender:
  assumes "sendMessage i mid now b s t (Some a) d0 d = (Inr m, d')"
  shows "ms_sender_id m = au_id a" "seat_of a (seats d0) b"
proof -
  from assms obtain k where k: "chat_booking chat_canSendMessage a b d0 = Inr k"
    by (auto simp: sendMessage_def split: sum.splits)
  with assms show "ms_sender_id m = au_id a" by (auto simp: sendMessage_def Let_def split: sum.splits prod.splits)
  from k have "k \<in> set (bookings d0) \<and> bk_id k = b \<and> chat_member a k"
    by (auto simp: chat_booking_def chat_decisions split: option.splits if_splits dest!: findFirst_Some findUnique_Some)
  then show "seat_of a (seats d0) b" by (auto simp: seat_of_member)
qed

lemma updateLocation_bookings: "bookings (snd (updateLocation point now i w lat lon d)) = bookings d"
  by (simp add: updateLocation_def update_worker_def Let_def split: sum.splits option.splits)

lemma acknowledge_bookings: "bookings (snd (acknowledgeNotification now c i d)) = bookings d"
  by (simp add: acknowledgeNotification_def update_outbox_def split: option.splits)

lemma suspend_bookings: "bookings (snd (suspendWorker now w reason admin d0 d)) = bookings d"
proof -
  have "bookings d' = bookings d" if "suspend_tx now w p reason admin d = Inr (r, d')" for p r d'
    using that by (auto simp: suspend_tx_def update_worker_def update_sessions_def recordEvent_def Let_def split: option.splits prod.splits)
  then have "bookings (snd (run_tx (suspend_tx now w p reason admin) d)) = bookings d" for p
    by (cases "suspend_tx now w p reason admin" d rule: run_tx_cases) auto
  then show ?thesis by (simp add: suspendWorker_def split: option.splits)
qed

lemma find_authorized_Inr:
  assumes "find_authorized scope isKey can code t = Inr r"
  shows "r \<in> set t \<and> (scope r \<or> isKey r \<and> can r = Allowed)"
  using assms by (auto simp: find_authorized_def split: option.splits PolicyDecision.splits dest: findFirst_Some)

lemma offer_ok: "hub_ok h \<Longrightarrow> hub_ok (emit_job_incoming k r j h)"
  unfolding emit_job_incoming_def by (auto intro!: hub_ok_io simp: sound_delivery_def)

lemma chat_message_ok:
  assumes ok: "hub_ok h" and d: "seats d = seats (hb_db h)"
    and m: "seat_of s (seats (hb_db h)) i" "au_id s = ms_sender_id m"
  shows "hub_ok (io_emit (getBookingChatRoom i) (ChatMessage m) (h\<lparr>hb_db := d\<rparr>))"
proof (rule hub_ok_io)
  show "hub_ok (h\<lparr>hb_db := d\<rparr>)" by (rule hub_ok_db [OF ok]) (simp add: d)
qed (use m in \<open>auto simp: sound_delivery_def d\<close>)

lemma location_ok:
  assumes ok: "hub_ok h" and c: "c \<in> set (hb_sockets h)"
  shows "hub_ok (snd (worker_location_update E c p h))"
proof -
  have upd: "seats d = seats (hb_db h)" if "updateLocation pt now i w lat lon (hb_db h) = (r, d)" for pt now i w lat lon r d
    using updateLocation_bookings [of pt now i w lat lon "hb_db h"] that by (intro seats_cong) simp
  have emit: "hub_ok (io_emit (getCustomerPersonalRoom cu) (WorkerLocation w x y) (h\<lparr>hb_db := d\<rparr>))"
    if d: "seats d = seats (hb_db h)"
      and b: "findFirst (\<lambda>b. bk_worker_id b = w \<and> bk_customer_id b = cu \<and> S b) (bookings (hb_db h)) \<noteq> None" for d cu w x y S
  proof (rule hub_ok_io)
    from b obtain b' where "b' \<in> set (bookings (hb_db h))" "bk_worker_id b' = w" "bk_customer_id b' = cu"
      by (auto dest!: findFirst_Some)
    then have "(bk_id b', cu, w) \<in> seats (hb_db h)" by (auto simp: seats_def seat_def)
    then show "room_grant (seats (hb_db (h\<lparr>hb_db := d\<rparr>))) u (getCustomerPersonalRoom cu) \<Longrightarrow>
      sound_delivery (seats (hb_db (h\<lparr>hb_db := d\<rparr>))) \<lparr>dl_user = u, dl_room = Some (getCustomerPersonalRoom cu), dl_event = WorkerLocation w x y\<rparr>" for u
      by (auto simp: sound_delivery_def d)
  qed (simp add: hub_ok_db [OF ok] d)
  show ?thesis unfolding worker_location_update_def Let_def
    using hub_ok_refuse [OF ok] hub_ok_refuse [OF hub_ok_db [OF ok]] ok upd emit
    by (simp split: sum.split option.split prod.split json.split add: eq_commute)
qed

lemma join_handlers_ok:
  assumes ok: "hub_ok h" and c: "c \<in> set (hb_sockets h)"
  shows "hub_ok (snd (join_worker c i h))" "hub_ok (snd (join_customer c i h))" "hub_ok (snd (handleJoinBooking E c i h))"
    "hub_ok (snd (join_job E c i h))" "hub_ok (snd (join_requirement E c i h))"
proof -
  note grant = hub_ok_join [OF ok c] and no = hub_ok_refuse [OF ok]
  show "hub_ok (snd (join_worker c i h))" "hub_ok (snd (join_customer c i h))"
    by (auto simp: join_worker_def join_customer_def Let_def no intro!: grant, auto simp: room_grant_def)
  have "room_grant (seats (hb_db h)) (cn_user c) (getBookingChatRoom k)"
    if "find_authorized (chat_scopeBooking (cn_user c) k) (\<lambda>b. bk_id b = k) (chat_canJoinRoom (cn_user c)) f (bookings (hb_db h)) = Inr r" for k f r
  proof -
    from find_authorized_Inr [OF that] have "r \<in> set (bookings (hb_db h)) \<and> bk_id r = k \<and> chat_member (cn_user c) r"
      by (auto simp: chat_decisions chat_canJoinRoom_def split: if_splits)
    then show ?thesis by (auto simp: room_grant_def seat_of_member)
  qed
  then show "hub_ok (snd (handleJoinBooking E c i h))"
    by (auto simp: handleJoinBooking_def no ok intro!: grant split: option.splits sum.splits)
  show "hub_ok (snd (join_job E c i h))" "hub_ok (snd (join_requirement E c i h))"
    by (auto simp: join_job_def join_requirement_def no ok intro!: grant split: option.splits sum.splits) (auto simp: room_grant_def)
qed

lemma chat_handler_ok:
  assumes ok: "hub_ok h"
  shows "hub_ok (snd (chat_message E c i t h))" "hub_ok (snd (http_sendMessage E b text actor h))"
proof -
  have same: "seats d = seats (hb_db h)" if "sendMessage x m now b s y a d0 (hb_db h) = (r, d)" for x m now b s y a d0 r d
    using sendMessage_bookings [of x m now b s y a d0 "hb_db h"] that by (intro seats_cong) simp
  have sent: "hub_ok (io_emit (getBookingChatRoom b) (ChatMessage k) (h\<lparr>hb_db := d\<rparr>))"
    if "sendMessage x m now b s y (Some a) (hb_db h) (hb_db h) = (Inr k, d)" for x m now b s y a k d
    by (rule chat_message_ok [OF ok same [OF that] sendMessage_sender(2) [OF that]]) (simp add: sendMessage_sender(1) [OF that])
  have kept: "hub_ok (h\<lparr>hb_db := d\<rparr>)" if "sendMessage x m now b s y a d0 (hb_db h) = (r, d)" for x m now b s y a d0 r d
    by (rule hub_ok_db [OF ok]) (simp add: same [OF that])
  show "hub_ok (snd (http_sendMessage E b text actor h))"
    using ok sent kept by (auto simp: http_sendMessage_def split: option.splits sum.splits prod.splits)
  show "hub_ok (snd (chat_message E c i t h))" unfolding chat_message_def
    using hub_ok_refuse [OF ok] hub_ok_refuse [OF kept] sent
    by (auto split: option.splits json.splits sum.splits prod.splits)
qed

lemma event_ok: "hub_ok h \<Longrightarrow> c \<in> set (hb_sockets h) \<Longrightarrow> hub_ok (snd (socket_handle E c e h))"
proof (cases e)
  case (NotificationAck i)
  assume ok: "hub_ok h"
  have "hub_ok (h\<lparr>hb_db := d\<rparr>)" if "acknowledgeNotification now u k (hb_db h) = (r, d)" for now u k r d
    using acknowledge_bookings [of now u k "hb_db h"] that by (intro hub_ok_db [OF ok]) (simp add: seats_def)
  with ok NotificationAck show ?thesis
    by (auto simp: notification_ack_def split: option.splits json.splits sum.splits prod.splits)
qed (simp_all add: join_handlers_ok location_ok chat_handler_ok notification_sync_def)

interpretation sockets: transition_invariant "hub_step v config" hub_ok for v config
proof unfold_locales
  fix h h' assume "hub_step v config h h'" and ok: "hub_ok h"
  then show "hub_ok h'"
  proof cases
    case (connects sid u)
    have own: "user_room (au_role u) (au_id u) \<in> set (personal_rooms u)"
      by (cases "au_role u") (simp_all add: user_room_def personal_rooms_def)
    have "\<forall>r\<in>set (personal_rooms u). room_grant S u r" for S
      by (cases "au_role u") (simp_all add: personal_rooms_def room_grant_def)
    with own ok connects show ?thesis by (auto simp: on_connection_def hub_ok_def)
  next
    case (http_get E i actor)
    have "hub_ok (h\<lparr>hb_db := d\<rparr>)" if "getMessages x i a d0 (hb_db h) = (r, d)" for x a d0 r d
      using getMessages_bookings [of x i a d0 "hb_db h"] that by (intro hub_ok_db [OF ok]) (simp add: seats_def)
    with ok http_get show ?thesis by (auto simp: http_getMessages_def split: option.splits sum.splits prod.splits)
  next
    case (suspends now w reason admin d0)
    have "hub_ok (h\<lparr>hb_db := d\<rparr>)" if "suspendWorker now w reason admin d0 (hb_db h) = (r, d)" for r d
      using suspend_bookings [of now w reason admin d0 "hb_db h"] that by (intro hub_ok_db [OF ok]) (simp add: seats_def)
    then show ?thesis unfolding suspends(1)
      by (auto simp: suspendWorker_live_def hub_ok_disconnect split: sum.splits prod.splits)
  qed (use ok in \<open>simp_all add: hub_ok_filter on_disconnect_def event_ok chat_handler_ok offer_ok hub_ok_db serve_seats\<close>)
qed

section \<open>Who is connected\<close>

definition principals :: "hub \<Rightarrow> (string \<times> AuthenticatedUser) list" where
  "principals h = map (\<lambda>c. (cn_id c, cn_user c)) (hb_sockets h)"

lemma hub_frame [simp]:
  "principals (snd (refuse c k h)) = principals h" "hb_pending (snd (refuse c k h)) = hb_pending h"
  "principals (io_emit r e h) = principals h" "hb_pending (io_emit r e h) = hb_pending h"
  "principals (h\<lparr>hb_db := d\<rparr>) = principals h"
  "principals (emit_job_incoming k q j h) = principals h" "hb_pending (emit_job_incoming k q j h) = hb_pending h"
  by (simp_all add: principals_def refuse_def socket_emit_def io_emit_def deliver_def emit_job_incoming_def)

lemma join_frame [simp]: "principals (socket_join c r h) = principals h" "hb_pending (socket_join c r h) = hb_pending h"
proof -
  have "map (\<lambda>c. (cn_id c, cn_user c)) (updateMany P (\<lambda>x. x\<lparr>cn_rooms := List.insert r (cn_rooms x)\<rparr>) t) =
    map (\<lambda>c. (cn_id c, cn_user c)) t" for P and t :: "connection list"
    by (induction t) (auto simp: updateMany_def)
  then show "principals (socket_join c r h) = principals h" by (simp add: principals_def socket_join_def)
qed (simp add: socket_join_def)

lemma handle_frame: "principals (snd (socket_handle E c e h)) = principals h" "hb_pending (snd (socket_handle E c e h)) = hb_pending h"
  by (cases e; simp add: join_worker_def join_customer_def worker_location_update_def handleJoinBooking_def join_job_def
      join_requirement_def chat_message_def notification_sync_def notification_ack_def Let_def
      split: option.split json.split sum.split prod.split)+

lemma http_frame:
  "principals (snd (http_sendMessage E i t a h)) = principals h" "hb_pending (snd (http_sendMessage E i t a h)) = hb_pending h"
  "principals (snd (http_getMessages E i a h)) = principals h" "hb_pending (snd (http_getMessages E i a h)) = hb_pending h"
  by (simp_all add: http_sendMessage_def http_getMessages_def split: option.split sum.split prod.split)

lemma suspend_frame:
  "set (principals (snd (suspendWorker_live now w reason admin d0 h))) \<subseteq> set (principals h)"
  "hb_pending (snd (suspendWorker_live now w reason admin d0 h)) = hb_pending h"
  by (auto simp: suspendWorker_live_def disconnectUserSockets_def principals_def split: sum.split prod.split)

text \<open>A user who is refused at the handshake connects only from a handshake that was already accepted.\<close>

lemma refused_step:
  assumes "hub_step v config h h'" and "\<And>up hs. socketAuthMiddleware up v config hs (hb_db h) \<noteq> Inr u"
    and "(sid, u) \<in> set (principals h') \<union> set (hb_pending h')"
  shows "(sid, u) \<in> set (principals h) \<union> set (hb_pending h)"
  using assms(1)
proof cases
  case (connects s k)
  with assms(3) show ?thesis
    by (auto simp: on_connection_def principals_def split: if_splits dest: notin_set_remove1)
next
  case (suspends now w reason admin d0)
  with assms(3) suspend_frame [of now w reason admin d0 h] show ?thesis by auto
qed (use assms(2,3) in \<open>auto simp: handle_frame http_frame on_disconnect_def, auto simp: principals_def\<close>)

section \<open>Properties\<close>

lemma registered_ok: "hub_ok (registerSocketHandlers d)"
  by (simp add: registerSocketHandlers_def hub_ok_def)

lemma granted_customer_room: "room_grant S u (getCustomerPersonalRoom i) \<Longrightarrow> au_id u = i \<and> au_role u \<noteq> WORKER"
  by (auto simp: room_grant_def)

lemma granted_worker_room: "room_grant S u (getWorkerPersonalRoom i) \<Longrightarrow> au_id u = i \<and> au_role u \<noteq> CUSTOMER"
  by (auto simp: room_grant_def)

lemma granted_booking_room: "room_grant S u (getBookingChatRoom i) \<Longrightarrow> seat_of u S i"
  by (auto simp: room_grant_def)

text \<open>
  C21. Real-time traffic stays with the people it concerns. After any run of the socket server, with handshakes,
  connections, events of arbitrary content, disconnections, market requests, HTTP messages, job offers and suspensions
  in any order: every chat message that reached a socket was written by a member of one booking (its customer, its worker
  or an administrator) and went to a member of that same booking; every position of a worker reached only the
  customer of a booking with that worker, and no other worker; every job offer reached only the worker it was made to; error events reached only the socket that caused them;
  and a socket in the room of a booking belongs to a member of it. (The ids of bookings are unique.)
\<close>

theorem realtime_confidential:
  assumes "(hub_step v config)\<^sup>*\<^sup>* (registerSocketHandlers d) h" and "distinct (map bk_id (bookings (hb_db h)))"
  shows "(\<forall>x\<in>set (hb_delivered h). case dl_event x of
      ErrorEvent _ \<Rightarrow> dl_room x = None
    | WorkerLocation w _ _ \<Rightarrow> au_role (dl_user x) \<noteq> WORKER \<and>
        (\<exists>b\<in>set (bookings (hb_db h)). bk_worker_id b = w \<and> bk_customer_id b = au_id (dl_user x))
    | ChatMessage m \<Rightarrow> (\<exists>b\<in>set (bookings (hb_db h)). chat_member (dl_user x) b \<and>
        (\<exists>s. au_id s = ms_sender_id m \<and> chat_member s b))
    | JobIncoming w _ _ \<Rightarrow> au_id (dl_user x) = w \<and> au_role (dl_user x) \<noteq> CUSTOMER) \<and>
   (\<forall>c\<in>set (hb_sockets h). \<forall>i. getBookingChatRoom i \<in> set (cn_rooms c) \<longrightarrow>
      (\<exists>b\<in>set (bookings (hb_db h)). bk_id b = i \<and> chat_member (cn_user c) b))"
proof (intro conjI ballI allI impI)
  have ok: "hub_ok h" by (rule sockets.run_inv [OF assms(1) registered_ok])
  let ?S = "seats (hb_db h)"
  show "\<exists>b\<in>set (bookings (hb_db h)). bk_id b = i \<and> chat_member (cn_user c) b"
    if "c \<in> set (hb_sockets h)" "getBookingChatRoom i \<in> set (cn_rooms c)" for c i
    using ok that granted_booking_room unfolding hub_ok_def seat_of_member [symmetric] by blast
  fix x assume "x \<in> set (hb_delivered h)"
  with ok have x: "sound_delivery ?S x" by (simp add: hub_ok_def)
  have pair: "\<exists>b\<in>set (bookings (hb_db h)). chat_member u b \<and> (\<exists>s. au_id s = k \<and> chat_member s b)"
    if "seat_of u ?S i" "seat_of s ?S i" "au_id s = k" for u s i k
    using that key_unique [OF assms(2)] unfolding seat_of_member by metis
  have place: "\<exists>b\<in>set (bookings (hb_db h)). bk_worker_id b = w \<and> bk_customer_id b = cu" if "(i, cu, w) \<in> ?S" for i cu w
    using that by (auto simp: seats_def seat_def)
  show "case dl_event x of
      ErrorEvent _ \<Rightarrow> dl_room x = None
    | WorkerLocation w _ _ \<Rightarrow> au_role (dl_user x) \<noteq> WORKER \<and>
        (\<exists>b\<in>set (bookings (hb_db h)). bk_worker_id b = w \<and> bk_customer_id b = au_id (dl_user x))
    | ChatMessage m \<Rightarrow> (\<exists>b\<in>set (bookings (hb_db h)). chat_member (dl_user x) b \<and>
        (\<exists>s. au_id s = ms_sender_id m \<and> chat_member s b))
    | JobIncoming w _ _ \<Rightarrow> au_id (dl_user x) = w \<and> au_role (dl_user x) \<noteq> CUSTOMER"
    using x pair place unfolding sound_delivery_def
    by (auto split: option.splits emission.splits dest!: granted_customer_room granted_booking_room granted_worker_room)
qed

text \<open>
  C15. Suspending a worker ends the worker's live connections. At once no socket of the worker is connected, and no socket
  of anybody else has been closed; and for as long as the account stays suspended, whatever else happens, the only
  sockets of the worker that can appear are those whose handshake had been accepted before the suspension and was
  still being connected.
\<close>

theorem suspension_disconnects:
  assumes run: "(hub_step v config)\<^sup>*\<^sup>* (registerSocketHandlers d) h"
    and s: "suspendWorker_live now w reason admin d0 h = (Inr dto, h1)"
    and later: "(\<lambda>g g'. hub_step v config g g' \<and> worker_locked (findUnique wk_id w (workers (hb_db g))))\<^sup>*\<^sup>* h1 h2"
  shows "(\<forall>c\<in>set (hb_sockets h1). cn_user c \<noteq> \<lparr>au_id = w, au_role = WORKER\<rparr>) \<and>
    (\<forall>c\<in>set (hb_sockets h). au_id (cn_user c) \<noteq> w \<longrightarrow> c \<in> set (hb_sockets h1)) \<and>
    worker_locked (findUnique wk_id w (workers (hb_db h1))) \<and>
    (\<forall>c\<in>set (hb_sockets h2). cn_user c = \<lparr>au_id = w, au_role = WORKER\<rparr> \<longrightarrow> (cn_id c, cn_user c) \<in> set (hb_pending h))"
proof -
  let ?u = "\<lparr>au_id = w, au_role = WORKER\<rparr>"
  have ok: "hub_ok h" by (rule sockets.run_inv [OF run registered_ok])
  from s obtain d1 where d1: "suspendWorker now w reason admin d0 (hb_db h) = (Inr dto, d1)"
    and h1: "h1 = disconnectUserSockets w WORKER (h\<lparr>hb_db := d1\<rparr>)"
    by (auto simp: suspendWorker_live_def split: sum.splits prod.splits)
  have sockets: "hb_sockets h1 = filter (\<lambda>c. getWorkerPersonalRoom w \<notin> set (cn_rooms c)) (hb_sockets h)"
    and pend: "hb_pending h1 = hb_pending h" and db: "hb_db h1 = d1"
    using h1 ok by (simp_all add: disconnectUserSockets_def user_room_def hub_ok_def)
  have gone: "cn_user c \<noteq> ?u" if "c \<in> set (hb_sockets h1)" for c
    using that ok unfolding sockets hub_ok_def by (auto simp: user_room_def)
  have kept: "c \<in> set (hb_sockets h1)" if "c \<in> set (hb_sockets h)" "au_id (cn_user c) \<noteq> w" for c
    using that ok granted_worker_room unfolding sockets hub_ok_def by fastforce
  from suspended_row [OF d1] have lock: "worker_locked (findUnique wk_id w (workers (hb_db h1)))"
    by (auto simp: worker_locked_def db)
  have "(sid, ?u) \<in> set (hb_pending h)" if "(sid, ?u) \<in> set (principals h2) \<union> set (hb_pending h2)" for sid
    using later that
  proof (induction rule: rtranclp_induct)
    case base
    have "(sid, ?u) \<notin> set (principals h1)"
    proof
      assume "(sid, ?u) \<in> set (principals h1)"
      then obtain c where "c \<in> set (hb_sockets h1)" "cn_user c = ?u" by (auto simp: principals_def)
      with gone show False by blast
    qed
    with base show ?case using pend by simp
  next
    case (step g g')
    then show ?case using refused_step [of v config g g' ?u sid] locked_socket_refused [of w "hb_db g"] by blast
  qed
  moreover have "(cn_id c, cn_user c) \<in> set (principals h2)" if "c \<in> set (hb_sockets h2)" for c
    using that by (auto simp: principals_def)
  ultimately have "\<forall>c\<in>set (hb_sockets h2). cn_user c = ?u \<longrightarrow> (cn_id c, cn_user c) \<in> set (hb_pending h)"
    by (metis UnI1)
  then show ?thesis using gone kept lock by blast
qed

section \<open>Runs in the concrete\<close>

definition sample_socket_token :: jwt_verify where
  "sample_socket_token secret t =
     (if t = ''w'' then Some \<lparr>tk_id = Some ''w1'', tk_role = Some ''worker'', tk_token_type = Some ''access''\<rparr>
      else Some \<lparr>tk_id = Some ''c1'', tk_role = Some ''customer'', tk_token_type = Some ''access''\<rparr>)"

definition sample_socket_db :: db where
  "sample_socket_db = empty_db\<lparr>workers := [sample_doc_worker], customers := [\<lparr>cu_id = ''c1'', cu_phone = ''+912'', cu_deleted_at = None\<rparr>],
     bookings := [sample_booking\<lparr>bk_id := sample_uuid\<rparr>]\<rparr>"

definition sample_env :: event_env where
  "sample_env = \<lparr>ev_fault = None, ev_write_fault = None, ev_now = 7, ev_ids = (''v1'', ''m1''), ev_point = (\<lambda>x y. ''P'')\<rparr>"

definition sample_hub :: "string \<Rightarrow> AuthenticatedUser \<Rightarrow> hub" where
  "sample_hub sid u = on_connection sid u (registerSocketHandlers sample_socket_db)"

definition sample_customer_user :: AuthenticatedUser where
  "sample_customer_user = \<lparr>au_id = ''c1'', au_role = CUSTOMER\<rparr>"

definition sample_worker_user :: AuthenticatedUser where
  "sample_worker_user = \<lparr>au_id = ''w1'', au_role = WORKER\<rparr>"

lemma sample_connected:
  assumes "socketAuthMiddleware True sample_socket_token (Inr sample_jwt) \<lparr>hs_auth_token = Some t, hs_authorization = None\<rparr>
    sample_socket_db = Inr u"
  shows "(hub_step sample_socket_token (Inr sample_jwt))\<^sup>*\<^sup>* (registerSocketHandlers sample_socket_db) (sample_hub sid u)"
proof -
  let ?h = "registerSocketHandlers sample_socket_db" and ?step = "hub_step sample_socket_token (Inr sample_jwt)"
  have "?step ?h (?h\<lparr>hb_pending := [(sid, u)]\<rparr>)"
    using handshake [of True sample_socket_token "Inr sample_jwt" "\<lparr>hs_auth_token = Some t, hs_authorization = None\<rparr>" ?h u sid] assms
    by (simp add: registerSocketHandlers_def)
  moreover have "?step (?h\<lparr>hb_pending := [(sid, u)]\<rparr>) (sample_hub sid u)"
    using connects [of sid u "?h\<lparr>hb_pending := [(sid, u)]\<rparr>" sample_socket_token "Inr sample_jwt"]
    by (simp add: registerSocketHandlers_def sample_hub_def on_connection_def split: if_splits)
  ultimately show ?thesis by (meson rtranclp.simps)
qed

definition sample_chat_hub :: hub where
  "sample_chat_hub =
     (let h0 = sample_hub ''s1'' sample_customer_user;
          h1 = snd (socket_handle sample_env (hd (hb_sockets h0)) (JoinBooking (Some (JStr sample_uuid))) h0)
      in snd (socket_handle sample_env (hd (hb_sockets h1)) (ChatSend (Some (JStr sample_uuid)) (Some (JStr ''hello''))) h1))"

lemma sample_chat_run:
  "(hub_step sample_socket_token (Inr sample_jwt))\<^sup>*\<^sup>* (registerSocketHandlers sample_socket_db) sample_chat_hub"
proof -
  let ?step = "hub_step sample_socket_token (Inr sample_jwt)"
  let ?h0 = "sample_hub ''s1'' sample_customer_user"
  let ?h1 = "snd (socket_handle sample_env (hd (hb_sockets ?h0)) (JoinBooking (Some (JStr sample_uuid))) ?h0)"
  have "?step\<^sup>*\<^sup>* (registerSocketHandlers sample_socket_db) ?h0" by (rule sample_connected [of "''c''"]) code_simp
  moreover have "hb_sockets ?h0 \<noteq> []" by code_simp
  then have "?step ?h0 ?h1" by (intro event) simp
  moreover have "hb_sockets ?h1 \<noteq> []" by code_simp
  then have "?step ?h1 sample_chat_hub" unfolding sample_chat_hub_def Let_def by (intro event) simp
  ultimately show ?thesis by (meson rtranclp.simps)
qed

theorem realtime_confidential_witness:
  "map (\<lambda>x. (au_id (dl_user x), dl_room x)) (hb_delivered sample_chat_hub) = [(''c1'', Some (getBookingChatRoom sample_uuid))] \<and>
   (\<exists>b. b \<in> set (bookings (hb_db sample_chat_hub)) \<and> bk_id b = sample_uuid \<and> chat_member (cn_user (hd (hb_sockets sample_chat_hub))) b)"
proof
  have keys: "distinct (map bk_id (bookings (hb_db sample_chat_hub)))" by code_simp
  have "hb_sockets sample_chat_hub \<noteq> []" by code_simp
  then have hd: "hd (hb_sockets sample_chat_hub) \<in> set (hb_sockets sample_chat_hub)" by simp
  have "getBookingChatRoom sample_uuid \<in> set (cn_rooms (hd (hb_sockets sample_chat_hub)))" by code_simp
  with realtime_confidential [OF sample_chat_run keys] hd
  show "\<exists>b. b \<in> set (bookings (hb_db sample_chat_hub)) \<and> bk_id b = sample_uuid \<and> chat_member (cn_user (hd (hb_sockets sample_chat_hub))) b"
    by blast
  show "map (\<lambda>x. (au_id (dl_user x), dl_room x)) (hb_delivered sample_chat_hub) = [(''c1'', Some (getBookingChatRoom sample_uuid))]"
    by code_simp
qed

theorem suspension_disconnects_witness:
  "map cn_user (hb_sockets (sample_hub ''s1'' sample_worker_user)) = [sample_worker_user] \<and>
   list_all (\<lambda>c. cn_user c \<noteq> \<lparr>au_id = ''w1'', au_role = WORKER\<rparr>)
     (hb_sockets (snd (suspendWorker_live 5 ''w1'' ''fraud'' None sample_socket_db (sample_hub ''s1'' sample_worker_user))))"
proof
  let ?h = "sample_hub ''s1'' sample_worker_user"
  let ?r = "suspendWorker_live 5 ''w1'' ''fraud'' None sample_socket_db ?h"
  show "map cn_user (hb_sockets ?h) = [sample_worker_user]" by code_simp
  have "case fst ?r of Inl _ \<Rightarrow> False | Inr _ \<Rightarrow> True" by code_simp
  then obtain dto where r: "?r = (Inr dto, snd ?r)" by (cases ?r; cases "fst ?r") auto
  have "(hub_step sample_socket_token (Inr sample_jwt))\<^sup>*\<^sup>* (registerSocketHandlers sample_socket_db) ?h"
    by (rule sample_connected [of "''w''"]) code_simp
  from suspension_disconnects [OF this r rtranclp.rtrancl_refl]
  show "list_all (\<lambda>c. cn_user c \<noteq> \<lparr>au_id = ''w1'', au_role = WORKER\<rparr>) (hb_sockets (snd ?r))" by (simp add: list_all_iff)
qed

text \<open>The window that remains: a handshake accepted before the suspension is connected after it.\<close>

lemma handshake_outlives_suspension:
  "let h = (registerSocketHandlers sample_socket_db)\<lparr>hb_pending := [(''s1'', sample_worker_user)]\<rparr>;
       h1 = snd (suspendWorker_live 5 ''w1'' ''fraud'' None sample_socket_db h);
       h2 = on_connection ''s1'' sample_worker_user (h1\<lparr>hb_pending := []\<rparr>)
   in map cn_user (hb_sockets h2) = [sample_worker_user] \<and> worker_locked (findUnique wk_id ''w1'' (workers (hb_db h2)))"
  by code_simp

text \<open>An administrator who names another user's room is told it was joined and is put in a room of the own id.\<close>

lemma admin_joins_own_room:
  "au_role (cn_user c) = ADMIN \<Longrightarrow> join_worker c w h = (AckOk NoData, socket_join c (getWorkerPersonalRoom (au_id (cn_user c))) h)"
  by (simp add: join_worker_def Let_def)

end
