(* ===== verification/Reconciliation.thy ===== *)
theory Reconciliation
  imports Payments Audit_Log
begin

text \<open>
  The sweep over stale payments: \<^verbatim>\<open>src/services/paymentReconciliationService.ts\<close>, with \<^verbatim>\<open>fetchOrder\<close> of
  \<^verbatim>\<open>src/providers/razorpay/razorpayProvider.ts\<close>. One payment after the other is settled by what the provider says of
  its order; other payment requests may run before each of them. The provider's answer and whether a write or the
  audit insert throws are arguments.
\<close>

section \<open>The provider's order\<close>

datatype sdk_order_state = OrderFetchThrows | OrderFetched int "string option" string "int option"

record provider_order =
  po_amount :: int
  po_currency :: string
  po_status :: string
  po_attempts :: int

definition fetchOrder :: "PaymentConfig \<Rightarrow> sdk_order_state \<Rightarrow> RazorpayProviderError + provider_order" where
  "fetchOrder cfg ans =
     (case getRazorpayInstance cfg of Inl e \<Rightarrow> Inl e
      | Inr _ \<Rightarrow>
     (case ans of
        OrderFetchThrows \<Rightarrow> Inl (provider_error ''FETCH_ORDER_FAILED'' 502)
      | OrderFetched amount cur status attempts \<Rightarrow>
          Inr \<lparr>po_amount = amount, po_currency = toUpperCase (js_or cur ''INR''), po_status = status, po_attempts = num_or attempts 0\<rparr>))"

section \<open>The sweep\<close>

record ReconciliationResult =
  rs_totalEvaluated :: nat
  rs_reconciledCompleted :: nat
  rs_reconciledFailed :: nat
  rs_quarantined :: nat
  rs_skipped :: nat
  rs_errors :: nat

text \<open>What the world answers while one payment is looked at: the provider, failing writes, requests that ran before.\<close>

record sweep_env =
  sw_order :: sdk_order_state
  sw_write_fails :: bool
  sw_audit_fails :: bool
  sw_before :: "payment_request list"

definition is_stale :: "timestamp \<Rightarrow> payment \<Rightarrow> bool" where
  "is_stale cutoffTime p \<longleftrightarrow> has_status PENDING p \<and> py_created_at p < cutoffTime \<and> py_quarantine_reason p = None"

definition stalePayments :: "timestamp \<Rightarrow> db \<Rightarrow> payment list" where
  "stalePayments cutoffTime d = take 50 (sort_key py_created_at (filter (is_stale cutoffTime) (payments d)))"

definition order_amount_differs :: "provider_order \<Rightarrow> payment \<Rightarrow> bool" where
  "order_amount_differs q p \<longleftrightarrow> py_amount p \<noteq> None \<and> py_amount p \<noteq> Some (po_amount q)"

definition order_currency_differs :: "provider_order \<Rightarrow> payment \<Rightarrow> bool" where
  "order_currency_differs q p \<longleftrightarrow> py_currency p \<noteq> [] \<and> toUpperCase (po_currency q) \<noteq> toUpperCase (py_currency p)"

definition amount_reason :: "provider_order \<Rightarrow> payment \<Rightarrow> string" where
  "amount_reason q p = ''Reconciliation amount mismatch: local='' @ int_str (the (py_amount p)) @ ''p, provider='' @ int_str (po_amount q) @ ''p''"

definition currency_reason :: "provider_order \<Rightarrow> payment \<Rightarrow> string" where
  "currency_reason q p = ''Reconciliation currency mismatch: local='' @ py_currency p @ '', provider='' @ po_currency q"

definition reconciled_event :: "provider_order \<Rightarrow> payment \<Rightarrow> AuditEventInput" where
  "reconciled_event q p = \<lparr>ae_actorId = ''system_reconciliation_worker'', ae_actorRole = ''system'',
     ae_action = ''PAYMENT_RECONCILED_COMPLETED'', ae_targetType = ''payment'', ae_targetId = py_id p, ae_reason = None,
     ae_metadata = Some [(''orderId'', opt_json JStr (py_order_id p)), (''amount'', JInt (po_amount q))]\<rparr>"

text \<open>The \<^verbatim>\<open>catch\<close> of the loop, and \<^verbatim>\<open>prisma.payment.update\<close>, which throws when the row is gone.\<close>

definition sweep_error :: "ReconciliationResult \<times> db \<Rightarrow> ReconciliationResult \<times> db" where
  "sweep_error s = ((fst s)\<lparr>rs_errors := rs_errors (fst s) + 1\<rparr>, snd s)"

definition sweep_skip :: "ReconciliationResult \<times> db \<Rightarrow> ReconciliationResult \<times> db" where
  "sweep_skip s = ((fst s)\<lparr>rs_skipped := rs_skipped (fst s) + 1\<rparr>, snd s)"

definition quarantine_stale :: "timestamp \<Rightarrow> sweep_env \<Rightarrow> uuid \<Rightarrow> string \<Rightarrow> ReconciliationResult \<times> db \<Rightarrow> ReconciliationResult \<times> db" where
  "quarantine_stale now W i reason s =
     (if sw_write_fails W \<or> findUnique py_id i (payments (snd s)) = None then sweep_error s
      else ((fst s)\<lparr>rs_quarantined := rs_quarantined (fst s) + 1\<rparr>, quarantine now i reason (snd s)))"

definition complete_stale ::
  "timestamp \<Rightarrow> sweep_env \<Rightarrow> provider_order \<Rightarrow> payment \<Rightarrow> ReconciliationResult \<times> db \<Rightarrow> ReconciliationResult \<times> db" where
  "complete_stale now W q p s =
     (if sw_write_fails W then sweep_error s
      else case run_tx (transitionPaymentStatus now (py_id p) PENDING COMPLETED (\<lambda>x. x)) (snd s) of
        (Inl e, d) \<Rightarrow> sweep_error (fst s, d)
      | (Inr transitioned, d) \<Rightarrow>
          ((if transitioned then (fst s)\<lparr>rs_reconciledCompleted := rs_reconciledCompleted (fst s) + 1\<rparr> else fst s),
           if sw_audit_fails W then d else snd (recordEvent now (reconciled_event q p) d)))"

definition fail_stale :: "timestamp \<Rightarrow> sweep_env \<Rightarrow> payment \<Rightarrow> ReconciliationResult \<times> db \<Rightarrow> ReconciliationResult \<times> db" where
  "fail_stale now W p s =
     (if sw_write_fails W then sweep_error s
      else case run_tx (transitionPaymentStatus now (py_id p) PENDING FAILED (\<lambda>x. x)) (snd s) of
        (Inl e, d) \<Rightarrow> sweep_error (fst s, d)
      | (Inr _, d) \<Rightarrow> ((fst s)\<lparr>rs_reconciledFailed := rs_reconciledFailed (fst s) + 1\<rparr>, d))"

definition reconcile_payment ::
  "timestamp \<Rightarrow> PaymentConfig \<Rightarrow> sweep_env \<Rightarrow> payment \<Rightarrow> ReconciliationResult \<times> db \<Rightarrow> ReconciliationResult \<times> db" where
  "reconcile_payment now cfg W p s =
     (if \<not> truthy (py_order_id p) then sweep_skip s
      else case fetchOrder cfg (sw_order W) of
        Inl e \<Rightarrow> sweep_error s
      | Inr q \<Rightarrow>
          if po_status q = ''paid'' then
            (if order_amount_differs q p then quarantine_stale now W (py_id p) (amount_reason q p) s
             else if order_currency_differs q p then quarantine_stale now W (py_id p) (currency_reason q p) s
             else complete_stale now W q p s)
          else if po_status q = ''created'' \<and> po_attempts q > 3 then fail_stale now W p s
          else sweep_skip s)"

fun reconcile_loop ::
  "timestamp \<Rightarrow> PaymentConfig \<Rightarrow> (payment \<Rightarrow> sweep_env) \<Rightarrow> payment list \<Rightarrow> ReconciliationResult \<times> db \<Rightarrow> ReconciliationResult \<times> db" where
  "reconcile_loop now cfg W [] s = s"
| "reconcile_loop now cfg W (p # ps) s =
     reconcile_loop now cfg W ps (reconcile_payment now cfg (W p) p (fst s, fold payment_serve (sw_before (W p)) (snd s)))"

definition reconcileStalePayments ::
  "timestamp \<Rightarrow> PaymentConfig \<Rightarrow> (payment \<Rightarrow> sweep_env) \<Rightarrow> int \<Rightarrow> db \<Rightarrow> ReconciliationResult \<times> db" where
  "reconcileStalePayments now cfg W olderThanMinutes d =
     (let stale = stalePayments (now - olderThanMinutes * 60 * 1000) d
      in reconcile_loop now cfg W stale
           (\<lparr>rs_totalEvaluated = length stale, rs_reconciledCompleted = 0, rs_reconciledFailed = 0, rs_quarantined = 0,
             rs_skipped = 0, rs_errors = 0\<rparr>, d))"

section \<open>What a sweep is to do\<close>

text \<open>The verdict on one payment, by the provider's answer alone.\<close>

datatype verdict = Complete | Fail | Quarantine string | Skip | Errored

definition verdict_of :: "PaymentConfig \<Rightarrow> sweep_env \<Rightarrow> payment \<Rightarrow> verdict" where
  "verdict_of cfg W p =
     (if \<not> truthy (py_order_id p) then Skip
      else case fetchOrder cfg (sw_order W) of
        Inl e \<Rightarrow> Errored
      | Inr q \<Rightarrow>
          if po_status q = ''paid'' then
            (if sw_write_fails W then Errored
             else if order_amount_differs q p then Quarantine (amount_reason q p)
             else if order_currency_differs q p then Quarantine (currency_reason q p)
             else Complete)
          else if po_status q = ''created'' \<and> po_attempts q > 3 then (if sw_write_fails W then Errored else Fail)
          else Skip)"

definition settled :: "timestamp \<Rightarrow> verdict \<Rightarrow> payment \<Rightarrow> payment" where
  "settled now v p =
     (case v of
        Complete \<Rightarrow> p\<lparr>py_status := Some ''COMPLETED'', py_updated_at := now\<rparr>
      | Fail \<Rightarrow> p\<lparr>py_status := Some ''FAILED'', py_updated_at := now\<rparr>
      | Quarantine r \<Rightarrow> p\<lparr>py_quarantine_reason := Some r, py_updated_at := now\<rparr>
      | _ \<Rightarrow> p)"

definition tally :: "ReconciliationResult \<Rightarrow> nat" where
  "tally r = rs_reconciledCompleted r + rs_reconciledFailed r + rs_quarantined r + rs_skipped r + rs_errors r"

section \<open>One payment\<close>

lemma pending_transition:
  "transitionPaymentStatus now i PENDING COMPLETED f d =
     Inr (countWhere (\<lambda>p. py_id p = i \<and> has_status PENDING p) (payments d) > 0,
          update_payment now (\<lambda>p. py_id p = i \<and> has_status PENDING p) (\<lambda>p. f (p\<lparr>py_status := Some ''COMPLETED''\<rparr>)) d)"
  "transitionPaymentStatus now i PENDING FAILED f d =
     Inr (countWhere (\<lambda>p. py_id p = i \<and> has_status PENDING p) (payments d) > 0,
          update_payment now (\<lambda>p. py_id p = i \<and> has_status PENDING p) (\<lambda>p. f (p\<lparr>py_status := Some ''FAILED''\<rparr>)) d)"
  by (simp_all add: transitionPaymentStatus_def Let_def)

text \<open>What a step may do to a row, whatever happened since the payment was read.\<close>

lemma reconcile_payment_rows:
  "payments (snd (reconcile_payment now cfg W p s)) = payments (snd s) \<or>
   (\<exists>r. verdict_of cfg W p = Quarantine r \<and>
      payments (snd (reconcile_payment now cfg W p s)) = updateMany (\<lambda>q. py_id q = py_id p) (settled now (Quarantine r)) (payments (snd s))) \<or>
   verdict_of cfg W p \<in> {Complete, Fail} \<and>
      payments (snd (reconcile_payment now cfg W p s)) =
        updateMany (\<lambda>q. py_id q = py_id p \<and> has_status PENDING q) (settled now (verdict_of cfg W p)) (payments (snd s))"
  by (auto simp: reconcile_payment_def verdict_of_def quarantine_stale_def complete_stale_def fail_stale_def sweep_error_def sweep_skip_def
      pending_transition quarantine_def update_payment_def settled_def [abs_def] recordEvent_def run_tx_def split: sum.splits prod.splits)

text \<open>On a row that is as it was read.\<close>

lemma reconcile_payment_fresh:
  assumes d: "distinct (map py_id (payments (snd s)))" and p: "p \<in> set (payments (snd s))" "has_status PENDING p"
  shows "payments (snd (reconcile_payment now cfg W p s)) =
      updateMany (\<lambda>q. py_id q = py_id p) (settled now (verdict_of cfg W p)) (payments (snd s))" (is ?rows)
    and "fst (reconcile_payment now cfg W p s) = (case verdict_of cfg W p of
        Complete \<Rightarrow> (fst s)\<lparr>rs_reconciledCompleted := rs_reconciledCompleted (fst s) + 1\<rparr>
      | Fail \<Rightarrow> (fst s)\<lparr>rs_reconciledFailed := rs_reconciledFailed (fst s) + 1\<rparr>
      | Quarantine r \<Rightarrow> (fst s)\<lparr>rs_quarantined := rs_quarantined (fst s) + 1\<rparr>
      | Skip \<Rightarrow> (fst s)\<lparr>rs_skipped := rs_skipped (fst s) + 1\<rparr>
      | Errored \<Rightarrow> (fst s)\<lparr>rs_errors := rs_errors (fst s) + 1\<rparr>)" (is ?count)
proof -
  have only: "q = p" if "q \<in> set (payments (snd s))" "py_id q = py_id p" for q
    using key_unique [OF d that(1) p(1) that(2)] .
  have hit: "updateMany (\<lambda>q. py_id q = py_id p \<and> has_status PENDING q) f (payments (snd s)) =
      updateMany (\<lambda>q. py_id q = py_id p) f (payments (snd s))" for f
    unfolding updateMany_def using only p(2) by (auto intro!: map_cong)
  have same: "updateMany (\<lambda>q. py_id q = py_id p) (\<lambda>q. q) t = t" for t :: "payment list"
    by (simp add: updateMany_def)
  have found: "findUnique py_id (py_id p) (payments (snd s)) = Some p" by (rule findUnique_distinct [OF d p(1)])
  have count: "0 < countWhere (\<lambda>q. py_id q = py_id p \<and> has_status PENDING q) (payments (snd s))"
    using p by (auto simp: countWhere_def filter_empty_conv)
  note defs = reconcile_payment_def verdict_of_def quarantine_stale_def complete_stale_def fail_stale_def sweep_error_def sweep_skip_def
    pending_transition quarantine_def update_payment_def settled_def [abs_def] recordEvent_def run_tx_def
  show ?rows using found by (simp add: defs hit same split: sum.split)
  show ?count using found count by (simp add: defs split: sum.split)
qed

section \<open>The sweep\<close>

lemma settled_key [simp]: "py_id (settled now v p) = py_id p" "py_booking_id (settled now v p) = py_booking_id p"
  by (cases v; simp add: settled_def)+

lemma settle_keys: "map py_id (updateMany P (settled now v) t) = map py_id t"
  by (induction t) (auto simp: updateMany_def)

lemma reconcile_loop_quiet:
  assumes "\<And>p. sw_before (W p) = []" and "distinct (map py_id (payments (snd s)))" and "distinct (map py_id ps)"
    and "set ps \<subseteq> set (payments (snd s))" and "list_all (has_status PENDING) ps"
  shows "payments (snd (reconcile_loop now cfg W ps s)) =
      map (\<lambda>q. if q \<in> set ps then settled now (verdict_of cfg (W q) q) q else q) (payments (snd s)) \<and>
    tally (fst (reconcile_loop now cfg W ps s)) = tally (fst s) + length ps \<and>
    rs_reconciledCompleted (fst (reconcile_loop now cfg W ps s)) =
      rs_reconciledCompleted (fst s) + length (filter (\<lambda>p. verdict_of cfg (W p) p = Complete) ps) \<and>
    rs_totalEvaluated (fst (reconcile_loop now cfg W ps s)) = rs_totalEvaluated (fst s)"
  using assms(2-)
proof (induction ps arbitrary: s)
  case (Cons p ps)
  let ?s = "reconcile_payment now cfg (W p) p s" and ?f = "\<lambda>q. settled now (verdict_of cfg (W p) p) q"
  have p: "p \<in> set (payments (snd s))" "has_status PENDING p" using Cons.prems by auto
  note fresh = reconcile_payment_fresh [OF Cons.prems(1) p, of now cfg "W p"]
  have only: "q = p" if "q \<in> set (payments (snd s))" "py_id q = py_id p" for q
    using key_unique [OF Cons.prems(1) that(1) p(1) that(2)] .
  have keep: "q \<in> set (payments (snd ?s))" if "q \<in> set ps" for q
  proof -
    have "py_id q \<in> py_id ` set ps" using that by (rule imageI)
    then have "py_id q \<noteq> py_id p" using Cons.prems(2) by (metis distinct.simps(2) list.set_map list.simps(9))
    moreover have "q \<in> set (payments (snd s))" using Cons.prems(3) that by auto
    ultimately show ?thesis unfolding fresh(1) set_updateMany by force
  qed
  have "distinct (map py_id (payments (snd ?s)))" unfolding fresh(1) settle_keys by (rule Cons.prems(1))
  from Cons.IH [OF this] Cons.prems keep
  have IH: "payments (snd (reconcile_loop now cfg W ps ?s)) =
      map (\<lambda>q. if q \<in> set ps then settled now (verdict_of cfg (W q) q) q else q) (payments (snd ?s))"
    "tally (fst (reconcile_loop now cfg W ps ?s)) = tally (fst ?s) + length ps"
    "rs_reconciledCompleted (fst (reconcile_loop now cfg W ps ?s)) =
      rs_reconciledCompleted (fst ?s) + length (filter (\<lambda>p. verdict_of cfg (W p) p = Complete) ps)"
    "rs_totalEvaluated (fst (reconcile_loop now cfg W ps ?s)) = rs_totalEvaluated (fst ?s)"
    by (auto simp: subset_iff)
  have out: "?f p \<notin> set ps"
  proof
    assume "?f p \<in> set ps"
    then have "py_id (?f p) \<in> py_id ` set ps" by (rule imageI)
    with Cons.prems(2) show False by simp
  qed
  have row: "(if (if py_id q = py_id p then ?f q else q) \<in> set ps
        then settled now (verdict_of cfg (W (if py_id q = py_id p then ?f q else q)) (if py_id q = py_id p then ?f q else q)) (if py_id q = py_id p then ?f q else q)
        else (if py_id q = py_id p then ?f q else q)) =
      (if q \<in> set (p # ps) then settled now (verdict_of cfg (W q) q) q else q)" if "q \<in> set (payments (snd s))" for q
  proof (cases "py_id q = py_id p")
    case True
    with only [OF that] out show ?thesis by simp
  qed auto
  have "payments (snd (reconcile_loop now cfg W ps ?s)) =
      map (\<lambda>q. if q \<in> set (p # ps) then settled now (verdict_of cfg (W q) q) q else q) (payments (snd s))"
    unfolding IH(1) fresh(1) updateMany_def map_map by (rule map_cong [OF refl]) (simp only: comp_def row)
  moreover have "tally (fst ?s) = tally (fst s) + 1" "rs_totalEvaluated (fst ?s) = rs_totalEvaluated (fst s)"
    "rs_reconciledCompleted (fst ?s) = rs_reconciledCompleted (fst s) + (if verdict_of cfg (W p) p = Complete then 1 else 0)"
    unfolding fresh(2) by (simp_all add: tally_def split: verdict.split)
  moreover have "reconcile_loop now cfg W (p # ps) s = reconcile_loop now cfg W ps ?s" using assms(1) by simp
  ultimately show ?case using IH(2-) by simp
qed simp

lemma stale_rows:
  "set (stalePayments c d) \<subseteq> set (payments d)" "list_all (has_status PENDING) (stalePayments c d)"
  "distinct (map py_id (payments d)) \<Longrightarrow> distinct (map py_id (stalePayments c d))"
proof -
  have s: "set (stalePayments c d) \<subseteq> set (filter (is_stale c) (payments d))"
    unfolding stalePayments_def by (metis set_sort set_take_subset)
  then show "set (stalePayments c d) \<subseteq> set (payments d)" "list_all (has_status PENDING) (stalePayments c d)"
    by (auto simp: list_all_iff is_stale_def)
  assume "distinct (map py_id (payments d))"
  then have "distinct (map py_id (filter (is_stale c) (payments d)))" by (rule distinct_map_filter)
  then have "distinct (map py_id (sort_key py_created_at (filter (is_stale c) (payments d))))"
    by (simp add: distinct_map)
  then show "distinct (map py_id (stalePayments c d))"
    unfolding stalePayments_def take_map [symmetric] by (rule distinct_take)
qed

lemma payments_typed_settle:
  assumes "payments_typed d" and "payments d' = updateMany P (settled now v) (payments d)"
  shows "payments_typed d'"
proof -
  let ?f = "\<lambda>p. settled now v p"
  have "typed_update ?f"
    by (cases v) (auto simp: settled_def typed_update_def typed_status_def has_status_def intro: exI [of _ COMPLETED] exI [of _ FAILED])
  then have t: "typed_status (?f p)" if "typed_status p" for p using that by (simp add: typed_update_def)
  have "map py_id (payments d') = map py_id (payments d)" "map py_booking_id (payments d') = map py_booking_id (payments d)"
    unfolding assms(2) by (simp_all add: updateMany_def)
  moreover have "list_all typed_status (payments d')"
    using assms(1) t unfolding assms(2) payments_typed_def list_all_iff by (auto dest!: updateMany_memD)
  ultimately show ?thesis using assms(1) by (simp add: payments_typed_def)
qed

lemma reconcile_payment_typed: "payments_typed (snd s) \<Longrightarrow> payments_typed (snd (reconcile_payment now cfg W p s))"
proof -
  assume t: "payments_typed (snd s)"
  from reconcile_payment_rows [of now cfg W p s] show ?thesis
  proof (elim disjE exE conjE)
    assume "payments (snd (reconcile_payment now cfg W p s)) = payments (snd s)"
    from payments_typed_cong [OF this] t show ?thesis by simp
  qed (rule payments_typed_settle [OF t], assumption)+
qed

lemma reconcile_loop_typed: "payments_typed (snd s) \<Longrightarrow> payments_typed (snd (reconcile_loop now cfg W ps s))"
  by (induction ps arbitrary: s) (simp_all add: reconcile_payment_typed payment_types.fold_inv)

lemma complete_verdict:
  assumes "verdict_of cfg W p = Complete"
  shows "\<exists>q. fetchOrder cfg (sw_order W) = Inr q \<and> po_status q = ''paid'' \<and> truthy (py_order_id p) \<and>
    (py_amount p = None \<or> py_amount p = Some (po_amount q)) \<and> (py_currency p = [] \<or> toUpperCase (po_currency q) = toUpperCase (py_currency p))"
  using assms by (auto simp: verdict_of_def order_amount_differs_def order_currency_differs_def split: if_splits sum.splits)

section \<open>Properties\<close>

text \<open>
  C27. The reconciliation of stale payments does what the provider says and nothing else. Undisturbed, it leaves every
  payment as it was except the (at most fifty oldest) stale ones, each of which becomes completed, failed or
  quarantined exactly as the verdict on the provider's order demands; every payment looked at is counted once, so the
  counters add up to the total, and the completed ones are those with that verdict; a payment is completed only if
  its order is paid with the amount and currency on record. Disturbed by any other payment requests between its
  steps, it still keeps the statuses legal and the keys unique.
\<close>

theorem reconciliation_exact:
  assumes "\<And>p. sw_before (W p) = []" and "distinct (map py_id (payments d))"
    and r: "reconcileStalePayments now cfg W minutes d = (res, d')"
    and stale: "stale = stalePayments (now - minutes * 60 * 1000) d"
  shows "payments d' = map (\<lambda>p. if p \<in> set stale then settled now (verdict_of cfg (W p) p) p else p) (payments d) \<and>
    length stale \<le> 50 \<and> rs_totalEvaluated res = length stale \<and> tally res = length stale \<and>
    rs_reconciledCompleted res = length (filter (\<lambda>p. verdict_of cfg (W p) p = Complete) stale) \<and>
    (verdict_of cfg (W p) p = Complete \<longrightarrow> (\<exists>q. fetchOrder cfg (sw_order (W p)) = Inr q \<and> po_status q = ''paid'' \<and>
       (py_amount p = None \<or> py_amount p = Some (po_amount q)) \<and>
       (py_currency p = [] \<or> toUpperCase (po_currency q) = toUpperCase (py_currency p)))) \<and>
    (payments_typed d \<longrightarrow> payments_typed (snd (reconcileStalePayments now cfg V minutes d)))"
proof -
  let ?s = "(\<lparr>rs_totalEvaluated = length stale, rs_reconciledCompleted = 0, rs_reconciledFailed = 0, rs_quarantined = 0,
             rs_skipped = 0, rs_errors = 0\<rparr>, d)"
  note rows = stale_rows [where c = "now - minutes * 60 * 1000" and d = d, folded stale]
  have run: "reconcile_loop now cfg W stale ?s = (res, d')" using r stale by (simp add: reconcileStalePayments_def Let_def)
  have "distinct (map py_id (payments (snd ?s)))" "distinct (map py_id stale)" "set stale \<subseteq> set (payments (snd ?s))"
    using assms(2) rows by simp_all
  from reconcile_loop_quiet [where W = W, OF assms(1) this rows(2), of now cfg, unfolded run]
  have "payments d' = map (\<lambda>p. if p \<in> set stale then settled now (verdict_of cfg (W p) p) p else p) (payments d) \<and>
    rs_totalEvaluated res = length stale \<and> tally res = length stale \<and>
    rs_reconciledCompleted res = length (filter (\<lambda>p. verdict_of cfg (W p) p = Complete) stale)"
    by (simp add: tally_def)
  moreover have "length stale \<le> 50" by (simp add: stale stalePayments_def)
  moreover have "payments_typed (snd (reconcileStalePayments now cfg V minutes d))" if "payments_typed d"
    using reconcile_loop_typed [of "(_, d)"] that by (simp add: reconcileStalePayments_def Let_def)
  ultimately show ?thesis using complete_verdict by blast
qed

definition sample_provider :: PaymentConfig where
  "sample_provider = \<lparr>pc_keyId = ''k'', pc_keySecret = ''s'', pc_webhookSecret = ''h'', pc_currency = ''INR'', pc_isTestMode = True\<rparr>"

definition sample_sweep :: "payment \<Rightarrow> sweep_env" where
  "sample_sweep p = \<lparr>sw_order = OrderFetched 50000 (Some ''inr'') ''paid'' (Some 1), sw_write_fails = False, sw_audit_fails = False, sw_before = []\<rparr>"

theorem reconciliation_exact_witness:
  "\<exists>res d'. reconcileStalePayments 2000000 sample_provider sample_sweep 15 sample_pay_db = (res, d') \<and>
     tally res = 1 \<and> rs_reconciledCompleted res = 1 \<and> map py_status (payments d') = [Some ''COMPLETED'']"
proof -
  let ?r = "reconcileStalePayments 2000000 sample_provider sample_sweep 15 sample_pay_db"
  have keys: "distinct (map py_id (payments sample_pay_db))" by code_simp
  have stale: "stalePayments (2000000 - 15 * 60 * 1000) sample_pay_db = [sample_payment]" by code_simp
  have v: "verdict_of sample_provider (sample_sweep sample_payment) sample_payment = Complete" by code_simp
  have r: "?r = (fst ?r, snd ?r)" by simp
  have "payments sample_pay_db = [sample_payment]" by (simp add: sample_pay_db_def)
  with reconciliation_exact [OF _ keys r refl, of sample_payment sample_sweep] v show ?thesis
    unfolding stale by (intro exI [of _ "fst ?r"] exI [of _ "snd ?r"]) (simp add: sample_sweep_def settled_def)
qed

text \<open>
  A payment completed by the sweep has no capture reference, the late webhook does not supply it, and so every refund
  of it is refused.
\<close>

lemma refund_needs_capture:
  assumes "refund_load bookingId actor d = Inr (b, p)" and "\<not> has_status REFUNDED p" and "py_payment_id p = None"
  shows "refundPayment cfg fetched sdk now oid bookingId actor n reason d = (Inl (PaymentError ''REFUND_MISSING_CAPTURE_REF'' 422), d)"
  using assms by (simp add: refundPayment_def)

lemma reconciled_without_capture:
  "let d1 = snd (reconcileStalePayments 2000000 sample_provider sample_sweep 15 (sample_pay_db\<lparr>bookings := [sample_booking]\<rparr>));
       (r, d2) = webhook_dispatch 2000001 \<lparr>wi_customer = ''o1'', wi_worker = ''o2''\<rparr> sample_capture d1
   in r = Inr AlreadyCompleted \<and> map (\<lambda>p. (py_status p, py_payment_id p)) (payments d2) = [(Some ''COMPLETED'', None)]"
  by code_simp

end
