(* ===== verification/Push.thy ===== *)
theory Push
  imports Devices Outbox Sockets "HOL-Library.Multiset"
begin

text \<open>
  Push notifications: \<^verbatim>\<open>src/shared/fcm.ts\<close> (the Firebase client: credentials, initialisation, sending to
  tokens, classification of its errors, revocation of dead tokens) and the notification worker,
  \<^verbatim>\<open>src/workers/notificationWorker.ts\<close>, which delivers a committed wave of offers by push and by socket.

  The Firebase SDK, the file system, the JSON parser, the base64 decoder and SHA-256 are parameters, the fields of
  \<open>push_env\<close>. The sends of one call run in parallel: \<open>sdk_settle\<close> gives their answers in the order in which they
  settle, an order the theorems leave open. Metrics, log lines and latencies are left out.
\<close>

section \<open>Errors of the provider\<close>

datatype FCMErrorCategory = INVALID_REGISTRATION_TOKEN | UNREGISTERED_DEVICE | INVALID_ARGUMENT | AUTHENTICATION_ERROR
  | SERVER_UNAVAILABLE | INTERNAL_ERROR | TRANSIENT_FAILURE | RATE_LIMITED | FCM_UNKNOWN

record ClassifiedFCMError =
  ce_category :: FCMErrorCategory
  ce_isInvalidToken :: bool
  ce_isPermanent :: bool
  ce_shouldRetry :: bool
  ce_message :: string

record fcm_error =
  fe_code :: "string option"
  fe_info_code :: "string option"
  fe_message :: "string option"

definition fcm_code :: "fcm_error \<Rightarrow> string" where
  "fcm_code e = toLowerCase (js_or (fe_code e) (js_or (fe_info_code e) []))"

definition fcm_text :: "fcm_error \<Rightarrow> string" where
  "fcm_text e = toLowerCase (js_or (fe_message e) [])"

definition includes_any :: "string \<Rightarrow> string list \<Rightarrow> bool" where
  "includes_any s ps \<longleftrightarrow> list_ex (js_includes s) ps"

definition classified ::
  "FCMErrorCategory \<Rightarrow> bool \<Rightarrow> bool \<Rightarrow> bool \<Rightarrow> fcm_error \<Rightarrow> string \<Rightarrow> ClassifiedFCMError" where
  "classified k invalid permanent retry e fallback = \<lparr>ce_category = k, ce_isInvalidToken = invalid,
     ce_isPermanent = permanent, ce_shouldRetry = retry, ce_message = js_or (fe_message e) fallback\<rparr>"

definition unregistered_error :: "fcm_error \<Rightarrow> bool" where
  "unregistered_error e \<longleftrightarrow> js_includes (fcm_code e) ''registration-token-not-registered''
     \<or> includes_any (fcm_text e) [''registration-token-not-registered'', ''requested entity was not found'']"

definition bad_token_error :: "fcm_error \<Rightarrow> bool" where
  "bad_token_error e \<longleftrightarrow> js_includes (fcm_code e) ''invalid-registration-token''
     \<or> includes_any (fcm_text e) [''invalid-registration-token'', ''not a valid fcm registration token'']"

definition argument_error :: "fcm_error \<Rightarrow> bool" where
  "argument_error e \<longleftrightarrow> js_includes (fcm_code e) ''invalid-argument'' \<or> js_includes (fcm_text e) ''invalid-argument''"

definition rate_error :: "fcm_error \<Rightarrow> bool" where
  "rate_error e \<longleftrightarrow> includes_any (fcm_code e) [''quota-exceeded'', ''message-rate-exceeded'', ''device-message-rate-exceeded'']
     \<or> includes_any (fcm_text e) [''rate limit'', ''429'']"

definition server_error :: "fcm_error \<Rightarrow> bool" where
  "server_error e \<longleftrightarrow> includes_any (fcm_code e) [''server-unavailable'', ''internal-error'']
     \<or> includes_any (fcm_text e) [''etimedout'', ''econnreset'', ''econnrefused'', ''socket hang up'',
         ''503'', ''500'', ''502'', ''timeout'']"

definition credential_error :: "fcm_error \<Rightarrow> bool" where
  "credential_error e \<longleftrightarrow> includes_any (fcm_code e) [''authentication-error'', ''mismatched-credential'']
     \<or> includes_any (fcm_text e) [''credential'', ''auth error'']"

definition classifyFCMError :: "fcm_error option \<Rightarrow> ClassifiedFCMError" where
  "classifyFCMError error =
     (case error of
        None \<Rightarrow> \<lparr>ce_category = FCM_UNKNOWN, ce_isInvalidToken = False, ce_isPermanent = False, ce_shouldRetry = False,
                 ce_message = ''Unknown error''\<rparr>
      | Some e \<Rightarrow>
          if unregistered_error e then classified UNREGISTERED_DEVICE True True False e ''Registration token is no longer registered''
          else if bad_token_error e then classified INVALID_REGISTRATION_TOKEN True True False e ''Invalid FCM registration token format''
          else if argument_error e then
            classified INVALID_ARGUMENT (includes_any (fcm_text e) [''token'', ''recipient'']) True False e ''Invalid argument in FCM request''
          else if rate_error e then classified RATE_LIMITED False False True e ''FCM quota or message rate exceeded''
          else if server_error e then classified TRANSIENT_FAILURE False False True e ''Transient network or FCM server error''
          else if credential_error e then
            classified AUTHENTICATION_ERROR False True False e ''Firebase Admin authentication or credential mismatch''
          else classified FCM_UNKNOWN False False True e ''Unknown FCM error'')"

definition isPermanentInvalidTokenError :: "fcm_error option \<Rightarrow> bool" where
  "isPermanentInvalidTokenError error = ce_isInvalidToken (classifyFCMError error)"

section \<open>Payloads, results and the module's environment\<close>

record FCMPayload =
  fp_title :: string
  fp_body :: string
  fp_data :: "(string \<times> string) list"

record fcm_message =
  fm_token :: string
  fm_data :: "string \<rightharpoonup> string"

text \<open>The data of a message: title and body first, then the payload's own fields, which win.\<close>

definition message_for :: "FCMPayload \<Rightarrow> string \<Rightarrow> fcm_message" where
  "message_for p token = \<lparr>fm_token = token, fm_data = [''title'' \<mapsto> fp_title p, ''body'' \<mapsto> fp_body p] ++ map_of (fp_data p)\<rparr>"

record push_result = FCMDeliveryResult +
  pr_token :: string
  pr_fingerprint :: string
  pr_messageId :: "string option"
  pr_category :: "FCMErrorCategory option"

datatype firebase_creds = ParsedCreds string | SeparatedCreds string string string

datatype firebase_resolved = ServiceAccount firebase_creds | Adc

type_synonym fcm_mock = "string list \<Rightarrow> FCMPayload \<Rightarrow> string + (push_result list \<times> string list)"

record push_env =
  pe_env :: "string \<Rightarrow> string option"
  pe_resolve :: "string \<Rightarrow> string"
  pe_exists :: "string \<Rightarrow> bool"
  pe_read :: "string \<Rightarrow> string + string"
  pe_parse :: "string \<Rightarrow> string + string"
  pe_base64 :: "string \<Rightarrow> string"
  pe_sha256 :: "string \<Rightarrow> string"
  sdk_apps :: bool
  sdk_initializeApp :: "firebase_resolved \<Rightarrow> string + unit"
  sdk_settle :: "fcm_message list \<Rightarrow> (fcm_message \<times> (fcm_error + string)) list"
  pe_revoke_fails :: "string \<Rightarrow> bool"

record fcm_module =
  mod_app :: bool
  mod_initialized :: bool
  mod_mock :: "fcm_mock option"

definition in_production :: "push_env \<Rightarrow> bool" where
  "in_production E \<longleftrightarrow> pe_env E ''NODE_ENV'' = Some ''production''"

definition fingerprintToken :: "push_env \<Rightarrow> string \<Rightarrow> string" where
  "fingerprintToken E token = (if token = [] then ''empty_token'' else take 10 (pe_sha256 E token))"

definition setMockFcmProvider :: "push_env \<Rightarrow> fcm_mock option \<Rightarrow> fcm_module \<Rightarrow> (string + unit) \<times> fcm_module" where
  "setMockFcmProvider E provider m =
     (if in_production E \<and> provider \<noteq> None
      then (Inl ''[SECURITY_VIOLATION] Mock FCM provider cannot be registered in production environment.'', m)
      else (Inr (), m\<lparr>mod_mock := provider\<rparr>))"

definition resetFirebaseApp :: "fcm_module \<Rightarrow> fcm_module" where
  "resetFirebaseApp m = \<lparr>mod_app = False, mod_initialized = False, mod_mock = None\<rparr>"

section \<open>Credentials and initialisation\<close>

definition candidatePaths :: "push_env \<Rightarrow> string list" where
  "candidatePaths E =
     (case pe_env E ''FIREBASE_SERVICE_ACCOUNT_PATH'' of None \<Rightarrow> [] | Some p \<Rightarrow> if p = [] then [] else [p])
     @ filter (\<lambda>p. p \<noteq> []) [pe_resolve E ''labourbaba-58a41-firebase-adminsdk-fbsvc-e72264934a.json'',
         pe_resolve E ''firebase-service-account.json'']"

definition read_credentials :: "push_env \<Rightarrow> string \<Rightarrow> string + string" where
  "read_credentials E path = (case pe_read E path of Inl e \<Rightarrow> Inl e | Inr content \<Rightarrow> pe_parse E content)"

fun credentials_from_files :: "push_env \<Rightarrow> string list \<Rightarrow> string + firebase_creds option" where
  "credentials_from_files E [] = Inr None"
| "credentials_from_files E (p # ps) =
     (if pe_exists E p then
        (case read_credentials E p of
           Inr c \<Rightarrow> Inr (Some (ParsedCreds c))
         | Inl e \<Rightarrow> if in_production E then Inl (''[FCM_CONFIG_ERROR] Failed to parse local service account JSON file: '' @ e)
                    else credentials_from_files E ps)
      else credentials_from_files E ps)"

definition json_of_env :: "push_env \<Rightarrow> string \<Rightarrow> string" where
  "json_of_env E raw =
     (let s = trim raw in
      if \<not> startsWith s ''{'' \<and> \<not> startsWith s ''['' \<and> startsWith (pe_base64 E s) ''{'' then pe_base64 E s else s)"

definition credentials_from_json :: "push_env \<Rightarrow> string + firebase_creds option" where
  "credentials_from_json E =
     (let raw = js_or (pe_env E ''FIREBASE_SERVICE_ACCOUNT_JSON'') (js_or (pe_env E ''FIREBASE_SERVICE_ACCOUNT_KEY'') []) in
      if trim raw = [] then Inr None
      else case pe_parse E (json_of_env E raw) of
        Inr c \<Rightarrow> Inr (Some (ParsedCreds c))
      | Inl e \<Rightarrow> if in_production E then Inl (''[FCM_CONFIG_ERROR] Failed to parse FIREBASE_SERVICE_ACCOUNT_JSON env variable: '' @ e)
                 else Inr None)"

text \<open>The literal two characters backslash and n become a line feed.\<close>

fun unescape_newlines :: "string \<Rightarrow> string" where
  "unescape_newlines (a # b # s) =
     (if a = CHR 0x5C \<and> b = CHR ''n'' then CHR 0x0A # unescape_newlines s else a # unescape_newlines (b # s))"
| "unescape_newlines s = s"

definition separated_credentials :: "push_env \<Rightarrow> firebase_creds option" where
  "separated_credentials E =
     (let i = pe_env E ''FIREBASE_PROJECT_ID''; c = pe_env E ''FIREBASE_CLIENT_EMAIL''; k = pe_env E ''FIREBASE_PRIVATE_KEY''
      in if truthy i \<and> truthy c \<and> truthy k then Some (SeparatedCreds (the i) (the c) (unescape_newlines (the k))) else None)"

definition has_adc :: "push_env \<Rightarrow> bool" where
  "has_adc E \<longleftrightarrow> (case pe_env E ''GOOGLE_APPLICATION_CREDENTIALS'' of
     None \<Rightarrow> False | Some g \<Rightarrow> g \<noteq> ''undefined'' \<and> trim g \<noteq> [])"

definition resolveFirebaseCredentials :: "push_env \<Rightarrow> string + firebase_resolved option" where
  "resolveFirebaseCredentials E =
     (case credentials_from_files E (candidatePaths E) of
        Inl e \<Rightarrow> Inl e
      | Inr (Some c) \<Rightarrow> Inr (Some (ServiceAccount c))
      | Inr None \<Rightarrow>
          (case credentials_from_json E of
             Inl e \<Rightarrow> Inl e
           | Inr (Some c) \<Rightarrow> Inr (Some (ServiceAccount c))
           | Inr None \<Rightarrow>
               (case separated_credentials E of
                  Some c \<Rightarrow> Inr (Some (ServiceAccount c))
                | None \<Rightarrow> Inr (if has_adc E then Some Adc else None))))"

definition init_error :: "firebase_resolved \<Rightarrow> string \<Rightarrow> string" where
  "init_error c e = (case c of
     ServiceAccount _ \<Rightarrow> ''[FCM_INIT_ERROR] Failed to initialize Firebase Admin SDK: '' @ e
   | Adc \<Rightarrow> ''[FCM_INIT_ERROR] Failed to initialize Firebase Admin SDK via ADC: '' @ e)"

text \<open>The result is whether there is an application, or the exception thrown in production.\<close>

definition getFirebaseApp :: "push_env \<Rightarrow> fcm_module \<Rightarrow> (string + bool) \<times> fcm_module" where
  "getFirebaseApp E m =
     (if mod_app m then (Inr True, m)
      else if sdk_apps E then (Inr True, m\<lparr>mod_app := True, mod_initialized := True\<rparr>)
      else case resolveFirebaseCredentials E of
        Inl e \<Rightarrow> (Inl e, m)
      | Inr None \<Rightarrow> (Inr False, m)
      | Inr (Some c) \<Rightarrow>
          (case sdk_initializeApp E c of
             Inr _ \<Rightarrow> (Inr True, m\<lparr>mod_app := True, mod_initialized := True\<rparr>)
           | Inl e \<Rightarrow> if in_production E then (Inl (init_error c e), m) else (Inr False, m)))"

definition assertFcmConfig :: "push_env \<Rightarrow> fcm_module \<Rightarrow> (string + unit) \<times> fcm_module" where
  "assertFcmConfig E m =
     (if \<not> in_production E then (Inr (), m)
      else case resolveFirebaseCredentials E of
        Inl e \<Rightarrow> (Inl e, m)
      | Inr None \<Rightarrow> (Inl ''[FCM_CONFIG_ERROR] Production requires valid Firebase Admin SDK credentials (FIREBASE_SERVICE_ACCOUNT_JSON, service account JSON file, or GOOGLE_APPLICATION_CREDENTIALS).'', m)
      | Inr (Some _) \<Rightarrow>
          (case getFirebaseApp E m of
             (Inl e, m') \<Rightarrow> (Inl e, m')
           | (Inr a, m') \<Rightarrow>
               if \<not> a \<or> \<not> mod_initialized m'
               then (Inl ''[FCM_CONFIG_ERROR] Production Firebase Admin SDK initialization failed. Cannot operate in uninitialized or stub mode in production.'', m')
               else (Inr (), m')))"

section \<open>Sending\<close>

type_synonym 's on_invalid = "string \<Rightarrow> 's \<Rightarrow> 's option"

text \<open>The callback for a dead token; an exception of the callback is logged and dropped.\<close>

definition run_on_invalid :: "'s on_invalid option \<Rightarrow> string \<Rightarrow> 's \<Rightarrow> 's" where
  "run_on_invalid cb token s = (case cb of None \<Rightarrow> s | Some f \<Rightarrow> (case f token s of None \<Rightarrow> s | Some s' \<Rightarrow> s'))"

definition UNINITIALIZED :: string where
  "UNINITIALIZED = ''[FCM_UNINITIALIZED] Firebase Admin SDK is not initialized. Notification delivery failed.''"

definition uninitialized_result :: "push_env \<Rightarrow> string \<Rightarrow> push_result" where
  "uninitialized_result E token = \<lparr>fr_success = False, fr_isInvalidToken = False, fr_error = Some UNINITIALIZED,
     pr_token = token, pr_fingerprint = fingerprintToken E token, pr_messageId = None, pr_category = Some FCM_UNKNOWN\<rparr>"

fun settled_result :: "push_env \<Rightarrow> fcm_message \<times> (fcm_error + string) \<Rightarrow> push_result" where
  "settled_result E (msg, Inr messageId) = \<lparr>fr_success = True, fr_isInvalidToken = False, fr_error = None,
     pr_token = fm_token msg, pr_fingerprint = fingerprintToken E (fm_token msg), pr_messageId = Some messageId, pr_category = None\<rparr>"
| "settled_result E (msg, Inl err) =
     (let c = classifyFCMError (Some err) in
      \<lparr>fr_success = False, fr_isInvalidToken = ce_isInvalidToken c, fr_error = fe_message err,
       pr_token = fm_token msg, pr_fingerprint = fingerprintToken E (fm_token msg), pr_messageId = None,
       pr_category = Some (ce_category c)\<rparr>)"

fun settled_effect :: "'s on_invalid option \<Rightarrow> fcm_message \<times> (fcm_error + string) \<Rightarrow> 's \<Rightarrow> 's" where
  "settled_effect cb (msg, Inr _) s = s"
| "settled_effect cb (msg, Inl err) s =
     (if isPermanentInvalidTokenError (Some err) then run_on_invalid cb (fm_token msg) s else s)"

definition sendFCMToTokens ::
  "push_env \<Rightarrow> string list \<Rightarrow> FCMPayload \<Rightarrow> 's on_invalid option \<Rightarrow> fcm_module \<Rightarrow> 's
   \<Rightarrow> (string + push_result list) \<times> fcm_module \<times> 's" where
  "sendFCMToTokens E tokens payload cb m s =
     (if tokens = [] then (Inr [], m, s)
      else if in_production E \<and> mod_mock m \<noteq> None
      then (Inl ''[SECURITY_VIOLATION] Mock FCM provider cannot be active in production environment.'', m\<lparr>mod_mock := None\<rparr>, s)
      else case mod_mock m of
        Some mock \<Rightarrow> (case mock tokens payload of
            Inl e \<Rightarrow> (Inl e, m, s)
          | Inr (results, bad) \<Rightarrow> (Inr results, m, fold (run_on_invalid cb) bad s))
      | None \<Rightarrow> (case getFirebaseApp E m of
            (Inl e, m') \<Rightarrow> (Inl e, m', s)
          | (Inr a, m') \<Rightarrow>
              (let ts = filter (\<lambda>t. t \<noteq> []) tokens in
               if mod_initialized m' \<and> a
               then let settled = sdk_settle E (map (message_for payload) ts)
                    in (Inr (map (settled_result E) settled), m', fold (settled_effect cb) settled s)
               else (Inr (map (uninitialized_result E) ts), m', s))))"

definition active_tokens :: "device list \<Rightarrow> string list" where
  "active_tokens vs = filter (\<lambda>t. t \<noteq> []) (map dv_fcm_token vs)"

definition revoke_worker_token :: "push_env \<Rightarrow> timestamp \<Rightarrow> db on_invalid" where
  "revoke_worker_token E now token d =
     (if pe_revoke_fails E token then None else Some (snd (worker_revokeByToken now token d)))"

definition revoke_customer_token :: "push_env \<Rightarrow> timestamp \<Rightarrow> db on_invalid" where
  "revoke_customer_token E now token d =
     (if pe_revoke_fails E token then None else Some (snd (customer_revokeByToken now token d)))"

definition sendFCMToWorker ::
  "push_env \<Rightarrow> timestamp \<Rightarrow> uuid \<Rightarrow> FCMPayload \<Rightarrow> fcm_module \<Rightarrow> db \<Rightarrow> (string + push_result list) \<times> fcm_module \<times> db" where
  "sendFCMToWorker E now w payload m d =
     (let devices = worker_getActiveDevices w d in
      if devices = [] then (Inr [], m, d)
      else sendFCMToTokens E (active_tokens devices) payload (Some (revoke_worker_token E now)) m d)"

definition sendFCMToCustomer ::
  "push_env \<Rightarrow> timestamp \<Rightarrow> uuid \<Rightarrow> FCMPayload \<Rightarrow> fcm_module \<Rightarrow> db \<Rightarrow> (string + push_result list) \<times> fcm_module \<times> db" where
  "sendFCMToCustomer E now c payload m d =
     (let devices = customer_getActiveDevices c d in
      if devices = [] then (Inr [], m, d)
      else sendFCMToTokens E (active_tokens devices) payload (Some (revoke_customer_token E now)) m d)"

definition sendFCMToRecipient ::
  "push_env \<Rightarrow> timestamp \<Rightarrow> string \<Rightarrow> uuid \<Rightarrow> FCMPayload \<Rightarrow> fcm_module \<Rightarrow> db \<Rightarrow> (string + push_result list) \<times> fcm_module \<times> db" where
  "sendFCMToRecipient E now recipientType recipientId payload m d =
     (if recipientType = ''worker'' then sendFCMToWorker E now recipientId payload m d
      else if recipientType = ''customer'' then sendFCMToCustomer E now recipientId payload m d
      else (Inr [], m, d))"

definition sendFCMNotification ::
  "push_env \<Rightarrow> timestamp \<Rightarrow> string \<Rightarrow> FCMPayload \<Rightarrow> fcm_module \<Rightarrow> db \<Rightarrow> (string + unit) \<times> fcm_module \<times> db" where
  "sendFCMNotification E now deviceToken payload m d =
     (if deviceToken = [] then (Inr (), m, d)
      else case sendFCMToTokens E [deviceToken] payload (Some (revoke_worker_token E now)) m d of
        (Inl e, m', d') \<Rightarrow> (Inl e, m', d')
      | (Inr _, m', d') \<Rightarrow> (Inr (), m', d'))"

section \<open>The notification worker\<close>

text \<open>The data of the queue job; the rate is kept as the text it is sent as.\<close>

record DispatchNotifyJobData =
  dn_requirementId :: uuid
  dn_jobId :: uuid
  dn_waveNumber :: nat
  dn_expiresAt :: string
  dn_workers :: "uuid list"
  dn_skillType :: "string option"
  dn_ratePerDay :: "string option"
  dn_location :: "string option"
  dn_customerName :: string

definition js_nullish :: "string option \<Rightarrow> string \<Rightarrow> string" where
  "js_nullish a b = (case a of None \<Rightarrow> b | Some s \<Rightarrow> s)"

definition offer_payload :: "DispatchNotifyJobData \<Rightarrow> FCMPayload" where
  "offer_payload j = \<lparr>fp_title = ''New Job'', fp_body = js_nullish (dn_skillType j) ''New Job'',
     fp_data = [(''type'', ''incoming_job''), (''jobId'', dn_jobId j), (''requirementId'', dn_requirementId j),
       (''title'', ''New Job''), (''body'', js_nullish (dn_skillType j) []), (''ratePerDay'', js_nullish (dn_ratePerDay j) ''0''),
       (''customerName'', dn_customerName j), (''location'', js_nullish (dn_location j) []), (''expiresAt'', dn_expiresAt j)]\<rparr>"

text \<open>One worker of the wave: the push, whose exceptions are logged, then the socket event.\<close>

definition offer_worker :: "push_env \<Rightarrow> timestamp \<Rightarrow> DispatchNotifyJobData \<Rightarrow> uuid \<Rightarrow> fcm_module \<times> hub \<Rightarrow> fcm_module \<times> hub" where
  "offer_worker E now j w =
     (\<lambda>(m, h). case sendFCMToWorker E now w (offer_payload j) m (hb_db h) of
        (_, m', d') \<Rightarrow> (m', emit_job_incoming w (dn_requirementId j) (dn_jobId j) (h\<lparr>hb_db := d'\<rparr>)))"

definition processNotificationJob :: "push_env \<Rightarrow> timestamp \<Rightarrow> DispatchNotifyJobData \<Rightarrow> fcm_module \<times> hub \<Rightarrow> fcm_module \<times> hub" where
  "processNotificationJob E now j s = fold (offer_worker E now j) (dn_workers j) s"

section \<open>Results\<close>

definition delivered_ids :: "(fcm_message \<times> (fcm_error + string)) list \<Rightarrow> (string \<times> string) list" where
  "delivered_ids settled = List.map_filter (\<lambda>(msg, ans). case ans of Inl _ \<Rightarrow> None | Inr i \<Rightarrow> Some (fm_token msg, i)) settled"

text \<open>The tokens of a list of results that the provider declared dead and whose revocation the database accepted.\<close>

definition dead_tokens :: "push_env \<Rightarrow> push_result list \<Rightarrow> string set" where
  "dead_tokens E rs = {t. \<not> pe_revoke_fails E t \<and> list_ex (\<lambda>r. pr_token r = t \<and> fr_isInvalidToken r) rs}"

definition revoke_tokens :: "timestamp \<Rightarrow> string set \<Rightarrow> device list \<Rightarrow> device list" where
  "revoke_tokens now T t = revoke_devices now (\<lambda>v. dv_fcm_token v \<in> T) t"

text \<open>What the SDK is relied on for: every message is answered once, in any order.\<close>

definition settles_all :: "push_env \<Rightarrow> bool" where
  "settles_all E \<longleftrightarrow> (\<forall>ms. mset (map fst (sdk_settle E ms)) = mset ms)"

lemma settled_set: "settles_all E \<Longrightarrow> fst ` set (sdk_settle E ms) = set ms"
  unfolding settles_all_def by (metis list.set_map set_mset_mset)

lemma settled_token [simp]: "pr_token (settled_result E a) = fm_token (fst a)"
  by (cases "(E, a)" rule: settled_result.cases) (simp_all add: Let_def)

lemma message_token [simp]: "fm_token (message_for p t) = t"
  by (simp add: message_for_def)

lemma settled_success:
  "fr_success (settled_result E a) \<Longrightarrow> \<exists>i. snd a = Inr i \<and> pr_messageId (settled_result E a) = Some i"
  by (cases "(E, a)" rule: settled_result.cases) (simp_all add: Let_def)

lemma settled_id: "pr_messageId (settled_result E a) = (case snd a of Inl _ \<Rightarrow> None | Inr i \<Rightarrow> Some i)"
  by (cases "(E, a)" rule: settled_result.cases) (simp_all add: Let_def)

lemma settled_exclusive: "fr_isInvalidToken (settled_result E a) \<Longrightarrow> \<not> fr_success (settled_result E a)"
  by (cases "(E, a)" rule: settled_result.cases) (simp_all add: Let_def)

lemma revoke_tokens_empty [simp]: "revoke_tokens now {} t = t"
  by (simp add: revoke_tokens_def revoke_devices_def updateMany_none)

lemma revoke_tokens_union: "revoke_tokens now S (revoke_tokens now T t) = revoke_tokens now (S \<union> T) t"
  by (induction t) (auto simp: revoke_tokens_def revoke_devices_def updateMany_def active_def)

lemma revoke_tokens_single: "revoke_devices now (\<lambda>v. dv_fcm_token v = tok) t = revoke_tokens now {tok} t"
  by (simp add: revoke_tokens_def)

lemma revoked_tokens_inactive:
  "v \<in> set (revoke_tokens now T t) \<Longrightarrow> active v \<Longrightarrow> dv_fcm_token v \<notin> T \<and> v \<in> set t"
  by (auto simp: revoke_tokens_def revoke_devices_def set_updateMany active_def split: if_splits)

lemma dead_tokens_Cons:
  "dead_tokens E (r # rs) = (if fr_isInvalidToken r \<and> \<not> pe_revoke_fails E (pr_token r) then {pr_token r} else {}) \<union> dead_tokens E rs"
  by (auto simp: dead_tokens_def)

lemma dead_tokens_none: "list_all (\<lambda>r. \<not> fr_isInvalidToken r) rs \<Longrightarrow> dead_tokens E rs = {}"
  by (auto simp: dead_tokens_def list_all_iff list_ex_iff)

text \<open>
  The interface of a push channel: a table of devices in the database, the callback that revokes a token there, and
  the operation that sends to the active devices of an owner.
\<close>

locale push_channel =
  fixes table :: "db \<Rightarrow> device list"
    and put :: "device list \<Rightarrow> db \<Rightarrow> db"
    and revoke :: "push_env \<Rightarrow> timestamp \<Rightarrow> db on_invalid"
    and send :: "push_env \<Rightarrow> timestamp \<Rightarrow> uuid \<Rightarrow> FCMPayload \<Rightarrow> fcm_module \<Rightarrow> db \<Rightarrow> (string + push_result list) \<times> fcm_module \<times> db"
  assumes table_put: "table (put t d) = t"
    and put_put: "put t (put t' d) = put t d"
    and put_same: "put (table d) d = d"
    and revoke_law: "tok \<noteq> [] \<Longrightarrow> revoke E now tok d =
       (if pe_revoke_fails E tok then None else Some (put (revoke_tokens now {tok} (table d)) d))"
    and send_law: "send E now u p m d =
       (if active_devices u (table d) = [] then (Inr [], m, d)
        else sendFCMToTokens E (active_tokens (active_devices u (table d))) p (Some (revoke E now)) m d)"
begin

lemma settled_revokes:
  assumes "\<forall>a \<in> set out. fm_token (fst a) \<noteq> []"
  shows "fold (settled_effect (Some (revoke E now))) out d =
    put (revoke_tokens now (dead_tokens E (map (settled_result E) out)) (table d)) d"
  using assms
proof (induction out arbitrary: d)
  case Nil
  then show ?case by (simp add: dead_tokens_def put_same)
next
  case (Cons a out)
  let ?T = "if fr_isInvalidToken (settled_result E a) \<and> \<not> pe_revoke_fails E (fm_token (fst a)) then {fm_token (fst a)} else {}"
  have "settled_effect (Some (revoke E now)) a d = put (revoke_tokens now ?T (table d)) d"
    using Cons.prems by (cases "(Some (revoke E now), a, d)" rule: settled_effect.cases)
      (auto simp: run_on_invalid_def revoke_law put_same isPermanentInvalidTokenError_def Let_def)
  with Cons show ?case
    by (simp add: table_put put_put revoke_tokens_union dead_tokens_Cons Un_commute)
qed

lemma send_cases:
  assumes m: "mod_mock m = None" and s: "send E now u p m d = (Inr rs, m', d')"
  defines "ts \<equiv> active_tokens (active_devices u (table d))"
  defines "out \<equiv> sdk_settle E (map (message_for p) ts)"
  obtains (none) "ts = []" "rs = []" "m' = m" "d' = d"
    | (off) "rs = map (uninitialized_result E) ts" "d' = d"
    | (on) "mod_initialized m'" "rs = map (settled_result E) out" "d' = fold (settled_effect (Some (revoke E now))) out d"
proof -
  have ts: "filter (\<lambda>t. t \<noteq> []) ts = ts" by (simp add: ts_def active_tokens_def)
  obtain x m1 where g: "getFirebaseApp E m = (x, m1)" by fastforce
  show ?thesis
  proof (cases "ts = []")
    case True
    with s that(1) show ?thesis unfolding send_law sendFCMToTokens_def ts_def [symmetric] by (simp split: if_splits)
  next
    case False
    then have "active_devices u (table d) \<noteq> []" by (auto simp: ts_def active_tokens_def)
    with False m have "sendFCMToTokens E ts p (Some (revoke E now)) m d = (Inr rs, m', d')" using s unfolding send_law ts_def by simp
    then have e: "(case x of Inl e \<Rightarrow> (Inl e, m1, d) | Inr a \<Rightarrow>
        if mod_initialized m1 \<and> a then (Inr (map (settled_result E) out), m1, fold (settled_effect (Some (revoke E now))) out d)
        else (Inr (map (uninitialized_result E) ts), m1, d)) = (Inr rs, m', d')"
      using False m unfolding sendFCMToTokens_def ts Let_def g out_def by simp
    then obtain a where a: "x = Inr a" by (cases x) simp_all
    show ?thesis
    proof (cases "mod_initialized m1 \<and> a")
      case True
      with e a have "mod_initialized m'" "rs = map (settled_result E) out" "d' = fold (settled_effect (Some (revoke E now))) out d" by simp_all
      then show ?thesis by (rule that(3))
    next
      case False
      with e a have "rs = map (uninitialized_result E) ts" "d' = d" by auto
      then show ?thesis by (rule that(2))
    qed
  qed
qed

lemma send_exact:
  assumes S: "settles_all E" and m: "mod_mock m = None" and s: "send E now u p m d = (Inr rs, m', d')"
  shows "mset (map pr_token rs) = mset (active_tokens (active_devices u (table d)))"
    and "d' = put (revoke_tokens now (dead_tokens E rs) (table d)) d"
    and "r \<in> set rs \<Longrightarrow> fr_success r \<Longrightarrow> mod_initialized m' \<and>
      (\<exists>i. pr_messageId r = Some i \<and> (message_for p (pr_token r), Inr i) \<in>
         set (sdk_settle E (map (message_for p) (active_tokens (active_devices u (table d))))))"
proof -
  let ?ts = "active_tokens (active_devices u (table d))"
  let ?out = "sdk_settle E (map (message_for p) ?ts)"
  have out: "map fm_token (map fst ?out) = map pr_token (map (settled_result E) ?out)" by simp
  have sent: "fst ` set ?out = message_for p ` set ?ts" using settled_set [OF S] by simp
  have "mset (map fm_token (map fst ?out)) = image_mset fm_token (mset (map (message_for p) ?ts))"
    using S unfolding settles_all_def by (metis mset_map)
  also have "\<dots> = mset ?ts" by (simp add: image_mset.compositionality o_def flip: mset_map)
  finally have tok: "mset (map pr_token (map (settled_result E) ?out)) = mset ?ts" unfolding out .
  show "mset (map pr_token rs) = mset ?ts"
    using m s by (cases rule: send_cases) (use tok in \<open>simp_all add: uninitialized_result_def o_def\<close>)
  show "d' = put (revoke_tokens now (dead_tokens E rs) (table d)) d"
  using m s proof (cases rule: send_cases)
    case on
    have "\<forall>a \<in> set ?out. fm_token (fst a) \<noteq> []"
    proof
      fix a assume "a \<in> set ?out"
      then have "fst a \<in> message_for p ` set ?ts" using sent by blast
      then show "fm_token (fst a) \<noteq> []" by (auto simp: active_tokens_def)
    qed
    from settled_revokes [OF this] on show ?thesis by simp
  qed (simp_all add: dead_tokens_none put_same list_all_iff uninitialized_result_def)
  assume r: "r \<in> set rs" "fr_success r"
  show "mod_initialized m' \<and> (\<exists>i. pr_messageId r = Some i \<and> (message_for p (pr_token r), Inr i) \<in> set ?out)"
  using m s proof (cases rule: send_cases)
    case on
    from r on obtain a where a: "a \<in> set ?out" "r = settled_result E a" by auto
    from settled_success r a obtain i where i: "snd a = Inr i" "pr_messageId r = Some i" by blast
    from a sent have "fst a \<in> message_for p ` set ?ts" by blast
    with a have "fst a = message_for p (pr_token r)" by auto
    with a i on show ?thesis by (metis prod.collapse)
  qed (use r in \<open>auto simp: uninitialized_result_def\<close>)
qed

lemma permanent_silences:
  assumes "settles_all E" "mod_mock m = None" "send E now u p m d = (Inr rs, m', d')"
    and "co_permanent (fcm_outcome (map FCMDeliveryResult.truncate rs))" and "\<And>t. \<not> pe_revoke_fails E t"
  shows "active_tokens (active_devices u (table d')) = []"
proof -
  from assms(4) have all: "\<forall>r \<in> set rs. fr_isInvalidToken r"
    by (auto simp: fcm_outcome_def list_ex_iff findFirst_None transient_result_def FCMDeliveryResult.defs split: if_splits option.splits)
  note ex = send_exact [OF assms(1-3)]
  have "dv_fcm_token v = []" if v: "v \<in> set (table d')" "active v" "dv_owner_id v = u" for v
  proof (rule ccontr)
    assume n: "dv_fcm_token v \<noteq> []"
    from v revoked_tokens_inactive have k: "dv_fcm_token v \<notin> dead_tokens E rs" "v \<in> set (table d)" unfolding ex(2) table_put by blast+
    with v n have "dv_fcm_token v \<in> set (active_tokens (active_devices u (table d)))"
      by (auto simp: active_tokens_def active_devices_def)
    then have "dv_fcm_token v \<in> set (map pr_token rs)" using ex(1) by (metis set_mset_mset)
    with all k assms(5) show False by (auto simp: dead_tokens_def list_ex_iff)
  qed
  then show ?thesis by (auto simp: active_tokens_def active_devices_def filter_empty_conv)
qed

lemma send_any:
  assumes S: "settles_all E" and m: "mod_mock m = None" and s: "send E now u p m d = (x, m', d')"
  shows "mod_mock m' = None"
    and "\<exists>T \<subseteq> set (active_tokens (active_devices u (table d))). d' = put (revoke_tokens now T (table d)) d"
proof -
  show "mod_mock m' = None" using s m unfolding send_law sendFCMToTokens_def
    by (auto simp: getFirebaseApp_def Let_def split: if_splits sum.splits option.splits prod.splits)
  show "\<exists>T \<subseteq> set (active_tokens (active_devices u (table d))). d' = put (revoke_tokens now T (table d)) d"
  proof (cases x)
    case (Inl e)
    with s m have "d' = d" unfolding send_law sendFCMToTokens_def by (auto simp: Let_def split: if_splits sum.splits prod.splits)
    then have "d' = put (revoke_tokens now {} (table d)) d" by (simp add: put_same)
    then show ?thesis by blast
  next
    case (Inr rs)
    note ex = send_exact [OF S m s [unfolded Inr]]
    have "dead_tokens E rs \<subseteq> set (map pr_token rs)" by (auto simp: dead_tokens_def list_ex_iff)
    also have "\<dots> = set (active_tokens (active_devices u (table d)))" using ex(1) by (metis set_mset_mset)
    finally show ?thesis using ex(2) by blast
  qed
qed

end

interpretation worker_push: push_channel worker_devices "\<lambda>t d. d\<lparr>worker_devices := t\<rparr>" revoke_worker_token sendFCMToWorker
  by unfold_locales (simp_all add: revoke_worker_token_def worker_revokeByToken_def revoke_tokens_single
      sendFCMToWorker_def worker_getActiveDevices_def Let_def)

interpretation customer_push: push_channel customer_devices "\<lambda>t d. d\<lparr>customer_devices := t\<rparr>" revoke_customer_token sendFCMToCustomer
  by unfold_locales (simp_all add: revoke_customer_token_def customer_revokeByToken_def revoke_tokens_single
      sendFCMToCustomer_def customer_getActiveDevices_def Let_def)

section \<open>What the push service guarantees\<close>


text \<open>A provider that answers in the reverse order, knows the token t1, has lost t2 and is overloaded for t3.\<close>

definition sample_settle :: "fcm_message list \<Rightarrow> (fcm_message \<times> (fcm_error + string)) list" where
  "sample_settle ms = map (\<lambda>msg. (msg,
     if fm_token msg = ''t1'' then Inr ''projects/p/messages/1''
     else if fm_token msg = ''t2'' then Inl \<lparr>fe_code = Some ''messaging/registration-token-not-registered'', fe_info_code = None, fe_message = None\<rparr>
     else Inl \<lparr>fe_code = Some ''messaging/server-unavailable'', fe_info_code = None, fe_message = Some ''busy''\<rparr>)) (rev ms)"

definition sample_push_env :: push_env where
  "sample_push_env = \<lparr>pe_env = [''NODE_ENV'' \<mapsto> ''production''], pe_resolve = (\<lambda>p. ''/app/'' @ p), pe_exists = (\<lambda>_. False),
     pe_read = Inl, pe_parse = Inr, pe_base64 = (\<lambda>s. s), pe_sha256 = (\<lambda>s. s), sdk_apps = True, sdk_initializeApp = (\<lambda>_. Inr ()),
     sdk_settle = sample_settle, pe_revoke_fails = (\<lambda>_. False)\<rparr>"

definition fresh_module :: fcm_module where
  "fresh_module = \<lparr>mod_app = False, mod_initialized = False, mod_mock = None\<rparr>"

definition sample_push_db :: db where
  "sample_push_db = fold device_exec
     [WorkerCall (Register 1 ''w1'' \<lparr>rd_device_token = ''t1'', rd_device_id = Some ''a'', rd_platform = None\<rparr>),
      WorkerCall (Register 1 ''w1'' \<lparr>rd_device_token = ''t2'', rd_device_id = Some ''b'', rd_platform = None\<rparr>),
      WorkerCall (Register 1 ''w2'' \<lparr>rd_device_token = ''t2'', rd_device_id = Some ''c'', rd_platform = None\<rparr>)] empty_db"

definition sample_payload :: FCMPayload where
  "sample_payload = \<lparr>fp_title = ''T'', fp_body = ''B'', fp_data = []\<rparr>"

lemma sample_settles: "settles_all sample_push_env"
  by (simp add: settles_all_def sample_push_env_def sample_settle_def comp_def)


text \<open>The production gate: once the start-up check has passed, every later send goes to the SDK.\<close>

lemma production_sends_for_real:
  assumes "in_production E" and "mod_mock m = None" and "assertFcmConfig E m = (Inr (), m')" and "tokens \<noteq> []"
  shows "fst (sendFCMToTokens E tokens p cb m' s) =
    Inr (map (settled_result E) (sdk_settle E (map (message_for p) (filter (\<lambda>t. t \<noteq> []) tokens))))"
proof -
  from assms(1,3) obtain a where g: "getFirebaseApp E m = (Inr a, m')" "a" "mod_initialized m'"
    unfolding assertFcmConfig_def by (auto split: sum.splits option.splits prod.splits if_splits)
  then have "mod_app m'" "mod_mock m' = mod_mock m"
    by (auto simp: getFirebaseApp_def split: if_splits sum.splits option.splits)
  then have "getFirebaseApp E m' = (Inr True, m')" by (simp add: getFirebaseApp_def)
  with assms g \<open>mod_mock m' = mod_mock m\<close> show ?thesis by (simp add: sendFCMToTokens_def Let_def)
qed

text \<open>A mock never delivers in production, whichever way it got there.\<close>

lemma production_never_mocks:
  assumes "in_production E" and "mod_mock m \<noteq> None" and "tokens \<noteq> []"
  shows "isl (fst (sendFCMToTokens E tokens p cb m s))" "mod_mock (fst (snd (sendFCMToTokens E tokens p cb m s))) = None"
    "isl (fst (setMockFcmProvider E (Some f) m))"
  using assms by (auto simp: sendFCMToTokens_def setMockFcmProvider_def)

text \<open>Retryable errors never revoke; the converse fails for malformed payloads (below).\<close>

lemma retry_never_revokes: "ce_shouldRetry (classifyFCMError e) \<Longrightarrow> \<not> ce_isInvalidToken (classifyFCMError e)"
  by (auto simp: classifyFCMError_def classified_def split: option.splits if_splits)

text \<open>An invalid argument of the payload revokes the device when its message merely contains the word token.\<close>

lemma payload_error_revokes:
  "isPermanentInvalidTokenError (Some \<lparr>fe_code = Some ''messaging/invalid-argument'', fe_info_code = None,
     fe_message = Some ''Invalid JSON payload: unexpected token''\<rparr>)"
  by code_simp

text \<open>The fallback body of the offer is dead: the data's own body, empty without a skill, replaces it.\<close>

lemma offer_body_is_data_body:
  "fm_data (message_for (offer_payload j) t) ''body'' = Some (js_nullish (dn_skillType j) [])"
  by (simp add: message_for_def offer_payload_def)

section \<open>A wave is notified\<close>

definition offers_to :: "DispatchNotifyJobData \<Rightarrow> connection list \<Rightarrow> uuid \<Rightarrow> delivery list" where
  "offers_to j cs w = map (\<lambda>c. \<lparr>dl_user = cn_user c, dl_room = Some (getWorkerPersonalRoom w),
     dl_event = JobIncoming w (dn_requirementId j) (dn_jobId j)\<rparr>) (filter (\<lambda>c. getWorkerPersonalRoom w \<in> set (cn_rooms c)) cs)"

definition wave_tokens :: "db \<Rightarrow> uuid list \<Rightarrow> string set" where
  "wave_tokens d ws = (\<Union>w \<in> set ws. set (active_tokens (worker_getActiveDevices w d)))"

lemma active_tokens_shrink:
  "set (active_tokens (active_devices u (revoke_tokens now T t))) \<subseteq> set (active_tokens (active_devices u t))"
  using revoked_tokens_inactive by (fastforce simp: active_tokens_def active_devices_def)

lemma wave_tokens_shrink: "wave_tokens (d\<lparr>worker_devices := revoke_tokens now T (worker_devices d)\<rparr>) ws \<subseteq> wave_tokens d ws"
  using active_tokens_shrink by (fastforce simp: wave_tokens_def worker_getActiveDevices_def)

lemma wave_tokens_Cons: "wave_tokens d (w # ws) = wave_tokens d [w] \<union> wave_tokens d ws"
  by (simp add: wave_tokens_def)

lemma offer_worker_step:
  assumes "settles_all E" and "mod_mock m = None" and "offer_worker E now j w (m, h) = (m', h')"
  shows "mod_mock m' = None"
    and "\<exists>T \<subseteq> wave_tokens (hb_db h) [w]. hb_db h' = (hb_db h)\<lparr>worker_devices := revoke_tokens now T (worker_devices (hb_db h))\<rparr>"
    and "hb_delivered h' = hb_delivered h @ (if hb_server h then offers_to j (hb_sockets h) w else [])"
    and "hb_sockets h' = hb_sockets h" "hb_server h' = hb_server h" "hb_pending h' = hb_pending h"
proof -
  obtain x d' where s: "sendFCMToWorker E now w (offer_payload j) m (hb_db h) = (x, m', d')"
    and h: "h' = emit_job_incoming w (dn_requirementId j) (dn_jobId j) (h\<lparr>hb_db := d'\<rparr>)"
    using assms(3) by (auto simp: offer_worker_def split: prod.splits)
  note any = worker_push.send_any [OF assms(1,2) s]
  show "mod_mock m' = None" by (rule any(1))
  have "hb_db h' = d'" by (simp add: h emit_job_incoming_def io_emit_def deliver_def)
  with any(2) show "\<exists>T \<subseteq> wave_tokens (hb_db h) [w]. hb_db h' = (hb_db h)\<lparr>worker_devices := revoke_tokens now T (worker_devices (hb_db h))\<rparr>"
    by (simp add: wave_tokens_def worker_getActiveDevices_def)
qed (use assms(3) in \<open>auto simp: offer_worker_def emit_job_incoming_def io_emit_def deliver_def offers_to_def split: prod.splits if_splits\<close>)

lemma wave_steps:
  assumes "settles_all E" and "mod_mock m = None" and "fold (offer_worker E now j) ws (m, h) = (m', h')"
  shows "\<exists>T \<subseteq> wave_tokens (hb_db h) ws. hb_db h' = (hb_db h)\<lparr>worker_devices := revoke_tokens now T (worker_devices (hb_db h))\<rparr>"
    and "hb_delivered h' = hb_delivered h @ (if hb_server h then concat (map (offers_to j (hb_sockets h)) ws) else [])"
    and "hb_sockets h' = hb_sockets h" and "hb_server h' = hb_server h" and "hb_pending h' = hb_pending h"
proof -
  let ?P = "\<lambda>ws h h'. (\<exists>T \<subseteq> wave_tokens (hb_db h) ws. hb_db h' = (hb_db h)\<lparr>worker_devices := revoke_tokens now T (worker_devices (hb_db h))\<rparr>)
    \<and> hb_delivered h' = hb_delivered h @ (if hb_server h then concat (map (offers_to j (hb_sockets h)) ws) else [])
    \<and> hb_sockets h' = hb_sockets h \<and> hb_server h' = hb_server h \<and> hb_pending h' = hb_pending h"
  have "?P ws h h'" using assms(2,3)
  proof (induction ws arbitrary: m h)
    case Nil
    then have "h' = h" by simp
    have "\<exists>T \<subseteq> wave_tokens (hb_db h) []. hb_db h = (hb_db h)\<lparr>worker_devices := revoke_tokens now T (worker_devices (hb_db h))\<rparr>"
      by (rule exI [of _ "{}"]) simp
    then show ?case unfolding \<open>h' = h\<close> by simp
  next
    case (Cons w ws)
    obtain m1 h1 where n: "offer_worker E now j w (m, h) = (m1, h1)" by fastforce
    note st = offer_worker_step [OF assms(1) Cons.prems(1) n]
    have IH: "?P ws h1 h'" using Cons.prems n by (intro Cons.IH [OF st(1)]) simp
    from st(2) obtain T where T: "T \<subseteq> wave_tokens (hb_db h) [w]"
      "hb_db h1 = (hb_db h)\<lparr>worker_devices := revoke_tokens now T (worker_devices (hb_db h))\<rparr>" by blast
    from IH obtain U where U: "U \<subseteq> wave_tokens (hb_db h1) ws"
      "hb_db h' = (hb_db h1)\<lparr>worker_devices := revoke_tokens now U (worker_devices (hb_db h1))\<rparr>" by blast
    have "U \<subseteq> wave_tokens (hb_db h) ws" using U(1) wave_tokens_shrink unfolding T(2) by (rule subset_trans)
    with T(1) have "U \<union> T \<subseteq> wave_tokens (hb_db h) (w # ws)" using wave_tokens_Cons [of "hb_db h" w ws] by blast
    moreover from T U have "hb_db h' = (hb_db h)\<lparr>worker_devices := revoke_tokens now (U \<union> T) (worker_devices (hb_db h))\<rparr>"
      by (simp add: revoke_tokens_union)
    ultimately have "\<exists>T \<subseteq> wave_tokens (hb_db h) (w # ws). hb_db h' = (hb_db h)\<lparr>worker_devices := revoke_tokens now T (worker_devices (hb_db h))\<rparr>"
      by blast
    with IH st(3-6) show ?case by simp
  qed
  then show "\<exists>T \<subseteq> wave_tokens (hb_db h) ws. hb_db h' = (hb_db h)\<lparr>worker_devices := revoke_tokens now T (worker_devices (hb_db h))\<rparr>"
    and "hb_delivered h' = hb_delivered h @ (if hb_server h then concat (map (offers_to j (hb_sockets h)) ws) else [])"
    and "hb_sockets h' = hb_sockets h" and "hb_server h' = hb_server h" and "hb_pending h' = hb_pending h" by blast+
qed


definition sample_notify_job :: DispatchNotifyJobData where
  "sample_notify_job = \<lparr>dn_requirementId = ''r1'', dn_jobId = ''j1'', dn_waveNumber = 1, dn_expiresAt = ''2026'', dn_workers = [''w1''],
     dn_skillType = Some ''mason'', dn_ratePerDay = None, dn_location = None, dn_customerName = ''c''\<rparr>"


end
