(* ===== verification/Configuration.thy ===== *)
theory Configuration
  imports Push Payment_Provider Storage Otp_Auth
begin

text \<open>
  Configuration: the gates a process passes before it starts and the settings of its connections.
  \<^verbatim>\<open>src/config/authConfig.ts\<close> (SMS provider), \<^verbatim>\<open>src/config/paymentConfig.ts\<close> (the start-up check),
  \<^verbatim>\<open>src/config/redis.ts\<close> and \<^verbatim>\<open>src/config/bullmq.ts\<close> (Redis and the queues), \<^verbatim>\<open>src/config/outboxConfig.ts\<close>,
  \<^verbatim>\<open>src/config/databasePoolConfig.ts\<close> (connection pools and their budget), \<^verbatim>\<open>src/utils/databaseSafety.ts\<close> (the guard of
  a restore) and \<^verbatim>\<open>src/utils/failureInjection.ts\<close>.

  The process environment is a function from names to optional values. The URL parser, its serialiser and
  \<^verbatim>\<open>decodeURIComponent\<close> are parameters. An integer that does not parse is \<open>None\<close>, JavaScript's \<^verbatim>\<open>NaN\<close>.
\<close>

type_synonym vars = "string \<Rightarrow> string option"

definition production :: "vars \<Rightarrow> bool" where
  "production v \<longleftrightarrow> v ''NODE_ENV'' = Some ''production''"

section \<open>Secrets\<close>

definition jwt_env_of :: "vars \<Rightarrow> jwt_env" where
  "jwt_env_of v = \<lparr>je_access = v ''JWT_ACCESS_SECRET'', je_legacy = v ''JWT_SECRET'', je_refresh = v ''JWT_REFRESH_SECRET'',
     je_access_expires = v ''JWT_ACCESS_EXPIRES_IN'', je_refresh_expires = v ''JWT_REFRESH_EXPIRES_IN''\<rparr>"

definition assertJwtConfig :: "vars \<Rightarrow> error + JwtConfig" where
  "assertJwtConfig v = getJwtConfig (jwt_env_of v)"

definition nodeEnv :: "vars \<Rightarrow> string" where
  "nodeEnv v = js_or (v ''NODE_ENV'') ''development''"

definition smsProvider :: "vars \<Rightarrow> string" where
  "smsProvider v = js_or (v ''SMS_PROVIDER'') (if nodeEnv v = ''production'' then ''twilio'' else ''mock'')"

definition all_set :: "vars \<Rightarrow> string list \<Rightarrow> bool" where
  "all_set v names \<longleftrightarrow> list_all (\<lambda>n. truthy (v n)) names"

definition assertProductionAuthConfig :: "vars \<Rightarrow> error + unit" where
  "assertProductionAuthConfig v =
     (case assertJwtConfig v of Inl e \<Rightarrow> Inl e
      | Inr _ \<Rightarrow>
          if nodeEnv v \<noteq> ''production'' then Inr ()
          else if smsProvider v = ''mock'' then Inl (PlainError ''[SECURITY ERROR] In production, SMS_PROVIDER cannot be mock'')
          else if smsProvider v = ''twilio'' \<and> \<not> all_set v [''TWILIO_ACCOUNT_SID'', ''TWILIO_AUTH_TOKEN'', ''TWILIO_PHONE_NUMBER'']
          then Inl (PlainError ''[SECURITY ERROR] Missing required Twilio configuration'')
          else if smsProvider v = ''http'' \<and> \<not> all_set v [''GENERIC_SMS_API_URL'', ''GENERIC_SMS_API_KEY'']
          then Inl (PlainError ''[SECURITY ERROR] Missing required Generic HTTP SMS configuration'')
          else Inr ())"

definition payment_env_of :: "vars \<Rightarrow> payment_env" where
  "payment_env_of v = \<lparr>pe_nodeEnv = nodeEnv v, pe_keyId = v ''RAZORPAY_KEY_ID'', pe_keySecret = v ''RAZORPAY_KEY_SECRET'',
     pe_webhookSecret = v ''RAZORPAY_WEBHOOK_SECRET''\<rparr>"

definition assertProductionPaymentConfig :: "vars \<Rightarrow> error + unit" where
  "assertProductionPaymentConfig v =
     (if nodeEnv v \<noteq> ''production'' then Inr ()
      else case validatePaymentSecret (v ''RAZORPAY_KEY_ID'') 10 of Inl e \<Rightarrow> Inl e | Inr _ \<Rightarrow>
          (case validatePaymentSecret (v ''RAZORPAY_KEY_SECRET'') 10 of Inl e \<Rightarrow> Inl e | Inr _ \<Rightarrow>
          (case validatePaymentSecret (v ''RAZORPAY_WEBHOOK_SECRET'') 10 of Inl e \<Rightarrow> Inl e | Inr _ \<Rightarrow> Inr ())))"

definition storage_env_of :: "vars \<Rightarrow> storage_env" where
  "storage_env_of v = \<lparr>STORAGE_SIGNING_SECRET = v ''STORAGE_SIGNING_SECRET'', STORAGE_PROVIDER = v ''STORAGE_PROVIDER'',
     SUPABASE_URL = v ''SUPABASE_URL'', SUPABASE_SECRET_KEY = v ''SUPABASE_SECRET_KEY'',
     SUPABASE_SERVICE_ROLE_KEY = v ''SUPABASE_SERVICE_ROLE_KEY'', STORAGE_BUCKET_NAME = v ''STORAGE_BUCKET_NAME''\<rparr>"

section \<open>Redis\<close>

record parsed_url =
  ur_protocol :: string
  ur_hostname :: string
  ur_port :: string
  ur_username :: string
  ur_password :: string
  ur_pathname :: string

record url_lib =
  url_parse :: "string \<Rightarrow> string + parsed_url"
  url_string :: "parsed_url \<Rightarrow> string"
  url_decode :: "string \<Rightarrow> string option"

definition is_quote :: "char \<Rightarrow> bool" where
  "is_quote c \<longleftrightarrow> c = CHR 0x27 \<or> c = CHR 0x22"

text \<open>The replacement of \<^verbatim>\<open>/^['"]|['"]$/g\<close>: one quote at the start and one at the end.\<close>

definition strip_quotes :: "string \<Rightarrow> string" where
  "strip_quotes s =
     (let t = (if s \<noteq> [] \<and> is_quote (hd s) then tl s else s)
      in if t \<noteq> [] \<and> is_quote (last t) then butlast t else t)"

definition parseEnvString :: "string option \<Rightarrow> string option" where
  "parseEnvString val =
     (if \<not> truthy val then None
      else let t = strip_quotes (trim (the val)) in if t = [] then None else Some t)"

definition js_or_opt :: "string option \<Rightarrow> string option \<Rightarrow> string option" where
  "js_or_opt a b = (if truthy a then a else b)"

record RedisConfig =
  rc_host :: string
  rc_port :: "int option"
  rc_username :: "string option"
  rc_password :: "string option"
  rc_tls :: bool
  rc_url :: "string option"

text \<open>A part of the URL, decoded when it is there; the outer \<open>None\<close> is the exception of the decoder.\<close>

definition decoded_part :: "url_lib \<Rightarrow> string \<Rightarrow> string option option" where
  "decoded_part U s = (if s = [] then Some None else map_option Some (url_decode U s))"

definition redis_from_url :: "url_lib \<Rightarrow> string \<Rightarrow> RedisConfig option" where
  "redis_from_url U redisUrl =
     (case url_parse U redisUrl of
        Inl _ \<Rightarrow> None
      | Inr p \<Rightarrow>
          let isTls = (ur_protocol p = ''rediss:'') in
          (case (decoded_part U (ur_username p), decoded_part U (ur_password p)) of
             (Some u, Some w) \<Rightarrow> Some \<lparr>rc_host = ur_hostname p,
               rc_port = parseInt10 (if ur_port p \<noteq> [] then ur_port p else if isTls then ''6380'' else ''6379''),
               rc_username = u, rc_password = w, rc_tls = isTls, rc_url = Some redisUrl\<rparr>
           | _ \<Rightarrow> None))"

definition getCanonicalRedisConfig :: "url_lib \<Rightarrow> vars \<Rightarrow> RedisConfig" where
  "getCanonicalRedisConfig U v =
     (let redisUrl = js_or_opt (parseEnvString (v ''REDIS_URL'')) (parseEnvString (v ''UPSTASH_REDIS_URL'')) in
      case Option.bind redisUrl (redis_from_url U) of
        Some c \<Rightarrow> c
      | None \<Rightarrow> \<lparr>rc_host = js_or (parseEnvString (v ''REDIS_HOST'')) (if production v then [] else ''127.0.0.1''),
          rc_port = (case parseInt10 (js_or (v ''REDIS_PORT'') ''6379'') of None \<Rightarrow> Some 6379 | p \<Rightarrow> p),
          rc_username = parseEnvString (v ''REDIS_USERNAME''),
          rc_password = js_or_opt (parseEnvString (v ''REDIS_PASSWORD'')) (parseEnvString (v ''REDIS_TOKEN'')),
          rc_tls = (v ''REDIS_TLS'' = Some ''true'' \<or> v ''REDIS_USE_TLS'' = Some ''true''), rc_url = redisUrl\<rparr>)"

definition port_ok :: "int option \<Rightarrow> bool" where
  "port_ok p \<longleftrightarrow> (case p of None \<Rightarrow> False | Some n \<Rightarrow> 0 < n \<and> n \<le> 65535)"

definition assertRedisConfig :: "url_lib \<Rightarrow> vars \<Rightarrow> error + unit" where
  "assertRedisConfig U v =
     (if v ''NODE_ENV'' = Some ''test'' then Inr ()
      else let config = getCanonicalRedisConfig U v in
        if production v \<and> rc_host config \<in> {[], ''127.0.0.1'', ''localhost''}
        then Inl (PlainError ''[REDIS_CONFIG_ERROR] Production requires a valid remote REDIS_URL or REDIS_HOST (localhost/127.0.0.1 is prohibited).'')
        else if rc_host config = [] then Inl (PlainError ''[REDIS_CONFIG_ERROR] REDIS_HOST or REDIS_URL is required.'')
        else if \<not> port_ok (rc_port config) then Inl (PlainError ''[REDIS_CONFIG_ERROR] Invalid REDIS_PORT'')
        else Inr ())"

record RedisOptions =
  ropt_host :: string
  ropt_port :: int
  ropt_username :: "string option"
  ropt_password :: "string option"
  ropt_tls :: bool

definition getRedisConnectionOptions :: "url_lib \<Rightarrow> vars \<Rightarrow> RedisOptions" where
  "getRedisConnectionOptions U v =
     (let config = getCanonicalRedisConfig U v in
      \<lparr>ropt_host = (if rc_host config \<noteq> [] then rc_host config else ''127.0.0.1''),
       ropt_port = (case rc_port config of None \<Rightarrow> 6379 | Some n \<Rightarrow> if n = 0 then 6379 else n),
       ropt_username = rc_username config, ropt_password = rc_password config, ropt_tls = rc_tls config\<rparr>)"

definition retryStrategy :: "vars \<Rightarrow> int \<Rightarrow> int option" where
  "retryStrategy v n =
     (if v ''NODE_ENV'' = Some ''test'' \<and> v ''ENABLE_REDIS_TEST_RETRY'' \<noteq> Some ''true'' then None
      else Some (min (n * 100) 3000))"

text \<open>Job ids: BullMQ rejects a colon, so the queue replaces it.\<close>

definition sanitizeJobId :: "string \<Rightarrow> string" where
  "sanitizeJobId s = (if CHR '':'' \<in> set s then concat (map (\<lambda>c. if c = CHR '':'' then ''__'' else [c]) s) else s)"

section \<open>Outbox worker settings\<close>

text \<open>A positive safe integer of the environment, or the default.\<close>

definition positive_setting :: "string option \<Rightarrow> int \<Rightarrow> int" where
  "positive_setting val dflt =
     (if \<not> truthy val then dflt
      else case parseInt10 (the val) of None \<Rightarrow> dflt
        | Some n \<Rightarrow> if 0 < n \<and> n \<le> MAX_SAFE_INTEGER then n else dflt)"

record OutboxConfiguration =
  oc_pollIntervalMs :: int
  oc_batchSize :: nat
  oc_staleThresholdMinutes :: int
  oc_shutdownDrainTimeoutMs :: int

definition getOutboxConfig :: "vars \<Rightarrow> OutboxConfiguration" where
  "getOutboxConfig v = \<lparr>oc_pollIntervalMs = positive_setting (v ''OUTBOX_POLL_INTERVAL_MS'') 5000, oc_batchSize = 20,
     oc_staleThresholdMinutes = 5, oc_shutdownDrainTimeoutMs = positive_setting (v ''OUTBOX_SHUTDOWN_DRAIN_TIMEOUT_MS'') 5000\<rparr>"

definition assertOutboxConfig :: "vars \<Rightarrow> error + unit" where
  "assertOutboxConfig v =
     (let t = oc_shutdownDrainTimeoutMs (getOutboxConfig v)
      in if t \<le> 0 \<or> t > MAX_SAFE_INTEGER then Inl (PlainError ''[CONFIG] Invalid OUTBOX_SHUTDOWN_DRAIN_TIMEOUT_MS'') else Inr ())"

section \<open>Connection pools and the capacity budget\<close>

record DatabasePoolConfig =
  dp_max :: int
  dp_connectionTimeoutMillis :: "int option"
  dp_idleTimeoutMillis :: "int option"
  dp_statementTimeoutMillis :: "int option"
  dp_maxUses :: "int option"
  dp_connectionString :: string

definition defaultPoolMax :: "string \<Rightarrow> int" where
  "defaultPoolMax processType =
     (if processType \<in> {''worker'', ''bullmq''} then 10
      else if processType \<in> {''migration'', ''admin'', ''script''} then 2
      else if processType \<in> {''all'', ''monolith''} then 15
      else 12)"

definition int_setting :: "string option \<Rightarrow> int \<Rightarrow> int option" where
  "int_setting val dflt = (if truthy val then parseInt10 (the val) else Some dflt)"

definition getDatabasePoolConfig :: "vars \<Rightarrow> DatabasePoolConfig" where
  "getDatabasePoolConfig v =
     (let dflt = defaultPoolMax (toLowerCase (js_or (v ''PROCESS_TYPE'') ''api''));
          envPoolMax = (if truthy (v ''DB_POOL_MAX'') then parseInt10 (the (v ''DB_POOL_MAX'')) else None)
      in \<lparr>dp_max = (case envPoolMax of None \<Rightarrow> dflt | Some n \<Rightarrow> if n > 0 then n else dflt),
          dp_connectionTimeoutMillis = int_setting (v ''DB_CONNECTION_TIMEOUT_MS'') 15000,
          dp_idleTimeoutMillis = int_setting (v ''DB_IDLE_TIMEOUT_MS'') 10000,
          dp_statementTimeoutMillis = int_setting (v ''DB_STATEMENT_TIMEOUT_MS'') 15000,
          dp_maxUses = int_setting (v ''DB_MAX_USES'') 7500,
          dp_connectionString = js_or (v ''DATABASE_URL'') []\<rparr>)"

record CapacityBudgetReport =
  cb_postgresMaxConnections :: "int option"
  cb_totalAllocatedConnections :: int
  cb_headroomConnections :: "int option"
  cb_isWithinBudget :: bool
  cb_maxApiInstancesSupported :: "int option"
  cb_maxWorkerInstancesSupported :: "int option"
  cb_currentProcessType :: string
  cb_configuredPoolMax :: int

definition reservedAdminConnections :: int where
  "reservedAdminConnections = 5"

definition calculateCapacityBudget :: "vars \<Rightarrow> int \<Rightarrow> int \<Rightarrow> int \<Rightarrow> CapacityBudgetReport" where
  "calculateCapacityBudget v apiInstances workerInstances adminInstances =
     (let maxc = parseInt10 (js_or (v ''POSTGRES_MAX_CONNECTIONS'') ''60'');
          total = reservedAdminConnections + apiInstances * 12 + workerInstances * 5 + adminInstances * 2
      in \<lparr>cb_postgresMaxConnections = maxc, cb_totalAllocatedConnections = total,
          cb_headroomConnections = map_option (\<lambda>m. m - total) maxc,
          cb_isWithinBudget = (case maxc of None \<Rightarrow> False | Some m \<Rightarrow> total \<le> m \<and> m - total > 0),
          cb_maxApiInstancesSupported = map_option (\<lambda>m. (m - reservedAdminConnections) div 12) maxc,
          cb_maxWorkerInstancesSupported = map_option (\<lambda>m. (m - reservedAdminConnections) div 5) maxc,
          cb_currentProcessType = js_or (v ''PROCESS_TYPE'') ''api'', cb_configuredPoolMax = dp_max (getDatabasePoolConfig v)\<rparr>)"

section \<open>The guard of a restore\<close>

fun split_char :: "char \<Rightarrow> string \<Rightarrow> string list" where
  "split_char c [] = [[]]"
| "split_char c (x # xs) = (if x = c then [] # split_char c xs else case split_char c xs of [] \<Rightarrow> [[x]] | w # ws \<Rightarrow> (x # w) # ws)"

definition PROHIBITED_HOST_SUFFIXES :: "string list" where
  "PROHIBITED_HOST_SUFFIXES = [''supabase.co'', ''pooler.supabase.com'', ''.amazonaws.com'', ''.rds.amazonaws.com'',
     ''.neon.tech'', ''.render.com'', ''.cockroachlabs.cloud'', ''.aivencloud.com'']"

definition PROHIBITED_HOST_LABELS :: "string list" where
  "PROHIBITED_HOST_LABELS = [''prod'', ''production'', ''live'']"

definition prohibited_host :: "string \<Rightarrow> bool" where
  "prohibited_host host \<longleftrightarrow> list_ex (endsWith host) PROHIBITED_HOST_SUFFIXES
     \<or> list_ex (\<lambda>l. l \<in> set PROHIBITED_HOST_LABELS) (split_char CHR ''.'' host)"

definition PROHIBITED_DB_NAMES :: "string list" where
  "PROHIBITED_DB_NAMES = [''postgres'', ''production'', ''prod'', ''main'', ''master'', ''live'', ''defaultdb'']"

definition APPROVED_DISPOSABLE_MARKERS :: "string list" where
  "APPROVED_DISPOSABLE_MARKERS = [''test'', ''disposable'', ''drill'', ''dr'', ''temp'', ''ci'', ''scratch'', ''sandbox'']"

text \<open>The fallback \<^verbatim>\<open>/:\/\/([^:@]+):?[^@]*@/\<close>: the first scheme separator followed by a user, up to the next at sign.\<close>

fun redact_authority :: "string \<Rightarrow> string" where
  "redact_authority [] = []"
| "redact_authority (c # s) =
     (if startsWith (c # s) ''://'' \<and> drop 2 s \<noteq> [] \<and> hd (drop 2 s) \<noteq> CHR '':'' \<and> hd (drop 2 s) \<noteq> CHR ''@'' \<and> CHR ''@'' \<in> set (drop 2 s)
      then ''://***:***'' @ dropWhile (\<lambda>x. x \<noteq> CHR ''@'') (drop 2 s)
      else c # redact_authority s)"

definition redactDatabaseUrl :: "url_lib \<Rightarrow> string \<Rightarrow> string" where
  "redactDatabaseUrl U dbUrl =
     (if dbUrl = [] then ''<empty_url>''
      else case url_parse U dbUrl of
        Inl _ \<Rightarrow> redact_authority dbUrl
      | Inr p \<Rightarrow> url_string U (p\<lparr>ur_password := if ur_password p \<noteq> [] then ''***'' else [],
                                ur_username := if ur_username p \<noteq> [] then ''***'' else []\<rparr>))"

record SafeTargetVerification =
  sv_host :: string
  sv_port :: string
  sv_databaseName :: string
  sv_redactedUrl :: string

datatype restore_refusal = NoTarget | IsPrimary | IsDirect | InvalidUrl string | ProhibitedHost string | ReservedName string | NoMarker string

definition db_name :: "parsed_url \<Rightarrow> string" where
  "db_name p = toLowerCase (trim (hd (split_char CHR ''?'' (if startsWith (ur_pathname p) ''/'' then tl (ur_pathname p) else ur_pathname p))))"

definition same_url :: "string option \<Rightarrow> string \<Rightarrow> bool" where
  "same_url own target \<longleftrightarrow> (case own of None \<Rightarrow> False | Some s \<Rightarrow> trim s \<noteq> [] \<and> target = trim s)"

definition assertSafeRestoreTarget :: "url_lib \<Rightarrow> vars \<Rightarrow> bool \<Rightarrow> string \<Rightarrow> restore_refusal + SafeTargetVerification" where
  "assertSafeRestoreTarget U v bypassPrimaryMatchCheck targetDatabaseUrl =
     (let trimmedUrl = trim targetDatabaseUrl in
      if trimmedUrl = [] then Inl NoTarget
      else if \<not> bypassPrimaryMatchCheck \<and> same_url (v ''DATABASE_URL'') trimmedUrl then Inl IsPrimary
      else if \<not> bypassPrimaryMatchCheck \<and> same_url (v ''DIRECT_URL'') trimmedUrl then Inl IsDirect
      else case url_parse U trimmedUrl of
        Inl e \<Rightarrow> Inl (InvalidUrl e)
      | Inr p \<Rightarrow>
          let host = toLowerCase (ur_hostname p); rawDbName = db_name p in
          if prohibited_host host then Inl (ProhibitedHost host)
          else if rawDbName = [] \<or> rawDbName \<in> set PROHIBITED_DB_NAMES then Inl (ReservedName rawDbName)
          else if \<not> list_ex (js_includes rawDbName) APPROVED_DISPOSABLE_MARKERS then Inl (NoMarker rawDbName)
          else Inr \<lparr>sv_host = host, sv_port = (if ur_port p \<noteq> [] then ur_port p else ''5432''), sv_databaseName = rawDbName,
                    sv_redactedUrl = redactDatabaseUrl U trimmedUrl\<rparr>)"

section \<open>Failure injection\<close>

datatype FailureInjectionPoint = AFTER_DB_COMMIT_BEFORE_QUEUE_ENQUEUE | AFTER_DB_COMMIT_BEFORE_TIMEOUT_ENQUEUE
  | AFTER_DB_COMMIT_BEFORE_NOTIFICATION_ENQUEUE

definition enableHook :: "vars \<Rightarrow> FailureInjectionPoint \<Rightarrow> FailureInjectionPoint list \<Rightarrow> error + FailureInjectionPoint list" where
  "enableHook v hook hooks =
     (if production v then Inl (PlainError ''[SECURITY] Failure injection is strictly prohibited in production environment.'')
      else Inr (List.insert hook hooks))"

definition disableHook :: "FailureInjectionPoint \<Rightarrow> FailureInjectionPoint list \<Rightarrow> FailureInjectionPoint list" where
  "disableHook hook hooks = removeAll hook hooks"

definition clearAllHooks :: "FailureInjectionPoint list \<Rightarrow> FailureInjectionPoint list" where
  "clearAllHooks hooks = []"

definition isHookActive :: "vars \<Rightarrow> FailureInjectionPoint \<Rightarrow> FailureInjectionPoint list \<Rightarrow> bool" where
  "isHookActive v hook hooks \<longleftrightarrow> \<not> production v \<and> hook \<in> set hooks"

definition triggerIfActive :: "vars \<Rightarrow> FailureInjectionPoint \<Rightarrow> string \<Rightarrow> FailureInjectionPoint list \<Rightarrow> error + unit" where
  "triggerIfActive v hook msg hooks = (if isHookActive v hook hooks then Inl (PlainError msg) else Inr ())"

section \<open>The gates of a start\<close>

text \<open>The gates run in this order; the first exception ends the start. The push gate also initialises the client.\<close>

definition startup_gates :: "url_lib \<Rightarrow> push_env \<Rightarrow> fcm_module \<Rightarrow> (error + unit) \<times> fcm_module" where
  "startup_gates U E m =
     (let v = pe_env E in
      case assertJwtConfig v of Inl e \<Rightarrow> (Inl e, m) | Inr _ \<Rightarrow>
      case assertProductionAuthConfig v of Inl e \<Rightarrow> (Inl e, m) | Inr _ \<Rightarrow>
      case assertProductionPaymentConfig v of Inl e \<Rightarrow> (Inl e, m) | Inr _ \<Rightarrow>
      case assertProductionStorageConfig (v ''NODE_ENV'') (storage_env_of v) of Inl e \<Rightarrow> (Inl e, m) | Inr _ \<Rightarrow>
      case assertRedisConfig U v of Inl e \<Rightarrow> (Inl e, m) | Inr _ \<Rightarrow>
      case assertFcmConfig E m of (Inl e, m') \<Rightarrow> (Inl (PlainError e), m') | (Inr _, m') \<Rightarrow>
      case assertOutboxConfig v of Inl e \<Rightarrow> (Inl e, m') | Inr _ \<Rightarrow> (Inr (), m'))"

section \<open>What the gates guarantee\<close>

lemma validJwt: "validateJwtSecret s = Inr t \<Longrightarrow> length t \<ge> 32 \<and> toLowerCase t \<notin> set Otp_Auth.KNOWN_INSECURE_SECRETS"
  by (auto simp: validateJwtSecret_def MIN_JWT_SECRET_LENGTH_def Let_def split: option.splits if_splits)

lemma jwtConfig_sound:
  assumes "getJwtConfig j = Inr c"
  shows "jw_accessSecret c \<noteq> jw_refreshSecret c" and "length (jw_accessSecret c) \<ge> 32" and "length (jw_refreshSecret c) \<ge> 32"
  using assms by (auto simp: getJwtConfig_def Let_def split: sum.splits if_splits dest!: validJwt)

lemma paymentSecret_sound: "validatePaymentSecret s n = Inr t \<Longrightarrow> length (trimmed_or_empty s) \<ge> n"
  by (auto simp: validatePaymentSecret_def trimmed_or_empty_def Let_def split: option.splits if_splits)

lemma redis_gate:
  assumes "production v" and "assertRedisConfig U v = Inr ()"
  shows "ropt_host (getRedisConnectionOptions U v) \<notin> {[], ''127.0.0.1'', ''localhost''}
    \<and> 0 < ropt_port (getRedisConnectionOptions U v) \<and> ropt_port (getRedisConnectionOptions U v) \<le> 65535"
  using assms by (auto simp: assertRedisConfig_def getRedisConnectionOptions_def production_def port_ok_def Let_def
      split: if_splits option.splits)

lemma outbox_gate_never_fails: "assertOutboxConfig v = Inr ()"
  by (auto simp: assertOutboxConfig_def getOutboxConfig_def positive_setting_def MAX_SAFE_INTEGER_def Let_def split: option.splits)

lemma startup_gates_passed:
  assumes "startup_gates U E m = (Inr (), m')"
  shows "\<exists>j. assertJwtConfig (pe_env E) = Inr j" "assertProductionAuthConfig (pe_env E) = Inr ()"
    "assertProductionPaymentConfig (pe_env E) = Inr ()"
    "assertProductionStorageConfig (pe_env E ''NODE_ENV'') (storage_env_of (pe_env E)) = Inr ()"
    "assertRedisConfig U (pe_env E) = Inr ()" "assertFcmConfig E m = (Inr (), m')"
  using assms unfolding startup_gates_def Let_def
  by (simp_all split: sum.splits prod.splits)

lemma payment_gate:
  assumes "nodeEnv v = ''production''" and "assertProductionPaymentConfig v = Inr ()"
  shows "\<exists>c. getPaymentConfig (payment_env_of v) = Inr c \<and> length (pc_keyId c) \<ge> 10 \<and> length (pc_keySecret c) \<ge> 10 \<and> length (pc_webhookSecret c) \<ge> 10"
  using assms by (auto simp: assertProductionPaymentConfig_def getPaymentConfig_def payment_env_of_def Let_def
      split: sum.splits dest!: paymentSecret_sound)


definition sample_vars :: vars where
  "sample_vars = map_of [(''NODE_ENV'', ''production''), (''JWT_ACCESS_SECRET'', replicate 32 CHR ''a''),
     (''JWT_REFRESH_SECRET'', replicate 32 CHR ''b''), (''SMS_PROVIDER'', ''http''), (''GENERIC_SMS_API_URL'', ''https://sms''),
     (''GENERIC_SMS_API_KEY'', ''k''), (''RAZORPAY_KEY_ID'', ''rzp_live_0001''), (''RAZORPAY_KEY_SECRET'', ''0123456789''),
     (''RAZORPAY_WEBHOOK_SECRET'', ''9876543210''), (''STORAGE_SIGNING_SECRET'', ''0123456789abcdef''), (''STORAGE_PROVIDER'', ''supabase''),
     (''SUPABASE_URL'', ''https://x.supabase.co''), (''SUPABASE_SECRET_KEY'', ''01234567890123456789''), (''STORAGE_BUCKET_NAME'', ''docs''),
     (''REDIS_HOST'', ''redis.internal''), (''GOOGLE_APPLICATION_CREDENTIALS'', ''/key.json'')]"

definition sample_url_lib :: url_lib where
  "sample_url_lib = \<lparr>url_parse = (\<lambda>_. Inl ''Invalid URL''), url_string = ur_hostname, url_decode = Some\<rparr>"

definition sample_gate_env :: push_env where
  "sample_gate_env = sample_push_env\<lparr>pe_env := sample_vars\<rparr>"


section \<open>The budget of connections\<close>

text \<open>
  The report is sound for pools no larger than the sizes it assumes: the instances together never exceed what the
  server accepts, with at least one connection to spare.
\<close>

lemma budget_sound:
  assumes "cb_isWithinBudget (calculateCapacityBudget v a w k)" and "0 \<le> a" "0 \<le> w" "0 \<le> k"
    and "api \<le> 12" "worker \<le> 5" "admin \<le> 2"
  shows "\<exists>m. parseInt10 (js_or (v ''POSTGRES_MAX_CONNECTIONS'') ''60'') = Some m
    \<and> a * api + w * worker + k * admin + reservedAdminConnections < m"
proof -
  from assms(1) obtain m where m: "parseInt10 (js_or (v ''POSTGRES_MAX_CONNECTIONS'') ''60'') = Some m"
    and t: "reservedAdminConnections + a * 12 + w * 5 + k * 2 < m"
    by (auto simp: calculateCapacityBudget_def Let_def split: option.splits)
  have "a * api \<le> a * 12" "w * worker \<le> w * 5" "k * admin \<le> k * 2" using assms by (auto intro: mult_left_mono)
  with m t show ?thesis by auto
qed

text \<open>
  The pool a worker process opens is ten connections, not the five of the report: the default deployment of three API,
  two worker and one admin processes is reported within budget and still needs 63 of 60 connections.
\<close>

lemma default_deployment_over_budget:
  "cb_isWithinBudget (calculateCapacityBudget (\<lambda>_. None) 3 2 1)"
  "3 * defaultPoolMax ''api'' + 2 * defaultPoolMax ''worker'' + defaultPoolMax ''admin'' + reservedAdminConnections = 63"
  "parseInt10 ''60'' = Some 60"
  by code_simp+

section \<open>Restore targets\<close>

text \<open>
  A restore is accepted exactly for a readable target that is not the text of an application URL, is not on a prohibited
  host, and names a database that is not reserved and carries a disposable marker.
\<close>

lemma restore_target_exact:
  "(\<exists>x. assertSafeRestoreTarget U v False target = Inr x) \<longleftrightarrow>
     trim target \<noteq> [] \<and> \<not> same_url (v ''DATABASE_URL'') (trim target) \<and> \<not> same_url (v ''DIRECT_URL'') (trim target)
     \<and> (\<exists>p. url_parse U (trim target) = Inr p \<and> \<not> prohibited_host (toLowerCase (ur_hostname p))
         \<and> db_name p \<notin> set PROHIBITED_DB_NAMES \<and> list_ex (js_includes (db_name p)) APPROVED_DISPOSABLE_MARKERS)"
proof -
  have "db_name p = [] \<Longrightarrow> \<not> list_ex (js_includes (db_name p)) APPROVED_DISPOSABLE_MARKERS" for p
    by (simp add: APPROVED_DISPOSABLE_MARKERS_def)
  then show ?thesis by (auto simp: assertSafeRestoreTarget_def Let_def split: sum.splits)
qed

text \<open>The marker is a substring: a database of addresses or of invoices counts as disposable.\<close>

lemma marker_accepts_ordinary_names:
  "list_ex (js_includes ''labourbaba_addresses'') APPROVED_DISPOSABLE_MARKERS"
  "list_ex (js_includes ''social_prod'') APPROVED_DISPOSABLE_MARKERS"
  by code_simp+

text \<open>
  Without a parser the fallback shows nothing between the scheme and the first at sign; a password that contains an at sign
  itself stays visible behind it.
\<close>

lemma fallback_shows_rest_of_password: "redact_authority ''pg://u:a@b@h'' = ''pg://***:***@b@h''"
  by code_simp

section \<open>Job ids\<close>

text \<open>Two job ids without underscores stay different when their colons are replaced.\<close>

lemma sanitized_has_no_colon: "CHR '':'' \<notin> set (sanitizeJobId s)"
  by (auto simp: sanitizeJobId_def split: if_splits)

lemma sanitize_map: "sanitizeJobId s = concat (map (\<lambda>c. if c = CHR '':'' then ''__'' else [c]) s)"
proof (cases "CHR '':'' \<in> set s")
  case False
  then have "concat (map (\<lambda>c. if c = CHR '':'' then ''__'' else [c]) s) = s" by (induction s) auto
  with False show ?thesis by (simp add: sanitizeJobId_def)
qed (simp add: sanitizeJobId_def)

lemma sanitize_injective:
  "CHR ''_'' \<notin> set s \<Longrightarrow> CHR ''_'' \<notin> set t \<Longrightarrow> sanitizeJobId s = sanitizeJobId t \<Longrightarrow> s = t"
  unfolding sanitize_map
proof (induction s arbitrary: t)
  case Nil
  then show ?case by (cases t) (auto split: if_splits)
next
  case (Cons c s)
  then show ?case by (cases t) (auto split: if_splits)
qed

end
