(* ===== verification/Lifecycle.thy ===== *)
theory Lifecycle
  imports Configuration
begin

text \<open>
  The life of a process: \<^verbatim>\<open>src/lifecycle/lifecycleManager.ts\<close> with its caller in \<^verbatim>\<open>src/server.ts\<close>,
  \<^verbatim>\<open>src/workers/workerLifecycle.ts\<close>, the drain of \<^verbatim>\<open>src/workers/outboxWorker.ts\<close>, the timer of
  \<^verbatim>\<open>src/workers/paymentReconciliationWorker.ts\<close>, \<^verbatim>\<open>src/socket/socketRedisAdapter.ts\<close> and the readiness probe of
  \<^verbatim>\<open>src/features/health/healthService.ts\<close>.

  Start and shutdown are asynchronous functions of one process and can overlap: the signal handlers are registered while the
  start is still running. Each is a list of steps, the code between two awaits; the step relation interleaves them with
  signals, ticks of the outbox worker and the forced exit. What a connection answers is a field of \<open>launch\<close>.
\<close>

datatype LifecycleState = INITIALIZING | READY | SHUTTING_DOWN | TERMINATED

datatype boot_step = BootGates | BootDb | BootRedis | BootAdapter | BootReconcile | BootTimers | BootWorkers | BootReady | BootListen

datatype stop_step = StopDrain | StopHttp | StopSockets | StopConsumers | StopQueues | StopRedis | StopDb

datatype drain_result = Drained | TimedOut

record launch =
  la_url :: url_lib
  la_push :: push_env
  la_connect :: "string + unit"
  la_redis :: "string + unit"
  la_pong :: string
  la_adapter :: "string + unit"
  la_reconcile :: "string + unit"
  la_workers :: "string + unit"
  la_disconnect :: "string + unit"

record process =
  ps_state :: LifecycleState
  ps_isShuttingDown :: bool
  ps_exitProcess :: bool
  ps_listening :: bool
  ps_io :: bool
  ps_adapter :: bool
  ps_otpTimer :: bool
  ps_reconTimer :: bool
  ps_outbox :: OutboxWorkerState
  ps_operations :: nat
  ps_drain :: "drain_result option"
  ps_payrec :: bool
  ps_consumers :: "string list"
  ps_queues :: bool
  ps_redis :: bool
  ps_db :: bool
  ps_fcm :: fcm_module
  ps_exit :: "int option"
  ps_boot :: "boot_step list"
  ps_stop :: "stop_step list"

definition is_ready :: "process \<Rightarrow> bool" where
  "is_ready p \<longleftrightarrow> ps_state p = READY"

definition BOOT_STEPS :: "boot_step list" where
  "BOOT_STEPS = [BootGates, BootDb, BootRedis, BootAdapter, BootReconcile, BootTimers, BootWorkers, BootReady, BootListen]"

definition STOP_STEPS :: "stop_step list" where
  "STOP_STEPS = [StopDrain, StopHttp, StopSockets, StopConsumers, StopQueues, StopRedis, StopDb]"

text \<open>The module as loaded: the queue clients exist, the servers are registered, nothing else is open.\<close>

definition loaded :: process where
  "loaded = \<lparr>ps_state = INITIALIZING, ps_isShuttingDown = False, ps_exitProcess = False, ps_listening = False, ps_io = True, ps_adapter = False,
     ps_otpTimer = False, ps_reconTimer = False, ps_outbox = IDLE, ps_operations = 0, ps_drain = None, ps_payrec = False, ps_consumers = [],
     ps_queues = True, ps_redis = False, ps_db = False, ps_fcm = fresh_module, ps_exit = None, ps_boot = BOOT_STEPS, ps_stop = []\<rparr>"

section \<open>Workers\<close>

definition registerWorker :: "string \<Rightarrow> process \<Rightarrow> process" where
  "registerWorker w p = p\<lparr>ps_consumers := List.insert w (ps_consumers p)\<rparr>"

definition unregisterWorker :: "string \<Rightarrow> process \<Rightarrow> process" where
  "unregisterWorker w p = p\<lparr>ps_consumers := removeAll w (ps_consumers p)\<rparr>"

text \<open>Closing never fails: an exception of one worker is logged.\<close>

definition closeAllWorkers :: "process \<Rightarrow> process" where
  "closeAllWorkers p = p\<lparr>ps_consumers := []\<rparr>"

definition enableWorkers :: "vars \<Rightarrow> bool" where
  "enableWorkers v \<longleftrightarrow> v ''ENABLE_WORKERS'' \<noteq> Some ''false'' \<and> toLowerCase (js_or (v ''PROCESS_TYPE'') ''all'') \<noteq> ''api''"

definition start_workers :: "process \<Rightarrow> process" where
  "start_workers p = (let p1 = registerWorker ''timeout'' (registerWorker ''dispatch'' (registerWorker ''notification'' p))
     in p1\<lparr>ps_outbox := worker_start (ps_outbox p1), ps_payrec := True, ps_reconTimer := True\<rparr>)"

section \<open>The Socket.IO adapter\<close>

definition adapter_wanted :: "vars \<Rightarrow> bool" where
  "adapter_wanted v \<longleftrightarrow> v ''SOCKET_REDIS_ADAPTER_ENABLED'' = Some ''true''
     \<or> production v \<and> v ''SOCKET_REDIS_ADAPTER_ENABLED'' \<noteq> Some ''false''"

text \<open>Wherever the adapter is wanted at all, a connection that fails is an exception: the silent fallback is never reached.\<close>

definition setupSocketRedisAdapter :: "launch \<Rightarrow> process \<Rightarrow> (string + bool) \<times> process" where
  "setupSocketRedisAdapter L p =
     (let v = pe_env (la_push L) in
      if \<not> adapter_wanted v then (Inr False, p)
      else case la_adapter L of
        Inr _ \<Rightarrow> (Inr True, p\<lparr>ps_adapter := True\<rparr>)
      | Inl e \<Rightarrow> if production v \<or> v ''SOCKET_REDIS_ADAPTER_ENABLED'' = Some ''true''
                 then (Inl (''[SOCKET_REDIS_ADAPTER_ERROR] Failed to initialize Socket.IO Redis adapter: '' @ e), p\<lparr>ps_adapter := False\<rparr>)
                 else (Inr False, p\<lparr>ps_adapter := False\<rparr>))"

definition closeSocketRedisAdapter :: "process \<Rightarrow> process" where
  "closeSocketRedisAdapter p = p\<lparr>ps_adapter := False\<rparr>"

section \<open>Start\<close>

text \<open>The steps of \<^verbatim>\<open>startup\<close>, then \<^verbatim>\<open>httpServer.listen\<close>.\<close>

fun boot_exec :: "launch \<Rightarrow> boot_step \<Rightarrow> process \<Rightarrow> (string + unit) \<times> process" where
  "boot_exec L BootGates p =
     (let p1 = p\<lparr>ps_state := INITIALIZING\<rparr> in
      case startup_gates (la_url L) (la_push L) (ps_fcm p1) of
        (Inl _, m) \<Rightarrow> (Inl ''configuration'', p1\<lparr>ps_fcm := m\<rparr>)
      | (Inr _, m) \<Rightarrow> (Inr (), p1\<lparr>ps_fcm := m\<rparr>))"
| "boot_exec L BootDb p = (case la_connect L of Inl e \<Rightarrow> (Inl e, p) | Inr _ \<Rightarrow> (Inr (), p\<lparr>ps_db := True\<rparr>))"
| "boot_exec L BootRedis p =
     (case la_redis L of
        Inl e \<Rightarrow> (Inl e, p)
      | Inr _ \<Rightarrow> if la_pong L \<noteq> ''PONG'' then (Inl (''[LIFECYCLE] Redis ping failed with response: '' @ la_pong L), p\<lparr>ps_redis := True\<rparr>)
                 else (Inr (), p\<lparr>ps_redis := True\<rparr>))"
| "boot_exec L BootAdapter p =
     (if ps_io p then (case setupSocketRedisAdapter L p of (Inl e, p') \<Rightarrow> (Inl e, p') | (Inr _, p') \<Rightarrow> (Inr (), p')) else (Inr (), p))"
| "boot_exec L BootReconcile p =
     (case la_reconcile L of Inr _ \<Rightarrow> (Inr (), p) | Inl e \<Rightarrow> if production (pe_env (la_push L)) then (Inl e, p) else (Inr (), p))"
| "boot_exec L BootTimers p = (Inr (), p\<lparr>ps_otpTimer := True\<rparr>)"
| "boot_exec L BootWorkers p =
     (let v = pe_env (la_push L) in
      if v ''NODE_ENV'' \<noteq> Some ''test'' \<and> enableWorkers v then
        (case la_workers L of
           Inr _ \<Rightarrow> (Inr (), start_workers p)
         | Inl e \<Rightarrow> if production v then (Inl e, p) else (Inr (), p))
      else (Inr (), p))"
| "boot_exec L BootReady p = (Inr (), p\<lparr>ps_state := READY\<rparr>)"
| "boot_exec L BootListen p = (Inr (), p\<lparr>ps_listening := True\<rparr>)"

section \<open>Shutdown\<close>

text \<open>
  The part of \<^verbatim>\<open>shutdown\<close> up to its first await: the flags, the timers, and the outbox worker told to stop.
\<close>

definition begin_shutdown :: "bool \<Rightarrow> process \<Rightarrow> process" where
  "begin_shutdown exitProcess p =
     (if ps_isShuttingDown p then p
      else p\<lparr>ps_isShuttingDown := True, ps_state := SHUTTING_DOWN, ps_exitProcess := exitProcess, ps_otpTimer := False, ps_reconTimer := False,
             ps_outbox := worker_stop (ps_outbox p), ps_stop := STOP_STEPS\<rparr>)"

definition exit_code :: "launch \<Rightarrow> int \<Rightarrow> process \<Rightarrow> process" where
  "exit_code L n p = (if ps_exitProcess p \<and> pe_env (la_push L) ''NODE_ENV'' \<noteq> Some ''test'' then p\<lparr>ps_exit := Some n\<rparr> else p)"

text \<open>The drain ends when every operation has settled or its time is over.\<close>

fun stop_exec :: "launch \<Rightarrow> stop_step \<Rightarrow> process \<Rightarrow> process" where
  "stop_exec L StopDrain p = p\<lparr>ps_drain := Some (if ps_operations p = 0 then Drained else TimedOut),
     ps_outbox := worker_drained (ps_outbox p), ps_payrec := False\<rparr>"
| "stop_exec L StopHttp p = p\<lparr>ps_listening := False\<rparr>"
| "stop_exec L StopSockets p = (if ps_io p then closeSocketRedisAdapter (p\<lparr>ps_io := False\<rparr>) else p)"
| "stop_exec L StopConsumers p = closeAllWorkers p"
| "stop_exec L StopQueues p = p\<lparr>ps_queues := False\<rparr>"
| "stop_exec L StopRedis p = p\<lparr>ps_redis := False\<rparr>"
| "stop_exec L StopDb p =
     (case la_disconnect L of
        Inr _ \<Rightarrow> exit_code L 0 (p\<lparr>ps_db := False, ps_state := TERMINATED\<rparr>)
      | Inl _ \<Rightarrow> exit_code L 1 p)"

section \<open>Readiness\<close>

record health_checks =
  hc_ready :: bool
  hc_database :: string
  hc_redis :: string
  hc_initialization :: string

text \<open>The answers of the two probes, \<open>None\<close> for an exception or a timeout.\<close>

definition getReadiness :: "unit option \<Rightarrow> string option \<Rightarrow> process \<Rightarrow> bool \<times> health_checks" where
  "getReadiness dbProbe redisProbe p =
     (let db = (if dbProbe = None then ''unhealthy'' else ''healthy'');
          redis = (if redisProbe = Some ''PONG'' then ''healthy'' else ''unhealthy'');
          ready = (is_ready p \<and> db = ''healthy'' \<and> redis = ''healthy'')
      in (ready, \<lparr>hc_ready = ready, hc_database = db, hc_redis = redis,
           hc_initialization = (if is_ready p then ''ready'' else if ps_state p = INITIALIZING then ''initializing'' else ''shutting_down'')\<rparr>))"

section \<open>Runs\<close>

inductive process_step :: "launch \<Rightarrow> process \<Rightarrow> process \<Rightarrow> bool" for L where
  boots: "ps_exit p = None \<Longrightarrow> ps_boot p = s # rest \<Longrightarrow> boot_exec L s p = (Inr (), p') \<Longrightarrow> process_step L p (p'\<lparr>ps_boot := rest\<rparr>)"
| fails: "ps_exit p = None \<Longrightarrow> ps_boot p = s # rest \<Longrightarrow> boot_exec L s p = (Inl e, p') \<Longrightarrow>
     process_step L p (begin_shutdown True (p'\<lparr>ps_boot := []\<rparr>))"
| signal: "ps_exit p = None \<Longrightarrow> process_step L p (begin_shutdown x p)"
| stops: "ps_exit p = None \<Longrightarrow> ps_stop p = s # rest \<Longrightarrow> process_step L p ((stop_exec L s p)\<lparr>ps_stop := rest\<rparr>)"
| forced: "ps_exit p = None \<Longrightarrow> ps_stop p \<noteq> [] \<Longrightarrow> ps_exitProcess p \<Longrightarrow> process_step L p (p\<lparr>ps_exit := Some 1\<rparr>)"
| tick: "ps_exit p = None \<Longrightarrow> ps_outbox p = RUNNING \<Longrightarrow> process_step L p (p\<lparr>ps_operations := Suc (ps_operations p)\<rparr>)"
| settles: "ps_exit p = None \<Longrightarrow> ps_operations p = Suc n \<Longrightarrow> process_step L p (p\<lparr>ps_operations := n\<rparr>)"

text \<open>The runs in which no signal arrives while the start is still running.\<close>

inductive calm_step :: "launch \<Rightarrow> process \<Rightarrow> process \<Rightarrow> bool" for L where
  calm: "process_step L p p' \<Longrightarrow> ps_boot p = [] \<or> (ps_isShuttingDown p' \<longrightarrow> ps_boot p' = []) \<Longrightarrow> calm_step L p p'"

section \<open>Invariants of a run\<close>

definition booted :: "launch \<Rightarrow> process \<Rightarrow> bool" where
  "booted L p \<longleftrightarrow>
     (if BootGates \<in> set (ps_boot p) then ps_fcm p = fresh_module
      else startup_gates (la_url L) (la_push L) fresh_module = (Inr (), ps_fcm p))
     \<and> (BootDb \<notin> set (ps_boot p) \<longrightarrow> ps_db p) \<and> (BootRedis \<notin> set (ps_boot p) \<longrightarrow> ps_redis p)
     \<and> (BootWorkers \<in> set (ps_boot p) \<longrightarrow> ps_consumers p = []) \<and> ps_outbox p \<in> {IDLE, RUNNING}
     \<and> (BootListen \<in> set (ps_boot p) \<longrightarrow> \<not> ps_listening p)
     \<and> ps_state p = (if BootReady \<in> set (ps_boot p) then INITIALIZING else READY)
     \<and> ps_queues p \<and> ps_io p \<and> ps_exit p = None \<and> ps_stop p = []"

definition stopped_upto :: "nat \<Rightarrow> process \<Rightarrow> bool" where
  "stopped_upto k p \<longleftrightarrow> ps_boot p = [] \<and> \<not> ps_otpTimer p \<and> \<not> ps_reconTimer p \<and> ps_state p \<noteq> READY \<and> ps_outbox p \<noteq> RUNNING
     \<and> (0 < k \<longrightarrow> ps_outbox p = STOPPED \<and> \<not> ps_payrec p \<and> (ps_drain p = Some Drained \<longrightarrow> ps_operations p = 0) \<and> ps_drain p \<noteq> None)
     \<and> (1 < k \<longrightarrow> \<not> ps_listening p) \<and> (2 < k \<longrightarrow> \<not> ps_io p \<and> \<not> ps_adapter p) \<and> (3 < k \<longrightarrow> ps_consumers p = [])
     \<and> (4 < k \<longrightarrow> \<not> ps_queues p) \<and> (5 < k \<longrightarrow> \<not> ps_redis p)
     \<and> (k < 1 \<longrightarrow> ps_outbox p = STOPPING) \<and> (k < 3 \<longrightarrow> ps_io p) \<and> (k < 7 \<longrightarrow> ps_state p = SHUTTING_DOWN \<and> ps_exit p \<noteq> Some 0)
     \<and> (6 < k \<longrightarrow> ps_state p = TERMINATED \<and> \<not> ps_db p \<or> ps_exit p \<noteq> Some 0 \<and> ps_state p = SHUTTING_DOWN)"

definition life_inv :: "launch \<Rightarrow> process \<Rightarrow> bool" where
  "life_inv L p \<longleftrightarrow>
     (if ps_isShuttingDown p then \<exists>k \<le> 7. ps_stop p = drop k STOP_STEPS \<and> stopped_upto k p
      else (\<exists>k \<le> 9. ps_boot p = drop k BOOT_STEPS) \<and> booted L p)
     \<and> (ps_consumers p \<noteq> [] \<longrightarrow> ps_queues p \<and> ps_redis p \<and> ps_db p) \<and> (ps_listening p \<longrightarrow> ps_redis p \<and> ps_db p)"

lemma boot_position:
  assumes "k \<le> 9" and "s # rest = drop k BOOT_STEPS"
  obtains "s = BootGates" "rest = drop 1 BOOT_STEPS" | "s = BootDb" "rest = drop 2 BOOT_STEPS" | "s = BootRedis" "rest = drop 3 BOOT_STEPS"
    | "s = BootAdapter" "rest = drop 4 BOOT_STEPS" | "s = BootReconcile" "rest = drop 5 BOOT_STEPS" | "s = BootTimers" "rest = drop 6 BOOT_STEPS"
    | "s = BootWorkers" "rest = drop 7 BOOT_STEPS" | "s = BootReady" "rest = drop 8 BOOT_STEPS" | "s = BootListen" "rest = drop 9 BOOT_STEPS"
proof -
  from assms(1) have "k \<in> {0, 1, 2, 3, 4, 5, 6, 7, 8, 9}" by auto
  with assms(2) that show ?thesis by (elim insertE emptyE) (simp_all add: BOOT_STEPS_def)
qed

lemma stop_position:
  assumes "k \<le> 7" and "s # rest = drop k STOP_STEPS"
  obtains "k = 0" "s = StopDrain" | "k = 1" "s = StopHttp" | "k = 2" "s = StopSockets" | "k = 3" "s = StopConsumers"
    | "k = 4" "s = StopQueues" | "k = 5" "s = StopRedis" | "k = 6" "s = StopDb"
proof -
  from assms(1) have "k \<in> {0, 1, 2, 3, 4, 5, 6, 7}" by auto
  with assms(2) that show ?thesis by (elim insertE emptyE) (simp_all add: STOP_STEPS_def)
qed

lemma loaded_inv: "life_inv L loaded"
  by (auto simp: life_inv_def loaded_def booted_def BOOT_STEPS_def intro: exI [of _ 0])

text \<open>Beginning a shutdown from a state where the start has finished or given up.\<close>

lemma begin_inv:
  assumes "ps_boot p = []" "\<not> ps_isShuttingDown p" "ps_outbox p \<in> {IDLE, RUNNING}" "ps_io p" "ps_exit p = None"
    and "ps_consumers p \<noteq> [] \<longrightarrow> ps_queues p \<and> ps_redis p \<and> ps_db p" "ps_listening p \<longrightarrow> ps_redis p \<and> ps_db p"
  shows "life_inv L (begin_shutdown x p)"
proof -
  have "worker_stop (ps_outbox p) = STOPPING" using assms(3) by auto
  with assms show ?thesis
    by (auto simp: life_inv_def begin_shutdown_def stopped_upto_def intro!: exI [of _ 0])
qed

lemma start_workers_frame:
  "ps_consumers (start_workers p) \<noteq> []" "ps_outbox p \<in> {IDLE, RUNNING} \<Longrightarrow> ps_outbox (start_workers p) = RUNNING"
  "ps_queues (start_workers p) = ps_queues p" "ps_redis (start_workers p) = ps_redis p" "ps_db (start_workers p) = ps_db p"
  "ps_state (start_workers p) = ps_state p" "ps_io (start_workers p) = ps_io p" "ps_exit (start_workers p) = ps_exit p"
  "ps_stop (start_workers p) = ps_stop p" "ps_boot (start_workers p) = ps_boot p" "ps_isShuttingDown (start_workers p) = ps_isShuttingDown p"
  "ps_fcm (start_workers p) = ps_fcm p" "ps_listening (start_workers p) = ps_listening p"
  by (auto simp: start_workers_def registerWorker_def Let_def List.insert_def)

text \<open>What a step of the start can change.\<close>

lemma boot_frame [simp]:
  "ps_isShuttingDown (snd (boot_exec L s p)) = ps_isShuttingDown p" "ps_io (snd (boot_exec L s p)) = ps_io p"
  "ps_exit (snd (boot_exec L s p)) = ps_exit p" "ps_stop (snd (boot_exec L s p)) = ps_stop p"
  "ps_queues (snd (boot_exec L s p)) = ps_queues p" "ps_boot (snd (boot_exec L s p)) = ps_boot p"
  "ps_operations (snd (boot_exec L s p)) = ps_operations p"
  by (cases s; simp add: Let_def setupSocketRedisAdapter_def start_workers_def registerWorker_def split: sum.split prod.split)+

lemma boot_db: "ps_db (snd (boot_exec L s p)) = (ps_db p \<or> s = BootDb \<and> fst (boot_exec L s p) = Inr ())"
  by (cases s; simp add: Let_def setupSocketRedisAdapter_def start_workers_def registerWorker_def split: sum.split prod.split)

lemma boot_redis: "ps_redis p \<or> s = BootRedis \<and> fst (boot_exec L s p) = Inr () \<Longrightarrow> ps_redis (snd (boot_exec L s p))"
  by (cases s; simp add: Let_def setupSocketRedisAdapter_def start_workers_def registerWorker_def split: sum.splits prod.splits)

lemma boot_listening: "ps_listening (snd (boot_exec L s p)) = (ps_listening p \<or> s = BootListen)"
  by (cases s; simp add: Let_def setupSocketRedisAdapter_def start_workers_def registerWorker_def split: sum.split prod.split)

lemma boot_state:
  "ps_state (snd (boot_exec L s p)) = (if s = BootGates then INITIALIZING else if s = BootReady then READY else ps_state p)"
  by (cases s; simp add: Let_def setupSocketRedisAdapter_def start_workers_def registerWorker_def split: sum.split prod.split)

lemma boot_consumers:
  "s \<noteq> BootWorkers \<or> fst (boot_exec L s p) \<noteq> Inr () \<Longrightarrow> ps_consumers (snd (boot_exec L s p)) = ps_consumers p"
  by (cases s; simp add: Let_def setupSocketRedisAdapter_def split: sum.splits prod.splits if_splits)

lemma boot_outbox: "ps_outbox p \<in> {IDLE, RUNNING} \<Longrightarrow> ps_outbox (snd (boot_exec L s p)) \<in> {IDLE, RUNNING}"
  by (cases s; auto simp: Let_def setupSocketRedisAdapter_def start_workers_frame split: sum.split prod.split)

lemma boot_fcm: "s \<noteq> BootGates \<Longrightarrow> ps_fcm (snd (boot_exec L s p)) = ps_fcm p"
  by (cases s; simp add: Let_def setupSocketRedisAdapter_def start_workers_frame split: sum.split prod.split)

text \<open>Every step that the start takes by itself keeps the invariant.\<close>

lemma boots_inv:
  assumes inv: "life_inv L p" and ns: "\<not> ps_isShuttingDown p" and b: "ps_boot p = s # rest" and e: "boot_exec L s p = (Inr (), p')"
  shows "life_inv L (p'\<lparr>ps_boot := rest\<rparr>)"
proof -
  have p': "p' = snd (boot_exec L s p)" "fst (boot_exec L s p) = Inr ()" using e by simp_all
  from inv ns obtain k where k: "k \<le> 9" "s # rest = drop k BOOT_STEPS" and bt: "booted L p"
    and io: "ps_consumers p \<noteq> [] \<longrightarrow> ps_queues p \<and> ps_redis p \<and> ps_db p" "ps_listening p \<longrightarrow> ps_redis p \<and> ps_db p"
    by (auto simp: life_inv_def b)
  have "rest = drop (Suc k) BOOT_STEPS" using k(2) by (metis drop_Suc list.sel(3) tl_drop)
  moreover have "Suc k \<le> 9" using k by (cases "k = 9") (simp_all add: BOOT_STEPS_def)
  ultimately have pos: "\<exists>k \<le> 9. rest = drop k BOOT_STEPS" by blast
  have fr: "ps_db p' = (ps_db p \<or> s = BootDb)" "ps_redis p \<or> s = BootRedis \<Longrightarrow> ps_redis p'" "ps_listening p' = (ps_listening p \<or> s = BootListen)"
    "ps_state p' = (if s = BootGates then INITIALIZING else if s = BootReady then READY else ps_state p)"
    "s \<noteq> BootWorkers \<Longrightarrow> ps_consumers p' = ps_consumers p" "ps_outbox p \<in> {IDLE, RUNNING} \<Longrightarrow> ps_outbox p' \<in> {IDLE, RUNNING}"
    "s \<noteq> BootGates \<Longrightarrow> ps_fcm p' = ps_fcm p" "ps_queues p' = ps_queues p" "ps_io p' = ps_io p" "ps_exit p' = ps_exit p" "ps_stop p' = ps_stop p"
    "ps_isShuttingDown p' = ps_isShuttingDown p"
    using boot_db [of L s p] boot_redis [of p s L] boot_listening [of L s p] boot_state [of L s p] boot_consumers [of s L p]
      boot_outbox [of p L s] boot_fcm [of s L p] boot_frame [of L s p] p' by simp_all
  have gates: "s = BootGates \<Longrightarrow> startup_gates (la_url L) (la_push L) (ps_fcm p) = (Inr (), ps_fcm p')"
    using e by (auto simp: Let_def split: sum.splits prod.splits)
  have bt': "booted L (p'\<lparr>ps_boot := rest\<rparr>)"
    using k bt fr gates by (cases rule: boot_position) (auto simp: booted_def b BOOT_STEPS_def)
  have "ps_consumers p' \<noteq> [] \<longrightarrow> ps_queues p' \<and> ps_redis p' \<and> ps_db p'" "ps_listening p' \<longrightarrow> ps_redis p' \<and> ps_db p'"
    using k bt fr io by (cases rule: boot_position; auto simp: booted_def b BOOT_STEPS_def)+
  with ns bt' pos fr show ?thesis by (simp add: life_inv_def)
qed

lemma fails_inv:
  assumes inv: "life_inv L p" and ns: "\<not> ps_isShuttingDown p" and b: "ps_boot p = s # rest" and e: "boot_exec L s p = (Inl x, p')"
  shows "life_inv L (begin_shutdown y (p'\<lparr>ps_boot := []\<rparr>))"
proof (rule begin_inv)
  have p': "p' = snd (boot_exec L s p)" "fst (boot_exec L s p) = Inl x" using e by simp_all
  have bt: "booted L p" and io: "ps_consumers p \<noteq> [] \<longrightarrow> ps_queues p \<and> ps_redis p \<and> ps_db p" "ps_listening p \<longrightarrow> ps_redis p \<and> ps_db p"
    using inv ns by (simp_all add: life_inv_def)
  from bt have "ps_outbox p \<in> {IDLE, RUNNING}" "ps_io p" "ps_exit p = None" by (simp_all add: booted_def)
  then show "ps_outbox (p'\<lparr>ps_boot := []\<rparr>) \<in> {IDLE, RUNNING}" "ps_io (p'\<lparr>ps_boot := []\<rparr>)" "ps_exit (p'\<lparr>ps_boot := []\<rparr>) = None"
    using boot_outbox [of p L s] p' by simp_all
  show "\<not> ps_isShuttingDown (p'\<lparr>ps_boot := []\<rparr>)" using ns p' by simp
  show "ps_consumers (p'\<lparr>ps_boot := []\<rparr>) \<noteq> [] \<longrightarrow> ps_queues (p'\<lparr>ps_boot := []\<rparr>) \<and> ps_redis (p'\<lparr>ps_boot := []\<rparr>) \<and> ps_db (p'\<lparr>ps_boot := []\<rparr>)"
    using io(1) p' boot_consumers [of s L p] boot_redis [of p s L] boot_db [of L s p] by auto
  have "s \<noteq> BootListen" using p' by auto
  then show "ps_listening (p'\<lparr>ps_boot := []\<rparr>) \<longrightarrow> ps_redis (p'\<lparr>ps_boot := []\<rparr>) \<and> ps_db (p'\<lparr>ps_boot := []\<rparr>)"
    using io(2) p' boot_listening [of L s p] boot_redis [of p s L] boot_db [of L s p] by auto
qed simp

lemma life_inv_stopI:
  assumes "ps_isShuttingDown p" "k \<le> 7" "ps_stop p = drop k STOP_STEPS" "stopped_upto k p"
    and "ps_consumers p \<noteq> [] \<longrightarrow> ps_queues p \<and> ps_redis p \<and> ps_db p" "ps_listening p \<longrightarrow> ps_redis p \<and> ps_db p"
  shows "life_inv L p"
  using assms by (auto simp: life_inv_def)

lemma stops_inv:
  assumes inv: "life_inv L p" and st: "ps_stop p = s # rest" and ex: "ps_exit p = None"
  shows "life_inv L ((stop_exec L s p)\<lparr>ps_stop := rest\<rparr>)"
proof -
  from inv st have sh: "ps_isShuttingDown p" by (auto simp: life_inv_def booted_def split: if_splits)
  with inv st obtain k where k: "k \<le> 7" "s # rest = drop k STOP_STEPS" "stopped_upto k p"
    and io: "ps_consumers p \<noteq> [] \<longrightarrow> ps_queues p \<and> ps_redis p \<and> ps_db p" "ps_listening p \<longrightarrow> ps_redis p \<and> ps_db p"
    by (auto simp: life_inv_def)
  let ?q = "(stop_exec L s p)\<lparr>ps_stop := rest\<rparr>"
  have "ps_isShuttingDown ?q" using sh by (cases s) (simp_all add: closeSocketRedisAdapter_def closeAllWorkers_def exit_code_def split: sum.split)
  moreover have "rest = drop (Suc k) STOP_STEPS" using k(2) by (metis drop_Suc list.sel(3) tl_drop)
  moreover from k(1,2) have "stopped_upto (Suc k) ?q"
    using k(3) ex by (cases rule: stop_position)
      (auto simp: stopped_upto_def closeSocketRedisAdapter_def closeAllWorkers_def exit_code_def split: sum.split)
  moreover have "Suc k \<le> 7" using k(1,2) by (cases rule: stop_position) auto
  moreover from k(1,2) have "ps_consumers ?q \<noteq> [] \<longrightarrow> ps_queues ?q \<and> ps_redis ?q \<and> ps_db ?q" "ps_listening ?q \<longrightarrow> ps_redis ?q \<and> ps_db ?q"
    using k(3) io by (cases rule: stop_position; auto simp: stopped_upto_def closeSocketRedisAdapter_def closeAllWorkers_def exit_code_def split: sum.split)+
  ultimately show ?thesis by (intro life_inv_stopI [where k = "Suc k"]) simp_all
qed

lemma settles_inv:
  assumes inv: "life_inv L p" and n: "ps_operations p = Suc n"
  shows "life_inv L (p\<lparr>ps_operations := n\<rparr>)"
proof -
  have same: "booted L (p\<lparr>ps_operations := n\<rparr>) = booted L p" "stopped_upto k p \<Longrightarrow> stopped_upto k (p\<lparr>ps_operations := n\<rparr>)" for k
    using n by (simp_all add: booted_def stopped_upto_def)
  show ?thesis
  proof (cases "ps_isShuttingDown p")
    case True
    with inv obtain k where "k \<le> 7" "ps_stop p = drop k STOP_STEPS" "stopped_upto k p" by (auto simp: life_inv_def)
    with True inv same(2) show ?thesis by (intro life_inv_stopI [where k = k]) (simp_all add: life_inv_def)
  next
    case False
    with inv same(1) show ?thesis by (simp add: life_inv_def)
  qed
qed

lemma calm_inv:
  assumes "calm_step L p p'" and "life_inv L p"
  shows "life_inv L p'"
  using assms
proof (cases rule: calm_step.cases)
  case calm
  from calm(1) show ?thesis
  proof (cases rule: process_step.cases)
    case (boots s rest q)
    then have "\<not> ps_isShuttingDown p" using assms(2) by (auto simp: life_inv_def stopped_upto_def)
    with boots assms(2) show ?thesis by (auto intro: boots_inv)
  next
    case (fails s rest e q)
    then have "\<not> ps_isShuttingDown p" using assms(2) by (auto simp: life_inv_def stopped_upto_def)
    with fails assms(2) show ?thesis by (auto intro: fails_inv)
  next
    case (signal x)
    show ?thesis
    proof (cases "ps_isShuttingDown p")
      case True
      with signal assms(2) show ?thesis by (simp add: begin_shutdown_def)
    next
      case False
      with calm(2) signal have "ps_boot p = []" by (auto simp: begin_shutdown_def)
      moreover from False assms(2) have "booted L p" "ps_consumers p \<noteq> [] \<longrightarrow> ps_queues p \<and> ps_redis p \<and> ps_db p"
        "ps_listening p \<longrightarrow> ps_redis p \<and> ps_db p" by (simp_all add: life_inv_def)
      ultimately show ?thesis unfolding signal using False by (intro begin_inv) (simp_all add: booted_def)
    qed
  next
    case (stops s rest)
    with assms(2) show ?thesis by (auto intro: stops_inv)
  next
    case forced
    from assms(2) have "ps_isShuttingDown p" using forced by (auto simp: life_inv_def booted_def split: if_splits)
    then have "(\<exists>k \<le> 7. ps_stop p' = drop k STOP_STEPS \<and> stopped_upto k p') \<and> ps_isShuttingDown p'"
      using assms(2) forced by (auto simp: life_inv_def stopped_upto_def)
    with assms(2) forced show ?thesis by (simp add: life_inv_def)
  next
    case tick
    with assms(2) have ns: "\<not> ps_isShuttingDown p" by (auto simp: life_inv_def stopped_upto_def)
    with assms(2) tick show ?thesis by (simp add: life_inv_def booted_def)
  next
    case (settles n)
    with assms(2) show ?thesis by (simp add: settles_inv)
  qed
qed

interpretation process_life: transition_invariant "calm_step L" "life_inv L" for L
  by unfold_locales (rule calm_inv)

text \<open>Nothing is left open.\<close>

definition all_closed :: "process \<Rightarrow> bool" where
  "all_closed p \<longleftrightarrow> \<not> ps_listening p \<and> \<not> ps_io p \<and> \<not> ps_adapter p \<and> ps_consumers p = [] \<and> \<not> ps_queues p \<and> \<not> ps_redis p \<and> \<not> ps_db p
     \<and> \<not> ps_otpTimer p \<and> \<not> ps_reconTimer p \<and> \<not> ps_payrec p \<and> ps_outbox p = STOPPED"

lemma terminated_closed:
  assumes "life_inv L p" and "ps_state p = TERMINATED \<or> ps_exit p = Some 0"
  shows "ps_state p = TERMINATED \<and> all_closed p \<and> (ps_drain p = Some Drained \<longrightarrow> ps_operations p = 0)"
proof -
  from assms have "ps_isShuttingDown p" by (auto simp: life_inv_def booted_def split: if_splits)
  with assms obtain k where k: "k \<le> 7" "stopped_upto k p" by (auto simp: life_inv_def)
  with assms(2) have "k = 7" by (cases "k = 7") (auto simp: stopped_upto_def)
  with k assms(2) show ?thesis by (auto simp: stopped_upto_def all_closed_def)
qed

lemma ready_open:
  assumes "life_inv L p" and "is_ready p"
  shows "\<not> ps_isShuttingDown p \<and> ps_db p \<and> ps_redis p \<and> startup_gates (la_url L) (la_push L) fresh_module = (Inr (), ps_fcm p)"
proof -
  have ns: "\<not> ps_isShuttingDown p" using assms by (auto simp: life_inv_def stopped_upto_def is_ready_def)
  with assms obtain k where k: "k \<le> 9" "ps_boot p = drop k BOOT_STEPS" and b: "booted L p" by (auto simp: life_inv_def)
  from b assms(2) have "BootReady \<notin> set (drop k BOOT_STEPS)" by (auto simp: booted_def is_ready_def k split: if_splits)
  moreover from k(1) have "k \<in> {0, 1, 2, 3, 4, 5, 6, 7, 8, 9}" by auto
  ultimately have "k = 8 \<or> k = 9" by (elim insertE emptyE) (simp_all add: BOOT_STEPS_def)
  with k(2) have "BootGates \<notin> set (ps_boot p)" "BootDb \<notin> set (ps_boot p)" "BootRedis \<notin> set (ps_boot p)" by (auto simp: BOOT_STEPS_def)
  with b ns show ?thesis by (simp add: booted_def)
qed


text \<open>A shutdown that nothing forces to end reaches its last step, and the terminated state when the database disconnects.\<close>

lemma shutdown_completes:
  assumes "life_inv L p" and "ps_isShuttingDown p" and "ps_exit p = None" and "ps_stop p \<noteq> []" and "la_disconnect L = Inr ()"
  shows "\<exists>q. (calm_step L)\<^sup>*\<^sup>* p q \<and> ps_state q = TERMINATED"
  using assms(1-4)
proof (induction "ps_stop p" arbitrary: p)
  case (Cons s rest)
  let ?q = "(stop_exec L s p)\<lparr>ps_stop := rest\<rparr>"
  have q: "ps_isShuttingDown ?q" "ps_boot ?q = ps_boot p" "s \<noteq> StopDb \<Longrightarrow> ps_exit ?q = None" "s = StopDb \<Longrightarrow> ps_state ?q = TERMINATED"
    using Cons.prems assms(5) by (cases s; simp add: closeSocketRedisAdapter_def closeAllWorkers_def exit_code_def)+
  from Cons.prems(1,2) obtain k where k0: "k \<le> 7" "ps_stop p = drop k STOP_STEPS" "stopped_upto k p" by (auto simp: life_inv_def)
  then have k: "k \<le> 7" "s # rest = drop k STOP_STEPS" and b: "ps_boot p = []" using Cons.hyps(2) by (simp_all add: stopped_upto_def)
  have step: "calm_step L p ?q" using Cons.hyps(2) Cons.prems(3) b by (intro calm_step.calm process_step.stops) simp_all
  show ?case
  proof (cases "s = StopDb")
    case True
    with q step show ?thesis by blast
  next
    case False
    from k have "rest = drop (Suc k) STOP_STEPS" "k < 6" using False
      by (metis drop_Suc list.sel(3) tl_drop, cases rule: stop_position) auto
    then have "ps_stop ?q \<noteq> []" by (simp add: STOP_STEPS_def)
    from Cons.hyps(1) [OF _ stops_inv [OF Cons.prems(1) Cons.hyps(2) [symmetric] Cons.prems(3)] q(1) q(3) [OF False] this]
    obtain r where "(calm_step L)\<^sup>*\<^sup>* ?q r" "ps_state r = TERMINATED" by (simp del: stop_exec.simps) blast
    with step show ?thesis by (blast intro: converse_rtranclp_into_rtranclp)
  qed
qed simp

section \<open>Schedules\<close>

datatype life_action = Boot | Signal | Stop

fun act :: "launch \<Rightarrow> life_action \<Rightarrow> process \<Rightarrow> process option" where
  "act L Boot p = (case ps_boot p of [] \<Rightarrow> None | s # rest \<Rightarrow>
     (case boot_exec L s p of (Inr _, p') \<Rightarrow> if ps_exit p = None then Some (p'\<lparr>ps_boot := rest\<rparr>) else None | (Inl _, _) \<Rightarrow> None))"
| "act L Signal p = (if ps_exit p = None then Some (begin_shutdown True p) else None)"
| "act L Stop p = (case ps_stop p of [] \<Rightarrow> None | s # rest \<Rightarrow> if ps_exit p = None then Some ((stop_exec L s p)\<lparr>ps_stop := rest\<rparr>) else None)"

fun run_schedule :: "bool \<Rightarrow> launch \<Rightarrow> life_action list \<Rightarrow> process \<Rightarrow> process option" where
  "run_schedule calm L [] p = Some p"
| "run_schedule calm L (a # as) p =
     (case act L a p of None \<Rightarrow> None | Some q \<Rightarrow>
        if calm \<and> ps_boot p \<noteq> [] \<and> ps_isShuttingDown q \<and> ps_boot q \<noteq> [] then None else run_schedule calm L as q)"

lemma act_step: "act L a p = Some q \<Longrightarrow> process_step L p q"
  by (cases a) (auto intro: process_step.intros split: list.splits prod.splits sum.splits if_splits)

lemma schedule_run: "run_schedule False L as p = Some q \<Longrightarrow> (process_step L)\<^sup>*\<^sup>* p q"
  by (induction as arbitrary: p) (auto split: option.splits dest: act_step intro: converse_rtranclp_into_rtranclp)

lemma schedule_calm: "run_schedule True L as p = Some q \<Longrightarrow> (calm_step L)\<^sup>*\<^sup>* p q"
proof (induction as arbitrary: p)
  case (Cons a as)
  then obtain r where r: "act L a p = Some r" "run_schedule True L as r = Some q" "ps_boot p = [] \<or> (ps_isShuttingDown r \<longrightarrow> ps_boot r = [])"
    by (auto split: option.splits if_splits)
  then have "calm_step L p r" by (intro calm_step.calm act_step)
  then show ?case using Cons.IH [OF r(2)] by (rule converse_rtranclp_into_rtranclp)
qed simp

definition sample_launch :: launch where
  "sample_launch = \<lparr>la_url = sample_url_lib, la_push = sample_gate_env, la_connect = Inr (), la_redis = Inr (), la_pong = ''PONG'',
     la_adapter = Inr (), la_reconcile = Inr (), la_workers = Inr (), la_disconnect = Inr ()\<rparr>"


text \<open>
  With a signal during the start the order is lost: the start goes on while the shutdown closes the connections, so the
  process can start consumers after Redis is closed, restart the stopped outbox worker and declare itself ready.
\<close>

lemma startup_survives_shutdown:
  "\<exists>p. (process_step sample_launch)\<^sup>*\<^sup>* loaded p \<and> ps_isShuttingDown p \<and> is_ready p \<and> ps_consumers p \<noteq> [] \<and> \<not> ps_redis p \<and> ps_outbox p = RUNNING"
proof -
  let ?as = "replicate 6 Boot @ Signal # replicate 6 Stop @ [Boot, Boot]"
  have "map_option (\<lambda>p. (ps_isShuttingDown p, is_ready p, ps_consumers p = [], ps_redis p, ps_outbox p = RUNNING)) (run_schedule False sample_launch ?as loaded)
    = Some (True, True, False, False, True)" by code_simp
  then obtain p where p: "run_schedule False sample_launch ?as loaded = Some p" "ps_isShuttingDown p" "is_ready p" "ps_consumers p \<noteq> []" "\<not> ps_redis p" "ps_outbox p = RUNNING"
    by auto
  from schedule_run [OF p(1)] p(2-) show ?thesis by blast
qed

text \<open>The two defaults of the process type disagree: without the variable a process runs the workers on a pool for the API.\<close>

lemma process_type_defaults: "enableWorkers (\<lambda>_. None)" "dp_max (getDatabasePoolConfig (\<lambda>_. None)) = defaultPoolMax ''api''"
  by code_simp+

end
