(* ===== verification/Responses.thy ===== *)
theory Responses
  imports Audit_Log Sockets
begin

text \<open>
  Responses: the selections and the mappers of \<^verbatim>\<open>src/shared/prismaSelects.ts\<close>, through which every row goes on its
  way to a client. The mappers take an untyped object, so they are functions on JSON values here: a field that is
  undefined is absent, and an absent field of a result is one that \<^verbatim>\<open>JSON.stringify\<close> leaves out.

  The property is the invariant stated at the head of the source: what a response contains is an allow-list, at every
  depth, whatever columns the rows have.
\<close>

section \<open>Access to untyped objects\<close>

fun obj_fields :: "json \<Rightarrow> json_object" where
  "obj_fields (JObj fs) = fs"
| "obj_fields _ = []"

definition jfield :: "json \<Rightarrow> string \<Rightarrow> json option" where
  "jfield v k = map_of (obj_fields v) k"

text \<open>\<^verbatim>\<open>k: x.k\<close>, and \<^verbatim>\<open>if (x.k !== undefined) dto.k = x.k\<close>\<close>

definition copies :: "json \<Rightarrow> string list \<Rightarrow> json_object" where
  "copies v ks = concat (map (\<lambda>k. case jfield v k of None \<Rightarrow> [] | Some x \<Rightarrow> [(k, x)]) ks)"

text \<open>\<^verbatim>\<open>k: x.k !== undefined ? x.k : null\<close>\<close>

definition orNulls :: "json \<Rightarrow> string list \<Rightarrow> json_object" where
  "orNulls v ks = map (\<lambda>k. (k, case jfield v k of None \<Rightarrow> JNull | Some x \<Rightarrow> x)) ks"

text \<open>\<^verbatim>\<open>if (x.k !== undefined) dto.k = x.k ? f(x.k) : null\<close>\<close>

definition relOrNull :: "json \<Rightarrow> string \<Rightarrow> (json \<Rightarrow> json) \<Rightarrow> json_object" where
  "relOrNull v k f = (case jfield v k of None \<Rightarrow> [] | Some x \<Rightarrow> [(k, if json_truthy x then f x else JNull)])"

text \<open>\<^verbatim>\<open>k: x.k ? f(x.k) : undefined\<close>\<close>

definition rel :: "json \<Rightarrow> string \<Rightarrow> (json \<Rightarrow> json) \<Rightarrow> json_object" where
  "rel v k f = (case jfield v k of None \<Rightarrow> [] | Some x \<Rightarrow> if json_truthy x then [(k, f x)] else [])"

text \<open>\<^verbatim>\<open>if (Array.isArray(x.k)) dto.k = x.k.map(f).filter(Boolean)\<close>\<close>

definition relArray :: "json \<Rightarrow> string \<Rightarrow> (json \<Rightarrow> json) \<Rightarrow> json_object" where
  "relArray v k f = (case jfield v k of Some (JArr xs) \<Rightarrow> [(k, JArr (filter json_truthy (map f xs)))] | _ \<Rightarrow> [])"

text \<open>\<^verbatim>\<open>if (!x) return null\<close>\<close>

definition dto_of :: "json \<Rightarrow> json_object \<Rightarrow> json" where
  "dto_of v fs = (if json_truthy v then JObj fs else JNull)"

lemma jfield_size [termination_simp]: "jfield v k = Some x \<Longrightarrow> size x < size v"
proof -
  assume "jfield v k = Some x"
  then obtain fs where v: "v = JObj fs" and m: "map_of fs k = Some x" by (cases v) (auto simp: jfield_def)
  from json_field_size [OF map_of_SomeD [OF m]] show ?thesis by (simp add: v)
qed

lemma jfield_array_size [termination_simp]: "jfield v k = Some (JArr xs) \<Longrightarrow> x \<in> set xs \<Longrightarrow> size x < size v"
proof -
  assume p: "jfield v k = Some (JArr xs)" and x: "x \<in> set xs"
  have "size x < size (JArr xs)" using x by (simp add: less_Suc_eq_le size_list_estimation')
  with jfield_size [OF p] show ?thesis by simp
qed

text \<open>The combinators only call their function on parts of the object.\<close>

lemma relOrNull_cong [fundef_cong]:
  "v = w \<Longrightarrow> k = l \<Longrightarrow> (\<And>x. jfield w l = Some x \<Longrightarrow> f x = g x) \<Longrightarrow> relOrNull v k f = relOrNull w l g"
  by (auto simp: relOrNull_def split: option.splits)

lemma rel_cong [fundef_cong]:
  "v = w \<Longrightarrow> k = l \<Longrightarrow> (\<And>x. jfield w l = Some x \<Longrightarrow> f x = g x) \<Longrightarrow> rel v k f = rel w l g"
  by (auto simp: rel_def split: option.splits)

lemma relArray_cong [fundef_cong]:
  "v = w \<Longrightarrow> k = l \<Longrightarrow> (\<And>xs x. jfield w l = Some (JArr xs) \<Longrightarrow> x \<in> set xs \<Longrightarrow> f x = g x) \<Longrightarrow> relArray v k f = relArray w l g"
  by (auto simp: relArray_def split: option.splits json.splits intro: arg_cong [where f = "filter json_truthy"])

section \<open>Selections\<close>

definition workerPublicSelect :: "string list" where
  "workerPublicSelect = [''id'', ''name'', ''skill_type'', ''worker_score'', ''is_online'', ''skill_category_id'']"

definition workerSelfSelect :: "string list" where
  "workerSelfSelect = [''id'', ''name'', ''phone'', ''skill_type'', ''worker_score'', ''is_online'', ''skill_category_id'',
     ''aadhaar_last4'', ''verification_status'', ''skill_category'']"

definition workerAdminSelect :: "string list" where
  "workerAdminSelect = [''id'', ''name'', ''phone'', ''skill_type'', ''worker_score'', ''is_online'', ''skill_category_id'',
     ''aadhaar_last4'', ''verification_status'', ''decline_count'', ''timeout_count'']"

definition customerPublicSelect :: "string list" where
  "customerPublicSelect = [''id'', ''name'', ''phone'', ''created_at'']"

definition customerSummarySelect :: "string list" where
  "customerSummarySelect = [''id'', ''name'', ''phone'']"

definition customerSelfSelect :: "string list" where
  "customerSelfSelect = [''id'', ''name'', ''phone'', ''created_at'']"

definition bookingSafeSelect :: "string list" where
  "bookingSafeSelect = [''id'', ''job_id'', ''requirement_id'', ''worker_id'', ''customer_id'', ''status'', ''otp_verified'',
     ''verified_at'', ''verified_by'', ''started_at'', ''completion_requested_at'', ''completed_at'', ''cancelled_at'', ''cancelled_by'',
     ''cancellation_reason'', ''confirmed_at'', ''confirmed_by'', ''created_at'', ''updated_at'']"

definition paymentSafeSelect :: "string list" where
  "paymentSafeSelect = [''id'', ''booking_id'', ''razorpay_order_id'', ''razorpay_payment_id'', ''status'', ''amount'', ''currency'']"

definition reviewSafeSelect :: "string list" where
  "reviewSafeSelect = [''id'', ''booking_id'', ''worker_id'', ''customer_id'', ''rating'', ''comment'']"

text \<open>What the client library returns for a selection of scalar columns: those columns of the row.\<close>

definition select_columns :: "string list \<Rightarrow> json \<Rightarrow> json" where
  "select_columns ks v = JObj (filter (\<lambda>kv. fst kv \<in> set ks) (obj_fields v))"

section \<open>Mappers\<close>

definition toSkillCategoryDTO :: "json \<Rightarrow> json" where
  "toSkillCategoryDTO skill = dto_of skill (copies skill [''id'', ''name'', ''is_active''])"

definition toWorkerPublicDTO :: "json \<Rightarrow> json" where
  "toWorkerPublicDTO worker = dto_of worker (copies worker [''id'', ''name'', ''skill_type'', ''skill_category_id'', ''worker_score'',
     ''is_online'', ''phone'', ''latitude'', ''longitude''])"

definition toWorkerSelfDTO_json :: "json \<Rightarrow> json" where
  "toWorkerSelfDTO_json worker = dto_of worker (copies worker [''id'', ''name'', ''phone'', ''skill_type'', ''skill_category_id'', ''worker_score'',
     ''is_online'', ''aadhaar_last4'', ''verification_status''] @ relOrNull worker ''skill_category'' toSkillCategoryDTO)"

definition toWorkerAdminDTO_json :: "json \<Rightarrow> json" where
  "toWorkerAdminDTO_json worker = dto_of worker (copies worker [''id'', ''name'', ''phone'', ''skill_type'', ''skill_category_id'']
     @ orNulls worker [''worker_score'', ''is_online'', ''aadhaar_last4'', ''verification_status'', ''decline_count'', ''timeout_count''])"

definition toWorkerDocumentDTO :: "json \<Rightarrow> json" where
  "toWorkerDocumentDTO doc = dto_of doc (copies doc [''id'', ''worker_id''] @ orNulls doc [''document_type'', ''file_url'', ''status''])"

definition toWorkerDocumentMetadataDTO :: "json \<Rightarrow> json" where
  "toWorkerDocumentMetadataDTO doc = dto_of doc (copies doc [''id'', ''worker_id''] @ orNulls doc [''document_type'', ''status''])"

definition toWorkerDocumentAccessDTO :: "string \<Rightarrow> int \<Rightarrow> json \<Rightarrow> json" where
  "toWorkerDocumentAccessDTO accessUrl expiresIn doc =
     dto_of doc ((case jfield doc ''id'' of None \<Rightarrow> [] | Some x \<Rightarrow> [(''document_id'', x)]) @ copies doc [''worker_id'']
       @ orNulls doc [''document_type''] @ [(''access_url'', JStr accessUrl), (''expires_in'', JInt expiresIn)])"

definition toWorkerAnalyticsDTO :: "json \<Rightarrow> json" where
  "toWorkerAnalyticsDTO a = dto_of a (copies a [''id'', ''worker_id'']
     @ orNulls a [''avg_response_time_s'', ''acceptance_rate'', ''completion_rate'', ''calculated_at''])"

definition toWorkerLocationDTO :: "json \<Rightarrow> json" where
  "toWorkerLocationDTO l = dto_of l (copies l [''id'', ''worker_id''] @ orNulls l [''latitude'', ''longitude'', ''location'', ''updated_at''])"

definition toCustomerSummaryDTO :: "json \<Rightarrow> json" where
  "toCustomerSummaryDTO c = dto_of c (copies c [''id'', ''name'', ''phone''])"

definition toCustomerSelfDTO :: "json \<Rightarrow> json" where
  "toCustomerSelfDTO c = dto_of c (copies c [''id'', ''name'', ''phone''] @ orNulls c [''created_at''])"

definition toCustomerPublicDTO :: "json \<Rightarrow> json" where
  "toCustomerPublicDTO c = dto_of c (copies c [''id'', ''name'', ''phone''] @ orNulls c [''created_at''])"

definition toAuthUserDTO :: "json \<Rightarrow> json" where
  "toAuthUserDTO user = dto_of user (copies user [''id'', ''name'', ''phone''] @ rel user ''role'' (\<lambda>x. x))"

text \<open>\<^verbatim>\<open>Math.max(0, needed - (filled || 0))\<close> on the two integer columns.\<close>

definition json_int :: "json option \<Rightarrow> int option" where
  "json_int v = (case v of Some (JInt n) \<Rightarrow> Some n | Some JNull \<Rightarrow> Some 0 | _ \<Rightarrow> None)"

definition remaining_count :: "json \<Rightarrow> json" where
  "remaining_count req =
     (case (json_int (jfield req ''worker_count_needed''), json_int (jfield req ''worker_count_filled'')) of
        (Some n, Some m) \<Rightarrow> JInt (max 0 (n - m))
      | _ \<Rightarrow> JNum NaN)"

function toJobRequirementDTO :: "json \<Rightarrow> json" and toJobDTO :: "json \<Rightarrow> json" and toDispatchDTO :: "json \<Rightarrow> json" where
  "toJobRequirementDTO req = dto_of req (copies req [''id'', ''job_id'', ''worker_count_needed'', ''skill_id'', ''skill_type'', ''worker_count_filled'']
     @ (if jfield req ''worker_count_filled'' \<noteq> None then [(''remaining_worker_count'', remaining_count req)] else [])
     @ copies req [''rate_per_day'', ''status'', ''current_wave'', ''wave_size'', ''created_at'', ''updated_at'']
     @ relOrNull req ''skill_category'' toSkillCategoryDTO @ relArray req ''job_dispatch'' toDispatchDTO @ rel req ''job'' toJobDTO)"
| "toJobDTO job = dto_of job (copies job [''id'', ''customer_id'', ''latitude'', ''longitude'', ''location'', ''status'', ''dispatch_status'',
     ''created_at'', ''updated_at'', ''cancelled_at'', ''cancelled_by'', ''completed_at'']
     @ relArray job ''job_requirement'' toJobRequirementDTO @ rel job ''customer'' toCustomerSummaryDTO
     @ (case jfield job ''booking'' of Some (JArr bs) \<Rightarrow> [(''booking'', JArr (map (\<lambda>b. JObj (copies b [''worker_id''])) bs))] | _ \<Rightarrow> []))"
| "toDispatchDTO dispatch = dto_of dispatch (copies dispatch [''id'', ''requirement_id'', ''worker_id'']
     @ orNulls dispatch [''wave_number'', ''wave_position'', ''status'', ''notified_at'', ''expires_at'', ''responded_at'', ''created_at'', ''updated_at'']
     @ rel dispatch ''job_requirement'' toJobRequirementDTO)"
  by pat_completeness auto
termination
  by (relation "measure (\<lambda>x. case x of Inl v \<Rightarrow> size v | Inr (Inl v) \<Rightarrow> size v | Inr (Inr v) \<Rightarrow> size v)")
    (auto dest: jfield_size jfield_array_size)

definition toDispatchWaveDTO :: "json \<Rightarrow> json" where
  "toDispatchWaveDTO wave = dto_of wave (copies wave [''id'', ''requirement_id'', ''wave_number'']
     @ orNulls wave [''operation_id'', ''status'', ''notified_at'', ''resolved_at'', ''workers_notified'', ''slots_filled'', ''created_at'', ''updated_at''])"

definition toPaymentDTO :: "json \<Rightarrow> json" where
  "toPaymentDTO payment = dto_of payment (copies payment [''id'', ''booking_id''] @ orNulls payment [''razorpay_order_id'', ''status'', ''amount'']
     @ copies payment [''razorpay_payment_id'', ''razorpay_refund_id'', ''refund_amount'', ''refund_status'', ''currency''])"

definition toReviewDTO :: "json \<Rightarrow> json" where
  "toReviewDTO review = dto_of review (copies review [''id'', ''booking_id'', ''worker_id'', ''customer_id'']
     @ orNulls review [''rating'', ''comment''] @ copies review [''created_at''])"

text \<open>The actor is an object with a role, or anything else, such as the index that \<^verbatim>\<open>map\<close> passes.\<close>

definition actor_is_worker :: "json option \<Rightarrow> bool" where
  "actor_is_worker actor \<longleftrightarrow> (case actor of Some (JObj fs) \<Rightarrow>
     (case map_of fs ''role'' of Some (JStr s) \<Rightarrow> toLowerCase s = ''worker'' | _ \<Rightarrow> False) | _ \<Rightarrow> False)"

definition toBookingDTO :: "json option \<Rightarrow> json \<Rightarrow> json" where
  "toBookingDTO actor b = dto_of b (copies b [''id'', ''job_id'', ''requirement_id'', ''worker_id'', ''customer_id'']
     @ orNulls b [''status'', ''otp_verified'']
     @ copies b [''verified_at'', ''verified_by'', ''started_at'', ''completion_requested_at'', ''completed_at'', ''cancelled_at'', ''cancelled_by'',
         ''cancellation_reason'', ''confirmed_at'', ''confirmed_by'']
     @ orNulls b [''created_at'', ''updated_at'']
     @ rel b ''job'' toJobDTO @ rel b ''worker'' toWorkerPublicDTO @ rel b ''customer'' toCustomerSummaryDTO @ rel b ''review'' toReviewDTO
     @ (if actor_is_worker actor then [] else rel b ''payment'' toPaymentDTO)
     @ rel b ''job_requirement'' toJobRequirementDTO)"

definition toChatMessageDTO :: "json \<Rightarrow> json" where
  "toChatMessageDTO msg = dto_of msg (copies msg [''id'', ''conversation_id'', ''sender_id''] @ orNulls msg [''content'', ''sent_at''])"

definition toConversationDTO :: "json \<Rightarrow> json" where
  "toConversationDTO convo = dto_of convo (copies convo [''id'', ''booking_id'', ''worker_id'', ''customer_id''])"

declare toJobRequirementDTO.simps [simp del] toJobDTO.simps [simp del] toDispatchDTO.simps [simp del]

section \<open>The allow-list\<close>

fun deep_keys :: "json \<Rightarrow> string list" where
  "deep_keys (JObj fs) = concat (map (\<lambda>kv. fst kv # deep_keys (snd kv)) fs)"
| "deep_keys (JArr xs) = concat (map deep_keys xs)"
| "deep_keys _ = []"

definition RELATIONS :: "string list" where
  "RELATIONS = [''skill_category'', ''job_dispatch'', ''job'', ''job_requirement'', ''customer'', ''booking'', ''worker'', ''review'', ''payment'']"

fun is_scalar :: "json \<Rightarrow> bool" where
  "is_scalar (JObj _) = False"
| "is_scalar (JArr _) = False"
| "is_scalar _ = True"

text \<open>A row as the database returns it: every column but a relation is a scalar, at every depth.\<close>

fun plain_row :: "json \<Rightarrow> bool" where
  "plain_row (JObj fs) = list_all (\<lambda>kv. if fst kv \<in> set RELATIONS then plain_row (snd kv) else is_scalar (snd kv)) fs"
| "plain_row (JArr xs) = list_all plain_row xs"
| "plain_row _ = True"

definition PUBLIC_KEYS :: "string list" where
  "PUBLIC_KEYS = RELATIONS @ bookingSafeSelect @ [''name'', ''phone'', ''skill_type'', ''skill_category_id'', ''worker_score'', ''is_online'',
     ''latitude'', ''longitude'', ''location'', ''is_active'', ''role'', ''worker_count_needed'', ''skill_id'', ''worker_count_filled'',
     ''remaining_worker_count'', ''rate_per_day'', ''current_wave'', ''wave_size'', ''dispatch_status'', ''wave_number'', ''wave_position'',
     ''notified_at'', ''expires_at'', ''responded_at'', ''operation_id'', ''resolved_at'', ''workers_notified'', ''slots_filled'', ''booking_id'',
     ''razorpay_order_id'', ''amount'', ''razorpay_payment_id'', ''razorpay_refund_id'', ''refund_amount'', ''refund_status'', ''currency'',
     ''rating'', ''comment'', ''conversation_id'', ''sender_id'', ''content'', ''sent_at'', ''avg_response_time_s'', ''acceptance_rate'',
     ''completion_rate'', ''calculated_at'']"

text \<open>What a worker sees of the own account and an administrator of any.\<close>

definition ACCOUNT_KEYS :: "string list" where
  "ACCOUNT_KEYS = [''aadhaar_last4'', ''verification_status'', ''decline_count'', ''timeout_count'', ''document_type'', ''file_url'', ''document_id'',
     ''access_url'', ''expires_in'']"

definition SECRET_COLUMNS :: "string list" where
  "SECRET_COLUMNS = [''password'', ''otp_hash'', ''device_token'', ''fcm_token'', ''token_hash'', ''idempotency_key'', ''razorpay_signature'', ''deleted_at'']"

definition public_mappers :: "json option \<Rightarrow> (json \<Rightarrow> json) list" where
  "public_mappers actor = [toSkillCategoryDTO, toWorkerPublicDTO, toWorkerAnalyticsDTO, toWorkerLocationDTO, toCustomerSummaryDTO, toCustomerSelfDTO,
     toCustomerPublicDTO, toAuthUserDTO, toJobRequirementDTO, toJobDTO, toDispatchDTO, toDispatchWaveDTO, toPaymentDTO, toReviewDTO,
     toBookingDTO actor, toChatMessageDTO, toConversationDTO]"

definition account_mappers :: "string \<Rightarrow> int \<Rightarrow> (json \<Rightarrow> json) list" where
  "account_mappers url ttl = [toWorkerSelfDTO_json, toWorkerAdminDTO_json, toWorkerDocumentDTO, toWorkerDocumentMetadataDTO,
     toWorkerDocumentAccessDTO url ttl]"

definition fields_in :: "string set \<Rightarrow> json_object \<Rightarrow> bool" where
  "fields_in K fs \<longleftrightarrow> (\<forall>kv \<in> set fs. fst kv \<in> K \<and> set (deep_keys (snd kv)) \<subseteq> K)"

lemma fields_in_append [simp]: "fields_in K (fs @ gs) \<longleftrightarrow> fields_in K fs \<and> fields_in K gs"
  by (auto simp: fields_in_def)

lemma fields_in_Nil [simp]: "fields_in K []"
  by (simp add: fields_in_def)

lemma fields_in_single [simp]: "fields_in K [(k, x)] \<longleftrightarrow> k \<in> K \<and> set (deep_keys x) \<subseteq> K"
  by (simp add: fields_in_def)

lemma dto_in: "fields_in K fs \<Longrightarrow> set (deep_keys (dto_of v fs)) \<subseteq> K"
  by (auto simp: dto_of_def fields_in_def)

lemma scalar_keys: "is_scalar x \<Longrightarrow> deep_keys x = []"
  by (cases x) auto

lemma plain_field:
  assumes "plain_row v" and "jfield v k = Some x"
  shows "if k \<in> set RELATIONS then plain_row x else is_scalar x"
  using assms by (cases v) (auto simp: jfield_def list_all_iff dest!: map_of_SomeD)

definition scalars_of :: "string list \<Rightarrow> string list \<Rightarrow> bool" where
  "scalars_of ks A \<longleftrightarrow> list_all (\<lambda>k. k \<in> set A \<and> k \<notin> set RELATIONS) ks"

definition relation_of :: "string \<Rightarrow> string list \<Rightarrow> bool" where
  "relation_of k A \<longleftrightarrow> k \<in> set A \<and> k \<in> set RELATIONS"

lemma scalar_field:
  assumes "plain_row v" and "scalars_of ks A" and "k \<in> set ks" and "jfield v k = Some x"
  shows "k \<in> set A \<and> deep_keys x = []"
  using plain_field [OF assms(1,4)] assms(2,3) by (simp add: scalars_of_def list_all_iff scalar_keys)

lemma copies_in:
  assumes "plain_row v" and "scalars_of ks A"
  shows "fields_in (set A) (copies v ks)"
proof -
  have "fields_in (set A) (case jfield v k of None \<Rightarrow> [] | Some x \<Rightarrow> [(k, x)])" if "k \<in> set ks" for k
    using scalar_field [OF assms that] by (cases "jfield v k") simp_all
  then show ?thesis by (auto simp: fields_in_def copies_def)
qed

lemma orNulls_in:
  assumes "plain_row v" and "scalars_of ks A"
  shows "fields_in (set A) (orNulls v ks)"
proof -
  have "deep_keys (case jfield v k of None \<Rightarrow> JNull | Some x \<Rightarrow> x) = []" if "k \<in> set ks" for k
    using scalar_field [OF assms that] by (cases "jfield v k") simp_all
  with assms(2) show ?thesis by (auto simp: fields_in_def orNulls_def scalars_of_def list_all_iff)
qed

lemma rel_in:
  assumes "plain_row v" "relation_of k A" "\<And>x. jfield v k = Some x \<Longrightarrow> plain_row x \<Longrightarrow> set (deep_keys (f x)) \<subseteq> set A"
  shows "fields_in (set A) (rel v k f)" "fields_in (set A) (relOrNull v k f)"
  using assms plain_field [OF assms(1), of k] by (auto simp: relation_of_def rel_def relOrNull_def split: option.splits)

lemma relArray_in:
  assumes "plain_row v" "relation_of k A"
    "\<And>xs x. jfield v k = Some (JArr xs) \<Longrightarrow> x \<in> set xs \<Longrightarrow> plain_row x \<Longrightarrow> set (deep_keys (f x)) \<subseteq> set A"
  shows "fields_in (set A) (relArray v k f)"
proof (cases "jfield v k")
  case (Some a)
  show ?thesis
  proof (cases a)
    case (JArr xs)
    with Some plain_field [OF assms(1) Some] assms(2) have "\<forall>x \<in> set xs. plain_row x" by (simp add: list_all_iff relation_of_def)
    with Some JArr assms(2,3) show ?thesis by (fastforce simp: relArray_def relation_of_def)
  qed (use Some in \<open>simp_all add: relArray_def\<close>)
qed (simp add: relArray_def)

lemma fields_appendI: "fields_in K fs \<Longrightarrow> fields_in K gs \<Longrightarrow> fields_in K (fs @ gs)"
  by simp

lemmas map_in = dto_in fields_appendI copies_in orNulls_in

lemma small_mappers_in:
  assumes "plain_row v"
  shows "set (deep_keys (toSkillCategoryDTO v)) \<subseteq> set PUBLIC_KEYS" "set (deep_keys (toWorkerPublicDTO v)) \<subseteq> set PUBLIC_KEYS"
    "set (deep_keys (toCustomerSummaryDTO v)) \<subseteq> set PUBLIC_KEYS" "set (deep_keys (toPaymentDTO v)) \<subseteq> set PUBLIC_KEYS"
    "set (deep_keys (toReviewDTO v)) \<subseteq> set PUBLIC_KEYS" "set (deep_keys (toWorkerAnalyticsDTO v)) \<subseteq> set PUBLIC_KEYS"
    "set (deep_keys (toWorkerLocationDTO v)) \<subseteq> set PUBLIC_KEYS" "set (deep_keys (toCustomerSelfDTO v)) \<subseteq> set PUBLIC_KEYS"
    "set (deep_keys (toCustomerPublicDTO v)) \<subseteq> set PUBLIC_KEYS" "set (deep_keys (toDispatchWaveDTO v)) \<subseteq> set PUBLIC_KEYS"
    "set (deep_keys (toChatMessageDTO v)) \<subseteq> set PUBLIC_KEYS" "set (deep_keys (toConversationDTO v)) \<subseteq> set PUBLIC_KEYS"
  unfolding toSkillCategoryDTO_def toWorkerPublicDTO_def toCustomerSummaryDTO_def toPaymentDTO_def toReviewDTO_def toWorkerAnalyticsDTO_def
    toWorkerLocationDTO_def toCustomerSelfDTO_def toCustomerPublicDTO_def toDispatchWaveDTO_def toChatMessageDTO_def toConversationDTO_def
  by (intro map_in assms; code_simp)+

lemma remaining_keys [simp]: "deep_keys (remaining_count v) = []"
  by (simp add: remaining_count_def split: option.split)

lemma counted_in:
  assumes "''remaining_worker_count'' \<in> set A"
  shows "fields_in (set A) (if jfield v ''worker_count_filled'' \<noteq> None then [(''remaining_worker_count'', remaining_count v)] else [])"
  using assms by simp

lemma job_bookings_in:
  assumes "plain_row v" and "relation_of ''booking'' A" and "scalars_of [''worker_id''] A"
  shows "fields_in (set A) (case jfield v ''booking'' of Some (JArr bs) \<Rightarrow> [(''booking'', JArr (map (\<lambda>b. JObj (copies b [''worker_id''])) bs))] | _ \<Rightarrow> [])"
proof (cases "jfield v ''booking''")
  case (Some a)
  show ?thesis
  proof (cases a)
    case (JArr bs)
    with Some plain_field [OF assms(1) Some] assms(2) have "\<forall>b \<in> set bs. plain_row b" by (simp add: list_all_iff relation_of_def)
    then have "\<forall>b \<in> set bs. fields_in (set A) (copies b [''worker_id''])" using copies_in [OF _ assms(3)] by blast
    with Some JArr assms(2) show ?thesis by (auto simp: relation_of_def fields_in_def)
  qed (use Some in simp_all)
qed simp

lemma nested_mappers_in:
  "plain_row v \<Longrightarrow> set (deep_keys (toJobRequirementDTO v)) \<subseteq> set PUBLIC_KEYS"
  "plain_row v \<Longrightarrow> set (deep_keys (toJobDTO v)) \<subseteq> set PUBLIC_KEYS"
  "plain_row v \<Longrightarrow> set (deep_keys (toDispatchDTO v)) \<subseteq> set PUBLIC_KEYS"
proof (induction v and v and v rule: toJobRequirementDTO_toJobDTO_toDispatchDTO.induct)
  case (1 req)
  show ?case unfolding toJobRequirementDTO.simps [of req]
    by (intro map_in counted_in relArray_in [OF 1(3) _ 1(1)] rel_in(1) [OF 1(3) _ 1(2)] rel_in(2) [OF 1(3) _ small_mappers_in(1)] 1(3); (assumption | code_simp))
next
  case (2 job)
  show ?case unfolding toJobDTO.simps [of job]
    by (intro map_in job_bookings_in relArray_in [OF 2(2) _ 2(1)] rel_in(1) [OF 2(2) _ small_mappers_in(3)] 2(2); (assumption | code_simp))
next
  case (3 dispatch)
  show ?case unfolding toDispatchDTO.simps [of dispatch]
    by (intro map_in rel_in(1) [OF 3(2) _ 3(1)] 3(2); (assumption | code_simp))
qed

lemma role_in:
  assumes "plain_row v"
  shows "fields_in (set PUBLIC_KEYS) (rel v ''role'' (\<lambda>x. x))"
proof -
  have "scalars_of [''role''] PUBLIC_KEYS" by code_simp
  then show ?thesis using scalar_field [OF assms, of "[''role'']" PUBLIC_KEYS "''role''"] by (auto simp: rel_def scalars_of_def split: option.splits)
qed

lemma composed_mappers_in:
  assumes "plain_row v"
  shows "set (deep_keys (toAuthUserDTO v)) \<subseteq> set PUBLIC_KEYS" "set (deep_keys (toBookingDTO actor v)) \<subseteq> set PUBLIC_KEYS"
proof -
  show "set (deep_keys (toAuthUserDTO v)) \<subseteq> set PUBLIC_KEYS" unfolding toAuthUserDTO_def by (intro map_in role_in assms; code_simp)
  have pay: "fields_in (set PUBLIC_KEYS) (if actor_is_worker actor then [] else rel v ''payment'' toPaymentDTO)"
    using rel_in(1) [OF assms _ small_mappers_in(4), of "''payment''"] by (auto simp: relation_of_def PUBLIC_KEYS_def RELATIONS_def)
  show "set (deep_keys (toBookingDTO actor v)) \<subseteq> set PUBLIC_KEYS" unfolding toBookingDTO_def
    by (intro map_in pay assms rel_in(1) [OF assms _ nested_mappers_in(2)] rel_in(1) [OF assms _ small_mappers_in(2)] rel_in(1) [OF assms _ small_mappers_in(3)]
        rel_in(1) [OF assms _ small_mappers_in(5)] rel_in(1) [OF assms _ nested_mappers_in(1)]; (assumption | code_simp))
qed

definition RESPONSE_KEYS :: "string list" where
  "RESPONSE_KEYS = PUBLIC_KEYS @ ACCOUNT_KEYS"

lemma fields_in_mono: "fields_in K fs \<Longrightarrow> K \<subseteq> L \<Longrightarrow> fields_in L fs"
  by (auto simp: fields_in_def)

lemma account_mappers_in:
  assumes "plain_row v"
  shows "set (deep_keys (toWorkerSelfDTO_json v)) \<subseteq> set RESPONSE_KEYS" "set (deep_keys (toWorkerAdminDTO_json v)) \<subseteq> set RESPONSE_KEYS"
    "set (deep_keys (toWorkerDocumentDTO v)) \<subseteq> set RESPONSE_KEYS" "set (deep_keys (toWorkerDocumentMetadataDTO v)) \<subseteq> set RESPONSE_KEYS"
    "set (deep_keys (toWorkerDocumentAccessDTO url ttl v)) \<subseteq> set RESPONSE_KEYS"
proof -
  have skill: "set (deep_keys (toSkillCategoryDTO x)) \<subseteq> set RESPONSE_KEYS" if "plain_row x" for x
    using small_mappers_in(1) [OF that] by (auto simp: RESPONSE_KEYS_def)
  show "set (deep_keys (toWorkerSelfDTO_json v)) \<subseteq> set RESPONSE_KEYS" unfolding toWorkerSelfDTO_json_def
    by (intro map_in rel_in(2) [OF assms _ skill] assms; (assumption | code_simp))
  have "scalars_of [''id''] RESPONSE_KEYS" and d: "''document_id'' \<in> set RESPONSE_KEYS" "''access_url'' \<in> set RESPONSE_KEYS" "''expires_in'' \<in> set RESPONSE_KEYS" by code_simp+
  then have id: "fields_in (set RESPONSE_KEYS) (case jfield v ''id'' of None \<Rightarrow> [] | Some x \<Rightarrow> [(''document_id'', x)])"
    using scalar_field [OF assms, of "[''id'']" RESPONSE_KEYS "''id''"] by (auto split: option.splits)
  have url: "fields_in (set RESPONSE_KEYS) [(''access_url'', JStr url), (''expires_in'', JInt ttl)]" using d by (simp add: fields_in_def)
  show "set (deep_keys (toWorkerDocumentAccessDTO url ttl v)) \<subseteq> set RESPONSE_KEYS" unfolding toWorkerDocumentAccessDTO_def
    by (intro map_in id url assms; code_simp)
qed (unfold toWorkerAdminDTO_json_def toWorkerDocumentDTO_def toWorkerDocumentMetadataDTO_def, (intro map_in assms; code_simp)+)

text \<open>A column outside the list changes no response.\<close>

lemma jfield_extra: "k' \<noteq> k \<Longrightarrow> jfield (JObj ((k, x) # fs)) k' = jfield (JObj fs) k'"
  by (simp add: jfield_def)

lemma scalar_extra:
  assumes "scalars_of ks A" and "k \<notin> set A" and "k' \<in> set ks"
  shows "jfield (JObj ((k, x) # fs)) k' = jfield (JObj fs) k'"
proof (rule jfield_extra)
  show "k' \<noteq> k" using assms by (auto simp: scalars_of_def list_all_iff)
qed

lemma copies_extra: "scalars_of ks A \<Longrightarrow> k \<notin> set A \<Longrightarrow> copies (JObj ((k, x) # fs)) ks = copies (JObj fs) ks"
  unfolding copies_def by (intro arg_cong [where f = concat] map_cong refl) (simp add: scalar_extra)

lemma orNulls_extra: "scalars_of ks A \<Longrightarrow> k \<notin> set A \<Longrightarrow> orNulls (JObj ((k, x) # fs)) ks = orNulls (JObj fs) ks"
  unfolding orNulls_def by (intro map_cong refl) (simp add: scalar_extra)

lemma rel_extra:
  assumes "k' \<in> set A" and "k \<notin> set A"
  shows "rel (JObj ((k, x) # fs)) k' f = rel (JObj fs) k' f" "relOrNull (JObj ((k, x) # fs)) k' f = relOrNull (JObj fs) k' f"
    "relArray (JObj ((k, x) # fs)) k' f = relArray (JObj fs) k' f"
proof -
  have "jfield (JObj ((k, x) # fs)) k' = jfield (JObj fs) k'" using assms by (intro jfield_extra) auto
  then show "rel (JObj ((k, x) # fs)) k' f = rel (JObj fs) k' f" "relOrNull (JObj ((k, x) # fs)) k' f = relOrNull (JObj fs) k' f"
    "relArray (JObj ((k, x) # fs)) k' f = relArray (JObj fs) k' f" by (simp_all add: rel_def relOrNull_def relArray_def)
qed

lemma field_extra:
  assumes "k' \<in> set A" and "k \<notin> set A"
  shows "g (jfield (JObj ((k, x) # fs)) k') = g (jfield (JObj fs) k')"
  using assms by (metis jfield_extra)

lemma dto_extra: "gs = hs \<Longrightarrow> dto_of (JObj ((k, x) # fs)) gs = dto_of (JObj fs) hs"
  by (simp add: dto_of_def)

lemma append_eq: "a = b \<Longrightarrow> c = d \<Longrightarrow> a @ c = b @ d"
  by simp

lemmas same_response = dto_extra append_eq copies_extra [where A = RESPONSE_KEYS] orNulls_extra [where A = RESPONSE_KEYS]
  rel_extra [where A = RESPONSE_KEYS]

lemma response_extra:
  assumes k: "k \<notin> set RESPONSE_KEYS" and f: "f \<in> set (public_mappers actor @ account_mappers url ttl)"
  shows "f (JObj ((k, x) # fs)) = f (JObj fs)"
proof -
  let ?v = "JObj ((k, x) # fs)" and ?w = "JObj fs"
  have in_list: "''worker_count_needed'' \<in> set RESPONSE_KEYS" "''worker_count_filled'' \<in> set RESPONSE_KEYS" "''booking'' \<in> set RESPONSE_KEYS"
    "''id'' \<in> set RESPONSE_KEYS" by code_simp+
  note fx = in_list [THEN field_extra [OF _ k]]
  have flat: "toSkillCategoryDTO ?v = toSkillCategoryDTO ?w" "toWorkerPublicDTO ?v = toWorkerPublicDTO ?w"
    "toCustomerSummaryDTO ?v = toCustomerSummaryDTO ?w" "toPaymentDTO ?v = toPaymentDTO ?w" "toReviewDTO ?v = toReviewDTO ?w"
    "toWorkerAnalyticsDTO ?v = toWorkerAnalyticsDTO ?w" "toWorkerLocationDTO ?v = toWorkerLocationDTO ?w" "toCustomerSelfDTO ?v = toCustomerSelfDTO ?w"
    "toCustomerPublicDTO ?v = toCustomerPublicDTO ?w" "toDispatchWaveDTO ?v = toDispatchWaveDTO ?w" "toChatMessageDTO ?v = toChatMessageDTO ?w"
    "toConversationDTO ?v = toConversationDTO ?w" "toAuthUserDTO ?v = toAuthUserDTO ?w"
    unfolding toSkillCategoryDTO_def toWorkerPublicDTO_def toCustomerSummaryDTO_def toPaymentDTO_def toReviewDTO_def toWorkerAnalyticsDTO_def
      toWorkerLocationDTO_def toCustomerSelfDTO_def toCustomerPublicDTO_def toDispatchWaveDTO_def toChatMessageDTO_def toConversationDTO_def toAuthUserDTO_def
    by (intro same_response k; code_simp)+
  have account: "toWorkerSelfDTO_json ?v = toWorkerSelfDTO_json ?w" "toWorkerAdminDTO_json ?v = toWorkerAdminDTO_json ?w"
    "toWorkerDocumentDTO ?v = toWorkerDocumentDTO ?w" "toWorkerDocumentMetadataDTO ?v = toWorkerDocumentMetadataDTO ?w"
    unfolding toWorkerSelfDTO_json_def toWorkerAdminDTO_json_def toWorkerDocumentDTO_def toWorkerDocumentMetadataDTO_def
    by (intro same_response k; code_simp)+
  have url: "toWorkerDocumentAccessDTO url ttl ?v = toWorkerDocumentAccessDTO url ttl ?w" unfolding toWorkerDocumentAccessDTO_def
    by (intro same_response fx(4) refl k; code_simp)
  have "jfield ?v ''worker_count_needed'' = jfield ?w ''worker_count_needed''" "jfield ?v ''worker_count_filled'' = jfield ?w ''worker_count_filled''"
    by (rule fx)+
  then have count: "(if jfield ?v ''worker_count_filled'' \<noteq> None then [(''remaining_worker_count'', remaining_count ?v)] else []) =
    (if jfield ?w ''worker_count_filled'' \<noteq> None then [(''remaining_worker_count'', remaining_count ?w)] else [])" by (simp add: remaining_count_def)
  have req: "toJobRequirementDTO ?v = toJobRequirementDTO ?w" unfolding toJobRequirementDTO.simps [of ?v] toJobRequirementDTO.simps [of ?w]
    by (intro same_response count k; code_simp)
  have job: "toJobDTO ?v = toJobDTO ?w" unfolding toJobDTO.simps [of ?v] toJobDTO.simps [of ?w]
    by (intro same_response fx(3) k; code_simp)
  have disp: "toDispatchDTO ?v = toDispatchDTO ?w" unfolding toDispatchDTO.simps [of ?v] toDispatchDTO.simps [of ?w]
    by (intro same_response k; code_simp)
  have book: "toBookingDTO actor ?v = toBookingDTO actor ?w" unfolding toBookingDTO_def
    by (intro same_response arg_cong2 [where f = "If (actor_is_worker actor)"] refl k; code_simp)
  from f show ?thesis unfolding public_mappers_def account_mappers_def using flat account url req job disp book by auto
qed

lemma copies_keys: "(k, x) \<in> set (copies v ks) \<Longrightarrow> k \<in> set ks"
  by (auto simp: copies_def split: option.splits)

lemma orNulls_keys: "(k, x) \<in> set (orNulls v ks) \<Longrightarrow> k \<in> set ks"
  by (auto simp: orNulls_def)

lemma rel_keys: "(k', x) \<in> set (rel v k f) \<Longrightarrow> k' = k"
  by (auto simp: rel_def split: option.splits if_splits)

text \<open>A worker sees nothing of the payment of a booking.\<close>

lemma worker_sees_no_payment:
  assumes "actor_is_worker actor"
  shows "jfield (toBookingDTO actor v) ''payment'' = None"
proof (cases "json_truthy v")
  case True
  have "''payment'' \<notin> fst ` set (obj_fields (toBookingDTO actor v))"
    using assms True unfolding toBookingDTO_def dto_of_def set_append image_Un Un_iff
    by (auto dest!: copies_keys orNulls_keys rel_keys)
  then show ?thesis by (simp add: jfield_def map_of_eq_None_iff)
qed (simp add: toBookingDTO_def dto_of_def jfield_def)


text \<open>A booking with its job, its worker and its payment, as a query that selects too much would return it.\<close>

definition sample_booking_row :: json where
  "sample_booking_row = JObj [(''id'', JStr ''b1''), (''otp_hash'', JStr ''h''), (''status'', JStr ''CONFIRMED''),
     (''worker'', JObj [(''id'', JStr ''w1''), (''password'', JStr ''p''), (''aadhaar_last4'', JStr ''1234'')]),
     (''payment'', JObj [(''id'', JStr ''p1''), (''idempotency_key'', JStr ''i'')]),
     (''job'', JObj [(''id'', JStr ''j1''), (''job_requirement'', JArr [JObj [(''id'', JStr ''r1''), (''worker_count_needed'', JInt 3),
        (''worker_count_filled'', JInt 1), (''job_dispatch'', JArr [JObj [(''id'', JStr ''d1''), (''fcm_token'', JStr ''t'')]])]])])]"

definition worker_actor :: "json option" where
  "worker_actor = Some (JObj [(''id'', JStr ''w1''), (''role'', JStr ''WORKER'')])"


text \<open>
  What the booking shows of its own state is what the database holds, and the remaining places of a requirement are computed.
\<close>

lemma sample_response:
  "jfield (the (jfield (toBookingDTO None sample_booking_row) ''worker'')) ''aadhaar_last4'' = None"
  "map_option deep_keys (jfield (toBookingDTO None sample_booking_row) ''payment'') = Some [''id'', ''razorpay_order_id'', ''status'', ''amount'']"
  "toJobRequirementDTO (JObj [(''worker_count_needed'', JInt 3), (''worker_count_filled'', JInt 5)]) =
   JObj [(''worker_count_needed'', JInt 3), (''worker_count_filled'', JInt 5), (''remaining_worker_count'', JInt 0)]"
  by code_simp+

text \<open>No selection asks for a secret column; the mapper for documents is the one that returns the stored location of a file.\<close>

lemma selections_without_secrets:
  "list_all (list_all (\<lambda>k. k \<notin> set SECRET_COLUMNS)) [workerPublicSelect, workerSelfSelect, workerAdminSelect, customerPublicSelect,
     customerSummarySelect, customerSelfSelect, bookingSafeSelect, paymentSafeSelect, reviewSafeSelect]"
  by code_simp

lemma select_columns_keys: "fst ` set (obj_fields (select_columns ks v)) \<subseteq> set ks"
  by (auto simp: select_columns_def)

end
