(* ===== verification/Logging.thy ===== *)
theory Logging
  imports Schema
begin

text \<open>
  Structured logs: \<^verbatim>\<open>src/utils/logger.ts\<close> (the logger and its redaction of secrets), \<^verbatim>\<open>src/utils/requestContext.ts\<close>
  (the ids a request carries) and \<^verbatim>\<open>src/middlewares/requestLogger.ts\<close> (request ids, the redaction of URLs, the line per request).

  A logged value is a JavaScript value: besides JSON there are \<^verbatim>\<open>undefined\<close> and \<^verbatim>\<open>Error\<close> objects, which have own properties.
  The scanners are the regular expressions of the source. The output streams and the clock are left out; the asynchronous
  context is an argument.
\<close>

datatype log_value =
    LNull
  | LUndefined
  | LStr string
  | LNum js_number
  | LBool bool
  | LArr "log_value list"
  | LObj "(string \<times> log_value) list"
  | LError string string string "(string \<times> log_value) list"

section \<open>Secrets in strings\<close>

definition is_alnum_char :: "char \<Rightarrow> bool" where
  "is_alnum_char c = (let n = (of_char (lower_char c) :: nat) in 97 \<le> n \<and> n \<le> 122 \<or> 48 \<le> n \<and> n \<le> 57)"

definition is_token_char :: "char \<Rightarrow> bool" where
  "is_token_char c \<longleftrightarrow> is_alnum_char c \<or> c \<in> set ''-._~+/''"

text \<open>A match of \<^verbatim>\<open>/Bearer\s+[A-Za-z0-9\-._~+/]+=*/i\<close> at the start: what follows it.\<close>

definition match_bearer :: "string \<Rightarrow> string option" where
  "match_bearer s =
     (if startsWith (toLowerCase s) ''bearer'' then
        (let r = drop 6 s; sp = takeWhile is_space r; t = dropWhile is_space r; tok = takeWhile is_token_char t
         in if sp = [] \<or> tok = [] then None else Some (dropWhile (\<lambda>c. c = CHR ''='') (dropWhile is_token_char t)))
      else None)"

lemma match_bearer_shorter: "match_bearer s = Some r \<Longrightarrow> length r < length s"
proof -
  assume m: "match_bearer s = Some r"
  have dl: "length (dropWhile P xs) \<le> length xs" for P and xs :: string by (rule length_dropWhile_le)
  from m have "startsWith (toLowerCase s) ''bearer''" by (simp add: match_bearer_def split: if_splits)
  then have n: "s \<noteq> []" by (auto simp: toLowerCase_def)
  from m have r: "r = dropWhile (\<lambda>c. c = CHR ''='') (dropWhile is_token_char (dropWhile is_space (drop 6 s)))"
    by (auto simp: match_bearer_def Let_def split: if_splits)
  have "length r \<le> length (drop 6 s)" unfolding r by (meson dl le_trans)
  also have "\<dots> < length s" using n by simp
  finally show ?thesis .
qed

lemma match_bearer_Cons [termination_simp]: "match_bearer (c # s) = Some r \<Longrightarrow> length r < Suc (length s)"
  using match_bearer_shorter [of "c # s" r] by simp

fun redact_bearer :: "string \<Rightarrow> string" where
  "redact_bearer [] = []"
| "redact_bearer (c # s) =
     (case match_bearer (c # s) of
        Some r \<Rightarrow> ''Bearer [REDACTED]'' @ redact_bearer r
      | None \<Rightarrow> c # redact_bearer s)"

definition SENSITIVE_QUERY :: "string list" where
  "SENSITIVE_QUERY = [''x-amz-signature='', ''signature='', ''sig='', ''access_token='', ''token='', ''secret='', ''key='']"

text \<open>A match of the query pattern at the start: the kept part, and what follows the value.\<close>

definition match_query :: "string \<Rightarrow> (string \<times> string) option" where
  "match_query s =
     (if s \<noteq> [] \<and> hd s \<in> {CHR ''?'', CHR ''&''} then
        map_option (\<lambda>p. (take (Suc (length p)) s, dropWhile (\<lambda>c. c \<noteq> CHR ''&'') (drop (Suc (length p)) s)))
          (List.find (\<lambda>p. startsWith (toLowerCase (tl s)) p) SENSITIVE_QUERY)
      else None)"

lemma match_query_shorter [termination_simp]: "match_query (c # s) = Some (k, r) \<Longrightarrow> length r < Suc (length s)"
  by (auto simp: match_query_def less_Suc_eq_le split: if_splits intro: order_trans [OF length_dropWhile_le])

fun redact_query :: "string \<Rightarrow> string" where
  "redact_query [] = []"
| "redact_query (c # s) =
     (case match_query (c # s) of
        Some (kept, r) \<Rightarrow> kept @ ''[REDACTED]'' @ redact_query r
      | None \<Rightarrow> c # redact_query s)"

text \<open>The pattern is tried only on strings with a question mark; where nothing matches the replacement is the identity.\<close>

definition redact_string :: "string \<Rightarrow> string" where
  "redact_string s = (let r = redact_bearer s in if CHR ''?'' \<in> set r then redact_query r else r)"

section \<open>Secrets in objects\<close>

definition SENSITIVE_KEYS :: "string list" where
  "SENSITIVE_KEYS = [''password'', ''passwordhash'', ''otp'', ''otphash'', ''token'', ''accesstoken'', ''refreshtoken'', ''authorization'', ''cookie'',
     ''cookies'', ''fcmtoken'', ''devicetoken'', ''secret'', ''razorpaykeysecret'', ''razorpaykeyid'', ''paymentsecret'', ''clientsecret'', ''webhooksecret'',
     ''jwtaccesssecret'', ''jwtrefreshsecret'', ''privatekey'', ''apikey'', ''apikeysecret'', ''signature'', ''x-amz-signature'', ''x-amz-credential'',
     ''x-amz-security-token'', ''sig'', ''cvv'', ''cardnumber'']"

definition SENSITIVE_PARTS :: "string list" where
  "SENSITIVE_PARTS = [''password'', ''otphash'', ''refreshtoken'', ''accesstoken'', ''privatekey'', ''webhooksecret'', ''keysecret'', ''clientsecret'', ''jwtsecret'']"

definition normalizedKey :: "string \<Rightarrow> string" where
  "normalizedKey k = filter is_alnum_char (toLowerCase k)"

definition isSensitive :: "string \<Rightarrow> bool" where
  "isSensitive k \<longleftrightarrow> normalizedKey k \<in> set SENSITIVE_KEYS \<or> list_ex (js_includes (normalizedKey k)) SENSITIVE_PARTS"

definition REDACTED_MASK :: string where
  "REDACTED_MASK = ''[REDACTED]''"

text \<open>The spread of own properties over a literal: a property of the error replaces the field of the same name.\<close>

definition js_assign :: "(string \<times> log_value) list \<Rightarrow> (string \<times> log_value) list \<Rightarrow> (string \<times> log_value) list" where
  "js_assign base own = map (\<lambda>(k, x). (k, case map_of own k of None \<Rightarrow> x | Some y \<Rightarrow> y)) base
     @ filter (\<lambda>(k, x). k \<notin> fst ` set base) own"

fun redactSensitiveData :: "nat \<Rightarrow> log_value \<Rightarrow> log_value" where
  "redactSensitiveData depth (LStr s) = (if depth > 6 then LStr s else LStr (redact_string s))"
| "redactSensitiveData depth (LArr xs) = (if depth > 6 then LArr xs else LArr (map (redactSensitiveData (Suc depth)) xs))"
| "redactSensitiveData depth (LError name msg stack own) =
     (if depth > 6 then LError name msg stack own
      else LObj (js_assign [(''name'', LStr name), (''message'', LStr msg), (''stack'', LStr stack)] own))"
| "redactSensitiveData depth (LObj fs) =
     (if depth > 6 then LObj fs
      else LObj (map (\<lambda>kv. (fst kv, if isSensitive (fst kv) then LStr REDACTED_MASK else redactSensitiveData (Suc depth) (snd kv))) fs))"
| "redactSensitiveData depth v = v"

section \<open>The logger\<close>

datatype LogLevel = LDebug | LInfo | LWarn | LogError | LFatal

fun level_text :: "LogLevel \<Rightarrow> string" where
  "level_text LDebug = ''DEBUG''"
| "level_text LInfo = ''INFO''"
| "level_text LWarn = ''WARN''"
| "level_text LogError = ''ERROR''"
| "level_text LFatal = ''FATAL''"

record RequestContext =
  cx_requestId :: string
  cx_correlationId :: string

definition context_fields :: "RequestContext option \<Rightarrow> (string \<times> log_value) list" where
  "context_fields ctx = (case ctx of None \<Rightarrow> [] | Some c \<Rightarrow>
     (if cx_requestId c \<noteq> [] then [(''requestId'', LStr (cx_requestId c)), (''request_id'', LStr (cx_requestId c))] else [])
     @ (if cx_correlationId c \<noteq> [] then [(''correlationId'', LStr (cx_correlationId c)), (''correlation_id'', LStr (cx_correlationId c))] else []))"

record Logger =
  lg_context :: "(string \<times> log_value) list"
  lg_nodeEnv :: "string option"

definition logger_child :: "(string \<times> log_value) list \<Rightarrow> Logger \<Rightarrow> Logger" where
  "logger_child ctx l = l\<lparr>lg_context := js_assign (lg_context l) ctx\<rparr>"

datatype log_stream = Stdout | Stderr

definition log_entry ::
  "string \<Rightarrow> RequestContext option \<Rightarrow> Logger \<Rightarrow> LogLevel \<Rightarrow> string \<Rightarrow> (string \<times> log_value) list \<Rightarrow> (string \<times> log_value) list" where
  "log_entry now ctx l level msg meta =
     (let mergedMeta = js_assign (js_assign (context_fields ctx) (lg_context l)) meta in
      case redactSensitiveData 0 (LObj mergedMeta) of
        LObj sanitized \<Rightarrow> js_assign [(''timestamp'', LStr now), (''level'', LStr (level_text level)), (''service'', LStr ''labourbaba-backend''),
           (''environment'', LStr (js_or (lg_nodeEnv l) ''development'')), (''message'', LStr msg)] sanitized
      | _ \<Rightarrow> [])"

definition log_write ::
  "string \<Rightarrow> RequestContext option \<Rightarrow> Logger \<Rightarrow> LogLevel \<Rightarrow> string \<Rightarrow> (string \<times> log_value) list \<Rightarrow> log_stream \<times> (string \<times> log_value) list" where
  "log_write now ctx l level msg meta = ((if level = LogError then Stderr else Stdout), log_entry now ctx l level msg meta)"

definition log_debug_enabled :: "string option \<Rightarrow> string option \<Rightarrow> bool" where
  "log_debug_enabled nodeEnv logLevel \<longleftrightarrow> nodeEnv \<noteq> Some ''production'' \<or> logLevel = Some ''debug''"

section \<open>Requests\<close>

definition id_char :: "char \<Rightarrow> bool" where
  "id_char c \<longleftrightarrow> is_alnum_char c \<or> c \<in> set ''-_.@:''"

definition sanitizeId :: "string option \<Rightarrow> string option" where
  "sanitizeId rawId =
     (if \<not> truthy rawId then None
      else let t = trim (the rawId) in if t = [] \<or> length t > 128 \<or> \<not> list_all id_char t then None else Some t)"

definition SENSITIVE_PARAMS :: "string list" where
  "SENSITIVE_PARAMS = [''signature'', ''sig'', ''x-amz-signature'', ''x-amz-credential'', ''x-amz-security-token'', ''token'', ''access_token'',
     ''refreshtoken'', ''refresh_token'', ''secret'', ''key'', ''auth'', ''password'', ''otp'']"

definition sensitive_param :: "string \<Rightarrow> bool" where
  "sensitive_param k \<longleftrightarrow> toLowerCase k \<in> set SENSITIVE_PARAMS
     \<or> list_ex (js_includes (toLowerCase k)) [''signature'', ''secret'', ''token'', ''password'', ''credential'']"

text \<open>\<^verbatim>\<open>searchParams.set\<close>: the first parameter of the name gets the value, the others go.\<close>

definition set_param :: "string \<Rightarrow> string \<Rightarrow> (string \<times> string) list \<Rightarrow> (string \<times> string) list" where
  "set_param k x ps = takeWhile (\<lambda>p. fst p \<noteq> k) ps
     @ (if k \<in> fst ` set ps then (k, x) # filter (\<lambda>p. fst p \<noteq> k) (dropWhile (\<lambda>p. fst p \<noteq> k) ps) else [(k, x)])"

record log_url =
  lu_pathname :: string
  lu_params :: "(string \<times> string) list"

definition redact_params :: "(string \<times> string) list \<Rightarrow> (string \<times> string) list" where
  "redact_params ps = fold (\<lambda>k qs. if sensitive_param k then set_param k REDACTED_MASK qs else qs) (map fst ps) ps"

text \<open>The parser is a parameter; without a URL the part before the question mark is logged.\<close>

definition sanitizeUrlForLogging :: "(string \<Rightarrow> log_url option) \<Rightarrow> ((string \<times> string) list \<Rightarrow> string) \<Rightarrow> string \<Rightarrow> string" where
  "sanitizeUrlForLogging parse search rawUrl =
     (case parse rawUrl of
        None \<Rightarrow> takeWhile (\<lambda>c. c \<noteq> CHR ''?'') rawUrl
      | Some u \<Rightarrow> lu_pathname u @ search (redact_params (lu_params u)))"

definition request_ids :: "(unit \<Rightarrow> string) \<Rightarrow> string option \<Rightarrow> string option \<Rightarrow> RequestContext" where
  "request_ids uuid xRequestId xCorrelationId =
     (let requestId = js_or (sanitizeId xRequestId) (uuid ())
      in \<lparr>cx_requestId = requestId, cx_correlationId = js_or (sanitizeId xCorrelationId) requestId\<rparr>)"

definition response_level :: "int \<Rightarrow> LogLevel" where
  "response_level code = (if code \<ge> 500 then LogError else if code \<ge> 400 then LWarn else LInfo)"

section \<open>What is masked\<close>

text \<open>A value whose sensitive fields are masked down to a number of levels.\<close>

fun masked :: "nat \<Rightarrow> log_value \<Rightarrow> bool" where
  "masked 0 v = True"
| "masked (Suc n) (LArr xs) = list_all (masked n) xs"
| "masked (Suc n) (LObj fs) = list_all (\<lambda>kv. if isSensitive (fst kv) then snd kv = LStr REDACTED_MASK else masked n (snd kv)) fs"
| "masked (Suc n) v = True"

fun errors_within :: "nat \<Rightarrow> log_value \<Rightarrow> bool" where
  "errors_within 0 v = False"
| "errors_within (Suc n) (LArr xs) = list_ex (errors_within n) xs"
| "errors_within (Suc n) (LObj fs) = list_ex (\<lambda>kv. \<not> isSensitive (fst kv) \<and> errors_within n (snd kv)) fs"
| "errors_within (Suc n) (LError _ _ _ _) = True"
| "errors_within (Suc n) v = False"

lemma masked_leaf: "(\<And>xs. v \<noteq> LArr xs) \<Longrightarrow> (\<And>fs. v \<noteq> LObj fs) \<Longrightarrow> masked n v"
  by (cases "(n, v)" rule: masked.cases) simp_all

lemma redact_masked: "\<not> errors_within n v \<Longrightarrow> n + depth = 7 \<Longrightarrow> masked n (redactSensitiveData depth v)"
proof (induction depth v arbitrary: n rule: redactSensitiveData.induct)
  case (2 depth xs)
  then show ?case by (cases n) (auto simp: list_all_iff list_ex_iff)
next
  case (4 depth fs)
  show ?case
  proof (cases n)
    case (Suc m)
    have "masked m (redactSensitiveData (Suc depth) (snd kv))" if "kv \<in> set fs" "\<not> isSensitive (fst kv)" for kv
    proof (rule "4.IH" [OF _ that])
      show "\<not> 6 < depth" "m + Suc depth = 7" using "4.prems" Suc by simp_all
      show "\<not> errors_within m (snd kv)" using "4.prems" that by (auto simp: Suc list_ex_iff)
    qed
    then show ?thesis using Suc "4.prems" by (auto simp: list_all_iff)
  qed simp
next
  case (1 depth s)
  then show ?case by (cases n) simp_all
next
  case (3 depth name msg stack own)
  then show ?case by (cases n) simp_all
qed (rule masked_leaf; simp)+

text \<open>Redaction keeps the shape of an object: its keys, and every field that is a number, a truth value or absent.\<close>

lemma redact_keeps_keys:
  assumes "depth \<le> 6"
  shows "redactSensitiveData depth (LObj fs) = LObj gs \<Longrightarrow> map fst gs = map fst fs"
  using assms by (auto simp: comp_def)

lemma assign_lookup:
  "map_of (js_assign base own) k = (case map_of own k of None \<Rightarrow> map_of base k | Some y \<Rightarrow> Some y)"
proof -
  have b: "map_of (map (\<lambda>(k, x). (k, case map_of own k of None \<Rightarrow> x | Some y \<Rightarrow> y)) base) k =
    map_option (\<lambda>x. case map_of own k of None \<Rightarrow> x | Some y \<Rightarrow> y) (map_of base k)" by (induction base) (auto split: option.splits)
  have f: "map_of (filter (\<lambda>(k, x). k \<notin> B) own) k = (if k \<in> B then None else map_of own k)" for B
    by (induction own) auto
  show ?thesis
  proof (cases "map_of base k")
    case None
    then have "k \<notin> fst ` set base" by (simp add: map_of_eq_None_iff)
    with None show ?thesis unfolding js_assign_def map_add_Some_iff map_of_append
      by (simp add: map_add_def b f split: option.splits)
  next
    case (Some x)
    then have "k \<in> fst ` set base" by (metis domI dom_map_of_conv_image_fst)
    with Some show ?thesis unfolding js_assign_def map_of_append by (simp add: map_add_def b f split: option.splits)
  qed
qed

lemma map_of_redacted:
  "map_of (map (\<lambda>kv. (fst kv, if isSensitive (fst kv) then c else g (snd kv))) fs) k =
   map_option (\<lambda>x. if isSensitive k then c else g x) (map_of fs k)"
  by (induction fs) auto

text \<open>The fields of a line: the five of the logger, and the redacted metadata, which win over them.\<close>

lemma entry_lookup:
  "map_of (log_entry now ctx l level msg meta) k =
   (case map_of (js_assign (js_assign (context_fields ctx) (lg_context l)) meta) k of
      Some x \<Rightarrow> Some (if isSensitive k then LStr REDACTED_MASK else redactSensitiveData 1 x)
    | None \<Rightarrow> map_of [(''timestamp'', LStr now), (''level'', LStr (level_text level)), (''service'', LStr ''labourbaba-backend''),
         (''environment'', LStr (js_or (lg_nodeEnv l) ''development'')), (''message'', LStr msg)] k)"
  by (auto simp: log_entry_def Let_def assign_lookup map_of_redacted split: option.splits)


definition sample_logger :: Logger where
  "sample_logger = \<lparr>lg_context = [(''route'', LStr ''/login'')], lg_nodeEnv = Some ''production''\<rparr>"

definition sample_meta :: "(string \<times> log_value) list" where
  "sample_meta = [(''body'', LObj [(''phone'', LStr ''+91''), (''Pass-Word'', LStr ''hunter2''), (''list'', LArr [LObj [(''otp_hash'', LStr ''h'')]])])]"


section \<open>Limits of the redaction\<close>

text \<open>The entries with hyphens never match, because the normalised key has none.\<close>

lemma hyphen_keys_dead: "normalizedKey k \<notin> {''x-amz-signature'', ''x-amz-credential'', ''x-amz-security-token''}"
proof -
  have "CHR ''-'' \<notin> set (normalizedKey k)" by (auto simp: normalizedKey_def is_alnum_char_def lower_char_def Let_def)
  then show ?thesis by auto
qed

lemma amz_credential_logged: "\<not> isSensitive ''X-Amz-Credential'' \<and> \<not> isSensitive ''x-amz-security-token''"
  by code_simp

text \<open>An error object is copied with its own properties as they are; a value below seven levels is not looked at.\<close>

lemma error_properties_logged:
  "redactSensitiveData 1 (LError ''E'' ''m'' ''s'' [(''password'', LStr ''p'')]) =
   LObj [(''name'', LStr ''E''), (''message'', LStr ''m''), (''stack'', LStr ''s''), (''password'', LStr ''p'')]"
  "redactSensitiveData 7 (LObj [(''password'', LStr ''p'')]) = LObj [(''password'', LStr ''p'')]"
  by code_simp+

text \<open>The message itself is not redacted, the metadata can replace the fields of the logger, and a fatal line goes to the standard output.\<close>

lemma message_not_redacted:
  "map_of (log_entry ''now'' None sample_logger LInfo ''Bearer abc'' []) ''message'' = Some (LStr ''Bearer abc'')"
  "map_of (log_entry ''now'' None sample_logger LogError ''m'' [(''level'', LStr ''INFO'')]) ''level'' = Some (LStr ''INFO'')"
  "fst (log_write ''now'' None sample_logger LFatal ''m'' []) = Stdout"
  by code_simp+

lemma sample_strings:
  "redact_string ''auth: bearer  abc.def== rest'' = ''auth: Bearer [REDACTED] rest''"
  "redact_string ''/f?sig=1&x=2&Token=3'' = ''/f?sig=[REDACTED]&x=2&Token=[REDACTED]''"
  by code_simp+

text \<open>The logged URL: no sensitive parameter keeps its value.\<close>

lemma set_param_values: "p \<in> set (set_param k x ps) \<Longrightarrow> fst p = k \<and> snd p = x \<or> fst p \<noteq> k \<and> p \<in> set ps"
  by (auto simp: set_param_def split: if_splits dest: set_takeWhileD set_dropWhileD)

lemma params_masked_fold:
  "(\<forall>p \<in> set qs. sensitive_param (fst p) \<longrightarrow> snd p = REDACTED_MASK \<or> fst p \<in> set ks) \<Longrightarrow>
   p \<in> set (fold (\<lambda>k qs. if sensitive_param k then set_param k REDACTED_MASK qs else qs) ks qs) \<Longrightarrow> sensitive_param (fst p) \<Longrightarrow> snd p = REDACTED_MASK"
proof (induction ks arbitrary: qs)
  case (Cons k ks)
  show ?case
  proof (rule Cons.IH)
    show "p \<in> set (fold (\<lambda>k qs. if sensitive_param k then set_param k REDACTED_MASK qs else qs) ks (if sensitive_param k then set_param k REDACTED_MASK qs else qs))"
      using Cons.prems(2) by simp
    show "\<forall>p \<in> set (if sensitive_param k then set_param k REDACTED_MASK qs else qs). sensitive_param (fst p) \<longrightarrow> snd p = REDACTED_MASK \<or> fst p \<in> set ks"
      using Cons.prems(1) by (auto dest!: set_param_values)
  qed (rule Cons.prems(3))
qed auto

lemma params_masked: "p \<in> set (redact_params ps) \<Longrightarrow> sensitive_param (fst p) \<Longrightarrow> snd p = REDACTED_MASK"
  unfolding redact_params_def by (rule params_masked_fold [of ps "map fst ps"]) auto

end
