(* ===== verification/Http_Api.thy ===== *)
theory Http_Api
  imports Sockets Payments Reviews_Chat Http_Guards
begin

text \<open>
  The HTTP interface of the marketplace, the payments and the reviews: the middleware chain of every route
  (\<^verbatim>\<open>src/features/*/*Routes.ts\<close>), the schema middlewares (\<^verbatim>\<open>src/middlewares/validationMiddleware.ts\<close>), the controllers
  (\<^verbatim>\<open>bookingController.ts\<close>, \<^verbatim>\<open>dispatchController.ts\<close>, \<^verbatim>\<open>jobController.ts\<close>, \<^verbatim>\<open>paymentController.ts\<close>,
  \<^verbatim>\<open>reviewController.ts\<close>) and how each turns an exception into a status. A request runs through the chain of its
  route, with the counters of Redis, and then through its controller and the service behind it.

  The parameters and the body of a request are given parsed, with what the schema library said of them; the
  payment provider, the clock and fresh ids are arguments. A response is its status and the rows it carries;
  their projection to response objects is the subject of \<open>Responses\<close>.
\<close>

section \<open>Exceptions as statuses\<close>

text \<open>The codes and messages that a controller compares. Messages that no controller looks at are \<open>None\<close>.\<close>

fun error_code :: "error \<Rightarrow> string option" where
  "error_code (AuthorizationError _ c) = Some c"
| "error_code (DispatchAcceptanceError c _) = Some c"
| "error_code (PaymentError c _) = Some c"
| "error_code (ReviewError c _) = Some c"
| "error_code (CodedError c) = Some c"
| "error_code JobNotFoundError = Some ''JOB_NOT_FOUND''"
| "error_code (JobInvalidTransitionError _ _) = Some ''JOB_INVALID_TRANSITION''"
| "error_code JobStateConflictError = Some ''JOB_STATE_CONFLICT''"
| "error_code JobAuthorizationError = Some ''JOB_FORBIDDEN''"
| "error_code RequirementNotFoundError = Some ''REQUIREMENT_NOT_FOUND''"
| "error_code (RequirementInvalidTransitionError _ _) = Some ''REQUIREMENT_INVALID_TRANSITION''"
| "error_code RequirementCapacityExceededError = Some ''REQUIREMENT_CAPACITY_EXCEEDED''"
| "error_code RequirementInvalidWorkerCountError = Some ''REQUIREMENT_WORKER_COUNT_INVALID''"
| "error_code RequirementAuthorizationError = Some ''REQUIREMENT_FORBIDDEN''"
| "error_code BookingNotFoundError = Some ''BOOKING_NOT_FOUND''"
| "error_code (BookingInvalidTransitionError _ _) = Some ''BOOKING_INVALID_TRANSITION''"
| "error_code BookingStateConflictError = Some ''BOOKING_STATE_CONFLICT''"
| "error_code BookingAuthorizationError = Some ''BOOKING_FORBIDDEN''"
| "error_code BookingOtpInvalidError = Some ''OTP_INVALID''"
| "error_code BookingOtpExpiredError = Some ''OTP_EXPIRED''"
| "error_code BookingOtpLockedError = Some ''OTP_LOCKED''"
| "error_code BookingOtpAlreadyConsumedError = Some ''OTP_ALREADY_USED''"
| "error_code BookingOtpWrongStateError = Some ''OTP_WRONG_STATE''"
| "error_code (PrismaUniqueViolation _) = Some ''P2002''"
| "error_code PrismaRecordNotFound = Some ''P2025''"
| "error_code PrismaConflict = Some ''P2034''"
| "error_code _ = None"

fun error_message :: "error \<Rightarrow> string option" where
  "error_message (PlainError m) = Some m"
| "error_message (StatusError _ m) = Some m"
| "error_message _ = None"

fun booking_state_error :: "error \<Rightarrow> bool" where
  "booking_state_error BookingNotFoundError = True"
| "booking_state_error (BookingInvalidTransitionError _ _) = True"
| "booking_state_error BookingStateConflictError = True"
| "booking_state_error BookingAuthorizationError = True"
| "booking_state_error BookingOtpInvalidError = True"
| "booking_state_error BookingOtpExpiredError = True"
| "booking_state_error BookingOtpLockedError = True"
| "booking_state_error BookingOtpAlreadyConsumedError = True"
| "booking_state_error BookingOtpWrongStateError = True"
| "booking_state_error _ = False"

fun policy_error :: "error \<Rightarrow> bool" where
  "policy_error (AuthorizationError _ _) = True"
| "policy_error _ = False"

fun input_error :: "error \<Rightarrow> bool" where
  "input_error (JobInvalidTransitionError _ _) = True"
| "input_error RequirementInvalidWorkerCountError = True"
| "input_error (RequirementInvalidTransitionError _ _) = True"
| "input_error _ = False"

text \<open>\<^verbatim>\<open>error.message?.includes(s)\<close>\<close>

definition message_includes :: "string \<Rightarrow> error \<Rightarrow> bool" where
  "message_includes s e = (case error_message e of None \<Rightarrow> False | Some m \<Rightarrow> js_includes m s)"

text \<open>\<^verbatim>\<open>error.statusCode || n\<close>\<close>

definition status_or :: "error \<Rightarrow> int \<Rightarrow> int" where
  "status_or e n = (case statusCode e of None \<Rightarrow> n | Some s \<Rightarrow> if s = 0 then n else s)"

definition handleBookingError :: "error \<Rightarrow> int" where
  "handleBookingError e =
     (if booking_state_error e then status_or e 0
      else if policy_error e then status_or e 0
      else if statusCode e = Some 403 \<or> error_code e = Some ''FORBIDDEN'' \<or> message_includes ''Forbidden'' e
           \<or> error_message e = Some ''Unauthorized'' then 403
      else if error_message e = Some ''Booking not found'' \<or> statusCode e = Some 404 then 404
      else if status_or e 400 < 500 then status_or e 400
      else 500)"

definition dispatch_code_status :: "string \<Rightarrow> int option" where
  "dispatch_code_status c = map_of [(''REQUIREMENT_NOT_FOUND'', 404), (''NO_VALID_DISPATCH'', 404), (''DISPATCH_EXPIRED'', 410),
     (''DISPATCH_ALREADY_ACCEPTED'', 409), (''SLOTS_FULL'', 409), (''BOOKING_ALREADY_EXISTS'', 409),
     (''REQUIREMENT_CANCELLED'', 409), (''REQUIREMENT_NOT_ACTIVE'', 409)] c"

definition dispatch_message_status :: "string \<Rightarrow> int option" where
  "dispatch_message_status m = map_of [(''SLOTS_FULL'', 409), (''REQUIREMENT_NOT_FOUND'', 404), (''NO_VALID_DISPATCH'', 404),
     (''DISPATCH_EXPIRED'', 410), (''DISPATCH_ALREADY_ACCEPTED'', 409), (''BOOKING_ALREADY_EXISTS'', 409),
     (''Requirement not found'', 404)] m"

definition handleDispatchControllerError :: "error \<Rightarrow> int" where
  "handleDispatchControllerError e =
     (let s = status_or e (case Option.bind (error_code e) dispatch_code_status of Some s \<Rightarrow> s
            | None \<Rightarrow> (case Option.bind (error_message e) dispatch_message_status of Some s \<Rightarrow> s | None \<Rightarrow> 500))
      in if s < 500 then s else 500)"

definition handleJobError :: "error \<Rightarrow> int" where
  "handleJobError e =
     (if policy_error e \<or> e = JobAuthorizationError \<or> e = RequirementAuthorizationError then status_or e 403
      else if e = JobNotFoundError \<or> e = RequirementNotFoundError \<or> error_message e = Some ''Job not found''
           \<or> error_message e = Some ''Requirement not found'' then 404
      else if e = JobStateConflictError \<or> e = RequirementCapacityExceededError then 409
      else if input_error e then 400
      else case statusCode e of Some s \<Rightarrow> if 400 \<le> s \<and> s < 500 then s else 500 | None \<Rightarrow> 500)"

text \<open>The handler around \<^verbatim>\<open>cancelJob\<close> looks at the message first.\<close>

definition handleCancelJobError :: "error \<Rightarrow> int" where
  "handleCancelJobError e = (if message_includes ''Forbidden'' e \<or> error_message e = Some ''Unauthorized'' then 403 else handleJobError e)"

fun handlePaymentError :: "error \<Rightarrow> int" where
  "handlePaymentError (AuthorizationError s _) = s"
| "handlePaymentError (PaymentError _ s) = s"
| "handlePaymentError (ProviderError s) = s"
| "handlePaymentError _ = 500"

fun handleReviewError :: "error \<Rightarrow> int" where
  "handleReviewError (AuthorizationError s _) = s"
| "handleReviewError (ReviewError _ s) = s"
| "handleReviewError _ = 500"

section \<open>Routes\<close>

text \<open>What the schema library answers: the value passes, it has issues, or parsing breaks otherwise.\<close>

datatype schema_answer = Parsed | ZodIssues | SchemaFailure

definition validateParams :: "schema_answer \<Rightarrow> int + unit" where
  "validateParams p = (case p of Parsed \<Rightarrow> Inr () | ZodIssues \<Rightarrow> Inl 400 | SchemaFailure \<Rightarrow> Inl 500)"

definition validateBody :: "schema_answer \<Rightarrow> int + unit" where
  "validateBody b = (case b of Parsed \<Rightarrow> Inr () | ZodIssues \<Rightarrow> Inl 400 | SchemaFailure \<Rightarrow> Inl 500)"

text \<open>The endpoints, with the parameters and the body that their controllers read.\<close>

datatype endpoint =
    GetBooking uuid
  | PostOtpVerify uuid string
  | PostComplete uuid
  | PostConfirmComplete uuid confirm_payload
  | PostCancelBooking uuid "string option"
  | GetLocation uuid
  | GetBookingPayment uuid
  | GetIncoming
  | PostAccept uuid
  | PostDecline uuid
  | GetRequirementWaves uuid
  | GetDispatch uuid
  | PostJob create_job_req
  | GetMyJobs
  | GetJob uuid
  | PatchCancelJob uuid
  | GetRequirements uuid
  | GetRequirement uuid uuid
  | PostRequirement uuid requirement_req "js_number option"
  | PatchDemand uuid uuid js_number
  | GetBookingsOfJob uuid
  | PostWebhook
  | PostCreateOrder uuid
  | GetPayment uuid
  | PostRefund uuid "int option" "string option"
  | PostReview uuid CreateReviewReq
  | GetReviewsOfWorker uuid
  | GetReviewOfBooking uuid

datatype middleware =
    AuthenticateJWT
  | RequireRole "UserRole list"
  | RateLimiter RateLimitOptions
  | OtpRequestLimiter
  | OtpVerifyLimiter
  | ValidateParams
  | ValidateBody

text \<open>The routers: the middlewares in front of each controller, in their order.\<close>

fun bookingRoutes :: "endpoint \<Rightarrow> middleware list option" where
  "bookingRoutes (GetBooking _) = Some [AuthenticateJWT, ValidateParams]"
| "bookingRoutes (PostOtpVerify _ _) = Some [AuthenticateJWT, ValidateParams, ValidateBody]"
| "bookingRoutes (PostComplete _) = Some [AuthenticateJWT, ValidateParams]"
| "bookingRoutes (PostConfirmComplete _ _) = Some [AuthenticateJWT, ValidateParams, ValidateBody]"
| "bookingRoutes (PostCancelBooking _ _) = Some [AuthenticateJWT, ValidateParams, ValidateBody]"
| "bookingRoutes (GetLocation _) = Some [AuthenticateJWT, ValidateParams]"
| "bookingRoutes (GetBookingPayment _) = Some [AuthenticateJWT, RequireRole [CUSTOMER, ADMIN], ValidateParams]"
| "bookingRoutes _ = None"

fun dispatchRoutes :: "endpoint \<Rightarrow> middleware list option" where
  "dispatchRoutes GetIncoming = Some [AuthenticateJWT, RequireRole [WORKER]]"
| "dispatchRoutes (PostAccept _) = Some [AuthenticateJWT, RequireRole [WORKER], RateLimiter dispatchActionRateLimiter, ValidateParams]"
| "dispatchRoutes (PostDecline _) = Some [AuthenticateJWT, RequireRole [WORKER], RateLimiter dispatchActionRateLimiter, ValidateParams]"
| "dispatchRoutes (GetRequirementWaves _) = Some [AuthenticateJWT, ValidateParams]"
| "dispatchRoutes (GetDispatch _) = Some [AuthenticateJWT, RequireRole [WORKER], ValidateParams]"
| "dispatchRoutes _ = None"

fun jobRoutes :: "endpoint \<Rightarrow> middleware list option" where
  "jobRoutes (PostJob _) = Some [AuthenticateJWT, RequireRole [CUSTOMER], ValidateBody]"
| "jobRoutes GetMyJobs = Some [AuthenticateJWT, RequireRole [CUSTOMER]]"
| "jobRoutes (GetJob _) = Some [AuthenticateJWT, ValidateParams]"
| "jobRoutes (PatchCancelJob _) = Some [AuthenticateJWT, RequireRole [CUSTOMER], ValidateParams]"
| "jobRoutes (GetRequirements _) = Some [AuthenticateJWT, ValidateParams]"
| "jobRoutes (GetRequirement _ _) = Some [AuthenticateJWT, ValidateParams]"
| "jobRoutes (PostRequirement _ _ _) = Some [AuthenticateJWT, RequireRole [CUSTOMER], ValidateParams, ValidateBody]"
| "jobRoutes (PatchDemand _ _ _) = Some [AuthenticateJWT, RequireRole [CUSTOMER], ValidateParams, ValidateBody]"
| "jobRoutes (GetBookingsOfJob _) = Some [AuthenticateJWT, ValidateParams]"
| "jobRoutes _ = None"

fun paymentRoutes :: "endpoint \<Rightarrow> middleware list option" where
  "paymentRoutes PostWebhook = Some []"
| "paymentRoutes (PostCreateOrder _) =
     Some [AuthenticateJWT, RequireRole [CUSTOMER], RateLimiter paymentOrderRateLimiter, ValidateParams, ValidateBody]"
| "paymentRoutes (GetPayment _) = Some [AuthenticateJWT, RequireRole [CUSTOMER, ADMIN], ValidateParams]"
| "paymentRoutes (PostRefund _ _ _) =
     Some [AuthenticateJWT, RequireRole [CUSTOMER, ADMIN], RateLimiter paymentRefundRateLimiter, ValidateParams]"
| "paymentRoutes _ = None"

fun reviewRoutes :: "endpoint \<Rightarrow> middleware list option" where
  "reviewRoutes (PostReview _ _) = Some [AuthenticateJWT, RequireRole [CUSTOMER], ValidateBody]"
| "reviewRoutes (GetReviewsOfWorker _) = Some [AuthenticateJWT]"
| "reviewRoutes (GetReviewOfBooking _) = Some [AuthenticateJWT]"
| "reviewRoutes _ = None"

text \<open>The application tries the routers in the order it mounts them.\<close>

definition route_chain :: "endpoint \<Rightarrow> middleware list" where
  "route_chain e = hd (List.map_filter (\<lambda>router. router e) [jobRoutes, dispatchRoutes, bookingRoutes, paymentRoutes, reviewRoutes])"

section \<open>Requests and their environment\<close>

datatype header_value = NoHeader | OneHeader string | ManyHeaders "string list"

record 'e http_req =
  hr_endpoint :: 'e
  hr_authorization :: "string option"
  hr_wire :: http_request
  hr_params :: schema_answer
  hr_body :: schema_answer
  hr_names_worker :: bool
  hr_signature :: header_value
  hr_rawBody :: "string option"

record http_env =
  he_now :: timestamp
  he_dbUp :: bool
  he_redisUp :: "string \<Rightarrow> bool"
  he_hash :: "string \<Rightarrow> string"
  he_limiter :: limiter_env
  he_otpRequestLimits :: otp_limits
  he_otpVerifyLimits :: otp_limits
  he_jwtVerify :: jwt_verify
  he_jwtConfig :: "error + JwtConfig"
  he_world :: world
  he_draw :: accept_input
  he_fresh :: uuid
  he_geo :: "uuid \<Rightarrow> (rat \<times> rat) option"
  he_stored :: "uuid \<Rightarrow> (rat \<times> rat) option"
  he_payment :: PaymentConfig
  he_order :: "uuid \<Rightarrow> sdk_order"
  he_fetched :: sdk_payment
  he_refund :: sdk_refund
  he_hmac :: "string \<Rightarrow> string \<Rightarrow> string"
  he_parse :: "string \<Rightarrow> webhook_body option"
  he_secret :: "string option"
  he_ids :: webhook_ids
  he_reviewFailure :: "db_error option"

text \<open>A limiter sees the request with the principal, if one is known by then, and passes it on or answers.\<close>

definition limited ::
  "(http_request \<Rightarrow> redis \<Rightarrow> guard_result \<times> redis) \<Rightarrow> 'e http_req \<Rightarrow> AuthenticatedUser option \<Rightarrow> redis \<Rightarrow> (int + AuthenticatedUser option) \<times> redis" where
  "limited guard q user r =
     (case guard ((hr_wire q)\<lparr>hq_user_id := map_option au_id user, hq_worker_id := None\<rparr>) r of
        (Pass, r') \<Rightarrow> (Inr user, r')
      | (Reject s _ _, r') \<Rightarrow> (Inl s, r'))"

text \<open>One middleware: a status that ends the request, or the principal that the next one sees.\<close>

definition middleware_step ::
  "'x http_env_scheme \<Rightarrow> 'e http_req \<Rightarrow> db \<Rightarrow> middleware \<Rightarrow> AuthenticatedUser option \<Rightarrow> redis \<Rightarrow> (int + AuthenticatedUser option) \<times> redis" where
  "middleware_step E q d m user r =
     (case m of
        AuthenticateJWT \<Rightarrow>
          ((case authenticateJWT (he_dbUp E) (he_jwtVerify E) (he_jwtConfig E) (hr_authorization q) d of
              Inl (s, _) \<Rightarrow> Inl s | Inr u \<Rightarrow> Inr (Some u)), r)
      | RequireRole roles \<Rightarrow> ((case requireRole roles user of Inl (s, _) \<Rightarrow> Inl s | Inr _ \<Rightarrow> Inr user), r)
      | RateLimiter opts \<Rightarrow> limited (createRateLimiter (he_hash E) opts (he_redisUp E) (he_now E)) q user r
      | OtpRequestLimiter \<Rightarrow> limited (otpRequestRateLimiter (he_limiter E) (he_otpRequestLimits E) (he_redisUp E) (he_now E)) q user r
      | OtpVerifyLimiter \<Rightarrow> limited (otpVerifyRateLimiter (he_limiter E) (he_otpVerifyLimits E) (he_redisUp E) (he_now E)) q user r
      | ValidateParams \<Rightarrow> ((case validateParams (hr_params q) of Inl s \<Rightarrow> Inl s | Inr _ \<Rightarrow> Inr user), r)
      | ValidateBody \<Rightarrow> ((case validateBody (hr_body q) of Inl s \<Rightarrow> Inl s | Inr _ \<Rightarrow> Inr user), r))"

fun run_chain ::
  "'x http_env_scheme \<Rightarrow> 'e http_req \<Rightarrow> db \<Rightarrow> middleware list \<Rightarrow> AuthenticatedUser option \<Rightarrow> redis \<Rightarrow> (int + AuthenticatedUser option) \<times> redis" where
  "run_chain E q d [] user r = (Inr user, r)"
| "run_chain E q d (m # ms) user r =
     (case middleware_step E q d m user r of
        (Inl s, r') \<Rightarrow> (Inl s, r')
      | (Inr user', r') \<Rightarrow> run_chain E q d ms user' r')"

section \<open>Controllers\<close>

text \<open>The rows a response carries.\<close>

datatype http_data =
    NoData
  | BookingData booking
  | BookingsData "booking list"
  | LocationData "(rat \<times> rat) option"
  | DispatchesData "job_dispatch list"
  | WavesData "dispatch_wave list" "job_dispatch list"
  | JobsData "job list"
  | RequirementsData "job_requirement list"
  | CapacityData job_requirement RequirementCapacity
  | OrderData PaymentOrderResponse
  | PaymentData payment
  | RefundData refund_result
  | WebhookData webhook_outcome
  | ReviewsData "review list"

type_synonym http_answer = "int \<times> http_data"

text \<open>The shape of every controller: the answer of the service, or the status of its exception.\<close>

definition respond :: "(error \<Rightarrow> int) \<Rightarrow> int \<Rightarrow> ('a \<Rightarrow> http_data) \<Rightarrow> error + 'a \<Rightarrow> http_answer" where
  "respond handle ok data r = (case r of Inl e \<Rightarrow> (handle e, NoData) | Inr x \<Rightarrow> (ok, data x))"

definition respond_db :: "(error \<Rightarrow> int) \<Rightarrow> int \<Rightarrow> ('a \<Rightarrow> http_data) \<Rightarrow> (error + 'a) \<times> db \<Rightarrow> http_answer \<times> db" where
  "respond_db handle ok data r = (respond handle ok data (fst r), snd r)"

text \<open>\<^verbatim>\<open>!actor?.id\<close>\<close>

definition no_id :: "AuthenticatedUser option \<Rightarrow> bool" where
  "no_id actor \<longleftrightarrow> \<not> truthy (map_option au_id actor)"

abbreviation answer_only :: "int \<Rightarrow> db \<Rightarrow> http_answer \<times> db" where
  "answer_only s d \<equiv> ((s, NoData), d)"

subsection \<open>Bookings\<close>

definition getBooking :: "uuid \<Rightarrow> AuthenticatedUser option \<Rightarrow> db \<Rightarrow> http_answer" where
  "getBooking bookingId actor d =
     (if actor = None then (401, NoData) else respond handleBookingError 200 BookingData (getBookingDetail bookingId actor d))"

definition verifyOtp_handler :: "http_env \<Rightarrow> uuid \<Rightarrow> string \<Rightarrow> AuthenticatedUser option \<Rightarrow> db \<Rightarrow> http_answer \<times> db" where
  "verifyOtp_handler E bookingId otp actor d =
     (if no_id actor then answer_only 401 d
      else respond_db handleBookingError 200 (\<lambda>_. NoData)
        (verifyOtp (wo_comparePassword (he_world E)) (wo_maxAttempts (he_world E)) (he_now E) bookingId (au_id (the actor)) otp actor d))"

definition completeBooking_handler :: "http_env \<Rightarrow> uuid \<Rightarrow> AuthenticatedUser option \<Rightarrow> db \<Rightarrow> http_answer \<times> db" where
  "completeBooking_handler E bookingId actor d =
     (if no_id actor then answer_only 401 d
      else respond_db handleBookingError 200 (\<lambda>_. NoData) (run_tx (completeBooking (he_now E) bookingId (au_id (the actor)) actor) d))"

definition confirmComplete_handler :: "http_env \<Rightarrow> uuid \<Rightarrow> confirm_payload \<Rightarrow> AuthenticatedUser option \<Rightarrow> db \<Rightarrow> http_answer \<times> db" where
  "confirmComplete_handler E bookingId payload actor d =
     (if no_id actor then answer_only 401 d
      else respond_db handleBookingError 200 (\<lambda>_. NoData)
        (run_tx (confirmComplete (he_fresh E) (he_now E) bookingId (au_id (the actor)) payload actor) d))"

definition cancelBooking_handler :: "http_env \<Rightarrow> uuid \<Rightarrow> string option \<Rightarrow> AuthenticatedUser option \<Rightarrow> db \<Rightarrow> http_answer \<times> db" where
  "cancelBooking_handler E bookingId reason actor d =
     (if no_id actor then answer_only 401 d
      else respond_db handleBookingError 200 BookingData
        (run_tx (cancelBooking (he_fresh E) (he_now E) bookingId (au_id (the actor)) reason actor) d))"

definition getWorkerLocation_handler :: "http_env \<Rightarrow> uuid \<Rightarrow> AuthenticatedUser option \<Rightarrow> db \<Rightarrow> http_answer" where
  "getWorkerLocation_handler E bookingId actor d =
     (if actor = None then (401, NoData)
      else respond handleBookingError 200 LocationData (getWorkerLocation (he_geo E) (he_stored E) bookingId actor d))"

subsection \<open>Dispatch\<close>

definition getWorkerId :: "AuthenticatedUser option \<Rightarrow> uuid option" where
  "getWorkerId user =
     (case user of None \<Rightarrow> None
      | Some u \<Rightarrow> if au_role u \<noteq> WORKER then None else if au_id u = [] then None else Some (au_id u))"

definition getIncoming_handler :: "AuthenticatedUser option \<Rightarrow> db \<Rightarrow> http_answer" where
  "getIncoming_handler user d =
     (case getWorkerId user of None \<Rightarrow> (401, NoData)
      | Some workerId \<Rightarrow> (200, DispatchesData (getIncomingDispatches workerId d)))"

definition acceptJob :: "http_env \<Rightarrow> bool \<Rightarrow> uuid \<Rightarrow> AuthenticatedUser option \<Rightarrow> db \<Rightarrow> http_answer \<times> db" where
  "acceptJob E namesWorker requirementId user d =
     (case user of None \<Rightarrow> answer_only 401 d
      | Some u \<Rightarrow>
          if au_role u \<noteq> WORKER then answer_only 403 d
          else if namesWorker then answer_only 400 d
          else if requirementId = [] then answer_only 400 d
          else respond_db handleDispatchControllerError 200 (\<lambda>r. BookingData (ar_booking r))
            (acceptDispatch ((he_draw E)\<lparr>ai_requirement := requirementId, ai_worker := au_id u, ai_now := he_now E\<rparr>) d))"

definition declineJob :: "http_env \<Rightarrow> bool \<Rightarrow> uuid \<Rightarrow> AuthenticatedUser option \<Rightarrow> db \<Rightarrow> http_answer \<times> db" where
  "declineJob E namesWorker requirementId user d =
     (case user of None \<Rightarrow> answer_only 401 d
      | Some u \<Rightarrow>
          if au_role u \<noteq> WORKER then answer_only 403 d
          else if namesWorker then answer_only 400 d
          else respond_db handleDispatchControllerError 200 (\<lambda>_. NoData)
            (declineDispatch (wo_config (he_world E)) (wo_sha256hex (he_world E)) (he_now E) requirementId (au_id u) d))"

definition getWaves_handler :: "uuid \<Rightarrow> AuthenticatedUser option \<Rightarrow> db \<Rightarrow> http_answer" where
  "getWaves_handler requirementId actor d =
     respond (\<lambda>e. if policy_error e then status_or e 0 else handleDispatchControllerError e) 200
       (\<lambda>(ws, ps). WavesData ws ps) (getWaves requirementId actor d)"

definition getDispatchDetail_handler :: "uuid \<Rightarrow> AuthenticatedUser option \<Rightarrow> db \<Rightarrow> http_answer" where
  "getDispatchDetail_handler requirementId user d =
     (case user of None \<Rightarrow> (401, NoData)
      | Some u \<Rightarrow> if au_role u \<noteq> WORKER then (403, NoData)
          else respond handleDispatchControllerError 200 (\<lambda>p. DispatchesData [p]) (getDispatchDetail requirementId (au_id u) d))"

subsection \<open>Jobs\<close>

definition createJob_handler :: "http_env \<Rightarrow> create_job_req \<Rightarrow> AuthenticatedUser option \<Rightarrow> db \<Rightarrow> http_answer \<times> db" where
  "createJob_handler E payload user d =
     (if no_id user then answer_only 401 d
      else respond_db handleJobError 201 (\<lambda>(j, _). JobsData [j])
        (createJob (wo_resolveSkillId (he_world E)) (wo_sha256hex (he_world E)) (he_now E) (he_fresh E) (au_id (the user)) payload d))"

definition getMyJobs_handler :: "AuthenticatedUser option \<Rightarrow> db \<Rightarrow> http_answer" where
  "getMyJobs_handler user d = (if no_id user then (401, NoData) else (200, JobsData (getJobsByCustomer (au_id (the user)) d)))"

definition getJobDetail_handler :: "uuid \<Rightarrow> AuthenticatedUser option \<Rightarrow> db \<Rightarrow> http_answer" where
  "getJobDetail_handler jobId actor d = respond handleJobError 200 (\<lambda>j. JobsData [j]) (getJobDetail jobId actor d)"

definition cancelJob_handler :: "http_env \<Rightarrow> uuid \<Rightarrow> AuthenticatedUser option \<Rightarrow> db \<Rightarrow> http_answer \<times> db" where
  "cancelJob_handler E jobId actor d =
     (if no_id actor then answer_only 401 d
      else respond_db handleCancelJobError 200 (\<lambda>_. NoData) (run_tx (cancelJob (he_now E) jobId (au_id (the actor)) actor None) d))"

definition getJobRequirements_handler :: "uuid \<Rightarrow> AuthenticatedUser option \<Rightarrow> db \<Rightarrow> http_answer" where
  "getJobRequirements_handler jobId actor d = respond handleJobError 200 RequirementsData (getJobRequirements jobId actor d)"

definition getJobBookings_handler :: "uuid \<Rightarrow> AuthenticatedUser option \<Rightarrow> db \<Rightarrow> http_answer" where
  "getJobBookings_handler jobId actor d = respond handleJobError 200 BookingsData (getJobBookings jobId actor d)"

definition createJobRequirement :: "http_env \<Rightarrow> uuid \<Rightarrow> requirement_req \<Rightarrow> js_number option \<Rightarrow> AuthenticatedUser option \<Rightarrow> db \<Rightarrow> http_answer \<times> db" where
  "createJobRequirement E jobId payload needed actor d =
     respond_db handleJobError 201 (\<lambda>r. RequirementsData [r])
       (createJobReq (wo_resolveSkillId (he_world E)) (he_now E) jobId payload needed actor d)"

definition getRequirementDetail_handler :: "uuid \<Rightarrow> uuid \<Rightarrow> AuthenticatedUser option \<Rightarrow> db \<Rightarrow> http_answer" where
  "getRequirementDetail_handler jobId requirementId actor d =
     respond handleJobError 200 (\<lambda>r. RequirementsData [r]) (getRequirementDetail jobId requirementId actor d)"

definition updateRequirementDemand_handler :: "http_env \<Rightarrow> uuid \<Rightarrow> uuid \<Rightarrow> js_number \<Rightarrow> AuthenticatedUser option \<Rightarrow> db \<Rightarrow> http_answer \<times> db" where
  "updateRequirementDemand_handler E jobId requirementId needed actor d =
     respond_db handleJobError 200 (\<lambda>(r, c). CapacityData r c)
       (run_tx (updateRequirementDemand (he_now E) jobId requirementId needed actor) d)"

subsection \<open>Payments\<close>

text \<open>\<^verbatim>\<open>req.user!\<close>: the assertion is erased, so a missing principal is a TypeError where a field of it is read.\<close>

definition createOrderHandler :: "http_env \<Rightarrow> uuid \<Rightarrow> AuthenticatedUser option \<Rightarrow> db \<Rightarrow> http_answer \<times> db" where
  "createOrderHandler E bookingId user d =
     respond_db handlePaymentError 201 OrderData
       (case user of None \<Rightarrow> (Inl JsTypeError, d)
        | Some u \<Rightarrow> createOrder (he_payment E) (he_order E) (he_now E) (he_fresh E) bookingId (au_id u) d)"

definition webhook_signature :: "header_value \<Rightarrow> string option" where
  "webhook_signature h = (case h of NoHeader \<Rightarrow> None | OneHeader s \<Rightarrow> Some s | ManyHeaders ss \<Rightarrow> (case ss of [] \<Rightarrow> None | s # _ \<Rightarrow> Some s))"

definition handleWebhookHandler :: "http_env \<Rightarrow> header_value \<Rightarrow> string option \<Rightarrow> db \<Rightarrow> http_answer \<times> db" where
  "handleWebhookHandler E rawSignature rawBody d =
     (if \<not> truthy (webhook_signature rawSignature) then answer_only 401 d
      else case rawBody of None \<Rightarrow> answer_only 400 d
        | Some body \<Rightarrow> respond_db handlePaymentError 200 WebhookData
            (handleWebhook (he_hmac E) (he_parse E) (he_secret E) (he_now E) (he_ids E) body (the (webhook_signature rawSignature)) d))"

definition getPaymentStatusHandler :: "uuid \<Rightarrow> AuthenticatedUser option \<Rightarrow> db \<Rightarrow> http_answer" where
  "getPaymentStatusHandler bookingId user d =
     respond handlePaymentError 200 PaymentData (case user of None \<Rightarrow> Inl JsTypeError | Some u \<Rightarrow> getPaymentStatus bookingId u d)"

definition refundPaymentHandler :: "http_env \<Rightarrow> uuid \<Rightarrow> int option \<Rightarrow> string option \<Rightarrow> AuthenticatedUser option \<Rightarrow> db \<Rightarrow> http_answer \<times> db" where
  "refundPaymentHandler E bookingId amount reason user d =
     respond_db handlePaymentError 200 RefundData
       (case user of None \<Rightarrow> (Inl JsTypeError, d)
        | Some u \<Rightarrow> refundPayment (he_payment E) (he_fetched E) (he_refund E) (he_now E) (he_fresh E) bookingId u amount reason d)"

subsection \<open>Reviews\<close>

definition uuid_hex :: "char \<Rightarrow> bool" where
  "uuid_hex c \<longleftrightarrow> c \<in> set ''0123456789abcdefABCDEF''"

definition uuid_char :: "nat \<Rightarrow> char \<Rightarrow> bool" where
  "uuid_char i c =
     (if i \<in> {8, 13, 18, 23} then c = CHR ''-''
      else if i = 14 then c \<in> set ''12345''
      else if i = 19 then c \<in> set ''89abAB''
      else uuid_hex c)"

definition isValidUUID :: "string \<Rightarrow> bool" where
  "isValidUUID v \<longleftrightarrow> length v = 36 \<and> list_all (\<lambda>(i, c). uuid_char i c) (enumerate 0 v)"

definition createReview_handler :: "http_env \<Rightarrow> uuid \<Rightarrow> CreateReviewReq \<Rightarrow> AuthenticatedUser option \<Rightarrow> db \<Rightarrow> http_answer \<times> db" where
  "createReview_handler E bookingId payload user d =
     (if no_id user then answer_only 401 d
      else if \<not> isValidUUID bookingId then answer_only 400 d
      else respond_db handleReviewError 201 (\<lambda>r. ReviewsData [r])
        (createReview (he_reviewFailure E) bookingId (au_id (the user)) payload d d))"

definition getWorkerReviews_handler :: "uuid \<Rightarrow> db \<Rightarrow> http_answer" where
  "getWorkerReviews_handler workerId d =
     (if \<not> isValidUUID workerId then (400, NoData) else (200, ReviewsData (getWorkerReviews workerId d)))"

definition getBookingReview_handler :: "uuid \<Rightarrow> AuthenticatedUser option \<Rightarrow> db \<Rightarrow> http_answer" where
  "getBookingReview_handler bookingId actor d =
     (if \<not> isValidUUID bookingId then (400, NoData)
      else respond handleReviewError 200 (\<lambda>r. case r of None \<Rightarrow> NoData | Some x \<Rightarrow> ReviewsData [x]) (getBookingReview bookingId actor d))"

section \<open>The application\<close>

fun controller :: "http_env \<Rightarrow> endpoint http_req \<Rightarrow> endpoint \<Rightarrow> AuthenticatedUser option \<Rightarrow> db \<Rightarrow> http_answer \<times> db" where
  "controller E q (GetBooking i) u d = (getBooking i u d, d)"
| "controller E q (PostOtpVerify i otp) u d = verifyOtp_handler E i otp u d"
| "controller E q (PostComplete i) u d = completeBooking_handler E i u d"
| "controller E q (PostConfirmComplete i p) u d = confirmComplete_handler E i p u d"
| "controller E q (PostCancelBooking i reason) u d = cancelBooking_handler E i reason u d"
| "controller E q (GetLocation i) u d = (getWorkerLocation_handler E i u d, d)"
| "controller E q (GetBookingPayment i) u d = (getPaymentStatusHandler i u d, d)"
| "controller E q GetIncoming u d = (getIncoming_handler u d, d)"
| "controller E q (PostAccept i) u d = acceptJob E (hr_names_worker q) i u d"
| "controller E q (PostDecline i) u d = declineJob E (hr_names_worker q) i u d"
| "controller E q (GetRequirementWaves i) u d = (getWaves_handler i u d, d)"
| "controller E q (GetDispatch i) u d = (getDispatchDetail_handler i u d, d)"
| "controller E q (PostJob p) u d = createJob_handler E p u d"
| "controller E q GetMyJobs u d = (getMyJobs_handler u d, d)"
| "controller E q (GetJob i) u d = (getJobDetail_handler i u d, d)"
| "controller E q (PatchCancelJob i) u d = cancelJob_handler E i u d"
| "controller E q (GetRequirements i) u d = (getJobRequirements_handler i u d, d)"
| "controller E q (GetRequirement j i) u d = (getRequirementDetail_handler j i u d, d)"
| "controller E q (PostRequirement j p n) u d = createJobRequirement E j p n u d"
| "controller E q (PatchDemand j i n) u d = updateRequirementDemand_handler E j i n u d"
| "controller E q (GetBookingsOfJob i) u d = (getJobBookings_handler i u d, d)"
| "controller E q PostWebhook u d = handleWebhookHandler E (hr_signature q) (hr_rawBody q) d"
| "controller E q (PostCreateOrder i) u d = createOrderHandler E i u d"
| "controller E q (GetPayment i) u d = (getPaymentStatusHandler i u d, d)"
| "controller E q (PostRefund i n reason) u d = refundPaymentHandler E i n reason u d"
| "controller E q (PostReview i p) u d = createReview_handler E i p u d"
| "controller E q (GetReviewsOfWorker i) u d = (getWorkerReviews_handler i d, d)"
| "controller E q (GetReviewOfBooking i) u d = (getBookingReview_handler i u d, d)"

text \<open>An application: the chain of a request's route, then its controller. A refused request leaves the database alone.\<close>

definition app_serve ::
  "('e \<Rightarrow> middleware list) \<Rightarrow> ('x http_env_scheme \<Rightarrow> 'e http_req \<Rightarrow> 'e \<Rightarrow> AuthenticatedUser option \<Rightarrow> db \<Rightarrow> (int \<times> 'a) \<times> db) \<Rightarrow> 'a
   \<Rightarrow> 'x http_env_scheme \<Rightarrow> 'e http_req \<Rightarrow> db \<times> redis \<Rightarrow> (int \<times> 'a) \<times> db \<times> redis" where
  "app_serve routes control nothing E q = (\<lambda>(d, r).
     (case run_chain E q d (routes (hr_endpoint q)) None r of
        (Inl s, r') \<Rightarrow> ((s, nothing), d, r')
      | (Inr user, r') \<Rightarrow> (case control E q (hr_endpoint q) user d of (a, d') \<Rightarrow> (a, d', r'))))"

definition http_serve :: "http_env \<Rightarrow> endpoint http_req \<Rightarrow> db \<times> redis \<Rightarrow> http_answer \<times> db \<times> redis" where
  "http_serve = app_serve route_chain controller NoData"

section \<open>The chain\<close>

lemmas route_simps = route_chain_def List.map_filter_def

lemma run_checks_status: "run_checks up now w fp code cs r = (Reject s c n, r') \<Longrightarrow> 400 \<le> s"
  by (induction cs arbitrary: r) (auto simp: Let_def split: prod.splits if_splits)

lemma limited_status:
  assumes "limited g q user r = (Inl s, r')" and "\<And>w r c n r'. g w r = (Reject s c n, r') \<Longrightarrow> 400 \<le> s"
  shows "400 \<le> s"
  using assms by (auto simp: limited_def split: prod.splits guard_result.splits)

lemma refusal_status:
  assumes m: "middleware_step E q d m user r = (Inl s, r')"
  shows "400 \<le> s"
proof (cases m)
  case (RateLimiter opts)
  show ?thesis
    by (rule limited_status [of "createRateLimiter (he_hash E) opts (he_redisUp E) (he_now E)" q user r])
      (use m RateLimiter in \<open>auto simp: middleware_step_def createRateLimiter_def simp del: run_checks.simps dest: run_checks_status\<close>)
next
  case OtpRequestLimiter
  show ?thesis
    by (rule limited_status [of "otpRequestRateLimiter (he_limiter E) (he_otpRequestLimits E) (he_redisUp E) (he_now E)" q user r])
      (use m OtpRequestLimiter in \<open>auto simp: middleware_step_def otpRequestRateLimiter_def Let_def simp del: run_checks.simps
        dest: run_checks_status split: prod.splits guard_result.splits\<close>)
next
  case OtpVerifyLimiter
  show ?thesis
    by (rule limited_status [of "otpVerifyRateLimiter (he_limiter E) (he_otpVerifyLimits E) (he_redisUp E) (he_now E)" q user r])
      (use m OtpVerifyLimiter in \<open>auto simp: middleware_step_def otpVerifyRateLimiter_def simp del: run_checks.simps dest: run_checks_status\<close>)
qed (use m in \<open>auto simp: middleware_step_def authenticateJWT_def requireRole_def validateParams_def validateBody_def Let_def
      split: if_splits option.splits schema_answer.splits prod.splits\<close>)

lemma chain_refusal: "run_chain E q d ms user r = (Inl s, r') \<Longrightarrow> 400 \<le> s"
  by (induction ms arbitrary: user r) (auto split: prod.splits sum.splits intro: refusal_status)

text \<open>What the rest of a chain checks once the principal is known.\<close>

definition cleared :: "'e http_req \<Rightarrow> middleware list \<Rightarrow> AuthenticatedUser option \<Rightarrow> bool" where
  "cleared q ms user \<longleftrightarrow>
     (\<forall>roles. RequireRole roles \<in> set ms \<longrightarrow> (\<exists>u. user = Some u \<and> au_role u \<in> set roles)) \<and>
     (ValidateParams \<in> set ms \<longrightarrow> hr_params q = Parsed) \<and> (ValidateBody \<in> set ms \<longrightarrow> hr_body q = Parsed)"

lemma step_cleared:
  assumes "middleware_step E q d m user r = (Inr user', r')"
  shows "if m = AuthenticateJWT
    then \<exists>u. user' = Some u \<and> authenticateJWT (he_dbUp E) (he_jwtVerify E) (he_jwtConfig E) (hr_authorization q) d = Inr u
    else user' = user \<and> cleared q [m] user"
  using assms
  by (cases m) (auto simp: middleware_step_def limited_def requireRole_def validateParams_def validateBody_def cleared_def
      split: if_splits option.splits sum.splits prod.splits schema_answer.splits guard_result.splits)

text \<open>The principal at the end of a chain is the one of its authentication, however often that runs, and passes all its checks.\<close>

lemma chain_cleared:
  assumes "run_chain E q d ms user r = (Inr user', r')"
    and "\<And>u. user = Some u \<Longrightarrow> authenticateJWT (he_dbUp E) (he_jwtVerify E) (he_jwtConfig E) (hr_authorization q) d = Inr u"
  shows "cleared q ms user' \<and> (if AuthenticateJWT \<in> set ms
    then \<exists>u. user' = Some u \<and> authenticateJWT (he_dbUp E) (he_jwtVerify E) (he_jwtConfig E) (hr_authorization q) d = Inr u
    else user' = user)"
  using assms
proof (induction ms arbitrary: user r)
  case Nil
  then show ?case by (simp add: cleared_def)
next
  case (Cons m ms)
  obtain x r1 where s: "middleware_step E q d m user r = (x, r1)" by fastforce
  with Cons.prems obtain u1 where x: "x = Inr u1" by (cases x) auto
  note m = step_cleared [OF s [unfolded x]]
  from Cons.prems(1) s x have c: "run_chain E q d ms u1 r1 = (Inr user', r')" by simp
  have u1: "u1 = Some u \<Longrightarrow> authenticateJWT (he_dbUp E) (he_jwtVerify E) (he_jwtConfig E) (hr_authorization q) d = Inr u" for u
    using m Cons.prems(2) by (auto split: if_splits)
  note ih = Cons.IH [OF c u1]
  have "cleared q [m] user'"
  proof (cases "m = AuthenticateJWT")
    case False
    with m have "cleared q [m] user" by simp
    moreover have "user' = user \<or> user = None" using ih m False Cons.prems(2) by (cases user) (auto split: if_splits)
    ultimately show ?thesis by (auto simp: cleared_def)
  qed (simp add: cleared_def)
  then have "cleared q (m # ms) user'" using ih by (auto simp: cleared_def)
  moreover have "user' = u1" if "AuthenticateJWT \<notin> set ms" using ih that by simp
  ultimately show ?case using ih m by (auto split: if_splits)
qed

text \<open>
  An application, with the routes that do without a token named: a request is refused with the database untouched,
  or its controller runs, for a vouched principal unless the route is open, after all the checks of the route.
\<close>

locale authenticated_app =
  fixes routes :: "'e \<Rightarrow> middleware list"
    and control :: "'x http_env_scheme \<Rightarrow> 'e http_req \<Rightarrow> 'e \<Rightarrow> AuthenticatedUser option \<Rightarrow> db \<Rightarrow> (int \<times> 'a) \<times> db"
    and nothing :: 'a
    and open_route :: "'e \<Rightarrow> bool"
  assumes open_iff: "open_route e \<longleftrightarrow> AuthenticateJWT \<notin> set (routes e)"
begin

lemma served:
  assumes "app_serve routes control nothing E q (d, r) = (a, d', r')"
  obtains (refused) "400 \<le> fst a" "snd a = nothing" "d' = d"
    | (run) user where "cleared q (routes (hr_endpoint q)) user" "control E q (hr_endpoint q) user d = (a, d')"
        "if open_route (hr_endpoint q) then user = None else \<exists>u. user = Some u \<and> vouched (he_jwtVerify E) (he_jwtConfig E) d u"
proof (cases "run_chain E q d (routes (hr_endpoint q)) None r")
  case (Pair x r1)
  show thesis
  proof (cases x)
    case (Inl s)
    with Pair assms chain_refusal [of E q d "routes (hr_endpoint q)" None r s r1] show thesis
      by (intro refused) (auto simp: app_serve_def)
  next
    case (Inr user)
    with Pair have c: "run_chain E q d (routes (hr_endpoint q)) None r = (Inr user, r1)" by simp
    note cl = chain_cleared [OF c]
    from c assms have "control E q (hr_endpoint q) user d = (a, d')" by (auto simp: app_serve_def split: prod.splits)
    with cl open_iff show thesis by (intro run [of user]) (auto split: if_splits intro: http_vouched)
  qed
qed

lemma served_cases:
  assumes "app_serve routes control nothing E q (d, r) = (a, d', r')" and "\<not> open_route (hr_endpoint q)"
  obtains (refused) "400 \<le> fst a" "snd a = nothing" "d' = d"
    | (run) u where "vouched (he_jwtVerify E) (he_jwtConfig E) d u" "cleared q (routes (hr_endpoint q)) (Some u)"
        "control E q (hr_endpoint q) (Some u) d = (a, d')"
  using assms(1) by (cases rule: served) (use assms(2) in auto)

end

interpretation market_app: authenticated_app route_chain controller NoData "\<lambda>e. e = PostWebhook"
proof unfold_locales
  show "e = PostWebhook \<longleftrightarrow> AuthenticateJWT \<notin> set (route_chain e)" for e
    by (cases e) (simp_all add: route_simps)
qed

lemma http_cases:
  assumes "http_serve E q (d, r) = (a, d', r')" and "hr_endpoint q \<noteq> PostWebhook"
  obtains (refused) "400 \<le> fst a" "snd a = NoData" "d' = d"
    | (run) u where "vouched (he_jwtVerify E) (he_jwtConfig E) d u" "cleared q (route_chain (hr_endpoint q)) (Some u)"
        "controller E q (hr_endpoint q) (Some u) d = (a, d')"
  by (rule market_app.served_cases [OF assms(1) [unfolded http_serve_def] assms(2)]) (rule that)

section \<open>What reaches the marketplace\<close>

text \<open>The tables whose invariant the marketplace keeps.\<close>

definition market_part :: "db \<Rightarrow> job_requirement list \<times> booking list \<times> transition_row list \<times> job list \<times> transition_row list" where
  "market_part d = (requirements d, bookings d, booking_log d, jobs d, job_log d)"

lemma market_part_frames:
  "market_part (update_payment now hit f d) = market_part d" "market_part (d\<lparr>payments := ps\<rparr>) = market_part d"
  "market_part (update_webhook i g d) = market_part d" "market_part (snd (createOutboxEvent i now dto d)) = market_part d"
  "market_part (d\<lparr>reviews := rs\<rparr>) = market_part d"
  by (simp_all add: market_part_def update_payment_def update_webhook_def createOutboxEvent_def split: option.splits)

lemma notify_frames:
  "market_part (notify_customer i now ev p x d) = market_part d" "market_part (notify_worker i now ev p x d) = market_part d"
  by (simp_all add: notify_customer_def notify_worker_def market_part_frames split: option.splits)

lemma webhook_row_frames:
  "market_part (webhook_failed i reason d) = market_part d" "market_part (webhook_processed i now d) = market_part d"
  "market_part (quarantine now pid reason d) = market_part d"
  by (simp_all add: webhook_failed_def webhook_processed_def quarantine_def market_part_frames)

lemma create_webhook_frame: "create_webhook i ty d = Inr d' \<Longrightarrow> market_part d' = market_part d"
  by (auto simp: create_webhook_def market_part_def split: if_splits)

lemma payment_transition_frame: "transitionPaymentStatus now pid a b f d = Inr (x, d') \<Longrightarrow> market_part d' = market_part d"
  by (auto simp: transitionPaymentStatus_def Let_def market_part_frames split: if_splits)

lemmas payment_frames = market_part_frames notify_frames webhook_row_frames

lemma run_tx_market:
  assumes "\<And>x d'. m d = Inr (x, d') \<Longrightarrow> market_part d' = market_part d"
  shows "market_part (snd (run_tx m d)) = market_part d"
  by (rule run_tx_preserves [of "\<lambda>e. market_part e = market_part d"]) (simp_all add: assms)

lemma dedup_db [simp]: "snd (dedup r) = snd r"
  by (auto simp: dedup_def split: prod.splits sum.splits error.splits)

lemma webhook_tx_frames:
  "captured_tx now ids ev oid pid n c d = Inr (x, d') \<Longrightarrow> market_part d' = market_part d"
  "failed_tx now ids ev oid d = Inr (x, d') \<Longrightarrow> market_part d' = market_part d"
  "refund_tx now ids ev ty pid rid n d = Inr (x, d') \<Longrightarrow> market_part d' = market_part d"
  by (auto simp: captured_tx_def failed_tx_def refund_tx_def payment_frames Let_def
      split: sum.splits option.splits if_splits prod.splits bool.splits dest!: create_webhook_frame payment_transition_frame)

lemma process_frames:
  "market_part (snd (processPaymentCaptured now ids ev oid pid n c d)) = market_part d"
  "market_part (snd (processPaymentFailed now ids ev oid d)) = market_part d"
  "market_part (snd (processRefundProcessed now ids ev ty pid' rid n d)) = market_part d"
  by (simp_all add: processPaymentCaptured_def processPaymentFailed_def processRefundProcessed_def run_tx_market webhook_tx_frames)

lemma webhook_frame: "market_part (snd (webhook_dispatch now ids w d)) = market_part d"
proof -
  have "snd (if c then x else y) = (if c then snd x else snd y)" for c and x y :: "(error + webhook_outcome) \<times> db" by simp
  then show ?thesis unfolding webhook_dispatch_def Let_def
    by (cases "deriveWebhookEventId (case wb_event w of None \<Rightarrow> [] | Some e \<Rightarrow> e)
        (str_or_opt (Option.bind (wb_payment w) en_id) (Option.bind (wb_refund w) rf_payment_id)) (Option.bind (wb_payment w) en_order_id)")
      (simp_all add: process_frames del: split_paired_All)
qed

lemma handleWebhook_frame: "market_part (snd (handleWebhook hmac parse secret now ids body sig d)) = market_part d"
  by (simp add: handleWebhook_def webhook_frame split: option.splits)

lemma order_claim_frame: "market_part (snd (order_claim now i bid n cur p d)) = market_part d"
  by (simp add: order_claim_def create_payment_def payment_frames Let_def split: option.splits sum.splits error.splits)

lemma order_finish_frame: "market_part (snd (order_finish now bid pid ans d)) = market_part d"
  by (simp add: order_finish_def order_failed_def order_persist_def payment_frames split: sum.splits)

lemma createOrder_frame: "market_part (snd (createOrder cfg sdk now i bid c d)) = market_part d"
proof -
  have "market_part d1 = market_part d" if "order_claim now i bid n cur p d = (x, d1)" for n cur p x d1
    using order_claim_frame [of now i bid n cur p d] that by simp
  then show ?thesis
    by (auto simp: createOrder_def Let_def order_finish_frame split: sum.splits prod.splits order_turn.splits)
qed

lemma refund_frames:
  "market_part (snd (refund_reconcile now reason ans p d)) = market_part d"
  "market_part (snd (refund_claim now reason p d)) = market_part d"
  "market_part (snd (refund_failed now pid msg st d)) = market_part d"
  "refund_success_tx now oid bid b p r d = Inr (x, d') \<Longrightarrow> market_part d' = market_part d"
  by (auto simp: refund_reconcile_def refund_claim_def refund_failed_def refund_success_tx_def Let_def payment_frames
      split: sum.splits option.splits if_splits)

lemma refund_settle_frame: "market_part (snd (refund_settle now oid bid b p ans d)) = market_part d"
proof -
  have "market_part d1 = market_part d" if "run_tx (refund_success_tx now oid bid b p r) d = (x, d1)" for r x d1
    using run_tx_market [of "refund_success_tx now oid bid b p r" d] refund_frames(4) that by fastforce
  then show ?thesis by (auto simp: refund_settle_def refund_frames split: sum.splits prod.splits)
qed

lemma refundPayment_frame: "market_part (snd (refundPayment cfg f sdk now oid bid u n reason d)) = market_part d"
proof -
  have "market_part d1 = market_part d" if "refund_reconcile now reason ans p d = (x, d1) \<or> refund_claim now reason p d = (x, d1)" for ans p x d1
    using refund_frames(1) [of now reason ans p d] refund_frames(2) [of now reason p d] that by auto
  then show ?thesis
    by (auto simp: refundPayment_def refund_settle_frame split: sum.splits prod.splits option.splits if_splits)
qed

lemma createReview_frame: "market_part (snd (createReview f bid c p d0 d)) = market_part d"
  by (auto simp: createReview_def review_commit_def create_review_def payment_frames split: sum.splits option.splits if_splits)

text \<open>The request of the marketplace that a controller makes, if any.\<close>

fun market_request :: "http_env \<Rightarrow> endpoint \<Rightarrow> AuthenticatedUser \<Rightarrow> request option" where
  "market_request E (PostOtpVerify i otp) u = Some (VerifyOtp (he_now E) i (au_id u) otp (Some u))"
| "market_request E (PostComplete i) u = Some (CompleteBooking (he_now E) i (au_id u) (Some u))"
| "market_request E (PostConfirmComplete i p) u = Some (ConfirmComplete (he_fresh E) (he_now E) i (au_id u) p (Some u))"
| "market_request E (PostCancelBooking i reason) u = Some (CancelBooking (he_fresh E) (he_now E) i (au_id u) reason (Some u))"
| "market_request E (PostAccept i) u = Some (AcceptDispatch ((he_draw E)\<lparr>ai_requirement := i, ai_worker := au_id u, ai_now := he_now E\<rparr>))"
| "market_request E (PostDecline i) u = Some (DeclineDispatch (he_now E) i (au_id u))"
| "market_request E (PostJob p) u = Some (CreateJob (he_now E) (he_fresh E) (au_id u) p)"
| "market_request E (PatchCancelJob i) u = Some (CancelJob (he_now E) i (au_id u) (Some u) None)"
| "market_request E (PostRequirement j p n) u = Some (CreateJobReq (he_now E) j p n (Some u))"
| "market_request E (PatchDemand j i n) u = Some (UpdateDemand (he_now E) j i n (Some u))"
| "market_request E _ u = None"

lemmas handler_defs = verifyOtp_handler_def completeBooking_handler_def confirmComplete_handler_def cancelBooking_handler_def
  acceptJob_def declineJob_def createJob_handler_def cancelJob_handler_def createJobRequirement_def
  updateRequirementDemand_handler_def createOrderHandler_def handleWebhookHandler_def refundPaymentHandler_def createReview_handler_def

lemma controller_db:
  assumes "controller E q e (Some u) d = (a, d')"
  shows "case market_request E e u of None \<Rightarrow> market_part d' = market_part d | Some x \<Rightarrow> d' = d \<or> d' = serve (he_world E) x d"
  using assms
  by (cases e) (auto simp: handler_defs respond_db_def createOrder_frame refundPayment_frame createReview_frame handleWebhook_frame
      split: if_splits option.splits)


lemma market_part_facts:
  assumes "market_part d' = market_part d"
  shows "system_ok d' = system_ok d" "seats d' = seats d"
  using assms market_cong [of d' d] jobs_ok_cong [of d' d] seats_cong [of d' d] by (simp_all add: market_part_def system_ok_def)

lemma controller_ok:
  assumes "system_ok d" and "controller E q e (Some u) d = (a, d')"
  shows "system_ok d'"
  using controller_db [OF assms(2)] market_part_facts(1) [of d' d] assms(1) marketplace.exec_inv [OF assms(1)]
  by (auto split: option.splits)

lemma webhook_controller:
  assumes "http_serve E q (d, r) = (a, d', r')" and "hr_endpoint q = PostWebhook"
  shows "market_part d' = market_part d"
    and "d' \<noteq> d \<Longrightarrow> \<exists>body sig secret. hr_rawBody q = Some body \<and> webhook_signature (hr_signature q) = Some sig \<and>
       he_secret E = Some secret \<and> verifyWebhookSignature (he_hmac E) body (trim sig) (trim secret)"
proof -
  from assms have c: "handleWebhookHandler E (hr_signature q) (hr_rawBody q) d = (a, d')"
    by (auto simp: http_serve_def app_serve_def route_simps split: prod.splits)
  then show "market_part d' = market_part d"
    by (auto simp: handleWebhookHandler_def respond_db_def handleWebhook_frame split: if_splits option.splits)
  assume "d' \<noteq> d"
  with c show "\<exists>body sig secret. hr_rawBody q = Some body \<and> webhook_signature (hr_signature q) = Some sig \<and>
       he_secret E = Some secret \<and> verifyWebhookSignature (he_hmac E) body (trim sig) (trim secret)"
    by (cases "webhook_signature (hr_signature q)"; cases "he_secret E")
      (auto simp: handleWebhookHandler_def respond_db_def handleWebhook_def split: if_splits option.splits)
qed

lemma http_ok:
  assumes "system_ok d" and "http_serve E q (d, r) = (a, d', r')"
  shows "system_ok d'"
proof (cases "hr_endpoint q = PostWebhook")
  case True
  with market_part_facts(1) [OF webhook_controller(1) [OF assms(2) True]] assms(1) show ?thesis by simp
next
  case False
  from assms(2) False show ?thesis by (cases rule: http_cases) (use assms(1) in \<open>auto intro: controller_ok\<close>)
qed

interpretation http: invariant_system "\<lambda>(E, q) s. snd (http_serve E q s)" "\<lambda>s. system_ok (fst s)"
proof unfold_locales
  fix s :: "db \<times> redis" and l :: "http_env \<times> endpoint http_req"
  assume ok: "system_ok (fst s)"
  obtain E q where l: "l = (E, q)" by fastforce
  obtain a d' r' where "http_serve E q (fst s, snd s) = (a, d', r')" by (rule prod_cases3)
  with http_ok [OF ok] l show "system_ok (fst ((case l of (E, q) \<Rightarrow> \<lambda>s. snd (http_serve E q s)) s))" by fastforce
qed

text \<open>A booking comes into being by accepting a live offer, for the worker the offer names.\<close>

lemma accept_new_seat:
  assumes "seats (snd (acceptDispatch x d)) \<noteq> seats d"
  obtains res c p where "fst (acceptDispatch x d) = Inr res" "p \<in> set (dispatches d)" "claimable x p"
    "seats (snd (acceptDispatch x d)) = insert (ai_booking_id x, c, ai_worker x) (seats d)"
proof (cases x d rule: acceptDispatch_cases)
  case (refused e)
  with assms show thesis by simp
next
  case (committed res d')
  from committed(2) obtain req where "accept_reserve x req d = Inr (res, d')" by (rule accept_tx_InrE) blast
  then obtain j :: job and p where "bookings d' = bookings d @ [new_booking x req (jb_customer_id j)]" "p \<in> set (dispatches d)" "claimable x p"
    by (rule accept_reserve_InrE) blast
  with committed(1) show thesis
    by (intro that [of res p "jb_customer_id j"]) (auto simp: seats_def seat_def new_booking_def)
qed

text \<open>The roles that the route of an endpoint lets in.\<close>

definition admits :: "endpoint \<Rightarrow> AuthenticatedUser \<Rightarrow> bool" where
  "admits e u = list_all (\<lambda>m. case m of RequireRole roles \<Rightarrow> au_role u \<in> set roles | _ \<Rightarrow> True) (route_chain e)"

lemma cleared_admits: "cleared q (route_chain e) (Some u) \<Longrightarrow> admits e u"
  by (auto simp: cleared_def admits_def list_all_iff split: middleware.splits)

lemma controller_seats:
  assumes c: "controller E q e (Some u) d = (a, d')" and n: "seats d' \<noteq> seats d"
  shows "\<exists>i c. e = PostAccept i \<and> \<not> hr_names_worker q \<and> fst a = 200 \<and> au_role u = WORKER \<and>
     (\<exists>p \<in> set (dispatches d). dp_requirement_id p = i \<and> dp_worker_id p = au_id u \<and> dp_status p = ''pending'') \<and>
     seats d' = insert (ai_booking_id (he_draw E), c, au_id u) (seats d)"
proof -
  from controller_db [OF c] market_part_facts(2) [of d' d] n obtain x where x: "market_request E e u = Some x" "d' = serve (he_world E) x d"
    by (auto split: option.splits)
  with n serve_seats_same [of x "he_world E" d] obtain y where y: "x = AcceptDispatch y" by blast
  with x(1) obtain i where e: "e = PostAccept i"
    and y': "y = (he_draw E)\<lparr>ai_requirement := i, ai_worker := au_id u, ai_now := he_now E\<rparr>" by (cases e) auto
  from n x(2) y have "seats (snd (acceptDispatch y d)) \<noteq> seats d" by simp
  then obtain res k p where res: "fst (acceptDispatch y d) = Inr res" "p \<in> set (dispatches d)" "claimable y p"
    "seats (snd (acceptDispatch y d)) = insert (ai_booking_id y, k, ai_worker y) (seats d)" by (rule accept_new_seat)
  from c e n have g: "au_role u = WORKER" "\<not> hr_names_worker q" "a = respond handleDispatchControllerError 200 (\<lambda>r. BookingData (ar_booking r)) (fst (acceptDispatch y d))"
    by (auto simp: acceptJob_def respond_db_def y' split: if_splits)
  from res(3) have "dp_requirement_id p = i \<and> dp_worker_id p = au_id u \<and> dp_status p = ''pending''"
    by (simp add: claimable_def offer_to_def y')
  with res g e x(2) y show ?thesis by (auto simp: respond_def y')
qed


section \<open>Answers to exceptions\<close>

text \<open>An exception of no known class: the services' own bugs and the failures of the database.\<close>

definition internal_error :: "error \<Rightarrow> bool" where
  "internal_error e \<longleftrightarrow> e = JsTypeError \<or> e = PrismaRecordNotFound \<or> e = PrismaConflict \<or> e = CheckViolation \<or> (\<exists>k. e = PrismaUniqueViolation k)"

text \<open>
  The controllers of jobs, dispatch, payments and reviews answer 500 and hide it. The controller of bookings
  answers 400 with the message of the exception: its default status is 400, so its branch for unexpected errors
  is only reached by exceptions that carry a status of 500 themselves.
\<close>

lemma internal_errors_hidden:
  assumes "internal_error e"
  shows "handleJobError e = 500 \<and> handleDispatchControllerError e = 500 \<and> handlePaymentError e = 500 \<and>
    handleReviewError e = 500 \<and> handleBookingError e = 400"
  using assms unfolding internal_error_def
  by (elim disjE exE) (simp_all add: handleJobError_def handleDispatchControllerError_def handleBookingError_def status_or_def
      dispatch_code_status_def message_includes_def)

text \<open>A worker without an offer for a requirement gets 500 from \<^verbatim>\<open>GET /api/dispatch/:requirementId\<close>, where the other reads answer 404.\<close>

lemma missing_offer_is_500:
  assumes "findFirst (offer_to i (au_id u)) (dispatches d) = None" and "au_role u = WORKER"
  shows "getDispatchDetail_handler i (Some u) d = (500, NoData)"
  using assms by (simp add: getDispatchDetail_handler_def getDispatchDetail_def respond_def handleDispatchControllerError_def
      status_or_def dispatch_message_status_def)

section \<open>Properties\<close>


text \<open>
  C6. Nothing is overbooked over HTTP either: from any consistent database, whatever requests arrive in whatever order,
  with or without tokens, malformed, replayed, rate limited or signed by the payment provider, every
  requirement has exactly as many active bookings as its filled count and no more than its demand, and the
  histories of jobs and bookings replay to their status.
\<close>

theorem http_never_overbooks:
  assumes "system_ok d"
  shows "let e = fst (fold (\<lambda>(E, q) s. snd (http_serve E q s)) qs (d, r)) in
    list_all (\<lambda>k. rq_filled k = activeBookingsCount (rq_id k) e \<and> rq_filled k \<le> rq_needed k) (requirements e) \<and>
    distinct (map (\<lambda>b. (bk_requirement_id b, bk_worker_id b)) (bookings e)) \<and>
    list_all (\<lambda>b. chain ''CONFIRMED'' (history_of (bk_id b) (booking_log e)) (bk_status b)) (bookings e) \<and>
    list_all (\<lambda>j. chain ''INITIAL'' (job_getTransitionHistory (jb_id j) e) (jb_status j)) (jobs e)"
proof -
  have "system_ok (fst (fold (\<lambda>(E, q) s. snd (http_serve E q s)) qs (d, r)))"
    using http.fold_inv [of "(d, r)" qs] assms by simp
  then show ?thesis
    by (auto simp: Let_def list_all_iff system_ok_def market_ok_def ledger_ok_def requirement_ok_def
        booking_audited_def jobs_ok_def job_audited_def booking_pair_def [abs_def])
qed


section \<open>Examples\<close>

definition sample_world :: world where
  "sample_world = \<lparr>wo_resolveSkillId = \<lambda>_. None, wo_sha256hex = id, wo_comparePassword = (=), wo_maxAttempts = 5, wo_config = default_config\<rparr>"

definition sample_worker_claims :: jwt_verify where
  "sample_worker_claims = (\<lambda>secret t. if secret = ''A'' \<and> t = ''t'' then
     Some \<lparr>tk_id = Some ''w1'', tk_role = Some (user_role_str WORKER), tk_token_type = Some ''access''\<rparr> else None)"

definition sample_otp_limits :: otp_limits where
  "sample_otp_limits = \<lparr>ol_perIp = 10, ol_perPhone = 5, ol_perDevice = 5\<rparr>"

definition sample_http_env :: http_env where
  "sample_http_env = \<lparr>he_now = 10, he_dbUp = True, he_redisUp = (\<lambda>_. True), he_hash = id,
     he_limiter = \<lparr>le_hash = id, le_parsePhone = Some, le_windowSeconds = 60\<rparr>, he_otpRequestLimits = sample_otp_limits, he_otpVerifyLimits = sample_otp_limits, he_jwtVerify = sample_worker_claims,
     he_jwtConfig = Inr sample_jwt, he_world = sample_world, he_draw = sample_accept, he_fresh = ''f1'', he_geo = (\<lambda>_. None), he_stored = (\<lambda>_. None),
     he_payment = \<lparr>pc_keyId = ''k'', pc_keySecret = ''s'', pc_webhookSecret = ''h'', pc_currency = ''INR'', pc_isTestMode = True\<rparr>,
     he_order = (\<lambda>_. OrderThrows), he_fetched = FetchThrows, he_refund = RefundThrows, he_hmac = (\<lambda>_ _. []),
     he_parse = (\<lambda>_. None), he_secret = None, he_ids = \<lparr>wi_customer = ''x'', wi_worker = ''y''\<rparr>, he_reviewFailure = None\<rparr>"

definition sample_http_req :: "endpoint http_req" where
  "sample_http_req = \<lparr>hr_endpoint = PostAccept ''r1'', hr_authorization = Some ''Bearer t'',
     hr_wire = \<lparr>hq_user_id = None, hq_worker_id = None, hq_ip = Some ''ip'', hq_remoteAddress = None, hq_phone = None,
       hq_body_device_id = None, hq_header_device_id = None\<rparr>,
     hr_params = Parsed, hr_body = Parsed, hr_names_worker = False, hr_signature = NoHeader, hr_rawBody = None\<rparr>"

lemma sample_http_user: "authenticateJWT True sample_worker_claims (Inr sample_jwt) (Some ''Bearer t'') sample_dispatch_db = Inr \<lparr>au_id = ''w1'', au_role = WORKER\<rparr>"
  by (simp add: authenticateJWT_def verifyAccessToken_def sample_worker_claims_def sample_jwt_def isValidUserRole_def worker_locked_def
      sample_defs findUnique_def findFirst_def)

lemma sample_http_chain:
  "\<exists>r'. run_chain sample_http_env sample_http_req sample_dispatch_db (route_chain (PostAccept ''r1'')) None (\<lambda>_. None) =
     (Inr (Some \<lparr>au_id = ''w1'', au_role = WORKER\<rparr>), r')"
  by (simp add: route_simps middleware_step_def limited_def sample_http_user sample_http_env_def sample_http_req_def requireRole_def validateParams_def
      createRateLimiter_def dispatchActionRateLimiter_def fail_policy_def incrementRateLimit_def RATE_LIMIT_LUA_SCRIPT_def
      redis_incr_def redis_get_def redis_expire_def redis_ttl_def Let_def)

lemma sample_http_accepts:
  "\<exists>a d' r'. http_serve sample_http_env sample_http_req (sample_dispatch_db, \<lambda>_. None) = (a, d', r') \<and> fst a = 200 \<and> seats d' \<noteq> seats sample_dispatch_db"
proof -
  have x: "sample_accept\<lparr>ai_requirement := ''r1'', ai_worker := ''w1'', ai_now := 10\<rparr> = sample_accept" by (simp add: sample_accept_def)
  from sample_accept_commits obtain res d' where c: "acceptDispatch sample_accept sample_dispatch_db = (Inr res, d')" by blast
  have led: "ledger_ok sample_dispatch_db"
    by (simp add: ledger_ok_def requirement_ok_def activeBookingsCount_def sample_defs)
  have "seats d' \<noteq> seats sample_dispatch_db"
  proof (cases sample_accept sample_dispatch_db rule: acceptDispatch_cases)
    case (committed res2 d2)
    then obtain req where "accept_reserve sample_accept req sample_dispatch_db = Inr (res2, d2)" by (elim accept_tx_InrE) blast
    then obtain j :: job where "bookings d2 = bookings sample_dispatch_db @ [new_booking sample_accept req (jb_customer_id j)]"
      by (rule accept_reserve_InrE) blast
    with committed(1) c show ?thesis by (simp add: seats_def sample_defs)
  qed (use c in simp)
  moreover from sample_http_chain obtain r' where
    "run_chain sample_http_env sample_http_req sample_dispatch_db (route_chain (PostAccept ''r1'')) None (\<lambda>_. None) =
     (Inr (Some \<lparr>au_id = ''w1'', au_role = WORKER\<rparr>), r')" by blast
  moreover have "hr_endpoint sample_http_req = PostAccept ''r1''" "\<not> hr_names_worker sample_http_req" "he_draw sample_http_env = sample_accept"
    "he_now sample_http_env = 10" by (simp_all add: sample_http_req_def sample_http_env_def)
  ultimately show ?thesis
    using c by (simp add: http_serve_def app_serve_def acceptJob_def respond_db_def respond_def x)
qed


theorem http_never_overbooks_witness:
  "let e = fst (fold (\<lambda>(E, q) s. snd (http_serve E q s)) [(sample_http_env, sample_http_req), (sample_http_env, sample_http_req)] (sample_dispatch_db\<lparr>job_log := job_log sample_open_db\<rparr>, \<lambda>_. None))
   in list_all (\<lambda>k. rq_filled k = activeBookingsCount (rq_id k) e \<and> rq_filled k \<le> rq_needed k) (requirements e)"
proof -
  have "system_ok (sample_dispatch_db\<lparr>job_log := job_log sample_open_db\<rparr>)"
    by (simp add: system_ok_def market_ok_def ledger_ok_def requirement_ok_def activeBookingsCount_def booking_audited_def
        jobs_ok_def job_audited_def job_getTransitionHistory_def history_of_def sample_defs sample_open_db_def)
  from http_never_overbooks [OF this, of "[(sample_http_env, sample_http_req), (sample_http_env, sample_http_req)]" "\<lambda>_. None"]
  show ?thesis by (simp only: Let_def)
qed

end
