(* ===== verification/Spec2Isabelle.thy ===== *)
theory Spec2Isabelle
  imports Marketplace Otp_Auth Payments Dispatch_Workers Reviews_Chat Storage Devices Http_Guards Access_Guards Workers Sockets Reconciliation
    Push Configuration Lifecycle Responses Logging Http_Api
begin

text \<open>
  LabourBaba backend: a verification development.

  \<^bold>\<open>The program.\<close> LabourBaba is a marketplace for day labour. A customer posts a job with requirements (a skill and a
  number of workers); the dispatch engine offers the slots to nearby workers in waves of growing radius; a worker
  accepts a slot and thereby gets a booking; an OTP starts the work, a confirmation ends it, a payment settles it,
  reviews and chat go with it. Around that stand authentication (one-time passwords, refresh sessions, access
  tokens), rate limiters, authorization policies, a transactional outbox for notifications, push devices, private
  documents, administration and an audit log. The services are TypeScript over a PostgreSQL database (Prisma),
  Redis and BullMQ queues; all paths below are under \<^verbatim>\<open>src/\<close>.

  \<^bold>\<open>The state\<close> is the record \<open>db\<close> of \<open>Schema\<close>: one list of rows per table, each row a record with the columns the
  code reads or writes. \<open>Js_Prelude\<close> gives the fragment of JavaScript and of the Prisma client (\<open>findFirst\<close>,
  \<open>updateMany\<close>, \<open>run_tx\<close>) and the shared interfaces. The conventions of the translation:
  \<^item> a service function is a function of its arguments and the database; an exception is \<open>Inl\<close> of the \<open>error\<close>
    datatype, and a handler returns the error or value with the database it leaves behind;
  \<^item> \<^verbatim>\<open>prisma.$transaction\<close> is \<open>run_tx\<close>: all writes or none. Where the code reads outside a transaction, the
    reads and the writes are functions of two databases (\<open>d0\<close> read, \<open>d\<close> written), or the operation is split in
    two steps that a schedule may interleave with any others;
  \<^item> unique keys, foreign keys and check constraints are branches of the inserts and updates, with the error the
    client raises; conditional updates (\<^verbatim>\<open>updateMany\<close> with the expected status) return their count;
  \<^item> the clock, random ids, hashes, signatures, geography, the phone parser, the JWT library, the SMS and payment
    providers and whether Redis or a queue answers are arguments; what a theorem needs of them is a hypothesis;
  \<^item> metrics and response texts are left out of the services, and so are their log lines (what a log line may
    hold is the subject of \<open>Logging\<close>); statuses and error codes are kept.

  \<^bold>\<open>The theories\<close>, in the order of their dependencies:
  \<^item> \<open>Policies\<close> (\<^verbatim>\<open>policies/*.policy.ts\<close>): every decision and query scope; a locale shows that scoped reads and
    decisions agree, interpreted for each resource.
  \<^item> \<open>Job_Machine\<close>, \<open>Requirement_Machine\<close>, \<open>Booking_Machine\<close> (\<^verbatim>\<open>features/jobs/jobStateMachine.ts\<close>,
    \<^verbatim>\<open>features/jobs/requirementStateMachine.ts\<close>, \<^verbatim>\<open>features/booking/bookingStateMachine.ts\<close>): the transition tables
    and the transactional transition functions; decisions are exact, terminal states final, audit histories
    complete, capacity counts authoritative.
  \<^item> \<open>Wave_Planner\<close> (\<^verbatim>\<open>config/dispatchWaveConfig.ts\<close>, \<^verbatim>\<open>features/dispatch/dispatchWavePlanner.ts\<close>,
    \<^verbatim>\<open>dispatchOperation.ts\<close>): configuration, wave plans, operation ids.
  \<^item> \<open>Dispatch_Service\<close>, \<open>Booking_Service\<close>, \<open>Job_Service\<close> (\<^verbatim>\<open>features/dispatch/dispatchServices.ts\<close>,
    \<^verbatim>\<open>features/booking/bookingServices.ts\<close>, \<^verbatim>\<open>features/jobs/job.services.ts\<close>, \<^verbatim>\<open>jobReqServices.ts\<close>): accepting and
    declining a slot, verifying the OTP, cancelling, completing, creating and cancelling jobs.
  \<^item> \<open>Marketplace\<close>: all these requests as one system; its invariant (no overbooking) holds after every schedule,
    and the system refines an abstract ledger of slots.
  \<^item> \<open>Sessions\<close>, \<open>Otp_Auth\<close> (\<^verbatim>\<open>features/auth/session.service.ts\<close>, \<^verbatim>\<open>auth.services.ts\<close>, \<^verbatim>\<open>config/authConfig.ts\<close>):
    refresh tokens with rotation and reuse detection, OTP challenges with attempt limits, under interleaving.
  \<^item> \<open>Outbox\<close> (\<^verbatim>\<open>services/outboxService.ts\<close>, \<^verbatim>\<open>workers/outboxWorker.ts\<close>): leases, retries, delivery at most once per
    channel, retries end.
  \<^item> \<open>Payment_Provider\<close>, \<open>Payments\<close> (\<^verbatim>\<open>providers/razorpay/razorpayProvider.ts\<close>, \<^verbatim>\<open>config/paymentConfig.ts\<close>,
    \<^verbatim>\<open>features/payment/paymentServices.ts\<close>): orders, confirmation, webhooks, refunds.
  \<^item> \<open>Reconciliation\<close> (\<^verbatim>\<open>services/paymentReconciliationService.ts\<close>): the sweep over stale payments, proved equal to a
    verdict per payment.
  \<^item> \<open>Skills\<close>, \<open>Candidates\<close>, \<open>Dispatch_Workers\<close> (\<^verbatim>\<open>features/skill/skill.service.ts\<close>,
    \<^verbatim>\<open>features/dispatch/dispatchCandidate.service.ts\<close>, \<^verbatim>\<open>workers/dispatchWorker.ts\<close>, \<^verbatim>\<open>workers/timeoutWorker.ts\<close>,
    \<^verbatim>\<open>dispatchReconciliationService.ts\<close>): the taxonomy, who is eligible and in which order (cursor pages enumerate
    the ranking), one wave of offers, its timeout, recovery after a crash.
  \<^item> \<open>Reviews_Chat\<close> (\<^verbatim>\<open>features/review\<close>, \<^verbatim>\<open>features/chat\<close>): one honest review per completed booking, authentic messages.
  \<^item> \<open>Audit_Log\<close> (\<^verbatim>\<open>features/audit/audit.service.ts\<close>): sanitised metadata, append only, paging.
  \<^item> \<open>Storage\<close> (\<^verbatim>\<open>providers/storage\<close>, \<^verbatim>\<open>config/storageConfig.ts\<close>): object keys confined to the root, signed URLs, the local
    driver through a locale of storage drivers, upload and download.
  \<^item> \<open>Devices\<close> (\<^verbatim>\<open>features/worker_device\<close>, \<^verbatim>\<open>features/customer_device\<close>): push devices, one locale for both services.
  \<^item> \<open>Http_Guards\<close> (\<^verbatim>\<open>middlewares/rateLimiter.ts\<close>, \<^verbatim>\<open>otpRateLimiter.ts\<close>): the Redis counters and how many requests a
    limiter lets through, in a locale of counting guards interpreted for the OTP limiters.
  \<^item> \<open>Access_Guards\<close> (\<^verbatim>\<open>middlewares/authMiddleware.ts\<close>, \<^verbatim>\<open>errorHandler.ts\<close>, \<^verbatim>\<open>socket/socketAuth.ts\<close>, \<^verbatim>\<open>utils/authUtils.ts\<close>):
    who a request is accepted as.
  \<^item> \<open>Workers\<close> (\<^verbatim>\<open>features/worker\<close>, \<^verbatim>\<open>features/admin\<close>, \<^verbatim>\<open>features/worker_location\<close>, \<^verbatim>\<open>services/locationRetentionService.ts\<close>):
    accounts, documents, positions and their retention, suspension.
  \<^item> \<open>Sockets\<close> (\<^verbatim>\<open>socket/socketHandlers.ts\<close>, \<^verbatim>\<open>roomHelpers.ts\<close>, \<^verbatim>\<open>socketLifecycle.ts\<close>, \<^verbatim>\<open>features/chat/chatController.ts\<close>):
    every event handler over a hub of sockets, rooms and deliveries; an inductive step relation with handshakes,
    events, market requests, dispatch offers and suspensions, whose invariant is that traffic reaches only the people
    it concerns.
  \<^item> \<open>Push\<close> (\<^verbatim>\<open>shared/fcm.ts\<close>, \<^verbatim>\<open>workers/notificationWorker.ts\<close>): Firebase messages to the devices of a worker or a customer,
    through one locale interpreted for both; which tokens are revoked, what is delivered, and that a failed channel
    does not keep an offer from the other workers of the wave.
  \<^item> \<open>Configuration\<close> (\<^verbatim>\<open>config/*.ts\<close>, \<^verbatim>\<open>utils/databaseSafety.ts\<close>, \<^verbatim>\<open>utils/failureInjection.ts\<close>): the environment read into
    configurations and the assertions a production process has to pass before it starts.
  \<^item> \<open>Lifecycle\<close> (\<^verbatim>\<open>lifecycle/lifecycleManager.ts\<close>, \<^verbatim>\<open>workers/workerLifecycle.ts\<close>, \<^verbatim>\<open>features/health\<close>, \<^verbatim>\<open>server.ts\<close>): start-up
    and shutdown as a step relation of the process; the order in which parts start and stop, readiness, exit codes.
  \<^item> \<open>Responses\<close> (\<^verbatim>\<open>shared/prismaSelects.ts\<close>): the columns the queries select and the mappers to response objects; only
    listed fields leave the server.
  \<^item> \<open>Logging\<close> (\<^verbatim>\<open>utils/logger.ts\<close>, \<^verbatim>\<open>middlewares/requestLogger.ts\<close>, \<^verbatim>\<open>utils/requestContext.ts\<close>): redaction of log metadata, the request
    log and correlation ids.
  \<^item> \<open>Http_Api\<close> (\<^verbatim>\<open>features/booking\<close>, \<^verbatim>\<open>dispatch\<close>, \<^verbatim>\<open>jobs\<close>, \<^verbatim>\<open>payment\<close>, \<^verbatim>\<open>review\<close>: \<^verbatim>\<open>*Routes.ts\<close> and \<^verbatim>\<open>*Controller.ts\<close>,
    \<^verbatim>\<open>middlewares/validationMiddleware.ts\<close>): the routes with their middleware chains, the controllers over the services,
    exceptions as statuses; a locale of authenticated applications, and that over HTTP nobody acts but with a token, in
    its own name, and nothing is overbooked.
  \<^item> this theory: what spans components.

  \<^bold>\<open>Bounds and fuel.\<close> Loops are structural recursion or folds over the rows read; the clean-up of the location history
  and the fixed point of path normalisation are proved total. Following candidate pages takes fuel, and as many
  rounds as there are eligible workers are shown to be enough. JavaScript numbers that stay integers are \<open>int\<close>
  (their values are far below the safe-integer bound; where the code checks that bound the model does too),
  amounts and coordinates are exact rationals.

  \<^bold>\<open>Not modelled.\<close> The controllers and routes of accounts (workers, administration, login, notifications: they parse a
  request, call a service modelled here and copy its result), zod schemas (a library's checkers), the set-up of
  Socket.IO and Express, the Supabase driver, the metrics registry, \<^verbatim>\<open>features/dispatch/simpleDispatch.ts\<close> (imported by
  nothing), scripts, tests and generated reports.
\<close>

section \<open>Suspension reaches every component\<close>

lemma rotated_session_active:
  assumes "rotateSession cmp ttl now g raw d = (Inr res, d')"
  shows "\<exists>s\<in>set (sessions d). se_user_id s = rt_userId res \<and> se_status s \<noteq> ''ROTATED'' \<and> se_status s \<noteq> ''REVOKED''"
proof -
  obtain r0 d0 where c: "rotate_check cmp now raw d = (r0, d0)" by fastforce
  with assms obtain s where r: "r0 = Inr s" by (cases r0) (auto simp: rotateSession_def)
  from c r have "s \<in> set (sessions d) \<and> se_status s \<noteq> ''ROTATED'' \<and> se_status s \<noteq> ''REVOKED''"
    by (auto simp: rotate_check_def dest: findUnique_Some split: option.splits if_splits prod.splits)
  moreover from assms c r have "rotate_commit ttl now g s d0 = (Inr res, d')" by (simp add: rotateSession_def)
  then have "rt_userId res = se_user_id s"
    by (auto simp: rotate_commit_def split: prod.splits sum.splits option.splits)
  ultimately show ?thesis by auto
qed

text \<open>
  C14. Suspending a worker shuts the account at once, in every part of the system: no access token, however recently
  issued, passes the HTTP or the socket authentication as that worker; every refresh session of the worker is
  closed, so no refresh token yields a new access token; position updates are refused; no dispatch offers the
  worker a job; and the suspension stands in the audit log. A later review of the worker's documents does not
  reopen the account.
\<close>

theorem suspension_locks_out:
  assumes s: "suspendWorker now w reason admin d0 d = (Inr dto, d')"
    and st: "\<forall>s\<in>set (sessions d). se_status s \<in> {''ACTIVE'', ''ROTATED'', ''REVOKED''}"
    and ids: "distinct (map wk_id (workers d))"
  shows "authenticateJWT up jwtVerify config h d' \<noteq> Inr \<lparr>au_id = w, au_role = WORKER\<rparr> \<and>
    socketAuthMiddleware up jwtVerify config hs d' \<noteq> Inr \<lparr>au_id = w, au_role = WORKER\<rparr> \<and>
    (rotateSession bcryptCompare ttl t g raw d' = (Inr res, d2) \<longrightarrow> rt_userId res \<noteq> w) \<and>
    (\<exists>e. updateLocation point t i w lat lon d' = (Inl e, d')) \<and>
    (x \<in> set (workers d') \<and> wk_id x = w \<longrightarrow> \<not> eligible geo t q d' x) \<and>
    (\<exists>e\<in>set (audit_logs d'). al_action e = ''WORKER_SUSPENDED'' \<and> al_target_id e = w) \<and>
    authenticateJWT up jwtVerify config h (snd (verifyWorkerDocument t v status admin2 d')) \<noteq> Inr \<lparr>au_id = w, au_role = WORKER\<rparr>"
proof -
  from suspended_row [OF s] obtain y where y: "findUnique wk_id w (workers d') = Some y"
    "wk_deleted_at y = Some now" "wk_verification_status y = ''suspended''" by blast
  have locked: "worker_locked (findUnique wk_id w (workers d'))" using y by (simp add: worker_locked_def)
  from review_keeps_deleted [OF y(1), of t v status admin2] y(2)
  have locked2: "worker_locked (findUnique wk_id w (workers (snd (verifyWorkerDocument t v status admin2 d'))))"
    by (auto simp: worker_locked_def)
  have "rt_userId res \<noteq> w" if rot: "rotateSession bcryptCompare ttl t g raw d' = (Inr res, d2)"
  proof
    assume w: "rt_userId res = w"
    from rotated_session_active [OF rot] w obtain se where se: "se \<in> set (sessions d')" "se_user_id se = w"
      "se_status se \<noteq> ''ROTATED''" "se_status se \<noteq> ''REVOKED''" by blast
    from suspended_sessions [OF s se(1,2)] have "se_status se \<noteq> ''ACTIVE''" by (simp add: revocable_def)
    moreover have "se_status se \<in> {''ACTIVE'', ''ROTATED'', ''REVOKED''}"
    proof -
      from s have "sessions d' = updateMany (\<lambda>s. se_user_id s = w \<and> revocable s) (apply_session_update (Revoked now ''SUSPENDED'')) (sessions d)"
        by (rule suspendWorker_Inr)
      with se(1) obtain s0 where "s0 \<in> set (sessions d)"
        "se = (if se_user_id s0 = w \<and> revocable s0 then apply_session_update (Revoked now ''SUSPENDED'') s0 else s0)"
        using updateMany_memD [of se "\<lambda>s. se_user_id s = w \<and> revocable s"] by auto
      with st show ?thesis by (cases "se_user_id s0 = w \<and> revocable s0") auto
    qed
    ultimately show False using se(3,4) by blast
  qed
  moreover have "\<exists>e. updateLocation point t i w lat lon d' = (Inl e, d')"
    using y(1,2) by (auto simp: updateLocation_def split: sum.splits option.splits)
  moreover have "\<not> eligible geo t q d' x" if "x \<in> set (workers d')" "wk_id x = w"
  proof -
    from s have "workers d' = updateMany (\<lambda>x. wk_id x = w) (suspend_row now) (workers d)" by (rule suspendWorker_Inr)
    with ids have "distinct (map wk_id (workers d'))" by (simp add: worker_rows.map_key_updateMany)
    from findUnique_distinct [OF this that(1)] that(2) y(1) have "x = y" by simp
    with y(2) show ?thesis by (simp add: eligible_def)
  qed
  moreover from s have "\<exists>e\<in>set (audit_logs d'). al_action e = ''WORKER_SUSPENDED'' \<and> al_target_id e = w"
    by (rule suspendWorker_Inr) auto
  ultimately show ?thesis
    using locked locked2 vouched_not_locked [of jwtVerify config _ "\<lparr>au_id = w, au_role = WORKER\<rparr>"] http_vouched socket_vouched by fastforce
qed

definition sample_suspension_db :: db where
  "sample_suspension_db = empty_db\<lparr>workers := [sample_doc_worker],
     sessions := [new_session 0 1000 ''f1'' \<lparr>gn_id = ''s1'', gn_secret = ''x'', gn_hash = ''x''\<rparr>
       \<lparr>so_userId = ''w1'', so_userRole = ''worker'', so_deviceId = None, so_userAgent = None, so_ipAddress = None, so_ttlDays = None\<rparr>]\<rparr>"

definition sample_worker_token :: jwt_verify where
  "sample_worker_token secret t = Some \<lparr>tk_id = Some ''w1'', tk_role = Some ''worker'', tk_token_type = Some ''access''\<rparr>"

theorem suspension_locks_out_witness:
  "\<exists>dto d'. suspendWorker 5 ''w1'' ''fraud'' None sample_suspension_db sample_suspension_db = (Inr dto, d') \<and>
     authenticateJWT True sample_worker_token (Inr sample_jwt) (Some ''Bearer t'') sample_suspension_db = Inr \<lparr>au_id = ''w1'', au_role = WORKER\<rparr> \<and>
     authenticateJWT True sample_worker_token (Inr sample_jwt) (Some ''Bearer t'') d' \<noteq> Inr \<lparr>au_id = ''w1'', au_role = WORKER\<rparr> \<and>
     map se_status (sessions d') = [''REVOKED'']"
proof -
  let ?r = "suspendWorker 5 ''w1'' ''fraud'' None sample_suspension_db sample_suspension_db"
  have ok: "case fst ?r of Inl _ \<Rightarrow> False | Inr _ \<Rightarrow> True" by code_simp
  then obtain dto where "?r = (Inr dto, snd ?r)" by (cases ?r; cases "fst ?r") auto
  moreover have st: "\<forall>s\<in>set (sessions sample_suspension_db). se_status s \<in> {''ACTIVE'', ''ROTATED'', ''REVOKED''}" by code_simp
  have di: "distinct (map wk_id (workers sample_suspension_db))" by code_simp
  have a: "authenticateJWT True sample_worker_token (Inr sample_jwt) (Some ''Bearer t'') sample_suspension_db = Inr \<lparr>au_id = ''w1'', au_role = WORKER\<rparr>"
    by code_simp
  have r: "map se_status (sessions (snd ?r)) = [''REVOKED'']" by code_simp
  have "authenticateJWT True sample_worker_token (Inr sample_jwt) (Some ''Bearer t'') (snd ?r) \<noteq> Inr \<lparr>au_id = ''w1'', au_role = WORKER\<rparr>"
    if "?r = (Inr dto, snd ?r)" by (rule conjunct1 [OF suspension_locks_out [OF that st di]])
  ultimately show ?thesis using a r by metis
qed

end
